(* ===== verification/TW_Prelude.thy ===== *)
theory TW_Prelude
  imports Main "HOL-Library.Char_ord" "HOL-Library.List_Lexorder"
begin

section \<open>Prelude: strings, numbers, JSON values and shared lemmas\<close>

text \<open>
  What the components share: the byte-string functions of Rust's \<^verbatim>\<open>str\<close> the sources use
  (\<^verbatim>\<open>starts_with\<close>, \<^verbatim>\<open>strip_prefix\<close>, \<^verbatim>\<open>strip_suffix\<close>, \<^verbatim>\<open>find\<close>, \<^verbatim>\<open>split\<close>), decimal printing
  and parsing of integers, ordered string sets (\<^verbatim>\<open>BTreeSet<String>\<close>), the JSON values of
  \<^verbatim>\<open>serde_json\<close>, and generic lemmas on lists and association lists.

  A Rust string is the list of its UTF-8 bytes (\<open>string\<close>), so lengths and positions are the
  byte counts the code uses. A \<open>Uuid\<close> is represented by its hyphenated text, the only thing the
  code does with one besides comparing it; \<open>uuid_ok\<close> says what that text looks like.
\<close>

named_theorems enum_defs "definitions of the string forms of the enums"

type_synonym uuid = string

definition uuid_char :: "char \<Rightarrow> bool" where
  "uuid_char c \<longleftrightarrow> c \<in> set ''0123456789abcdef-''"

definition uuid_ok :: "uuid \<Rightarrow> bool" where
  "uuid_ok u \<longleftrightarrow> length u = 36 \<and> list_all uuid_char u"

definition uuid_nil :: uuid where
  "uuid_nil = ''00000000-0000-0000-0000-000000000000''"

lemma uuid_ok_nil: "uuid_ok uuid_nil"
  by (simp add: uuid_ok_def uuid_nil_def uuid_char_def)

lemma uuid_char_not: "uuid_char c \<Longrightarrow> c \<noteq> CHR '':'' \<and> c \<noteq> CHR ''{'' \<and> c \<noteq> CHR ''}''"
  by (auto simp: uuid_char_def)

subsection \<open>Strings\<close>

definition starts_with :: "string \<Rightarrow> string \<Rightarrow> bool" where
  "starts_with s p \<longleftrightarrow> take (length p) s = p"

definition ends_with :: "string \<Rightarrow> string \<Rightarrow> bool" where
  "ends_with s p \<longleftrightarrow> length p \<le> length s \<and> drop (length s - length p) s = p"

definition strip_prefix :: "string \<Rightarrow> string \<Rightarrow> string option" where
  "strip_prefix s p = (if starts_with s p then Some (drop (length p) s) else None)"

definition strip_suffix :: "string \<Rightarrow> string \<Rightarrow> string option" where
  "strip_suffix s p = (if ends_with s p then Some (take (length s - length p) s) else None)"

lemma starts_with_append [simp]: "starts_with (p @ s) p"
  by (simp add: starts_with_def)

lemma starts_with_iff: "starts_with s p \<longleftrightarrow> (\<exists>r. s = p @ r)"
  by (metis append_take_drop_id starts_with_append starts_with_def)

lemma ends_with_iff: "ends_with s p \<longleftrightarrow> (\<exists>r. s = r @ p)"
proof
  assume "ends_with s p"
  then have "s = take (length s - length p) s @ p"
    by (metis append_take_drop_id ends_with_def)
  then show "\<exists>r. s = r @ p" ..
next
  assume "\<exists>r. s = r @ p"
  then show "ends_with s p" by (auto simp: ends_with_def)
qed

lemma strip_prefix_Some: "strip_prefix s p = Some r \<longleftrightarrow> s = p @ r"
  by (auto simp: strip_prefix_def starts_with_iff)

lemma strip_suffix_Some: "strip_suffix s p = Some r \<longleftrightarrow> s = r @ p"
  by (auto simp: strip_suffix_def ends_with_iff)

text \<open>\<open>find_sub s p\<close>: the least position at which \<open>p\<close> occurs in \<open>s\<close> (\<^verbatim>\<open>str::find\<close>).\<close>

fun find_sub :: "string \<Rightarrow> string \<Rightarrow> nat option" where
  "find_sub s p =
     (if starts_with s p then Some 0
      else case s of [] \<Rightarrow> None | _ # t \<Rightarrow> map_option Suc (find_sub t p))"

declare find_sub.simps [simp del]

lemma find_sub_Some: "find_sub s p = Some n \<Longrightarrow> \<exists>r. s = take n s @ p @ r \<and> n + length p \<le> length s"
proof (induction s p arbitrary: n rule: find_sub.induct)
  case (1 s p)
  show ?case
  proof (cases "starts_with s p")
    case True
    with "1.prems" show ?thesis by (auto simp: find_sub.simps [of s p] starts_with_iff)
  next
    case False
    with "1.prems" obtain c t m where s: "s = c # t" and m: "find_sub t p = Some m" and n: "n = Suc m"
      by (auto simp: find_sub.simps [of s p] split: list.splits)
    from "1.IH" [OF False s m] s n show ?thesis by auto
  qed
qed

lemma find_sub_None: "find_sub s p = None \<Longrightarrow> s \<noteq> a @ p @ b"
proof (induction s p arbitrary: a rule: find_sub.induct)
  case (1 s p)
  then have nsw: "\<not> starts_with s p" by (auto simp: find_sub.simps [of s p] split: if_splits)
  show ?case
  proof (cases a)
    case Nil
    with nsw show ?thesis by (auto simp: starts_with_iff)
  next
    case (Cons c a')
    show ?thesis
    proof
      assume s: "s = a @ p @ b"
      with Cons have s': "s = c # (a' @ p @ b)" by simp
      from "1.prems" nsw s' have "find_sub (a' @ p @ b) p = None"
        by (subst (asm) find_sub.simps) (simp split: if_splits)
      from "1.IH" [OF nsw s' this, of a'] show False by simp
    qed
  qed
qed

lemma find_sub_least:
  "find_sub s p = Some n \<Longrightarrow> s = a @ p @ b \<Longrightarrow> n \<le> length a"
proof (induction s p arbitrary: n a rule: find_sub.induct)
  case (1 s p)
  show ?case
  proof (cases "starts_with s p")
    case True
    then have "find_sub s p = Some 0" by (simp add: find_sub.simps [of s p])
    with "1.prems"(1) show ?thesis by simp
  next
    case False
    with "1.prems"(1) obtain c t m where s: "s = c # t" and m: "find_sub t p = Some m" and n: "n = Suc m"
      by (auto simp: find_sub.simps [of s p] split: list.splits)
    from False "1.prems"(2) obtain d a' where a: "a = d # a'"
      by (cases a) (auto simp: starts_with_iff)
    from "1.prems"(2) s a have "t = a' @ p @ b" by simp
    from "1.IH" [OF False s m this] n a show ?thesis by simp
  qed
qed

text \<open>\<^verbatim>\<open>str::split_once\<close> at a separator: the text before its first occurrence and the text after it.\<close>

definition split_once :: "string \<Rightarrow> string \<Rightarrow> (string \<times> string) option" where
  "split_once s sep = map_option (\<lambda>i. (take i s, drop (i + length sep) s)) (find_sub s sep)"

lemma find_sub_char: "c \<notin> set a \<Longrightarrow> find_sub (a @ c # b) [c] = Some (length a)"
  by (induction a) (auto simp: find_sub.simps [of "_ # _"] starts_with_def)

lemma split_once_char: "c \<notin> set a \<Longrightarrow> split_once (a @ c # b) [c] = Some (a, b)"
  by (simp add: split_once_def find_sub_char)

lemma split_once_SomeD: "split_once s sep = Some (a, b) \<Longrightarrow> s = a @ sep @ b"
proof -
  assume "split_once s sep = Some (a, b)"
  then obtain n where n: "find_sub s sep = Some n" and ab: "a = take n s" "b = drop (n + length sep) s"
    by (auto simp: split_once_def)
  from find_sub_Some [OF n] obtain r where r: "s = take n s @ sep @ r" and le: "n + length sep \<le> length s" by blast
  from arg_cong [OF r, of "drop (n + length sep)"] le have "drop (n + length sep) s = r" by simp
  with r ab show ?thesis by simp
qed

lemma split_once_first:
  assumes "split_once s sep = Some (a, b)" "s = a' @ sep @ b'"
  shows "length a \<le> length a'"
proof -
  from assms(1) obtain n where n: "find_sub s sep = Some n" and a: "a = take n s" by (auto simp: split_once_def)
  from find_sub_least [OF n assms(2)] a show ?thesis by simp
qed

lemma split_once_append: "\<exists>a b. split_once (x @ sep @ y) sep = Some (a, b)"
  using find_sub_None [of "x @ sep @ y" sep x y] by (cases "find_sub (x @ sep @ y) sep") (auto simp: split_once_def)

lemma split_once_unique:
  assumes "\<And>a b. x @ sep @ y = a @ sep @ b \<Longrightarrow> length x \<le> length a"
  shows "split_once (x @ sep @ y) sep = Some (x, y)"
proof -
  obtain a b where ab: "split_once (x @ sep @ y) sep = Some (a, b)" using split_once_append by blast
  from split_once_SomeD [OF ab] have eq: "x @ sep @ y = a @ sep @ b" .
  from assms [OF eq] split_once_first [OF ab refl] have "length a = length x" by simp
  with eq ab show ?thesis by simp
qed

text \<open>\<open>split_on c s\<close>: the pieces of \<open>s\<close> between the occurrences of \<open>c\<close>, at least one (\<^verbatim>\<open>str::split\<close>).\<close>

fun split_on :: "char \<Rightarrow> string \<Rightarrow> string list" where
  "split_on c [] = [[]]"
| "split_on c (x # xs) =
     (if x = c then [] # split_on c xs
      else case split_on c xs of [] \<Rightarrow> [[x]] | p # ps \<Rightarrow> (x # p) # ps)"

lemma split_on_not_Nil [simp]: "split_on c s \<noteq> []"
  by (induction s) (auto split: list.splits)

lemma split_on_no_sep: "p \<in> set (split_on c s) \<Longrightarrow> c \<notin> set p"
  by (induction s arbitrary: p) (fastforce split: list.splits if_splits)+

lemma split_on_single: "c \<notin> set s \<Longrightarrow> split_on c s = [s]"
  by (induction s) auto

lemma split_on_append: "c \<notin> set a \<Longrightarrow> split_on c (a @ c # b) = a # split_on c b"
  by (induction a) auto

text \<open>Two texts that end their first piece at the same separator have the same first piece.\<close>

lemma append_sep_inj:
  assumes "c \<notin> set a" "c \<notin> set a'"
  shows "a @ c # r = a' @ c # r' \<longleftrightarrow> a = a' \<and> r = r'"
  using assms
proof (induction a arbitrary: a')
  case Nil
  then show ?case by (cases a') auto
next
  case (Cons x a)
  then show ?case by (cases a') auto
qed

subsection \<open>Decimal numbers\<close>

definition digit_char :: "nat \<Rightarrow> char" where
  "digit_char d = char_of (48 + d)"

definition digit_val :: "char \<Rightarrow> nat option" where
  "digit_val c = (let n = of_char c in if 48 \<le> n \<and> n \<le> (57::nat) then Some (n - 48) else None)"

fun show_nat :: "nat \<Rightarrow> string" where
  "show_nat n = (if n < 10 then [digit_char n] else show_nat (n div 10) @ [digit_char (n mod 10)])"

declare show_nat.simps [simp del]

definition show_int :: "int \<Rightarrow> string" where
  "show_int i = (if i < 0 then CHR ''-'' # show_nat (nat (- i)) else show_nat (nat i))"

fun parse_digits :: "nat \<Rightarrow> string \<Rightarrow> nat option" where
  "parse_digits acc [] = Some acc"
| "parse_digits acc (c # cs) =
     (case digit_val c of None \<Rightarrow> None | Some d \<Rightarrow> parse_digits (10 * acc + d) cs)"

definition parse_nat :: "string \<Rightarrow> nat option" where
  "parse_nat s = (if s = [] then None else parse_digits 0 s)"

text \<open>A decimal integer with an optional sign: what \<^verbatim>\<open>str::parse::<i64>\<close> accepts, before its range check.\<close>

definition parse_int :: "string \<Rightarrow> int option" where
  "parse_int s =
     (case s of [] \<Rightarrow> None
      | c # cs \<Rightarrow>
          if c = CHR ''-'' then map_option (\<lambda>n. - int n) (parse_nat cs)
          else if c = CHR ''+'' then map_option int (parse_nat cs)
          else map_option int (parse_nat s))"

lemma digit_val_char [simp]: "d < 10 \<Longrightarrow> digit_val (digit_char d) = Some d"
  by (simp add: digit_val_def digit_char_def)

lemma digit_char_not_sign: "d < 10 \<Longrightarrow> digit_char d \<noteq> CHR ''-'' \<and> digit_char d \<noteq> CHR ''+'' \<and> digit_char d \<noteq> CHR '':''"
proof -
  assume "d < 10"
  then have "of_char (digit_char d) = 48 + d" by (simp add: digit_char_def)
  moreover have "of_char CHR ''-'' = (45::nat)" "of_char CHR ''+'' = (43::nat)" "of_char CHR '':'' = (58::nat)"
    by simp_all
  ultimately show ?thesis using \<open>d < 10\<close> by auto
qed

lemma parse_digits_append:
  "parse_digits acc (xs @ ys) = Option.bind (parse_digits acc xs) (\<lambda>a. parse_digits a ys)"
  by (induction xs arbitrary: acc) (auto split: option.splits)

lemma show_nat_digits: "\<forall>c \<in> set (show_nat n). \<exists>d < 10. c = digit_char d"
proof (induction n rule: show_nat.induct)
  case (1 n)
  show ?case
  proof (cases "n < 10")
    case True
    then show ?thesis by (auto simp: show_nat.simps [of n])
  next
    case False
    with 1 have "\<forall>c \<in> set (show_nat (n div 10)). \<exists>d < 10. c = digit_char d" by blast
    with False show ?thesis
      by (auto simp: show_nat.simps [of n] intro: exI [of _ "n mod 10"])
  qed
qed

lemma show_nat_char:
  assumes "c \<in> set (show_nat n)"
  shows "c \<noteq> CHR ''-'' \<and> c \<noteq> CHR ''+'' \<and> c \<noteq> CHR '':''"
proof -
  from show_nat_digits assms obtain d where "d < 10" "c = digit_char d" by blast
  then show ?thesis using digit_char_not_sign by simp
qed

lemma show_nat_not_Nil [simp]: "show_nat n \<noteq> []"
  by (subst show_nat.simps) simp

lemma parse_digits_show_nat: "parse_digits 0 (show_nat n) = Some n"
proof (induction n rule: show_nat.induct)
  case (1 n)
  show ?case
  proof (cases "n < 10")
    case True
    then show ?thesis by (simp add: show_nat.simps [of n])
  next
    case False
    with 1 have "parse_digits 0 (show_nat (n div 10)) = Some (n div 10)" by blast
    with False show ?thesis by (simp add: show_nat.simps [of n] parse_digits_append)
  qed
qed

lemma parse_nat_show_nat [simp]: "parse_nat (show_nat n) = Some n"
  by (simp add: parse_nat_def parse_digits_show_nat)

lemma parse_int_show_int [simp]: "parse_int (show_int i) = Some i"
proof (cases "i < 0")
  case True
  then show ?thesis by (simp add: parse_int_def show_int_def)
next
  case False
  obtain c cs where s: "show_nat (nat i) = c # cs" by (cases "show_nat (nat i)") auto
  then have "c \<in> set (show_nat (nat i))" by simp
  then have "c \<noteq> CHR ''-''" "c \<noteq> CHR ''+''" using show_nat_char by metis+
  moreover have "parse_nat (c # cs) = Some (nat i)" using s by (metis parse_nat_show_nat)
  ultimately show ?thesis using False s by (simp add: parse_int_def show_int_def)
qed

lemma show_int_inj [simp]: "show_int i = show_int j \<longleftrightarrow> i = j"
  by (metis option.inject parse_int_show_int)

lemma show_int_no_colon [simp]: "CHR '':'' \<notin> set (show_int i)"
proof -
  have "c \<noteq> CHR '':''" if "c \<in> set (show_nat n)" for c n
    using show_nat_char [OF that] by simp
  then show ?thesis by (auto simp: show_int_def)
qed

text \<open>Rust's integer division truncates towards zero.\<close>

definition div_toward_zero :: "int \<Rightarrow> int \<Rightarrow> int" where
  "div_toward_zero num den = (let q = abs num div abs den in if (num < 0) = (den < 0) then q else - q)"

lemma div_toward_zero_nonneg [simp]: "0 \<le> num \<Longrightarrow> 0 < den \<Longrightarrow> div_toward_zero num den = num div den"
  by (simp add: div_toward_zero_def Let_def)

subsection \<open>Ordered sets of strings\<close>

text \<open>\<^verbatim>\<open>BTreeSet<String>\<close> read out in order: the distinct elements, ascending bytewise.\<close>

definition btree :: "string list \<Rightarrow> string list" where
  "btree xs = sort (remdups xs)"

lemma set_btree [simp]: "set (btree xs) = set xs"
  by (simp add: btree_def)

lemma distinct_btree [simp]: "distinct (btree xs)"
  by (simp add: btree_def)

lemma sorted_btree [simp]: "sorted (btree xs)"
  by (simp add: btree_def)

lemma btree_cong: "set xs = set ys \<Longrightarrow> btree xs = btree ys"
  by (metis distinct_btree set_btree sorted_btree sorted_distinct_set_unique)

subsection \<open>JSON values\<close>

text \<open>
  \<^verbatim>\<open>serde_json::Value\<close>. A number is kept as its literal text: the modelled code never looks inside
  one, typed deserialisation (\<^verbatim>\<open>serde_json::from_value\<close>) being a parameter of the operations that
  use it.
\<close>

datatype json =
    JNull
  | JBool bool
  | JNumber string
  | JString string
  | JArray "json list"
  | JObject "(string \<times> json) list"

definition json_get :: "json \<Rightarrow> string \<Rightarrow> json option" where
  "json_get v k = (case v of JObject m \<Rightarrow> map_of m k | _ \<Rightarrow> None)"

definition json_as_str :: "json \<Rightarrow> string option" where
  "json_as_str v = (case v of JString s \<Rightarrow> Some s | _ \<Rightarrow> None)"

definition json_as_array :: "json \<Rightarrow> json list option" where
  "json_as_array v = (case v of JArray xs \<Rightarrow> Some xs | _ \<Rightarrow> None)"

subsection \<open>Options and association lists\<close>

definition unwrap_or :: "'a option \<Rightarrow> 'a \<Rightarrow> 'a" where
  "unwrap_or x d = (case x of None \<Rightarrow> d | Some v \<Rightarrow> v)"

lemma unwrap_or_simps [simp]: "unwrap_or None d = d" "unwrap_or (Some v) d = v"
  by (simp_all add: unwrap_or_def)

text \<open>Rust's \<^verbatim>\<open>?\<close> on a check that returns no value: an error returns early.\<close>

lemma early_return_unit [simp]:
  "(case x of Inl e \<Rightarrow> Inl e | Inr u \<Rightarrow> (case u of () \<Rightarrow> y)) = Inr z \<longleftrightarrow> x = Inr () \<and> y = Inr z"
  by (simp split: sum.split unit.split)

lemma set_map_filter: "x \<in> set (List.map_filter f xs) \<longleftrightarrow> (\<exists>y \<in> set xs. f y = Some x)"
  by (induction xs) (auto simp: List.map_filter_def)

text \<open>\<open>entry_upd k f v0 m\<close>: \<^verbatim>\<open>m.entry(k).and_modify(f).or_insert(v0)\<close>.\<close>

fun entry_upd :: "'k \<Rightarrow> ('v \<Rightarrow> 'v) \<Rightarrow> 'v \<Rightarrow> ('k \<times> 'v) list \<Rightarrow> ('k \<times> 'v) list" where
  "entry_upd k f v0 [] = [(k, v0)]"
| "entry_upd k f v0 ((k', v) # m) =
     (if k' = k then (k', f v) # m else (k', v) # entry_upd k f v0 m)"

lemma map_of_entry_upd [simp]:
  "map_of (entry_upd k f v0 m) =
     (map_of m)(k \<mapsto> (case map_of m k of None \<Rightarrow> v0 | Some v \<Rightarrow> f v))"
  by (induction m) (auto simp: fun_eq_iff)

lemma entry_upd_keys: "set (map fst (entry_upd k f v0 m)) = insert k (set (map fst m))"
proof (induction m)
  case Nil
  then show ?case by simp
next
  case (Cons kv m)
  then show ?case by (cases kv) (simp add: insert_commute)
qed

lemma distinct_entry_upd [simp]: "distinct (map fst m) \<Longrightarrow> distinct (map fst (entry_upd k f v0 m))"
proof (induction m)
  case Nil
  then show ?case by simp
next
  case (Cons kv m)
  obtain k' v where kv: "kv = (k', v)" by fastforce
  have "fst ` set (entry_upd k f v0 m) = insert k (fst ` set m)"
    using entry_upd_keys [of k f v0 m] by simp
  with Cons kv show ?case by (cases "k' = k") simp_all
qed

end
