(* ===== verification/Limits_Types.thy ===== *)
theory Limits_Types
  imports TW_Prelude
begin

section \<open>Limits: enums, rows, constraints and their validation\<close>

text \<open>
  The data of \<^verbatim>\<open>crates/common/src/limits/mod.rs\<close>: the enums that are strings in the database, the
  constraint blocks extracted from role policies, the rows of \<^verbatim>\<open>rate_limit_rules\<close> and \<^verbatim>\<open>budget_caps\<close>,
  and the validators. The locale \<open>enum_text\<close> is the contract between an enum's \<^verbatim>\<open>as_str\<close> and its
  \<^verbatim>\<open>parse\<close>; every enum of the program that is stored as text is an interpretation of it.
  Counts and limits are \<open>i64\<close>, windows \<open>i32\<close>: they are only compared here, so \<open>int\<close> is exact.
\<close>

locale enum_text =
  fixes as_str :: "'e \<Rightarrow> string"
    and parse :: "string \<Rightarrow> 'e option"
  assumes parse_as_str: "parse (as_str e) = Some e"
    and as_str_parse: "parse s = Some e \<Longrightarrow> as_str e = s"
begin

lemma as_str_inj: "as_str e = as_str e' \<longleftrightarrow> e = e'"
  by (metis option.inject parse_as_str)

lemma parse_iff: "parse s = Some e \<longleftrightarrow> s = as_str e"
  using as_str_parse parse_as_str by blast

lemma parse_None_iff: "parse s = None \<longleftrightarrow> s \<notin> range as_str"
  using parse_iff [of s] by (cases "parse s") auto

end

subsection \<open>Subjects and surfaces\<close>

datatype RateLimitSubject = RUser | RApiKeyLineage

fun RateLimitSubject_as_str :: "RateLimitSubject \<Rightarrow> string" where
  "RateLimitSubject_as_str RUser = ''user''"
| "RateLimitSubject_as_str RApiKeyLineage = ''api_key_lineage''"

definition RateLimitSubject_parse :: "string \<Rightarrow> RateLimitSubject option" where
  "RateLimitSubject_parse s =
     (if s = ''user'' then Some RUser
      else if s = ''api_key_lineage'' then Some RApiKeyLineage
      else None)"

interpretation rate_subject: enum_text RateLimitSubject_as_str RateLimitSubject_parse
proof
  show "RateLimitSubject_parse (RateLimitSubject_as_str e) = Some e" for e
    by (cases e) (simp_all add: RateLimitSubject_parse_def)
qed (auto simp: RateLimitSubject_parse_def split: if_splits)

datatype BudgetSubject = BUser | BApiKeyLineage

fun BudgetSubject_as_str :: "BudgetSubject \<Rightarrow> string" where
  "BudgetSubject_as_str BUser = ''user''"
| "BudgetSubject_as_str BApiKeyLineage = ''api_key_lineage''"

definition BudgetSubject_parse :: "string \<Rightarrow> BudgetSubject option" where
  "BudgetSubject_parse s =
     (if s = ''user'' then Some BUser
      else if s = ''api_key_lineage'' then Some BApiKeyLineage
      else None)"

interpretation budget_subject: enum_text BudgetSubject_as_str BudgetSubject_parse
proof
  show "BudgetSubject_parse (BudgetSubject_as_str e) = Some e" for e
    by (cases e) (simp_all add: BudgetSubject_parse_def)
qed (auto simp: BudgetSubject_parse_def split: if_splits)

datatype Surface = AiGateway | McpGateway

fun Surface_as_str :: "Surface \<Rightarrow> string" where
  "Surface_as_str AiGateway = ''ai_gateway''"
| "Surface_as_str McpGateway = ''mcp_gateway''"

definition Surface_parse :: "string \<Rightarrow> Surface option" where
  "Surface_parse s =
     (if s = ''ai_gateway'' then Some AiGateway
      else if s = ''mcp_gateway'' then Some McpGateway
      else None)"

interpretation surface: enum_text Surface_as_str Surface_parse
proof
  show "Surface_parse (Surface_as_str e) = Some e" for e
    by (cases e) (simp_all add: Surface_parse_def)
qed (auto simp: Surface_parse_def split: if_splits)

datatype RateMetric = Requests | Tokens

fun RateMetric_as_str :: "RateMetric \<Rightarrow> string" where
  "RateMetric_as_str Requests = ''requests''"
| "RateMetric_as_str Tokens = ''tokens''"

definition RateMetric_parse :: "string \<Rightarrow> RateMetric option" where
  "RateMetric_parse s =
     (if s = ''requests'' then Some Requests
      else if s = ''tokens'' then Some Tokens
      else None)"

interpretation rate_metric: enum_text RateMetric_as_str RateMetric_parse
proof
  show "RateMetric_parse (RateMetric_as_str e) = Some e" for e
    by (cases e) (simp_all add: RateMetric_parse_def)
qed (auto simp: RateMetric_parse_def split: if_splits)

datatype BudgetPeriod = Daily | Weekly | Monthly

fun BudgetPeriod_as_str :: "BudgetPeriod \<Rightarrow> string" where
  "BudgetPeriod_as_str Daily = ''daily''"
| "BudgetPeriod_as_str Weekly = ''weekly''"
| "BudgetPeriod_as_str Monthly = ''monthly''"

definition BudgetPeriod_parse :: "string \<Rightarrow> BudgetPeriod option" where
  "BudgetPeriod_parse s =
     (if s = ''daily'' then Some Daily
      else if s = ''weekly'' then Some Weekly
      else if s = ''monthly'' then Some Monthly
      else None)"

interpretation budget_period: enum_text BudgetPeriod_as_str BudgetPeriod_parse
proof
  show "BudgetPeriod_parse (BudgetPeriod_as_str e) = Some e" for e
    by (cases e) (simp_all add: BudgetPeriod_parse_def)
qed (auto simp: BudgetPeriod_parse_def split: if_splits)

lemma enum_no_colon [simp]:
  "CHR '':'' \<notin> set (RateLimitSubject_as_str k)"
  "CHR '':'' \<notin> set (BudgetSubject_as_str b)"
  "CHR '':'' \<notin> set (Surface_as_str u)"
  "CHR '':'' \<notin> set (RateMetric_as_str m)"
  "CHR '':'' \<notin> set (BudgetPeriod_as_str p)"
  by (cases k; cases b; cases u; cases m; cases p; simp)+

subsection \<open>Windows\<close>

definition ALLOWED_WINDOW_SECS :: "int list" where
  "ALLOWED_WINDOW_SECS = [60, 300, 3600, 18000, 86400, 604800]"

definition is_allowed_window :: "int \<Rightarrow> bool" where
  "is_allowed_window secs = List.member ALLOWED_WINDOW_SECS secs"

definition window_to_secs :: "string \<Rightarrow> int option" where
  "window_to_secs s =
     (if s = ''1m'' then Some 60
      else if s = ''5m'' then Some 300
      else if s = ''1h'' then Some 3600
      else if s = ''5h'' then Some 18000
      else if s = ''1d'' then Some 86400
      else if s = ''1w'' then Some 604800
      else None)"

definition secs_to_window :: "int \<Rightarrow> string option" where
  "secs_to_window secs =
     (if secs = 60 then Some ''1m''
      else if secs = 300 then Some ''5m''
      else if secs = 3600 then Some ''1h''
      else if secs = 18000 then Some ''5h''
      else if secs = 86400 then Some ''1d''
      else if secs = 604800 then Some ''1w''
      else None)"

lemma is_allowed_window_iff:
  "is_allowed_window w \<longleftrightarrow> w \<in> {60, 300, 3600, 18000, 86400, 604800}"
  by (auto simp: is_allowed_window_def ALLOWED_WINDOW_SECS_def)

lemma window_to_secs_allowed: "window_to_secs s = Some w \<Longrightarrow> is_allowed_window w"
  by (auto simp: window_to_secs_def is_allowed_window_iff split: if_splits)

lemma window_to_secs_iff: "window_to_secs s = Some w \<longleftrightarrow> secs_to_window w = Some s"
  by (auto simp: window_to_secs_def secs_to_window_def split: if_splits)

lemma secs_to_window_defined: "secs_to_window w \<noteq> None \<longleftrightarrow> is_allowed_window w"
  by (auto simp: secs_to_window_def is_allowed_window_iff split: if_splits)

subsection \<open>Constraint blocks\<close>

record SurfaceRule =
  sr_metric :: RateMetric
  sr_window_secs :: int
  sr_max_count :: int
  sr_enabled :: bool

record SurfaceBudget =
  sb_period :: BudgetPeriod
  sb_limit_tokens :: int
  sb_enabled :: bool

record SurfaceBlock =
  rules :: "SurfaceRule list"
  budgets :: "SurfaceBudget list"

record SurfaceConstraints =
  ai_gateway :: "SurfaceBlock option"
  mcp_gateway :: "SurfaceBlock option"

definition SurfaceBlock_default :: SurfaceBlock where
  "SurfaceBlock_default = \<lparr>rules = [], budgets = []\<rparr>"

definition SurfaceConstraints_default :: SurfaceConstraints where
  "SurfaceConstraints_default = \<lparr>ai_gateway = None, mcp_gateway = None\<rparr>"

fun block :: "SurfaceConstraints \<Rightarrow> Surface \<Rightarrow> SurfaceBlock option" where
  "block c AiGateway = ai_gateway c"
| "block c McpGateway = mcp_gateway c"

text \<open>\<^verbatim>\<open>block_mut\<close> hands out the surface's slot for writing: here, the slot's new content.\<close>

fun block_mut :: "SurfaceConstraints \<Rightarrow> Surface \<Rightarrow> (SurfaceBlock option \<Rightarrow> SurfaceBlock option) \<Rightarrow> SurfaceConstraints" where
  "block_mut c AiGateway f = c\<lparr>ai_gateway := f (ai_gateway c)\<rparr>"
| "block_mut c McpGateway f = c\<lparr>mcp_gateway := f (mcp_gateway c)\<rparr>"

lemma block_block_mut [simp]:
  "block (block_mut c u f) u' = (if u' = u then f (block c u) else block c u')"
  by (cases u; cases u') simp_all

lemma SurfaceConstraints_eqI: "(\<And>u. block c u = block d u) \<Longrightarrow> c = (d :: SurfaceConstraints)"
proof -
  assume eq: "\<And>u. block c u = block d u"
  from eq [of AiGateway] eq [of McpGateway] show ?thesis by simp
qed

record PolicyRateLimit =
  pr_metric :: string
  pr_window :: string
  pr_max_count :: int

record PolicyBudget =
  pb_period :: string
  pb_max_tokens :: int

record PolicyConstraints =
  rate_limits :: "PolicyRateLimit list"
  pc_budgets :: "PolicyBudget list"

subsection \<open>Rows\<close>

text \<open>\<open>now()\<close> and timestamps are Unix milliseconds.\<close>

record RateLimitRule =
  rl_id :: uuid
  rl_subject_kind :: RateLimitSubject
  rl_subject_id :: uuid
  rl_surface :: Surface
  rl_metric :: RateMetric
  rl_window_secs :: int
  rl_max_count :: int
  rl_enabled :: bool
  rl_expires_at :: "int option"
  rl_reason :: "string option"
  rl_created_by :: "uuid option"

record BudgetCap =
  bc_id :: uuid
  bc_subject_kind :: BudgetSubject
  bc_subject_id :: uuid
  bc_period :: BudgetPeriod
  bc_limit_tokens :: int
  bc_enabled :: bool
  bc_expires_at :: "int option"
  bc_reason :: "string option"
  bc_created_by :: "uuid option"

subsection \<open>Validation of a policy document's constraints\<close>

fun validate_rate_limits :: "nat \<Rightarrow> PolicyRateLimit list \<Rightarrow> string + unit" where
  "validate_rate_limits i [] = Inr ()"
| "validate_rate_limits i (rl # rls) =
     (case window_to_secs (pr_window rl) of
        None \<Rightarrow> Inl (''RateLimits['' @ show_nat i @ '']: Window '' @ [CHR 0x27] @ pr_window rl @
                  [CHR 0x27] @ '' not in allowed set (1m/5m/1h/5h/1d/1w)'')
      | Some secs \<Rightarrow>
          if \<not> is_allowed_window secs then
            Inl (''RateLimits['' @ show_nat i @ '']: Window '' @ [CHR 0x27] @ pr_window rl @ [CHR 0x27] @
              '' not allowed'')
          else if pr_max_count rl \<le> 0 then
            Inl (''RateLimits['' @ show_nat i @ '']: MaxCount must be > 0'')
          else if RateMetric_parse (pr_metric rl) = None then
            Inl (''RateLimits['' @ show_nat i @ '']: Metric '' @ [CHR 0x27] @ pr_metric rl @ [CHR 0x27] @
              '' unknown (expected requests/tokens)'')
          else validate_rate_limits (Suc i) rls)"

fun validate_budgets :: "nat \<Rightarrow> PolicyBudget list \<Rightarrow> string + unit" where
  "validate_budgets i [] = Inr ()"
| "validate_budgets i (b # bs) =
     (if pb_max_tokens b \<le> 0 then
        Inl (''Budgets['' @ show_nat i @ '']: MaxTokens must be > 0'')
      else if BudgetPeriod_parse (pb_period b) = None then
        Inl (''Budgets['' @ show_nat i @ '']: Period '' @ [CHR 0x27] @ pb_period b @ [CHR 0x27] @
          '' unknown (expected daily/weekly/monthly)'')
      else validate_budgets (Suc i) bs)"

definition validate_policy_constraints :: "PolicyConstraints \<Rightarrow> string + unit" where
  "validate_policy_constraints c =
     (case validate_rate_limits 0 (rate_limits c) of
        Inl e \<Rightarrow> Inl e
      | Inr () \<Rightarrow> validate_budgets 0 (pc_budgets c))"

definition rate_limit_ok :: "PolicyRateLimit \<Rightarrow> bool" where
  "rate_limit_ok rl \<longleftrightarrow> window_to_secs (pr_window rl) \<noteq> None \<and> 0 < pr_max_count rl \<and>
     RateMetric_parse (pr_metric rl) \<noteq> None"

definition policy_budget_ok :: "PolicyBudget \<Rightarrow> bool" where
  "policy_budget_ok b \<longleftrightarrow> 0 < pb_max_tokens b \<and> BudgetPeriod_parse (pb_period b) \<noteq> None"

lemma validate_rate_limits_iff:
  "validate_rate_limits i rls = Inr () \<longleftrightarrow> list_all rate_limit_ok rls"
  by (induction i rls rule: validate_rate_limits.induct)
     (auto simp: rate_limit_ok_def dest: window_to_secs_allowed split: option.splits)

lemma validate_budgets_iff:
  "validate_budgets i bs = Inr () \<longleftrightarrow> list_all policy_budget_ok bs"
  by (induction i bs rule: validate_budgets.induct) (auto simp: policy_budget_ok_def)

lemma validate_policy_constraints_iff:
  "validate_policy_constraints c = Inr () \<longleftrightarrow>
     list_all rate_limit_ok (rate_limits c) \<and> list_all policy_budget_ok (pc_budgets c)"
  by (simp add: validate_policy_constraints_def validate_budgets_iff validate_rate_limits_iff)

subsection \<open>Validation of an incoming constraints payload\<close>

fun validate_block_rules :: "string \<Rightarrow> nat \<Rightarrow> SurfaceRule list \<Rightarrow> string + unit" where
  "validate_block_rules sname i [] = Inr ()"
| "validate_block_rules sname i (r # rs) =
     (if \<not> is_allowed_window (sr_window_secs r) then
        Inl (sname @ ''.rules['' @ show_nat i @ '']: window_secs '' @ show_int (sr_window_secs r) @
          '' not in allowed set'')
      else if sr_max_count r \<le> 0 then
        Inl (sname @ ''.rules['' @ show_nat i @ '']: max_count must be > 0'')
      else validate_block_rules sname (Suc i) rs)"

fun validate_block_budgets :: "string \<Rightarrow> nat \<Rightarrow> SurfaceBudget list \<Rightarrow> string + unit" where
  "validate_block_budgets sname i [] = Inr ()"
| "validate_block_budgets sname i (b # bs) =
     (if sb_limit_tokens b \<le> 0 then
        Inl (sname @ ''.budgets['' @ show_nat i @ '']: limit_tokens must be > 0'')
      else validate_block_budgets sname (Suc i) bs)"

definition validate_block :: "string \<Rightarrow> SurfaceBlock option \<Rightarrow> string + unit" where
  "validate_block sname bo =
     (case bo of
        None \<Rightarrow> Inr ()
      | Some b \<Rightarrow>
          (case validate_block_rules sname 0 (rules b) of
             Inl e \<Rightarrow> Inl e
           | Inr () \<Rightarrow> validate_block_budgets sname 0 (budgets b)))"

text \<open>\<open>from_value\<close> is \<^verbatim>\<open>serde_json::from_value::<SurfaceConstraints>\<close>, its error already rendered.\<close>

definition validate_surface_constraints ::
  "(json \<Rightarrow> string + SurfaceConstraints) \<Rightarrow> json \<Rightarrow> string + SurfaceConstraints" where
  "validate_surface_constraints from_value v =
     (case v of
        JObject _ \<Rightarrow>
          (case from_value v of
             Inl e \<Rightarrow> Inl (''Invalid surface_constraints JSON: '' @ e)
           | Inr cons \<Rightarrow>
               (case validate_block ''ai_gateway'' (ai_gateway cons) of
                  Inl e \<Rightarrow> Inl e
                | Inr () \<Rightarrow>
                    (case validate_block ''mcp_gateway'' (mcp_gateway cons) of
                       Inl e \<Rightarrow> Inl e
                     | Inr () \<Rightarrow> Inr cons)))
      | _ \<Rightarrow> Inl ''surface_constraints must be an object'')"

definition rule_ok :: "SurfaceRule \<Rightarrow> bool" where
  "rule_ok r \<longleftrightarrow> is_allowed_window (sr_window_secs r) \<and> 0 < sr_max_count r"

definition block_ok :: "SurfaceBlock \<Rightarrow> bool" where
  "block_ok b \<longleftrightarrow> list_all rule_ok (rules b) \<and> list_all (\<lambda>x. 0 < sb_limit_tokens x) (budgets b)"

definition constraints_ok :: "SurfaceConstraints \<Rightarrow> bool" where
  "constraints_ok c \<longleftrightarrow> pred_option block_ok (ai_gateway c) \<and> pred_option block_ok (mcp_gateway c)"

lemma validate_block_rules_iff:
  "validate_block_rules sname i rs = Inr () \<longleftrightarrow> list_all rule_ok rs"
  by (induction sname i rs rule: validate_block_rules.induct) (auto simp: rule_ok_def)

lemma validate_block_budgets_iff:
  "validate_block_budgets sname i bs = Inr () \<longleftrightarrow> list_all (\<lambda>x. 0 < sb_limit_tokens x) bs"
  by (induction sname i bs rule: validate_block_budgets.induct) auto

lemma validate_block_iff: "validate_block sname bo = Inr () \<longleftrightarrow> pred_option block_ok bo"
  by (cases bo) (simp_all add: validate_block_def block_ok_def validate_block_budgets_iff
      validate_block_rules_iff)

lemma validate_surface_constraints_iff:
  "validate_surface_constraints fv v = Inr c \<longleftrightarrow>
     (\<exists>m. v = JObject m) \<and> fv v = Inr c \<and> constraints_ok c"
  by (cases v; cases "fv v")
     (auto simp: validate_surface_constraints_def constraints_ok_def validate_block_iff)

end
