(* ===== verification/Limits_Policy.thy ===== *)
theory Limits_Policy
  imports Limits_Types
begin

section \<open>From role policies to the limits of one request\<close>

text \<open>
  The middle of \<^verbatim>\<open>crates/common/src/limits/mod.rs\<close>: reading a role's policy document (actions,
  resources, constraints), merging the roles of a user under ``most restrictive wins'', laying the
  side-table overrides over the result, and building the rules and caps one request is held to.

  A \<^verbatim>\<open>HashMap\<close> is an association list in order of first insertion; Rust leaves the iteration order
  open, so the theorems speak of the sets of entries and of their keys, never of their order.
  \<open>from_value\<close> is \<^verbatim>\<open>serde_json::from_value::<PolicyConstraints>\<close>, third-party code and a parameter.
\<close>

subsection \<open>Reading a statement\<close>

definition str_or_array :: "json option \<Rightarrow> string list" where
  "str_or_array v =
     (case v of
        Some (JString s) \<Rightarrow> [s]
      | Some (JArray arr) \<Rightarrow> List.map_filter json_as_str arr
      | _ \<Rightarrow> [])"

definition stmt_actions :: "json \<Rightarrow> string list" where
  "stmt_actions stmt = str_or_array (json_get stmt ''Action'')"

definition stmt_resources :: "json \<Rightarrow> string list" where
  "stmt_resources stmt = str_or_array (json_get stmt ''Resource'')"

definition action_matches_any :: "string list \<Rightarrow> string \<Rightarrow> bool" where
  "action_matches_any actions target =
     list_ex (\<lambda>a. a = ''*'' \<or> a = target \<or>
       (case strip_suffix a ''*'' of
          None \<Rightarrow> False
        | Some prefix \<Rightarrow> ends_with prefix '':'' \<and> starts_with target prefix)) actions"

definition stmt_effect :: "json \<Rightarrow> string" where
  "stmt_effect stmt = unwrap_or (Option.bind (json_get stmt ''Effect'') json_as_str) []"

definition doc_statements :: "json \<Rightarrow> json list option" where
  "doc_statements doc = Option.bind (json_get doc ''Statement'') json_as_array"

subsection \<open>Constraints of a document\<close>

definition append_rule :: "PolicyRateLimit \<Rightarrow> SurfaceBlock \<Rightarrow> SurfaceBlock" where
  "append_rule rl b =
     (case (RateMetric_parse (pr_metric rl), window_to_secs (pr_window rl)) of
        (Some m, Some secs) \<Rightarrow>
          b\<lparr>rules := rules b @ [\<lparr>sr_metric = m, sr_window_secs = secs, sr_max_count = pr_max_count rl,
                               sr_enabled = True\<rparr>]\<rparr>
      | _ \<Rightarrow> b)"

definition append_budget :: "PolicyBudget \<Rightarrow> SurfaceBlock \<Rightarrow> SurfaceBlock" where
  "append_budget pb b =
     (case BudgetPeriod_parse (pb_period pb) of
        Some p \<Rightarrow>
          b\<lparr>budgets := budgets b @ [\<lparr>sb_period = p, sb_limit_tokens = pb_max_tokens pb, sb_enabled = True\<rparr>]\<rparr>
      | None \<Rightarrow> b)"

definition append_constraints :: "PolicyConstraints \<Rightarrow> SurfaceBlock \<Rightarrow> SurfaceBlock" where
  "append_constraints c b = fold append_budget (pc_budgets c) (fold append_rule (rate_limits c) b)"

definition some_unless_empty :: "SurfaceBlock \<Rightarrow> SurfaceBlock option" where
  "some_unless_empty b = (if rules b = [] \<and> budgets b = [] then None else Some b)"

text \<open>The loop body of \<^verbatim>\<open>extract_surface_constraints\<close>; every \<^verbatim>\<open>continue\<close> leaves both blocks as they are.\<close>

definition extract_stmt ::
  "(json \<Rightarrow> PolicyConstraints option) \<Rightarrow> json \<Rightarrow> SurfaceBlock \<times> SurfaceBlock \<Rightarrow> SurfaceBlock \<times> SurfaceBlock" where
  "extract_stmt from_value stmt acc =
     (if stmt_effect stmt \<noteq> ''Allow'' then acc
      else case json_get stmt ''Constraints'' of
             None \<Rightarrow> acc
           | Some cv \<Rightarrow>
               if cv = JNull then acc
               else case from_value cv of
                      None \<Rightarrow> acc
                    | Some c \<Rightarrow>
                        (let actions = stmt_actions stmt in
                         ((if action_matches_any actions ''ai_gateway:use''
                           then append_constraints c (fst acc) else fst acc),
                          (if action_matches_any actions ''mcp_gateway:use''
                           then append_constraints c (snd acc) else snd acc))))"

definition extract_surface_constraints ::
  "(json \<Rightarrow> PolicyConstraints option) \<Rightarrow> json \<Rightarrow> SurfaceConstraints" where
  "extract_surface_constraints from_value doc =
     (case doc_statements doc of
        None \<Rightarrow> SurfaceConstraints_default
      | Some stmts \<Rightarrow>
          (case fold (extract_stmt from_value) stmts (SurfaceBlock_default, SurfaceBlock_default) of
             (ai, mcp) \<Rightarrow> \<lparr>ai_gateway = some_unless_empty ai, mcp_gateway = some_unless_empty mcp\<rparr>))"

subsection \<open>Resources and permissions of a document\<close>

datatype ResourceScope = NotGranted | AllResources | Only "string list"

text \<open>
  The loop of \<^verbatim>\<open>extract_resource_scope\<close>: \<open>None\<close> is its early return of \<open>All\<close>, otherwise the items so
  far and whether the action is granted.
\<close>

fun scope_resources :: "string \<Rightarrow> string list \<Rightarrow> string list \<Rightarrow> string list option" where
  "scope_resources pre items [] = Some items"
| "scope_resources pre items (r # rs) =
     (if r = ''*'' then None
      else case strip_prefix r pre of
             Some item \<Rightarrow> scope_resources pre (items @ [item]) rs
           | None \<Rightarrow> scope_resources pre items rs)"

fun scope_stmts :: "string \<Rightarrow> string \<Rightarrow> bool \<Rightarrow> string list \<Rightarrow> json list \<Rightarrow> ResourceScope" where
  "scope_stmts action pre granted items [] = (if granted then Only (btree items) else NotGranted)"
| "scope_stmts action pre granted items (stmt # stmts) =
     (if stmt_effect stmt \<noteq> ''Allow'' then scope_stmts action pre granted items stmts
      else if \<not> action_matches_any (stmt_actions stmt) action then scope_stmts action pre granted items stmts
      else case scope_resources pre items (stmt_resources stmt) of
             None \<Rightarrow> AllResources
           | Some items' \<Rightarrow> scope_stmts action pre True items' stmts)"

definition extract_resource_scope :: "json \<Rightarrow> string \<Rightarrow> string \<Rightarrow> ResourceScope" where
  "extract_resource_scope doc action pre =
     (case doc_statements doc of
        None \<Rightarrow> NotGranted
      | Some stmts \<Rightarrow> scope_stmts action pre False [] stmts)"

definition extract_model_scope :: "json \<Rightarrow> ResourceScope" where
  "extract_model_scope doc = extract_resource_scope doc ''ai_gateway:use'' ''model:''"

definition extract_mcp_tool_scope :: "json \<Rightarrow> ResourceScope" where
  "extract_mcp_tool_scope doc = extract_resource_scope doc ''mcp_gateway:use'' ''mcp_tool:''"

definition action_perms :: "string list \<Rightarrow> string \<Rightarrow> string list" where
  "action_perms all_perms action =
     (if action = ''*'' then all_perms
      else if ends_with action '':*'' then
        filter (\<lambda>p. starts_with p (take (length action - 1) action)) all_perms
      else [action])"

definition extract_permissions :: "json \<Rightarrow> string list \<Rightarrow> string list" where
  "extract_permissions doc all_perms =
     (case doc_statements doc of
        None \<Rightarrow> []
      | Some stmts \<Rightarrow>
          btree (concat (map (\<lambda>stmt. if stmt_effect stmt \<noteq> ''Allow'' then []
                                     else concat (map (action_perms all_perms) (stmt_actions stmt))) stmts)))"

subsection \<open>Merging roles\<close>

type_synonym rule_min = "((string \<times> RateMetric \<times> int) \<times> int) list"
type_synonym budget_min = "((string \<times> BudgetPeriod) \<times> int) list"

definition merge_rule :: "string \<Rightarrow> SurfaceRule \<Rightarrow> rule_min \<Rightarrow> rule_min" where
  "merge_rule surface_key r m =
     (if \<not> sr_enabled r \<or> sr_max_count r \<le> 0 then m
      else entry_upd (surface_key, sr_metric r, sr_window_secs r)
             (\<lambda>v. if sr_max_count r < v then sr_max_count r else v) (sr_max_count r) m)"

definition merge_budget :: "string \<Rightarrow> SurfaceBudget \<Rightarrow> budget_min \<Rightarrow> budget_min" where
  "merge_budget surface_key b m =
     (if \<not> sb_enabled b \<or> sb_limit_tokens b \<le> 0 then m
      else entry_upd (surface_key, sb_period b)
             (\<lambda>v. if sb_limit_tokens b < v then sb_limit_tokens b else v) (sb_limit_tokens b) m)"

definition merge_block ::
  "string \<Rightarrow> SurfaceBlock option \<Rightarrow> rule_min \<times> budget_min \<Rightarrow> rule_min \<times> budget_min" where
  "merge_block surface_key block_opt acc =
     (case block_opt of
        None \<Rightarrow> acc
      | Some b \<Rightarrow> (fold (merge_rule surface_key) (rules b) (fst acc),
                  fold (merge_budget surface_key) (budgets b) (snd acc)))"

definition merge_input :: "SurfaceConstraints \<Rightarrow> rule_min \<times> budget_min \<Rightarrow> rule_min \<times> budget_min" where
  "merge_input cons acc =
     merge_block (Surface_as_str McpGateway) (mcp_gateway cons)
       (merge_block (Surface_as_str AiGateway) (ai_gateway cons) acc)"

definition merged_rule :: "(string \<times> RateMetric \<times> int) \<times> int \<Rightarrow> SurfaceRule" where
  "merged_rule e =
     (case e of ((surface_key, m, w), n) \<Rightarrow>
        \<lparr>sr_metric = m, sr_window_secs = w, sr_max_count = n, sr_enabled = True\<rparr>)"

definition merged_budget :: "(string \<times> BudgetPeriod) \<times> int \<Rightarrow> SurfaceBudget" where
  "merged_budget e =
     (case e of ((surface_key, p), n) \<Rightarrow> \<lparr>sb_period = p, sb_limit_tokens = n, sb_enabled = True\<rparr>)"

definition merge_most_restrictive :: "SurfaceConstraints list \<Rightarrow> SurfaceConstraints" where
  "merge_most_restrictive inputs =
     (case fold merge_input inputs ([], []) of (rule_min, budget_min) \<Rightarrow>
        let on_ai = (\<lambda>surface_key. surface_key = Surface_as_str AiGateway);
            ai = \<lparr>rules = map merged_rule (filter (\<lambda>e. on_ai (fst (fst e))) rule_min),
                  budgets = map merged_budget (filter (\<lambda>e. on_ai (fst (fst e))) budget_min)\<rparr>;
            mcp = \<lparr>rules = map merged_rule (filter (\<lambda>e. \<not> on_ai (fst (fst e))) rule_min),
                   budgets = map merged_budget (filter (\<lambda>e. \<not> on_ai (fst (fst e))) budget_min)\<rparr>
        in \<lparr>ai_gateway = some_unless_empty ai, mcp_gateway = some_unless_empty mcp\<rparr>)"

subsection \<open>Overrides\<close>

definition push_rule :: "SurfaceRule \<Rightarrow> SurfaceBlock option \<Rightarrow> SurfaceBlock option" where
  "push_rule r bo = (let b = unwrap_or bo SurfaceBlock_default in Some (b\<lparr>rules := rules b @ [r]\<rparr>))"

definition push_budget :: "SurfaceBudget \<Rightarrow> SurfaceBlock option \<Rightarrow> SurfaceBlock option" where
  "push_budget x bo = (let b = unwrap_or bo SurfaceBlock_default in Some (b\<lparr>budgets := budgets b @ [x]\<rparr>))"

definition side_rule :: "RateLimitRule \<Rightarrow> SurfaceConstraints \<Rightarrow> SurfaceConstraints" where
  "side_rule r out =
     (if \<not> rl_enabled r then out
      else block_mut out (rl_surface r)
             (push_rule \<lparr>sr_metric = rl_metric r, sr_window_secs = rl_window_secs r,
                         sr_max_count = rl_max_count r, sr_enabled = True\<rparr>))"

definition side_cap :: "BudgetCap \<Rightarrow> SurfaceConstraints \<Rightarrow> SurfaceConstraints" where
  "side_cap c out =
     (if \<not> bc_enabled c then out
      else let x = \<lparr>sb_period = bc_period c, sb_limit_tokens = bc_limit_tokens c, sb_enabled = True\<rparr>
           in block_mut (block_mut out AiGateway (push_budget x)) McpGateway (push_budget x))"

definition side_table_as_constraints :: "RateLimitRule list \<Rightarrow> BudgetCap list \<Rightarrow> SurfaceConstraints" where
  "side_table_as_constraints rs cs = fold side_cap cs (fold side_rule rs SurfaceConstraints_default)"

definition override_rule :: "SurfaceRule \<Rightarrow> SurfaceRule list \<Rightarrow> SurfaceRule list" where
  "override_rule ov rs =
     filter (\<lambda>r. \<not> (sr_metric r = sr_metric ov \<and> sr_window_secs r = sr_window_secs ov)) rs @ [ov]"

definition override_budget :: "SurfaceBudget \<Rightarrow> SurfaceBudget list \<Rightarrow> SurfaceBudget list" where
  "override_budget ov bs = filter (\<lambda>b. sb_period b \<noteq> sb_period ov) bs @ [ov]"

definition apply_block_overrides :: "SurfaceBlock option \<Rightarrow> SurfaceBlock option \<Rightarrow> SurfaceBlock option" where
  "apply_block_overrides target overrides =
     (case overrides of
        None \<Rightarrow> target
      | Some ov \<Rightarrow>
          (let b = unwrap_or target SurfaceBlock_default
           in Some \<lparr>rules = fold override_rule (rules ov) (rules b),
                    budgets = fold override_budget (budgets ov) (budgets b)\<rparr>))"

definition apply_user_overrides :: "SurfaceConstraints \<Rightarrow> SurfaceConstraints \<Rightarrow> SurfaceConstraints" where
  "apply_user_overrides base overrides =
     \<lparr>ai_gateway = apply_block_overrides (ai_gateway base) (ai_gateway overrides),
      mcp_gateway = apply_block_overrides (mcp_gateway base) (mcp_gateway overrides)\<rparr>"

subsection \<open>What one request is held to\<close>

record RequestLimits =
  rq_owner :: uuid
  rq_key_lineage :: "uuid option"
  rq_rules :: "RateLimitRule list"
  rq_caps :: "BudgetCap list"

fun budget_kind :: "RateLimitSubject \<Rightarrow> BudgetSubject" where
  "budget_kind RUser = BUser"
| "budget_kind RApiKeyLineage = BApiKeyLineage"

definition request_rule :: "Surface \<Rightarrow> RateLimitSubject \<Rightarrow> uuid \<Rightarrow> SurfaceRule \<Rightarrow> RateLimitRule" where
  "request_rule surf kind sid r =
     \<lparr>rl_id = uuid_nil, rl_subject_kind = kind, rl_subject_id = sid, rl_surface = surf,
      rl_metric = sr_metric r, rl_window_secs = sr_window_secs r, rl_max_count = sr_max_count r,
      rl_enabled = True, rl_expires_at = None, rl_reason = None, rl_created_by = None\<rparr>"

definition request_cap :: "RateLimitSubject \<Rightarrow> uuid \<Rightarrow> SurfaceBudget \<Rightarrow> BudgetCap" where
  "request_cap kind sid b =
     \<lparr>bc_id = uuid_nil, bc_subject_kind = budget_kind kind, bc_subject_id = sid,
      bc_period = sb_period b, bc_limit_tokens = sb_limit_tokens b, bc_enabled = True,
      bc_expires_at = None, bc_reason = None, bc_created_by = None\<rparr>"

definition RequestLimits_add ::
  "RequestLimits \<Rightarrow> Surface \<Rightarrow> RateLimitSubject \<Rightarrow> uuid \<Rightarrow> SurfaceConstraints \<Rightarrow> RequestLimits" where
  "RequestLimits_add l surf kind sid cons =
     (case block cons surf of
        None \<Rightarrow> l
      | Some b \<Rightarrow>
          l\<lparr>rq_rules := rq_rules l @ map (request_rule surf kind sid) (filter sr_enabled (rules b)),
            rq_caps := rq_caps l @ map (request_cap kind sid) (filter sb_enabled (budgets b))\<rparr>)"

definition for_request ::
  "Surface \<Rightarrow> uuid \<Rightarrow> SurfaceConstraints \<Rightarrow> (uuid \<times> SurfaceConstraints) option \<Rightarrow> RequestLimits" where
  "for_request surf own user key =
     (let out = RequestLimits_add
                  \<lparr>rq_owner = own, rq_key_lineage = map_option fst key, rq_rules = [], rq_caps = []\<rparr>
                  surf RUser own user
      in case key of
           None \<Rightarrow> out
         | Some (lineage, cons) \<Rightarrow> RequestLimits_add out surf RApiKeyLineage lineage cons)"

end
