(* ===== verification/Limits_Tables.thy ===== *)
theory Limits_Tables
  imports Limits_Types
begin

section \<open>The limit tables\<close>

text \<open>
  The CRUD functions of \<^verbatim>\<open>crates/common/src/limits/mod.rs\<close> over \<^verbatim>\<open>rate_limit_rules\<close> and \<^verbatim>\<open>budget_caps\<close>.
  A table is the list of its rows, with the enum columns as the text the database holds; the SQL of each
  function is the filter, sort or update it asks for. \<open>err\<close> is the database error of the call, if it has
  one; \<open>new_id\<close> is what \<^verbatim>\<open>gen_random_uuid()\<close> returns and \<open>now\<close> what \<^verbatim>\<open>now()\<close> does. \<^verbatim>\<open>try_get\<close> of a nullable
  column yields \<open>None\<close> for NULL; the other columns are NOT NULL. The \<^verbatim>\<open>updated_at\<close> column is never read
  back and is left out.
\<close>

record rule_row =
  rw_id :: uuid
  rw_subject_kind :: string
  rw_subject_id :: uuid
  rw_surface :: string
  rw_metric :: string
  rw_window_secs :: int
  rw_max_count :: int
  rw_enabled :: bool
  rw_expires_at :: "int option"
  rw_reason :: "string option"
  rw_created_by :: "uuid option"

record cap_row =
  cw_id :: uuid
  cw_subject_kind :: string
  cw_subject_id :: uuid
  cw_period :: string
  cw_limit_tokens :: int
  cw_enabled :: bool
  cw_expires_at :: "int option"
  cw_reason :: "string option"
  cw_created_by :: "uuid option"

definition row_to_rule :: "rule_row \<Rightarrow> RateLimitRule option" where
  "row_to_rule row =
     Option.bind (RateLimitSubject_parse (rw_subject_kind row)) (\<lambda>kind.
     Option.bind (Surface_parse (rw_surface row)) (\<lambda>surf.
     Option.bind (RateMetric_parse (rw_metric row)) (\<lambda>metric.
       Some \<lparr>rl_id = rw_id row, rl_subject_kind = kind, rl_subject_id = rw_subject_id row,
             rl_surface = surf, rl_metric = metric, rl_window_secs = rw_window_secs row,
             rl_max_count = rw_max_count row, rl_enabled = rw_enabled row,
             rl_expires_at = rw_expires_at row, rl_reason = rw_reason row,
             rl_created_by = rw_created_by row\<rparr>)))"

definition row_to_cap :: "cap_row \<Rightarrow> BudgetCap option" where
  "row_to_cap row =
     Option.bind (BudgetSubject_parse (cw_subject_kind row)) (\<lambda>kind.
     Option.bind (BudgetPeriod_parse (cw_period row)) (\<lambda>period.
       Some \<lparr>bc_id = cw_id row, bc_subject_kind = kind, bc_subject_id = cw_subject_id row,
             bc_period = period, bc_limit_tokens = cw_limit_tokens row, bc_enabled = cw_enabled row,
             bc_expires_at = cw_expires_at row, bc_reason = cw_reason row,
             bc_created_by = cw_created_by row\<rparr>))"

subsection \<open>Rate-limit rules\<close>

definition list_rules ::
  "string option \<Rightarrow> rule_row list \<Rightarrow> RateLimitSubject \<Rightarrow> uuid \<Rightarrow> string + RateLimitRule list" where
  "list_rules err tab kind sid =
     (case err of Some e \<Rightarrow> Inl e
      | None \<Rightarrow> Inr (List.map_filter row_to_rule
          (sort_key rw_surface (sort_key rw_metric (sort_key rw_window_secs
            (filter (\<lambda>r. rw_subject_kind r = RateLimitSubject_as_str kind \<and> rw_subject_id r = sid) tab))))))"

definition active_until :: "int \<Rightarrow> int option \<Rightarrow> bool" where
  "active_until now expires = (case expires of None \<Rightarrow> True | Some t \<Rightarrow> now < t)"

text \<open>The loop over the subjects; \<open>err\<close> is the database's answer to each query.\<close>

fun list_enabled_rules_for_subjects ::
  "(RateLimitSubject \<times> uuid \<Rightarrow> string option) \<Rightarrow> rule_row list \<Rightarrow> int \<Rightarrow> (RateLimitSubject \<times> uuid) list \<Rightarrow>
   string + RateLimitRule list" where
  "list_enabled_rules_for_subjects err tab now [] = Inr []"
| "list_enabled_rules_for_subjects err tab now ((kind, sid) # subjects) =
     (case err (kind, sid) of
        Some e \<Rightarrow> Inl e
      | None \<Rightarrow>
          (case list_enabled_rules_for_subjects err tab now subjects of
             Inl e \<Rightarrow> Inl e
           | Inr out \<Rightarrow>
               Inr (List.map_filter row_to_rule (filter (\<lambda>r.
                      rw_subject_kind r = RateLimitSubject_as_str kind \<and> rw_subject_id r = sid \<and>
                      rw_enabled r \<and> active_until now (rw_expires_at r)) tab) @ out)))"

record UpsertRule =
  ur_subject_kind :: RateLimitSubject
  ur_subject_id :: uuid
  ur_surface :: Surface
  ur_metric :: RateMetric
  ur_window_secs :: int
  ur_max_count :: int
  ur_enabled :: bool
  ur_expires_at :: "int option"
  ur_reason :: "string option"
  ur_created_by :: "uuid option"

text \<open>The UNIQUE columns of the table, the target of \<^verbatim>\<open>ON CONFLICT\<close>.\<close>

definition rule_row_key :: "rule_row \<Rightarrow> string \<times> uuid \<times> string \<times> string \<times> int" where
  "rule_row_key r = (rw_subject_kind r, rw_subject_id r, rw_surface r, rw_metric r, rw_window_secs r)"

definition upsert_rule_row :: "uuid \<Rightarrow> UpsertRule \<Rightarrow> rule_row" where
  "upsert_rule_row new_id req =
     \<lparr>rw_id = new_id, rw_subject_kind = RateLimitSubject_as_str (ur_subject_kind req),
      rw_subject_id = ur_subject_id req, rw_surface = Surface_as_str (ur_surface req),
      rw_metric = RateMetric_as_str (ur_metric req), rw_window_secs = ur_window_secs req,
      rw_max_count = ur_max_count req, rw_enabled = ur_enabled req, rw_expires_at = ur_expires_at req,
      rw_reason = ur_reason req, rw_created_by = ur_created_by req\<rparr>"

definition insert_or_update_rule :: "rule_row \<Rightarrow> rule_row list \<Rightarrow> rule_row list \<times> rule_row" where
  "insert_or_update_rule row tab =
     (case filter (\<lambda>r. rule_row_key r = rule_row_key row) tab of
        [] \<Rightarrow> (tab @ [row], row)
      | old # _ \<Rightarrow>
          (let upd = row\<lparr>rw_id := rw_id old\<rparr>
           in (map (\<lambda>r. if rule_row_key r = rule_row_key row then upd else r) tab, upd)))"

definition upsert_rule ::
  "string option \<Rightarrow> uuid \<Rightarrow> rule_row list \<Rightarrow> UpsertRule \<Rightarrow> rule_row list \<times> (string + RateLimitRule)" where
  "upsert_rule err new_id tab req =
     (if \<not> is_allowed_window (ur_window_secs req) then
        (tab, Inl (''window_secs '' @ show_int (ur_window_secs req) @ '' not in allowed set''))
      else if ur_max_count req \<le> 0 then (tab, Inl ''max_count must be > 0'')
      else case err of
             Some e \<Rightarrow> (tab, Inl e)
           | None \<Rightarrow>
               (case insert_or_update_rule (upsert_rule_row new_id req) tab of
                  (tab', row) \<Rightarrow>
                    (case row_to_rule row of
                       Some r \<Rightarrow> (tab', Inr r)
                     | None \<Rightarrow> (tab', Inl ''rule row decode failed''))))"

definition delete_rule ::
  "string option \<Rightarrow> rule_row list \<Rightarrow> uuid \<Rightarrow> RateLimitSubject \<Rightarrow> uuid \<Rightarrow> rule_row list \<times> (string + bool)" where
  "delete_rule err tab i kind sid =
     (case err of
        Some e \<Rightarrow> (tab, Inl e)
      | None \<Rightarrow>
          (let hit = (\<lambda>r. rw_id r = i \<and> rw_subject_kind r = RateLimitSubject_as_str kind \<and> rw_subject_id r = sid)
           in (filter (\<lambda>r. \<not> hit r) tab, Inr (0 < length (filter hit tab)))))"

subsection \<open>Budget caps\<close>

definition list_caps :: "string option \<Rightarrow> cap_row list \<Rightarrow> BudgetSubject \<Rightarrow> uuid \<Rightarrow> string + BudgetCap list" where
  "list_caps err tab kind sid =
     (case err of Some e \<Rightarrow> Inl e
      | None \<Rightarrow> Inr (List.map_filter row_to_cap
          (sort_key cw_period
            (filter (\<lambda>r. cw_subject_kind r = BudgetSubject_as_str kind \<and> cw_subject_id r = sid) tab))))"

fun list_enabled_caps_for_subjects ::
  "(BudgetSubject \<times> uuid \<Rightarrow> string option) \<Rightarrow> cap_row list \<Rightarrow> int \<Rightarrow> (BudgetSubject \<times> uuid) list \<Rightarrow>
   string + BudgetCap list" where
  "list_enabled_caps_for_subjects err tab now [] = Inr []"
| "list_enabled_caps_for_subjects err tab now ((kind, sid) # subjects) =
     (case err (kind, sid) of
        Some e \<Rightarrow> Inl e
      | None \<Rightarrow>
          (case list_enabled_caps_for_subjects err tab now subjects of
             Inl e \<Rightarrow> Inl e
           | Inr out \<Rightarrow>
               Inr (List.map_filter row_to_cap (filter (\<lambda>r.
                      cw_subject_kind r = BudgetSubject_as_str kind \<and> cw_subject_id r = sid \<and>
                      cw_enabled r \<and> active_until now (cw_expires_at r)) tab) @ out)))"

record UpsertCap =
  uc_subject_kind :: BudgetSubject
  uc_subject_id :: uuid
  uc_period :: BudgetPeriod
  uc_limit_tokens :: int
  uc_enabled :: bool
  uc_expires_at :: "int option"
  uc_reason :: "string option"
  uc_created_by :: "uuid option"

definition cap_row_key :: "cap_row \<Rightarrow> string \<times> uuid \<times> string" where
  "cap_row_key r = (cw_subject_kind r, cw_subject_id r, cw_period r)"

definition upsert_cap_row :: "uuid \<Rightarrow> UpsertCap \<Rightarrow> cap_row" where
  "upsert_cap_row new_id req =
     \<lparr>cw_id = new_id, cw_subject_kind = BudgetSubject_as_str (uc_subject_kind req),
      cw_subject_id = uc_subject_id req, cw_period = BudgetPeriod_as_str (uc_period req),
      cw_limit_tokens = uc_limit_tokens req, cw_enabled = uc_enabled req, cw_expires_at = uc_expires_at req,
      cw_reason = uc_reason req, cw_created_by = uc_created_by req\<rparr>"

definition insert_or_update_cap :: "cap_row \<Rightarrow> cap_row list \<Rightarrow> cap_row list \<times> cap_row" where
  "insert_or_update_cap row tab =
     (case filter (\<lambda>r. cap_row_key r = cap_row_key row) tab of
        [] \<Rightarrow> (tab @ [row], row)
      | old # _ \<Rightarrow>
          (let upd = row\<lparr>cw_id := cw_id old\<rparr>
           in (map (\<lambda>r. if cap_row_key r = cap_row_key row then upd else r) tab, upd)))"

definition upsert_cap ::
  "string option \<Rightarrow> uuid \<Rightarrow> cap_row list \<Rightarrow> UpsertCap \<Rightarrow> cap_row list \<times> (string + BudgetCap)" where
  "upsert_cap err new_id tab req =
     (if uc_limit_tokens req \<le> 0 then (tab, Inl ''limit_tokens must be > 0'')
      else case err of
             Some e \<Rightarrow> (tab, Inl e)
           | None \<Rightarrow>
               (case insert_or_update_cap (upsert_cap_row new_id req) tab of
                  (tab', row) \<Rightarrow>
                    (case row_to_cap row of
                       Some r \<Rightarrow> (tab', Inr r)
                     | None \<Rightarrow> (tab', Inl ''cap row decode failed''))))"

definition delete_cap ::
  "string option \<Rightarrow> cap_row list \<Rightarrow> uuid \<Rightarrow> BudgetSubject \<Rightarrow> uuid \<Rightarrow> cap_row list \<times> (string + bool)" where
  "delete_cap err tab i kind sid =
     (case err of
        Some e \<Rightarrow> (tab, Inl e)
      | None \<Rightarrow>
          (let hit = (\<lambda>r. cw_id r = i \<and> cw_subject_kind r = BudgetSubject_as_str kind \<and> cw_subject_id r = sid)
           in (filter (\<lambda>r. \<not> hit r) tab, Inr (0 < length (filter hit tab)))))"

subsection \<open>Startup validation\<close>

text \<open>\<open>models\<close>: each model's id and its input and output weight, in thousandths, as the column is \<^verbatim>\<open>NUMERIC\<close>.\<close>

definition join_comma :: "string list \<Rightarrow> string" where
  "join_comma xs = concat (case xs of [] \<Rightarrow> [] | y # ys \<Rightarrow> y # map (\<lambda>z. '', '' @ z) ys)"

definition validate_persisted ::
  "string option \<Rightarrow> string option \<Rightarrow> rule_row list \<Rightarrow> (string \<times> int \<times> int) list \<Rightarrow> string + unit" where
  "validate_persisted err1 err2 tab models =
     (case err1 of Some e \<Rightarrow> Inl e
      | None \<Rightarrow>
          let bad_windows = remdups (filter (\<lambda>w. \<not> List.member ALLOWED_WINDOW_SECS w) (map rw_window_secs tab)) in
          if bad_windows \<noteq> [] then
            Inl (''Found rate_limit_rules.window_secs values outside the allowed set: '' @
                 join_comma (map show_int bad_windows))
          else case err2 of Some e \<Rightarrow> Inl e
          | None \<Rightarrow>
              let bad_models = map fst (filter (\<lambda>(m, i, out). i \<le> 0 \<or> out \<le> 0) models) in
              if bad_models \<noteq> [] then
                Inl (''Found models with non-positive input/output weight: '' @ join_comma bad_models)
              else Inr ())"

end
