(* ===== verification/Rbac.thy ===== *)
theory Rbac
  imports Limits_Policy Limits_Tables
begin

section \<open>Roles, policies and gateway access\<close>

text \<open>
  \<^verbatim>\<open>crates/auth/src/rbac.rs\<close>: the policy engine (glob patterns, statements, documents, Deny over Allow),
  the roles that apply to a user, and what they add up to at the gateways.

  The tables the queries join are lists of rows in a record; a query is the comprehension its SQL
  describes, duplicates removed where it says DISTINCT. A failed query is an error value. Typed
  deserialisation is a parameter: \<open>from_doc\<close> for \<^verbatim>\<open>serde_json::from_value::<PolicyDocument>\<close>, \<open>from_cons\<close>
  for \<^verbatim>\<open>PolicyConstraints\<close>.
\<close>

subsection \<open>Policy documents\<close>

datatype Effect = EAllow | EDeny

datatype ActionPattern = SingleAction string | MultipleActions "string list"

fun action_patterns :: "ActionPattern \<Rightarrow> string list" where
  "action_patterns (SingleAction s) = [s]"
| "action_patterns (MultipleActions v) = v"

datatype ResourcePattern = SingleResource string | MultipleResources "string list"

fun resource_patterns :: "ResourcePattern \<Rightarrow> string list" where
  "resource_patterns (SingleResource s) = [s]"
| "resource_patterns (MultipleResources v) = v"

record Statement =
  sid :: "string option"
  effect :: Effect
  action :: ActionPattern
  resource :: ResourcePattern
  st_condition :: "json option"

record PolicyDocument =
  version :: string
  statement :: "Statement list"

datatype PolicyResult = Allow | Deny | NoMatch

text \<open>
  The segment loop of \<^verbatim>\<open>glob_match\<close>: \<open>None\<close> is its \<^verbatim>\<open>return false\<close>, otherwise the position after the
  last segment.
\<close>

fun glob_loop :: "nat \<Rightarrow> string list \<Rightarrow> string \<Rightarrow> nat \<Rightarrow> nat option" where
  "glob_loop i [] v pos = Some pos"
| "glob_loop i (part # parts) v pos =
     (if part = [] then glob_loop (Suc i) parts v pos
      else case find_sub (drop pos v) part of
             Some found \<Rightarrow>
               if i = 0 \<and> found \<noteq> 0 then None
               else glob_loop (Suc i) parts v (pos + (found + length part))
           | None \<Rightarrow> None)"

definition glob_match :: "string \<Rightarrow> string \<Rightarrow> bool" where
  "glob_match pattern v =
     (if pattern = ''*'' then True
      else let parts = split_on (CHR ''*'') pattern in
           if length parts = 1 then pattern = v
           else case glob_loop 0 parts v 0 of
                  None \<Rightarrow> False
                | Some pos \<Rightarrow> if last parts \<noteq> [] then pos = length v else True)"

definition evaluate_statement :: "Statement \<Rightarrow> string \<Rightarrow> string \<Rightarrow> PolicyResult" where
  "evaluate_statement stmt act res =
     (if \<not> list_ex (\<lambda>p. glob_match p act) (action_patterns (action stmt)) then NoMatch
      else if \<not> list_ex (\<lambda>p. glob_match p res) (resource_patterns (resource stmt)) then NoMatch
      else case effect stmt of EAllow \<Rightarrow> Allow | EDeny \<Rightarrow> Deny)"

fun evaluate_statements :: "bool \<Rightarrow> Statement list \<Rightarrow> string \<Rightarrow> string \<Rightarrow> PolicyResult" where
  "evaluate_statements has_allow [] act res = (if has_allow then Allow else NoMatch)"
| "evaluate_statements has_allow (stmt # stmts) act res =
     (case evaluate_statement stmt act res of
        Deny \<Rightarrow> Deny
      | Allow \<Rightarrow> evaluate_statements True stmts act res
      | NoMatch \<Rightarrow> evaluate_statements has_allow stmts act res)"

definition evaluate_policy :: "PolicyDocument \<Rightarrow> string \<Rightarrow> string \<Rightarrow> PolicyResult" where
  "evaluate_policy policy act res = evaluate_statements False (statement policy) act res"

fun evaluate_policies_from :: "bool \<Rightarrow> PolicyDocument list \<Rightarrow> string \<Rightarrow> string \<Rightarrow> bool" where
  "evaluate_policies_from has_allow [] act res = has_allow"
| "evaluate_policies_from has_allow (p # ps) act res =
     (case evaluate_policy p act res of
        Deny \<Rightarrow> False
      | Allow \<Rightarrow> evaluate_policies_from True ps act res
      | NoMatch \<Rightarrow> evaluate_policies_from has_allow ps act res)"

definition evaluate_policies :: "PolicyDocument list \<Rightarrow> string \<Rightarrow> string \<Rightarrow> bool" where
  "evaluate_policies policies act res = evaluate_policies_from False policies act res"

subsection \<open>Validation\<close>

definition stmt_msg :: "nat \<Rightarrow> string \<Rightarrow> string" where
  "stmt_msg i m = ''Statement['' @ show_nat i @ '']: '' @ m"

fun validate_statements :: "nat \<Rightarrow> Statement list \<Rightarrow> string + unit" where
  "validate_statements i [] = Inr ()"
| "validate_statements i (stmt # stmts) =
     (let as = action_patterns (action stmt); rs = resource_patterns (resource stmt) in
      if as = [] then Inl (stmt_msg i ''Action must not be empty'')
      else if rs = [] then Inl (stmt_msg i ''Resource must not be empty'')
      else if 50 < length as then Inl (stmt_msg i ''Too many action patterns (max 50)'')
      else if 50 < length rs then Inl (stmt_msg i ''Too many resource patterns (max 50)'')
      else if list_ex (\<lambda>a. a = []) as then Inl (stmt_msg i ''Action pattern must not be empty'')
      else if list_ex (\<lambda>r. r = []) rs then Inl (stmt_msg i ''Resource pattern must not be empty'')
      else validate_statements (Suc i) stmts)"

text \<open>\<open>json_len\<close> is the length of the value's serialised text, \<^verbatim>\<open>serde_json::to_string\<close>.\<close>

definition validate_policy_document ::
  "(json \<Rightarrow> nat) \<Rightarrow> (json \<Rightarrow> string + PolicyDocument) \<Rightarrow> json \<Rightarrow> string + PolicyDocument" where
  "validate_policy_document json_len from_doc v =
     (if 65536 < json_len v then Inl ''Policy document too large (max 64 KB)''
      else case from_doc v of
             Inl e \<Rightarrow> Inl (''Invalid policy JSON: '' @ e)
           | Inr doc \<Rightarrow>
               if statement doc = [] then Inl ''Policy must contain at least one Statement''
               else if 100 < length (statement doc) then Inl ''Policy contains too many statements (max 100)''
               else case validate_statements 0 (statement doc) of
                      Inl e \<Rightarrow> Inl e
                    | Inr () \<Rightarrow> Inr doc)"

subsection \<open>System roles\<close>

datatype SystemRole = SuperAdmin | Admin | TeamManager | Developer | Viewer

fun SystemRole_as_str :: "SystemRole \<Rightarrow> string" where
  "SystemRole_as_str SuperAdmin = ''super_admin''"
| "SystemRole_as_str Admin = ''admin''"
| "SystemRole_as_str TeamManager = ''team_manager''"
| "SystemRole_as_str Developer = ''developer''"
| "SystemRole_as_str Viewer = ''viewer''"

definition SystemRole_parse :: "string \<Rightarrow> SystemRole option" where
  "SystemRole_parse s =
     (if s = ''super_admin'' then Some SuperAdmin
      else if s = ''admin'' then Some Admin
      else if s = ''team_manager'' then Some TeamManager
      else if s = ''developer'' then Some Developer
      else if s = ''viewer'' then Some Viewer
      else None)"

interpretation system_role: enum_text SystemRole_as_str SystemRole_parse
proof
  show "SystemRole_parse (SystemRole_as_str e) = Some e" for e
    by (cases e) (simp_all add: SystemRole_parse_def)
qed (auto simp: SystemRole_parse_def split: if_splits)

subsection \<open>The roles of a user\<close>

record role_assignment =
  ra_user_id :: uuid
  ra_role_id :: uuid
  ra_scope_kind :: string
  ra_scope_id :: "uuid option"

record rbac_role =
  role_id :: uuid
  role_name :: string
  policy_document :: json
  role_description :: "string option"
  role_is_system :: bool
  role_created_by :: "uuid option"
  role_created_at :: int
  role_updated_at :: int

record Team =
  te_id :: uuid
  te_name :: string
  te_description :: "string option"
  te_created_at :: int

record rbac_db =
  role_assignments :: "role_assignment list"
  team_members :: "(uuid \<times> uuid) list"
  team_role_assignments :: "(uuid \<times> uuid) list"
  roles :: "rbac_role list"
  team_rows :: "Team list"

text \<open>Pairs of \<open>team_members\<close> are (team, user), of \<open>team_role_assignments\<close> (team, role).\<close>

definition team_role_ids :: "rbac_db \<Rightarrow> uuid \<Rightarrow> uuid list" where
  "team_role_ids db user =
     [r. (t, u) \<leftarrow> team_members db, u = user, (t', r) \<leftarrow> team_role_assignments db, t' = t]"

definition direct_role_ids :: "rbac_db \<Rightarrow> uuid \<Rightarrow> uuid list" where
  "direct_role_ids db user = map ra_role_id (filter (\<lambda>a. ra_user_id a = user) (role_assignments db))"

definition global_role_ids :: "rbac_db \<Rightarrow> uuid \<Rightarrow> uuid list" where
  "global_role_ids db user =
     map ra_role_id (filter (\<lambda>a. ra_user_id a = user \<and> ra_scope_kind a = ''global'') (role_assignments db))"

definition roles_with_ids :: "rbac_db \<Rightarrow> uuid list \<Rightarrow> rbac_role list" where
  "roles_with_ids db ids = filter (\<lambda>r. List.member ids (role_id r)) (roles db)"

definition load_user_policy_documents :: "string option \<Rightarrow> rbac_db \<Rightarrow> uuid \<Rightarrow> string + json list" where
  "load_user_policy_documents err db user =
     (case err of Some e \<Rightarrow> Inl e
      | None \<Rightarrow> Inr (remdups (map policy_document
                  (roles_with_ids db (direct_role_ids db user @ team_role_ids db user)))))"

definition load_gateway_policy_documents :: "string option \<Rightarrow> rbac_db \<Rightarrow> uuid \<Rightarrow> string + json list" where
  "load_gateway_policy_documents err db user =
     (case err of Some e \<Rightarrow> Inl e
      | None \<Rightarrow> Inr (remdups (map policy_document
                  (roles_with_ids db (global_role_ids db user @ team_role_ids db user)))))"

definition load_user_role_names :: "string option \<Rightarrow> rbac_db \<Rightarrow> uuid \<Rightarrow> string + string list" where
  "load_user_role_names err db user =
     (case err of Some e \<Rightarrow> Inl e
      | None \<Rightarrow> Inr (btree (map role_name
                  (roles_with_ids db (direct_role_ids db user @ team_role_ids db user)))))"

text \<open>NULL sorts last, as in Postgres; the inherited roles are reported at global scope.\<close>

definition compute_user_role_assignments ::
  "string option \<Rightarrow> rbac_db \<Rightarrow> uuid \<Rightarrow> string + (uuid \<times> string \<times> uuid option) list" where
  "compute_user_role_assignments err db user =
     (case err of Some e \<Rightarrow> Inl e
      | None \<Rightarrow>
          Inr (sort_key (\<lambda>(_, kind, _). kind)
                (sort_key (\<lambda>(_, _, scope). scope = None)
                  (sort_key (\<lambda>(_, _, scope). unwrap_or scope [])
                    (remdups
                      (map (\<lambda>a. (ra_role_id a, ra_scope_kind a, ra_scope_id a))
                         (filter (\<lambda>a. ra_user_id a = user) (role_assignments db)) @
                       map (\<lambda>r. (r, ''global'', None)) (team_role_ids db user)))))))"

definition compute_user_permissions ::
  "string option \<Rightarrow> rbac_db \<Rightarrow> uuid \<Rightarrow> string list \<Rightarrow> string + string list" where
  "compute_user_permissions err db user all_perms =
     (case load_user_policy_documents err db user of
        Inl e \<Rightarrow> Inl e
      | Inr docs \<Rightarrow> Inr (btree (concat (map (\<lambda>doc. extract_permissions doc all_perms) docs))))"

definition denies :: "PolicyDocument list \<Rightarrow> string \<Rightarrow> bool" where
  "denies policies act = list_ex (\<lambda>doc. evaluate_policy doc act ''*'' = Deny) policies"

definition compute_denied_permissions ::
  "(json \<Rightarrow> PolicyDocument option) \<Rightarrow> string option \<Rightarrow> rbac_db \<Rightarrow> uuid \<Rightarrow> string list \<Rightarrow> string + string list" where
  "compute_denied_permissions from_doc err db user allowed_perms =
     (case load_user_policy_documents err db user of
        Inl e \<Rightarrow> Inl e
      | Inr docs \<Rightarrow>
          if docs = [] then Inr []
          else let policies = List.map_filter from_doc docs in
               if policies = [] then Inr []
               else Inr (filter (denies policies) allowed_perms))"

subsection \<open>Gateway access\<close>

record UserResourceLimits =
  url_ai_gateway :: bool
  allowed_models :: "string list option"
  url_mcp_gateway :: bool
  allowed_mcp_tools :: "string list option"

definition UserResourceLimits_none :: UserResourceLimits where
  "UserResourceLimits_none =
     \<lparr>url_ai_gateway = False, allowed_models = Some [], url_mcp_gateway = False, allowed_mcp_tools = Some []\<rparr>"

record SurfaceGrant =
  granted :: bool
  unrestricted :: bool
  items :: "string list"

definition SurfaceGrant_new :: SurfaceGrant where
  "SurfaceGrant_new = \<lparr>granted = False, unrestricted = False, items = []\<rparr>"

text \<open>\<open>items\<close> is a \<^verbatim>\<open>BTreeSet\<close>: its elements in any order while it grows, read out by \<open>btree\<close>.\<close>

definition SurfaceGrant_add :: "ResourceScope \<Rightarrow> SurfaceGrant \<Rightarrow> SurfaceGrant" where
  "SurfaceGrant_add scope g =
     (case scope of
        NotGranted \<Rightarrow> g
      | AllResources \<Rightarrow> g\<lparr>granted := True, unrestricted := True\<rparr>
      | Only xs \<Rightarrow> g\<lparr>granted := True, items := items g @ xs\<rparr>)"

definition SurfaceGrant_finish :: "SurfaceGrant \<Rightarrow> bool \<Rightarrow> bool \<times> string list option" where
  "SurfaceGrant_finish g denied =
     (if \<not> granted g \<or> denied then (False, Some [])
      else if unrestricted g then (True, None)
      else (True, Some (btree (items g))))"

definition resource_limits_from_documents ::
  "(json \<Rightarrow> PolicyDocument option) \<Rightarrow> json list \<Rightarrow> UserResourceLimits" where
  "resource_limits_from_documents from_doc docs =
     (let models = fold (\<lambda>doc. SurfaceGrant_add (extract_model_scope doc)) docs SurfaceGrant_new;
          tools = fold (\<lambda>doc. SurfaceGrant_add (extract_mcp_tool_scope doc)) docs SurfaceGrant_new;
          policies = List.map_filter from_doc docs;
          (ai, ms) = SurfaceGrant_finish models (denies policies ''ai_gateway:use'');
          (mcp, ts) = SurfaceGrant_finish tools (denies policies ''mcp_gateway:use'')
      in \<lparr>url_ai_gateway = ai, allowed_models = ms, url_mcp_gateway = mcp, allowed_mcp_tools = ts\<rparr>)"

definition compute_user_resource_limits ::
  "(json \<Rightarrow> PolicyDocument option) \<Rightarrow> string option \<Rightarrow> rbac_db \<Rightarrow> uuid \<Rightarrow> string + UserResourceLimits" where
  "compute_user_resource_limits from_doc err db user =
     (case load_gateway_policy_documents err db user of
        Inl e \<Rightarrow> Inl e
      | Inr docs \<Rightarrow> Inr (resource_limits_from_documents from_doc docs))"

subsection \<open>Effective limits of a user and of a key\<close>

definition compute_user_role_constraints ::
  "(json \<Rightarrow> PolicyConstraints option) \<Rightarrow> string option \<Rightarrow> rbac_db \<Rightarrow> uuid \<Rightarrow> string + SurfaceConstraints" where
  "compute_user_role_constraints from_cons err db user =
     (case load_gateway_policy_documents err db user of
        Inl e \<Rightarrow> Inl e
      | Inr docs \<Rightarrow> Inr (merge_most_restrictive (map (extract_surface_constraints from_cons) docs)))"

record limit_db =
  rbac_part :: rbac_db
  rate_limit_rules :: "rule_row list"
  budget_caps :: "cap_row list"

text \<open>\<open>errs\<close> are the errors of the role query, the rule query and the cap query.\<close>

definition compute_user_surface_constraints ::
  "(json \<Rightarrow> PolicyConstraints option) \<Rightarrow> string option \<times> string option \<times> string option \<Rightarrow>
   limit_db \<Rightarrow> int \<Rightarrow> uuid \<Rightarrow> string + SurfaceConstraints" where
  "compute_user_surface_constraints from_cons errs db now user =
     (case errs of (e1, e2, e3) \<Rightarrow>
        case compute_user_role_constraints from_cons e1 (rbac_part db) user of
          Inl e \<Rightarrow> Inl e
        | Inr role_merged \<Rightarrow>
            (case list_enabled_rules_for_subjects (\<lambda>_. e2) (rate_limit_rules db) now [(RUser, user)] of
               Inl e \<Rightarrow> Inl e
             | Inr rule_overrides \<Rightarrow>
                 (case list_enabled_caps_for_subjects (\<lambda>_. e3) (budget_caps db) now [(BUser, user)] of
                    Inl e \<Rightarrow> Inl e
                  | Inr cap_overrides \<Rightarrow>
                      (let ov = side_table_as_constraints rule_overrides cap_overrides in
                       if ov = SurfaceConstraints_default then Inr role_merged
                       else Inr (apply_user_overrides role_merged ov)))))"

definition compute_key_surface_constraints ::
  "string option \<times> string option \<Rightarrow> limit_db \<Rightarrow> int \<Rightarrow> uuid \<Rightarrow> string + SurfaceConstraints" where
  "compute_key_surface_constraints errs db now lineage =
     (case list_enabled_rules_for_subjects (\<lambda>_. fst errs) (rate_limit_rules db) now [(RApiKeyLineage, lineage)] of
        Inl e \<Rightarrow> Inl e
      | Inr rs \<Rightarrow>
          (case list_enabled_caps_for_subjects (\<lambda>_. snd errs) (budget_caps db) now [(BApiKeyLineage, lineage)] of
             Inl e \<Rightarrow> Inl e
           | Inr cs \<Rightarrow> Inr (side_table_as_constraints rs cs)))"

end
