(* ===== verification/Policy_Props.thy ===== *)
theory Policy_Props
  imports Limits_Policy
begin

section \<open>Policies and limits: theorems\<close>

text \<open>
  What the operations of \<open>Limits_Policy\<close> promise: the merge computes a minimum per key, overrides
  replace exactly the entries with their key, a scope is what the granting statements list, and
  validated limits stay valid from the policy document to the request.
\<close>

definition rules_on :: "SurfaceConstraints \<Rightarrow> Surface \<Rightarrow> SurfaceRule list" where
  "rules_on c u = (case block c u of None \<Rightarrow> [] | Some b \<Rightarrow> rules b)"

definition budgets_on :: "SurfaceConstraints \<Rightarrow> Surface \<Rightarrow> SurfaceBudget list" where
  "budgets_on c u = (case block c u of None \<Rightarrow> [] | Some b \<Rightarrow> budgets b)"

definition rule_key :: "SurfaceRule \<Rightarrow> RateMetric \<times> int" where
  "rule_key r = (sr_metric r, sr_window_secs r)"

lemma some_unless_empty_simps [simp]:
  "(case some_unless_empty b of None \<Rightarrow> [] | Some b \<Rightarrow> rules b) = rules b"
  "(case some_unless_empty b of None \<Rightarrow> [] | Some b \<Rightarrow> budgets b) = budgets b"
  by (simp_all add: some_unless_empty_def)

subsection \<open>Minimum per key\<close>

text \<open>The fold both maps of \<^verbatim>\<open>merge_most_restrictive\<close> are: insert, or keep the smaller value.\<close>

definition min_entry :: "'k \<times> int \<Rightarrow> ('k \<times> int) list \<Rightarrow> ('k \<times> int) list" where
  "min_entry e m = entry_upd (fst e) (\<lambda>v. if snd e < v then snd e else v) (snd e) m"

lemma min_entry_pair: "min_entry (k, n) m = entry_upd k (\<lambda>v. if n < v then n else v) n m"
  by (simp add: min_entry_def cong: if_cong)

lemma distinct_min_entries: "distinct (map fst m) \<Longrightarrow> distinct (map fst (fold min_entry es m))"
  by (induction es arbitrary: m) (simp_all add: min_entry_def)

lemma min_entries_None: "map_of (fold min_entry es m) k = None \<longleftrightarrow> map_of m k = None \<and> k \<notin> fst ` set es"
  by (induction es arbitrary: m) (auto simp: min_entry_def split: option.splits if_splits)

definition least_of :: "int set \<Rightarrow> int \<Rightarrow> bool" where
  "least_of S n \<longleftrightarrow> n \<in> S \<and> (\<forall>x \<in> S. n \<le> x)"

lemma least_of_unique: "least_of S v \<Longrightarrow> least_of S w \<longleftrightarrow> w = v"
  by (auto simp: least_of_def intro: order.antisym)

lemma least_of_insert: "least_of S w \<Longrightarrow> least_of (insert n S) (if n < w then n else w)"
  by (auto simp: least_of_def)

lemma map_of_min_entries:
  "map_of (fold min_entry es []) k = Some v \<longleftrightarrow> least_of {x. (k, x) \<in> set es} v"
proof (induction es arbitrary: v rule: rev_induct)
  case (snoc e es)
  obtain k' n where e: "e = (k', n)" by fastforce
  let ?S = "{x. (k, x) \<in> set es}"
  have S: "{x. (k, x) \<in> set (es @ [e])} = (if k' = k then insert n ?S else ?S)" by (auto simp: e)
  show ?case
  proof (cases "map_of (fold min_entry es []) k")
    case None
    then have "(k, x) \<notin> set es" for x by (force simp: min_entries_None)
    with None e show ?thesis by (auto simp: min_entry_pair least_of_def)
  next
    case (Some w)
    then have "map_of (fold min_entry (es @ [e]) []) k = Some (if k' = k then (if n < w then n else w) else w)"
      by (auto simp: e min_entry_pair)
    moreover from Some snoc.IH have "least_of ?S w" by simp
    ultimately show ?thesis
      using S least_of_insert [of ?S w n] by (auto simp: least_of_unique)
  qed
qed (simp add: least_of_def)

lemma set_min_entries:
  "(k, v) \<in> set (fold min_entry es []) \<longleftrightarrow> least_of {x. (k, x) \<in> set es} v"
  using distinct_min_entries [of "[]" es] by (simp add: map_of_min_entries [symmetric])

definition rule_entries :: "string \<Rightarrow> SurfaceRule list \<Rightarrow> ((string \<times> RateMetric \<times> int) \<times> int) list" where
  "rule_entries sk rs =
     map (\<lambda>r. ((sk, rule_key r), sr_max_count r)) (filter (\<lambda>r. sr_enabled r \<and> 0 < sr_max_count r) rs)"

definition budget_entries :: "string \<Rightarrow> SurfaceBudget list \<Rightarrow> ((string \<times> BudgetPeriod) \<times> int) list" where
  "budget_entries sk bs =
     map (\<lambda>b. ((sk, sb_period b), sb_limit_tokens b)) (filter (\<lambda>b. sb_enabled b \<and> 0 < sb_limit_tokens b) bs)"

lemma fold_merge_rule: "fold (merge_rule sk) rs m = fold min_entry (rule_entries sk rs) m"
  by (induction rs arbitrary: m) (auto simp: merge_rule_def rule_entries_def min_entry_pair rule_key_def)

lemma fold_merge_budget: "fold (merge_budget sk) bs m = fold min_entry (budget_entries sk bs) m"
  by (induction bs arbitrary: m) (auto simp: merge_budget_def budget_entries_def min_entry_pair)

definition all_surfaces :: "Surface list" where
  "all_surfaces = [AiGateway, McpGateway]"

lemma set_all_surfaces [simp]: "set all_surfaces = UNIV"
  using Surface.exhaust by (auto simp: all_surfaces_def)

lemma merge_input_eq:
  "merge_input c acc =
    (fold min_entry (concat (map (\<lambda>u. rule_entries (Surface_as_str u) (rules_on c u)) all_surfaces)) (fst acc),
     fold min_entry (concat (map (\<lambda>u. budget_entries (Surface_as_str u) (budgets_on c u)) all_surfaces)) (snd acc))"
  by (simp add: merge_input_def merge_block_def fold_merge_rule fold_merge_budget all_surfaces_def
      rule_entries_def budget_entries_def rules_on_def budgets_on_def split: option.split)

definition all_rule_entries :: "SurfaceConstraints list \<Rightarrow> ((string \<times> RateMetric \<times> int) \<times> int) list" where
  "all_rule_entries cs =
     concat (map (\<lambda>c. concat (map (\<lambda>u. rule_entries (Surface_as_str u) (rules_on c u)) all_surfaces)) cs)"

definition all_budget_entries :: "SurfaceConstraints list \<Rightarrow> ((string \<times> BudgetPeriod) \<times> int) list" where
  "all_budget_entries cs =
     concat (map (\<lambda>c. concat (map (\<lambda>u. budget_entries (Surface_as_str u) (budgets_on c u)) all_surfaces)) cs)"

lemma fold_merge_input:
  "fold merge_input cs acc =
     (fold min_entry (all_rule_entries cs) (fst acc), fold min_entry (all_budget_entries cs) (snd acc))"
  by (induction cs arbitrary: acc)
     (simp_all add: merge_input_eq all_rule_entries_def all_budget_entries_def)

subsection \<open>The merge\<close>

lemma Surface_as_str_eq [simp]: "Surface_as_str u = Surface_as_str v \<longleftrightarrow> u = v"
  by (rule surface.as_str_inj)

lemma entries_on_surface:
  "e \<in> set (all_rule_entries cs) \<Longrightarrow> \<exists>u. fst (fst e) = Surface_as_str u"
  "f \<in> set (all_budget_entries cs) \<Longrightarrow> \<exists>u. fst (fst f) = Surface_as_str u"
  by (auto simp: all_rule_entries_def all_budget_entries_def rule_entries_def budget_entries_def)

lemma filter_surface:
  assumes "\<forall>e \<in> set es. \<exists>u. fst (fst e) = Surface_as_str u"
  shows "filter (\<lambda>e. fst (fst e) \<noteq> Surface_as_str AiGateway) es =
    filter (\<lambda>e. fst (fst e) = Surface_as_str McpGateway) es"
proof (rule filter_cong [OF refl])
  fix e assume "e \<in> set es"
  with assms obtain u where "fst (fst e) = Surface_as_str u" by blast
  then show "(fst (fst e) \<noteq> Surface_as_str AiGateway) = (fst (fst e) = Surface_as_str McpGateway)"
    by (cases u) (auto simp del: Surface_as_str.simps)
qed

lemma set_fold_min_subset: "set (fold min_entry es []) \<subseteq> set es"
proof
  fix e assume "e \<in> set (fold min_entry es [])"
  moreover obtain k v where "e = (k, v)" by fastforce
  ultimately show "e \<in> set es" by (simp add: set_min_entries least_of_def)
qed

lemma merge_rules_on:
  "rules_on (merge_most_restrictive cs) u =
     map merged_rule (filter (\<lambda>e. fst (fst e) = Surface_as_str u) (fold min_entry (all_rule_entries cs) []))"
  using filter_surface [of "fold min_entry (all_rule_entries cs) []"] set_fold_min_subset entries_on_surface(1)
  by (cases u) (fastforce simp: rules_on_def budgets_on_def merge_most_restrictive_def fold_merge_input Let_def simp del: Surface_as_str.simps)+

lemma merge_budgets_on:
  "budgets_on (merge_most_restrictive cs) u =
     map merged_budget (filter (\<lambda>e. fst (fst e) = Surface_as_str u) (fold min_entry (all_budget_entries cs) []))"
  using filter_surface [of "fold min_entry (all_budget_entries cs) []"] set_fold_min_subset entries_on_surface(2)
  by (cases u) (fastforce simp: rules_on_def budgets_on_def merge_most_restrictive_def fold_merge_input Let_def simp del: Surface_as_str.simps)+

text \<open>The limits the roles set on one surface for one key.\<close>

definition rule_limits :: "SurfaceConstraints list \<Rightarrow> Surface \<Rightarrow> RateMetric \<times> int \<Rightarrow> int set" where
  "rule_limits cs u k =
     {sr_max_count r | r c. c \<in> set cs \<and> r \<in> set (rules_on c u) \<and> rule_key r = k \<and> sr_enabled r \<and>
        0 < sr_max_count r}"

definition budget_limits :: "SurfaceConstraints list \<Rightarrow> Surface \<Rightarrow> BudgetPeriod \<Rightarrow> int set" where
  "budget_limits cs u p =
     {sb_limit_tokens b | b c. c \<in> set cs \<and> b \<in> set (budgets_on c u) \<and> sb_period b = p \<and> sb_enabled b \<and>
        0 < sb_limit_tokens b}"

lemma all_rule_entries_iff: "((Surface_as_str u, k), n) \<in> set (all_rule_entries cs) \<longleftrightarrow> n \<in> rule_limits cs u k"
  by (simp add: all_rule_entries_def rule_entries_def rule_limits_def image_iff) blast

lemma all_budget_entries_iff: "((Surface_as_str u, p), n) \<in> set (all_budget_entries cs) \<longleftrightarrow> n \<in> budget_limits cs u p"
  by (simp add: all_budget_entries_def budget_entries_def budget_limits_def image_iff) blast

lemma merge_rule_iff:
  "r \<in> set (rules_on (merge_most_restrictive cs) u) \<longleftrightarrow>
     sr_enabled r \<and> least_of (rule_limits cs u (rule_key r)) (sr_max_count r)"
proof -
  have "r \<in> set (rules_on (merge_most_restrictive cs) u) \<longleftrightarrow>
      (\<exists>k n. r = merged_rule ((Surface_as_str u, k), n) \<and> ((Surface_as_str u, k), n) \<in> set (fold min_entry (all_rule_entries cs) []))"
    by (force simp: merge_rules_on)
  also have "\<dots> \<longleftrightarrow> (\<exists>k n. r = merged_rule ((Surface_as_str u, k), n) \<and> least_of (rule_limits cs u k) n)"
    by (simp add: set_min_entries all_rule_entries_iff)
  also have "\<dots> \<longleftrightarrow> sr_enabled r \<and> least_of (rule_limits cs u (rule_key r)) (sr_max_count r)"
    by (cases r) (auto simp: merged_rule_def rule_key_def)
  finally show ?thesis .
qed

lemma merge_budget_iff:
  "b \<in> set (budgets_on (merge_most_restrictive cs) u) \<longleftrightarrow>
     sb_enabled b \<and> least_of (budget_limits cs u (sb_period b)) (sb_limit_tokens b)"
proof -
  have "b \<in> set (budgets_on (merge_most_restrictive cs) u) \<longleftrightarrow>
      (\<exists>k n. b = merged_budget ((Surface_as_str u, k), n) \<and> ((Surface_as_str u, k), n) \<in> set (fold min_entry (all_budget_entries cs) []))"
    by (force simp: merge_budgets_on)
  also have "\<dots> \<longleftrightarrow> (\<exists>k n. b = merged_budget ((Surface_as_str u, k), n) \<and> least_of (budget_limits cs u k) n)"
    by (simp add: set_min_entries all_budget_entries_iff)
  also have "\<dots> \<longleftrightarrow> sb_enabled b \<and> least_of (budget_limits cs u (sb_period b)) (sb_limit_tokens b)"
    by (cases b) (auto simp: merged_budget_def)
  finally show ?thesis .
qed

lemma distinct_merge_keys:
  "distinct (map rule_key (rules_on (merge_most_restrictive cs) u))"
  "distinct (map sb_period (budgets_on (merge_most_restrictive cs) u))"
proof -
  have proj: "distinct (map f (map g (filter (\<lambda>e. fst (fst e) = sk) es)))"
    if "distinct (map fst es)" "\<And>k n. f (g ((sk, k), n)) = k"
    for f :: "'b \<Rightarrow> 'c" and g :: "(string \<times> 'c) \<times> int \<Rightarrow> 'b" and es sk
    using that by (induction es) (auto simp: image_iff)
  show "distinct (map rule_key (rules_on (merge_most_restrictive cs) u))"
    unfolding merge_rules_on
    by (rule proj) (auto intro: distinct_min_entries simp: rule_key_def merged_rule_def)
  show "distinct (map sb_period (budgets_on (merge_most_restrictive cs) u))"
    unfolding merge_budgets_on
    by (rule proj) (auto intro: distinct_min_entries simp: merged_budget_def)
qed

text \<open>
  Most restrictive wins: on each surface the merged set has, for a metric and window, an entry
  exactly when some role limits it, and the entry's limit is the least of the enabled positive limits
  the roles set; the same for budgets per period. There is one entry per key, and nothing depends on
  the order of the roles.
\<close>

theorem merge_takes_minimum:
  "(r \<in> set (rules_on (merge_most_restrictive cs) u) \<longleftrightarrow>
      sr_enabled r \<and> least_of (rule_limits cs u (rule_key r)) (sr_max_count r)) \<and>
   (b \<in> set (budgets_on (merge_most_restrictive cs) u) \<longleftrightarrow>
      sb_enabled b \<and> least_of (budget_limits cs u (sb_period b)) (sb_limit_tokens b)) \<and>
   distinct (map rule_key (rules_on (merge_most_restrictive cs) u)) \<and>
   distinct (map sb_period (budgets_on (merge_most_restrictive cs) u))"
  using merge_rule_iff merge_budget_iff distinct_merge_keys by blast

subsection \<open>Overrides\<close>

lemma filter_fold_override_rule:
  "filter (\<lambda>r. rule_key r = k) (fold override_rule ovs rs) =
    (case filter (\<lambda>r. rule_key r = k) ovs of [] \<Rightarrow> filter (\<lambda>r. rule_key r = k) rs | xs \<Rightarrow> [last xs])"
proof (induction ovs rule: rev_induct)
  case (snoc ov ovs)
  have "filter (\<lambda>r. rule_key r = k) (override_rule ov xs) =
      (if rule_key ov = k then [ov] else filter (\<lambda>r. rule_key r = k) xs)" for xs
    by (auto simp: override_rule_def rule_key_def filter_empty_conv intro!: filter_cong)
  with snoc show ?case by (auto split: list.splits)
qed simp

lemma filter_fold_override_budget:
  "filter (\<lambda>b. sb_period b = p) (fold override_budget ovs bs) =
    (case filter (\<lambda>b. sb_period b = p) ovs of [] \<Rightarrow> filter (\<lambda>b. sb_period b = p) bs | xs \<Rightarrow> [last xs])"
proof (induction ovs rule: rev_induct)
  case (snoc ov ovs)
  have "filter (\<lambda>b. sb_period b = p) (override_budget ov xs) =
      (if sb_period ov = p then [ov] else filter (\<lambda>b. sb_period b = p) xs)" for xs
    by (auto simp: override_budget_def filter_empty_conv intro!: filter_cong)
  with snoc show ?case by (auto split: list.splits)
qed simp

lemma apply_overrides_on:
  "rules_on (apply_user_overrides base ov) u = fold override_rule (rules_on ov u) (rules_on base u)"
  "budgets_on (apply_user_overrides base ov) u = fold override_budget (budgets_on ov u) (budgets_on base u)"
  by (cases u; simp add: rules_on_def budgets_on_def apply_user_overrides_def apply_block_overrides_def
      SurfaceBlock_default_def Let_def split: option.split)+

text \<open>
  An override replaces and nothing else: on every surface the entries for a metric and window are
  the last override for it when there is one, tighter or looser than the role's, and the role's own
  entries when there is none; budgets likewise by period.
\<close>

theorem overrides_replace_by_key:
  "filter (\<lambda>r. rule_key r = k) (rules_on (apply_user_overrides base ov) u) =
     (case filter (\<lambda>r. rule_key r = k) (rules_on ov u) of
        [] \<Rightarrow> filter (\<lambda>r. rule_key r = k) (rules_on base u) | xs \<Rightarrow> [last xs]) \<and>
   filter (\<lambda>b. sb_period b = p) (budgets_on (apply_user_overrides base ov) u) =
     (case filter (\<lambda>b. sb_period b = p) (budgets_on ov u) of
        [] \<Rightarrow> filter (\<lambda>b. sb_period b = p) (budgets_on base u) | xs \<Rightarrow> [last xs])"
  by (simp add: apply_overrides_on filter_fold_override_rule filter_fold_override_budget)

lemma distinct_override:
  "distinct (map rule_key rs) \<Longrightarrow> distinct (map rule_key (fold override_rule ovs rs))"
  "distinct (map sb_period bs) \<Longrightarrow> distinct (map sb_period (fold override_budget ovb bs))"
proof -
  have "distinct (map rule_key (override_rule ov xs))" if "distinct (map rule_key xs)" for ov xs
    using that by (auto simp: override_rule_def rule_key_def distinct_map_filter)
  then show "distinct (map rule_key rs) \<Longrightarrow> distinct (map rule_key (fold override_rule ovs rs))"
    by (induction ovs arbitrary: rs) auto
  have "distinct (map sb_period (override_budget ov xs))" if "distinct (map sb_period xs)" for ov xs
    using that by (auto simp: override_budget_def distinct_map_filter)
  then show "distinct (map sb_period bs) \<Longrightarrow> distinct (map sb_period (fold override_budget ovb bs))"
    by (induction ovb arbitrary: bs) auto
qed

lemma distinct_effective:
  "distinct (map rule_key (rules_on (apply_user_overrides (merge_most_restrictive cs) ov) u))"
  "distinct (map sb_period (budgets_on (apply_user_overrides (merge_most_restrictive cs) ov) u))"
  by (simp_all add: apply_overrides_on distinct_override distinct_merge_keys)

subsection \<open>Validated limits stay valid\<close>

lemma all_surfaces_iff: "(\<forall>u. P u) \<longleftrightarrow> P AiGateway \<and> P McpGateway"
  using Surface.exhaust by metis

lemma constraints_ok_iff:
  "constraints_ok c \<longleftrightarrow>
     (\<forall>u. (\<forall>r \<in> set (rules_on c u). rule_ok r) \<and> (\<forall>b \<in> set (budgets_on c u). 0 < sb_limit_tokens b))"
  unfolding all_surfaces_iff
  by (cases "ai_gateway c"; cases "mcp_gateway c")
     (simp_all add: constraints_ok_def block_ok_def rules_on_def budgets_on_def list_all_iff)

definition policy_ok :: "PolicyConstraints \<Rightarrow> bool" where
  "policy_ok c \<longleftrightarrow> list_all rate_limit_ok (rate_limits c) \<and> list_all policy_budget_ok (pc_budgets c)"

lemma append_rules_ok:
  "list_all rate_limit_ok rls \<Longrightarrow> block_ok b \<Longrightarrow> block_ok (fold append_rule rls b)"
proof (induction rls arbitrary: b)
  case (Cons rl rls)
  from Cons.prems obtain m w where mw: "RateMetric_parse (pr_metric rl) = Some m"
    "window_to_secs (pr_window rl) = Some w" "0 < pr_max_count rl"
    by (auto simp: rate_limit_ok_def)
  with Cons.prems have "block_ok (append_rule rl b)"
    by (simp add: append_rule_def block_ok_def rule_ok_def window_to_secs_allowed)
  with Cons show ?case by simp
qed simp

lemma append_budgets_ok:
  "list_all policy_budget_ok bs \<Longrightarrow> block_ok b \<Longrightarrow> block_ok (fold append_budget bs b)"
  by (induction bs arbitrary: b) (auto simp: append_budget_def block_ok_def policy_budget_ok_def split: option.splits)

lemma append_constraints_ok: "policy_ok c \<Longrightarrow> block_ok b \<Longrightarrow> block_ok (append_constraints c b)"
  by (simp add: append_constraints_def policy_ok_def append_rules_ok append_budgets_ok)

lemma extract_stmts_ok:
  assumes "\<And>v c. from_value v = Some c \<Longrightarrow> policy_ok c"
  shows "block_ok (fst acc) \<Longrightarrow> block_ok (snd acc) \<Longrightarrow>
    block_ok (fst (fold (extract_stmt from_value) stmts acc)) \<and>
    block_ok (snd (fold (extract_stmt from_value) stmts acc))"
proof (induction stmts arbitrary: acc)
  case (Cons stmt stmts)
  have "block_ok (fst (extract_stmt from_value stmt acc)) \<and> block_ok (snd (extract_stmt from_value stmt acc))"
    using Cons.prems assms append_constraints_ok
    by (auto simp: extract_stmt_def Let_def split: option.split)
  with Cons show ?case by simp
qed simp

lemma extract_ok:
  assumes "\<And>v c. from_value v = Some c \<Longrightarrow> policy_ok c"
  shows "constraints_ok (extract_surface_constraints from_value doc)"
proof -
  have "block_ok SurfaceBlock_default" by (simp add: block_ok_def SurfaceBlock_default_def)
  with extract_stmts_ok [OF assms, where acc = "(SurfaceBlock_default, SurfaceBlock_default)"] show ?thesis
    by (auto simp: extract_surface_constraints_def constraints_ok_def SurfaceConstraints_default_def
        some_unless_empty_def case_prod_unfold split: option.split)
qed

lemma least_of_rule_limits_ok:
  assumes "\<forall>c \<in> set cs. constraints_ok c" "r \<in> set (rules_on (merge_most_restrictive cs) u)"
  shows "rule_ok r"
proof -
  from assms(2) obtain r' c where "c \<in> set cs" "r' \<in> set (rules_on c u)" "rule_key r' = rule_key r"
      "sr_max_count r' = sr_max_count r" "0 < sr_max_count r"
    by (auto simp: merge_rule_iff least_of_def rule_limits_def)
  moreover from this assms(1) have "rule_ok r'" by (auto simp: constraints_ok_iff)
  ultimately show ?thesis by (simp add: rule_ok_def rule_key_def)
qed

lemma merge_ok: "\<forall>c \<in> set cs. constraints_ok c \<Longrightarrow> constraints_ok (merge_most_restrictive cs)"
  using least_of_rule_limits_ok
  by (subst constraints_ok_iff) (auto simp: merge_budget_iff least_of_def budget_limits_def)

lemma set_fold_override:
  "set (fold override_rule ovs rs) \<subseteq> set ovs \<union> set rs"
  "set (fold override_budget ovb bs) \<subseteq> set ovb \<union> set bs"
proof -
  show "set (fold override_rule ovs rs) \<subseteq> set ovs \<union> set rs"
    by (induction ovs arbitrary: rs) (fastforce simp: override_rule_def)+
  show "set (fold override_budget ovb bs) \<subseteq> set ovb \<union> set bs"
    by (induction ovb arbitrary: bs) (fastforce simp: override_budget_def)+
qed

lemma override_ok: "constraints_ok base \<Longrightarrow> constraints_ok ov \<Longrightarrow> constraints_ok (apply_user_overrides base ov)"
  using set_fold_override by (fastforce simp: constraints_ok_iff apply_overrides_on)

definition side_block :: "RateLimitRule list \<Rightarrow> BudgetCap list \<Rightarrow> Surface \<Rightarrow> SurfaceRule list \<times> SurfaceBudget list" where
  "side_block rs cs u =
     (map (\<lambda>r. \<lparr>sr_metric = rl_metric r, sr_window_secs = rl_window_secs r, sr_max_count = rl_max_count r,
                sr_enabled = True\<rparr>) (filter (\<lambda>r. rl_enabled r \<and> rl_surface r = u) rs),
      map (\<lambda>c. \<lparr>sb_period = bc_period c, sb_limit_tokens = bc_limit_tokens c, sb_enabled = True\<rparr>)
        (filter bc_enabled cs))"

lemma push_on:
  "rules_on (block_mut c v (push_rule r)) u = rules_on c u @ (if u = v then [r] else [])"
  "budgets_on (block_mut c v (push_rule r)) u = budgets_on c u"
  "rules_on (block_mut c v (push_budget b)) u = rules_on c u"
  "budgets_on (block_mut c v (push_budget b)) u = budgets_on c u @ (if u = v then [b] else [])"
  by (auto simp: rules_on_def budgets_on_def push_rule_def push_budget_def SurfaceBlock_default_def Let_def
      split: option.splits)

lemma fold_side_rule:
  "rules_on (fold side_rule rs c) u = rules_on c u @ fst (side_block rs cs u)"
  "budgets_on (fold side_rule rs c) u = budgets_on c u"
  by (induction rs arbitrary: c) (auto simp: side_rule_def push_on side_block_def)

lemma fold_side_cap:
  "rules_on (fold side_cap cs c) u = rules_on c u"
  "budgets_on (fold side_cap cs c) u = budgets_on c u @ snd (side_block rs cs u)"
proof -
  show "rules_on (fold side_cap cs c) u = rules_on c u"
    by (induction cs arbitrary: c) (auto simp: side_cap_def push_on Let_def simp del: block_mut.simps)
  show "budgets_on (fold side_cap cs c) u = budgets_on c u @ snd (side_block rs cs u)"
    by (induction cs arbitrary: c; cases u) (auto simp: side_cap_def push_on side_block_def Let_def simp del: block_mut.simps)
qed

text \<open>
  The side tables as constraints: on each surface the enabled rules of that surface in order, and
  every enabled cap on both surfaces, since a cap has no surface.
\<close>

theorem side_table_entries:
  "rules_on (side_table_as_constraints rs cs) u = fst (side_block rs cs u) \<and>
   budgets_on (side_table_as_constraints rs cs) u = snd (side_block rs cs u)"
proof -
  have "rules_on SurfaceConstraints_default u = []" "budgets_on SurfaceConstraints_default u = []"
    by (cases u; simp add: rules_on_def budgets_on_def SurfaceConstraints_default_def)+
  then show ?thesis
    by (simp add: side_table_as_constraints_def fold_side_cap(1) fold_side_cap(2) [where rs = rs]
        fold_side_rule(1) [where cs = cs] fold_side_rule(2))
qed

subsection \<open>Scopes and permissions of a document\<close>

text \<open>The resources of the statements that grant an action.\<close>

definition grants :: "string \<Rightarrow> json \<Rightarrow> bool" where
  "grants action stmt \<longleftrightarrow> stmt_effect stmt = ''Allow'' \<and> action_matches_any (stmt_actions stmt) action"

definition granted_resources :: "string \<Rightarrow> json list \<Rightarrow> string set" where
  "granted_resources action stmts = {r. \<exists>stmt \<in> set stmts. grants action stmt \<and> r \<in> set (stmt_resources stmt)}"

lemma scope_resources_eq:
  "scope_resources pre items rs =
     (if ''*'' \<in> set rs then None else Some (items @ List.map_filter (\<lambda>r. strip_prefix r pre) rs))"
  by (induction pre items rs rule: scope_resources.induct) (auto simp: List.map_filter_def split: option.splits)

lemma set_map_filter_strip: "set (List.map_filter (\<lambda>r. strip_prefix r pre) rs) = {x. pre @ x \<in> set rs}"
proof -
  have "x \<in> set (List.map_filter (\<lambda>r. strip_prefix r pre) rs) \<longleftrightarrow> (\<exists>r \<in> set rs. strip_prefix r pre = Some x)" for x
    by (induction rs) (auto simp: List.map_filter_def)
  then show ?thesis by (auto simp: strip_prefix_Some)
qed

definition scope_of :: "string \<Rightarrow> bool \<Rightarrow> string set \<Rightarrow> string list \<Rightarrow> ResourceScope" where
  "scope_of pre granted rs items =
     (if ''*'' \<in> rs then AllResources
      else if granted then Only (sorted_list_of_set (set items \<union> {x. pre @ x \<in> rs}))
      else NotGranted)"

lemma btree_sorted_list: "btree xs = sorted_list_of_set (set xs)"
  by (simp add: btree_def sorted_list_of_set_sort_remdups)

lemma scope_stmts_eq:
  "scope_stmts action pre granted items stmts =
     scope_of pre (granted \<or> list_ex (grants action) stmts) (granted_resources action stmts) items"
proof (induction action pre granted items stmts rule: scope_stmts.induct)
  case (1 action pre granted items)
  then show ?case by (simp add: scope_of_def granted_resources_def btree_sorted_list)
next
  case (2 action pre granted items stmt stmts)
  have res: "granted_resources action (stmt # stmts) =
      (if grants action stmt then set (stmt_resources stmt) else {}) \<union> granted_resources action stmts"
    by (auto simp: granted_resources_def)
  show ?case
  proof (cases "grants action stmt")
    case False
    with 2(1,2) res show ?thesis by (auto simp: grants_def)
  next
    case True
    let ?new = "List.map_filter (\<lambda>r. strip_prefix r pre) (stmt_resources stmt)"
    show ?thesis
    proof (cases "''*'' \<in> set (stmt_resources stmt)")
      case star: True
      with True res show ?thesis by (simp add: scope_resources_eq grants_def scope_of_def)
    next
      case False
      have "set (items @ ?new) \<union> {x. pre @ x \<in> granted_resources action stmts} =
          set items \<union> {x. pre @ x \<in> granted_resources action (stmt # stmts)}"
        using True by (auto simp: res set_map_filter_strip)
      moreover have "scope_stmts action pre True (items @ ?new) stmts =
          scope_of pre True (granted_resources action stmts) (items @ ?new)"
        using 2(3) [of "items @ ?new"] True False by (simp add: scope_resources_eq grants_def)
      ultimately show ?thesis
        using True False by (simp add: scope_resources_eq scope_of_def grants_def res)
    qed
  qed
qed

text \<open>
  What a document grants on a gateway: nothing without an Allow statement for the gateway's action;
  everything when such a statement has the resource \<open>*\<close>, wherever it stands; otherwise exactly the
  named resources of the gateway's kind, each once, in order. A Deny or unrelated statement adds nothing.
\<close>

theorem resource_scope_exact:
  "extract_resource_scope doc action pre =
     (let stmts = unwrap_or (doc_statements doc) [] in
      if ''*'' \<in> granted_resources action stmts then AllResources
      else if list_ex (grants action) stmts
           then Only (sorted_list_of_set {x. pre @ x \<in> granted_resources action stmts})
      else NotGranted)"
proof (cases "doc_statements doc")
  case None
  then show ?thesis by (simp add: extract_resource_scope_def granted_resources_def)
next
  case (Some stmts)
  then show ?thesis by (simp add: extract_resource_scope_def scope_stmts_eq scope_of_def Let_def)
qed

text \<open>An action pattern covers a permission of the catalogue.\<close>

definition covers :: "string \<Rightarrow> string \<Rightarrow> bool" where
  "covers action p \<longleftrightarrow> action = ''*'' \<or> action = p \<or> (\<exists>res rest. action = res @ '':*'' \<and> p = res @ '':'' @ rest)"

lemma action_perms_iff:
  "p \<in> set all_perms \<Longrightarrow> p \<noteq> ''*'' \<Longrightarrow> \<not> ends_with p '':*'' \<Longrightarrow> p \<in> set (action_perms all_perms a) \<longleftrightarrow> covers a p"
proof -
  assume p: "p \<in> set all_perms" "p \<noteq> ''*''" "\<not> ends_with p '':*''"
  have "starts_with p (take (length a - 1) a) \<longleftrightarrow> (\<exists>rest. p = res @ '':'' @ rest)" if "a = res @ '':*''" for res
    using that by (simp add: starts_with_iff)
  with p show ?thesis
    by (auto simp: action_perms_def covers_def ends_with_iff)
qed

lemma action_matches_any_iff: "action_matches_any actions t \<longleftrightarrow> (\<exists>a \<in> set actions. covers a t)"
proof -
  have "(case strip_suffix a ''*'' of None \<Rightarrow> False
      | Some prefix \<Rightarrow> ends_with prefix '':'' \<and> starts_with t prefix) \<longleftrightarrow>
    (\<exists>res rest. a = res @ '':*'' \<and> t = res @ '':'' @ rest)" for a
  proof (cases "strip_suffix a ''*''")
    case None
    then have "a \<noteq> (res @ '':'') @ ''*''" for res by (metis option.distinct(1) strip_suffix_Some)
    with None show ?thesis by simp
  next
    case (Some q)
    then have "a = q @ ''*''" by (simp add: strip_suffix_Some)
    with Some show ?thesis by (auto simp: ends_with_iff starts_with_iff)
  qed
  then show ?thesis by (auto simp: action_matches_any_def list_ex_iff covers_def)
qed

text \<open>
  The permission list the console shows and the gateways' own test agree: a catalogue permission is
  listed for a document exactly when an Allow statement grants it by the gateways' action matching, each
  permission once and in order.
\<close>

theorem permissions_agree_with_matching:
  assumes "p \<in> set all_perms" and "p \<noteq> ''*''" and "\<not> ends_with p '':*''"
  shows "(p \<in> set (extract_permissions doc all_perms) \<longleftrightarrow>
      list_ex (grants p) (unwrap_or (doc_statements doc) [])) \<and>
    sorted (extract_permissions doc all_perms) \<and> distinct (extract_permissions doc all_perms)"
proof (cases "doc_statements doc")
  case (Some stmts)
  have "p \<in> set (extract_permissions doc all_perms) \<longleftrightarrow>
      (\<exists>stmt \<in> set stmts. stmt_effect stmt = ''Allow'' \<and> (\<exists>a \<in> set (stmt_actions stmt). covers a p))"
    using Some action_perms_iff [OF assms] by (auto simp: extract_permissions_def)
  then show ?thesis
    using Some by (auto simp: list_ex_iff grants_def action_matches_any_iff extract_permissions_def)
qed (simp add: extract_permissions_def)

theorem permissions_agree_with_matching_witness:
  "''models:read'' \<in> set (extract_permissions
     (JObject [(''Statement'', JArray [JObject [(''Effect'', JString ''Allow''), (''Action'', JString ''models:*'')]])])
     [''models:read'', ''keys:write''])"
proof -
  let ?doc = "JObject [(''Statement'', JArray [JObject [(''Effect'', JString ''Allow''), (''Action'', JString ''models:*'')]])]"
  have "list_ex (grants ''models:read'') (unwrap_or (doc_statements ?doc) [])"
    unfolding grants_def by code_simp
  moreover have "\<not> ends_with ''models:read'' '':*''" by code_simp
  ultimately show ?thesis
    using permissions_agree_with_matching [of "''models:read''" "[''models:read'', ''keys:write'']" ?doc] by simp
qed

end
