(* ===== verification/Tables_Props.thy ===== *)
theory Tables_Props
  imports Limits_Tables
begin

section \<open>The limit tables: theorems\<close>

text \<open>
  Both tables have the same contract: a row is found by its unique columns, an upsert replaces the row
  with those columns and keeps its id, a delete needs the id and the subject. The locale \<open>keyed_table\<close>
  states what the insert-or-update of a table does; its lemmas are proved once, and the two tables are
  interpretations of it.
\<close>

locale keyed_table =
  fixes key :: "'r \<Rightarrow> 'k"
    and ident :: "'r \<Rightarrow> uuid"
    and set_ident :: "uuid \<Rightarrow> 'r \<Rightarrow> 'r"
    and upsert :: "'r \<Rightarrow> 'r list \<Rightarrow> 'r list \<times> 'r"
  assumes key_set_ident: "key (set_ident i r) = key r"
    and ident_set_ident: "ident (set_ident i r) = i"
    and upsert_eq: "upsert row tab =
          (case filter (\<lambda>r. key r = key row) tab of
             [] \<Rightarrow> (tab @ [row], row)
           | old # _ \<Rightarrow> (map (\<lambda>r. if key r = key row then set_ident (ident old) row else r) tab,
                         set_ident (ident old) row))"
begin

lemma upsert_cases:
  obtains (inserted) "key row \<notin> set (map key tab)" "upsert row tab = (tab @ [row], row)"
  | (updated) old where "old \<in> set tab" "key old = key row"
      "upsert row tab = (map (\<lambda>r. if key r = key row then set_ident (ident old) row else r) tab,
                         set_ident (ident old) row)"
proof (cases "filter (\<lambda>r. key r = key row) tab")
  case Nil
  then show ?thesis by (intro inserted) (auto simp: upsert_eq filter_empty_conv)
next
  case (Cons old rest)
  then have "old \<in> set (filter (\<lambda>r. key r = key row) tab)" by simp
  then have "old \<in> set tab" "key old = key row" by auto
  with Cons show ?thesis by (intro updated [of old]) (simp_all add: upsert_eq)
qed

lemma upsert_keys:
  "map key (fst (upsert row tab)) = (if key row \<in> set (map key tab) then map key tab else map key tab @ [key row])"
proof (cases rule: upsert_cases [of row tab])
  case (updated old)
  then have "key row \<in> key ` set tab" by (metis image_eqI)
  with updated show ?thesis by (auto simp: key_set_ident)
qed auto

lemma upsert_distinct: "distinct (map key tab) \<Longrightarrow> distinct (map key (fst (upsert row tab)))"
  by (simp add: upsert_keys)

lemma upsert_lookup:
  assumes "distinct (map key tab)"
  shows "filter (\<lambda>r. key r = k) (fst (upsert row tab)) =
    (if k = key row then [snd (upsert row tab)] else filter (\<lambda>r. key r = k) tab)"
proof (cases rule: upsert_cases [of row tab])
  case inserted
  then have "filter (\<lambda>r. key r = key row) tab = []" by (auto simp: filter_empty_conv image_iff)
  with inserted show ?thesis by auto
next
  case (updated old)
  have one: "filter (\<lambda>r. key r = key row) (map (\<lambda>r. if key r = key row then x else r) tab) = [x]"
    if "key x = key row" "key row \<in> set (map key tab)" "distinct (map key tab)" for x
    using that(2,3)
  proof (induction tab)
    case (Cons r tab)
    show ?case
    proof (cases "key r = key row")
      case True
      with Cons.prems have "\<forall>y \<in> set tab. key y \<noteq> key row" by (auto simp: image_iff)
      then have "map (\<lambda>r. if key r = key row then x else r) tab = tab" "filter (\<lambda>r. key r = key row) tab = []"
        by (auto simp: filter_empty_conv map_idI)
      with True that(1) show ?thesis by simp
    qed (use Cons in auto)
  qed simp
  have other: "filter (\<lambda>r. key r = k) (map (\<lambda>r. if key r = key row then x else r) xs) = filter (\<lambda>r. key r = k) xs"
    if "key x = key row" "k \<noteq> key row" for x xs
    using that by (induction xs) auto
  have "key row \<in> set (map key tab)" using updated(1,2) by (metis image_eqI list.set_map)
  with updated(3) one [OF key_set_ident _ assms] other [OF key_set_ident] show ?thesis by simp
qed

lemma upsert_keeps_id:
  assumes "old \<in> set tab" "key old = key row" "distinct (map key tab)"
  shows "ident (snd (upsert row tab)) = ident old"
proof (cases rule: upsert_cases [of row tab])
  case inserted
  with assms show ?thesis by (metis image_eqI list.set_map)
next
  case (updated old')
  from assms(3) have "inj_on key (set tab)" by (simp add: distinct_map)
  then have "old' = old" using updated(1,2) assms(1,2) by (simp add: inj_on_def)
  with updated show ?thesis by (simp add: ident_set_ident)
qed

end

interpretation rule_table: keyed_table rule_row_key rw_id "\<lambda>i r. r\<lparr>rw_id := i\<rparr>" insert_or_update_rule
proof
  show "rule_row_key (r\<lparr>rw_id := i\<rparr>) = rule_row_key r" for i r by (simp add: rule_row_key_def)
qed (auto simp: insert_or_update_rule_def Let_def split: list.split)

interpretation cap_table: keyed_table cap_row_key cw_id "\<lambda>i r. r\<lparr>cw_id := i\<rparr>" insert_or_update_cap
proof
  show "cap_row_key (r\<lparr>cw_id := i\<rparr>) = cap_row_key r" for i r by (simp add: cap_row_key_def)
qed (auto simp: insert_or_update_cap_def Let_def split: list.split)

subsection \<open>Decoding\<close>

lemma row_to_rule_key:
  "row_to_rule row = Some r \<longleftrightarrow>
     rw_subject_kind row = RateLimitSubject_as_str (rl_subject_kind r) \<and> rw_surface row = Surface_as_str (rl_surface r) \<and>
     rw_metric row = RateMetric_as_str (rl_metric r) \<and>
     r = \<lparr>rl_id = rw_id row, rl_subject_kind = rl_subject_kind r, rl_subject_id = rw_subject_id row,
          rl_surface = rl_surface r, rl_metric = rl_metric r, rl_window_secs = rw_window_secs row,
          rl_max_count = rw_max_count row, rl_enabled = rw_enabled row, rl_expires_at = rw_expires_at row,
          rl_reason = rw_reason row, rl_created_by = rw_created_by row\<rparr>"
  by (cases r) (auto simp: row_to_rule_def bind_eq_Some_conv rate_subject.parse_iff surface.parse_iff rate_metric.parse_iff)

lemma row_to_cap_key:
  "row_to_cap row = Some c \<longleftrightarrow>
     cw_subject_kind row = BudgetSubject_as_str (bc_subject_kind c) \<and> cw_period row = BudgetPeriod_as_str (bc_period c) \<and>
     c = \<lparr>bc_id = cw_id row, bc_subject_kind = bc_subject_kind c, bc_subject_id = cw_subject_id row,
          bc_period = bc_period c, bc_limit_tokens = cw_limit_tokens row, bc_enabled = cw_enabled row,
          bc_expires_at = cw_expires_at row, bc_reason = cw_reason row, bc_created_by = cw_created_by row\<rparr>"
  by (cases c) (auto simp: row_to_cap_def bind_eq_Some_conv budget_subject.parse_iff budget_period.parse_iff)

lemma list_rules_iff:
  "list_rules None tab kind sid = Inr out \<Longrightarrow>
     r \<in> set out \<longleftrightarrow> (\<exists>row \<in> set tab. rw_subject_kind row = RateLimitSubject_as_str kind \<and> rw_subject_id row = sid \<and>
        row_to_rule row = Some r)"
  by (auto simp: list_rules_def set_map_filter)

lemma row_to_rule_upsert:
  "row_to_rule ((upsert_rule_row i req)\<lparr>rw_id := j\<rparr>) =
     Some \<lparr>rl_id = j, rl_subject_kind = ur_subject_kind req, rl_subject_id = ur_subject_id req,
           rl_surface = ur_surface req, rl_metric = ur_metric req, rl_window_secs = ur_window_secs req,
           rl_max_count = ur_max_count req, rl_enabled = ur_enabled req, rl_expires_at = ur_expires_at req,
           rl_reason = ur_reason req, rl_created_by = ur_created_by req\<rparr>"
  by (simp add: row_to_rule_key upsert_rule_row_def)

lemma upserted_is_upsert_row: "\<exists>j. snd (insert_or_update_rule row tab) = row\<lparr>rw_id := j\<rparr>"
  by (cases rule: rule_table.upsert_cases [of row tab]) (auto intro: exI [of _ "rw_id row"])

text \<open>
  Upsert then list: a valid request is stored and comes back from the subject's list with the
  requested limit, once; it replaces the row with the same subject, surface, metric and window, keeping
  its id, and leaves every other row of the table as it was. The unique columns stay unique.
\<close>

theorem upsert_rule_then_list:
  assumes "distinct (map rule_row_key tab)" and "upsert_rule err new_id tab req = (tab', Inr r)"
    and "list_rules None tab' (ur_subject_kind req) (ur_subject_id req) = Inr out"
  shows "r \<in> set out \<and> rl_max_count r = ur_max_count req \<and> rl_enabled r = ur_enabled req \<and>
    distinct (map rule_row_key tab') \<and>
    (\<forall>k. filter (\<lambda>x. rule_row_key x = k) tab' =
       (if k = rule_row_key (upsert_rule_row new_id req) then [snd (insert_or_update_rule (upsert_rule_row new_id req) tab)]
        else filter (\<lambda>x. rule_row_key x = k) tab))"
proof -
  let ?row = "upsert_rule_row new_id req"
  from assms(2) have up: "insert_or_update_rule ?row tab = (tab', snd (insert_or_update_rule ?row tab))"
    and dec: "row_to_rule (snd (insert_or_update_rule ?row tab)) = Some r"
    by (auto simp: upsert_rule_def split: if_splits option.splits prod.splits)
  then have tab': "tab' = fst (insert_or_update_rule ?row tab)" by (metis fst_conv)
  have lookup: "\<forall>k. filter (\<lambda>x. rule_row_key x = k) tab' =
      (if k = rule_row_key ?row then [snd (insert_or_update_rule ?row tab)] else filter (\<lambda>x. rule_row_key x = k) tab)"
    using rule_table.upsert_lookup [OF assms(1)] tab' by simp
  then have "set (filter (\<lambda>x. rule_row_key x = rule_row_key ?row) tab') = {snd (insert_or_update_rule ?row tab)}"
    by (metis list.set(1) list.set(2))
  then have mem: "snd (insert_or_update_rule ?row tab) \<in> set tab'" by auto
  obtain j where j: "snd (insert_or_update_rule ?row tab) = ?row\<lparr>rw_id := j\<rparr>" using upserted_is_upsert_row by blast
  have cols: "rw_subject_kind (?row\<lparr>rw_id := j\<rparr>) = RateLimitSubject_as_str (ur_subject_kind req)"
    "rw_subject_id (?row\<lparr>rw_id := j\<rparr>) = ur_subject_id req"
    by (simp_all add: upsert_rule_row_def)
  have "r \<in> set out"
    unfolding list_rules_iff [OF assms(3)] using mem dec cols unfolding j by blast
  with lookup dec j rule_table.upsert_distinct [OF assms(1)] tab' row_to_rule_upsert [where i = new_id and req = req and j = j]
  show ?thesis by auto
qed

definition demo_upsert :: UpsertRule where
  "demo_upsert = \<lparr>ur_subject_kind = RUser, ur_subject_id = uuid_nil, ur_surface = AiGateway, ur_metric = Requests,
     ur_window_secs = 60, ur_max_count = 7, ur_enabled = True, ur_expires_at = None, ur_reason = None,
     ur_created_by = None\<rparr>"

theorem upsert_rule_then_list_witness:
  "(case list_rules None (fst (upsert_rule None uuid_nil [] demo_upsert)) RUser uuid_nil of
      Inr (r # rs) \<Rightarrow> 7 \<in> rl_max_count ` set (r # rs) | _ \<Rightarrow> False)"
proof -
  let ?u = "upsert_rule None uuid_nil [] demo_upsert"
  have "case snd ?u of Inr r \<Rightarrow> True | Inl e \<Rightarrow> False" by code_simp
  then obtain r where "snd ?u = Inr r" by (auto split: sum.splits)
  then have u: "?u = (fst ?u, Inr r)" by (metis prod.collapse)
  obtain out where out: "list_rules None (fst ?u) (ur_subject_kind demo_upsert) (ur_subject_id demo_upsert) = Inr out"
    by (simp add: list_rules_def)
  have "r \<in> set out" "rl_max_count r = 7"
    using upsert_rule_then_list [OF _ u out] by (simp_all add: demo_upsert_def)
  with out show ?thesis by (cases out) (auto simp: demo_upsert_def image_iff)
qed

text \<open>
  A delete cannot reach another subject's row: it removes exactly the rows with the id that belong
  to the subject the caller was authorised for, says whether there were any, and a row of any other
  subject is still there whatever its id.
\<close>

theorem delete_only_own_rows:
  "(\<forall>tab' ok. delete_rule None tab i kind sid = (tab', Inr ok) \<longrightarrow>
      set tab' = {r \<in> set tab. \<not> (rw_id r = i \<and> rw_subject_kind r = RateLimitSubject_as_str kind \<and> rw_subject_id r = sid)} \<and>
      (ok \<longleftrightarrow> set tab' \<noteq> set tab)) \<and>
   (\<forall>ctab' ok. delete_cap None ctab i ckind sid = (ctab', Inr ok) \<longrightarrow>
      set ctab' = {r \<in> set ctab. \<not> (cw_id r = i \<and> cw_subject_kind r = BudgetSubject_as_str ckind \<and> cw_subject_id r = sid)} \<and>
      (ok \<longleftrightarrow> set ctab' \<noteq> set ctab))"
  by (auto simp: delete_rule_def delete_cap_def Let_def filter_empty_conv)

theorem delete_only_own_rows_witness:
  "set (fst (delete_rule None (fst (upsert_rule None uuid_nil [] demo_upsert)) uuid_nil RApiKeyLineage uuid_nil)) =
   {r \<in> set (fst (upsert_rule None uuid_nil [] demo_upsert)). \<not> (rw_id r = uuid_nil \<and>
      rw_subject_kind r = RateLimitSubject_as_str RApiKeyLineage \<and> rw_subject_id r = uuid_nil)}"
  using delete_only_own_rows [THEN conjunct1, rule_format, of "fst (upsert_rule None uuid_nil [] demo_upsert)"
      uuid_nil RApiKeyLineage uuid_nil]
  by (simp add: delete_rule_def Let_def)

subsection \<open>Active rows\<close>

lemma list_enabled_rules_iff:
  "list_enabled_rules_for_subjects err tab now subjects = Inr out \<Longrightarrow>
     r \<in> set out \<longleftrightarrow> (\<exists>row \<in> set tab. row_to_rule row = Some r) \<and> rl_enabled r \<and> active_until now (rl_expires_at r) \<and>
       (rl_subject_kind r, rl_subject_id r) \<in> set subjects"
proof (induction err tab now subjects arbitrary: out rule: list_enabled_rules_for_subjects.induct)
  case (2 err tab now kind sid subjects)
  from 2(2) obtain rest where rest: "err (kind, sid) = None"
      "list_enabled_rules_for_subjects err tab now subjects = Inr rest"
      "out = List.map_filter row_to_rule (filter (\<lambda>r. rw_subject_kind r = RateLimitSubject_as_str kind \<and>
         rw_subject_id r = sid \<and> rw_enabled r \<and> active_until now (rw_expires_at r)) tab) @ rest"
    by (auto split: option.splits sum.splits)
  have row: "rw_subject_kind row = RateLimitSubject_as_str kind \<longleftrightarrow> rl_subject_kind r = kind"
    "rw_subject_id row = rl_subject_id r" "rw_enabled row = rl_enabled r" "rw_expires_at row = rl_expires_at r"
    if "row_to_rule row = Some r" for row
    using that unfolding row_to_rule_key
    by (metis RateLimitRule.select_convs rate_subject.as_str_inj)+
  have "r \<in> set out \<longleftrightarrow> (\<exists>row \<in> set tab. row_to_rule row = Some r \<and> rl_subject_kind r = kind \<and> rl_subject_id r = sid \<and>
      rl_enabled r \<and> active_until now (rl_expires_at r)) \<or> r \<in> set rest"
    using row by (auto simp: rest(3) set_map_filter)
  with 2(1) [OF rest(1,2)] show ?case by auto
qed simp

text \<open>
  The override merge sees exactly the active rows: an answer to the query for some subjects holds
  the rules of those subjects whose row decodes, is enabled and has not expired, and no others; a
  database error for any subject is the answer, never a partial list.
\<close>

theorem active_rules_exact:
  "(case list_enabled_rules_for_subjects err tab now subjects of
      Inr out \<Rightarrow> (\<forall>r. r \<in> set out \<longleftrightarrow> (\<exists>row \<in> set tab. row_to_rule row = Some r) \<and> rl_enabled r \<and>
          active_until now (rl_expires_at r) \<and> (rl_subject_kind r, rl_subject_id r) \<in> set subjects) \<and>
        (\<forall>s \<in> set subjects. err s = None)
    | Inl e \<Rightarrow> \<exists>s \<in> set subjects. err s = Some e)"
proof (cases "list_enabled_rules_for_subjects err tab now subjects")
  case (Inl e)
  then have "\<exists>s \<in> set subjects. err s = Some e"
    by (induction err tab now subjects rule: list_enabled_rules_for_subjects.induct)
       (auto split: option.splits sum.splits)
  with Inl show ?thesis by simp
next
  case (Inr out)
  then have "\<forall>s \<in> set subjects. err s = None"
    by (induction err tab now subjects arbitrary: out rule: list_enabled_rules_for_subjects.induct)
       (auto split: option.splits sum.splits)
  with Inr list_enabled_rules_iff [OF Inr] show ?thesis by simp
qed

theorem active_rules_exact_witness:
  "(case list_enabled_rules_for_subjects (\<lambda>s. None) [] 0 [(RUser, uuid_nil)] of
      Inr out \<Rightarrow> (\<forall>r. r \<in> set out \<longleftrightarrow> (\<exists>row \<in> set []. row_to_rule row = Some r) \<and> rl_enabled r \<and>
          active_until 0 (rl_expires_at r) \<and> (rl_subject_kind r, rl_subject_id r) \<in> set [(RUser, uuid_nil)]) \<and>
        (\<forall>s \<in> set [(RUser, uuid_nil)]. None = (None :: string option))
    | Inl e \<Rightarrow> \<exists>s \<in> set [(RUser, uuid_nil)]. None = Some e)"
  using active_rules_exact [where err = "\<lambda>s. None" and tab = "[]" and now = 0 and subjects = "[(RUser, uuid_nil)]"] by simp

end
