(* ===== verification/Rbac_Props.thy ===== *)
theory Rbac_Props
  imports Rbac Policy_Props Tables_Props
begin

section \<open>Roles and policies: theorems\<close>

text \<open>
  Glob patterns against their declarative meaning, Deny over Allow in any order, gateway access as the
  union of the granting roles, and the independence of the gateways from team-scoped grants.
\<close>

subsection \<open>Globs\<close>

text \<open>
  What a glob pattern means: its segments, the text between the stars, occur in order; the first at the
  start of the value, the last at its end, and anything between.
\<close>

fun glob_parts :: "string list \<Rightarrow> string \<Rightarrow> bool" where
  "glob_parts [] v \<longleftrightarrow> v = []"
| "glob_parts (q # qs) v \<longleftrightarrow> (\<exists>u w. v = u @ q @ w \<and> glob_parts qs w)"

definition glob_spec :: "string \<Rightarrow> string \<Rightarrow> bool" where
  "glob_spec pattern v \<longleftrightarrow>
     (case split_on (CHR ''*'') pattern of
        [] \<Rightarrow> False
      | p # ps \<Rightarrow> \<exists>w. v = p @ w \<and> glob_parts ps w)"

lemma glob_parts_extend: "glob_parts qs w \<Longrightarrow> qs \<noteq> [] \<Longrightarrow> glob_parts qs (u @ w)"
  by (cases qs) (auto, metis append.assoc)

lemma glob_loop_sound:
  assumes "glob_loop (Suc i) parts v pos = Some pos'" "pos \<le> length v" "parts \<noteq> []"
    and "last parts \<noteq> [] \<longrightarrow> pos' = length v"
  shows "glob_parts parts (drop pos v)"
  using assms
proof (induction parts arbitrary: i pos)
  case (Cons part parts)
  show ?case
  proof (cases "part = []")
    case True
    then show ?thesis
    proof (cases parts)
      case Nil
      with True show ?thesis by (simp add: exI [of _ "drop pos v"])
    next
      case (Cons q qs)
      with True Cons.prems Cons.IH [of "Suc i" pos] have "glob_parts parts (drop pos v)" by simp
      with True show ?thesis by (auto intro: exI [of _ "[]"])
    qed
  next
    case False
    with Cons.prems obtain n where n: "find_sub (drop pos v) part = Some n"
      and rest: "glob_loop (Suc (Suc i)) parts v (pos + (n + length part)) = Some pos'"
      by (auto split: option.splits)
    from find_sub_Some [OF n] obtain r where r: "drop pos v = take n (drop pos v) @ part @ r"
      and len: "n + length part \<le> length (drop pos v)" by blast
    have drop_r: "drop (pos + (n + length part)) v = r"
    proof -
      have "drop (pos + (n + length part)) v = drop (n + length part) (drop pos v)" by (simp add: add.commute)
      also have "\<dots> = drop (n + length part) (take n (drop pos v) @ part @ r)" using r by simp
      also have "\<dots> = r" using len by simp
      finally show ?thesis .
    qed
    have "glob_parts parts r"
    proof (cases "parts = []")
      case True
      with rest Cons.prems False have "pos + (n + length part) = length v" by simp
      with True drop_r show ?thesis by simp
    next
      case ne: False
      have "pos + (n + length part) \<le> length v" using len Cons.prems(2) by simp
      with Cons.IH [OF rest] ne Cons.prems(4) drop_r show ?thesis by simp
    qed
    with r show ?thesis by auto
  qed
qed simp

lemma glob_loop_complete:
  assumes "glob_parts parts (drop pos v)" "parts \<noteq> []" "last parts = []"
  shows "\<exists>pos'. glob_loop (Suc i) parts v pos = Some pos'"
  using assms
proof (induction parts arbitrary: i pos)
  case (Cons part parts)
  from Cons.prems(1) obtain u w where uw: "drop pos v = u @ part @ w" "glob_parts parts w" by auto
  show ?case
  proof (cases "part = []")
    case True
    show ?thesis
    proof (cases "parts = []")
      case False
      with uw True have "glob_parts parts (drop pos v)" by (simp add: glob_parts_extend)
      with True False Cons.prems Cons.IH [of pos "Suc i"] show ?thesis by simp
    qed (use True in simp)
  next
    case False
    with Cons.prems have ne: "parts \<noteq> []" "last parts = []" by (auto split: if_splits)
    from uw(1) find_sub_None obtain n where n: "find_sub (drop pos v) part = Some n"
      by (metis not_None_eq)
    have le: "n \<le> length u" using find_sub_least [OF n uw(1)] .
    have "drop (pos + (n + length part)) v = drop (n + length part) (u @ part @ w)"
      by (simp add: uw(1) [symmetric] add.commute)
    also have "\<dots> = drop (n + length part) (u @ part) @ w" using le by simp
    finally have "glob_parts parts (drop (pos + (n + length part)) v)"
      using glob_parts_extend [OF uw(2) ne(1), of "drop (n + length part) (u @ part)"] by (simp only:)
    with Cons.IH [OF _ ne] False n show ?thesis by simp
  qed
qed simp

lemma split_on_single_iff: "length (split_on c s) = 1 \<longleftrightarrow> c \<notin> set s"
proof
  assume "length (split_on c s) = 1"
  then show "c \<notin> set s"
  proof (rule contrapos_pp)
    assume "\<not> c \<notin> set s"
    then obtain a b where "s = a @ c # b" "c \<notin> set a" by (metis split_list_first)
    then show "length (split_on c s) \<noteq> 1" by (simp add: split_on_append)
  qed
qed (simp add: split_on_single)

lemma find_sub_0: "find_sub s p = Some 0 \<longleftrightarrow> starts_with s p"
  by (subst find_sub.simps) (auto split: list.splits)

lemma glob_first:
  assumes "split_on (CHR ''*'') pattern = p # ps" "ps \<noteq> []"
  shows "glob_match pattern v \<longleftrightarrow> pattern = ''*'' \<or>
    (starts_with v p \<and> (case glob_loop (Suc 0) ps v (length p) of None \<Rightarrow> False
       | Some pos \<Rightarrow> last ps \<noteq> [] \<longrightarrow> pos = length v))"
proof (cases "p = []")
  case True
  with assms show ?thesis by (auto simp: glob_match_def Let_def starts_with_def split: option.splits)
next
  case False
  have "glob_loop 0 (p # ps) v 0 = (if starts_with v p then glob_loop (Suc 0) ps v (length p) else None)"
    using False find_sub_0 [of v p] by (auto split: option.splits)
  with assms show ?thesis by (auto simp: glob_match_def Let_def split: option.splits)
qed

lemma split_star: "split_on (CHR ''*'') ''*'' = [[], []]"
  by simp

lemma glob_star_any: "glob_spec ''*'' v"
  by (simp add: glob_spec_def exI [of _ v])

lemma glob_cases:
  obtains (exact) "CHR ''*'' \<notin> set pattern" "split_on (CHR ''*'') pattern = [pattern]"
  | (stars) p ps where "split_on (CHR ''*'') pattern = p # ps" "ps \<noteq> []"
proof (cases "CHR ''*'' \<in> set pattern")
  case True
  then have "length (split_on (CHR ''*'') pattern) \<noteq> 1" using split_on_single_iff by blast
  then obtain p ps where "split_on (CHR ''*'') pattern = p # ps" "ps \<noteq> []"
    by (cases "split_on (CHR ''*'') pattern") auto
  then show ?thesis by (rule stars)
qed (use exact split_on_single in blast)

lemma glob_match_sound: "glob_match pattern v \<Longrightarrow> glob_spec pattern v"
proof (cases rule: glob_cases [of pattern])
  case exact
  assume "glob_match pattern v"
  with exact show ?thesis by (auto simp: glob_match_def glob_spec_def split: if_splits)
next
  case (stars p ps)
  assume m: "glob_match pattern v"
  show ?thesis
  proof (cases "pattern = ''*''")
    case True
    then show ?thesis using glob_star_any by simp
  next
    case False
    with m glob_first [OF stars] obtain pos where "starts_with v p" "glob_loop (Suc 0) ps v (length p) = Some pos"
      "last ps \<noteq> [] \<longrightarrow> pos = length v" by (auto split: option.splits)
    moreover from this obtain w where w: "v = p @ w" by (auto simp: starts_with_iff)
    ultimately have "glob_parts ps (drop (length p) v)" using glob_loop_sound [of 0 ps v "length p" pos] stars(2) by simp
    with w stars(1) show ?thesis by (simp add: glob_spec_def)
  qed
qed

lemma glob_match_complete:
  assumes "glob_spec pattern v" "last (split_on (CHR ''*'') pattern) = [] \<or> CHR ''*'' \<notin> set pattern"
  shows "glob_match pattern v"
proof (cases rule: glob_cases [of pattern])
  case exact
  with assms show ?thesis by (auto simp: glob_match_def glob_spec_def)
next
  case (stars p ps)
  have last: "last ps = []"
    using assms(2) stars split_on_single_iff [of "CHR ''*''" pattern] by auto
  from assms(1) stars(1) obtain w where w: "v = p @ w" "glob_parts ps w" by (auto simp: glob_spec_def)
  then obtain pos where "glob_loop (Suc 0) ps v (length p) = Some pos"
    using glob_loop_complete [of ps "length p" v 0] stars(2) last by auto
  with glob_first [OF stars] w(1) last show ?thesis by simp
qed

text \<open>
  A pattern never matches too much, and it matches everything it should when it ends in a star or has
  none: \<^verbatim>\<open>glob_match\<close> implies the declarative meaning of \<open>*\<close>, and for those patterns is equivalent to it.
\<close>

theorem glob_match_meaning:
  "(glob_match pattern v \<longrightarrow> glob_spec pattern v) \<and>
   (last (split_on (CHR ''*'') pattern) = [] \<or> CHR ''*'' \<notin> set pattern \<longrightarrow> (glob_match pattern v \<longleftrightarrow> glob_spec pattern v))"
  using glob_match_sound glob_match_complete by blast

theorem glob_match_meaning_witness:
  "glob_match ''providers:*'' ''providers:read'' \<longleftrightarrow> glob_spec ''providers:*'' ''providers:read''"
  using glob_match_meaning [of "''providers:*''" "''providers:read''"] by simp

text \<open>
  A pattern with text after its last star can miss a value it covers: the search takes the first
  occurrence of each segment, and the last segment's first occurrence need not be the one at the end. So
  \<open>*te\<close> does not match \<open>teams:write\<close>, and a Deny written that way is passed over, although a star stands
  for any sequence of characters.
\<close>

theorem glob_match_misses_repeated_suffix:
  "glob_spec ''*te'' ''teams:write'' \<and> \<not> glob_match ''*te'' ''teams:write'' \<and>
   evaluate_policies
     [\<lparr>version = ''2024-01-01'',
       statement = [\<lparr>sid = None, effect = EAllow, action = SingleAction ''*'', resource = SingleResource ''*'', st_condition = None\<rparr>,
                    \<lparr>sid = None, effect = EDeny, action = SingleAction ''*te'', resource = SingleResource ''*'', st_condition = None\<rparr>]\<rparr>]
     ''teams:write'' ''*''"
proof (intro conjI)
  have "split_on (CHR ''*'') ''*te'' = [[], ''te'']" by simp
  moreover have "glob_parts [''te''] ''teams:write''"
    by (simp add: exI [of _ "''teams:wri''"])
  ultimately show "glob_spec ''*te'' ''teams:write''" by (simp add: glob_spec_def)
  show "\<not> glob_match ''*te'' ''teams:write''" by code_simp
qed code_simp

subsection \<open>Deny over Allow\<close>

lemma evaluate_statements_eq:
  "evaluate_statements b stmts act res =
     (if \<exists>st \<in> set stmts. evaluate_statement st act res = Deny then Deny
      else if b \<or> (\<exists>st \<in> set stmts. evaluate_statement st act res = Allow) then Allow else NoMatch)"
  by (induction b stmts act res rule: evaluate_statements.induct) (auto split: PolicyResult.splits)

lemma evaluate_policies_from_eq:
  "evaluate_policies_from b ps act res \<longleftrightarrow>
     (\<forall>p \<in> set ps. evaluate_policy p act res \<noteq> Deny) \<and> (b \<or> (\<exists>p \<in> set ps. evaluate_policy p act res = Allow))"
  by (induction b ps act res rule: evaluate_policies_from.induct) (auto split: PolicyResult.splits)

definition matches :: "Statement \<Rightarrow> string \<Rightarrow> string \<Rightarrow> bool" where
  "matches st act res \<longleftrightarrow> (\<exists>p \<in> set (action_patterns (action st)). glob_match p act) \<and>
     (\<exists>p \<in> set (resource_patterns (resource st)). glob_match p res)"

lemma evaluate_statement_iff:
  "evaluate_statement st act res = Deny \<longleftrightarrow> effect st = EDeny \<and> matches st act res"
  "evaluate_statement st act res = Allow \<longleftrightarrow> effect st = EAllow \<and> matches st act res"
  by (auto simp: evaluate_statement_def matches_def list_ex_iff split: Effect.splits)

lemma evaluate_policy_iff:
  "evaluate_policy p act res = Deny \<longleftrightarrow> (\<exists>st \<in> set (statement p). effect st = EDeny \<and> matches st act res)"
  "evaluate_policy p act res = Allow \<longleftrightarrow> (\<exists>st \<in> set (statement p). effect st = EAllow \<and> matches st act res) \<and>
     \<not> (\<exists>st \<in> set (statement p). effect st = EDeny \<and> matches st act res)"
  by (auto simp: evaluate_policy_def evaluate_statements_eq evaluate_statement_iff)

text \<open>
  Deny wins, in any order: a set of policies allows an action on a resource exactly when some
  statement of some policy allows it and no statement of any policy denies it.
\<close>

theorem deny_overrides_allow:
  "evaluate_policies ps act res \<longleftrightarrow>
     (\<exists>p \<in> set ps. \<exists>st \<in> set (statement p). effect st = EAllow \<and> matches st act res) \<and>
     \<not> (\<exists>p \<in> set ps. \<exists>st \<in> set (statement p). effect st = EDeny \<and> matches st act res)"
  by (auto simp: evaluate_policies_def evaluate_policies_from_eq evaluate_policy_iff)

lemma split_on_chars: "c \<in> set s \<Longrightarrow> c \<noteq> sep \<Longrightarrow> \<exists>p \<in> set (split_on sep s). c \<in> set p"
  by (induction s) (auto split: list.splits)

lemma glob_parts_star_value: "glob_parts qs ''*'' \<Longrightarrow> \<forall>q \<in> set qs. q = [] \<or> q = ''*''"
proof (induction qs)
  case (Cons q qs)
  then obtain u w where uw: "''*'' = u @ q @ w" "glob_parts qs w" by auto
  have empty: "glob_parts qs [] \<Longrightarrow> \<forall>q \<in> set qs. q = []" for qs by (induction qs) auto
  from uw(1) consider "q = []" "w = ''*''" | "q = []" "w = []" | "q = ''*''" "w = []"
    by (auto simp: Cons_eq_append_conv)
  then show ?case
  proof cases
    case 1
    with Cons uw(2) show ?thesis by auto
  qed (use uw(2) empty in auto)
qed simp

lemma glob_match_star_value:
  assumes "glob_match pattern ''*''"
  shows "set pattern \<subseteq> {CHR ''*''}"
proof
  fix c assume c: "c \<in> set pattern"
  show "c \<in> {CHR ''*''}"
  proof (rule ccontr)
    assume "c \<notin> {CHR ''*''}"
    with c split_on_chars obtain q where q: "q \<in> set (split_on (CHR ''*'') pattern)" "c \<in> set q" "c \<noteq> CHR ''*''"
      by (metis singletonI)
    from glob_match_sound [OF assms] obtain p ps w where p: "split_on (CHR ''*'') pattern = p # ps"
      "''*'' = p @ w" "glob_parts ps w" by (auto simp: glob_spec_def split: list.splits)
    have "\<forall>x \<in> set (p # ps). x = [] \<or> x = ''*''"
    proof (cases p)
      case Nil
      with p glob_parts_star_value show ?thesis by auto
    next
      case (Cons a r)
      with p(2) have "p = ''*'' \<and> w = []" by (auto simp: Cons_eq_append_conv)
      moreover have "glob_parts ps [] \<Longrightarrow> \<forall>q \<in> set ps. q = []" for ps by (induction ps) auto
      ultimately show ?thesis using p(3) by auto
    qed
    then have "q = [] \<or> q = ''*''" using p(1) q(1) by (metis list.set_intros)
    with q(2,3) show False by auto
  qed
qed

text \<open>A statement whose resources all name something, rather than being \<open>*\<close>.\<close>

definition scoped :: "Statement \<Rightarrow> bool" where
  "scoped st \<longleftrightarrow> (\<forall>p \<in> set (resource_patterns (resource st)). \<not> set p \<subseteq> {CHR ''*''})"

lemma denies_iff:
  "denies ps act \<longleftrightarrow> (\<exists>p \<in> set ps. \<exists>st \<in> set (statement p). effect st = EDeny \<and> matches st act ''*'')"
  by (auto simp: denies_def list_ex_iff evaluate_policy_iff)

text \<open>
  A Deny scoped to a resource denies nothing: permissions and gateway access are asked about the
  resource \<open>*\<close>, which only patterns of stars match. When every Deny of a user's roles names a resource, no
  permission is denied and both gateways stay as open as the Allow statements make them.
\<close>

theorem scoped_deny_has_no_effect:
  assumes "\<forall>doc \<in> set docs. \<forall>p st. from_doc doc = Some p \<longrightarrow> st \<in> set (statement p) \<longrightarrow> effect st = EDeny \<longrightarrow> scoped st"
  shows "\<not> denies (List.map_filter from_doc docs) act \<and>
    resource_limits_from_documents from_doc docs = resource_limits_from_documents (\<lambda>_. None) docs"
proof -
  have no: "\<not> denies (List.map_filter from_doc docs) act" for act
    using assms glob_match_star_value by (fastforce simp: denies_iff set_map_filter matches_def scoped_def)
  moreover have "\<not> denies (List.map_filter (\<lambda>_. None) docs) act" for act
    by (auto simp: denies_iff set_map_filter)
  ultimately show ?thesis by (simp add: resource_limits_from_documents_def)
qed

definition demo_deny :: PolicyDocument where
  "demo_deny = \<lparr>version = ''2024-01-01'', statement = [\<lparr>sid = None, effect = EDeny, action = SingleAction ''ai_gateway:use'',
     resource = SingleResource ''model:gpt-4o'', st_condition = None\<rparr>]\<rparr>"

theorem scoped_deny_has_no_effect_witness:
  "\<not> denies (List.map_filter (\<lambda>_. Some demo_deny) [JNull]) ''ai_gateway:use''"
  using scoped_deny_has_no_effect [of "[JNull]" "\<lambda>_. Some demo_deny" "''ai_gateway:use''"]
  by (simp add: demo_deny_def scoped_def)

subsection \<open>Gateway access\<close>

lemma fold_SurfaceGrant_add:
  "fold (\<lambda>doc. SurfaceGrant_add (f doc)) docs g =
     \<lparr>granted = granted g \<or> (\<exists>doc \<in> set docs. f doc \<noteq> NotGranted),
      unrestricted = unrestricted g \<or> (\<exists>doc \<in> set docs. f doc = AllResources),
      items = items g @ concat (map (\<lambda>doc. case f doc of Only xs \<Rightarrow> xs | _ \<Rightarrow> []) docs)\<rparr>"
  by (induction docs arbitrary: g) (auto simp: SurfaceGrant_add_def split: ResourceScope.splits)

definition access :: "ResourceScope list \<Rightarrow> bool \<Rightarrow> bool \<times> string list option" where
  "access scopes denied =
     (if denied \<or> (\<forall>sc \<in> set scopes. sc = NotGranted) then (False, Some [])
      else if AllResources \<in> set scopes then (True, None)
      else (True, Some (sorted_list_of_set {x. \<exists>xs. Only xs \<in> set scopes \<and> x \<in> set xs})))"

lemma SurfaceGrant_access:
  "SurfaceGrant_finish (fold (\<lambda>doc. SurfaceGrant_add (f doc)) docs SurfaceGrant_new) denied = access (map f docs) denied"
proof -
  have "set (concat (map (\<lambda>doc. case f doc of Only xs \<Rightarrow> xs | _ \<Rightarrow> []) docs)) =
      {x. \<exists>xs. Only xs \<in> set (map f docs) \<and> x \<in> set xs}"
    by (force split: ResourceScope.splits)
  then show ?thesis
    unfolding SurfaceGrant_finish_def fold_SurfaceGrant_add access_def SurfaceGrant_new_def
    by (auto simp: btree_sorted_list image_iff)
qed


subsection \<open>Team-scoped grants\<close>

lemma gateway_documents_cong:
  assumes "filter (\<lambda>a. ra_scope_kind a = ''global'') (role_assignments db) =
      filter (\<lambda>a. ra_scope_kind a = ''global'') (role_assignments db')"
    and "team_members db = team_members db'" "team_role_assignments db = team_role_assignments db'" "roles db = roles db'"
  shows "load_gateway_policy_documents err db user = load_gateway_policy_documents err db' user"
proof -
  have "filter (\<lambda>a. ra_user_id a = user \<and> ra_scope_kind a = ''global'') xs =
      filter (\<lambda>a. ra_user_id a = user) (filter (\<lambda>a. ra_scope_kind a = ''global'') xs)" for xs :: "role_assignment list"
    by (simp add: conj_commute)
  with assms(1) have "global_role_ids db user = global_role_ids db' user" by (simp only: global_role_ids_def)
  with assms(2-4) show ?thesis
    by (simp add: load_gateway_policy_documents_def team_role_ids_def roles_with_ids_def split: option.split)
qed

text \<open>
  A role granted at team scope neither opens a gateway nor limits it: adding or removing such
  assignments changes neither a user's access nor the limits the roles set, although it changes the
  console's permissions.
\<close>

theorem team_grants_do_not_reach_gateway:
  assumes "filter (\<lambda>a. ra_scope_kind a = ''global'') (role_assignments db) =
      filter (\<lambda>a. ra_scope_kind a = ''global'') (role_assignments db')"
    and "team_members db = team_members db'" and "team_role_assignments db = team_role_assignments db'"
    and "roles db = roles db'"
  shows "compute_user_resource_limits from_doc err db user = compute_user_resource_limits from_doc err db' user \<and>
    compute_user_role_constraints from_cons err db user = compute_user_role_constraints from_cons err db' user"
  using gateway_documents_cong [OF assms]
  by (simp add: compute_user_resource_limits_def compute_user_role_constraints_def)

definition demo_db :: "role_assignment list \<Rightarrow> rbac_db" where
  "demo_db as = \<lparr>role_assignments = as, team_members = [], team_role_assignments = [],
     roles = [\<lparr>role_id = uuid_nil, role_name = ''admin'', policy_document = JObject [(''Statement'', JArray [JObject
       [(''Effect'', JString ''Allow''), (''Action'', JString ''*''), (''Resource'', JString ''*'')]])],
       role_description = None, role_is_system = True, role_created_by = None, role_created_at = 0, role_updated_at = 0\<rparr>],
     team_rows = []\<rparr>"

theorem team_grants_do_not_reach_gateway_witness:
  "compute_user_resource_limits (\<lambda>_. None) None
     (demo_db [\<lparr>ra_user_id = uuid_nil, ra_role_id = uuid_nil, ra_scope_kind = ''team'', ra_scope_id = Some uuid_nil\<rparr>]) uuid_nil =
   Inr UserResourceLimits_none"
proof -
  have "compute_user_resource_limits (\<lambda>_. None) None (demo_db []) uuid_nil = Inr UserResourceLimits_none" by code_simp
  with team_grants_do_not_reach_gateway [of "demo_db [\<lparr>ra_user_id = uuid_nil, ra_role_id = uuid_nil,
      ra_scope_kind = ''team'', ra_scope_id = Some uuid_nil\<rparr>]" "demo_db []" "\<lambda>_. None" None uuid_nil "\<lambda>_. None"]
  show ?thesis by (simp add: demo_db_def)
qed

end
