(* ===== verification/Redis_Store.thy ===== *)
theory Redis_Store
  imports TW_Prelude
begin

section \<open>The Redis commands the limits engine uses\<close>

text \<open>
  Redis is a service beside the program. The model takes it as a parameter: a record of the commands
  the sources call, over an abstract state \<open>'s\<close> of the server. \<open>evalsha_err\<close> and \<open>call_err\<close> say
  whether a call on the given keys fails in the given state, and with what text; a script runs to its
  end or not at all. The hash fields and counters the sources write are decimal integers, so the
  values are \<open>int\<close> and the fields are strings.

  The locale \<open>redis_laws\<close> states the documented behaviour of these commands that the theorems rely
  on: what \<^verbatim>\<open>HGETALL\<close> returns after \<^verbatim>\<open>HINCRBY\<close>, \<^verbatim>\<open>HDEL\<close> and \<^verbatim>\<open>EXPIRE\<close>, and what \<^verbatim>\<open>GET\<close> returns after
  \<^verbatim>\<open>INCRBY\<close>. Expiry itself is a matter of later time: \<^verbatim>\<open>EXPIRE\<close> changes no value now.
  \<open>mem_redis\<close> is a server kept in memory that satisfies the laws.
\<close>

record 's redis =
  evalsha_err :: "'s \<Rightarrow> string list \<Rightarrow> string option"
  call_err :: "'s \<Rightarrow> string list \<Rightarrow> string option"
  hgetall :: "'s \<Rightarrow> string \<Rightarrow> (string \<times> int) list"
  hdel :: "string \<Rightarrow> string list \<Rightarrow> 's \<Rightarrow> 's"
  hincrby :: "string \<Rightarrow> string \<Rightarrow> int \<Rightarrow> 's \<Rightarrow> 's"
  get_int :: "'s \<Rightarrow> string \<Rightarrow> int option"
  incrby :: "string \<Rightarrow> int \<Rightarrow> 's \<Rightarrow> 's"
  expire :: "string \<Rightarrow> int \<Rightarrow> 's \<Rightarrow> 's"

abbreviation hash :: "'s redis \<Rightarrow> 's \<Rightarrow> string \<Rightarrow> string \<rightharpoonup> int" where
  "hash R s k \<equiv> map_of (hgetall R s k)"

abbreviation hfield :: "'s redis \<Rightarrow> 's \<Rightarrow> string \<Rightarrow> string \<Rightarrow> int" where
  "hfield R s k f \<equiv> unwrap_or (hash R s k f) 0"

locale redis_laws =
  fixes R :: "'s redis"
  assumes hgetall_distinct: "distinct (map fst (hgetall R s k))"
    and hash_hdel: "hash R (hdel R k fs s) k' = (if k' = k then hash R s k |` (- set fs) else hash R s k')"
    and hash_hincrby: "hash R (hincrby R k f n s) k' =
           (if k' = k then (hash R s k)(f \<mapsto> hfield R s k f + n) else hash R s k')"
    and hash_expire: "hash R (expire R k ttl s) k' = hash R s k'"
    and get_incrby: "get_int R (incrby R k n s) k' =
           (if k' = k then Some (unwrap_or (get_int R s k) 0 + n) else get_int R s k')"
    and get_expire: "get_int R (expire R k ttl s) k' = get_int R s k'"
    and get_hincrby: "k' \<noteq> k \<Longrightarrow> get_int R (hincrby R k f n s) k' = get_int R s k'"
    and get_hdel: "k' \<noteq> k \<Longrightarrow> get_int R (hdel R k fs s) k' = get_int R s k'"
    and hash_incrby: "k' \<noteq> k \<Longrightarrow> hash R (incrby R k n s) k' = hash R s k'"
begin

lemmas redis_simps =
  hash_hdel hash_hincrby hash_expire get_incrby get_expire get_hincrby get_hdel hash_incrby

lemma hfield_hincrby:
  "hfield R (hincrby R k f n s) k' f' = hfield R s k' f' + (if k' = k \<and> f' = f then n else 0)"
  by (simp add: hash_hincrby)

end

text \<open>A list with one entry per key is determined, up to order, by the map it reads as.\<close>

lemma mset_of_map_of:
  assumes "distinct (map fst xs)" "distinct (map fst ys)" "map_of xs = map_of ys"
  shows "set xs = set ys"
  using assms map_of_eq_Some_iff by (metis (mono_tags, lifting) prod.collapse subsetI subset_antisym)

subsection \<open>A server in memory\<close>

record mem =
  m_hashes :: "(string \<times> (string \<times> int) list) list"
  m_strings :: "(string \<times> int) list"
  m_down :: bool

definition mem_hash :: "mem \<Rightarrow> string \<Rightarrow> (string \<times> int) list" where
  "mem_hash s k = unwrap_or (map_of (m_hashes s) k) []"

fun nub_keys :: "(string \<times> int) list \<Rightarrow> (string \<times> int) list" where
  "nub_keys [] = []"
| "nub_keys ((f, v) # m) = (f, v) # filter (\<lambda>e. fst e \<noteq> f) (nub_keys m)"

definition mem_redis :: "mem redis" where
  "mem_redis = \<lparr>
     evalsha_err = (\<lambda>s ks. if m_down s then Some ''down'' else None),
     call_err = (\<lambda>s ks. if m_down s then Some ''down'' else None),
     hgetall = (\<lambda>s k. nub_keys (mem_hash s k)),
     hdel = (\<lambda>k fs s. s\<lparr>m_hashes := (k, filter (\<lambda>e. fst e \<notin> set fs) (mem_hash s k)) # m_hashes s\<rparr>),
     hincrby = (\<lambda>k f n s. s\<lparr>m_hashes := (k, entry_upd f (\<lambda>v. v + n) n (mem_hash s k)) # m_hashes s\<rparr>),
     get_int = (\<lambda>s k. map_of (m_strings s) k),
     incrby = (\<lambda>k n s. s\<lparr>m_strings := entry_upd k (\<lambda>v. v + n) n (m_strings s)\<rparr>),
     expire = (\<lambda>k ttl s. s)\<rparr>"

lemma map_of_filter_fst:
  "map_of (filter (\<lambda>e. P (fst e)) m) = (\<lambda>x. if P x then map_of m x else None)"
  by (induction m) (auto simp: fun_eq_iff)

lemmas map_of_filter_keys =
  map_of_filter_fst [of "\<lambda>x. x \<noteq> f" for f] map_of_filter_fst [of "\<lambda>x. x \<notin> set fs" for fs]

lemma map_of_nub_keys [simp]: "map_of (nub_keys m) = map_of m"
  by (induction m rule: nub_keys.induct) (auto simp: map_of_filter_keys fun_eq_iff)

lemma distinct_nub_keys [simp]: "distinct (map fst (nub_keys m))"
  by (induction m rule: nub_keys.induct) (auto simp: distinct_map_filter)

interpretation mem: redis_laws mem_redis
proof
  show "distinct (map fst (hgetall mem_redis s k))" for s k
    by (simp add: mem_redis_def)
  show "hash mem_redis (hdel mem_redis k fs s) k' =
      (if k' = k then hash mem_redis s k |` (- set fs) else hash mem_redis s k')" for k fs s k'
    by (auto simp: mem_redis_def mem_hash_def map_of_filter_keys restrict_map_def fun_eq_iff)
  show "hash mem_redis (hincrby mem_redis k f n s) k' =
      (if k' = k then (hash mem_redis s k)(f \<mapsto> hfield mem_redis s k f + n) else hash mem_redis s k')"
    for k f n s k'
    by (auto simp: mem_redis_def mem_hash_def fun_eq_iff split: option.splits)
  show "get_int mem_redis (incrby mem_redis k n s) k' =
      (if k' = k then Some (unwrap_or (get_int mem_redis s k) 0 + n) else get_int mem_redis s k')"
    for k n s k'
    by (auto simp: mem_redis_def split: option.splits)
qed (simp_all add: mem_redis_def mem_hash_def)

end
