(* ===== verification/Sliding.thy ===== *)
theory Sliding
  imports Redis_Store Limits_Types
begin

section \<open>The bucketed sliding-window rate limiter\<close>

text \<open>
  \<^verbatim>\<open>crates/common/src/limits/sliding.rs\<close>: the two Lua scripts over Redis hashes (\<open>lua_admit\<close>,
  \<open>lua_record\<close>), their callers, and the read-only window sum in Rust.

  Script numbers are integers here. Lua computes with doubles, which are exact for every integer up
  to \<open>2^53\<close>: seconds, bucket ids, milliseconds and counts below that. \<^verbatim>\<open>tonumber\<close> of a hash field is
  \<open>parse_int\<close>: the fields are written by \<^verbatim>\<open>HINCRBY\<close> with a bucket id, a decimal integer.
  The arguments \<^verbatim>\<open>ARGV\<close> are the counters' numbers, rendered and read back.
\<close>

subsection \<open>The model\<close>

definition BUCKETS_PER_WINDOW :: int where
  "BUCKETS_PER_WINDOW = 60"

definition bucket_secs :: "int \<Rightarrow> int" where
  "bucket_secs window_secs = div_toward_zero window_secs BUCKETS_PER_WINDOW"

record Counter =
  ct_key :: string
  ct_bucket_secs :: int
  ct_max_count :: int
  ct_charge :: int

text \<open>One field of a counter's hash, as \<^verbatim>\<open>LUA_ADMIT\<close> sorts it: stale, counted, or ahead of the clock.\<close>

definition scan_field ::
  "int \<Rightarrow> int \<Rightarrow> string \<times> int \<Rightarrow> (int \<rightharpoonup> int) \<times> string list \<times> int \<Rightarrow> (int \<rightharpoonup> int) \<times> string list \<times> int" where
  "scan_field oldest current fv acc =
     (case acc of (counts, stale, tally) \<Rightarrow>
        (case parse_int (fst fv) of
           None \<Rightarrow> (counts, stale @ [fst fv], tally)
         | Some b \<Rightarrow>
             if b < oldest then (counts, stale @ [fst fv], tally)
             else if b \<le> current then (counts(b \<mapsto> snd fv), stale, tally + snd fv)
             else (counts, stale, tally)))"

text \<open>The script's inner loop: the first bucket whose leaving frees enough, or the current one.\<close>

function drain :: "(int \<rightharpoonup> int) \<Rightarrow> int \<Rightarrow> int \<Rightarrow> int \<Rightarrow> int \<Rightarrow> int" where
  "drain counts need freed b current =
     (if b < current then
        (let freed' = freed + unwrap_or (counts b) 0 in
         if need \<le> freed' then b else drain counts need freed' (b + 1) current)
      else b)"
  by pat_completeness auto
termination
  by (relation "measure (\<lambda>(counts, need, freed, b, current). nat (current - b))") auto

declare drain.simps [simp del]

text \<open>
  The body of the first loop of \<^verbatim>\<open>LUA_ADMIT\<close> for rule \<open>i\<close>, with the limiting rule and the wait so
  far: drop the stale fields, sum the window, and when it is full see when it has room again.
\<close>

definition check_counter ::
  "'s redis \<Rightarrow> int \<Rightarrow> int \<Rightarrow> Counter \<Rightarrow> 's \<Rightarrow> int \<Rightarrow> int \<Rightarrow> 's \<times> int \<times> int \<times> int" where
  "check_counter R now_ms i c s limiting wait_ms =
     (let now_secs = now_ms div 1000;
          current = now_secs div ct_bucket_secs c;
          oldest = current - 59;
          (counts, stale, tally) =
            fold (scan_field oldest current) (hgetall R s (ct_key c)) (Map.empty, [], 0);
          s' = (if stale \<noteq> [] then hdel R (ct_key c) stale s else s)
      in if ct_max_count c \<le> tally then
           (let b = drain counts (tally - ct_max_count c + 1) 0 oldest current;
                w = (b + 60) * ct_bucket_secs c * 1000 - now_ms
            in if wait_ms < w then (s', tally, i, w) else (s', tally, limiting, wait_ms))
         else (s', tally, limiting, wait_ms))"

fun admit_check ::
  "'s redis \<Rightarrow> int \<Rightarrow> int \<Rightarrow> Counter list \<Rightarrow> 's \<Rightarrow> int \<Rightarrow> int \<Rightarrow> 's \<times> int list \<times> int \<times> int" where
  "admit_check R now_ms i [] s limiting wait_ms = (s, [], limiting, wait_ms)"
| "admit_check R now_ms i (c # cs) s limiting wait_ms =
     (case check_counter R now_ms i c s limiting wait_ms of
        (s', tally, limiting', wait_ms') \<Rightarrow>
          (case admit_check R now_ms (i + 1) cs s' limiting' wait_ms' of
             (s'', sums, limiting'', wait_ms'') \<Rightarrow> (s'', tally # sums, limiting'', wait_ms'')))"

text \<open>The second loop of \<^verbatim>\<open>LUA_ADMIT\<close>: charge every counter that has a charge.\<close>

definition charge_counter :: "'s redis \<Rightarrow> int \<Rightarrow> Counter \<Rightarrow> 's \<Rightarrow> 's" where
  "charge_counter R now_secs c s =
     (if 0 < ct_charge c then
        expire R (ct_key c) (ct_bucket_secs c * 120)
          (hincrby R (ct_key c) (show_int (now_secs div ct_bucket_secs c)) (ct_charge c) s)
      else s)"

fun admit_charge :: "'s redis \<Rightarrow> int \<Rightarrow> Counter list \<Rightarrow> int list \<Rightarrow> 's \<Rightarrow> 's \<times> int list" where
  "admit_charge R now_secs (c # cs) (sm # sums) s =
     (case admit_charge R now_secs cs sums (charge_counter R now_secs c s) of
        (s', sums') \<Rightarrow> (s', (if 0 < ct_charge c then sm + ct_charge c else sm) # sums'))"
| "admit_charge R now_secs _ sums s = (s, sums)"

definition lua_admit :: "'s redis \<Rightarrow> int \<Rightarrow> Counter list \<Rightarrow> 's \<Rightarrow> 's \<times> int list" where
  "lua_admit R now_ms cs s =
     (let (s', sums, limiting, wait_ms) = admit_check R now_ms 1 cs s 0 0
      in if 0 < limiting then (s', [0, limiting, wait_ms] @ sums)
         else let (s'', sums') = admit_charge R (now_ms div 1000) cs sums s'
              in (s'', [1, 0, 0] @ sums'))"

fun lua_record :: "'s redis \<Rightarrow> int \<Rightarrow> int \<Rightarrow> (string \<times> int) list \<Rightarrow> 's \<Rightarrow> 's" where
  "lua_record R now_ms amount [] s = s"
| "lua_record R now_ms amount ((k, bs) # cs) s =
     lua_record R now_ms amount cs
       (expire R k (bs * 120) (hincrby R k (show_int (now_ms div 1000 div bs)) amount s))"

text \<open>EVALSHA, and EVAL when the node does not have the script. \<open>script\<close> is what the script does.\<close>

definition run :: "'s redis \<Rightarrow> ('s \<Rightarrow> 's \<times> 'r) \<Rightarrow> string list \<Rightarrow> 's \<Rightarrow> 's \<times> (string + 'r)" where
  "run R script keys s =
     (case evalsha_err R s keys of
        None \<Rightarrow> (let (s', r) = script s in (s', Inr r))
      | Some e \<Rightarrow>
          if starts_with e ''NOSCRIPT'' then
            (case call_err R s keys of
               None \<Rightarrow> (let (s', r) = script s in (s', Inr r))
             | Some e' \<Rightarrow> (s, Inl e'))
          else (s, Inl e))"

definition rate_label :: "RateLimitRule \<Rightarrow> string" where
  "rate_label r =
     (let n = rl_window_secs r;
          window =
            (if n = 60 then ''1m'' else if n = 300 then ''5m'' else if n = 3600 then ''1h''
             else if n = 18000 then ''5h'' else if n = 86400 then ''1d''
             else if n = 604800 then ''1w'' else show_int n @ ''s'')
      in RateLimitSubject_as_str (rl_subject_kind r) @ '':'' @ RateMetric_as_str (rl_metric r) @
         ''/'' @ window)"

definition hash_tag :: "uuid \<Rightarrow> string" where
  "hash_tag owner = ''{user:'' @ owner @ ''}''"

definition counter_key ::
  "uuid \<Rightarrow> Surface \<Rightarrow> RateLimitSubject \<Rightarrow> uuid \<Rightarrow> RateMetric \<Rightarrow> int \<Rightarrow> string" where
  "counter_key owner surf kind subject_id metric window_secs =
     ''ratelimit:'' @ hash_tag owner @ '':'' @ Surface_as_str surf @ '':'' @
     RateLimitSubject_as_str kind @ '':'' @ subject_id @ '':'' @ RateMetric_as_str metric @ '':'' @
     show_int window_secs"

record ResolvedRule =
  rr_id :: uuid
  rr_key :: string
  rr_bucket_secs :: int
  rr_max_count :: int

definition ResolvedRule_new :: "RateLimitRule \<Rightarrow> uuid \<Rightarrow> ResolvedRule" where
  "ResolvedRule_new r owner =
     \<lparr>rr_id = rl_id r,
      rr_key = counter_key owner (rl_surface r) (rl_subject_kind r) (rl_subject_id r) (rl_metric r)
                 (rl_window_secs r),
      rr_bucket_secs = bucket_secs (rl_window_secs r),
      rr_max_count = rl_max_count r\<rparr>"

record CheckOutcome =
  allowed :: bool
  exceeded_index :: "nat option"
  retry_after :: nat
  currents :: "int list"

definition CheckOutcome_open :: CheckOutcome where
  "CheckOutcome_open = \<lparr>allowed = True, exceeded_index = None, retry_after = 0, currents = []\<rparr>"

definition retry_after_secs :: "int \<Rightarrow> nat" where
  "retry_after_secs wait_ms = nat (max ((max wait_ms 0 + 999) div 1000) 1)"

definition nth_opt :: "'a list \<Rightarrow> nat \<Rightarrow> 'a option" where
  "nth_opt xs i = (if i < length xs then Some (xs ! i) else None)"

definition parse_admit_reply :: "int list \<Rightarrow> CheckOutcome" where
  "parse_admit_reply reply =
     (let ok = (unwrap_or (nth_opt reply 0) 1 = 1);
          limiting = unwrap_or (nth_opt reply 1) 0;
          wait_ms = max (unwrap_or (nth_opt reply 2) 0) 0
      in \<lparr>allowed = ok,
          exceeded_index = (if \<not> ok \<and> 1 \<le> limiting then Some (nat (limiting - 1)) else None),
          retry_after = (if ok then 0 else retry_after_secs wait_ms),
          currents = drop 3 reply\<rparr>)"

definition admit_counters_at ::
  "'s redis \<Rightarrow> Counter list \<Rightarrow> int \<Rightarrow> 's \<Rightarrow> 's \<times> (string + CheckOutcome)" where
  "admit_counters_at R cs now_ms s =
     (if cs = [] then (s, Inr CheckOutcome_open)
      else case run R (lua_admit R now_ms cs) (map ct_key cs) s of
             (s', Inl e) \<Rightarrow> (s', Inl e)
           | (s', Inr reply) \<Rightarrow> (s', Inr (parse_admit_reply reply)))"

definition rule_counter :: "uuid \<Rightarrow> RateLimitRule \<Rightarrow> Counter" where
  "rule_counter owner r =
     (let rr = ResolvedRule_new r owner
      in \<lparr>ct_key = rr_key rr, ct_bucket_secs = rr_bucket_secs rr, ct_max_count = rr_max_count rr,
          ct_charge = (case rl_metric r of Requests \<Rightarrow> 1 | Tokens \<Rightarrow> 0)\<rparr>)"

definition admit_at ::
  "'s redis \<Rightarrow> RateLimitRule list \<Rightarrow> uuid \<Rightarrow> int \<Rightarrow> bool \<Rightarrow> 's \<Rightarrow> 's \<times> (string + CheckOutcome)" where
  "admit_at R rs owner now_ms fail_open s =
     (case admit_counters_at R (map (rule_counter owner) rs) now_ms s of
        (s', Inr outcome) \<Rightarrow> (s', Inr outcome)
      | (s', Inl e) \<Rightarrow> if fail_open then (s', Inr CheckOutcome_open) else (s', Inl e))"

definition record_counters_at ::
  "'s redis \<Rightarrow> (string \<times> int) list \<Rightarrow> int \<Rightarrow> int \<Rightarrow> 's \<Rightarrow> 's \<times> (string + unit)" where
  "record_counters_at R cs amount now_ms s =
     (if cs = [] \<or> amount \<le> 0 then (s, Inr ())
      else run R (\<lambda>s. (lua_record R now_ms amount cs s, ())) (map fst cs) s)"

definition record_at ::
  "'s redis \<Rightarrow> RateLimitRule list \<Rightarrow> uuid \<Rightarrow> RateMetric \<Rightarrow> int \<Rightarrow> int \<Rightarrow> 's \<Rightarrow> 's \<times> (string + unit)" where
  "record_at R rs owner metric amount now_ms s =
     record_counters_at R
       (map (\<lambda>r. (rr_key (ResolvedRule_new r owner), rr_bucket_secs (ResolvedRule_new r owner)))
         (filter (\<lambda>r. rl_metric r = metric) rs))
       amount now_ms s"

definition parse_i64 :: "string \<Rightarrow> int option" where
  "parse_i64 t =
     (case parse_int t of None \<Rightarrow> None
      | Some i \<Rightarrow> if - (2 ^ 63) \<le> i \<and> i < 2 ^ 63 then Some i else None)"

definition window_sum :: "(string \<times> int) list \<Rightarrow> int \<Rightarrow> int \<Rightarrow> int" where
  "window_sum buckets now_secs bs =
     (if bs \<le> 0 then 0
      else let current = now_secs div bs;
               oldest = current - (BUCKETS_PER_WINDOW - 1)
           in sum_list (map snd (filter
                (\<lambda>(f, v). case parse_i64 f of None \<Rightarrow> False | Some b \<Rightarrow> oldest \<le> b \<and> b \<le> current)
                buckets)))"

definition read_count :: "'s redis \<Rightarrow> ResolvedRule \<Rightarrow> int \<Rightarrow> 's \<Rightarrow> string + int" where
  "read_count R r now_secs s =
     (case call_err R s [rr_key r] of
        Some e \<Rightarrow> Inl e
      | None \<Rightarrow> Inr (window_sum (hgetall R s (rr_key r)) now_secs (rr_bucket_secs r)))"

definition current_count :: "'s redis \<Rightarrow> ResolvedRule \<Rightarrow> int \<Rightarrow> 's \<Rightarrow> int" where
  "current_count R r now_secs s = (case read_count R r now_secs s of Inl e \<Rightarrow> 0 | Inr n \<Rightarrow> n)"

end
