(* ===== verification/Sliding_Window.thy ===== *)
theory Sliding_Window
  imports Sliding
begin

section \<open>What the sliding-window limiter guarantees\<close>

text \<open>
  The abstract view of a counter is the function from bucket ids to counts, \<open>bucket R s k\<close>, and the
  sum of the sixty buckets that end at a time, \<open>win R s k bs t\<close>. The lemmas relate the scripts to
  that view: the scan computes the window sum, the inner loop finds the moment the window has room,
  a refusal leaves the view alone, an admission adds one to the current bucket of each charged
  counter. \<open>canon\<close> is the invariant of the hashes the scripts write: fields are bucket ids, counts
  are not negative.
\<close>

subsection \<open>Abstract view\<close>

definition bucket :: "'s redis \<Rightarrow> 's \<Rightarrow> string \<Rightarrow> int \<Rightarrow> int" where
  "bucket R s k b = hfield R s k (show_int b)"

definition win :: "'s redis \<Rightarrow> 's \<Rightarrow> string \<Rightarrow> int \<Rightarrow> int \<Rightarrow> int" where
  "win R s k bs t = (\<Sum>b = t div bs - 59..t div bs. bucket R s k b)"

definition canon :: "(string \<rightharpoonup> int) \<Rightarrow> bool" where
  "canon m \<longleftrightarrow> (\<forall>f v. m f = Some v \<longrightarrow> (\<exists>b. f = show_int b) \<and> 0 \<le> v)"

definition canon_store :: "'s redis \<Rightarrow> 's \<Rightarrow> bool" where
  "canon_store R s \<longleftrightarrow> (\<forall>k. canon (hash R s k))"

definition no_future :: "'s redis \<Rightarrow> 's \<Rightarrow> string \<Rightarrow> int \<Rightarrow> int \<Rightarrow> bool" where
  "no_future R s k bs t \<longleftrightarrow> (\<forall>b > t div bs. bucket R s k b = 0)"

definition counter_ok :: "Counter \<Rightarrow> bool" where
  "counter_ok c \<longleftrightarrow> 0 < ct_bucket_secs c \<and> 0 < ct_max_count c"

abbreviation cwin :: "'s redis \<Rightarrow> 's \<Rightarrow> Counter \<Rightarrow> int \<Rightarrow> int" where
  "cwin R s c t \<equiv> win R s (ct_key c) (ct_bucket_secs c) t"

lemma bucket_nonneg: "canon_store R s \<Longrightarrow> 0 \<le> bucket R s k b"
  by (auto simp: canon_store_def canon_def bucket_def unwrap_or_def split: option.splits)

subsection \<open>The scan\<close>

definition live_field :: "int \<Rightarrow> int \<Rightarrow> string \<Rightarrow> bool" where
  "live_field oldest current f =
     (case parse_int f of None \<Rightarrow> False | Some b \<Rightarrow> oldest \<le> b \<and> b \<le> current)"

definition stale_field :: "int \<Rightarrow> string \<Rightarrow> bool" where
  "stale_field oldest f = (case parse_int f of None \<Rightarrow> True | Some b \<Rightarrow> b < oldest)"

lemma scan_stale:
  "fst (snd (fold (scan_field o' c) xs (cnt, st, sm))) = st @ filter (stale_field o') (map fst xs)"
  by (induction xs arbitrary: cnt st sm)
     (auto simp: scan_field_def stale_field_def split: option.splits)

lemma scan_sum:
  "snd (snd (fold (scan_field o' c) xs (cnt, st, sm))) =
     sm + sum_list (map snd (filter (\<lambda>e. live_field o' c (fst e)) xs))"
  by (induction xs arbitrary: cnt st sm)
     (auto simp: scan_field_def live_field_def split: option.splits)

lemma scan_field_show:
  "scan_field o' c (show_int b, v) (cnt, st, sm) =
     (if b < o' then (cnt, st @ [show_int b], sm)
      else if b \<le> c then (cnt(b \<mapsto> v), st, sm + v) else (cnt, st, sm))"
  by (simp add: scan_field_def)

lemma scan_counts:
  assumes "distinct (map fst xs)" "\<forall>f \<in> set (map fst xs). \<exists>b. f = show_int b"
  shows "fst (fold (scan_field o' c) xs (cnt, st, sm)) b =
     (if o' \<le> b \<and> b \<le> c \<and> show_int b \<in> set (map fst xs) then map_of xs (show_int b) else cnt b)"
  using assms
proof (induction xs arbitrary: cnt st sm)
  case Nil
  then show ?case by simp
next
  case (Cons x xs)
  obtain b0 v where x: "x = (show_int b0, v)" using Cons.prems(2) by (cases x) auto
  with Cons.prems have fresh: "show_int b0 \<notin> set (map fst xs)" by simp
  from Cons.prems have IH: "fst (fold (scan_field o' c) xs (cnt', st', sm')) b =
     (if o' \<le> b \<and> b \<le> c \<and> show_int b \<in> set (map fst xs) then map_of xs (show_int b) else cnt' b)"
    for cnt' st' sm' by (intro Cons.IH) auto
  show ?case
  proof (cases "b = b0")
    case True
    with x fresh have "x = (show_int b, v)" "show_int b \<notin> set (map fst xs)" by simp_all
    then show ?thesis by (simp add: scan_field_show IH)
  next
    case False
    with x show ?thesis by (simp add: scan_field_show IH)
  qed
qed

lemma live_sum_eq:
  assumes "distinct (map fst xs)" "\<forall>f \<in> set (map fst xs). \<exists>b. f = show_int b"
  shows "sum_list (map snd (filter (\<lambda>e. live_field o' c (fst e)) xs)) =
     (\<Sum>b = o'..c. unwrap_or (map_of xs (show_int b)) 0)"
  using assms
proof (induction xs)
  case Nil
  then show ?case by simp
next
  case (Cons x xs)
  obtain b0 v where x: "x = (show_int b0, v)" using Cons.prems(2) by (cases x) auto
  with Cons.prems have none: "map_of xs (show_int b0) = None"
    by (simp add: map_of_eq_None_iff)
  have "(\<Sum>b = o'..c. unwrap_or (map_of (x # xs) (show_int b)) 0) =
      (\<Sum>b = o'..c. (if b = b0 then v else 0) + unwrap_or (map_of xs (show_int b)) 0)"
    using x none by (intro sum.cong) auto
  also have "\<dots> = (if o' \<le> b0 \<and> b0 \<le> c then v else 0) + (\<Sum>b = o'..c. unwrap_or (map_of xs (show_int b)) 0)"
    by (simp add: sum.distrib)
  finally show ?case using Cons x by (simp add: live_field_def)
qed

lemma canon_fields: "canon (map_of xs) \<Longrightarrow> \<forall>f \<in> set (map fst xs). \<exists>b. f = show_int b"
  unfolding canon_def by (metis map_of_eq_None_iff not_Some_eq set_map)

subsection \<open>The inner loop\<close>

lemma drain_bounds:
  assumes "b \<le> c"
  shows "b \<le> drain m need fr b c \<and> drain m need fr b c \<le> c"
  using assms
proof (induction m need fr b c rule: drain.induct)
  case (1 m need fr b c)
  show ?case
  proof (cases "b < c \<and> \<not> need \<le> fr + unwrap_or (m b) 0")
    case True
    with 1 show ?thesis by (simp add: drain.simps [of m need fr b c] Let_def)
  next
    case False
    with 1 show ?thesis by (auto simp: drain.simps [of m need fr b c] Let_def)
  qed
qed

lemma drain_before:
  assumes "b \<le> x" "x < drain m need fr b c"
  shows "fr + (\<Sum>i = b..x. unwrap_or (m i) 0) < need"
  using assms
proof (induction m need fr b c rule: drain.induct)
  case (1 m need fr b c)
  let ?fr = "fr + unwrap_or (m b) 0"
  from "1.prems" have bc: "b < c" and nf: "\<not> need \<le> ?fr"
    by (auto simp: drain.simps [of m need fr b c] Let_def split: if_splits)
  show ?case
  proof (cases "x = b")
    case True
    with nf show ?thesis by simp
  next
    case False
    with "1.prems" have "b + 1 \<le> x" by simp
    moreover from "1.prems" bc nf have "x < drain m need ?fr (b + 1) c"
      by (simp add: drain.simps [of m need fr b c] Let_def)
    ultimately have "?fr + (\<Sum>i = b + 1..x. unwrap_or (m i) 0) < need"
      using "1.IH" bc nf by simp
    moreover have "{b..x} = insert b {b + 1..x}" using "1.prems" by auto
    ultimately show ?thesis by simp
  qed
qed

lemma drain_enough:
  assumes "b \<le> c" "drain m need fr b c < c"
  shows "need \<le> fr + (\<Sum>i = b..drain m need fr b c. unwrap_or (m i) 0)"
  using assms
proof (induction m need fr b c rule: drain.induct)
  case (1 m need fr b c)
  let ?fr = "fr + unwrap_or (m b) 0"
  from "1.prems" have bc: "b < c"
    by (auto simp: drain.simps [of m need fr b c] split: if_splits)
  show ?case
  proof (cases "need \<le> ?fr")
    case True
    with bc show ?thesis by (simp add: drain.simps [of m need fr b c] Let_def)
  next
    case False
    with bc have d: "drain m need fr b c = drain m need ?fr (b + 1) c"
      by (simp add: drain.simps [of m need fr b c] Let_def)
    with "1.IH" bc False "1.prems" have
      "need \<le> ?fr + (\<Sum>i = b + 1..drain m need ?fr (b + 1) c. unwrap_or (m i) 0)" by simp
    moreover have "{b..drain m need ?fr (b + 1) c} = insert b {b + 1..drain m need ?fr (b + 1) c}"
      using drain_bounds [of "b + 1" c m need ?fr] bc by auto
    ultimately show ?thesis using d by simp
  qed
qed

subsection \<open>One counter\<close>

text \<open>
  What the body of the script's loop does with a counter, in terms of the view: \<open>prune\<close> is the store
  without the stale fields, \<open>is_full\<close> the test, \<open>room_in\<close> the milliseconds until there is room.
\<close>

definition prune :: "'s redis \<Rightarrow> int \<Rightarrow> Counter \<Rightarrow> 's \<Rightarrow> 's" where
  "prune R now_ms c s =
     (let stale = filter (stale_field (now_ms div 1000 div ct_bucket_secs c - 59))
                    (map fst (hgetall R s (ct_key c)))
      in if stale \<noteq> [] then hdel R (ct_key c) stale s else s)"

definition is_full :: "'s redis \<Rightarrow> 's \<Rightarrow> int \<Rightarrow> Counter \<Rightarrow> bool" where
  "is_full R s now_ms c \<longleftrightarrow> ct_max_count c \<le> cwin R s c (now_ms div 1000)"

definition release :: "'s redis \<Rightarrow> 's \<Rightarrow> int \<Rightarrow> Counter \<Rightarrow> int" where
  "release R s now_ms c =
     (let cur = now_ms div 1000 div ct_bucket_secs c
      in drain (\<lambda>b. if cur - 59 \<le> b \<and> b \<le> cur then hash R s (ct_key c) (show_int b) else None)
           (cwin R s c (now_ms div 1000) - ct_max_count c + 1) 0 (cur - 59) cur)"

definition room_in :: "'s redis \<Rightarrow> 's \<Rightarrow> int \<Rightarrow> Counter \<Rightarrow> int" where
  "room_in R s now_ms c = (release R s now_ms c + 60) * ct_bucket_secs c * 1000 - now_ms"

lemma view_cong:
  assumes "hash R s k = hash R s' k"
  shows "bucket R s k = bucket R s' k" "win R s k = win R s' k" "no_future R s k = no_future R s' k"
  using assms by (auto simp: bucket_def win_def no_future_def fun_eq_iff)

lemma counter_cong:
  assumes "hash R s (ct_key c) = hash R s' (ct_key c)"
  shows "is_full R s now c = is_full R s' now c" "room_in R s now c = room_in R s' now c"
  using view_cong [OF assms] assms by (simp_all add: is_full_def room_in_def release_def Let_def cong: if_cong)

lemma le_div_iff:
  assumes "0 < (d::int)"
  shows "b \<le> t div d \<longleftrightarrow> b * d \<le> t"
proof
  assume "b \<le> t div d"
  with assms have "b * d \<le> t div d * d" by simp
  also have "\<dots> \<le> t" using assms by (simp add: minus_mod_eq_div_mult [symmetric])
  finally show "b * d \<le> t" .
next
  assume "b * d \<le> t"
  then have "b * d div d \<le> t div d" using assms by (rule zdiv_mono1)
  with assms show "b \<le> t div d" by simp
qed

lemma ms_bucket_le:
  assumes "0 < (bs::int)"
  shows "b \<le> t div 1000 div bs \<longleftrightarrow> b * bs * 1000 \<le> t"
proof -
  have "t div 1000 div bs = t div (1000 * bs)" using assms by (simp add: zdiv_zmult2_eq)
  moreover have "b \<le> t div (1000 * bs) \<longleftrightarrow> b * (1000 * bs) \<le> t"
    using assms by (intro le_div_iff) simp
  ultimately show ?thesis by (simp add: algebra_simps)
qed

context redis_laws
begin

lemma scan_hash:
  assumes "canon (hash R s k)"
  shows "fold (scan_field o' c) (hgetall R s k) (Map.empty, [], 0) =
     (\<lambda>b. if o' \<le> b \<and> b \<le> c then hash R s k (show_int b) else None,
      filter (stale_field o') (map fst (hgetall R s k)),
      \<Sum>b = o'..c. bucket R s k b)"
proof -
  define r where "r = fold (scan_field o' c) (hgetall R s k) (Map.empty, [], 0)"
  note f = canon_fields [OF assms]
  have "fst r b = (if o' \<le> b \<and> b \<le> c then hash R s k (show_int b) else None)" for b
    using scan_counts [OF hgetall_distinct f, of o' c Map.empty "[]" 0 b]
      map_of_eq_None_iff [of "hgetall R s k" "show_int b"]
    unfolding r_def by (cases "show_int b \<in> set (map fst (hgetall R s k))") simp_all
  then have 1: "fst r = (\<lambda>b. if o' \<le> b \<and> b \<le> c then hash R s k (show_int b) else None)" by (rule ext)
  have 2: "snd (snd r) = (\<Sum>b = o'..c. bucket R s k b)"
    unfolding r_def scan_sum live_sum_eq [OF hgetall_distinct f] bucket_def by simp
  have 3: "fst (snd r) = filter (stale_field o') (map fst (hgetall R s k))"
    unfolding r_def scan_stale by simp
  show ?thesis unfolding r_def [symmetric] using 1 2 3 by (simp add: prod_eq_iff)
qed

lemma check_counter_eq:
  assumes "canon (hash R s (ct_key c))"
  shows "check_counter R now i c s lim w =
     (prune R now c s, cwin R s c (now div 1000),
      (if is_full R s now c \<and> w < room_in R s now c then (i, room_in R s now c) else (lim, w)))"
  using scan_hash [OF assms]
  by (auto simp: check_counter_def Let_def prune_def is_full_def room_in_def release_def win_def)

lemma hash_prune:
  "hash R (prune R now c s) k =
     (if k = ct_key c
      then (\<lambda>f. if stale_field (now div 1000 div ct_bucket_secs c - 59) f then None else hash R s k f)
      else hash R s k)"
proof (cases "k = ct_key c")
  case False
  then show ?thesis by (simp add: prune_def Let_def hash_hdel)
next
  case True
  let ?st = "stale_field (now div 1000 div ct_bucket_secs c - 59)"
  let ?gone = "filter ?st (map fst (hgetall R s k))"
  have absent: "hash R s k f = None" if "?st f" "f \<notin> set ?gone" for f
    using that by (simp add: map_of_eq_None_iff)
  have "hash R (prune R now c s) k f = (if ?st f then None else hash R s k f)" for f
  proof (cases "?gone = []")
    case True
    then have "prune R now c s = s" using \<open>k = ct_key c\<close> by (simp add: prune_def Let_def)
    with True absent show ?thesis by simp
  next
    case False
    then have "prune R now c s = hdel R k ?gone s"
      using \<open>k = ct_key c\<close> by (simp add: prune_def Let_def)
    with absent show ?thesis by (auto simp: hash_hdel restrict_map_def)
  qed
  with True show ?thesis by (simp add: fun_eq_iff)
qed

lemma bucket_prune:
  "bucket R (prune R now c s) k b =
     (if k = ct_key c \<and> b < now div 1000 div ct_bucket_secs c - 59 then 0 else bucket R s k b)"
  by (simp add: bucket_def hash_prune stale_field_def)

lemma canon_prune: "canon_store R s \<Longrightarrow> canon_store R (prune R now c s)"
  by (auto simp: canon_store_def canon_def hash_prune split: if_splits)

lemma prune_other:
  assumes "ct_key c' \<noteq> ct_key c"
  shows "is_full R (prune R now c s) t c' = is_full R s t c'"
    "room_in R (prune R now c s) t c' = room_in R s t c'"
    "cwin R (prune R now c s) c' u = cwin R s c' u"
proof -
  have h: "hash R (prune R now c s) (ct_key c') = hash R s (ct_key c')"
    using assms by (simp add: hash_prune)
  show "is_full R (prune R now c s) t c' = is_full R s t c'"
    "room_in R (prune R now c s) t c' = room_in R s t c'"
    "cwin R (prune R now c s) c' u = cwin R s c' u"
    using counter_cong [OF h] view_cong [OF h] by simp_all
qed

end

subsection \<open>The first loop\<close>

text \<open>The limiting rule and the wait the loop ends with, over the view alone.\<close>

fun limit_of :: "'s redis \<Rightarrow> 's \<Rightarrow> int \<Rightarrow> int \<Rightarrow> Counter list \<Rightarrow> int \<times> int \<Rightarrow> int \<times> int" where
  "limit_of R s now i [] lw = lw"
| "limit_of R s now i (c # cs) lw =
     limit_of R s now (i + 1) cs
       (if is_full R s now c \<and> snd lw < room_in R s now c then (i, room_in R s now c) else lw)"

lemma limit_of_ge: "snd lw \<le> snd (limit_of R s now i cs lw)"
proof (induction cs arbitrary: i lw)
  case (Cons c cs)
  have "snd lw \<le> snd (if is_full R s now c \<and> snd lw < room_in R s now c then (i, room_in R s now c) else lw)"
    by simp
  also note Cons.IH
  finally show ?case by simp
qed simp

lemma limit_of_max: "c \<in> set cs \<Longrightarrow> is_full R s now c \<Longrightarrow> room_in R s now c \<le> snd (limit_of R s now i cs lw)"
proof (induction cs arbitrary: i lw)
  case (Cons d cs)
  let ?lw = "if is_full R s now d \<and> snd lw < room_in R s now d then (i, room_in R s now d) else lw"
  show ?case
  proof (cases "c = d")
    case True
    with Cons.prems have "room_in R s now c \<le> snd ?lw" by auto
    from order_trans [OF this limit_of_ge] show ?thesis by (simp only: limit_of.simps)
  next
    case False
    with Cons show ?thesis by simp
  qed
qed simp

lemma limit_of_cases:
  "limit_of R s now i cs lw = lw \<or>
   (\<exists>j < length cs. limit_of R s now i cs lw = (i + int j, room_in R s now (cs ! j)) \<and> is_full R s now (cs ! j))"
proof (induction cs arbitrary: i lw)
  case (Cons c cs)
  let ?lw = "if is_full R s now c \<and> snd lw < room_in R s now c then (i, room_in R s now c) else lw"
  have eq: "limit_of R s now i (c # cs) lw = limit_of R s now (i + 1) cs ?lw" by simp
  from Cons.IH [of "i + 1" ?lw] show ?case
  proof (elim disjE exE conjE)
    assume "limit_of R s now (i + 1) cs ?lw = ?lw"
    with eq show ?thesis by (cases "?lw = lw") (auto intro!: exI [of _ 0])
  next
    fix j assume "j < length cs" "limit_of R s now (i + 1) cs ?lw = (i + 1 + int j, room_in R s now (cs ! j))"
      "is_full R s now (cs ! j)"
    with eq show ?thesis by (intro disjI2 exI [of _ "Suc j"]) simp
  qed
qed simp

lemma limit_of_none: "\<forall>c \<in> set cs. \<not> is_full R s now c \<Longrightarrow> limit_of R s now i cs lw = lw"
  by (induction cs arbitrary: i) auto

lemma limit_of_cong:
  assumes "\<And>c. c \<in> set cs \<Longrightarrow> is_full R s now c = is_full R s' now c"
    "\<And>c. c \<in> set cs \<Longrightarrow> room_in R s now c = room_in R s' now c"
  shows "limit_of R s now i cs lw = limit_of R s' now i cs lw"
  using assms by (induction cs arbitrary: i lw) simp_all

context redis_laws
begin

lemma admit_check_eq:
  assumes "canon_store R s" "distinct (map ct_key cs)"
  shows "admit_check R now i cs s lim w =
     (fold (prune R now) cs s, map (\<lambda>c. cwin R s c (now div 1000)) cs, limit_of R s now i cs (lim, w))"
  using assms
proof (induction cs arbitrary: i s lim w)
  case Nil
  then show ?case by simp
next
  case (Cons c cs)
  let ?s = "prune R now c s"
  let ?lw = "if is_full R s now c \<and> w < room_in R s now c then (i, room_in R s now c) else (lim, w)"
  from Cons.prems have canon: "canon (hash R s (ct_key c))" and other: "\<And>c'. c' \<in> set cs \<Longrightarrow> ct_key c' \<noteq> ct_key c"
    unfolding canon_store_def by (auto simp: rev_image_eqI)
  have "admit_check R now (i + 1) cs ?s (fst ?lw) (snd ?lw) =
      (fold (prune R now) cs ?s, map (\<lambda>c. cwin R ?s c (now div 1000)) cs,
       limit_of R ?s now (i + 1) cs (fst ?lw, snd ?lw))"
    using Cons.prems by (intro Cons.IH) (simp_all add: canon_prune)
  moreover have "map (\<lambda>c. cwin R ?s c (now div 1000)) cs = map (\<lambda>c. cwin R s c (now div 1000)) cs"
    using prune_other(3) [OF other] by simp
  moreover have "limit_of R ?s now (i + 1) cs lw = limit_of R s now (i + 1) cs lw" for lw
    using prune_other [OF other] by (intro limit_of_cong) auto
  ultimately show ?case by (auto simp: check_counter_eq [OF canon])
qed

end

subsection \<open>When a full window has room again\<close>

lemma release_bounds:
  "now div 1000 div ct_bucket_secs c - 59 \<le> release R s now c"
  "release R s now c \<le> now div 1000 div ct_bucket_secs c"
  unfolding release_def Let_def using drain_bounds by simp_all

lemma room_in_pos:
  assumes "0 < ct_bucket_secs c"
  shows "0 < room_in R s now c"
proof -
  let ?cur = "now div 1000 div ct_bucket_secs c"
  have "\<not> (?cur + 1) * ct_bucket_secs c * 1000 \<le> now"
    using ms_bucket_le [OF assms, of "?cur + 1" now] by simp
  moreover have "(?cur + 1) * ct_bucket_secs c * 1000 \<le> (release R s now c + 60) * ct_bucket_secs c * 1000"
    using assms release_bounds(1) [of now c R s] by (simp add: mult_right_mono)
  ultimately show ?thesis by (simp add: room_in_def)
qed

lemma room_reached_iff:
  assumes "0 < ct_bucket_secs c"
  shows "now + room_in R s now c \<le> t \<longleftrightarrow> release R s now c + 60 \<le> t div 1000 div ct_bucket_secs c"
  using ms_bucket_le [OF assms] by (simp add: room_in_def)

lemma cwin_later:
  assumes "no_future R s (ct_key c) (ct_bucket_secs c) (now div 1000)"
    "now div 1000 div ct_bucket_secs c \<le> t div 1000 div ct_bucket_secs c"
  shows "cwin R s c (t div 1000) =
    (\<Sum>b = t div 1000 div ct_bucket_secs c - 59..now div 1000 div ct_bucket_secs c. bucket R s (ct_key c) b)"
  unfolding win_def using assms
  by (intro sum.mono_neutral_right) (auto simp: no_future_def)

lemma sum_split_int:
  fixes f :: "int \<Rightarrow> int"
  assumes "a \<le> x + 1" "x \<le> b"
  shows "(\<Sum>i = a..b. f i) = (\<Sum>i = a..x. f i) + (\<Sum>i = x + 1..b. f i)"
proof -
  have "{a..b} = {a..x} \<union> {x + 1..b}" using assms by auto
  moreover have "sum f ({a..x} \<union> {x + 1..b}) = sum f {a..x} + sum f {x + 1..b}"
    by (intro sum.union_disjoint) auto
  ultimately show ?thesis by simp
qed

lemma release_sums:
  fixes R s now c
  defines "cur \<equiv> now div 1000 div ct_bucket_secs c" and "f \<equiv> bucket R s (ct_key c)"
    and "need \<equiv> cwin R s c (now div 1000) - ct_max_count c + 1"
  shows "cur - 59 \<le> x \<Longrightarrow> x < release R s now c \<Longrightarrow> (\<Sum>b = cur - 59..x. f b) < need"
    and "release R s now c < cur \<Longrightarrow> need \<le> (\<Sum>b = cur - 59..release R s now c. f b)"
proof -
  let ?m = "\<lambda>b. if cur - 59 \<le> b \<and> b \<le> cur then hash R s (ct_key c) (show_int b) else None"
  have rel: "release R s now c = drain ?m need 0 (cur - 59) cur"
    by (simp add: release_def Let_def cur_def need_def)
  have eq: "(\<Sum>b = cur - 59..x. unwrap_or (?m b) 0) = (\<Sum>b = cur - 59..x. f b)" if "x \<le> cur" for x
    using that by (intro sum.cong) (auto simp: f_def bucket_def)
  have hi: "release R s now c \<le> cur" unfolding cur_def by (rule release_bounds(2))
  show "(\<Sum>b = cur - 59..x. f b) < need" if x: "cur - 59 \<le> x" "x < release R s now c"
  proof -
    from x(2) have "x < drain ?m need 0 (cur - 59) cur" unfolding rel .
    from drain_before [OF x(1) this] eq [of x] x(2) hi show ?thesis by simp
  qed
  show "need \<le> (\<Sum>b = cur - 59..release R s now c. f b)" if r: "release R s now c < cur"
  proof -
    have "need \<le> 0 + (\<Sum>b = cur - 59..drain ?m need 0 (cur - 59) cur. unwrap_or (?m b) 0)"
      using r unfolding rel by (intro drain_enough) simp_all
    with eq [OF hi] show ?thesis unfolding rel by simp
  qed
qed

lemma room_iff:
  assumes canon: "canon_store R s" and ok: "counter_ok c" and full: "is_full R s now c"
    and nf: "no_future R s (ct_key c) (ct_bucket_secs c) (now div 1000)" and t: "now \<le> t"
  shows "is_full R s t c \<longleftrightarrow> t < now + room_in R s now c"
proof -
  define cur cur' f r W mx where "cur = now div 1000 div ct_bucket_secs c"
    and "cur' = t div 1000 div ct_bucket_secs c" and "f = bucket R s (ct_key c)"
    and "r = release R s now c" and "W = cwin R s c (now div 1000)" and "mx = ct_max_count c"
  note defs = cur_def cur'_def f_def r_def W_def mx_def
  from ok have bs: "0 < ct_bucket_secs c" and mx: "0 < mx" by (simp_all add: counter_ok_def mx_def)
  have le: "cur \<le> cur'" unfolding defs using t bs by (intro zdiv_mono1) simp_all
  have later: "is_full R s t c \<longleftrightarrow> mx \<le> (\<Sum>b = cur' - 59..cur. f b)"
    unfolding is_full_def defs using cwin_later [OF nf] le [unfolded defs] by simp
  have W: "W = (\<Sum>b = cur - 59..cur. f b)" unfolding defs win_def ..
  have full': "mx \<le> W" using full unfolding is_full_def defs .
  have lo: "cur - 59 \<le> r" and hi: "r \<le> cur" unfolding defs by (rule release_bounds)+
  have before: "(\<Sum>b = cur - 59..x. f b) < W - mx + 1" if "cur - 59 \<le> x" "x < r" for x
    using that unfolding defs by (rule release_sums(1))
  have enough: "W - mx + 1 \<le> (\<Sum>b = cur - 59..r. f b)" if "r < cur"
    using that unfolding defs by (rule release_sums(2))
  have f0: "0 \<le> f b" for b unfolding f_def by (rule bucket_nonneg [OF canon])
  have tail: "(\<Sum>b = y..cur. f b) = W - (\<Sum>b = cur - 59..y - 1. f b)" if "cur - 59 \<le> y" "y - 1 \<le> cur" for y
    using sum_split_int [of "cur - 59" "y - 1" cur f] that W by simp
  have "is_full R s t c \<longleftrightarrow> cur' < r + 60"
  proof (cases "cur' < r + 60")
    case early: True
    have "mx \<le> (\<Sum>b = cur' - 59..cur. f b)"
    proof (cases "cur - 59 \<le> cur' - 60")
      case True
      with before [of "cur' - 60"] tail [of "cur' - 59"] early hi show ?thesis by simp
    next
      case False
      with le have "cur' = cur" by simp
      with full' W show ?thesis by simp
    qed
    with early later show ?thesis by simp
  next
    case late: False
    have "(\<Sum>b = cur' - 59..cur. f b) < mx"
    proof (cases "r < cur")
      case True
      have "(\<Sum>b = cur' - 59..cur. f b) \<le> (\<Sum>b = r + 1..cur. f b)"
        using late f0 by (intro sum_mono2) auto
      also have "\<dots> = W - (\<Sum>b = cur - 59..r. f b)" using tail [of "r + 1"] lo True by simp
      also have "\<dots> < mx" using enough [OF True] by simp
      finally show ?thesis .
    next
      case False
      with late hi have "{cur' - 59..cur} = {}" by simp
      with mx show ?thesis by simp
    qed
    with late later show ?thesis by simp
  qed
  moreover have "now + room_in R s now c \<le> t \<longleftrightarrow> r + 60 \<le> cur'"
    unfolding defs by (rule room_reached_iff [OF bs])
  ultimately show ?thesis by linarith
qed

subsection \<open>The second loop\<close>

definition charged :: "Counter \<Rightarrow> int" where
  "charged c = (if 0 < ct_charge c then ct_charge c else 0)"

lemma charged_nonneg [simp]: "0 \<le> charged c"
  by (simp add: charged_def)

lemma admit_charge_eq:
  "admit_charge R t cs (map g cs) s = (fold (charge_counter R t) cs s, map (\<lambda>c. g c + charged c) cs)"
  by (induction cs arbitrary: s) (simp_all add: charged_def)

context redis_laws
begin

lemma hash_charge:
  "hash R (charge_counter R t c s) k =
     (if 0 < ct_charge c \<and> k = ct_key c
      then (hash R s k)(show_int (t div ct_bucket_secs c) \<mapsto>
              bucket R s k (t div ct_bucket_secs c) + ct_charge c)
      else hash R s k)"
  by (simp add: charge_counter_def hash_expire hash_hincrby bucket_def)

lemma bucket_charge:
  "bucket R (charge_counter R t c s) k b =
     bucket R s k b + (if k = ct_key c \<and> b = t div ct_bucket_secs c then charged c else 0)"
  by (simp add: bucket_def hash_charge charged_def)

lemma canon_charge: "canon_store R s \<Longrightarrow> canon_store R (charge_counter R t c s)"
  using bucket_nonneg [of R s] by (fastforce simp: canon_store_def canon_def hash_charge)

lemma fold_prune_hash_other: "k \<notin> ct_key ` set cs \<Longrightarrow> hash R (fold (prune R now) cs s) k = hash R s k"
  by (induction cs arbitrary: s) (simp_all add: hash_prune)

lemma fold_charge_hash_other: "k \<notin> ct_key ` set cs \<Longrightarrow> hash R (fold (charge_counter R t) cs s) k = hash R s k"
  by (induction cs arbitrary: s) (simp_all add: hash_charge)

lemma canon_fold_prune: "canon_store R s \<Longrightarrow> canon_store R (fold (prune R now) cs s)"
  by (induction cs arbitrary: s) (simp_all add: canon_prune)

lemma canon_fold_charge: "canon_store R s \<Longrightarrow> canon_store R (fold (charge_counter R t) cs s)"
  by (induction cs arbitrary: s) (simp_all add: canon_charge)

lemma fold_prune_bucket:
  assumes "distinct (map ct_key cs)" "c \<in> set cs"
  shows "bucket R (fold (prune R now) cs s) (ct_key c) b =
     (if b < now div 1000 div ct_bucket_secs c - 59 then 0 else bucket R s (ct_key c) b)"
  using assms
proof (induction cs arbitrary: s)
  case (Cons d cs)
  show ?case
  proof (cases "c = d")
    case True
    with Cons.prems have "ct_key c \<notin> ct_key ` set cs" by auto
    then have "bucket R (fold (prune R now) cs (prune R now d s)) (ct_key c) b = bucket R (prune R now d s) (ct_key c) b"
      by (simp add: bucket_def fold_prune_hash_other)
    with True show ?thesis by (simp add: bucket_prune)
  next
    case False
    with Cons.prems have "ct_key c \<noteq> ct_key d" by (auto simp: rev_image_eqI)
    with False Cons show ?thesis by (simp add: bucket_prune)
  qed
qed simp

lemma fold_charge_bucket:
  assumes "distinct (map ct_key cs)" "c \<in> set cs"
  shows "bucket R (fold (charge_counter R t) cs s) (ct_key c) b =
     bucket R s (ct_key c) b + (if b = t div ct_bucket_secs c then charged c else 0)"
  using assms
proof (induction cs arbitrary: s)
  case (Cons d cs)
  show ?case
  proof (cases "c = d")
    case True
    with Cons.prems have "ct_key c \<notin> ct_key ` set cs" by auto
    then have "bucket R (fold (charge_counter R t) cs (charge_counter R t d s)) (ct_key c) b =
        bucket R (charge_counter R t d s) (ct_key c) b"
      by (simp add: bucket_def fold_charge_hash_other)
    with True show ?thesis by (simp add: bucket_charge)
  next
    case False
    with Cons.prems have "ct_key c \<noteq> ct_key d" by (auto simp: rev_image_eqI)
    with False Cons show ?thesis by (simp add: bucket_charge)
  qed
qed simp

lemma fold_prune_cwin:
  assumes "distinct (map ct_key cs)" "c \<in> set cs" "0 < ct_bucket_secs c" "now div 1000 \<le> u"
  shows "cwin R (fold (prune R now) cs s) c u = cwin R s c u"
proof -
  have "now div 1000 div ct_bucket_secs c \<le> u div ct_bucket_secs c"
    using assms(3,4) by (intro zdiv_mono1) simp_all
  then show ?thesis
    unfolding win_def using fold_prune_bucket [OF assms(1,2), of now s] by (intro sum.cong) auto
qed

lemma fold_charge_cwin:
  assumes "distinct (map ct_key cs)" "c \<in> set cs"
  shows "cwin R (fold (charge_counter R t) cs s) c t = cwin R s c t + charged c"
proof -
  have "cwin R (fold (charge_counter R t) cs s) c t =
      (\<Sum>b = t div ct_bucket_secs c - 59..t div ct_bucket_secs c.
         bucket R s (ct_key c) b + (if b = t div ct_bucket_secs c then charged c else 0))"
    unfolding win_def using fold_charge_bucket [OF assms, of t s] by (intro sum.cong) auto
  then show ?thesis by (simp add: sum.distrib win_def)
qed

subsection \<open>The admit script\<close>

lemma limiting_iff:
  assumes "\<forall>c \<in> set cs. counter_ok c"
  shows "0 < fst (limit_of R s now 1 cs (0, 0)) \<longleftrightarrow> (\<exists>c \<in> set cs. is_full R s now c)"
proof
  assume pos: "0 < fst (limit_of R s now 1 cs (0, 0))"
  show "\<exists>c \<in> set cs. is_full R s now c"
    using limit_of_cases [of R s now 1 cs "(0, 0)"] pos by (auto intro: nth_mem)
next
  assume "\<exists>c \<in> set cs. is_full R s now c"
  then obtain c where c: "c \<in> set cs" "is_full R s now c" by blast
  with assms have "0 < room_in R s now c" by (simp add: room_in_pos counter_ok_def)
  also have "\<dots> \<le> snd (limit_of R s now 1 cs (0, 0))" using c by (rule limit_of_max)
  finally show "0 < fst (limit_of R s now 1 cs (0, 0))"
    using limit_of_cases [of R s now 1 cs "(0, 0)"] by auto
qed

lemma lua_admit_eq:
  assumes "canon_store R s" "distinct (map ct_key cs)" "\<forall>c \<in> set cs. counter_ok c"
  shows "lua_admit R now cs s =
     (if \<exists>c \<in> set cs. is_full R s now c
      then (fold (prune R now) cs s,
            [0, fst (limit_of R s now 1 cs (0, 0)), snd (limit_of R s now 1 cs (0, 0))] @
            map (\<lambda>c. cwin R s c (now div 1000)) cs)
      else (fold (charge_counter R (now div 1000)) cs (fold (prune R now) cs s),
            [1, 0, 0] @ map (\<lambda>c. cwin R s c (now div 1000) + charged c) cs))"
  using admit_check_eq [OF assms(1,2), of now 1 0 0] limiting_iff [OF assms(3), of s now]
  by (auto simp: lua_admit_def admit_charge_eq split: prod.splits)

end

end
