(* ===== verification/Sliding_Props.thy ===== *)
theory Sliding_Props
  imports Sliding_Window
begin

section \<open>Properties of the rate limiter\<close>

text \<open>
  The claims about \<^verbatim>\<open>admit\<close> and \<^verbatim>\<open>record\<close> over any Redis that obeys \<open>redis_laws\<close>, each with a
  witness on \<open>mem_redis\<close>. Shared helper lemmas first, then the step relation of one counter's life.
\<close>

subsection \<open>Helper lemmas\<close>

lemma run_Inr: "run R f ks s = (s', Inr r) \<Longrightarrow> f s = (s', r)"
  by (auto simp: run_def split: option.splits prod.splits if_splits)

lemma run_Inl: "run R f ks s = (s', Inl e) \<Longrightarrow> s' = s"
  by (auto simp: run_def split: option.splits prod.splits if_splits)

lemma admit_counters_Inr:
  assumes "admit_counters_at R cs now s = (s', Inr out)"
  obtains "cs = []" "s' = s" "out = CheckOutcome_open"
  | reply where "cs \<noteq> []" "lua_admit R now cs s = (s', reply)" "out = parse_admit_reply reply"
proof (cases "cs = []")
  case True
  with assms that(1) show ?thesis by (simp add: admit_counters_at_def)
next
  case False
  with assms obtain reply where "run R (lua_admit R now cs) (map ct_key cs) s = (s', Inr reply)"
    "out = parse_admit_reply reply"
    by (auto simp: admit_counters_at_def split: prod.splits sum.splits)
  with that(2) False run_Inr show ?thesis by metis
qed

lemma parse_refused:
  "parse_admit_reply ([0, l, w] @ cur) =
     \<lparr>allowed = False, exceeded_index = (if 1 \<le> l then Some (nat (l - 1)) else None),
      retry_after = retry_after_secs (max w 0), currents = cur\<rparr>"
  by (simp add: parse_admit_reply_def nth_opt_def)

lemma parse_admitted:
  "parse_admit_reply ([1, l, w] @ cur) =
     \<lparr>allowed = True, exceeded_index = None, retry_after = 0, currents = cur\<rparr>"
  by (simp add: parse_admit_reply_def nth_opt_def)

context redis_laws
begin

lemma admit_cases:
  assumes "canon_store R s" "distinct (map ct_key cs)" "\<forall>c \<in> set cs. counter_ok c"
    and "admit_counters_at R cs now s = (s', Inr out)"
  obtains (refused) "\<not> allowed out" "\<exists>c \<in> set cs. is_full R s now c" "s' = fold (prune R now) cs s"
      "out = parse_admit_reply ([0, fst (limit_of R s now 1 cs (0, 0)), snd (limit_of R s now 1 cs (0, 0))] @
               map (\<lambda>c. cwin R s c (now div 1000)) cs)"
  | (admitted) "allowed out" "\<forall>c \<in> set cs. \<not> is_full R s now c"
      "s' = fold (charge_counter R (now div 1000)) cs (fold (prune R now) cs s)"
      "currents out = map (\<lambda>c. cwin R s c (now div 1000) + charged c) cs"
  using assms(4)
proof (cases rule: admit_counters_Inr)
  case 1
  then show ?thesis by (intro admitted) (simp_all add: CheckOutcome_open_def)
next
  case (2 reply)
  show ?thesis
  proof (cases "\<exists>c \<in> set cs. is_full R s now c")
    case True
    with 2 lua_admit_eq [OF assms(1-3), of now] show ?thesis
      by (intro refused) (auto simp: parse_refused simp del: append_Cons)
  next
    case False
    with 2 lua_admit_eq [OF assms(1-3), of now] show ?thesis
      by (intro admitted) (auto simp: parse_admitted simp del: append_Cons)
  qed
qed

end

subsection \<open>All or nothing\<close>

lemma is_full_iff: "is_full R s now c \<longleftrightarrow> \<not> cwin R s c (now div 1000) < ct_max_count c"
  by (simp add: is_full_def not_less)

context redis_laws
begin

lemma admit_windows:
  assumes canon: "canon_store R s" and keys: "distinct (map ct_key cs)"
    and ok: "\<forall>c \<in> set cs. counter_ok c" and res: "admit_counters_at R cs now s = (s', Inr out)"
  shows "if allowed out
    then (\<forall>c \<in> set cs. cwin R s c (now div 1000) < ct_max_count c \<and>
            cwin R s' c (now div 1000) = cwin R s c (now div 1000) + charged c) \<and>
         currents out = map (\<lambda>c. cwin R s' c (now div 1000)) cs
    else (\<exists>c \<in> set cs. ct_max_count c \<le> cwin R s c (now div 1000)) \<and>
         (\<forall>c \<in> set cs. \<forall>u \<ge> now div 1000. cwin R s' c u = cwin R s c u)"
  using canon keys ok res
proof (cases rule: admit_cases)
  case refused
  with ok fold_prune_cwin [OF keys] show ?thesis by (auto simp: is_full_def counter_ok_def)
next
  case admitted
  have "cwin R s' c (now div 1000) = cwin R s c (now div 1000) + charged c" if "c \<in> set cs" for c
    using that admitted(3) ok fold_charge_cwin [OF keys that] fold_prune_cwin [OF keys that]
    by (simp add: counter_ok_def)
  with admitted show ?thesis by (auto simp: is_full_iff)
qed

lemma admit_frame:
  assumes "canon_store R s" "distinct (map ct_key cs)" "\<forall>c \<in> set cs. counter_ok c"
    "admit_counters_at R cs now s = (s', Inr out)" "k \<notin> ct_key ` set cs"
  shows "hash R s' k = hash R s k"
  using assms(1-4) by (cases rule: admit_cases)
    (simp_all add: fold_prune_hash_other fold_charge_hash_other assms(5))

end

text \<open>
  (C1) All or nothing. \<^verbatim>\<open>admit\<close> allows a request exactly when every counter's sixty-bucket window is
  below its limit. When it allows, every counter's window grows by its charge, and what it reports is
  the window after the charge; when it refuses, some window is full and no window that ends now or
  later changes. Counters it was not given never change.
\<close>

theorem admit_all_or_nothing:
  assumes "redis_laws R" and "canon_store R s" and "distinct (map ct_key cs)"
    and "\<forall>c \<in> set cs. counter_ok c" and "admit_counters_at R cs now s = (s', Inr out)"
  shows "(if allowed out
     then (\<forall>c \<in> set cs. cwin R s c (now div 1000) < ct_max_count c \<and>
             cwin R s' c (now div 1000) = cwin R s c (now div 1000) + charged c) \<and>
          currents out = map (\<lambda>c. cwin R s' c (now div 1000)) cs
     else (\<exists>c \<in> set cs. ct_max_count c \<le> cwin R s c (now div 1000)) \<and>
          (\<forall>c \<in> set cs. \<forall>u \<ge> now div 1000. cwin R s' c u = cwin R s c u)) \<and>
    (\<forall>k. k \<notin> ct_key ` set cs \<longrightarrow> hash R s' k = hash R s k)"
  using redis_laws.admit_windows [OF assms] redis_laws.admit_frame [OF assms] by blast

text \<open>
  The store the witnesses use: the counter \<open>k\<close> has counted 1 in bucket 100, which is full for a
  limit of one request a minute, at 100.5 seconds.
\<close>

definition demo_counter :: Counter where
  "demo_counter = \<lparr>ct_key = ''k'', ct_bucket_secs = 1, ct_max_count = 1, ct_charge = 1\<rparr>"

definition demo_empty :: mem where
  "demo_empty = \<lparr>m_hashes = [], m_strings = [], m_down = False\<rparr>"

definition demo_full :: mem where
  "demo_full = \<lparr>m_hashes = [(''k'', [(''100'', 1)])], m_strings = [], m_down = False\<rparr>"

lemma demo_canon: "canon_store mem_redis demo_empty" "canon_store mem_redis demo_full"
proof -
  have "show_int 100 = ''100''" by code_simp
  then show "canon_store mem_redis demo_empty" "canon_store mem_redis demo_full"
    by (auto simp: canon_store_def canon_def mem_redis_def mem_hash_def demo_empty_def demo_full_def
        split: if_splits intro: exI [of _ 100])
qed

lemma demo_counter_ok: "distinct (map ct_key [demo_counter])" "\<forall>c \<in> set [demo_counter]. counter_ok c"
  by (simp_all add: demo_counter_def counter_ok_def)

lemma demo_admitted:
  "admit_counters_at mem_redis [demo_counter] 100500 demo_empty =
     (demo_full, Inr \<lparr>allowed = True, exceeded_index = None, retry_after = 0, currents = [1]\<rparr>)"
  by code_simp

lemma demo_refused:
  "admit_counters_at mem_redis [demo_counter] 100600 demo_full =
     (demo_full, Inr \<lparr>allowed = False, exceeded_index = Some 0, retry_after = 60, currents = [1]\<rparr>)"
  by code_simp

theorem admit_all_or_nothing_witness:
  "cwin mem_redis demo_empty demo_counter 100 < 1 \<and>
   cwin mem_redis demo_full demo_counter 100 = cwin mem_redis demo_empty demo_counter 100 + 1"
  using admit_all_or_nothing [OF mem.redis_laws_axioms demo_canon(1) demo_counter_ok demo_admitted]
  by (simp add: demo_counter_def charged_def)

subsection \<open>When to come back\<close>

lemma is_full_cwin_cong: "cwin R s c (now div 1000) = cwin R s' c (now div 1000) \<Longrightarrow> is_full R s now c = is_full R s' now c"
  by (simp add: is_full_def)

lemma retry_after_secs_bounds:
  shows "w \<le> 1000 * int (retry_after_secs w)"
    and "0 < w \<Longrightarrow> 1000 * (int (retry_after_secs w) - 1) < w"
proof -
  define q where "q = (max w 0 + 999) div 1000"
  have r: "int (retry_after_secs w) = max q 1" by (simp add: retry_after_secs_def q_def)
  have "q * 1000 + (max w 0 + 999) mod 1000 = max w 0 + 999" unfolding q_def by (rule div_mult_mod_eq)
  moreover have "0 \<le> (max w 0 + 999) mod 1000" "(max w 0 + 999) mod 1000 < 1000" by simp_all
  ultimately have "q * 1000 \<le> max w 0 + 999" "max w 0 + 999 < q * 1000 + 1000" by linarith+
  then show "w \<le> 1000 * int (retry_after_secs w)" "0 < w \<Longrightarrow> 1000 * (int (retry_after_secs w) - 1) < w"
    unfolding r by (auto simp: max_def split: if_splits)
qed

context redis_laws
begin

lemma refused_limit:
  assumes ok: "\<forall>c \<in> set cs. counter_ok c" and full: "\<exists>c \<in> set cs. is_full R s now c"
  obtains j where "j < length cs" "is_full R s now (cs ! j)"
    "limit_of R s now 1 cs (0, 0) = (1 + int j, room_in R s now (cs ! j))"
    "\<forall>c \<in> set cs. is_full R s now c \<longrightarrow> room_in R s now c \<le> room_in R s now (cs ! j)"
    "0 < room_in R s now (cs ! j)"
proof -
  from limiting_iff [OF ok, of s now] full have "limit_of R s now 1 cs (0, 0) \<noteq> (0, 0)" by auto
  with limit_of_cases [of R s now 1 cs "(0, 0)"] obtain j where j: "j < length cs" "is_full R s now (cs ! j)"
    "limit_of R s now 1 cs (0, 0) = (1 + int j, room_in R s now (cs ! j))" by blast
  moreover have "\<forall>c \<in> set cs. is_full R s now c \<longrightarrow> room_in R s now c \<le> room_in R s now (cs ! j)"
    using limit_of_max [of _ cs R s now 1 "(0, 0)"] j(3) by auto
  moreover have "0 < room_in R s now (cs ! j)" using ok j(1) by (simp add: room_in_pos counter_ok_def)
  ultimately show ?thesis using that by blast
qed

lemma admit_refused_index:
  assumes "canon_store R s" "distinct (map ct_key cs)" "\<forall>c \<in> set cs. counter_ok c"
    and "admit_counters_at R cs now s = (s', Inr out)" and no: "\<not> allowed out"
  obtains j where "exceeded_index out = Some j" "j < length cs" "is_full R s now (cs ! j)" "0 < retry_after out"
  using assms(1-4)
proof (cases rule: admit_cases)
  case refused
  from refused_limit [OF assms(3) refused(2)] obtain j where "j < length cs" "is_full R s now (cs ! j)"
    and lim: "limit_of R s now 1 cs (0, 0) = (1 + int j, room_in R s now (cs ! j))" by metis
  moreover have "exceeded_index out = Some j" "0 < retry_after out"
    using refused(4) lim by (simp_all add: parse_refused retry_after_secs_def del: append_Cons)
  ultimately show ?thesis using that by blast
qed (use no in blast)

lemma not_full_later:
  assumes canon: "canon_store R s" and ok: "counter_ok c" and nfull: "\<not> is_full R s now c"
    and nf: "no_future R s (ct_key c) (ct_bucket_secs c) (now div 1000)" and t: "now \<le> t"
  shows "\<not> is_full R s t c"
proof -
  have le: "now div 1000 div ct_bucket_secs c \<le> t div 1000 div ct_bucket_secs c"
    using t ok by (intro zdiv_mono1) (simp_all add: counter_ok_def)
  have "cwin R s c (t div 1000) = (\<Sum>b = t div 1000 div ct_bucket_secs c - 59..now div 1000 div ct_bucket_secs c.
      bucket R s (ct_key c) b)" by (rule cwin_later [OF nf le])
  also have "\<dots> \<le> cwin R s c (now div 1000)"
    unfolding win_def using le bucket_nonneg [OF canon] by (intro sum_mono2) auto
  finally show ?thesis using nfull by (simp add: is_full_def)
qed

lemma full_until:
  assumes canon: "canon_store R s" and ok: "\<forall>c \<in> set cs. counter_ok c"
    and nf: "\<forall>c \<in> set cs. no_future R s (ct_key c) (ct_bucket_secs c) (now div 1000)"
    and j: "j < length cs" "is_full R s now (cs ! j)"
    and mx: "\<forall>c \<in> set cs. is_full R s now c \<longrightarrow> room_in R s now c \<le> room_in R s now (cs ! j)"
    and t: "now \<le> t"
  shows "(\<exists>c \<in> set cs. is_full R s t c) \<longleftrightarrow> t < now + room_in R s now (cs ! j)"
proof
  assume "\<exists>c \<in> set cs. is_full R s t c"
  then obtain c where c: "c \<in> set cs" "is_full R s t c" by blast
  with not_full_later [OF canon] ok nf t have full: "is_full R s now c" by blast
  with c room_iff [OF canon _ full _ t] ok nf have "t < now + room_in R s now c" by blast
  with mx c(1) full show "t < now + room_in R s now (cs ! j)" by fastforce
next
  assume "t < now + room_in R s now (cs ! j)"
  with j ok nf room_iff [OF canon _ j(2) _ t] have "is_full R s t (cs ! j)" by simp
  with j(1) show "\<exists>c \<in> set cs. is_full R s t c" by (meson nth_mem)
qed

lemma admit_retry:
  assumes canon: "canon_store R s" and keys: "distinct (map ct_key cs)"
    and ok: "\<forall>c \<in> set cs. counter_ok c"
    and nf: "\<forall>c \<in> set cs. no_future R s (ct_key c) (ct_bucket_secs c) (now div 1000)"
    and res: "admit_counters_at R cs now s = (s', Inr out)" and no: "\<not> allowed out"
  shows "\<exists>j w. exceeded_index out = Some j \<and> j < length cs \<and> is_full R s now (cs ! j) \<and>
    0 < w \<and> retry_after out = retry_after_secs w \<and>
    (\<forall>t s'' out'. now \<le> t \<longrightarrow> admit_counters_at R cs t s' = (s'', Inr out') \<longrightarrow>
       (allowed out' \<longleftrightarrow> now + w \<le> t))"
  using canon keys ok res
proof (cases rule: admit_cases)
  case refused
  obtain j where j: "j < length cs" "is_full R s now (cs ! j)"
    and lim: "limit_of R s now 1 cs (0, 0) = (1 + int j, room_in R s now (cs ! j))"
    and mx: "\<forall>c \<in> set cs. is_full R s now c \<longrightarrow> room_in R s now c \<le> room_in R s now (cs ! j)"
    and pos: "0 < room_in R s now (cs ! j)"
    by (rule refused_limit [OF ok refused(2)])
  have canon': "canon_store R s'" using refused(3) canon canon_fold_prune by simp
  have same: "is_full R s' t c = is_full R s t c" if "c \<in> set cs" "now \<le> t" for c t
    using that ok refused(3) fold_prune_cwin [OF keys that(1), of now "t div 1000" s]
    by (intro is_full_cwin_cong) (simp add: counter_ok_def zdiv_mono1)
  have "allowed out' \<longleftrightarrow> now + room_in R s now (cs ! j) \<le> t"
    if "now \<le> t" "admit_counters_at R cs t s' = (s'', Inr out')" for t s'' out'
  proof -
    have "allowed out' \<longleftrightarrow> \<not> (\<exists>c \<in> set cs. is_full R s' t c)"
      using canon' keys ok that(2) by (cases rule: admit_cases) auto
    also have "\<dots> \<longleftrightarrow> \<not> (\<exists>c \<in> set cs. is_full R s t c)" using same [OF _ that(1)] by blast
    also have "\<dots> \<longleftrightarrow> now + room_in R s now (cs ! j) \<le> t"
      using full_until [OF canon ok nf j mx that(1)] by auto
    finally show ?thesis .
  qed
  moreover have "exceeded_index out = Some j" "retry_after out = retry_after_secs (room_in R s now (cs ! j))"
    using refused(4) lim pos by (simp_all add: parse_refused del: append_Cons)
  ultimately show ?thesis using j pos by blast
qed (use no in blast)

end

text \<open>
  (C4) A refusal names a rule whose window is full and the time that matters: with the counters left
  alone, the same request is refused at every moment before \<open>now + w\<close> and allowed at every moment
  from then on, and the \<open>Retry-After\<close> it carries is \<open>w\<close> milliseconds rounded up to whole seconds.
\<close>

theorem admit_retry_after_exact:
  assumes "redis_laws R" and "canon_store R s" and "distinct (map ct_key cs)"
    and "\<forall>c \<in> set cs. counter_ok c"
    and "\<forall>c \<in> set cs. no_future R s (ct_key c) (ct_bucket_secs c) (now div 1000)"
    and "admit_counters_at R cs now s = (s', Inr out)" and "\<not> allowed out"
  shows "\<exists>j w. exceeded_index out = Some j \<and> j < length cs \<and> is_full R s now (cs ! j) \<and>
    0 < w \<and> w \<le> 1000 * int (retry_after out) \<and> 1000 * (int (retry_after out) - 1) < w \<and>
    (\<forall>t s'' out'. now \<le> t \<longrightarrow> admit_counters_at R cs t s' = (s'', Inr out') \<longrightarrow>
       (allowed out' \<longleftrightarrow> now + w \<le> t))"
  using redis_laws.admit_retry [OF assms] retry_after_secs_bounds by metis

lemma demo_bucket: "bucket mem_redis demo_full ''k'' b = (if b = 100 then 1 else 0)"
proof -
  have "show_int 100 = ''100''" by code_simp
  then show ?thesis
    by (auto simp: bucket_def mem_redis_def mem_hash_def demo_full_def simp flip: \<open>show_int 100 = ''100''\<close>)
qed

lemma demo_no_future:
  "\<forall>c \<in> set [demo_counter]. no_future mem_redis demo_full (ct_key c) (ct_bucket_secs c) (100600 div 1000)"
  by (simp add: no_future_def demo_counter_def demo_bucket)

theorem admit_retry_after_exact_witness:
  "\<exists>w. 59000 < w \<and> w \<le> (60000::int) \<and>
     (\<forall>t s'' out'. 100600 \<le> t \<longrightarrow> admit_counters_at mem_redis [demo_counter] t demo_full = (s'', Inr out') \<longrightarrow>
        (allowed out' \<longleftrightarrow> 100600 + w \<le> t))"
  using admit_retry_after_exact [OF mem.redis_laws_axioms demo_canon(2) demo_counter_ok demo_no_future demo_refused]
  by auto

subsection \<open>A limit on requests is never exceeded\<close>

text \<open>
  The life of one \<open>requests\<close> counter \<open>c\<close>: requests are admitted or refused, under any set of rules
  that includes \<open>c\<close>, and usage is recorded on other counters, in any order, by a clock that does not
  run backwards. A call that fails leaves the store as it was.
\<close>

inductive limiter_step :: "'s redis \<Rightarrow> Counter \<Rightarrow> 's \<times> int \<Rightarrow> 's \<times> int \<Rightarrow> bool" for R c where
  admitting: "now \<le> now' \<Longrightarrow> c \<in> set cs \<Longrightarrow> distinct (map ct_key cs) \<Longrightarrow> \<forall>d \<in> set cs. counter_ok d \<Longrightarrow>
    admit_counters_at R cs now' s = (s', res) \<Longrightarrow> limiter_step R c (s, now) (s', now')"
| recording: "now \<le> now' \<Longrightarrow> ct_key c \<notin> set (map fst ks) \<Longrightarrow>
    record_counters_at R ks amount now' s = (s', res') \<Longrightarrow> limiter_step R c (s, now) (s', now')"

inductive_simps limiter_step_iff: "limiter_step R c (s, now) (s', now')"

definition held :: "'s redis \<Rightarrow> Counter \<Rightarrow> 's \<times> int \<Rightarrow> bool" where
  "held R c st \<longleftrightarrow> canon_store R (fst st) \<and>
     no_future R (fst st) (ct_key c) (ct_bucket_secs c) (snd st div 1000) \<and>
     (\<forall>x. (\<Sum>b = x - 59..x. bucket R (fst st) (ct_key c) b) \<le> ct_max_count c)"

lemma no_future_mono:
  "no_future R s k bs t \<Longrightarrow> 0 < bs \<Longrightarrow> t \<le> u \<Longrightarrow> no_future R s k bs u"
  unfolding no_future_def by (meson less_le_trans not_less zdiv_mono1)

context redis_laws
begin

lemma hash_record:
  "k \<notin> set (map fst ks) \<Longrightarrow> hash R (lua_record R now amount ks s) k = hash R s k"
proof (induction ks arbitrary: s)
  case (Cons kb ks)
  then show ?case by (cases kb) (simp add: hash_expire hash_hincrby)
qed simp

lemma canon_record: "canon_store R s \<Longrightarrow> 0 \<le> amount \<Longrightarrow> canon_store R (lua_record R now amount ks s)"
proof (induction ks arbitrary: s)
  case (Cons kb ks)
  obtain k bs where kb: "kb = (k, bs)" by fastforce
  let ?s = "expire R k (bs * 120) (hincrby R k (show_int (now div 1000 div bs)) amount s)"
  have "canon_store R ?s"
    using Cons.prems bucket_nonneg [of R s k "now div 1000 div bs"]
    by (auto simp: canon_store_def canon_def hash_expire hash_hincrby bucket_def)
  with Cons kb show ?case by simp
qed simp

lemma window_after_charge:
  assumes canon: "canon_store R s" and old: "\<forall>x. (\<Sum>b = x - 59..x. bucket R s k b) \<le> m"
    and nf: "\<forall>b > cur. bucket R s k b = 0" and room: "(\<Sum>b = cur - 59..cur. bucket R s k b) + d \<le> m"
    and d: "0 \<le> d"
    and new: "\<And>b. bucket R s' k b \<le> bucket R s k b + (if b = cur then d else 0)"
  shows "(\<Sum>b = x - 59..x. bucket R s' k b) \<le> m"
proof (cases "x - 59 \<le> cur \<and> cur \<le> x")
  case True
  have "(\<Sum>b = x - 59..x. bucket R s' k b) \<le> (\<Sum>b = x - 59..x. bucket R s k b + (if b = cur then d else 0))"
    by (intro sum_mono new)
  also have "\<dots> = (\<Sum>b = x - 59..cur. bucket R s k b) + d"
  proof -
    have "(\<Sum>b = x - 59..x. bucket R s k b) = (\<Sum>b = x - 59..cur. bucket R s k b)"
      using True nf by (intro sum.mono_neutral_right) auto
    then show ?thesis using True by (simp add: sum.distrib)
  qed
  also have "(\<Sum>b = x - 59..cur. bucket R s k b) \<le> (\<Sum>b = cur - 59..cur. bucket R s k b)"
    using True bucket_nonneg [OF canon] by (intro sum_mono2) auto
  finally show ?thesis using room by simp
next
  case False
  have "(\<Sum>b = x - 59..x. bucket R s' k b) \<le> (\<Sum>b = x - 59..x. bucket R s k b)"
    using new False by (intro sum_mono) (metis add.right_neutral atLeastAtMost_iff)
  with old show ?thesis using order_trans by blast
qed

lemma admit_bucket_le:
  assumes "canon_store R s" "distinct (map ct_key cs)" "\<forall>d \<in> set cs. counter_ok d"
    "admit_counters_at R cs now s = (s', Inr out)" "c \<in> set cs"
  shows "bucket R s' (ct_key c) b \<le> bucket R s (ct_key c) b +
      (if b = now div 1000 div ct_bucket_secs c then (if allowed out then charged c else 0) else 0)"
    and "canon_store R s'"
  using assms(1-4)
proof (atomize (full), cases rule: admit_cases)
  case refused
  with assms show "bucket R s' (ct_key c) b \<le> bucket R s (ct_key c) b +
      (if b = now div 1000 div ct_bucket_secs c then (if allowed out then charged c else 0) else 0) \<and> canon_store R s'"
    using fold_prune_bucket [OF assms(2,5), of now s b] bucket_nonneg [OF assms(1), of "ct_key c" b]
    by (simp add: canon_fold_prune)
next
  case admitted
  with assms show "bucket R s' (ct_key c) b \<le> bucket R s (ct_key c) b +
      (if b = now div 1000 div ct_bucket_secs c then (if allowed out then charged c else 0) else 0) \<and> canon_store R s'"
    using fold_prune_bucket [OF assms(2,5), of now s b] bucket_nonneg [OF assms(1), of "ct_key c" b]
      fold_charge_bucket [OF assms(2,5), of "now div 1000" "fold (prune R now) cs s" b]
    by (simp add: canon_fold_prune canon_fold_charge)
qed

lemma held_admit:
  assumes held: "held R c (s, now)" and le: "now \<le> now'" and c: "c \<in> set cs" and one: "ct_charge c \<le> 1"
    and keys: "distinct (map ct_key cs)" and ok: "\<forall>d \<in> set cs. counter_ok d"
    and res: "admit_counters_at R cs now' s = (s', Inr out)"
  shows "held R c (s', now')"
proof -
  let ?cur = "now' div 1000 div ct_bucket_secs c" and ?d = "if allowed out then charged c else 0"
  from held have canon: "canon_store R s" and old: "\<forall>x. (\<Sum>b = x - 59..x. bucket R s (ct_key c) b) \<le> ct_max_count c"
    and nf: "no_future R s (ct_key c) (ct_bucket_secs c) (now div 1000)" by (simp_all add: held_def)
  have "0 < ct_bucket_secs c" using ok c by (auto simp: counter_ok_def)
  with nf le have nf': "\<forall>b > ?cur. bucket R s (ct_key c) b = 0"
    using no_future_mono [of R s _ _ "now div 1000" "now' div 1000"] by (simp add: no_future_def zdiv_mono1)
  note new = admit_bucket_le [OF canon keys ok res c]
  have room: "(\<Sum>b = ?cur - 59..?cur. bucket R s (ct_key c) b) + ?d \<le> ct_max_count c"
  proof (cases "allowed out")
    case True
    with admit_windows [OF canon keys ok res] c have "cwin R s c (now' div 1000) < ct_max_count c" by simp
    with one True show ?thesis by (simp add: win_def charged_def)
  next
    case False
    with old show ?thesis by simp
  qed
  have "0 \<le> ?d" by simp
  note windows = window_after_charge [OF canon old nf' room this new(1)]
  have "bucket R s' (ct_key c) b = 0" if "?cur < b" for b
  proof (rule order_antisym)
    show "bucket R s' (ct_key c) b \<le> 0" using new(1) [of b] nf' that by simp
    show "0 \<le> bucket R s' (ct_key c) b" by (rule bucket_nonneg [OF new(2)])
  qed
  with windows new(2) show ?thesis by (simp add: held_def no_future_def)
qed

lemma held_step:
  assumes "limiter_step R c st st'" "ct_charge c \<le> 1" "counter_ok c" "held R c st"
  shows "held R c st'"
  using assms
proof (cases rule: limiter_step.cases)
  case (admitting now now' cs s s' res)
  show ?thesis
  proof (cases res)
    case (Inl e)
    with admitting have "s' = s" by (auto simp: admit_counters_at_def dest: run_Inl split: if_splits prod.splits sum.splits)
    with admitting assms(3,4) show ?thesis
      by (auto simp: held_def counter_ok_def zdiv_mono1 elim: no_future_mono)
  next
    case (Inr out)
    with admitting assms(2,4) held_admit show ?thesis by blast
  qed
next
  case (recording now now' ks amount s s' res')
  have "(s' = s) \<or> (0 < amount \<and> s' = lua_record R now' amount ks s)"
    using recording(5) by (cases res')
      (auto simp: record_counters_at_def dest: run_Inl run_Inr split: if_splits)
  then have "hash R s' (ct_key c) = hash R s (ct_key c)" "canon_store R s'"
    using hash_record [of "ct_key c" ks now' amount s] canon_record [of s amount now' ks] recording assms(4)
    by (auto simp: held_def)
  with recording assms(3,4) view_cong [of R s' "ct_key c" s] show ?thesis
    by (auto simp: held_def counter_ok_def zdiv_mono1 elim: no_future_mono)
qed

lemma held_steps:
  assumes "(limiter_step R c)\<^sup>*\<^sup>* st st'" "ct_charge c \<le> 1" "counter_ok c" "held R c st"
  shows "held R c st'"
  using assms by (induction rule: rtranclp_induct) (auto intro: held_step)

end


lemma demo_steps: "(limiter_step mem_redis demo_counter)\<^sup>*\<^sup>* (demo_empty, 0) (demo_full, 100500)"
  using limiter_step.admitting [of 0 100500 demo_counter "[demo_counter]" mem_redis demo_empty demo_full]
    demo_counter_ok demo_admitted by auto


subsection \<open>Recording usage\<close>

context redis_laws
begin

lemma bucket_lua_record:
  assumes "distinct (map fst ks)" "(k, bs) \<in> set ks"
  shows "bucket R (lua_record R now amount ks s) k b =
    bucket R s k b + (if b = now div 1000 div bs then amount else 0)"
  using assms
proof (induction ks arbitrary: s)
  case (Cons kb ks)
  obtain k1 bs1 where kb: "kb = (k1, bs1)" by fastforce
  let ?s = "expire R k1 (bs1 * 120) (hincrby R k1 (show_int (now div 1000 div bs1)) amount s)"
  have one: "bucket R ?s k b = bucket R s k b + (if k = k1 \<and> b = now div 1000 div bs1 then amount else 0)"
    by (simp add: bucket_def hash_expire hash_hincrby)
  show ?case
  proof (cases "(k, bs) \<in> set ks")
    case True
    with Cons.prems kb have "k \<noteq> k1" by force
    with True Cons kb one show ?thesis by simp
  next
    case False
    with Cons.prems kb have same: "k = k1" "bs = bs1" and fresh: "k \<notin> set (map fst ks)" by auto
    from hash_record [OF fresh, of now amount ?s] same one kb show ?thesis by (simp add: bucket_def)
  qed
qed simp

lemma cwin_lua_record:
  assumes "distinct (map fst ks)" "(k, bs) \<in> set ks"
  shows "win R (lua_record R now amount ks s) k bs (now div 1000) = win R s k bs (now div 1000) + amount"
proof -
  let ?cur = "now div 1000 div bs"
  have "win R (lua_record R now amount ks s) k bs (now div 1000) =
      (\<Sum>b = ?cur - 59..?cur. bucket R s k b + (if b = ?cur then amount else 0))"
    unfolding win_def using bucket_lua_record [OF assms, of now amount s] by (intro sum.cong) auto
  then show ?thesis by (simp add: sum.distrib win_def)
qed

lemma record_at_windows:
  assumes keys: "distinct (map (\<lambda>r. ct_key (rule_counter owner r)) rs)" and pos: "0 < amount"
    and res: "record_at R rs owner metric amount now s = (s', Inr ())" and r: "r \<in> set rs"
  shows "cwin R s' (rule_counter owner r) (now div 1000) =
    cwin R s (rule_counter owner r) (now div 1000) + (if rl_metric r = metric then amount else 0)"
proof -
  let ?kb = "\<lambda>r. (rr_key (ResolvedRule_new r owner), rr_bucket_secs (ResolvedRule_new r owner))"
  let ?ks = "map ?kb (filter (\<lambda>r. rl_metric r = metric) rs)"
  have kb: "?kb x = (ct_key (rule_counter owner x), ct_bucket_secs (rule_counter owner x))" for x
    by (simp add: rule_counter_def Let_def)
  from keys have inj: "inj_on (\<lambda>r. ct_key (rule_counter owner r)) (set rs)" by (simp add: distinct_map)
  from keys have d: "distinct (map fst ?ks)" by (simp add: kb comp_def distinct_map_filter)
  from res pos have s': "s' = (if ?ks = [] then s else lua_record R now amount ?ks s)"
    by (auto simp: record_at_def record_counters_at_def dest!: run_Inr split: if_splits)
  show ?thesis
  proof (cases "rl_metric r = metric")
    case True
    with r have "?kb r \<in> set ?ks" by auto
    with True s' cwin_lua_record [OF d, of "fst (?kb r)" "snd (?kb r)" now amount s] kb show ?thesis
      by (auto simp: filter_empty_conv)
  next
    case False
    with r inj have "ct_key (rule_counter owner r) \<notin> set (map fst ?ks)"
      by (auto simp: kb inj_on_def)
    with hash_record [of "ct_key (rule_counter owner r)" ?ks now amount s] s' False
    show ?thesis using view_cong(2) [of R s' "ct_key (rule_counter owner r)" s] by (auto split: if_splits)
  qed
qed

end

text \<open>
  After the call, recording usage succeeds whatever the limits say: every rule of the metric has
  the whole amount added to its window, past its limit or not, and every rule of the other metric is
  left alone.
\<close>

theorem record_adds_usage:
  assumes "redis_laws R" and "distinct (map (\<lambda>r. ct_key (rule_counter owner r)) rs)" and "0 < amount"
    and "record_at R rs owner metric amount now s = (s', Inr ())" and "r \<in> set rs"
  shows "cwin R s' (rule_counter owner r) (now div 1000) =
    cwin R s (rule_counter owner r) (now div 1000) + (if rl_metric r = metric then amount else 0)"
  using redis_laws.record_at_windows [OF assms] .

definition demo_rule :: RateLimitRule where
  "demo_rule = \<lparr>rl_id = uuid_nil, rl_subject_kind = RUser, rl_subject_id = uuid_nil, rl_surface = AiGateway,
     rl_metric = Tokens, rl_window_secs = 60, rl_max_count = 5, rl_enabled = True, rl_expires_at = None,
     rl_reason = None, rl_created_by = None\<rparr>"

theorem record_adds_usage_witness:
  "cwin mem_redis (fst (record_at mem_redis [demo_rule] uuid_nil Tokens 9 100500 demo_empty))
     (rule_counter uuid_nil demo_rule) 100 =
   cwin mem_redis demo_empty (rule_counter uuid_nil demo_rule) 100 + 9"
proof -
  have "snd (record_at mem_redis [demo_rule] uuid_nil Tokens 9 100500 demo_empty) = Inr ()" by code_simp
  then have "record_at mem_redis [demo_rule] uuid_nil Tokens 9 100500 demo_empty =
      (fst (record_at mem_redis [demo_rule] uuid_nil Tokens 9 100500 demo_empty), Inr ())"
    by (metis prod.collapse)
  from record_adds_usage [OF mem.redis_laws_axioms _ _ this, of demo_rule] show ?thesis
    by (simp add: demo_rule_def)
qed

subsection \<open>Reading a window\<close>

text \<open>
  (C38) The console's reading is the engine's: the sum \<^verbatim>\<open>read_count\<close> computes in Rust is the sum the
  \<^verbatim>\<open>admit\<close> script compares with the limit, for any clock in the range of \<open>i64\<close> seconds.
\<close>

theorem read_count_is_window:
  assumes "redis_laws R" and "canon_store R s" and "0 < rr_bucket_secs r" and "0 \<le> t" and "t < 2 ^ 63"
    and "call_err R s [rr_key r] = None"
  shows "read_count R r t s = Inr (snd (snd (fold (scan_field (t div rr_bucket_secs r - 59) (t div rr_bucket_secs r))
      (hgetall R s (rr_key r)) (Map.empty, [], 0)))) \<and>
    read_count R r t s = Inr (win R s (rr_key r) (rr_bucket_secs r) t)"
proof -
  let ?cur = "t div rr_bucket_secs r"
  let ?h = "hgetall R s (rr_key r)"
  have "?cur \<le> t div 1" using assms(3,4) by (intro zdiv_mono2) auto
  then have cur: "0 \<le> ?cur" "?cur < 2 ^ 63"
    using assms(3-5) by (auto simp: pos_imp_zdiv_nonneg_iff)
  have "(case parse_i64 f of None \<Rightarrow> False | Some b \<Rightarrow> ?cur - 59 \<le> b \<and> b \<le> ?cur) = live_field (?cur - 59) ?cur f" for f
    using cur by (auto simp: parse_i64_def live_field_def split: option.splits)
  then have eq: "window_sum ?h t (rr_bucket_secs r) =
      sum_list (map snd (filter (\<lambda>e. live_field (?cur - 59) ?cur (fst e)) ?h))"
    using assms(3) by (simp add: window_sum_def Let_def BUCKETS_PER_WINDOW_def case_prod_unfold)
  also have "\<dots> = snd (snd (fold (scan_field (?cur - 59) ?cur) ?h (Map.empty, [], 0)))"
    by (simp add: scan_sum)
  finally have 1: "window_sum ?h t (rr_bucket_secs r) = \<dots>" .
  have "\<dots> = win R s (rr_key r) (rr_bucket_secs r) t"
    using redis_laws.scan_hash [OF assms(1), of s "rr_key r"] assms(2)
    by (simp add: win_def canon_store_def)
  with 1 show ?thesis using assms(6) by (simp add: read_count_def)
qed

theorem read_count_is_window_witness:
  "read_count mem_redis \<lparr>rr_id = uuid_nil, rr_key = ''k'', rr_bucket_secs = 1, rr_max_count = 1\<rparr> 100 demo_full =
     Inr (win mem_redis demo_full ''k'' 1 100)"
proof -
  have "call_err mem_redis demo_full [''k''] = None" by (simp add: mem_redis_def demo_full_def)
  then show ?thesis
    using read_count_is_window [THEN conjunct2, OF mem.redis_laws_axioms demo_canon(2),
      of "\<lparr>rr_id = uuid_nil, rr_key = ''k'', rr_bucket_secs = 1, rr_max_count = 1\<rparr>" 100] by simp
qed

subsection \<open>Keys\<close>

lemma uuid_ok_chars: "uuid_ok u \<Longrightarrow> c \<in> set u \<Longrightarrow> c \<noteq> CHR '':'' \<and> c \<noteq> CHR ''{'' \<and> c \<noteq> CHR ''}''"
  using uuid_char_not by (auto simp: uuid_ok_def list_all_iff)

lemma uuid_ok_notin:
  "uuid_ok u \<Longrightarrow> CHR '':'' \<notin> set u" "uuid_ok u \<Longrightarrow> CHR ''{'' \<notin> set u" "uuid_ok u \<Longrightarrow> CHR ''}'' \<notin> set u"
  using uuid_ok_chars by blast+

text \<open>
  The part of a key that Redis Cluster hashes to choose the node: what stands between the first
  \<open>{\<close> and the next \<open>}\<close>.
\<close>

definition cluster_tag :: "string \<Rightarrow> string" where
  "cluster_tag k = takeWhile (\<lambda>c. c \<noteq> CHR ''}'') (drop 1 (dropWhile (\<lambda>c. c \<noteq> CHR ''{'') k))"

lemma cluster_tag_counter_key:
  assumes "uuid_ok owner"
  shows "cluster_tag (counter_key owner u k sid m w) = ''user:'' @ owner"
proof -
  have "takeWhile (\<lambda>c. c \<noteq> CHR ''}'') (owner @ CHR ''}'' # r) = owner" for r
    using uuid_ok_notin(3) [OF assms] by (subst takeWhile_append2) auto
  then show ?thesis by (simp add: cluster_tag_def counter_key_def hash_tag_def)
qed

text \<open>
  One counter, one key: two rules share a Redis key exactly when owner, surface, subject, metric
  and window all agree, so no rule counts another's traffic. And every key of one owner carries the
  same cluster tag, which is what lets one script touch all of them on a cluster.
\<close>

theorem counter_key_identifies:
  assumes "uuid_ok owner" and "uuid_ok owner'" and "uuid_ok sid" and "uuid_ok sid'"
  shows "(counter_key owner u k sid m w = counter_key owner' u' k' sid' m' w' \<longleftrightarrow>
      owner = owner' \<and> u = u' \<and> k = k' \<and> sid = sid' \<and> m = m' \<and> w = w') \<and>
    (cluster_tag (counter_key owner u k sid m w) = cluster_tag (counter_key owner' u' k' sid' m' w') \<longleftrightarrow>
      owner = owner')"
proof (intro conjI iffI)
  assume "counter_key owner u k sid m w = counter_key owner' u' k' sid' m' w'"
  moreover from this have "owner = owner'"
    using cluster_tag_counter_key [OF assms(1)] cluster_tag_counter_key [OF assms(2)] by (metis same_append_eq)
  ultimately have "Surface_as_str u @ CHR '':'' # RateLimitSubject_as_str k @ CHR '':'' # sid @ CHR '':'' #
      RateMetric_as_str m @ CHR '':'' # show_int w =
    Surface_as_str u' @ CHR '':'' # RateLimitSubject_as_str k' @ CHR '':'' # sid' @ CHR '':'' #
      RateMetric_as_str m' @ CHR '':'' # show_int w'"
    by (simp add: counter_key_def)
  then show "owner = owner'" "u = u'" "k = k'" "sid = sid'" "m = m'" "w = w'"
    using \<open>owner = owner'\<close> uuid_ok_notin(1) [OF assms(3)] uuid_ok_notin(1) [OF assms(4)]
    by (simp_all add: append_sep_inj surface.as_str_inj rate_subject.as_str_inj rate_metric.as_str_inj)
qed (use cluster_tag_counter_key [OF assms(1)] cluster_tag_counter_key [OF assms(2)] in auto)

theorem counter_key_identifies_witness:
  "counter_key uuid_nil AiGateway RUser uuid_nil Requests 60 \<noteq> counter_key uuid_nil AiGateway RUser uuid_nil Tokens 60"
  using counter_key_identifies [OF uuid_ok_nil uuid_ok_nil uuid_ok_nil uuid_ok_nil,
      of AiGateway RUser Requests 60 AiGateway RUser Tokens 60] by simp

end
