(* ===== verification/Request_Props.thy ===== *)
theory Request_Props
  imports Policy_Props Sliding_Props
begin

section \<open>From roles to counters\<close>

text \<open>
  Across \<open>Limits_Policy\<close> and \<open>Sliding\<close>: the rules one request is held to, built from the roles, the
  overrides and the API key's own limits, are counters the limiter's theorems apply to; and the limits
  of a key only narrow its owner's.
\<close>

definition key_ok :: "Surface \<Rightarrow> (uuid \<times> SurfaceConstraints) option \<Rightarrow> bool" where
  "key_ok u key \<longleftrightarrow>
     (case key of None \<Rightarrow> True
      | Some (lineage, cons) \<Rightarrow> uuid_ok lineage \<and> constraints_ok cons \<and> distinct (map rule_key (rules_on cons u)))"

lemma for_request_rules:
  "rq_rules (for_request u own user key) =
     map (request_rule u RUser own) (filter sr_enabled (rules_on user u)) @
     (case key of None \<Rightarrow> [] | Some (lineage, cons) \<Rightarrow>
        map (request_rule u RApiKeyLineage lineage) (filter sr_enabled (rules_on cons u)))"
  by (auto simp: for_request_def RequestLimits_add_def rules_on_def Let_def split: option.splits)

lemma for_request_caps:
  "rq_caps (for_request u own user key) =
     map (request_cap RUser own) (filter sb_enabled (budgets_on user u)) @
     (case key of None \<Rightarrow> [] | Some (lineage, cons) \<Rightarrow>
        map (request_cap RApiKeyLineage lineage) (filter sb_enabled (budgets_on cons u)))"
  by (auto simp: for_request_def RequestLimits_add_def budgets_on_def Let_def split: option.splits)

lemma bucket_secs_pos: "is_allowed_window w \<Longrightarrow> 0 < bucket_secs w \<and> bucket_secs w * 60 = w"
  by (auto simp: is_allowed_window_iff bucket_secs_def BUCKETS_PER_WINDOW_def div_toward_zero_nonneg)

lemma rule_counter_ok: "rule_ok r \<Longrightarrow> counter_ok (rule_counter own (request_rule u k sid r))"
  by (simp add: counter_ok_def rule_counter_def ResolvedRule_new_def request_rule_def rule_ok_def
      bucket_secs_pos)

lemma counter_key_inj:
  assumes "uuid_ok owner" "uuid_ok sid" "uuid_ok sid'"
    and "counter_key owner u k sid m w = counter_key owner u' k' sid' m' w'"
  shows "u = u' \<and> k = k' \<and> sid = sid' \<and> m = m' \<and> w = w'"
  using assms(4) uuid_ok_notin(1) [OF assms(2)] uuid_ok_notin(1) [OF assms(3)]
  by (simp add: counter_key_def append_sep_inj surface.as_str_inj rate_subject.as_str_inj rate_metric.as_str_inj)

lemma request_rule_key:
  "ct_key (rule_counter own (request_rule u k sid r)) = counter_key own u k sid (sr_metric r) (sr_window_secs r)"
  by (simp add: rule_counter_def ResolvedRule_new_def request_rule_def)

lemma distinct_request_keys:
  assumes "uuid_ok own" "uuid_ok sid" "distinct (map rule_key rs)"
  shows "distinct (map (\<lambda>r. ct_key (rule_counter own (request_rule u k sid r))) rs)"
proof -
  have "inj_on (\<lambda>r. ct_key (rule_counter own (request_rule u k sid r))) (set rs)"
    using assms(3) counter_key_inj [OF assms(1,2,2)]
    by (fastforce simp: request_rule_key distinct_map inj_on_def rule_key_def)
  then show ?thesis using assms(3) by (simp add: distinct_map)
qed

lemma for_request_counters:
  assumes own: "uuid_ok own" and user: "constraints_ok user" "distinct (map rule_key (rules_on user u))"
    and key: "key_ok u key"
  defines "cs \<equiv> map (rule_counter own) (rq_rules (for_request u own user key))"
  shows "distinct (map ct_key cs)" "\<forall>c \<in> set cs. counter_ok c"
proof -
  have d: "distinct (map rule_key (filter sr_enabled rs))" if "distinct (map rule_key rs)" for rs
    using that by (simp add: distinct_map_filter)
  show "distinct (map ct_key cs)"
    using own key distinct_request_keys [OF own own d [OF user(2)]]
      distinct_request_keys [OF own _ d] counter_key_inj [OF own]
    by (auto simp: cs_def for_request_rules key_ok_def comp_def request_rule_key split: option.splits) blast+
  show "\<forall>c \<in> set cs. counter_ok c"
    using user(1) key rule_counter_ok [of _ own]
    by (auto simp: cs_def for_request_rules key_ok_def constraints_ok_iff split: option.splits)
qed

text \<open>
  From validated roles to well-formed counters: merge any roles with valid limits, apply any valid
  overrides, add a key's own limits; then no two rules of the request share a Redis counter and every
  counter has a positive bucket width and limit, which is what the limiter's theorems ask for.
\<close>

theorem request_counters_well_formed:
  assumes "uuid_ok own" and "\<forall>c \<in> set roles. constraints_ok c" and "constraints_ok ov" and "key_ok u key"
  shows "distinct (map ct_key (map (rule_counter own)
      (rq_rules (for_request u own (apply_user_overrides (merge_most_restrictive roles) ov) key)))) \<and>
    (\<forall>c \<in> set (map (rule_counter own)
      (rq_rules (for_request u own (apply_user_overrides (merge_most_restrictive roles) ov) key))). counter_ok c)"
  using for_request_counters [OF assms(1) override_ok [OF merge_ok [OF assms(2)] assms(3)] distinct_effective(1) assms(4)]
  by blast

definition demo_constraints :: SurfaceConstraints where
  "demo_constraints =
     \<lparr>ai_gateway = Some \<lparr>rules = [\<lparr>sr_metric = Requests, sr_window_secs = 60, sr_max_count = 5, sr_enabled = True\<rparr>],
                        budgets = []\<rparr>, mcp_gateway = None\<rparr>"

theorem request_counters_well_formed_witness:
  "distinct (map ct_key (map (rule_counter uuid_nil) (rq_rules (for_request AiGateway uuid_nil
     (apply_user_overrides (merge_most_restrictive [demo_constraints]) demo_constraints)
     (Some (uuid_nil, demo_constraints))))))"
proof -
  have ok: "constraints_ok demo_constraints"
    by (simp add: constraints_ok_def demo_constraints_def block_ok_def rule_ok_def is_allowed_window_iff)
  moreover have "key_ok AiGateway (Some (uuid_nil, demo_constraints))"
    using ok by (simp add: key_ok_def uuid_ok_nil rules_on_def demo_constraints_def)
  ultimately show ?thesis
    using request_counters_well_formed [OF uuid_ok_nil, of "[demo_constraints]" demo_constraints AiGateway
        "Some (uuid_nil, demo_constraints)"] by simp
qed

text \<open>
  A key's limits narrow its owner's, never widen them: every rule and cap of the owner applies to
  the request with the key too, so whenever the limiter admits the request with the key's limits it
  would have admitted it on the owner's alone.
\<close>

theorem key_limits_only_narrow:
  assumes "redis_laws R" and "canon_store R s" and "uuid_ok own" and "constraints_ok user"
    and "distinct (map rule_key (rules_on user u))" and "key_ok u (Some key)"
    and "admit_counters_at R (map (rule_counter own) (rq_rules (for_request u own user (Some key)))) now s = (s1, Inr o1)"
    and "admit_counters_at R (map (rule_counter own) (rq_rules (for_request u own user None))) now s = (s2, Inr o2)"
    and "allowed o1"
  shows "allowed o2 \<and> set (rq_caps (for_request u own user None)) \<subseteq> set (rq_caps (for_request u own user (Some key)))"
proof -
  have n: "key_ok u None" by (simp add: key_ok_def)
  have sub: "set (map (rule_counter own) (rq_rules (for_request u own user None))) \<subseteq>
      set (map (rule_counter own) (rq_rules (for_request u own user (Some key))))"
    by (auto simp: for_request_rules)
  from redis_laws.admit_windows [OF assms(1,2) for_request_counters [OF assms(3,4,5,6)] assms(7)] assms(9)
  have "\<forall>c \<in> set (map (rule_counter own) (rq_rules (for_request u own user None))).
      cwin R s c (now div 1000) < ct_max_count c" using sub by auto
  with redis_laws.admit_windows [OF assms(1,2) for_request_counters [OF assms(3,4,5) n] assms(8)]
  have "allowed o2" by (meson not_less)
  then show ?thesis by (auto simp: for_request_caps)
qed

theorem key_limits_only_narrow_witness:
  "allowed (snd (the (case admit_counters_at mem_redis
      (map (rule_counter uuid_nil) (rq_rules (for_request AiGateway uuid_nil demo_constraints None))) 100500 demo_empty of
      (s, Inr out) \<Rightarrow> Some (s, out) | _ \<Rightarrow> None)))"
proof -
  let ?adm = "\<lambda>key. admit_counters_at mem_redis
      (map (rule_counter uuid_nil) (rq_rules (for_request AiGateway uuid_nil demo_constraints key))) 100500 demo_empty"
  obtain s1 r1 where a1: "?adm (Some (uuid_nil, demo_constraints)) = (s1, r1)" by fastforce
  obtain s2 r2 where a2: "?adm None = (s2, r2)" by fastforce
  have "case snd (?adm (Some (uuid_nil, demo_constraints))) of Inr out \<Rightarrow> allowed out | Inl e \<Rightarrow> False"
    by code_simp
  with a1 obtain o1 where o1: "r1 = Inr o1" "allowed o1" by (auto split: sum.splits)
  have "case snd (?adm None) of Inr out \<Rightarrow> True | Inl e \<Rightarrow> False" by code_simp
  with a2 obtain o2 where o2: "r2 = Inr o2" by (auto split: sum.splits)
  have ok: "constraints_ok demo_constraints"
    by (simp add: constraints_ok_def demo_constraints_def block_ok_def rule_ok_def is_allowed_window_iff)
  have d: "distinct (map rule_key (rules_on demo_constraints AiGateway))"
    by (simp add: rules_on_def demo_constraints_def)
  have k: "key_ok AiGateway (Some (uuid_nil, demo_constraints))"
    using ok d by (simp add: key_ok_def uuid_ok_nil)
  show ?thesis
    using key_limits_only_narrow [OF mem.redis_laws_axioms demo_canon(1) uuid_ok_nil ok d k a1 [unfolded o1(1)]
        a2 [unfolded o2] o1(2)] a2 o2 by simp
qed

end
