(* ===== verification/Effective_Props.thy ===== *)
theory Effective_Props
  imports Rbac_Props Request_Props
begin

section \<open>From the database to the limiter\<close>

text \<open>
  The whole path of a request's limits: role documents and side tables, the merge and the overrides of
  \<open>compute_user_surface_constraints\<close>, the key's own rows, \<open>for_request\<close>, and the counters of the limiter.
\<close>

definition tables_ok :: "limit_db \<Rightarrow> bool" where
  "tables_ok db \<longleftrightarrow>
     (\<forall>r \<in> set (rate_limit_rules db). is_allowed_window (rw_window_secs r) \<and> 0 < rw_max_count r) \<and>
     (\<forall>c \<in> set (budget_caps db). 0 < cw_limit_tokens c) \<and>
     distinct (map rule_row_key (rate_limit_rules db))"

lemma apply_default: "apply_user_overrides c SurfaceConstraints_default = c"
  by (simp add: apply_user_overrides_def SurfaceConstraints_default_def apply_block_overrides_def)

lemma row_to_rule_limits:
  "row_to_rule row = Some r \<Longrightarrow> rl_window_secs r = rw_window_secs row \<and> rl_max_count r = rw_max_count row \<and>
     (rl_subject_kind r = k \<longrightarrow> rule_row_key row = (RateLimitSubject_as_str k, rl_subject_id r, Surface_as_str (rl_surface r),
        RateMetric_as_str (rl_metric r), rl_window_secs r))"
  unfolding row_to_rule_key rule_row_key_def
  by (cases r) auto

lemma row_to_cap_limits: "row_to_cap row = Some c \<Longrightarrow> bc_limit_tokens c = cw_limit_tokens row"
  unfolding row_to_cap_key by (cases c) auto

lemma side_rules_on:
  "rules_on (side_table_as_constraints rs cs) u =
     map (\<lambda>r. \<lparr>sr_metric = rl_metric r, sr_window_secs = rl_window_secs r, sr_max_count = rl_max_count r,
       sr_enabled = True\<rparr>) (filter (\<lambda>r. rl_enabled r \<and> rl_surface r = u) rs)"
  "budgets_on (side_table_as_constraints rs cs) u =
     map (\<lambda>c. \<lparr>sb_period = bc_period c, sb_limit_tokens = bc_limit_tokens c, sb_enabled = True\<rparr>)
       (filter bc_enabled cs)"
proof -
  have "rules_on SurfaceConstraints_default u = []" "budgets_on SurfaceConstraints_default u = []"
    by (cases u; simp add: rules_on_def budgets_on_def SurfaceConstraints_default_def)+
  then show "rules_on (side_table_as_constraints rs cs) u =
     map (\<lambda>r. \<lparr>sr_metric = rl_metric r, sr_window_secs = rl_window_secs r, sr_max_count = rl_max_count r,
       sr_enabled = True\<rparr>) (filter (\<lambda>r. rl_enabled r \<and> rl_surface r = u) rs)"
    "budgets_on (side_table_as_constraints rs cs) u =
     map (\<lambda>c. \<lparr>sb_period = bc_period c, sb_limit_tokens = bc_limit_tokens c, sb_enabled = True\<rparr>)
       (filter bc_enabled cs)"
    by (simp_all add: side_table_as_constraints_def fold_side_cap(1) fold_side_cap(2) [where rs = rs]
        fold_side_rule(1) [where cs = cs] fold_side_rule(2), simp_all add: side_block_def)
qed

lemma side_constraints_ok:
  assumes "\<forall>r \<in> set rs. is_allowed_window (rl_window_secs r) \<and> 0 < rl_max_count r" "\<forall>c \<in> set cs. 0 < bc_limit_tokens c"
  shows "constraints_ok (side_table_as_constraints rs cs)"
  using assms by (auto simp: constraints_ok_iff side_rules_on rule_ok_def)

lemma active_rows:
  assumes "list_enabled_rules_for_subjects err tab now [(k, i)] = Inr rs"
  shows "rs = List.map_filter row_to_rule (filter (\<lambda>r. rw_subject_kind r = RateLimitSubject_as_str k \<and>
    rw_subject_id r = i \<and> rw_enabled r \<and> active_until now (rw_expires_at r)) tab)"
  using assms by (auto split: option.splits)

lemma active_rows_ok:
  assumes "tables_ok db" "list_enabled_rules_for_subjects err (rate_limit_rules db) now [(k, i)] = Inr rs" "r \<in> set rs"
  shows "is_allowed_window (rl_window_secs r) \<and> 0 < rl_max_count r"
  using assms(1,3) row_to_rule_limits
  by (auto simp: tables_ok_def active_rows [OF assms(2)] set_map_filter)

lemma active_caps_ok:
  assumes "tables_ok db" "list_enabled_caps_for_subjects err (budget_caps db) now [(k, i)] = Inr cs" "c \<in> set cs"
  shows "0 < bc_limit_tokens c"
  using assms row_to_cap_limits
  by (auto simp: tables_ok_def set_map_filter split: option.splits)

lemma distinct_decoded:
  assumes "distinct (map rule_row_key rows)"
    and "\<forall>row \<in> set rows. rw_subject_kind row = RateLimitSubject_as_str k \<and> rw_subject_id row = i"
  shows "distinct (map (\<lambda>r. (rl_metric r, rl_window_secs r)) (filter (\<lambda>r. rl_enabled r \<and> rl_surface r = u)
    (List.map_filter row_to_rule rows)))"
  using assms
proof (induction rows)
  case (Cons row rows)
  show ?case
  proof (cases "row_to_rule row")
    case None
    with Cons show ?thesis by (simp add: List.map_filter_simps)
  next
    case (Some r)
    have "(rl_metric r, rl_window_secs r) \<noteq> (rl_metric r', rl_window_secs r')"
      if "row' \<in> set rows" "row_to_rule row' = Some r'" "rl_surface r = u" "rl_surface r' = u" for row' r'
    proof
      assume "(rl_metric r, rl_window_secs r) = (rl_metric r', rl_window_secs r')"
      moreover have "rl_subject_kind r = k" "rl_subject_id r = i" "rl_subject_kind r' = k" "rl_subject_id r' = i"
        using that(1,2) Some Cons.prems(2)
        by (auto simp: row_to_rule_def rate_subject.parse_iff rate_subject.as_str_inj bind_eq_Some_conv)
      ultimately have "rule_row_key row = rule_row_key row'"
        using that(3,4) row_to_rule_limits [OF Some, of k] row_to_rule_limits [OF that(2), of k] by simp
      with Cons.prems(1) that(1) show False by (auto simp: rev_image_eqI)
    qed
    then have "(rl_metric r, rl_window_secs r) \<notin> (\<lambda>r. (rl_metric r, rl_window_secs r)) `
        set (filter (\<lambda>r. rl_enabled r \<and> rl_surface r = u) (List.map_filter row_to_rule rows))" if "rl_surface r = u"
      using that by (auto simp: set_map_filter)
    with Some Cons show ?thesis by (simp add: List.map_filter_simps)
  qed
qed (simp add: List.map_filter_simps)

lemma key_constraints_ok:
  assumes "tables_ok db" "uuid_ok lineage" "compute_key_surface_constraints errs db now lineage = Inr cons"
  shows "key_ok u (Some (lineage, cons))"
proof -
  from assms(3) obtain rs cs where rs: "list_enabled_rules_for_subjects (\<lambda>_. fst errs) (rate_limit_rules db) now [(RApiKeyLineage, lineage)] = Inr rs"
    and cs: "list_enabled_caps_for_subjects (\<lambda>_. snd errs) (budget_caps db) now [(BApiKeyLineage, lineage)] = Inr cs"
    and cons: "cons = side_table_as_constraints rs cs"
    by (auto simp: compute_key_surface_constraints_def split: sum.splits
        simp del: list_enabled_rules_for_subjects.simps list_enabled_caps_for_subjects.simps)
  have "constraints_ok cons"
    unfolding cons using active_rows_ok [OF assms(1) rs] active_caps_ok [OF assms(1) cs] by (intro side_constraints_ok) blast+
  moreover have "distinct (map rule_key (rules_on cons u))"
  proof -
    let ?rows = "filter (\<lambda>r. rw_subject_kind r = RateLimitSubject_as_str RApiKeyLineage \<and>
      rw_subject_id r = lineage \<and> rw_enabled r \<and> active_until now (rw_expires_at r)) (rate_limit_rules db)"
    have "distinct (map rule_row_key ?rows)"
      using assms(1) by (simp add: tables_ok_def distinct_map_filter del: RateLimitSubject_as_str.simps)
    then have "distinct (map (\<lambda>r. (rl_metric r, rl_window_secs r)) (filter (\<lambda>r. rl_enabled r \<and> rl_surface r = u)
        (List.map_filter row_to_rule ?rows)))"
      by (rule distinct_decoded [where k = RApiKeyLineage and i = lineage]) simp
    then show ?thesis
      unfolding cons side_rules_on active_rows [OF rs] map_map comp_def rule_key_def by simp
  qed
  ultimately show ?thesis using assms(2) by (simp add: key_ok_def)
qed

lemma user_constraints_eq:
  assumes "compute_user_surface_constraints from_cons errs db now user = Inr cons"
  obtains docs rs cs where
    "list_enabled_rules_for_subjects (\<lambda>_. fst (snd errs)) (rate_limit_rules db) now [(RUser, user)] = Inr rs"
    "list_enabled_caps_for_subjects (\<lambda>_. snd (snd errs)) (budget_caps db) now [(BUser, user)] = Inr cs"
    "cons = apply_user_overrides (merge_most_restrictive (map (extract_surface_constraints from_cons) docs))
       (side_table_as_constraints rs cs)"
  using assms
  by (auto simp: compute_user_surface_constraints_def compute_user_role_constraints_def Let_def apply_default
      split: prod.splits sum.splits if_splits
      simp del: list_enabled_rules_for_subjects.simps list_enabled_caps_for_subjects.simps)

text \<open>
  The limits of a request are fit for the limiter, end to end: when role documents carry validated
  limits and the side tables hold what their writers accept, then for any user, with any overrides, and any
  of their keys, the rules the request is held to have pairwise different counters, each with a positive
  bucket width and a positive limit.
\<close>

theorem effective_limits_well_formed:
  assumes "uuid_ok user" and "uuid_ok lineage" and "tables_ok db" and "\<And>v c. from_cons v = Some c \<Longrightarrow> policy_ok c"
    and "compute_user_surface_constraints from_cons errs db now user = Inr ucons"
    and "compute_key_surface_constraints errs' db now lineage = Inr kcons"
  shows "distinct (map ct_key (map (rule_counter user) (rq_rules (for_request u user ucons (Some (lineage, kcons)))))) \<and>
    (\<forall>c \<in> set (map (rule_counter user) (rq_rules (for_request u user ucons (Some (lineage, kcons))))). counter_ok c)"
proof -
  from assms(5) obtain docs rs cs where
    rs: "list_enabled_rules_for_subjects (\<lambda>_. fst (snd errs)) (rate_limit_rules db) now [(RUser, user)] = Inr rs"
    and cs: "list_enabled_caps_for_subjects (\<lambda>_. snd (snd errs)) (budget_caps db) now [(BUser, user)] = Inr cs"
    and ucons: "ucons = apply_user_overrides (merge_most_restrictive (map (extract_surface_constraints from_cons) docs))
       (side_table_as_constraints rs cs)"
    by (rule user_constraints_eq)
  have "constraints_ok (side_table_as_constraints rs cs)"
    using active_rows_ok [OF assms(3) rs] active_caps_ok [OF assms(3) cs] by (intro side_constraints_ok) blast+
  moreover have "\<forall>c \<in> set (map (extract_surface_constraints from_cons) docs). constraints_ok c"
    using extract_ok [OF assms(4)] by simp
  ultimately have "constraints_ok ucons" unfolding ucons by (intro override_ok merge_ok)
  moreover have "distinct (map rule_key (rules_on ucons u))" unfolding ucons by (rule distinct_effective)
  ultimately show ?thesis
    using for_request_counters [OF assms(1) _ _ key_constraints_ok [OF assms(3,2,6)]] by blast
qed

definition demo_limit_db :: limit_db where
  "demo_limit_db = \<lparr>rbac_part = demo_db [], rate_limit_rules = [upsert_rule_row uuid_nil demo_upsert], budget_caps = []\<rparr>"

theorem effective_limits_well_formed_witness:
  "\<exists>ucons kcons. compute_user_surface_constraints (\<lambda>_. None) (None, None, None) demo_limit_db 0 uuid_nil = Inr ucons \<and>
     rules_on ucons AiGateway \<noteq> [] \<and>
     distinct (map ct_key (map (rule_counter uuid_nil)
       (rq_rules (for_request AiGateway uuid_nil ucons (Some (uuid_nil, kcons))))))"
proof -
  have ok: "tables_ok demo_limit_db"
    by (simp add: tables_ok_def demo_limit_db_def upsert_rule_row_def demo_upsert_def is_allowed_window_iff)
  have "case compute_user_surface_constraints (\<lambda>_. None) (None, None, None) demo_limit_db 0 uuid_nil of
      Inr c \<Rightarrow> rules_on c AiGateway \<noteq> [] | Inl e \<Rightarrow> False" by code_simp
  then obtain ucons where u: "compute_user_surface_constraints (\<lambda>_. None) (None, None, None) demo_limit_db 0 uuid_nil = Inr ucons"
    and ne: "rules_on ucons AiGateway \<noteq> []" by (auto split: sum.splits)
  have "case compute_key_surface_constraints (None, None) demo_limit_db 0 uuid_nil of Inr c \<Rightarrow> True | Inl e \<Rightarrow> False"
    by code_simp
  then obtain kcons where k: "compute_key_surface_constraints (None, None) demo_limit_db 0 uuid_nil = Inr kcons"
    by (auto split: sum.splits)
  show ?thesis
    using effective_limits_well_formed [OF uuid_ok_nil uuid_ok_nil ok _ u k, of AiGateway] u ne by blast
qed

end
