(* ===== verification/Router.thy ===== *)
theory Router
  imports Limits_Types
begin

section \<open>Model names: aliases and routes\<close>

text \<open>
  \<^verbatim>\<open>crates/gateway/src/model_mapping.rs\<close> and \<^verbatim>\<open>router.rs\<close>, with the names of \<^verbatim>\<open>strategy.rs\<close>. A route entry is
  a type parameter where only its weight or provider matters. A \<^verbatim>\<open>HashMap\<close> is an association list with
  distinct keys; the order of its entries stands for the iteration order, which Rust leaves open.
\<close>

subsection \<open>Aliases\<close>

record ModelMapper =
  exact :: "(string \<times> string) list"
  prefixes :: "(string \<times> string) list"

definition ModelMapper_new :: ModelMapper where
  "ModelMapper_new = \<lparr>exact = [], prefixes = []\<rparr>"

text \<open>Rust's \<^verbatim>\<open>sort_by_key\<close> with \<^verbatim>\<open>Reverse\<close> of the length: stable, longest first.\<close>

definition sort_longest_first :: "(string \<times> string) list \<Rightarrow> (string \<times> string) list" where
  "sort_longest_first ps = sort_key (\<lambda>p. - int (length (fst p))) ps"

definition map_insert :: "'k \<Rightarrow> 'v \<Rightarrow> ('k \<times> 'v) list \<Rightarrow> ('k \<times> 'v) list" where
  "map_insert k v m = entry_upd k (\<lambda>_. v) v m"

definition config_entry ::
  "string \<times> string \<Rightarrow> (string \<times> string) list \<times> (string \<times> string) list \<Rightarrow>
   (string \<times> string) list \<times> (string \<times> string) list" where
  "config_entry kv acc =
     (case strip_suffix (fst kv) ''*'' of
        Some stripped \<Rightarrow> (fst acc, snd acc @ [(stripped, snd kv)])
      | None \<Rightarrow> (map_insert (fst kv) (snd kv) (fst acc), snd acc))"

definition from_config :: "(string \<times> string) list \<Rightarrow> ModelMapper" where
  "from_config config =
     (case fold config_entry config ([], []) of
        (ex, pre) \<Rightarrow> \<lparr>exact = ex, prefixes = sort_longest_first pre\<rparr>)"

definition add_exact :: "string \<Rightarrow> string \<Rightarrow> ModelMapper \<Rightarrow> ModelMapper" where
  "add_exact alias target m = m\<lparr>exact := map_insert alias target (exact m)\<rparr>"

definition add_prefix :: "string \<Rightarrow> string \<Rightarrow> ModelMapper \<Rightarrow> ModelMapper" where
  "add_prefix from_prefix to_prefix m =
     m\<lparr>prefixes := sort_longest_first (prefixes m @ [(from_prefix, to_prefix)])\<rparr>"

fun map_prefix :: "(string \<times> string) list \<Rightarrow> string \<Rightarrow> string" where
  "map_prefix [] model = model"
| "map_prefix ((from, to) # ps) model =
     (case strip_prefix model from of Some suffix \<Rightarrow> to @ suffix | None \<Rightarrow> map_prefix ps model)"

definition map_model :: "ModelMapper \<Rightarrow> string \<Rightarrow> string" where
  "map_model m model =
     (case map_of (exact m) model of
        Some target \<Rightarrow> target
      | None \<Rightarrow> map_prefix (prefixes m) model)"

subsection \<open>Strategies and affinity\<close>

datatype RoutingStrategy = Weighted | Latency | Health | LatencyHealth

fun RoutingStrategy_as_str :: "RoutingStrategy \<Rightarrow> string" where
  "RoutingStrategy_as_str Weighted = ''weighted''"
| "RoutingStrategy_as_str Latency = ''latency''"
| "RoutingStrategy_as_str Health = ''health''"
| "RoutingStrategy_as_str LatencyHealth = ''latency_health''"

definition RoutingStrategy_from_str :: "string \<Rightarrow> RoutingStrategy option" where
  "RoutingStrategy_from_str s =
     (if s = ''weighted'' then Some Weighted
      else if s = ''latency'' then Some Latency
      else if s = ''health'' then Some Health
      else if s = ''latency_health'' then Some LatencyHealth
      else None)"

interpretation routing_strategy: enum_text RoutingStrategy_as_str RoutingStrategy_from_str
proof
  show "RoutingStrategy_from_str (RoutingStrategy_as_str e) = Some e" for e
    by (cases e) (simp_all add: RoutingStrategy_from_str_def)
qed (auto simp: RoutingStrategy_from_str_def split: if_splits)

datatype AffinityMode = AffinityNone | AffinityProvider | AffinityRoute

fun AffinityMode_as_str :: "AffinityMode \<Rightarrow> string" where
  "AffinityMode_as_str AffinityNone = ''none''"
| "AffinityMode_as_str AffinityProvider = ''provider''"
| "AffinityMode_as_str AffinityRoute = ''route''"

definition AffinityMode_parse_or_default :: "string \<Rightarrow> AffinityMode" where
  "AffinityMode_parse_or_default s =
     (if s = ''none'' then AffinityNone else if s = ''route'' then AffinityRoute else AffinityProvider)"

subsection \<open>The router\<close>

record RouteEntry =
  re_provider_id :: uuid
  re_route_id :: uuid
  re_provider_name :: string
  re_upstream_model :: "string option"
  re_weight :: nat
  re_rpm_cap :: "nat option"
  re_tpm_cap :: "nat option"

record 'c ModelRouter =
  routes_of :: "(string \<times> RouteEntry list) list"
  configs :: "(string \<times> 'c) list"

definition set_model_config :: "string \<Rightarrow> 'c \<Rightarrow> 'c ModelRouter \<Rightarrow> 'c ModelRouter" where
  "set_model_config model_id cfg r = r\<lparr>configs := map_insert model_id cfg (configs r)\<rparr>"

text \<open>
  The prefix scan of \<^verbatim>\<open>config_for\<close> and of \<^verbatim>\<open>route\<close>: the longest pattern that the name starts with among the
  entries that qualify, the first met among equals.
\<close>

definition scan_prefix :: "('v \<Rightarrow> bool) \<Rightarrow> string \<Rightarrow> string \<times> 'v \<Rightarrow> (string \<times> 'v) option \<Rightarrow> (string \<times> 'v) option" where
  "scan_prefix ok model e best =
     (if starts_with model (fst e) \<and> ok (snd e) then
        (case best of
           Some (cur, v) \<Rightarrow> if length cur < length (fst e) then Some e else best
         | None \<Rightarrow> Some e)
      else best)"

definition config_for :: "'c \<Rightarrow> 'c ModelRouter \<Rightarrow> string \<Rightarrow> 'c" where
  "config_for default_config r model_id =
     (case map_of (configs r) model_id of
        Some c \<Rightarrow> c
      | None \<Rightarrow> unwrap_or (map_option snd (fold (scan_prefix (\<lambda>_. True) model_id) (configs r) None)) default_config)"

definition register_route :: "string \<Rightarrow> RouteEntry \<Rightarrow> 'c ModelRouter \<Rightarrow> 'c ModelRouter" where
  "register_route model_id entry r =
     r\<lparr>routes_of := entry_upd model_id (\<lambda>es. es @ [entry]) [entry] (routes_of r)\<rparr>"

definition sort_routes :: "'c ModelRouter \<Rightarrow> 'c ModelRouter" where
  "sort_routes r =
     r\<lparr>routes_of := map (\<lambda>(m, es). (m, sort_key (\<lambda>e. - int (re_weight e)) es)) (routes_of r)\<rparr>"

definition route :: "'c ModelRouter \<Rightarrow> string \<Rightarrow> RouteEntry list option" where
  "route r model =
     (case map_of (routes_of r) model of
        Some (e # es) \<Rightarrow> Some (e # es)
      | _ \<Rightarrow> map_option snd (fold (scan_prefix (\<lambda>es. es \<noteq> []) model) (routes_of r) None))"

definition provider_id_for :: "'c ModelRouter \<Rightarrow> string \<Rightarrow> uuid option" where
  "provider_id_for r model =
     Option.bind (route r model) (\<lambda>es. map_option re_provider_id (case es of [] \<Rightarrow> None | e # _ \<Rightarrow> Some e))"

definition list_models :: "'c ModelRouter \<Rightarrow> string list" where
  "list_models r = sort (map fst (routes_of r))"

end
