(* ===== verification/Gateway_Error.thy ===== *)
theory Gateway_Error
  imports TW_Prelude
begin

section \<open>The gateway's errors\<close>

text \<open>
  \<^verbatim>\<open>crates/gateway/src/error.rs\<close>: the error type of the AI gateway with its status codes, tags and
  \<open>Retry-After\<close> hints. The \<open>u16\<close>, \<open>u32\<close> and \<open>u64\<close> fields are naturals, with the range of \<open>u32\<close> written
  out where a value is converted to it; a \<^verbatim>\<open>Duration\<close> is its length in nanoseconds.
\<close>

datatype GatewayError =
    ProviderError string
  | ProviderHttpError nat string "nat option"
  | ProviderTimeout string
  | ProviderInvalidResponse string
  | TransformError string
  | NetworkError string
  | UpstreamRateLimited "nat option"
  | UpstreamAuthError nat string
  | LocalRateLimited string nat bool
  | PolicyBlocked string
  | SealedHistoryRefused nat string string
  | SealedHistoryUnavailable string string
  | UpstreamTooSlow string nat nat nat

fun status_code :: "GatewayError \<Rightarrow> int" where
  "status_code (ProviderError _) = 502"
| "status_code (ProviderHttpError status _ _) = int status"
| "status_code (ProviderTimeout _) = 504"
| "status_code (ProviderInvalidResponse _) = 502"
| "status_code (TransformError _) = 400"
| "status_code (NetworkError _) = 502"
| "status_code (UpstreamRateLimited _) = 429"
| "status_code (LocalRateLimited _ _ _) = 429"
| "status_code (UpstreamAuthError _ _) = 401"
| "status_code (PolicyBlocked _) = 403"
| "status_code (SealedHistoryRefused status _ _) = int status"
| "status_code (SealedHistoryUnavailable _ _) = 409"
| "status_code (UpstreamTooSlow _ _ _ _) = 503"

fun error_tag :: "GatewayError \<Rightarrow> string" where
  "error_tag (ProviderError _) = ''ProviderError''"
| "error_tag (ProviderHttpError _ _ _) = ''ProviderHttpError''"
| "error_tag (ProviderTimeout _) = ''ProviderTimeout''"
| "error_tag (ProviderInvalidResponse _) = ''ProviderInvalidResponse''"
| "error_tag (TransformError _) = ''TransformError''"
| "error_tag (NetworkError _) = ''NetworkError''"
| "error_tag (UpstreamRateLimited _) = ''UpstreamRateLimited''"
| "error_tag (LocalRateLimited _ _ _) = ''LocalRateLimited''"
| "error_tag (UpstreamAuthError _ _) = ''UpstreamAuthError''"
| "error_tag (PolicyBlocked _) = ''PolicyBlocked''"
| "error_tag (SealedHistoryRefused _ _ _) = ''SealedHistoryRefused''"
| "error_tag (SealedHistoryUnavailable _ _) = ''SealedHistoryUnavailable''"
| "error_tag (UpstreamTooSlow _ _ _ _) = ''UpstreamTooSlow''"

definition u32_max :: nat where
  "u32_max = 2 ^ 32 - 1"

definition clamp_secs :: "nat \<Rightarrow> nat" where
  "clamp_secs secs = max (if secs \<le> u32_max then secs else u32_max) 1"

definition rate_limited :: "string \<Rightarrow> nat \<Rightarrow> GatewayError" where
  "rate_limited lab secs = LocalRateLimited lab (clamp_secs secs) True"

definition budget_exhausted :: "string \<Rightarrow> nat \<Rightarrow> GatewayError" where
  "budget_exhausted lab secs = LocalRateLimited lab (clamp_secs secs) False"

definition limiter_unavailable :: "string \<Rightarrow> GatewayError" where
  "limiter_unavailable lab = LocalRateLimited lab 30 True"

fun error_retry_after_secs :: "GatewayError \<Rightarrow> nat option" where
  "error_retry_after_secs (UpstreamRateLimited secs) = map_option (\<lambda>s. min s 3600) secs"
| "error_retry_after_secs (LocalRateLimited _ secs _) = Some secs"
| "error_retry_after_secs _ = None"

fun should_retry :: "GatewayError \<Rightarrow> bool option" where
  "should_retry (LocalRateLimited _ _ False) = Some False"
| "should_retry _ = None"

text \<open>
  \<^verbatim>\<open>str::trim\<close> removes white space in the sense of Unicode; the list holds the UTF-8 bytes of each of
  those characters.
\<close>

definition white_space :: "string list" where
  "white_space =
     [[CHR 0x09], [CHR 0x0A], [CHR 0x0B], [CHR 0x0C], [CHR 0x0D], [CHR 0x20],
      [CHR 0xC2, CHR 0x85], [CHR 0xC2, CHR 0xA0], [CHR 0xE1, CHR 0x9A, CHR 0x80]] @
     map (\<lambda>b. [CHR 0xE2, CHR 0x80, b])
       [CHR 0x80, CHR 0x81, CHR 0x82, CHR 0x83, CHR 0x84, CHR 0x85, CHR 0x86, CHR 0x87, CHR 0x88, CHR 0x89,
        CHR 0x8A, CHR 0xA8, CHR 0xA9, CHR 0xAF] @
     [[CHR 0xE2, CHR 0x81, CHR 0x9F], [CHR 0xE3, CHR 0x80, CHR 0x80]]"

fun trim_start_fuel :: "nat \<Rightarrow> string \<Rightarrow> string" where
  "trim_start_fuel 0 s = s"
| "trim_start_fuel (Suc n) s =
     (case find (starts_with s) white_space of
        None \<Rightarrow> s
      | Some w \<Rightarrow> trim_start_fuel n (drop (length w) s))"

fun trim_end_fuel :: "nat \<Rightarrow> string \<Rightarrow> string" where
  "trim_end_fuel 0 s = s"
| "trim_end_fuel (Suc n) s =
     (case find (ends_with s) white_space of
        None \<Rightarrow> s
      | Some w \<Rightarrow> trim_end_fuel n (take (length s - length w) s))"

text \<open>Each round removes at least one byte, so the length of the string is enough rounds.\<close>

definition str_trim :: "string \<Rightarrow> string" where
  "str_trim s = (let t = trim_start_fuel (length s) s in trim_end_fuel (length t) t)"

text \<open>\<^verbatim>\<open>str::parse::<u32>\<close>: digits with an optional plus sign, in range.\<close>

definition parse_u32 :: "string \<Rightarrow> nat option" where
  "parse_u32 s =
     (let ds = (case s of c # cs \<Rightarrow> if c = CHR ''+'' then cs else s | [] \<Rightarrow> s)
      in case parse_nat ds of Some n \<Rightarrow> if n \<le> u32_max then Some n else None | None \<Rightarrow> None)"

definition parse_retry_after_seconds :: "string \<Rightarrow> nat option" where
  "parse_retry_after_seconds value = parse_u32 (str_trim value)"

subsection \<open>Consequences\<close>

lemma clamp_secs_pos [simp]: "0 < clamp_secs n"
  by (simp add: clamp_secs_def)

lemma clamp_secs_mono: "m \<le> n \<Longrightarrow> clamp_secs m \<le> clamp_secs n"
  by (auto simp: clamp_secs_def)

lemma clamp_secs_range: "clamp_secs n \<le> u32_max"
  by (simp add: clamp_secs_def u32_max_def)

text \<open>The tag names the variant, and the tag with the status of an HTTP error is what the retry and failover rules read.\<close>

lemma error_tag_http: "error_tag e = ''ProviderHttpError'' \<longleftrightarrow> (\<exists>st m ra. e = ProviderHttpError st m ra)"
  by (cases e) simp_all

end
