(* ===== verification/Route_Caps.thy ===== *)
theory Route_Caps
  imports Sliding Gateway_Error
begin

section \<open>Capacity caps of a route\<close>

text \<open>
  \<^verbatim>\<open>crates/gateway/src/route_caps.rs\<close>: requests and weighted tokens per minute of one route, counted with
  the rate limiter's scripts. The \<open>u32\<close> caps are non-negative integers.
\<close>

definition WINDOW_SECS :: int where
  "WINDOW_SECS = 60"

definition route_hash_tag :: "uuid \<Rightarrow> string" where
  "route_hash_tag route_id = ''{route:'' @ route_id @ ''}''"

definition route_counter_key :: "uuid \<Rightarrow> RateMetric \<Rightarrow> string" where
  "route_counter_key route_id metric =
     ''ratelimit:'' @ route_hash_tag route_id @ '':ai_gateway:route:'' @ route_id @ '':'' @
     RateMetric_as_str metric @ '':'' @ show_int WINDOW_SECS"

record RouteCaps =
  rc_route_id :: uuid
  rc_rpm :: "nat option"
  rc_tpm :: "nat option"

definition route_counters :: "RouteCaps \<Rightarrow> (RateMetric \<times> Counter) list" where
  "route_counters caps =
     List.map_filter
       (\<lambda>(metric, cap, charge). map_option (\<lambda>n. (metric,
          \<lparr>ct_key = route_counter_key (rc_route_id caps) metric, ct_bucket_secs = bucket_secs WINDOW_SECS,
           ct_max_count = int n, ct_charge = charge\<rparr>)) cap)
       [(Requests, rc_rpm caps, 1), (Tokens, rc_tpm caps, 0)]"

datatype Admission = Admitted | Capped string nat

definition route_label :: "RateMetric \<Rightarrow> string" where
  "route_label metric = ''route:'' @ RateMetric_as_str metric @ ''/1m''"

definition route_admit_at ::
  "'s redis \<Rightarrow> RouteCaps \<Rightarrow> bool \<Rightarrow> int \<Rightarrow> 's \<Rightarrow> 's \<times> (GatewayError + Admission)" where
  "route_admit_at R caps fail_closed now_ms s =
     (let counters = route_counters caps in
      if counters = [] then (s, Inr Admitted)
      else case admit_counters_at R (map snd counters) now_ms s of
             (s', Inr outcome) \<Rightarrow>
               if allowed outcome then (s', Inr Admitted)
               else let metric = (case Option.bind (exceeded_index outcome) (nth_opt counters) of
                                    None \<Rightarrow> Requests | Some (m, _) \<Rightarrow> m)
                    in (s', Inr (Capped (route_label metric) (retry_after outcome)))
           | (s', Inl e) \<Rightarrow>
               if fail_closed then (s', Inl (limiter_unavailable ''rate_limiter_unavailable'')) else (s', Inr Admitted))"

definition record_tokens_at :: "'s redis \<Rightarrow> RouteCaps \<Rightarrow> int \<Rightarrow> int \<Rightarrow> 's \<Rightarrow> 's" where
  "record_tokens_at R caps weighted_tokens now_ms s =
     (if rc_tpm caps = None \<or> weighted_tokens \<le> 0 then s
      else fst (record_counters_at R
                  [(route_counter_key (rc_route_id caps) Tokens, bucket_secs WINDOW_SECS)]
                  weighted_tokens now_ms s))"

subsection \<open>The routes a selection skipped\<close>

record CappedRoutes =
  cr_routes :: "uuid list"
  cr_soonest :: "(string \<times> nat) option"

definition CappedRoutes_default :: CappedRoutes where
  "CappedRoutes_default = \<lparr>cr_routes = [], cr_soonest = None\<rparr>"

definition CappedRoutes_add :: "uuid \<Rightarrow> string \<Rightarrow> nat \<Rightarrow> CappedRoutes \<Rightarrow> CappedRoutes" where
  "CappedRoutes_add route_id lab secs c =
     \<lparr>cr_routes = cr_routes c @ [route_id],
      cr_soonest =
        (case cr_soonest c of
           None \<Rightarrow> Some (lab, secs)
         | Some (l, n) \<Rightarrow> if secs < n then Some (lab, secs) else Some (l, n))\<rparr>"

definition CappedRoutes_refusal :: "CappedRoutes \<Rightarrow> GatewayError option" where
  "CappedRoutes_refusal c = map_option (\<lambda>(lab, secs). rate_limited lab secs) (cr_soonest c)"

end
