(* ===== verification/Router_Props.thy ===== *)
theory Router_Props
  imports Router Route_Caps Sliding_Props "HOL-Library.Multiset"
begin

section \<open>Aliases, routes and route caps: theorems\<close>

subsection \<open>The longest prefix\<close>

text \<open>
  Two prefixes of one name with the same length are the same, so the longest matching pattern is unique
  and the order in which a hash map yields its entries cannot matter.
\<close>

definition longest :: "('v \<Rightarrow> bool) \<Rightarrow> string \<Rightarrow> (string \<times> 'v) set \<Rightarrow> string \<times> 'v \<Rightarrow> bool" where
  "longest ok model es e \<longleftrightarrow> e \<in> es \<and> starts_with model (fst e) \<and> ok (snd e) \<and>
     (\<forall>e' \<in> es. starts_with model (fst e') \<and> ok (snd e') \<longrightarrow> length (fst e') \<le> length (fst e))"

lemma same_length_prefix: "starts_with s p \<Longrightarrow> starts_with s q \<Longrightarrow> length p = length q \<Longrightarrow> p = q"
  by (simp add: starts_with_def)

lemma longest_unique:
  assumes "longest ok model (set es) e" "longest ok model (set es) e'" "distinct (map fst es)"
  shows "e = e'"
proof -
  from assms(1,2) have "fst e = fst e'"
    by (intro same_length_prefix [of model]) (auto simp: longest_def intro: le_antisym)
  with assms show ?thesis by (metis distinct_map inj_onD longest_def)
qed

lemma scan_prefix_inv:
  assumes "best = None \<Longrightarrow> \<forall>e \<in> A. \<not> (starts_with model (fst e) \<and> ok (snd e))"
    and "\<And>e. best = Some e \<Longrightarrow> longest ok model A e"
  shows "case fold (scan_prefix ok model) es best of
      None \<Rightarrow> \<forall>e \<in> A \<union> set es. \<not> (starts_with model (fst e) \<and> ok (snd e))
    | Some e \<Rightarrow> longest ok model (A \<union> set es) e"
  using assms
proof (induction es arbitrary: A best)
  case Nil
  then show ?case by (auto split: option.splits)
next
  case (Cons e es)
  have "case fold (scan_prefix ok model) es (scan_prefix ok model e best) of
      None \<Rightarrow> \<forall>x \<in> insert e A \<union> set es. \<not> (starts_with model (fst x) \<and> ok (snd x))
    | Some x \<Rightarrow> longest ok model (insert e A \<union> set es) x"
  proof (rule Cons.IH)
    show "\<forall>x \<in> insert e A. \<not> (starts_with model (fst x) \<and> ok (snd x))" if "scan_prefix ok model e best = None"
      using that Cons.prems(1) by (auto simp: scan_prefix_def split: if_splits option.splits prod.splits)
    show "longest ok model (insert e A) x" if x: "scan_prefix ok model e best = Some x" for x
    proof (cases best)
      case None
      with x Cons.prems(1) show ?thesis
        by (auto simp: scan_prefix_def longest_def split: if_splits)
    next
      case (Some b)
      with Cons.prems(2) have "longest ok model A b" by simp
      with x Some show ?thesis
        by (cases b) (auto simp: scan_prefix_def longest_def split: if_splits)
    qed
  qed
  moreover have "A \<union> set (e # es) = insert e A \<union> set es" by auto
  ultimately show ?case by (simp only: fold_simps)
qed

lemma scan_prefix_longest:
  "fold (scan_prefix ok model) es None = Some e \<Longrightarrow> longest ok model (set es) e"
  "fold (scan_prefix ok model) es None = None \<Longrightarrow> longest ok model (set es) x \<Longrightarrow> False"
  using scan_prefix_inv [where A = "{}" and best = None and es = es and ok = ok and model = model] by (auto simp: longest_def split: option.splits)

lemma scan_prefix_iff:
  assumes "distinct (map fst es)"
  shows "fold (scan_prefix ok model) es None = Some e \<longleftrightarrow> longest ok model (set es) e"
  by (metis assms longest_unique not_None_eq scan_prefix_longest)

lemma scan_prefix_set:
  assumes "distinct (map fst es)" "distinct (map fst es')" "set es = set es'"
  shows "fold (scan_prefix ok model) es None = fold (scan_prefix ok model) es' None"
  using scan_prefix_iff [OF assms(1), of ok model] scan_prefix_iff [OF assms(2), of ok model] assms(3)
  by (metis not_None_eq)

text \<open>
  Routing a model name: an exact entry with routes wins; otherwise the routes are those of the longest
  registered prefix that has any, and there are none only when no registered prefix with routes fits. The
  result does not depend on the order of the hash map.
\<close>

theorem route_longest_prefix:
  assumes "distinct (map fst (routes_of r))"
  shows "(case map_of (routes_of r) model of
       Some (e # es) \<Rightarrow> route r model = Some (e # es)
     | _ \<Rightarrow> (route r model = Some es' \<longleftrightarrow> (\<exists>p. longest (\<lambda>es. es \<noteq> []) model (set (routes_of r)) (p, es')))) \<and>
    (distinct (map fst (routes_of r')) \<and> set (routes_of r') = set (routes_of r) \<longrightarrow> route r' model = route r model)"
proof -
  have scan: "map_option snd (fold (scan_prefix (\<lambda>es. es \<noteq> []) model) (routes_of r) None) = Some es' \<longleftrightarrow>
      (\<exists>p. longest (\<lambda>es. es \<noteq> []) model (set (routes_of r)) (p, es'))"
    using scan_prefix_iff [OF assms, of "\<lambda>es. es \<noteq> []" model] by auto
  moreover have "route r' model = route r model"
    if "distinct (map fst (routes_of r'))" "set (routes_of r') = set (routes_of r)"
  proof -
    have "map_of (routes_of r') = map_of (routes_of r)"
      using map_of_inject_set [OF that(1) assms] that(2) by simp
    with scan_prefix_set [OF that(1) assms that(2)] show ?thesis
      by (simp add: route_def split: option.split list.split)
  qed
  ultimately show ?thesis by (auto simp: route_def split: option.splits list.splits)
qed

definition demo_entry :: RouteEntry where
  "demo_entry = \<lparr>re_provider_id = uuid_nil, re_route_id = uuid_nil, re_provider_name = ''p'', re_upstream_model = None,
     re_weight = 1, re_rpm_cap = None, re_tpm_cap = None\<rparr>"

definition demo_router :: "unit ModelRouter" where
  "demo_router = \<lparr>routes_of = [(''gpt-'', [demo_entry]), (''gpt-4'', [demo_entry, demo_entry])], configs = []\<rparr>"

theorem route_longest_prefix_witness: "route demo_router ''gpt-4o'' = Some [demo_entry, demo_entry]"
proof -
  have "longest (\<lambda>es. es \<noteq> []) ''gpt-4o'' (set (routes_of demo_router)) (''gpt-4'', [demo_entry, demo_entry])"
    by (simp add: longest_def demo_router_def starts_with_def)
  moreover have "map_of (routes_of demo_router) ''gpt-4o'' = None" by (simp add: demo_router_def)
  moreover have "distinct (map fst (routes_of demo_router))" by (simp add: demo_router_def)
  ultimately show ?thesis
    using route_longest_prefix [of demo_router "''gpt-4o''" "[demo_entry, demo_entry]" demo_router] by auto
qed

subsection \<open>Aliases\<close>

lemma map_prefix_longest:
  assumes "sorted (map (\<lambda>p. - int (length (fst p))) ps)" "distinct (map fst ps)"
    and "longest (\<lambda>_. True) model (set ps) (from, to)"
  shows "map_prefix ps model = to @ drop (length from) model"
  using assms
proof (induction ps)
  case (Cons p ps)
  obtain f t where p: "p = (f, t)" by fastforce
  show ?case
  proof (cases "starts_with model f")
    case True
    have "length from \<le> length f" using Cons.prems(1,3) p by (auto simp: longest_def)
    moreover have "length f \<le> length from" using Cons.prems(3) p True by (auto simp: longest_def)
    ultimately have "f = from" using True Cons.prems(3) by (intro same_length_prefix [of model]) (auto simp: longest_def)
    moreover from this Cons.prems(2,3) p have "t = to" by (auto simp: longest_def rev_image_eqI)
    ultimately show ?thesis using True p by (simp add: strip_prefix_def)
  next
    case False
    then have "longest (\<lambda>_. True) model (set ps) (from, to)" using Cons.prems(3) p by (auto simp: longest_def)
    with Cons False p show ?thesis by (simp add: strip_prefix_def)
  qed
qed (simp add: longest_def)

lemma map_prefix_none: "\<forall>p \<in> set ps. \<not> starts_with model (fst p) \<Longrightarrow> map_prefix ps model = model"
  by (induction ps) (auto simp: strip_prefix_def)

lemma longest_exists:
  assumes "e0 \<in> set es" "starts_with model (fst e0)"
  shows "\<exists>e. longest (\<lambda>_. True) model (set es) e"
  using scan_prefix_longest(1) [of "\<lambda>_. True" model es] scan_prefix_inv [where A = "{}" and best = None and es = es
      and ok = "\<lambda>_. True" and model = model] assms
  by (cases "fold (scan_prefix (\<lambda>_. True) model) es None") auto

lemma map_prefix_set:
  assumes "sorted (map (\<lambda>p. - int (length (fst p))) ps)" "distinct (map fst ps)"
    and "sorted (map (\<lambda>p. - int (length (fst p))) qs)" "distinct (map fst qs)" "set ps = set qs"
  shows "map_prefix ps model = map_prefix qs model"
proof (cases "\<exists>e \<in> set ps. starts_with model (fst e)")
  case True
  then obtain f t where "longest (\<lambda>_. True) model (set ps) (f, t)" using longest_exists by (metis surj_pair)
  with map_prefix_longest [OF assms(1,2)] map_prefix_longest [OF assms(3,4)] assms(5) show ?thesis by simp
next
  case False
  with assms(5) map_prefix_none [of ps model] map_prefix_none [of qs model] show ?thesis by auto
qed

abbreviation prefix_rules :: "(string \<times> string) list \<Rightarrow> (string \<times> string) list" where
  "prefix_rules config \<equiv> List.map_filter (\<lambda>(k, v). map_option (\<lambda>p. (p, v)) (strip_suffix k ''*'')) config"

abbreviation exact_rules :: "(string \<times> string) list \<Rightarrow> (string \<times> string) list" where
  "exact_rules config \<equiv> filter (\<lambda>(k, v). strip_suffix k ''*'' = None) config"

lemma fold_config_entry_snd: "snd (fold config_entry config acc) = snd acc @ prefix_rules config"
  by (induction config arbitrary: acc) (auto simp: config_entry_def List.map_filter_simps split: option.splits)

lemma from_config_prefixes: "prefixes (from_config config) = sort_longest_first (prefix_rules config)"
  using fold_config_entry_snd [of config "([], [])"] by (simp add: from_config_def case_prod_unfold)

lemma fold_config_entry_fst:
  assumes "distinct (map fst config)"
  shows "map_of (fst (fold config_entry config acc)) = map_of (fst acc) ++ map_of (exact_rules config)"
  using assms
proof (induction config arbitrary: acc)
  case (Cons kv config)
  have none: "map_of (exact_rules config) (fst kv) = None"
    using Cons.prems by (force simp: map_of_eq_None_iff)
  show ?case
  proof (cases "strip_suffix (fst kv) ''*''")
    case None
    with Cons none show ?thesis
      by (auto simp: config_entry_def map_insert_def fun_eq_iff map_add_def split: option.splits prod.splits)
  next
    case (Some p)
    with Cons show ?thesis by (simp add: config_entry_def case_prod_unfold)
  qed
qed simp

lemma from_config_exact:
  assumes "distinct (map fst config)"
  shows "map_of (exact (from_config config)) = map_of (exact_rules config)"
  using fold_config_entry_fst [OF assms, of "([], [])"] by (simp add: from_config_def case_prod_unfold)

lemma prefix_rules_iff: "(p, v) \<in> set (prefix_rules config) \<longleftrightarrow> (p @ ''*'', v) \<in> set config"
  by (force simp: set_map_filter strip_suffix_Some)

lemma distinct_prefix_rules:
  assumes "distinct (map fst config)"
  shows "distinct (map fst (prefix_rules config))"
  using assms
proof (induction config)
  case (Cons kv config)
  have "p \<notin> fst ` set (prefix_rules config)" if "strip_suffix (fst kv) ''*'' = Some p" for p
  proof
    assume "p \<in> fst ` set (prefix_rules config)"
    then obtain v where "(p @ ''*'', v) \<in> set config" using prefix_rules_iff by fastforce
    with that Cons.prems show False by (force simp: strip_suffix_Some)
  qed
  with Cons show ?case by (auto simp: List.map_filter_simps case_prod_unfold split: option.split)
qed (simp add: List.map_filter_simps)

lemma sort_longest_first_props:
  "sorted (map (\<lambda>p. - int (length (fst p))) (sort_longest_first ps))"
  "set (sort_longest_first ps) = set ps"
  "distinct (map fst (sort_longest_first ps)) \<longleftrightarrow> distinct (map fst ps)"
proof -
  show "sorted (map (\<lambda>p. - int (length (fst p))) (sort_longest_first ps))"
    unfolding sort_longest_first_def by (rule sorted_sort_key)
  show "set (sort_longest_first ps) = set ps" by (simp add: sort_longest_first_def)
  have "mset (map fst (sort_longest_first ps)) = mset (map fst ps)"
    by (simp only: mset_map sort_longest_first_def mset_sort)
  then show "distinct (map fst (sort_longest_first ps)) \<longleftrightarrow> distinct (map fst ps)"
    by (metis mset_eq_imp_distinct_iff)
qed

text \<open>
  An alias configuration has one meaning: an exact alias wins, otherwise the longest matching prefix is
  replaced and the rest of the name kept, otherwise the name is unchanged; and two configurations with the
  same entries map every name alike, whatever order the hash map yields them in.
\<close>

theorem alias_mapping:
  assumes "distinct (map fst config)"
  shows "(case map_of (exact_rules config) model of
       Some target \<Rightarrow> map_model (from_config config) model = target
     | None \<Rightarrow>
         (\<forall>from to. longest (\<lambda>_. True) model (set (prefix_rules config)) (from, to) \<longrightarrow>
            map_model (from_config config) model = to @ drop (length from) model) \<and>
         ((\<forall>p \<in> set (prefix_rules config). \<not> starts_with model (fst p)) \<longrightarrow>
            map_model (from_config config) model = model)) \<and>
    (\<forall>config'. distinct (map fst config') \<and> set config' = set config \<longrightarrow>
       map_model (from_config config') model = map_model (from_config config) model)"
proof -
  note pre = sort_longest_first_props
  have one: "map_model (from_config config) model =
      (case map_of (exact_rules config) model of Some t \<Rightarrow> t | None \<Rightarrow> map_prefix (sort_longest_first (prefix_rules config)) model)"
    if "distinct (map fst config)" for config
    using from_config_exact [OF that] by (simp add: map_model_def from_config_prefixes split: option.split)
  have "map_model (from_config config') model = map_model (from_config config) model"
    if "distinct (map fst config')" "set config' = set config" for config'
  proof -
    have d: "distinct (map fst (exact_rules c))" if "distinct (map fst c)" for c
      using that by (simp add: distinct_map_filter)
    have "map_of (exact_rules config') = map_of (exact_rules config)"
      using that assms map_of_inject_set [OF d d] by auto
    moreover have "set (prefix_rules config') = set (prefix_rules config)"
      using that(2) by (simp add: List.map_filter_def)
    then have "map_prefix (sort_longest_first (prefix_rules config')) model =
        map_prefix (sort_longest_first (prefix_rules config)) model"
      using pre distinct_prefix_rules [OF that(1)] distinct_prefix_rules [OF assms] by (intro map_prefix_set) simp_all
    ultimately show ?thesis using one [OF that(1)] one [OF assms] by (simp split: option.split)
  qed
  moreover have "map_prefix (sort_longest_first (prefix_rules config)) model = to @ drop (length from) model"
    if "longest (\<lambda>_. True) model (set (prefix_rules config)) (from, to)" for "from" to
    using that pre distinct_prefix_rules [OF assms] by (intro map_prefix_longest) simp_all
  moreover have "map_prefix (sort_longest_first (prefix_rules config)) model = model"
    if "\<forall>p \<in> set (prefix_rules config). \<not> starts_with model (fst p)"
    using that pre by (intro map_prefix_none) simp
  ultimately show ?thesis using one [OF assms] by (auto split: option.splits)
qed

theorem alias_mapping_witness:
  "map_model (from_config [(''internal/*'', []), (''fast'', ''gpt-4o-mini'')]) ''internal/gpt-4o'' = ''gpt-4o''"
proof -
  let ?c = "[(''internal/*'', []), (''fast'', ''gpt-4o-mini'')]"
  have "prefix_rules ?c = [(''internal/'', [])]" by code_simp
  then have "longest (\<lambda>_. True) ''internal/gpt-4o'' (set (prefix_rules ?c)) (''internal/'', [])"
    by (simp add: longest_def starts_with_def)
  moreover have "map_of (exact_rules ?c) ''internal/gpt-4o'' = None" by code_simp
  moreover have "distinct (map fst ?c)" by simp
  ultimately show ?thesis
    using alias_mapping [THEN conjunct1, of ?c "''internal/gpt-4o''"] by (simp only: option.case simp_thms) fastforce
qed

subsection \<open>Route caps\<close>

definition caps_ok :: "RouteCaps \<Rightarrow> bool" where
  "caps_ok caps \<longleftrightarrow> rc_rpm caps \<noteq> Some 0 \<and> rc_tpm caps \<noteq> Some 0"

lemma route_counters_iff:
  "(m, c) \<in> set (route_counters caps) \<longleftrightarrow>
     (\<exists>n. (case m of Requests \<Rightarrow> rc_rpm caps | Tokens \<Rightarrow> rc_tpm caps) = Some n \<and>
        c = \<lparr>ct_key = route_counter_key (rc_route_id caps) m, ct_bucket_secs = 1, ct_max_count = int n,
             ct_charge = (case m of Requests \<Rightarrow> 1 | Tokens \<Rightarrow> 0)\<rparr>)"
proof -
  have "bucket_secs WINDOW_SECS = 1"
    by (simp add: bucket_secs_def WINDOW_SECS_def BUCKETS_PER_WINDOW_def div_toward_zero_def)
  then show ?thesis
    by (cases m; cases "rc_rpm caps"; cases "rc_tpm caps") (auto simp: route_counters_def List.map_filter_simps)
qed

lemma route_counters_ok:
  assumes "caps_ok caps"
  shows "distinct (map ct_key (map snd (route_counters caps)))" "\<forall>c \<in> set (map snd (route_counters caps)). counter_ok c"
proof -
  show "distinct (map ct_key (map snd (route_counters caps)))"
    by (simp add: route_counters_def List.map_filter_simps route_counter_key_def split: option.split)
  show "\<forall>c \<in> set (map snd (route_counters caps)). counter_ok c"
    using assms by (auto simp: route_counters_iff counter_ok_def caps_ok_def split: RateMetric.splits)
qed

text \<open>
  A capped route: an admitted request found both windows of the last minute below their caps and is
  counted once on the request counter, the token counter only being read; a capped one is told a cap that is
  reached, and changes neither window. A limiter error refuses only when it is set to fail closed.
\<close>

theorem route_admission:
  assumes "redis_laws R" and "canon_store R s" and "caps_ok caps"
    and "route_admit_at R caps fail_closed now s = (s', res)"
  shows "case res of
      Inr Admitted \<Rightarrow>
        (\<forall>(m, c) \<in> set (route_counters caps). cwin R s c (now div 1000) < ct_max_count c \<and>
           cwin R s' c (now div 1000) = cwin R s c (now div 1000) + (if m = Requests then 1 else 0)) \<or>
        (\<not> fail_closed \<and> s' = s)
    | Inr (Capped lab secs) \<Rightarrow>
        0 < secs \<and> (\<exists>(m, c) \<in> set (route_counters caps). lab = route_label m \<and>
          ct_max_count c \<le> cwin R s c (now div 1000)) \<and>
        (\<forall>(m, c) \<in> set (route_counters caps). cwin R s' c (now div 1000) = cwin R s c (now div 1000))
    | Inl e \<Rightarrow> fail_closed \<and> s' = s"
proof (cases "route_counters caps = []")
  case True
  with assms(4) show ?thesis by (auto simp: route_admit_at_def)
next
  case False
  obtain s1 r1 where adm: "admit_counters_at R (map snd (route_counters caps)) now s = (s1, r1)" by fastforce
  note ok = route_counters_ok [OF assms(3)]
  show ?thesis
  proof (cases r1)
    case (Inl e)
    from adm Inl False have "s1 = s"
      by (auto simp: admit_counters_at_def split: prod.splits sum.splits dest: run_Inl)
    with assms(4) adm Inl False show ?thesis by (auto simp: route_admit_at_def split: if_splits)
  next
    case (Inr out)
    note w = redis_laws.admit_windows [OF assms(1,2) ok adm [unfolded Inr]]
    have ch: "charged c = (if m = Requests then 1 else 0)" if "(m, c) \<in> set (route_counters caps)" for m c
      using that by (auto simp: route_counters_iff charged_def split: RateMetric.splits)
    show ?thesis
    proof (cases "allowed out")
      case True
      with assms(4) adm Inr False have "res = Inr Admitted" "s' = s1" by (auto simp: route_admit_at_def)
      with w True ch show ?thesis by fastforce
    next
      case refused: False
      from assms(4) adm Inr False refused obtain m where res: "s' = s1" "res = Inr (Capped (route_label m) (retry_after out))"
        and m: "m = (case Option.bind (exceeded_index out) (nth_opt (route_counters caps)) of None \<Rightarrow> Requests | Some (m, _) \<Rightarrow> m)"
        by (auto simp: route_admit_at_def Let_def)
      obtain j where j: "exceeded_index out = Some j" "j < length (map snd (route_counters caps))"
        "is_full R s now (map snd (route_counters caps) ! j)" "0 < retry_after out"
        using redis_laws.admit_refused_index [OF assms(1,2) ok adm [unfolded Inr] refused] by metis
      let ?mc = "route_counters caps ! j"
      have mc: "?mc \<in> set (route_counters caps)" using j(2) by simp
      have "m = fst ?mc" using m j(1,2) by (simp add: nth_opt_def case_prod_unfold)
      moreover have "ct_max_count (snd ?mc) \<le> cwin R s (snd ?mc) (now div 1000)"
        using j(2,3) by (simp add: is_full_def)
      ultimately have "\<exists>(m', c) \<in> set (route_counters caps). route_label m = route_label m' \<and>
          ct_max_count c \<le> cwin R s c (now div 1000)" using mc by (intro bexI [OF _ mc]) (simp add: case_prod_unfold)
      moreover have "\<forall>(m, c) \<in> set (route_counters caps). cwin R s1 c (now div 1000) = cwin R s c (now div 1000)"
        using w refused by fastforce
      ultimately show ?thesis using res j(4) by simp
    qed
  qed
qed

theorem route_admission_witness:
  "(case snd (route_admit_at mem_redis \<lparr>rc_route_id = uuid_nil, rc_rpm = Some 1, rc_tpm = None\<rparr> True 100500 demo_empty) of
      Inr Admitted \<Rightarrow> cwin mem_redis demo_empty \<lparr>ct_key = route_counter_key uuid_nil Requests, ct_bucket_secs = 1,
         ct_max_count = 1, ct_charge = 1\<rparr> 100 < 1
    | _ \<Rightarrow> False)"
proof -
  let ?caps = "\<lparr>rc_route_id = uuid_nil, rc_rpm = Some 1, rc_tpm = None\<rparr>"
  let ?c = "\<lparr>ct_key = route_counter_key uuid_nil Requests, ct_bucket_secs = 1, ct_max_count = 1, ct_charge = 1\<rparr>"
  obtain s' res where r: "route_admit_at mem_redis ?caps True 100500 demo_empty = (s', res)" by fastforce
  have "snd (route_admit_at mem_redis ?caps True 100500 demo_empty) = Inr Admitted" by code_simp
  moreover have "(Requests, ?c) \<in> set (route_counters ?caps)" by (simp add: route_counters_iff)
  ultimately show ?thesis
    using route_admission [OF mem.redis_laws_axioms demo_canon(1) _ r] r by (auto simp: caps_ok_def)
qed

abbreviation skip_all :: "(uuid \<times> string \<times> nat) list \<Rightarrow> CappedRoutes \<Rightarrow> CappedRoutes" where
  "skip_all xs c \<equiv> fold (\<lambda>x. CappedRoutes_add (fst x) (fst (snd x)) (snd (snd x))) xs c"

lemma skip_all_soonest:
  assumes "cr_soonest c = Some (l0, n0)"
  shows "\<exists>l n. cr_soonest (skip_all xs c) = Some (l, n) \<and> ((l, n) = (l0, n0) \<or> (l, n) \<in> set (map snd xs)) \<and>
    n \<le> n0 \<and> (\<forall>x \<in> set xs. n \<le> snd (snd x))"
  using assms
proof (induction xs arbitrary: c l0 n0)
  case (Cons x xs)
  obtain l1 n1 where one: "cr_soonest (CappedRoutes_add (fst x) (fst (snd x)) (snd (snd x)) c) = Some (l1, n1)"
    and cs: "(l1, n1) = (l0, n0) \<or> (l1, n1) = snd x" "n1 \<le> n0" "n1 \<le> snd (snd x)"
  proof (cases "snd (snd x) < n0")
    case True
    with Cons.prems that [of "fst (snd x)" "snd (snd x)"] show ?thesis by (simp add: CappedRoutes_add_def)
  next
    case False
    with Cons.prems that [of l0 n0] show ?thesis by (simp add: CappedRoutes_add_def)
  qed
  from Cons.IH [OF one] obtain l n where ln: "cr_soonest (skip_all (x # xs) c) = Some (l, n)"
      "(l, n) = (l1, n1) \<or> (l, n) \<in> set (map snd xs)" "n \<le> n1" "\<forall>y \<in> set xs. n \<le> snd (snd y)"
    by (auto simp only: fold_simps)
  from ln(2) cs(1) have "(l, n) = (l0, n0) \<or> (l, n) \<in> set (map snd (x # xs))" by auto
  moreover from ln(3,4) cs(2,3) have "n \<le> n0" "\<forall>y \<in> set (x # xs). n \<le> snd (snd y)" by auto
  ultimately show ?case using ln(1) by blast
qed simp

text \<open>
  When every candidate is at its cap, the refusal is the one that frees first: skipping routes remembers
  each of them, refuses exactly when at least one was skipped, and then names the cap with the least wait of
  all the skipped routes.
\<close>

theorem capped_refusal_is_soonest:
  "cr_routes (skip_all xs CappedRoutes_default) = map fst xs \<and>
   (case CappedRoutes_refusal (skip_all xs CappedRoutes_default) of
      None \<Rightarrow> xs = []
    | Some e \<Rightarrow> \<exists>l n. e = rate_limited l n \<and> (l, n) \<in> set (map snd xs) \<and> (\<forall>x \<in> set xs. n \<le> snd (snd x)))"
proof
  have "cr_routes (skip_all xs c) = cr_routes c @ map fst xs" for c
    by (induction xs arbitrary: c) (simp_all add: CappedRoutes_add_def)
  then show "cr_routes (skip_all xs CappedRoutes_default) = map fst xs" by (simp add: CappedRoutes_default_def)
  show "case CappedRoutes_refusal (skip_all xs CappedRoutes_default) of
      None \<Rightarrow> xs = []
    | Some e \<Rightarrow> \<exists>l n. e = rate_limited l n \<and> (l, n) \<in> set (map snd xs) \<and> (\<forall>x \<in> set xs. n \<le> snd (snd x))"
  proof (cases xs)
    case Nil
    then show ?thesis by (simp add: CappedRoutes_refusal_def CappedRoutes_default_def)
  next
    case (Cons x ys)
    have "cr_soonest (CappedRoutes_add (fst x) (fst (snd x)) (snd (snd x)) CappedRoutes_default) = Some (snd x)"
      by (simp add: CappedRoutes_add_def CappedRoutes_default_def)
    then have "cr_soonest (CappedRoutes_add (fst x) (fst (snd x)) (snd (snd x)) CappedRoutes_default) =
        Some (fst (snd x), snd (snd x))" by simp
    from skip_all_soonest [OF this, of ys] obtain l n where
        "cr_soonest (skip_all ys (CappedRoutes_add (fst x) (fst (snd x)) (snd (snd x)) CappedRoutes_default)) = Some (l, n)"
        and ln: "(l, n) = snd x \<or> (l, n) \<in> set (map snd ys)" "n \<le> snd (snd x)" "\<forall>y \<in> set ys. n \<le> snd (snd y)"
      by (auto simp only: prod.collapse)
    then have "CappedRoutes_refusal (skip_all xs CappedRoutes_default) = Some (rate_limited l n)"
      using Cons by (simp add: CappedRoutes_refusal_def)
    moreover have "(l, n) \<in> set (map snd xs)" "\<forall>y \<in> set xs. n \<le> snd (snd y)" using ln Cons by auto
    ultimately show ?thesis by auto
  qed
qed

theorem capped_refusal_is_soonest_witness:
  "(case CappedRoutes_refusal (skip_all [(uuid_nil, ''a'', 9), (uuid_nil, ''b'', 4)] CappedRoutes_default) of
      None \<Rightarrow> False | Some e \<Rightarrow> \<exists>l n. e = rate_limited l n \<and> n \<le> 4)"
  using capped_refusal_is_soonest [of "[(uuid_nil, ''a'', 9), (uuid_nil, ''b'', 4)]"]
  by (auto split: option.splits)

end
