(* ===== verification/Budget.thy ===== *)
theory Budget
  imports Sliding
begin

section \<open>Calendar budgets and usage counters\<close>

text \<open>
  \<^verbatim>\<open>crates/common/src/limits/budget.rs\<close> and \<^verbatim>\<open>usage.rs\<close>: one Redis counter per subject and calendar
  period for the weighted-token budgets, one hash per subject and period for the usage figures.

  Instants are milliseconds since the epoch. The calendar is the third-party crate \<^verbatim>\<open>chrono\<close>: a record
  of the functions the sources call, on instants and on day numbers. \<open>chrono_ok\<close> says what the code
  relies on of it.
\<close>

subsection \<open>The calendar\<close>

record chrono =
  fmt_ymd :: "int \<Rightarrow> string"
  fmt_ym :: "int \<Rightarrow> string"
  iso_year :: "int \<Rightarrow> int"
  iso_week :: "int \<Rightarrow> int"
  date_naive :: "int \<Rightarrow> int"
  num_days_from_monday :: "int \<Rightarrow> int"
  first_of_month :: "int \<Rightarrow> int"
  add_month :: "int \<Rightarrow> int"
  midnight_utc :: "int \<Rightarrow> int"

definition zero_pad :: "nat \<Rightarrow> int \<Rightarrow> string" where
  "zero_pad w i =
     (let digits = show_nat (nat \<bar>i\<bar>); sign = (if i < 0 then ''-'' else [])
      in sign @ replicate (w - length sign - length digits) CHR ''0'' @ digits)"

definition bucket_id :: "chrono \<Rightarrow> string \<Rightarrow> int \<Rightarrow> string" where
  "bucket_id C period now =
     (if period = ''daily'' then fmt_ymd C now
      else if period = ''weekly'' then zero_pad 4 (iso_year C now) @ ''-W'' @ zero_pad 2 (iso_week C now)
      else if period = ''monthly'' then fmt_ym C now
      else fmt_ym C now)"

definition period_end :: "chrono \<Rightarrow> BudgetPeriod \<Rightarrow> int \<Rightarrow> int" where
  "period_end C period now =
     (let today = date_naive C now;
          first_day_after =
            (case period of
               Daily \<Rightarrow> today + 1
             | Weekly \<Rightarrow> today + (7 - num_days_from_monday C today)
             | Monthly \<Rightarrow> add_month C (first_of_month C today))
      in midnight_utc C first_day_after)"

definition secs_until_period_end :: "chrono \<Rightarrow> BudgetPeriod \<Rightarrow> int \<Rightarrow> nat" where
  "secs_until_period_end C period now = retry_after_secs (period_end C period now - now)"

definition period_ttl_secs :: "string \<Rightarrow> int" where
  "period_ttl_secs period =
     (if period = ''daily'' then 2 * 86400
      else if period = ''weekly'' then 2 * 7 * 86400
      else if period = ''monthly'' then 2 * 31 * 86400
      else 31 * 86400)"

definition build_key :: "chrono \<Rightarrow> string \<Rightarrow> uuid \<Rightarrow> string \<Rightarrow> int \<Rightarrow> string" where
  "build_key C kind sid period now =
     ''budget:'' @ kind @ '':'' @ sid @ '':'' @ period @ '':'' @ bucket_id C period now"

subsection \<open>Thresholds\<close>

definition ALERT_THRESHOLDS_PCT :: "int list" where
  "ALERT_THRESHOLDS_PCT = [50, 80, 95, 100]"

definition threshold :: "int \<Rightarrow> int \<Rightarrow> int" where
  "threshold limit pct = div_toward_zero (limit * pct) 100"

definition crossed_thresholds :: "int \<Rightarrow> int \<Rightarrow> int \<Rightarrow> int list" where
  "crossed_thresholds prev new limit =
     (if limit \<le> 0 \<or> new \<le> prev then []
      else filter (\<lambda>pct. prev < threshold limit pct \<and> threshold limit pct \<le> new) ALERT_THRESHOLDS_PCT)"

subsection \<open>Reading and debiting\<close>

record CapStatus =
  cs_cap_id :: uuid
  cs_subject_kind :: BudgetSubject
  cs_subject_id :: uuid
  cs_current :: int
  cs_limit :: int

record BudgetCrossing =
  cx_cap_id :: uuid
  cx_subject_kind :: string
  cx_subject_id :: uuid
  cx_period :: string
  cx_threshold_pct :: int
  cx_limit_tokens :: int
  cx_current_tokens :: int

definition cap_key :: "chrono \<Rightarrow> BudgetCap \<Rightarrow> int \<Rightarrow> string" where
  "cap_key C cap now =
     build_key C (BudgetSubject_as_str (bc_subject_kind cap)) (bc_subject_id cap)
       (BudgetPeriod_as_str (bc_period cap)) now"

definition spend :: "'s redis \<Rightarrow> chrono \<Rightarrow> BudgetCap \<Rightarrow> int \<Rightarrow> 's \<Rightarrow> string + int" where
  "spend R C cap now s =
     (let key = cap_key C cap now in
      case call_err R s [key] of
        Some e \<Rightarrow> Inl e
      | None \<Rightarrow> Inr (unwrap_or (get_int R s key) 0))"

definition cap_status :: "BudgetCap \<Rightarrow> int \<Rightarrow> CapStatus" where
  "cap_status cap current =
     \<lparr>cs_cap_id = bc_id cap, cs_subject_kind = bc_subject_kind cap, cs_subject_id = bc_subject_id cap,
      cs_current = current, cs_limit = bc_limit_tokens cap\<rparr>"

fun read_spend :: "'s redis \<Rightarrow> chrono \<Rightarrow> BudgetCap list \<Rightarrow> int \<Rightarrow> 's \<Rightarrow> string + CapStatus list" where
  "read_spend R C [] now s = Inr []"
| "read_spend R C (cap # caps) now s =
     (case spend R C cap now s of
        Inl e \<Rightarrow> Inl e
      | Inr n \<Rightarrow>
          (case read_spend R C caps now s of
             Inl e \<Rightarrow> Inl e
           | Inr out \<Rightarrow> Inr (cap_status cap n # out)))"

text \<open>\<^verbatim>\<open>current_spend\<close> is the same loop at the clock's own now, read once.\<close>

definition current_spend :: "'s redis \<Rightarrow> chrono \<Rightarrow> BudgetCap list \<Rightarrow> int \<Rightarrow> 's \<Rightarrow> string + CapStatus list" where
  "current_spend R C caps now s = read_spend R C caps now s"

definition crossing :: "BudgetCap \<Rightarrow> int \<Rightarrow> int \<Rightarrow> BudgetCrossing" where
  "crossing cap new_total pct =
     \<lparr>cx_cap_id = bc_id cap, cx_subject_kind = BudgetSubject_as_str (bc_subject_kind cap),
      cx_subject_id = bc_subject_id cap, cx_period = BudgetPeriod_as_str (bc_period cap),
      cx_threshold_pct = pct, cx_limit_tokens = bc_limit_tokens cap, cx_current_tokens = new_total\<rparr>"

text \<open>
  The loop body of \<^verbatim>\<open>add_weighted_tokens\<close>: the script increments and sets the expiry, or fails as a
  whole, and a cap whose script failed is passed over.
\<close>

definition add_cap ::
  "'s redis \<Rightarrow> chrono \<Rightarrow> int \<Rightarrow> int \<Rightarrow> BudgetCap \<Rightarrow> 's \<times> CapStatus list \<times> BudgetCrossing list \<Rightarrow>
   's \<times> CapStatus list \<times> BudgetCrossing list" where
  "add_cap R C weighted_tokens now cap acc =
     (case acc of (s, out, crossings) \<Rightarrow>
        let key = cap_key C cap now in
        case call_err R s [key] of
          Some e \<Rightarrow> (s, out, crossings)
        | None \<Rightarrow>
            let s' = expire R key (period_ttl_secs (BudgetPeriod_as_str (bc_period cap)))
                       (incrby R key weighted_tokens s);
                new_total = unwrap_or (get_int R (incrby R key weighted_tokens s) key) 0;
                prev_total = new_total - weighted_tokens
            in (s', out @ [cap_status cap new_total],
                crossings @ map (crossing cap new_total)
                  (crossed_thresholds prev_total new_total (bc_limit_tokens cap))))"

definition add_weighted_tokens ::
  "'s redis \<Rightarrow> chrono \<Rightarrow> BudgetCap list \<Rightarrow> int \<Rightarrow> int \<Rightarrow> 's \<Rightarrow> 's \<times> CapStatus list \<times> BudgetCrossing list" where
  "add_weighted_tokens R C caps weighted_tokens now s =
     (if caps = [] \<or> weighted_tokens \<le> 0 then (s, [], [])
      else fold (add_cap R C weighted_tokens now) caps (s, [], []))"

subsection \<open>Usage\<close>

definition DAY_TTL_SECS :: int where
  "DAY_TTL_SECS = 2 * 86400"

definition MONTH_TTL_SECS :: int where
  "MONTH_TTL_SECS = 2 * 31 * 86400"

record UsageCounts =
  requests_today :: int
  tokens_today :: int
  requests_month :: int
  tokens_month :: int

datatype UsageSubject = UsageUser | UsageApiKeyLineage uuid

definition usage_keys :: "chrono \<Rightarrow> uuid \<Rightarrow> UsageSubject \<Rightarrow> int \<Rightarrow> string list" where
  "usage_keys C own subject now =
     (let (kind, i) = (case subject of UsageUser \<Rightarrow> (''user'', own)
                       | UsageApiKeyLineage lineage \<Rightarrow> (''api_key_lineage'', lineage))
      in map (\<lambda>period. ''usage:{user:'' @ own @ ''}:'' @ kind @ '':'' @ i @ '':'' @ period @ '':'' @
                bucket_id C period now) [''daily'', ''monthly''])"

text \<open>\<^verbatim>\<open>LUA_ADD\<close>, its key index \<open>i\<close> counting from one.\<close>

fun lua_add :: "'s redis \<Rightarrow> nat \<Rightarrow> string list \<Rightarrow> string \<Rightarrow> int \<Rightarrow> 's \<Rightarrow> 's" where
  "lua_add R i [] field amount s = s"
| "lua_add R i (k # ks) field amount s =
     lua_add R (Suc i) ks field amount
       (expire R k (if i mod 2 = 1 then DAY_TTL_SECS else MONTH_TTL_SECS) (hincrby R k field amount s))"

definition usage_add ::
  "'s redis \<Rightarrow> chrono \<Rightarrow> uuid \<Rightarrow> uuid \<Rightarrow> string \<Rightarrow> int \<Rightarrow> int \<Rightarrow> 's \<Rightarrow> 's \<times> (string + unit)" where
  "usage_add R C own lineage field amount now s =
     (if amount \<le> 0 then (s, Inr ())
      else let hashes = usage_keys C own (UsageApiKeyLineage lineage) now @ usage_keys C own UsageUser now
           in case call_err R s hashes of
                Some e \<Rightarrow> (s, Inl e)
              | None \<Rightarrow> (lua_add R 1 hashes field amount s, Inr ()))"

definition record_request :: "'s redis \<Rightarrow> chrono \<Rightarrow> uuid \<Rightarrow> uuid \<Rightarrow> int \<Rightarrow> 's \<Rightarrow> 's \<times> (string + unit)" where
  "record_request R C own lineage now s = usage_add R C own lineage ''requests'' 1 now s"

definition record_tokens ::
  "'s redis \<Rightarrow> chrono \<Rightarrow> uuid \<Rightarrow> uuid \<Rightarrow> int \<Rightarrow> int \<Rightarrow> 's \<Rightarrow> 's \<times> (string + unit)" where
  "record_tokens R C own lineage weighted_tokens now s =
     usage_add R C own lineage ''tokens'' weighted_tokens now s"

definition usage_read ::
  "'s redis \<Rightarrow> chrono \<Rightarrow> uuid \<Rightarrow> UsageSubject \<Rightarrow> int \<Rightarrow> 's \<Rightarrow> string + UsageCounts" where
  "usage_read R C own subject now s =
     (let day = usage_keys C own subject now ! 0; month = usage_keys C own subject now ! 1 in
      case call_err R s [day] of
        Some e \<Rightarrow> Inl e
      | None \<Rightarrow>
          (case call_err R s [month] of
             Some e \<Rightarrow> Inl e
           | None \<Rightarrow>
               Inr \<lparr>requests_today = hfield R s day ''requests'', tokens_today = hfield R s day ''tokens'',
                    requests_month = hfield R s month ''requests'', tokens_month = hfield R s month ''tokens''\<rparr>))"

end
