(* ===== verification/Lifecycle.thy ===== *)
theory Lifecycle
  imports Budget Route_Caps Limits_Policy
begin

section \<open>The request lifecycle\<close>

text \<open>
  \<^verbatim>\<open>crates/common/src/lifecycle/\<close>: the pre-call stages \<^verbatim>\<open>check_budget\<close>, \<^verbatim>\<open>check_access\<close>, \<^verbatim>\<open>check_limits\<close> and the
  post-call orchestration; and their two callers in the AI gateway, \<^verbatim>\<open>run_preflight_stages\<close>
  (\<^verbatim>\<open>proxy/pipeline.rs\<close>) and \<^verbatim>\<open>post_flight_account\<close> (\<^verbatim>\<open>proxy/accounting.rs\<close>).

  The trait \<^verbatim>\<open>Surface\<close> is a record of its functions, over an identity \<open>'i\<close> and a response \<open>'r\<close>. The world
  is the Redis state and the audit log so far; an audit row keeps what the stages put on it. A stage that
  short-circuits returns \<open>Inl\<close> of the response. Every read of the clock is an argument, in milliseconds.
  Metrics and tracing are left out. \<open>weighted\<close> is the result of \<^verbatim>\<open>weight::weighted_tokens\<close>, which computes in
  floating point.
\<close>

subsection \<open>States\<close>

record 'i AuditRow =
  au_identity :: 'i
  au_action :: string
  au_trace_id :: string
  au_detail :: json

record ('i, 'r) hooks =
  is_access_allowed :: "'i \<Rightarrow> string \<Rightarrow> bool"
  access_denied_response :: "string \<Rightarrow> 'r"
  rate_limited_response :: "string \<Rightarrow> nat \<Rightarrow> 'r"
  rate_limiter_unavailable_response :: 'r
  budget_exceeded_response :: "string \<Rightarrow> nat \<Rightarrow> 'r"
  budget_unavailable_response :: 'r

record ('s, 'i) world =
  w_redis :: 's
  w_audit :: "'i AuditRow list"

record 'i Raw =
  identity :: 'i
  trace_id :: string
  started_at :: int
  client_ip :: "string option"

record 'i AccessChecked = "'i Raw" +
  access_candidate :: string

record LimitCheckRecord =
  lc_currents :: "int list"

record 'i Authorized = "'i AccessChecked" +
  limit_check :: LimitCheckRecord

definition log_row :: "'i \<Rightarrow> string \<Rightarrow> string \<Rightarrow> json \<Rightarrow> ('s, 'i) world \<Rightarrow> ('s, 'i) world" where
  "log_row i act tr det w =
     w\<lparr>w_audit := w_audit w @ [\<lparr>au_identity = i, au_action = act, au_trace_id = tr, au_detail = det\<rparr>]\<rparr>"

subsection \<open>Before the call\<close>

definition budget_label :: "BudgetCap \<Rightarrow> string" where
  "budget_label cap =
     BudgetSubject_as_str (bc_subject_kind cap) @ '':budget/'' @ BudgetPeriod_as_str (bc_period cap)"

text \<open>\<^verbatim>\<open>Iterator::max_by_key\<close>: the last of the greatest.\<close>

fun max_by_key :: "('a \<Rightarrow> nat) \<Rightarrow> 'a list \<Rightarrow> 'a option" where
  "max_by_key f [] = None"
| "max_by_key f (x # xs) =
     (case max_by_key f xs of
        None \<Rightarrow> Some x
      | Some y \<Rightarrow> if f x \<le> f y then Some y else Some x)"

definition spent_caps :: "chrono \<Rightarrow> BudgetCap list \<Rightarrow> CapStatus list \<Rightarrow> int \<Rightarrow> (BudgetCap \<times> CapStatus \<times> nat) list" where
  "spent_caps C caps statuses now =
     map (\<lambda>(cap, st). (cap, st, secs_until_period_end C (bc_period cap) now))
       (filter (\<lambda>(cap, st). cs_limit st \<le> cs_current st) (zip caps statuses))"

definition check_budget ::
  "'s redis \<Rightarrow> chrono \<Rightarrow> ('i, 'r) hooks \<Rightarrow> 'i Raw \<Rightarrow> BudgetCap list \<Rightarrow> int \<times> int \<Rightarrow> bool \<Rightarrow>
   ('s, 'i) world \<Rightarrow> ('s, 'i) world \<times> ('r + 'i Raw)" where
  "check_budget R C S st caps ts fail_closed w =
     (if caps = [] then (w, Inr st)
      else case current_spend R C caps (fst ts) (w_redis w) of
             Inl e \<Rightarrow>
               if fail_closed then
                 (log_row (identity st) ''budget_unavailable'' (trace_id st) JNull w,
                  Inl (budget_unavailable_response S))
               else (w, Inr st)
           | Inr statuses \<Rightarrow>
               (case max_by_key (\<lambda>(_, _, wait). wait) (spent_caps C caps statuses (snd ts)) of
                  Some (cap, status, wait) \<Rightarrow>
                    (log_row (identity st) ''budget_exceeded'' (trace_id st)
                       (JObject [(''limit'', JString (budget_label cap)),
                                 (''current'', JNumber (show_int (cs_current status))),
                                 (''max'', JNumber (show_int (cs_limit status))),
                                 (''retry_after_secs'', JNumber (show_nat wait))]) w,
                     Inl (budget_exceeded_response S (budget_label cap) wait))
                | None \<Rightarrow> (w, Inr st)))"

definition check_access ::
  "('i, 'r) hooks \<Rightarrow> 'i Raw \<Rightarrow> string \<Rightarrow> ('s, 'i) world \<Rightarrow> ('s, 'i) world \<times> ('r + 'i AccessChecked)" where
  "check_access S st candidate w =
     (if \<not> is_access_allowed S (identity st) candidate then
        (log_row (identity st) ''access_denied'' (trace_id st) (JObject [(''subject'', JString candidate)]) w,
         Inl (access_denied_response S candidate))
      else (w, Inr \<lparr>identity = identity st, trace_id = trace_id st, started_at = started_at st,
                    client_ip = client_ip st, access_candidate = candidate\<rparr>))"

definition authorize :: "'i AccessChecked \<Rightarrow> int list \<Rightarrow> 'i Authorized" where
  "authorize st cur =
     \<lparr>identity = identity st, trace_id = trace_id st, started_at = started_at st, client_ip = client_ip st,
      access_candidate = access_candidate st, limit_check = \<lparr>lc_currents = cur\<rparr>\<rparr>"

definition check_limits ::
  "'s redis \<Rightarrow> ('i, 'r) hooks \<Rightarrow> 'i AccessChecked \<Rightarrow> RateLimitRule list \<Rightarrow> uuid \<Rightarrow> int \<Rightarrow> bool \<Rightarrow>
   ('s, 'i) world \<Rightarrow> ('s, 'i) world \<times> ('r + 'i Authorized)" where
  "check_limits R S st rs own now fail_closed w =
     (if rs = [] then (w, Inr (authorize st []))
      else case admit_at R rs own now (\<not> fail_closed) (w_redis w) of
             (s', Inl e) \<Rightarrow>
               (log_row (identity st) ''rate_limiter_unavailable'' (trace_id st) JNull (w\<lparr>w_redis := s'\<rparr>),
                Inl (rate_limiter_unavailable_response S))
           | (s', Inr outcome) \<Rightarrow>
               if \<not> allowed outcome then
                 (let lab = unwrap_or (map_option rate_label (Option.bind (exceeded_index outcome) (nth_opt rs))) ''rate limit''
                  in (log_row (identity st) ''rate_limited'' (trace_id st)
                        (JObject [(''limit'', JString lab),
                                  (''retry_after_secs'', JNumber (show_nat (retry_after outcome)))])
                        (w\<lparr>w_redis := s'\<rparr>),
                      Inl (rate_limited_response S lab (retry_after outcome))))
               else (w\<lparr>w_redis := s'\<rparr>, Inr (authorize st (currents outcome))))"

subsection \<open>The AI gateway's preflight\<close>

record AiIdentity =
  ai_user_id :: "string option"
  ai_key_lineage :: "string option"
  ai_constraints :: SurfaceConstraints
  ai_key_constraints :: SurfaceConstraints
  ai_ip :: "string option"

text \<open>\<open>parse_str\<close> is \<^verbatim>\<open>Uuid::parse_str\<close>.\<close>

definition limits_for_ai_gateway :: "(string \<Rightarrow> uuid option) \<Rightarrow> AiIdentity \<Rightarrow> RequestLimits" where
  "limits_for_ai_gateway parse_str i =
     (case Option.bind (ai_user_id i) parse_str of
        None \<Rightarrow> \<lparr>rq_owner = uuid_nil, rq_key_lineage = None, rq_rules = [], rq_caps = []\<rparr>
      | Some user \<Rightarrow>
          for_request AiGateway user (ai_constraints i)
            (map_option (\<lambda>l. (l, ai_key_constraints i)) (Option.bind (ai_key_lineage i) parse_str)))"

record clock =
  t_spend :: int
  t_wait :: int
  t_admit :: int
  t_usage :: int

definition run_preflight_stages ::
  "'s redis \<Rightarrow> chrono \<Rightarrow> ('i, 'r) hooks \<Rightarrow> RequestLimits \<Rightarrow> 'i Raw \<Rightarrow> string \<Rightarrow> clock \<Rightarrow> bool \<Rightarrow>
   ('s, 'i) world \<Rightarrow> ('s, 'i) world \<times> ('r + RequestLimits)" where
  "run_preflight_stages R C S limits raw model t fail_closed w =
     (case check_budget R C S raw (rq_caps limits) (t_spend t, t_wait t) fail_closed w of
        (w1, Inl r) \<Rightarrow> (w1, Inl r)
      | (w1, Inr raw') \<Rightarrow>
          (case check_access S raw' model w1 of
             (w2, Inl r) \<Rightarrow> (w2, Inl r)
           | (w2, Inr ac) \<Rightarrow>
               (case check_limits R S ac (rq_rules limits) (rq_owner limits) (t_admit t) fail_closed w2 of
                  (w3, Inl r) \<Rightarrow> (w3, Inl r)
                | (w3, Inr _) \<Rightarrow>
                    (case rq_key_lineage limits of
                       None \<Rightarrow> (w3, Inr limits)
                     | Some lineage \<Rightarrow>
                         (w3\<lparr>w_redis := fst (record_request R C (rq_owner limits) lineage (t_usage t) (w_redis w3))\<rparr>,
                          Inr limits)))))"

subsection \<open>After the call\<close>

definition record_usage_tokens :: "'s redis \<Rightarrow> chrono \<Rightarrow> RequestLimits \<Rightarrow> int \<Rightarrow> int \<Rightarrow> 's \<Rightarrow> 's" where
  "record_usage_tokens R C limits weighted now s =
     (case rq_key_lineage limits of
        None \<Rightarrow> s
      | Some lineage \<Rightarrow> fst (record_tokens R C (rq_owner limits) lineage weighted now s))"

text \<open>The crossings are returned: each becomes one \<open>budget.threshold_crossed\<close> audit row.\<close>

definition post_flight_account ::
  "'s redis \<Rightarrow> chrono \<Rightarrow> RequestLimits \<Rightarrow> RouteCaps option \<Rightarrow> int \<Rightarrow> int \<Rightarrow> 's \<Rightarrow> 's \<times> BudgetCrossing list" where
  "post_flight_account R C limits rt weighted now s =
     (if weighted \<le> 0 then (s, [])
      else let s1 = record_usage_tokens R C limits weighted now s;
               s2 = fst (record_at R (rq_rules limits) (rq_owner limits) Tokens weighted now s1);
               s3 = (case rt of None \<Rightarrow> s2 | Some caps \<Rightarrow> record_tokens_at R caps weighted now s2)
           in if rq_caps limits = [] then (s3, [])
              else case add_weighted_tokens R C (rq_caps limits) weighted now s3 of
                     (s4, statuses, crossings) \<Rightarrow> (s4, crossings))"

subsection \<open>Stream outcomes and the post-invoke order\<close>

datatype StreamOutcome = Natural | UpstreamError string string int | ClientCancelled

fun is_natural :: "StreamOutcome \<Rightarrow> bool" where
  "is_natural Natural = True"
| "is_natural _ = False"

fun logged_status_and_detail :: "StreamOutcome \<Rightarrow> int \<times> json option" where
  "logged_status_and_detail Natural = (200, None)"
| "logged_status_and_detail (UpstreamError ty msg code) =
     (code, Some (JObject [(''error_type'', JString ty), (''error_message'', JString msg),
                           (''stream_outcome'', JString ''upstream_error'')]))"
| "logged_status_and_detail ClientCancelled =
     (499, Some (JObject [(''stream_outcome'', JString ''client_cancelled'')]))"

fun metric_label :: "StreamOutcome \<Rightarrow> string" where
  "metric_label Natural = ''natural''"
| "metric_label (UpstreamError _ _ _) = ''upstream_error''"
| "metric_label ClientCancelled = ''cancelled''"

datatype ('r, 'c) CapturedView = Buffered 'r | Streaming StreamOutcome 'c

fun is_success :: "('r, 'c) CapturedView \<Rightarrow> bool" where
  "is_success (Buffered _) = True"
| "is_success (Streaming out _) = is_natural out"

record ('i, 'r, 'c) Invoked = "'i Authorized" +
  view :: "('r, 'c) CapturedView"

record ('i, 'r, 'c, 'w) post_hooks =
  record_outcome :: "('i, 'r, 'c) Invoked \<Rightarrow> 'w \<Rightarrow> 'w"
  write_cache :: "('i, 'r, 'c) Invoked \<Rightarrow> 'w \<Rightarrow> 'w"
  record_usage :: "('i, 'r, 'c) Invoked \<Rightarrow> 'w \<Rightarrow> 'w"
  emit_audit :: "('i, 'r, 'c) Invoked \<Rightarrow> 'w \<Rightarrow> 'w"

definition stage_write_cache :: "('i, 'r, 'c, 'w) post_hooks \<Rightarrow> ('i, 'r, 'c) Invoked \<Rightarrow> 'w \<Rightarrow> 'w" where
  "stage_write_cache H iv w = (if is_success (view iv) then write_cache H iv w else w)"

definition stage_emit_audit ::
  "('i, 'r, 'c, 'w) post_hooks \<Rightarrow> ('i, 'r, 'c) Invoked \<Rightarrow> 'w \<Rightarrow> 'w \<times> 'r option" where
  "stage_emit_audit H iv w =
     (emit_audit H iv w, (case view iv of Buffered r \<Rightarrow> Some r | Streaming _ _ \<Rightarrow> None))"

definition run_post_invoke ::
  "('i, 'r, 'c, 'w) post_hooks \<Rightarrow> ('i, 'r, 'c) Invoked \<Rightarrow> 'w \<Rightarrow> 'w \<times> 'r option" where
  "run_post_invoke H iv w =
     stage_emit_audit H iv (record_usage H iv (stage_write_cache H iv (record_outcome H iv w)))"

end
