(* ===== verification/Budget_Props.thy ===== *)
theory Budget_Props
  imports Budget Sliding_Props
begin

section \<open>Budgets and usage: theorems\<close>

text \<open>
  An alert threshold fires once per period, a debit is what the next read returns, a period ends
  exactly where its counter's name changes, and a request is counted on its key and its key's owner.
\<close>

subsection \<open>Alerts\<close>

lemma threshold_mono: "0 < limit \<Longrightarrow> 0 \<le> p \<Longrightarrow> p \<le> q \<Longrightarrow> threshold limit p \<le> threshold limit q"
  by (simp add: threshold_def div_toward_zero_nonneg zdiv_mono1 mult_left_mono)

lemma filter_between:
  assumes "sorted (map f xs)" "a \<le> b" "b \<le> (c :: int)"
  shows "filter (\<lambda>x. a < f x \<and> f x \<le> c) xs =
    filter (\<lambda>x. a < f x \<and> f x \<le> b) xs @ filter (\<lambda>x. b < f x \<and> f x \<le> c) xs"
  using assms
proof (induction xs)
  case (Cons x xs)
  have "filter (\<lambda>x. a < f x \<and> f x \<le> b) xs = []" if "b < f x"
    using that Cons.prems by (auto simp: filter_empty_conv)
  with Cons show ?case by auto
qed simp

lemma sorted_thresholds: "0 < limit \<Longrightarrow> sorted (map (threshold limit) ALERT_THRESHOLDS_PCT)"
  by (simp add: ALERT_THRESHOLDS_PCT_def threshold_mono)

lemma crossed_thresholds_eq:
  assumes "0 < limit" "prev \<le> new"
  shows "crossed_thresholds prev new limit =
    filter (\<lambda>p. prev < threshold limit p \<and> threshold limit p \<le> new) ALERT_THRESHOLDS_PCT"
  using assms by (auto simp: crossed_thresholds_def filter_empty_conv)

text \<open>A period of one budget: debits of some amount at some time, one after the other.\<close>

definition debit :: "'s redis \<Rightarrow> chrono \<Rightarrow> BudgetCap \<Rightarrow> int \<times> int \<Rightarrow> 's \<times> BudgetCrossing list \<Rightarrow> 's \<times> BudgetCrossing list" where
  "debit R C cap d acc =
     (case add_weighted_tokens R C [cap] (fst d) (snd d) (fst acc) of
        (s', out, cx) \<Rightarrow> (s', snd acc @ cx))"

context redis_laws
begin

lemma debit_one:
  assumes "0 < bc_limit_tokens cap" "cap_key C cap (snd d) = k" "debit R C cap d (s, cx) = (s', cx')"
  shows "unwrap_or (get_int R s k) 0 \<le> unwrap_or (get_int R s' k) 0 \<and>
    map cx_threshold_pct cx' = map cx_threshold_pct cx @
      filter (\<lambda>p. unwrap_or (get_int R s k) 0 < threshold (bc_limit_tokens cap) p \<and>
                 threshold (bc_limit_tokens cap) p \<le> unwrap_or (get_int R s' k) 0) ALERT_THRESHOLDS_PCT"
proof (cases "fst d \<le> 0 \<or> call_err R s [k] \<noteq> None")
  case True
  with assms have "s' = s" "cx' = cx"
    by (auto simp: debit_def add_weighted_tokens_def add_cap_def Let_def split: if_splits option.splits)
  then show ?thesis by (auto simp: filter_empty_conv)
next
  case False
  let ?n = "unwrap_or (get_int R s k) 0"
  from False have "0 < fst d" "call_err R s [k] = None" by auto
  then have "get_int R s' k = Some (?n + fst d)"
    and "cx' = cx @ map (crossing cap (?n + fst d)) (crossed_thresholds ?n (?n + fst d) (bc_limit_tokens cap))"
    using assms(2,3) by (auto simp: debit_def add_weighted_tokens_def add_cap_def Let_def get_expire get_incrby)
  with \<open>0 < fst d\<close> assms(1) show ?thesis
    by (simp add: crossed_thresholds_eq crossing_def comp_def)
qed

lemma debits_alert:
  assumes "0 < bc_limit_tokens cap" "\<forall>d \<in> set ds. cap_key C cap (snd d) = k" "fold (debit R C cap) ds (s, cx) = (s', cx')"
  shows "unwrap_or (get_int R s k) 0 \<le> unwrap_or (get_int R s' k) 0 \<and>
    map cx_threshold_pct cx' = map cx_threshold_pct cx @
      filter (\<lambda>p. unwrap_or (get_int R s k) 0 < threshold (bc_limit_tokens cap) p \<and>
                 threshold (bc_limit_tokens cap) p \<le> unwrap_or (get_int R s' k) 0) ALERT_THRESHOLDS_PCT"
  using assms(2,3)
proof (induction ds arbitrary: s cx)
  case Nil
  then show ?case by (auto simp: filter_empty_conv)
next
  case (Cons d ds)
  obtain s1 cx1 where one: "debit R C cap d (s, cx) = (s1, cx1)" by fastforce
  with Cons.prems have rest: "fold (debit R C cap) ds (s1, cx1) = (s', cx')" by simp
  from debit_one [OF assms(1) _ one, of k] Cons.prems Cons.IH [OF _ rest] show ?case
    using filter_between [OF sorted_thresholds [OF assms(1)],
        of "unwrap_or (get_int R s k) 0" "unwrap_or (get_int R s1 k) 0" "unwrap_or (get_int R s' k) 0"]
    by simp
qed

end

text \<open>
  An alert fires exactly once: over any run of debits to one cap within a period, failed calls
  included, the alerts raised are the thresholds that the counter's rise passed, each once and in
  ascending order. Starting a period at zero, a threshold has fired exactly when the spend has reached it.
\<close>

theorem budget_alerts_fire_once:
  assumes "redis_laws R" and "0 < bc_limit_tokens cap" and "\<forall>d \<in> set ds. cap_key C cap (snd d) = k"
    and "fold (debit R C cap) ds (s, []) = (s', cx)"
  shows "map cx_threshold_pct cx =
    filter (\<lambda>p. unwrap_or (get_int R s k) 0 < threshold (bc_limit_tokens cap) p \<and>
               threshold (bc_limit_tokens cap) p \<le> unwrap_or (get_int R s' k) 0) ALERT_THRESHOLDS_PCT"
  using redis_laws.debits_alert [OF assms] by simp

text \<open>A calendar of thirty-day months, for the witnesses.\<close>

definition demo_chrono :: chrono where
  "demo_chrono = \<lparr>
     fmt_ymd = (\<lambda>t. show_int (t div 86400000)),
     fmt_ym = (\<lambda>t. show_int (t div 86400000 div 30)),
     iso_year = (\<lambda>t. 0),
     iso_week = (\<lambda>t. (t div 86400000 + 3) div 7),
     date_naive = (\<lambda>t. t div 86400000),
     num_days_from_monday = (\<lambda>d. (d + 3) mod 7),
     first_of_month = (\<lambda>d. d div 30 * 30),
     add_month = (\<lambda>d. d + 30),
     midnight_utc = (\<lambda>d. d * 86400000)\<rparr>"

definition demo_cap :: BudgetCap where
  "demo_cap = \<lparr>bc_id = uuid_nil, bc_subject_kind = BUser, bc_subject_id = uuid_nil, bc_period = Daily,
     bc_limit_tokens = 100, bc_enabled = True, bc_expires_at = None, bc_reason = None, bc_created_by = None\<rparr>"

theorem budget_alerts_fire_once_witness:
  "map cx_threshold_pct (snd (fold (debit mem_redis demo_chrono demo_cap) [(60, 0), (25, 1000), (5, 2000)] (demo_empty, []))) =
     [50, 80]"
proof -
  let ?ds = "[(60, 0), (25, 1000), (5, 2000)] :: (int \<times> int) list"
  let ?r = "fold (debit mem_redis demo_chrono demo_cap) ?ds (demo_empty, [])"
  let ?k = "cap_key demo_chrono demo_cap 0"
  have "\<forall>d \<in> set ?ds. cap_key demo_chrono demo_cap (snd d) = ?k"
    by (simp add: cap_key_def build_key_def bucket_id_def demo_chrono_def demo_cap_def)
  from budget_alerts_fire_once [OF mem.redis_laws_axioms _ this, of demo_empty "fst ?r" "snd ?r"]
  have "map cx_threshold_pct (snd ?r) =
      filter (\<lambda>p. unwrap_or (get_int mem_redis demo_empty ?k) 0 < threshold 100 p \<and>
        threshold 100 p \<le> unwrap_or (get_int mem_redis (fst ?r) ?k) 0) ALERT_THRESHOLDS_PCT"
    by (simp add: demo_cap_def)
  also have "\<dots> = [50, 80]" by code_simp
  finally show ?thesis .
qed

subsection \<open>Debits are what reads return\<close>

lemma read_spend_Inr:
  "read_spend R C caps now s = Inr out \<Longrightarrow>
     out = map (\<lambda>cap. cap_status cap (unwrap_or (get_int R s (cap_key C cap now)) 0)) caps"
  by (induction caps arbitrary: out) (auto simp: spend_def Let_def split: sum.splits option.splits)

abbreviation counter :: "'s redis \<Rightarrow> 's \<Rightarrow> string \<Rightarrow> int" where
  "counter R s k \<equiv> unwrap_or (get_int R s k) 0"

context redis_laws
begin

lemma add_cap_cases:
  obtains (passed) "add_cap R C n now cap (s, out, cx) = (s, out, cx)"
  | (added) s' cx' where
      "add_cap R C n now cap (s, out, cx) = (s', out @ [cap_status cap (counter R s (cap_key C cap now) + n)], cx')"
      "\<And>k. get_int R s' k =
         (if k = cap_key C cap now then Some (counter R s (cap_key C cap now) + n) else get_int R s k)"
proof (cases "call_err R s [cap_key C cap now]")
  case None
  then show ?thesis
    by (intro added [where s' = "expire R (cap_key C cap now) (period_ttl_secs (BudgetPeriod_as_str (bc_period cap)))
          (incrby R (cap_key C cap now) n s)"]) (simp add: add_cap_def Let_def get_expire get_incrby)+
next
  case (Some e)
  then show ?thesis by (intro passed) (simp add: add_cap_def Let_def)
qed

lemma add_caps_spec:
  assumes "distinct (map (\<lambda>c. cap_key C c now) caps)" "0 < n"
    and "fold (add_cap R C n now) caps (s, out, cx) = (s', out', cx')"
  shows "(\<forall>k. k \<notin> set (map (\<lambda>c. cap_key C c now) caps) \<longrightarrow> get_int R s' k = get_int R s k) \<and>
    (\<forall>c \<in> set caps. counter R s' (cap_key C c now) \<in>
       {counter R s (cap_key C c now), counter R s (cap_key C c now) + n}) \<and>
    out' = out @ map (\<lambda>c. cap_status c (counter R s' (cap_key C c now)))
      (filter (\<lambda>c. counter R s' (cap_key C c now) \<noteq> counter R s (cap_key C c now)) caps)"
  using assms(1,3)
proof (induction caps arbitrary: s out cx)
  case (Cons cap caps)
  let ?k = "\<lambda>c. cap_key C c now"
  obtain s1 out1 cx1 where one: "add_cap R C n now cap (s, out, cx) = (s1, out1, cx1)" using prod_cases3 by blast
  with Cons.prems have rest: "fold (add_cap R C n now) caps (s1, out1, cx1) = (s', out', cx')" by simp
  from Cons.prems have fresh: "?k cap \<notin> set (map ?k caps)" and d: "distinct (map ?k caps)" by auto
  note IH = Cons.IH [OF d rest]
  from IH fresh have at: "get_int R s' (?k cap) = get_int R s1 (?k cap)" by blast
  have other: "get_int R s1 k = get_int R s k" if "k \<noteq> ?k cap" for k
    using that one by (cases rule: add_cap_cases [of C n now cap s out cx]) auto
  then have same: "get_int R s1 (?k c) = get_int R s (?k c)" if "c \<in> set caps" for c
    using that fresh by (metis image_eqI list.set_map)
  then have filt: "filter (\<lambda>c. counter R s' (?k c) \<noteq> counter R s1 (?k c)) caps =
      filter (\<lambda>c. counter R s' (?k c) \<noteq> counter R s (?k c)) caps"
    by (intro filter_cong) auto
  show ?case
  proof (cases rule: add_cap_cases [of C n now cap s out cx])
    case passed
    with one have "s1 = s" "out1 = out" by auto
    with IH at show ?thesis by simp
  next
    case (added s2 cx2)
    with one have "out1 = out @ [cap_status cap (counter R s (?k cap) + n)]"
      "get_int R s1 (?k cap) = Some (counter R s (?k cap) + n)" by auto
    with IH at same filt other assms(2) show ?thesis by simp
  qed
qed simp

end

text \<open>
  Debiting is exact and per cap: each cap's counter either grows by the whole amount or, when its
  call failed, stays; the statuses returned are those of the caps debited, with the totals a read now
  returns; no other counter moves.
\<close>

theorem debit_is_what_reads_return:
  assumes "redis_laws R" and "distinct (map (\<lambda>c. cap_key C c now) caps)" and "0 < n"
    and "add_weighted_tokens R C caps n now s = (s', out, cx)" and "read_spend R C caps now s' = Inr rd"
  shows "out = map fst (filter (\<lambda>x. counter R s' (cap_key C (snd x) now) \<noteq> counter R s (cap_key C (snd x) now))
      (zip rd caps)) \<and>
    (\<forall>c \<in> set caps. counter R s' (cap_key C c now) \<in>
       {counter R s (cap_key C c now), counter R s (cap_key C c now) + n}) \<and>
    (\<forall>k. k \<notin> set (map (\<lambda>c. cap_key C c now) caps) \<longrightarrow> get_int R s' k = get_int R s k)"
proof -
  have z: "zip (map f xs) xs = map (\<lambda>c. (f c, c)) xs" for f :: "BudgetCap \<Rightarrow> CapStatus" and xs
    by (induction xs) simp_all
  from assms(3,4) have "fold (add_cap R C n now) caps (s, [], []) = (s', out, cx)"
    by (auto simp: add_weighted_tokens_def split: if_splits)
  from redis_laws.add_caps_spec [OF assms(1-3) this] read_spend_Inr [OF assms(5)] show ?thesis
    by (simp add: z filter_map comp_def)
qed

theorem debit_is_what_reads_return_witness:
  "fst (snd (add_weighted_tokens mem_redis demo_chrono [demo_cap] 7 0 demo_empty)) = [cap_status demo_cap 7]"
proof -
  let ?r = "add_weighted_tokens mem_redis demo_chrono [demo_cap] 7 0 demo_empty"
  have rd: "read_spend mem_redis demo_chrono [demo_cap] 0 (fst ?r) = Inr [cap_status demo_cap 7]" by code_simp
  have "counter mem_redis (fst ?r) (cap_key demo_chrono demo_cap 0) \<noteq> counter mem_redis demo_empty (cap_key demo_chrono demo_cap 0)"
    by code_simp
  with debit_is_what_reads_return [OF mem.redis_laws_axioms, of demo_chrono 0 "[demo_cap]" 7 demo_empty "fst ?r"
      "fst (snd ?r)" "snd (snd ?r)", OF _ _ _ rd]
  show ?thesis by simp
qed

subsection \<open>Where a period ends\<close>

text \<open>
  What the code relies on of \<^verbatim>\<open>chrono\<close> in UTC: days are 86400 seconds and 1970-01-01 is a Thursday; a
  date's text names the date, a year and month the month, an ISO year and week the week that starts on
  its Monday; the first of the month starts a run of days with that same first, up to the next first.
\<close>

definition chrono_ok :: "chrono \<Rightarrow> bool" where
  "chrono_ok C \<longleftrightarrow>
     (\<forall>t. date_naive C t = t div 86400000) \<and>
     (\<forall>d. midnight_utc C d = d * 86400000) \<and>
     (\<forall>d. num_days_from_monday C d = (d + 3) mod 7) \<and>
     (\<forall>t t'. fmt_ymd C t = fmt_ymd C t' \<longleftrightarrow> date_naive C t = date_naive C t') \<and>
     (\<forall>t t'. fmt_ym C t = fmt_ym C t' \<longleftrightarrow>
        first_of_month C (date_naive C t) = first_of_month C (date_naive C t')) \<and>
     (\<forall>t t'. iso_year C t = iso_year C t' \<and> iso_week C t = iso_week C t' \<longleftrightarrow>
        date_naive C t - num_days_from_monday C (date_naive C t) =
        date_naive C t' - num_days_from_monday C (date_naive C t')) \<and>
     (\<forall>d e. first_of_month C e = first_of_month C d \<longleftrightarrow>
        first_of_month C d \<le> e \<and> e < add_month C (first_of_month C d))"

lemma parse_digits_zeros: "parse_digits 0 (replicate n CHR ''0'' @ ds) = parse_digits 0 ds"
  by (induction n) (simp_all add: digit_val_def)

lemma parse_int_zero_pad: "parse_int (zero_pad w i) = Some i"
proof -
  have pn: "parse_nat (replicate n CHR ''0'' @ show_nat m) = Some m" for n m
    by (simp add: parse_nat_def parse_digits_zeros parse_digits_show_nat)
  have "parse_int (replicate n CHR ''0'' @ show_nat m) = Some (int m)" for n m
  proof (cases "replicate n CHR ''0'' @ show_nat m")
    case (Cons c cs)
    then have "c \<in> set (replicate n CHR ''0'' @ show_nat m)" by simp
    then have "c \<noteq> CHR ''-''" "c \<noteq> CHR ''+''" using show_nat_char by auto
    with Cons pn [of n m] show ?thesis by (simp add: parse_int_def)
  qed simp
  then show ?thesis
    by (cases "i < 0") (simp_all add: zero_pad_def Let_def, simp add: parse_int_def pn)
qed

lemma digit_char_not_W: "d < 10 \<Longrightarrow> digit_char d \<noteq> CHR ''W''"
proof
  assume "d < 10" "digit_char d = CHR ''W''"
  then have "48 + d = of_char CHR ''W''" by (simp add: digit_char_def flip: \<open>digit_char d = CHR ''W''\<close>)
  with \<open>d < 10\<close> show False by simp
qed

lemma zero_pad_no_W: "CHR ''W'' \<notin> set (zero_pad w i)"
  using show_nat_digits [of "nat \<bar>i\<bar>"] digit_char_not_W by (fastforce simp: zero_pad_def Let_def)

lemma weekly_id_eq:
  "zero_pad 4 y @ ''-W'' @ zero_pad 2 w = zero_pad 4 y' @ ''-W'' @ zero_pad 2 w' \<longleftrightarrow> y = y' \<and> w = w'"
proof -
  have "zero_pad 4 y @ ''-W'' @ zero_pad 2 w = (zero_pad 4 y @ ''-'') @ CHR ''W'' # zero_pad 2 w" for y w by simp
  then have "zero_pad 4 y @ ''-W'' @ zero_pad 2 w = zero_pad 4 y' @ ''-W'' @ zero_pad 2 w' \<longleftrightarrow>
      zero_pad 4 y @ ''-'' = zero_pad 4 y' @ ''-'' \<and> zero_pad 2 w = zero_pad 2 w'"
    using append_sep_inj [of "CHR ''W''" "zero_pad 4 y @ ''-''" "zero_pad 4 y' @ ''-''"] zero_pad_no_W by simp
  also have "\<dots> \<longleftrightarrow> y = y' \<and> w = w'"
    using parse_int_zero_pad by (metis append_same_eq option.inject)
  finally show ?thesis .
qed

lemma same_monday: "(d :: int) - (d + 3) mod 7 = e - (e + 3) mod 7 \<longleftrightarrow> (d + 3) div 7 = (e + 3) div 7"
  using div_mult_mod_eq [of "d + 3" 7] div_mult_mod_eq [of "e + 3" 7] by linarith

lemma ms_day: "t < d * 86400000 \<longleftrightarrow> t div 86400000 < (d :: int)"
proof -
  define q r where "q = t div 86400000" and "r = t mod 86400000"
  have "t = q * 86400000 + r" "0 \<le> r" "r < 86400000" by (simp_all add: q_def r_def)
  then show ?thesis unfolding q_def [symmetric] by linarith
qed

text \<open>
  A budget's period ends exactly where its counter changes: from \<open>now\<close> on, an instant falls in the
  same bucket precisely until \<^verbatim>\<open>period_end\<close>, which is still ahead; and \<open>Retry-After\<close> is the time to it,
  rounded up to whole seconds.
\<close>

theorem period_ends_where_bucket_changes:
  assumes "chrono_ok C" and "now \<le> t"
  shows "(bucket_id C (BudgetPeriod_as_str p) t = bucket_id C (BudgetPeriod_as_str p) now \<longleftrightarrow> t < period_end C p now) \<and>
    now < period_end C p now \<and>
    period_end C p now \<le> now + 1000 * int (secs_until_period_end C p now) \<and>
    now + 1000 * (int (secs_until_period_end C p now) - 1) < period_end C p now"
proof -
  define d e where "d = now div 86400000" and "e = t div 86400000"
  have le: "d \<le> e" unfolding d_def e_def using assms(2) by (rule zdiv_mono1) simp
  have "period_end C p now = (case p of Daily \<Rightarrow> d + 1 | Weekly \<Rightarrow> d + (7 - (d + 3) mod 7)
      | Monthly \<Rightarrow> add_month C (first_of_month C d)) * 86400000"
    using assms(1) by (simp add: period_end_def chrono_ok_def Let_def d_def split: BudgetPeriod.split)
  then have pe: "t' < period_end C p now \<longleftrightarrow> t' div 86400000 <
      (case p of Daily \<Rightarrow> d + 1 | Weekly \<Rightarrow> d + (7 - (d + 3) mod 7) | Monthly \<Rightarrow> add_month C (first_of_month C d))" for t'
    by (simp only: ms_day)
  have id: "bucket_id C (BudgetPeriod_as_str p) t = bucket_id C (BudgetPeriod_as_str p) now \<longleftrightarrow>
      (case p of Daily \<Rightarrow> e = d | Weekly \<Rightarrow> (e + 3) div 7 = (d + 3) div 7
       | Monthly \<Rightarrow> first_of_month C e = first_of_month C d)"
    using assms(1) by (cases p) (simp_all add: bucket_id_def chrono_ok_def weekly_id_eq [simplified] same_monday d_def e_def)
  have month: "first_of_month C x = first_of_month C d \<longleftrightarrow>
      first_of_month C d \<le> x \<and> x < add_month C (first_of_month C d)" for x
    using assms(1) by (simp add: chrono_ok_def)
  have week: "(e + 3) div 7 = (d + 3) div 7 \<longleftrightarrow> e < d + (7 - (d + 3) mod 7)" 
  proof -
    define q r k where "q = (d + 3) div 7" and "r = (d + 3) mod 7" and "k = (e + 3) div 7"
    have "d + 3 = q * 7 + r" "0 \<le> r" "r < 7" by (simp_all add: q_def r_def)
    moreover have "k * 7 \<le> e + 3" "e + 3 < k * 7 + 7" unfolding k_def by linarith+
    ultimately show ?thesis using le unfolding q_def [symmetric] r_def [symmetric] k_def [symmetric] by (intro iffI) linarith+
  qed
  have "now < period_end C p now"
    unfolding pe d_def [symmetric] using month [of d] pos_mod_bound [of 7 "d + 3"] by (cases p) simp_all
  moreover have "bucket_id C (BudgetPeriod_as_str p) t = bucket_id C (BudgetPeriod_as_str p) now \<longleftrightarrow> t < period_end C p now"
    unfolding id pe e_def [symmetric] using le week month [of e] month [of d] by (cases p) auto
  ultimately show ?thesis
    using retry_after_secs_bounds [of "period_end C p now - now"] by (simp add: secs_until_period_end_def)
qed

lemma demo_chrono_ok: "chrono_ok demo_chrono"
proof -
  have "e div 30 * 30 = d div 30 * 30 \<longleftrightarrow> d div 30 * 30 \<le> e \<and> e < d div 30 * 30 + 30" for d e :: int
  proof -
    define q r p where "q = e div 30" and "r = e mod 30" and "p = d div 30"
    have "e = q * 30 + r" "0 \<le> r" "r < 30" by (simp_all add: q_def r_def)
    then have "q = p" if "p * 30 \<le> e" "e < p * 30 + 30" using that by linarith
    with \<open>e = q * 30 + r\<close> \<open>0 \<le> r\<close> \<open>r < 30\<close> show ?thesis unfolding q_def [symmetric] p_def [symmetric] by auto
  qed
  then show ?thesis by (simp add: chrono_ok_def demo_chrono_def same_monday)
qed

theorem period_ends_where_bucket_changes_witness:
  "bucket_id demo_chrono ''weekly'' 86400000 = bucket_id demo_chrono ''weekly'' 5 \<longleftrightarrow>
     86400000 < period_end demo_chrono Weekly 5"
  using period_ends_where_bucket_changes [OF demo_chrono_ok, of 5 86400000 Weekly] by simp

subsection \<open>Usage\<close>

lemma usage_keys_eq:
  "usage_keys C own UsageUser now =
     [''usage:'' @ hash_tag own @ '':user:'' @ own @ '':daily:'' @ bucket_id C ''daily'' now,
      ''usage:'' @ hash_tag own @ '':user:'' @ own @ '':monthly:'' @ bucket_id C ''monthly'' now]"
  "usage_keys C own (UsageApiKeyLineage l) now =
     [''usage:'' @ hash_tag own @ '':api_key_lineage:'' @ l @ '':daily:'' @ bucket_id C ''daily'' now,
      ''usage:'' @ hash_tag own @ '':api_key_lineage:'' @ l @ '':monthly:'' @ bucket_id C ''monthly'' now]"
  by (simp_all add: usage_keys_def hash_tag_def)

lemma distinct_usage_keys: "distinct (usage_keys C own (UsageApiKeyLineage l) now @ usage_keys C own UsageUser now)"
  by (simp add: usage_keys_eq)

lemma other_lineage_keys:
  assumes "uuid_ok l" "uuid_ok l'" "l' \<noteq> l"
  shows "set (usage_keys C own (UsageApiKeyLineage l') now) \<inter>
    set (usage_keys C own (UsageApiKeyLineage l) now @ usage_keys C own UsageUser now) = {}"
proof -
  have "l' @ r' \<noteq> l @ r" "l @ r \<noteq> l' @ r'" for r r'
    using assms by (metis append_eq_append_conv uuid_ok_def)+
  then show ?thesis by (auto simp: usage_keys_eq)
qed

context redis_laws
begin

lemma hfield_lua_add:
  assumes "distinct ks"
  shows "hfield R (lua_add R i ks f n s) k g = hfield R s k g + (if g = f \<and> k \<in> set ks then n else 0)"
  using assms by (induction ks arbitrary: i s) (auto simp: hfield_hincrby hash_expire)

lemma usage_add_hfield:
  assumes "usage_add R C own l f n now s = (s', Inr ())" "0 < n"
  shows "hfield R s' k g = hfield R s k g +
    (if g = f \<and> k \<in> set (usage_keys C own (UsageApiKeyLineage l) now @ usage_keys C own UsageUser now) then n else 0)"
  using assms hfield_lua_add [OF distinct_usage_keys]
  by (auto simp: usage_add_def Let_def split: option.splits)

end

lemma usage_read_Inr:
  "usage_read R C own sub now s = Inr u \<Longrightarrow>
     requests_today u = hfield R s (usage_keys C own sub now ! 0) ''requests'' \<and>
     tokens_today u = hfield R s (usage_keys C own sub now ! 0) ''tokens'' \<and>
     requests_month u = hfield R s (usage_keys C own sub now ! 1) ''requests'' \<and>
     tokens_month u = hfield R s (usage_keys C own sub now ! 1) ''tokens''"
  by (auto simp: usage_read_def Let_def split: option.splits)

lemma usage_keys_nth: "i < 2 \<Longrightarrow> usage_keys C own sub now ! i \<in> set (usage_keys C own sub now)"
  by (rule nth_mem) (simp add: usage_keys_def split: prod.split)

text \<open>
  A request is counted once on its key and once on the key's owner, today and this month, with its
  tokens left alone; every other key of the owner reads as before. So the owner's figure is the sum over
  the keys.
\<close>

theorem request_counted_on_key_and_owner:
  assumes "redis_laws R" and "record_request R C own l now s = (s', Inr ())"
    and "usage_read R C own sub now s = Inr u" and "usage_read R C own sub now s' = Inr u'"
    and "uuid_ok l" and "case sub of UsageUser \<Rightarrow> True | UsageApiKeyLineage l' \<Rightarrow> uuid_ok l'"
  shows "u' = (if sub = UsageUser \<or> sub = UsageApiKeyLineage l
    then u\<lparr>requests_today := requests_today u + 1, requests_month := requests_month u + 1\<rparr> else u)"
proof -
  let ?hit = "set (usage_keys C own (UsageApiKeyLineage l) now @ usage_keys C own UsageUser now)"
  have hf: "hfield R s' k g = hfield R s k g + (if g = ''requests'' \<and> k \<in> ?hit then 1 else 0)" for k g
    using redis_laws.usage_add_hfield [OF assms(1)] assms(2) by (simp add: record_request_def)
  have mem: "usage_keys C own sub now ! i \<in> ?hit \<longleftrightarrow> sub = UsageUser \<or> sub = UsageApiKeyLineage l" if "i < 2" for i
  proof (cases "sub = UsageUser \<or> sub = UsageApiKeyLineage l")
    case True
    then show ?thesis using usage_keys_nth [OF that] by fastforce
  next
    case False
    then obtain l' where "sub = UsageApiKeyLineage l'" "l' \<noteq> l" by (cases sub) auto
    with assms(5,6) other_lineage_keys [of l l' C own now] usage_keys_nth [OF that, of C own sub now] False
    show ?thesis by auto
  qed
  show ?thesis
    using usage_read_Inr [OF assms(3)] usage_read_Inr [OF assms(4)] hf mem [of 0] mem [of 1]
    by (cases u; cases u') auto
qed

theorem request_counted_on_key_and_owner_witness:
  "usage_read mem_redis demo_chrono uuid_nil UsageUser 0
     (fst (record_request mem_redis demo_chrono uuid_nil uuid_nil 0 demo_empty)) =
   Inr \<lparr>requests_today = 1, tokens_today = 0, requests_month = 1, tokens_month = 0\<rparr>"
proof -
  let ?r = "record_request mem_redis demo_chrono uuid_nil uuid_nil 0 demo_empty"
  have "snd ?r = Inr ()" by code_simp
  then have r: "?r = (fst ?r, Inr ())" by (metis prod.collapse)
  have u: "usage_read mem_redis demo_chrono uuid_nil UsageUser 0 demo_empty =
      Inr \<lparr>requests_today = 0, tokens_today = 0, requests_month = 0, tokens_month = 0\<rparr>" by code_simp
  have "(case usage_read mem_redis demo_chrono uuid_nil UsageUser 0 (fst ?r) of Inl e \<Rightarrow> False | Inr u' \<Rightarrow> True)"
    by code_simp
  then obtain u' where u': "usage_read mem_redis demo_chrono uuid_nil UsageUser 0 (fst ?r) = Inr u'"
    by (auto split: sum.splits)
  from request_counted_on_key_and_owner [OF mem.redis_laws_axioms r u u' uuid_ok_nil] u' show ?thesis by simp
qed

end
