(* ===== verification/Lifecycle_Props.thy ===== *)
theory Lifecycle_Props
  imports Lifecycle Budget_Props Request_Props
begin

section \<open>The request lifecycle: theorems\<close>

text \<open>
  A refused request is charged nothing and logged once; a request that passes with the limiter set to fail
  closed is within every budget and every window; and what an outage of Redis does is what the setting says.
\<close>

subsection \<open>What the limiter leaves alone\<close>

context redis_laws
begin

lemma get_prune: "k \<noteq> ct_key c \<Longrightarrow> get_int R (prune R now c s) k = get_int R s k"
  by (simp add: prune_def Let_def get_hdel)

lemma get_charge: "k \<noteq> ct_key c \<Longrightarrow> get_int R (charge_counter R t c s) k = get_int R s k"
  by (simp add: charge_counter_def get_expire get_hincrby)

lemma get_fold_prune: "k \<notin> ct_key ` set cs \<Longrightarrow> get_int R (fold (prune R now) cs s) k = get_int R s k"
  by (induction cs arbitrary: s) (simp_all add: get_prune)

lemma get_fold_charge: "k \<notin> ct_key ` set cs \<Longrightarrow> get_int R (fold (charge_counter R t) cs s) k = get_int R s k"
  by (induction cs arbitrary: s) (simp_all add: get_charge)

lemma admit_get_frame:
  assumes "canon_store R s" "distinct (map ct_key cs)" "\<forall>c \<in> set cs. counter_ok c"
    "admit_counters_at R cs now s = (s', Inr out)" "k \<notin> ct_key ` set cs"
  shows "get_int R s' k = get_int R s k"
  using assms(1-4) by (cases rule: admit_cases) (simp_all add: get_fold_prune get_fold_charge assms(5))

end

lemma admit_counters_Inl: "admit_counters_at R cs now s = (s', Inl e) \<Longrightarrow> s' = s"
  by (auto simp: admit_counters_at_def split: if_splits prod.splits sum.splits dest: run_Inl)

lemma admit_at_cases:
  assumes "admit_at R rs own now fo s = (s', res)"
  obtains (ran) out where "admit_counters_at R (map (rule_counter own) rs) now s = (s', Inr out)" "res = Inr out"
  | (opened) e where "admit_counters_at R (map (rule_counter own) rs) now s = (s, Inl e)" "fo" "s' = s" "res = Inr CheckOutcome_open"
  | (closed) e where "admit_counters_at R (map (rule_counter own) rs) now s = (s, Inl e)" "\<not> fo" "s' = s" "res = Inl e"
proof (cases "admit_counters_at R (map (rule_counter own) rs) now s")
  case (Pair s1 r1)
  with assms that admit_counters_Inl [of R "map (rule_counter own) rs" now s s1] show ?thesis
    by (cases r1) (auto simp: admit_at_def split: if_splits)
qed

subsection \<open>The stages one by one\<close>

lemma check_budget_redis: "check_budget R C S st caps ts fc w = (w', r) \<Longrightarrow> w_redis w' = w_redis w"
  by (auto simp: check_budget_def log_row_def split: if_splits sum.splits option.splits prod.splits)

lemma check_budget_audit:
  "check_budget R C S st caps ts fc w = (w', Inl r) \<Longrightarrow> \<exists>row. w_audit w' = w_audit w @ [row]"
  "check_budget R C S st caps ts fc w = (w', Inr st') \<Longrightarrow> w' = w \<and> st' = st"
  by (auto simp: check_budget_def log_row_def split: if_splits sum.splits option.splits prod.splits)

lemma check_access_cases:
  "check_access S st cand w = (w', Inl r) \<Longrightarrow>
     \<not> is_access_allowed S (identity st) cand \<and> w_redis w' = w_redis w \<and> (\<exists>row. w_audit w' = w_audit w @ [row])"
  "check_access S st cand w = (w', Inr ac) \<Longrightarrow> is_access_allowed S (identity st) cand \<and> w' = w"
  by (auto simp: check_access_def log_row_def split: if_splits)

lemma check_limits_Inl:
  assumes "check_limits R S st rs own now fc w = (w', Inl r)"
  shows "(\<exists>row. w_audit w' = w_audit w @ [row]) \<and>
    ((\<exists>out. admit_counters_at R (map (rule_counter own) rs) now (w_redis w) = (w_redis w', Inr out) \<and> \<not> allowed out) \<or>
     (fc \<and> w_redis w' = w_redis w))"
proof -
  obtain s' res where adm: "admit_at R rs own now (\<not> fc) (w_redis w) = (s', res)" by fastforce
  with assms have w': "w_redis w' = s'" "\<exists>row. w_audit w' = w_audit w @ [row]"
    and cs: "(\<exists>e. res = Inl e) \<or> (\<exists>out. res = Inr out \<and> \<not> allowed out)"
    by (auto simp: check_limits_def log_row_def Let_def split: if_splits sum.splits)
  from adm show ?thesis
    by (cases rule: admit_at_cases) (use w' cs in \<open>auto simp: CheckOutcome_open_def\<close>)
qed

lemma check_limits_Inr:
  assumes "check_limits R S st rs own now fc w = (w', Inr au)"
  shows "w_audit w' = w_audit w \<and>
    ((\<exists>out. admit_counters_at R (map (rule_counter own) rs) now (w_redis w) = (w_redis w', Inr out) \<and> allowed out) \<or>
     (\<not> fc \<and> w_redis w' = w_redis w))"
proof (cases "rs = []")
  case True
  with assms show ?thesis by (auto simp: check_limits_def admit_counters_at_def CheckOutcome_open_def)
next
  case False
  obtain s' res where adm: "admit_at R rs own now (\<not> fc) (w_redis w) = (s', res)" by fastforce
  with assms False have w': "w_redis w' = s'" "w_audit w' = w_audit w" and res: "\<exists>out. res = Inr out \<and> allowed out"
    by (auto simp: check_limits_def Let_def split: if_splits sum.splits)
  from adm show ?thesis by (cases rule: admit_at_cases) (use w' res in auto)
qed

lemma preflight_cases:
  assumes "run_preflight_stages R C S limits raw model t fc w = (w', res)"
  obtains (budget) r where "check_budget R C S raw (rq_caps limits) (t_spend t, t_wait t) fc w = (w', Inl r)" "res = Inl r"
  | (access) r where "check_budget R C S raw (rq_caps limits) (t_spend t, t_wait t) fc w = (w, Inr raw)"
      "check_access S raw model w = (w', Inl r)" "res = Inl r"
  | (limits) r ac where "check_budget R C S raw (rq_caps limits) (t_spend t, t_wait t) fc w = (w, Inr raw)"
      "check_access S raw model w = (w, Inr ac)"
      "check_limits R S ac (rq_rules limits) (rq_owner limits) (t_admit t) fc w = (w', Inl r)" "res = Inl r"
  | (passed) ac au w3 where "check_budget R C S raw (rq_caps limits) (t_spend t, t_wait t) fc w = (w, Inr raw)"
      "check_access S raw model w = (w, Inr ac)"
      "check_limits R S ac (rq_rules limits) (rq_owner limits) (t_admit t) fc w = (w3, Inr au)" "res = Inr limits"
      "w' = (case rq_key_lineage limits of None \<Rightarrow> w3
         | Some l \<Rightarrow> w3\<lparr>w_redis := fst (record_request R C (rq_owner limits) l (t_usage t) (w_redis w3))\<rparr>)"
proof (cases "check_budget R C S raw (rq_caps limits) (t_spend t, t_wait t) fc w")
  case (Pair w1 r1)
  show ?thesis
  proof (cases r1)
    case (Inl r)
    with assms Pair budget show ?thesis by (auto simp: run_preflight_stages_def)
  next
    case (Inr raw')
    with Pair check_budget_audit(2) have b: "w1 = w" "raw' = raw" by metis+
    obtain w2 r2 where acc: "check_access S raw model w = (w2, r2)" by fastforce
    show ?thesis
    proof (cases r2)
      case (Inl r)
      with assms Pair Inr b acc access show ?thesis by (auto simp: run_preflight_stages_def)
    next
      case acr: (Inr ac)
      with acc check_access_cases(2) have "w2 = w" by metis
      with assms Pair Inr b acc acr limits passed show ?thesis
        by (auto simp: run_preflight_stages_def split: prod.splits sum.splits option.splits)
    qed
  qed
qed

subsection \<open>Refused requests\<close>

definition rule_counters :: "RequestLimits \<Rightarrow> Counter list" where
  "rule_counters limits = map (rule_counter (rq_owner limits)) (rq_rules limits)"

lemma rule_counter_keys: "k \<in> ct_key ` set (rule_counters limits) \<Longrightarrow> \<exists>r. k = ''ratelimit:'' @ r"
  by (auto simp: rule_counters_def rule_counter_def Let_def ResolvedRule_new_def counter_key_def)

lemma budget_keys_apart: "cap_key C cap t \<notin> ct_key ` set (rule_counters limits)"
  using rule_counter_keys by (force simp: cap_key_def build_key_def)

lemma usage_keys_apart: "k \<in> set (usage_keys C own sub t) \<Longrightarrow> k \<notin> ct_key ` set (rule_counters limits)"
proof -
  assume "k \<in> set (usage_keys C own sub t)"
  then have "hd k = CHR ''u''" by (cases sub) (auto simp: usage_keys_eq)
  moreover have "hd k = CHR ''r''" if "k \<in> ct_key ` set (rule_counters limits)" using rule_counter_keys [OF that] by auto
  ultimately show ?thesis by auto
qed


definition demo_hooks :: "(unit, nat) hooks" where
  "demo_hooks = \<lparr>is_access_allowed = (\<lambda>_ m. m \<noteq> ''secret''), access_denied_response = (\<lambda>_. 403),
     rate_limited_response = (\<lambda>_ _. 429), rate_limiter_unavailable_response = 503,
     budget_exceeded_response = (\<lambda>_ _. 429), budget_unavailable_response = 503\<rparr>"

definition demo_raw :: "unit Raw" where
  "demo_raw = \<lparr>identity = (), trace_id = ''t'', started_at = 0, client_ip = None\<rparr>"

definition demo_clock :: clock where
  "demo_clock = \<lparr>t_spend = 100500, t_wait = 100500, t_admit = 100500, t_usage = 100500\<rparr>"

definition demo_limits :: RequestLimits where
  "demo_limits = for_request AiGateway uuid_nil demo_constraints None"

definition demo_world :: "(mem, unit) world" where
  "demo_world = \<lparr>w_redis = demo_empty, w_audit = []\<rparr>"

lemma demo_limits_ok:
  "distinct (map ct_key (rule_counters demo_limits))" "\<forall>c \<in> set (rule_counters demo_limits). counter_ok c"
proof -
  have ok: "constraints_ok demo_constraints"
    by (simp add: constraints_ok_def demo_constraints_def block_ok_def rule_ok_def is_allowed_window_iff)
  have d: "distinct (map rule_key (rules_on demo_constraints AiGateway))"
    by (simp add: rules_on_def demo_constraints_def)
  have own: "rq_owner demo_limits = uuid_nil"
    by (simp add: demo_limits_def for_request_def RequestLimits_add_def demo_constraints_def Let_def)
  have "key_ok AiGateway None" by (simp add: key_ok_def)
  from for_request_counters [OF uuid_ok_nil ok d this] own
  show "distinct (map ct_key (rule_counters demo_limits))" "\<forall>c \<in> set (rule_counters demo_limits). counter_ok c"
    by (simp_all add: rule_counters_def demo_limits_def)
qed


subsection \<open>Admitted requests\<close>

lemma max_by_key_None: "max_by_key f xs = None \<longleftrightarrow> xs = []"
  by (induction xs) (auto split: option.splits)

lemma max_by_key_Some: "max_by_key f xs = Some x \<Longrightarrow> x \<in> set xs \<and> (\<forall>y \<in> set xs. f y \<le> f x)"
  by (induction xs arbitrary: x) (auto simp: max_by_key_None split: option.splits if_splits intro: order.trans)

lemma spent_caps_read:
  assumes "read_spend R C caps now s = Inr statuses"
  shows "set (spent_caps C caps statuses tw) =
    {(cap, cap_status cap (counter R s (cap_key C cap now)), secs_until_period_end C (bc_period cap) tw) | cap.
       cap \<in> set caps \<and> bc_limit_tokens cap \<le> counter R s (cap_key C cap now)}"
proof -
  have z: "zip xs (map f xs) = map (\<lambda>c. (c, f c)) xs" for f :: "BudgetCap \<Rightarrow> CapStatus" and xs
    by (induction xs) simp_all
  show ?thesis
    unfolding spent_caps_def read_spend_Inr [OF assms] z by (auto simp: cap_status_def)
qed

lemma check_budget_passes:
  assumes "check_budget R C S st caps (ts, tw) True w = (w', Inr st')" "cap \<in> set caps"
  shows "counter R (w_redis w) (cap_key C cap ts) < bc_limit_tokens cap"
proof -
  from assms obtain statuses where rd: "read_spend R C caps ts (w_redis w) = Inr statuses"
    and none: "max_by_key (\<lambda>(_, _, wait). wait) (spent_caps C caps statuses tw) = None"
    by (auto simp: check_budget_def current_spend_def split: if_splits sum.splits option.splits prod.splits)
  from none have "set (spent_caps C caps statuses tw) = {}" by (simp add: max_by_key_None)
  with assms(2) show ?thesis unfolding spent_caps_read [OF rd] by force
qed



subsection \<open>Outages and spent budgets\<close>

lemma read_spend_down:
  assumes "caps \<noteq> []" "\<forall>ks. call_err R s ks \<noteq> None"
  shows "\<exists>e. read_spend R C caps now s = Inl e"
proof (cases caps)
  case (Cons cap rest)
  from assms(2) obtain e where "call_err R s [cap_key C cap now] = Some e" by blast
  with Cons show ?thesis by (simp add: spend_def Let_def)
qed (use assms(1) in simp)

lemma admit_down:
  assumes "rs \<noteq> []" "\<forall>ks. call_err R s ks \<noteq> None" "\<forall>ks. evalsha_err R s ks \<noteq> None"
  shows "\<exists>e. admit_counters_at R (map (rule_counter own) rs) now s = (s, Inl e)"
proof -
  let ?ks = "map (ct_key \<circ> rule_counter own) rs"
  from assms(2,3) obtain e e' where "call_err R s ?ks = Some e" "evalsha_err R s ?ks = Some e'" by blast
  with assms(1) show ?thesis by (simp add: admit_counters_at_def run_def)
qed

text \<open>
  (C36) What an outage does: when Redis answers no call, the state of the store is left as it is, and the
  request is refused exactly when the model is not allowed to it, or when the limiter is set to fail closed
  and the request has any rule or budget. Failing open, everything that may use the model goes through.
\<close>

theorem outage_policy:
  assumes "\<forall>ks. call_err R (w_redis w) ks \<noteq> None" and "\<forall>ks. evalsha_err R (w_redis w) ks \<noteq> None"
    and "run_preflight_stages R C S limits raw model t fail_closed w = (w', res)"
  shows "w_redis w' = w_redis w \<and>
    ((\<exists>resp. res = Inl resp) \<longleftrightarrow> \<not> is_access_allowed S (identity raw) model \<or>
       (fail_closed \<and> (rq_caps limits \<noteq> [] \<or> rq_rules limits \<noteq> [])))"
proof -
  have bud: "check_budget R C S raw (rq_caps limits) (t_spend t, t_wait t) fail_closed w =
      (if rq_caps limits \<noteq> [] \<and> fail_closed
       then (log_row (identity raw) ''budget_unavailable'' (trace_id raw) JNull w, Inl (budget_unavailable_response S))
       else (w, Inr raw))"
    using read_spend_down [OF _ assms(1), of "rq_caps limits" C "t_spend t"]
    by (auto simp: check_budget_def current_spend_def)
  have lim: "if rq_rules limits \<noteq> [] \<and> fail_closed
      then w_redis (fst (check_limits R S ac (rq_rules limits) (rq_owner limits) (t_admit t) fail_closed w)) = w_redis w \<and>
           (\<exists>r. snd (check_limits R S ac (rq_rules limits) (rq_owner limits) (t_admit t) fail_closed w) = Inl r)
      else w_redis (fst (check_limits R S ac (rq_rules limits) (rq_owner limits) (t_admit t) fail_closed w)) = w_redis w \<and>
           (\<exists>au. snd (check_limits R S ac (rq_rules limits) (rq_owner limits) (t_admit t) fail_closed w) = Inr au)" for ac
    using admit_down [OF _ assms(1,2), of "rq_rules limits" "rq_owner limits" "t_admit t"]
    by (auto simp: check_limits_def admit_at_def log_row_def CheckOutcome_open_def)
  have rec: "fst (record_request R C own l tm (w_redis w)) = w_redis w" for own l tm
  proof -
    from assms(1) obtain e where "call_err R (w_redis w)
        (usage_keys C own (UsageApiKeyLineage l) tm @ usage_keys C own UsageUser tm) = Some e" by blast
    then show ?thesis by (simp add: record_request_def usage_add_def Let_def)
  qed
  from assms(3) show ?thesis
  proof (cases rule: preflight_cases)
    case (budget r)
    with bud show ?thesis by (auto simp: log_row_def split: if_splits)
  next
    case (access r)
    with check_access_cases(1) [OF access(2)] show ?thesis by auto
  next
    case (limits r ac)
    with lim [of ac] bud check_access_cases(2) [OF limits(2)] show ?thesis by (auto split: if_splits)
  next
    case (passed ac au w3)
    with lim [of ac] bud check_access_cases(2) [OF passed(2)] rec show ?thesis
      by (auto split: if_splits option.splits)
  qed
qed

theorem outage_policy_witness:
  "\<exists>resp. snd (run_preflight_stages mem_redis demo_chrono demo_hooks demo_limits demo_raw ''gpt'' demo_clock True
     \<lparr>w_redis = demo_empty\<lparr>m_down := True\<rparr>, w_audit = []\<rparr>) = Inl resp"
proof -
  let ?w = "\<lparr>w_redis = demo_empty\<lparr>m_down := True\<rparr>, w_audit = []\<rparr> :: (mem, unit) world"
  have down: "\<forall>ks. call_err mem_redis (w_redis ?w) ks \<noteq> None" "\<forall>ks. evalsha_err mem_redis (w_redis ?w) ks \<noteq> None"
    by (simp_all add: mem_redis_def)
  have "rq_rules demo_limits \<noteq> []"
    by (simp add: demo_limits_def for_request_rules rules_on_def demo_constraints_def)
  with outage_policy [OF down, of demo_chrono demo_hooks demo_limits demo_raw "''gpt''" demo_clock True
      "fst (run_preflight_stages mem_redis demo_chrono demo_hooks demo_limits demo_raw ''gpt'' demo_clock True ?w)"
      "snd (run_preflight_stages mem_redis demo_chrono demo_hooks demo_limits demo_raw ''gpt'' demo_clock True ?w)"]
  show ?thesis by simp
qed

text \<open>
  A spent budget names the last period to end: the request is refused exactly when some cap has reached
  its limit, and the answer carries one of those caps and the time to the end of its period, which is the
  longest of them all, so coming back sooner cannot help.
\<close>

theorem budget_refusal_names_last_period:
  assumes "read_spend R C caps ts (w_redis w) = Inr statuses" and "caps \<noteq> []"
    and "check_budget R C S st caps (ts, tw) fail_closed w = (w', res)"
  shows "case res of
      Inr st' \<Rightarrow> st' = st \<and> w' = w \<and> (\<forall>cap \<in> set caps. counter R (w_redis w) (cap_key C cap ts) < bc_limit_tokens cap)
    | Inl resp \<Rightarrow> \<exists>cap \<in> set caps. bc_limit_tokens cap \<le> counter R (w_redis w) (cap_key C cap ts) \<and>
        resp = budget_exceeded_response S (budget_label cap) (secs_until_period_end C (bc_period cap) tw) \<and>
        (\<forall>cap' \<in> set caps. bc_limit_tokens cap' \<le> counter R (w_redis w) (cap_key C cap' ts) \<longrightarrow>
           secs_until_period_end C (bc_period cap') tw \<le> secs_until_period_end C (bc_period cap) tw)"
proof (cases "max_by_key (\<lambda>(_, _, wait). wait) (spent_caps C caps statuses tw)")
  case None
  then have "set (spent_caps C caps statuses tw) = {}" by (simp add: max_by_key_None)
  then have "\<forall>cap \<in> set caps. counter R (w_redis w) (cap_key C cap ts) < bc_limit_tokens cap"
    unfolding spent_caps_read [OF assms(1)] by force
  with None assms show ?thesis by (auto simp: check_budget_def current_spend_def)
next
  case (Some x)
  obtain cap status wait where x: "x = (cap, status, wait)" using prod_cases3 by blast
  from max_by_key_Some [OF Some] have mem: "x \<in> set (spent_caps C caps statuses tw)"
    and max: "\<forall>y \<in> set (spent_caps C caps statuses tw). snd (snd y) \<le> wait"
    by (auto simp: x split: prod.splits)
  from mem have cap: "cap \<in> set caps" "bc_limit_tokens cap \<le> counter R (w_redis w) (cap_key C cap ts)"
    "wait = secs_until_period_end C (bc_period cap) tw"
    unfolding spent_caps_read [OF assms(1)] x by auto
  have "secs_until_period_end C (bc_period cap') tw \<le> wait"
    if "cap' \<in> set caps" "bc_limit_tokens cap' \<le> counter R (w_redis w) (cap_key C cap' ts)" for cap'
  proof -
    from that have "(cap', cap_status cap' (counter R (w_redis w) (cap_key C cap' ts)), secs_until_period_end C (bc_period cap') tw)
        \<in> set (spent_caps C caps statuses tw)" unfolding spent_caps_read [OF assms(1)] by blast
    with max show ?thesis by fastforce
  qed
  moreover have "res = Inl (budget_exceeded_response S (budget_label cap) wait)"
    using assms Some x by (auto simp: check_budget_def current_spend_def)
  ultimately show ?thesis using cap by auto
qed

theorem budget_refusal_names_last_period_witness:
  "(case snd (check_budget mem_redis demo_chrono demo_hooks demo_raw [demo_cap\<lparr>bc_limit_tokens := 0\<rparr>] (0, 0) False demo_world) of
      Inr st' \<Rightarrow> counter mem_redis demo_empty (cap_key demo_chrono (demo_cap\<lparr>bc_limit_tokens := 0\<rparr>) 0) < 0
    | Inl resp \<Rightarrow> 0 \<le> counter mem_redis demo_empty (cap_key demo_chrono (demo_cap\<lparr>bc_limit_tokens := 0\<rparr>) 0))"
proof -
  let ?cap = "demo_cap\<lparr>bc_limit_tokens := 0\<rparr>"
  have "case read_spend mem_redis demo_chrono [?cap] 0 (w_redis demo_world) of Inr x \<Rightarrow> True | Inl e \<Rightarrow> False" by code_simp
  then obtain sts where rd: "read_spend mem_redis demo_chrono [?cap] 0 (w_redis demo_world) = Inr sts"
    by (auto split: sum.splits)
  obtain w' res where r: "check_budget mem_redis demo_chrono demo_hooks demo_raw [?cap] (0, 0) False demo_world = (w', res)"
    by fastforce
  from budget_refusal_names_last_period [OF rd _ r] r show ?thesis
    by (auto simp: demo_world_def demo_cap_def split: sum.splits)
qed

end
