(* ===== verification/Breaker_Api.thy ===== *)
theory Breaker_Api
  imports Complex_Main TW_Prelude
begin

section \<open>The breaker crate\<close>

text \<open>
  The circuit breakers run the state machine of the \<^verbatim>\<open>tw-breaker\<close> crate, which is not part of the
  repository. Its data types appear with the constructors and fields the sources use; its operations are the
  parameters \<open>tw_breaker\<close> (one breaker, kept as text by its owner) and \<open>breaker_map\<close> (breakers in memory, one
  per server, behind one lock). Times are Unix milliseconds for the first and an abstract clock for the second.
\<close>

datatype cb_state = Closed | HalfOpen | Open

datatype Trip = Consecutive nat | ErrorRate nat nat

record Policy =
  po_trip :: Trip
  po_cooldown_secs :: nat
  po_probes :: nat

record Tally =
  ty_total :: nat
  ty_errors :: nat

record 'b tw_breaker =
  tb_default :: 'b
  tb_record :: "bool \<Rightarrow> Tally \<Rightarrow> Policy \<Rightarrow> int \<Rightarrow> 'b \<Rightarrow> 'b \<times> cb_state option"
  tb_state_at :: "Policy \<Rightarrow> int \<Rightarrow> 'b \<Rightarrow> cb_state"
  tb_from_json :: "string \<Rightarrow> 'b option"
  tb_to_json :: "'b \<Rightarrow> string"

record 'm breaker_map =
  bm_admit :: "uuid \<Rightarrow> int \<Rightarrow> 'm \<Rightarrow> 'm \<times> bool \<times> cb_state option"
  bm_record :: "uuid \<Rightarrow> bool \<Rightarrow> int \<Rightarrow> 'm \<Rightarrow> 'm \<times> cb_state option"

end
