(* ===== verification/Redis_Keys.thy ===== *)
theory Redis_Keys
  imports Redis_Store
begin

section \<open>Redis strings and sorted sets\<close>

text \<open>
  The commands on text values and on sorted sets that the gateway's affinity, sealed conversations and route
  health use, over the same server state \<open>'s\<close> as \<open>redis\<close>. \<open>kv_err\<close> says whether a call that touches a key
  fails. The locale \<open>kv_laws\<close> states what \<^verbatim>\<open>GET\<close> returns after \<^verbatim>\<open>SET\<close> and \<^verbatim>\<open>DEL\<close>, and that the commands on one
  key leave the text of the others alone; nothing is assumed of the sorted sets. \<open>server_laws\<close> adds that the
  hash commands leave texts alone.
\<close>

record 's redis_kv =
  kv_err :: "'s \<Rightarrow> string \<Rightarrow> string option"
  kv_get :: "'s \<Rightarrow> string \<Rightarrow> string option"
  kv_set_ex :: "string \<Rightarrow> string \<Rightarrow> int \<Rightarrow> 's \<Rightarrow> 's"
  kv_del :: "string list \<Rightarrow> 's \<Rightarrow> 's"
  zadd :: "string \<Rightarrow> int \<Rightarrow> string \<Rightarrow> 's \<Rightarrow> 's"
  zcard :: "'s \<Rightarrow> string \<Rightarrow> nat"
  zremrangebyscore :: "string \<Rightarrow> int \<Rightarrow> 's \<Rightarrow> 's"
  zremrangebyrank :: "string \<Rightarrow> int \<Rightarrow> int \<Rightarrow> 's \<Rightarrow> 's"
  zrangebyscore :: "'s \<Rightarrow> string \<Rightarrow> int \<Rightarrow> string list"

text \<open>
  \<open>zremrangebyscore k hi\<close> is \<^verbatim>\<open>ZREMRANGEBYSCORE k -inf hi\<close>; \<open>zrangebyscore s k lo\<close> is
  \<^verbatim>\<open>ZRANGEBYSCORE k lo +inf\<close>.
\<close>

locale kv_laws =
  fixes K :: "'s redis_kv"
  assumes get_set_ex: "kv_get K (kv_set_ex K k v ttl s) k' = (if k' = k then Some v else kv_get K s k')"
    and get_kv_del: "kv_get K (kv_del K ks s) k' = (if k' \<in> set ks then None else kv_get K s k')"
    and get_zadd: "k' \<noteq> k \<Longrightarrow> kv_get K (zadd K k sc m s) k' = kv_get K s k'"
    and get_zremrangebyscore: "k' \<noteq> k \<Longrightarrow> kv_get K (zremrangebyscore K k hi s) k' = kv_get K s k'"
    and get_zremrangebyrank: "k' \<noteq> k \<Longrightarrow> kv_get K (zremrangebyrank K k lo hi' s) k' = kv_get K s k'"
begin

lemma set_then_get [simp]: "kv_get K (kv_set_ex K k v ttl s) k = Some v"
  by (simp add: get_set_ex)

lemmas kv_simps = get_set_ex get_kv_del get_zadd get_zremrangebyscore get_zremrangebyrank

end

locale server_laws = redis_laws R + kv_laws K for R :: "'s redis" and K :: "'s redis_kv" +
  assumes text_hincrby: "k' \<noteq> k \<Longrightarrow> kv_get K (hincrby R k f n s) k' = kv_get K s k'"
    and text_expire: "kv_get K (expire R k ttl s) k' = kv_get K s k'"

subsection \<open>A server in memory\<close>

record kv_mem =
  km_text :: "(string \<times> string) list"
  km_zsets :: "(string \<times> (int \<times> string) list) list"
  km_hashes :: mem

definition km_zset :: "kv_mem \<Rightarrow> string \<Rightarrow> (int \<times> string) list" where
  "km_zset s k = unwrap_or (map_of (km_zsets s) k) []"

definition km_zput :: "string \<Rightarrow> (int \<times> string) list \<Rightarrow> kv_mem \<Rightarrow> kv_mem" where
  "km_zput k xs s = s\<lparr>km_zsets := (k, xs) # km_zsets s\<rparr>"

definition mem_kv :: "kv_mem redis_kv" where
  "mem_kv = \<lparr>
     kv_err = (\<lambda>s k. if m_down (km_hashes s) then Some ''down'' else None),
     kv_get = (\<lambda>s k. map_of (km_text s) k),
     kv_set_ex = (\<lambda>k v ttl s. s\<lparr>km_text := (k, v) # km_text s\<rparr>),
     kv_del = (\<lambda>ks s. s\<lparr>km_text := filter (\<lambda>e. fst e \<notin> set ks) (km_text s),
                        km_zsets := filter (\<lambda>e. fst e \<notin> set ks) (km_zsets s)\<rparr>),
     zadd = (\<lambda>k sc m s. km_zput k (insort_key fst (sc, m) (filter (\<lambda>e. snd e \<noteq> m) (km_zset s k))) s),
     zcard = (\<lambda>s k. length (km_zset s k)),
     zremrangebyscore = (\<lambda>k hi s. km_zput k (filter (\<lambda>e. hi < fst e) (km_zset s k)) s),
     zremrangebyrank = (\<lambda>k lo hi s. km_zput k (take (nat lo) (km_zset s k) @ drop (nat hi + 1) (km_zset s k)) s),
     zrangebyscore = (\<lambda>s k lo. map snd (filter (\<lambda>e. lo \<le> fst e) (km_zset s k)))\<rparr>"

interpretation mem_kv: kv_laws mem_kv
  by unfold_locales (simp_all add: mem_kv_def map_of_filter_keys km_zput_def)

text \<open>The hashes and counters of the same server.\<close>

definition kv_mem_redis :: "kv_mem redis" where
  "kv_mem_redis = \<lparr>
     evalsha_err = (\<lambda>s. evalsha_err mem_redis (km_hashes s)),
     call_err = (\<lambda>s. call_err mem_redis (km_hashes s)),
     hgetall = (\<lambda>s. hgetall mem_redis (km_hashes s)),
     hdel = (\<lambda>k fs s. s\<lparr>km_hashes := hdel mem_redis k fs (km_hashes s)\<rparr>),
     hincrby = (\<lambda>k f n s. s\<lparr>km_hashes := hincrby mem_redis k f n (km_hashes s)\<rparr>),
     get_int = (\<lambda>s. get_int mem_redis (km_hashes s)),
     incrby = (\<lambda>k n s. s\<lparr>km_hashes := incrby mem_redis k n (km_hashes s)\<rparr>),
     expire = (\<lambda>k ttl s. s\<lparr>km_hashes := expire mem_redis k ttl (km_hashes s)\<rparr>)\<rparr>"

interpretation kv_mem: redis_laws kv_mem_redis
  by unfold_locales
    (simp_all add: kv_mem_redis_def mem.redis_simps mem.hgetall_distinct)

interpretation kv_server: server_laws kv_mem_redis mem_kv
  by unfold_locales (simp_all add: kv_mem_redis_def mem_kv_def)

definition kv_empty :: kv_mem where
  "kv_empty = \<lparr>km_text = [], km_zsets = [], km_hashes = \<lparr>m_hashes = [], m_strings = [], m_down = False\<rparr>\<rparr>"

end
