(* ===== verification/Route_Health.thy ===== *)
theory Route_Health
  imports Breaker_Api Redis_Keys
begin

section \<open>The health of a route\<close>

text \<open>
  \<^verbatim>\<open>crates/gateway/src/health.rs\<close>: the samples of a route's last window, its circuit breaker kept in Redis and
  written back by compare-and-set, and the snapshot that selection reads. \<open>R\<close> and \<open>K\<close> are the hash and text
  commands of the same server, \<open>T\<close> the breaker crate, \<open>parse_f64\<close> stands for \<^verbatim>\<open>str::parse::<f64>\<close>. An \<open>f64\<close> is a
  real number. The clock and the process-wide sample number are arguments.
\<close>

definition SAMPLE_CAP :: nat where
  "SAMPLE_CAP = 1000"

record RouteHealth =
  rh_state :: cb_state
  rh_total :: nat
  rh_errors :: nat
  rh_error_pct :: real
  rh_ewma_latency_ms :: "real option"
  rh_lifetime_requests :: nat

definition RouteHealth_default :: RouteHealth where
  "RouteHealth_default = \<lparr>rh_state = Closed, rh_total = 0, rh_errors = 0, rh_error_pct = 0,
     rh_ewma_latency_ms = None, rh_lifetime_requests = 0\<rparr>"

record CircuitBreakerConfig =
  cbc_enabled :: bool
  cbc_error_pct :: nat
  cbc_min_samples :: nat
  cbc_window_secs :: nat
  cbc_open_secs :: nat

definition cb_policy :: "CircuitBreakerConfig \<Rightarrow> Policy" where
  "cb_policy cfg = \<lparr>po_trip = ErrorRate (cbc_error_pct cfg) (cbc_min_samples cfg),
     po_cooldown_secs = cbc_open_secs cfg, po_probes = 1\<rparr>"

text \<open>The product is computed in \<open>u32\<close>, where it wraps around.\<close>

definition ttl_secs :: "CircuitBreakerConfig \<Rightarrow> nat" where
  "ttl_secs cfg = max ((cbc_open_secs cfg * 4) mod 2 ^ 32) 60"

definition samples_key :: "uuid \<Rightarrow> string" where
  "samples_key route_id = ''route_health:{'' @ route_id @ ''}:samples''"

definition state_key :: "uuid \<Rightarrow> string" where
  "state_key route_id = ''route_health:{'' @ route_id @ ''}:state''"

definition counters_key :: "uuid \<Rightarrow> string" where
  "counters_key route_id = ''route_health:{'' @ route_id @ ''}:counters''"

definition parse_breaker :: "'b tw_breaker \<Rightarrow> string \<Rightarrow> 'b" where
  "parse_breaker T raw = unwrap_or (tb_from_json T raw) (tb_default T)"

definition health :: "cb_state \<Rightarrow> nat \<Rightarrow> nat \<Rightarrow> real \<Rightarrow> nat \<Rightarrow> RouteHealth" where
  "health st n errs ewma lifetime =
     \<lparr>rh_state = st, rh_total = n, rh_errors = errs,
      rh_error_pct = (if 0 < n then real errs * 100 / real n else 0),
      rh_ewma_latency_ms = (if 0 < n \<and> 0 < ewma then Some ewma else None),
      rh_lifetime_requests = lifetime\<rparr>"

subsection \<open>Reading the samples\<close>

text \<open>A sample is \<open>seq:latency:error\<close>.\<close>

definition sample_member :: "nat \<Rightarrow> nat \<Rightarrow> bool \<Rightarrow> string" where
  "sample_member sq latency_ms is_error =
     show_nat sq @ '':'' @ show_nat latency_ms @ '':'' @ (if is_error then ''1'' else ''0'')"

definition is_digit :: "char \<Rightarrow> bool" where
  "is_digit c \<longleftrightarrow> digit_val c \<noteq> None"

text \<open>
  Lua's \<^verbatim>\<open>tonumber\<close> on what the pattern \<^verbatim>\<open>%-?[%d.]+\<close> lets through: an optional minus sign, then digits with at
  most one point among them and at least one digit.
\<close>

definition lua_tonumber :: "string \<Rightarrow> real option" where
  "lua_tonumber s =
     (let (sg, ds) = (case s of c # cs \<Rightarrow> if c = CHR ''-'' then (- 1, cs) else (1, s) | [] \<Rightarrow> (1, s)) in
      case split_on (CHR ''.'') ds of
        [a] \<Rightarrow> map_option (\<lambda>n. sg * real n) (parse_nat a)
      | [a, b] \<Rightarrow>
          if a @ b = [] then None
          else map_option (\<lambda>n. sg * real n / 10 ^ length b) (parse_nat (a @ b))
      | _ \<Rightarrow> None)"

text \<open>
  The script's \<^verbatim>\<open>match('^(%d+):(%-?[%d.]+):(%d)$')\<close>: none of the three classes contains the colon, so the
  pieces are those between the colons.
\<close>

definition lua_match :: "string \<Rightarrow> (string \<times> char) option" where
  "lua_match m =
     (case split_on (CHR '':'') m of
        [sq, lat, err] \<Rightarrow>
          (let body = (case lat of c # cs \<Rightarrow> if c = CHR ''-'' then cs else lat | [] \<Rightarrow> lat) in
           if sq \<noteq> [] \<and> list_all is_digit sq \<and> body \<noteq> [] \<and> list_all (\<lambda>c. is_digit c \<or> c = CHR ''.'') body
              \<and> length err = 1 \<and> list_all is_digit err
           then Some (lat, hd err) else None)
      | _ \<Rightarrow> None)"

text \<open>One turn of the loops: samples counted, errors, and the moving average with \<open>alpha = 0.2\<close>.\<close>

type_synonym window = "nat \<times> nat \<times> real"

definition add_sample :: "real \<Rightarrow> bool \<Rightarrow> window \<Rightarrow> window" where
  "add_sample lat is_err w =
     (case w of (n, errs, ewma) \<Rightarrow>
        (n + 1, (if is_err then errs + 1 else errs),
         if n + 1 = 1 then lat else (2 / 10) * lat + (1 - 2 / 10) * ewma))"

definition lua_sample :: "string \<Rightarrow> window \<Rightarrow> window" where
  "lua_sample m w =
     (case lua_match m of
        None \<Rightarrow> w
      | Some (lat, err) \<Rightarrow> add_sample (unwrap_or (lua_tonumber lat) 0) (err = CHR ''1'') w)"

text \<open>\<^verbatim>\<open>splitn(3, ':')\<close>: the last piece keeps its colons.\<close>

definition splitn3 :: "string \<Rightarrow> string list" where
  "splitn3 s =
     (case split_on (CHR '':'') s of
        a # b # c # rest \<Rightarrow> [a, b, drop (length a + length b + 2) s]
      | parts \<Rightarrow> parts)"

definition rust_sample :: "(string \<Rightarrow> real option) \<Rightarrow> string \<Rightarrow> window \<Rightarrow> window" where
  "rust_sample parse_f64 m w =
     (case splitn3 m of
        [_, lat, err] \<Rightarrow>
          (case parse_f64 lat of Some l \<Rightarrow> add_sample l (err = ''1'') w | None \<Rightarrow> w)
      | _ \<Rightarrow> w)"

subsection \<open>The scripts\<close>

definition lua_health_record ::
  "'s redis \<Rightarrow> 's redis_kv \<Rightarrow> uuid \<Rightarrow> int \<Rightarrow> int \<Rightarrow> string \<Rightarrow> nat \<Rightarrow> 's \<Rightarrow> 's \<times> string \<times> int \<times> int \<times> int \<times> int" where
  "lua_health_record R K route_id now_ms window_start member ttl s =
     (let sk = samples_key route_id;
          s1 = zremrangebyscore K sk window_start s;
          oversize = int (zcard K s1 sk) - int SAMPLE_CAP;
          s2 = (if 0 < oversize then zremrangebyrank K sk 0 (oversize - 1) s1 else s1);
          s3 = expire R sk (int ttl) (zadd K sk now_ms member s2);
          s4 = hincrby R (counters_key route_id) ''lifetime_requests'' 1 s3;
          lifetime = hfield R s4 (counters_key route_id) ''lifetime_requests'';
          (n, errs, ewma) = fold lua_sample (zrangebyscore K s4 sk window_start) (0, 0, 0);
          raw = unwrap_or (kv_get K s4 (state_key route_id)) ''''
      in (s4, raw, int n, int errs, floor (ewma * 100), lifetime))"

definition lua_cas :: "'s redis_kv \<Rightarrow> uuid \<Rightarrow> string \<Rightarrow> string \<Rightarrow> nat \<Rightarrow> bool \<Rightarrow> 's \<Rightarrow> 's \<times> int" where
  "lua_cas K route_id expected new ttl wipe s =
     (if unwrap_or (kv_get K s (state_key route_id)) '''' \<noteq> expected then (s, 0)
      else
        (let s1 = (if new = '''' then kv_del K [state_key route_id] s
                   else kv_set_ex K (state_key route_id) new (int ttl) s);
             s2 = (if wipe then kv_del K [samples_key route_id] s1 else s1)
         in (s2, 1)))"

subsection \<open>The tracker\<close>

text \<open>\<^verbatim>\<open>u32::try_from(x.max(0)).unwrap_or(u32::MAX)\<close>.\<close>

definition sat_u32 :: "int \<Rightarrow> nat" where
  "sat_u32 x = min (nat (max x 0)) (2 ^ 32 - 1)"

text \<open>
  What a completion makes of the breaker it read: the new breaker, the change reported, the text to write and
  whether the window is wiped. \<open>None\<close> when there is nothing to write.
\<close>

definition breaker_write ::
  "'b tw_breaker \<Rightarrow> CircuitBreakerConfig \<Rightarrow> string \<Rightarrow> Tally \<Rightarrow> bool \<Rightarrow> int \<Rightarrow> 'b \<times> (string \<times> bool) option" where
  "breaker_write T cfg raw tally is_error now_ms =
     (let before = parse_breaker T raw;
          (after, change) = tb_record T (\<not> is_error) tally (cb_policy cfg) now_ms before
      in (after,
          if after = before then None
          else Some (if after = tb_default T then '''' else tb_to_json T after, change = Some Closed)))"

text \<open>
  Between the two scripts other replicas may have called Redis: \<open>between\<close> is what they did to its state.
\<close>

definition health_record ::
  "'s redis \<Rightarrow> 's redis_kv \<Rightarrow> 'b tw_breaker \<Rightarrow> CircuitBreakerConfig \<Rightarrow> uuid \<Rightarrow> nat \<Rightarrow> bool \<Rightarrow> nat \<Rightarrow> int \<Rightarrow>
   ('s \<Rightarrow> 's) \<Rightarrow> 's \<Rightarrow> 's \<times> RouteHealth" where
  "health_record R K T cfg route_id latency_ms is_error sq now_ms between s =
     (case kv_err K s (samples_key route_id) of
        Some e \<Rightarrow> (s, RouteHealth_default)
      | None \<Rightarrow>
          (let (s1, raw, n0, errs0, ewma100, life0) =
                 lua_health_record R K route_id now_ms (now_ms - int (cbc_window_secs cfg) * 1000)
                   (sample_member sq latency_ms is_error) (ttl_secs cfg) s;
               n = sat_u32 n0; errs = sat_u32 errs0; ewma = real_of_int ewma100 / 100; lifetime = nat (max life0 0)
           in if \<not> cbc_enabled cfg then (s1, health Closed n errs ewma lifetime)
              else
                (let (after, wr) = breaker_write T cfg raw \<lparr>ty_total = n, ty_errors = errs\<rparr> is_error now_ms;
                     seen = (\<lambda>b. health (tb_state_at T (cb_policy cfg) now_ms b) n errs ewma lifetime)
                 in case wr of
                      None \<Rightarrow> (s1, seen after)
                    | Some (new, recovered) \<Rightarrow>
                        (let s2 = between s1 in
                         case kv_err K s2 (state_key route_id) of
                           Some e \<Rightarrow> (s2, seen (parse_breaker T raw))
                         | None \<Rightarrow>
                             (case lua_cas K route_id raw new (ttl_secs cfg) recovered s2 of
                                (s3, w) \<Rightarrow> (s3, seen (if w = 1 then after else parse_breaker T raw)))))))"

definition health_state ::
  "'s redis_kv \<Rightarrow> 'b tw_breaker \<Rightarrow> CircuitBreakerConfig \<Rightarrow> uuid \<Rightarrow> int \<Rightarrow> 's \<Rightarrow> cb_state" where
  "health_state K T cfg route_id now_ms s =
     (if \<not> cbc_enabled cfg then Closed
      else let raw = (if kv_err K s (state_key route_id) = None then kv_get K s (state_key route_id) else None)
           in tb_state_at T (cb_policy cfg) now_ms (parse_breaker T (unwrap_or raw '''')))"

text \<open>A hash field is read as text and parsed as \<open>u64\<close>: a negative or missing count reads as zero.\<close>

definition health_snapshot ::
  "'s redis \<Rightarrow> 's redis_kv \<Rightarrow> 'b tw_breaker \<Rightarrow> (string \<Rightarrow> real option) \<Rightarrow> CircuitBreakerConfig \<Rightarrow> uuid \<Rightarrow> int \<Rightarrow> 's \<Rightarrow> RouteHealth" where
  "health_snapshot R K T parse_f64 cfg route_id now_ms s =
     (let st = health_state K T cfg route_id now_ms s;
          lifetime = (if kv_err K s (counters_key route_id) = None
                      then nat (hfield R s (counters_key route_id) ''lifetime_requests'') else 0);
          members = (if kv_err K s (samples_key route_id) = None
                     then zrangebyscore K s (samples_key route_id) (now_ms - int (cbc_window_secs cfg) * 1000) else []);
          (n, errs, ewma) = fold (rust_sample parse_f64) members (0, 0, 0)
      in health st n errs ewma lifetime)"

definition snapshot_many ::
  "'s redis \<Rightarrow> 's redis_kv \<Rightarrow> 'b tw_breaker \<Rightarrow> (string \<Rightarrow> real option) \<Rightarrow> CircuitBreakerConfig \<Rightarrow> uuid list \<Rightarrow> int \<Rightarrow> 's \<Rightarrow>
   (uuid \<times> RouteHealth) list" where
  "snapshot_many R K T parse_f64 cfg route_ids now_ms s =
     map (\<lambda>i. (i, health_snapshot R K T parse_f64 cfg i now_ms s)) route_ids"

definition health_forget :: "'s redis_kv \<Rightarrow> uuid \<Rightarrow> 's \<Rightarrow> 's" where
  "health_forget K route_id s =
     (if kv_err K s (samples_key route_id) = None
      then kv_del K [samples_key route_id, state_key route_id, counters_key route_id] s else s)"

end
