(* ===== verification/Retry.thy ===== *)
theory Retry
  imports Complex_Main Gateway_Error
begin

section \<open>Sending a request again\<close>

text \<open>
  \<^verbatim>\<open>crates/gateway/src/proxy/retry.rs\<close>: which failures are of the moment, how long to wait before the next
  attempt, and when to stop. An \<^verbatim>\<open>Instant\<close> and a \<^verbatim>\<open>Duration\<close> are integers of nanoseconds; an instant has
  63-bit seconds and \<^verbatim>\<open>checked_add\<close> fails beyond them. The functions that read the clock or draw a random
  number take the instant and the factor as arguments. The factor is a real number: \<^verbatim>\<open>mul_f64\<close> rounds the
  product to the nearest nanosecond, and the rounding of \<open>f64\<close> before that is not represented.
\<close>

type_synonym instant = int
type_synonym duration = nat

definition from_secs :: "nat \<Rightarrow> duration" where
  "from_secs n = n * 1000000000"

definition from_millis :: "nat \<Rightarrow> duration" where
  "from_millis n = n * 1000000"

definition checked_add :: "instant \<Rightarrow> duration \<Rightarrow> instant option" where
  "checked_add t d = (if (t + int d) div 1000000000 < 2 ^ 63 then Some (t + int d) else None)"

definition mul_f64 :: "duration \<Rightarrow> real \<Rightarrow> duration" where
  "mul_f64 d x = nat (round (real d * x))"

subsection \<open>Failures of the moment\<close>

definition transient :: "string \<Rightarrow> int \<Rightarrow> bool" where
  "transient tag status =
     (if tag = ''ProviderHttpError'' then status \<in> {500, 502, 503, 504, 529}
      else tag = ''NetworkError'' \<or> tag = ''transport'')"

definition is_transient :: "GatewayError \<Rightarrow> bool" where
  "is_transient err = transient (error_tag err) (status_code err)"

definition REQUEST_TIMEOUT :: duration where
  "REQUEST_TIMEOUT = from_secs 120"

definition TIMEOUT_MARGIN :: duration where
  "TIMEOUT_MARGIN = from_secs 2"

definition hard_deadline :: "instant \<Rightarrow> instant" where
  "hard_deadline arrived = arrived + int (REQUEST_TIMEOUT - TIMEOUT_MARGIN)"

definition MIN_SAID_WAIT :: duration where
  "MIN_SAID_WAIT = from_millis 250"

fun said_to_wait :: "GatewayError \<Rightarrow> duration option" where
  "said_to_wait (ProviderHttpError _ _ retry_after) =
     (case retry_after of
        None \<Rightarrow> None
      | Some d \<Rightarrow> if d = 0 then None else Some (max d MIN_SAID_WAIT))"
| "said_to_wait _ = None"

definition backoff :: "nat \<Rightarrow> duration" where
  "backoff n = from_secs (2 * 2 ^ (min (max n 1) 4 - 1))"

subsection \<open>The allowance of a request\<close>

record Budget =
  bd_deadline :: "instant option"
  bd_hard :: "instant option"
  bd_retries :: nat

definition Budget_new :: "instant \<Rightarrow> duration \<Rightarrow> Budget" where
  "Budget_new arrived wait =
     \<lparr>bd_deadline = (if wait \<noteq> 0 then checked_add arrived wait else None), bd_hard = None, bd_retries = 0\<rparr>"

definition Budget_within :: "Budget \<Rightarrow> instant \<Rightarrow> Budget" where
  "Budget_within b hard = b\<lparr>bd_hard := Some hard\<rparr>"

definition Budget_open :: "instant \<Rightarrow> Budget \<Rightarrow> bool" where
  "Budget_open now b = (case bd_deadline b of None \<Rightarrow> False | Some d \<Rightarrow> now < d)"

definition wait_at :: "Budget \<Rightarrow> instant \<Rightarrow> duration option \<Rightarrow> real \<Rightarrow> duration \<Rightarrow> duration option" where
  "wait_at b now said jitter took =
     (case bd_deadline b of
        None \<Rightarrow> None
      | Some deadline \<Rightarrow>
          (let wait = (case said of Some d \<Rightarrow> d | None \<Rightarrow> mul_f64 (backoff (bd_retries b + 1)) jitter)
           in case checked_add now wait of
                None \<Rightarrow> None
              | Some resumes \<Rightarrow>
                  if deadline < resumes then None
                  else (case bd_hard b of
                          None \<Rightarrow> Some wait
                        | Some hard \<Rightarrow>
                            (case checked_add resumes took of
                               None \<Rightarrow> None
                             | Some ends \<Rightarrow> if hard < ends then None else Some wait))))"

definition wait_after_taking :: "Budget \<Rightarrow> instant \<Rightarrow> real \<Rightarrow> GatewayError \<Rightarrow> duration \<Rightarrow> duration option" where
  "wait_after_taking b now jitter err took =
     (if \<not> is_transient err then None else wait_at b now (said_to_wait err) jitter took)"

definition wait_after :: "Budget \<Rightarrow> instant \<Rightarrow> real \<Rightarrow> GatewayError \<Rightarrow> duration option" where
  "wait_after b now jitter err = wait_after_taking b now jitter err 0"

definition wait_after_outcome :: "Budget \<Rightarrow> instant \<Rightarrow> real \<Rightarrow> string \<Rightarrow> int \<Rightarrow> duration option" where
  "wait_after_outcome b now jitter tag status =
     (if \<not> transient tag status then None else wait_at b now None jitter 0)"

definition Budget_sent :: "Budget \<Rightarrow> Budget" where
  "Budget_sent b = b\<lparr>bd_retries := bd_retries b + 1\<rparr>"

subsection \<open>Bounds of a wait\<close>

text \<open>The factors \<^verbatim>\<open>random_range(0.8..=1.2)\<close> draws.\<close>

definition jitter_ok :: "real \<Rightarrow> bool" where
  "jitter_ok j \<longleftrightarrow> 8 / 10 \<le> j \<and> j \<le> 12 / 10"

lemma backoff_range: "from_secs 2 \<le> backoff n \<and> backoff n \<le> from_secs 16"
proof -
  define k where "k = min (max n 1) 4 - 1"
  have "k \<le> 3" by (simp add: k_def)
  then have "(2::nat) ^ k \<le> 2 ^ 3" by (rule power_increasing) simp
  then show ?thesis by (simp add: backoff_def from_secs_def k_def)
qed

lemma mul_f64_mono: "d \<le> e \<Longrightarrow> 0 \<le> x \<Longrightarrow> x \<le> y \<Longrightarrow> mul_f64 d x \<le> mul_f64 e y"
  unfolding mul_f64_def by (intro nat_mono round_mono mult_mono) auto

lemma jittered_range:
  assumes "jitter_ok j"
  shows "from_millis 1600 \<le> mul_f64 (backoff n) j \<and> mul_f64 (backoff n) j \<le> from_millis 19200"
proof
  have "mul_f64 (from_secs 2) (8/10) \<le> mul_f64 (backoff n) j"
    using assms backoff_range [of n] by (intro mul_f64_mono) (auto simp: jitter_ok_def)
  moreover have "mul_f64 (from_secs 2) (8/10) = from_millis 1600"
    by (simp add: mul_f64_def from_secs_def from_millis_def)
  ultimately show "from_millis 1600 \<le> mul_f64 (backoff n) j" by simp
  have "mul_f64 (backoff n) j \<le> mul_f64 (from_secs 16) (12/10)"
    using assms backoff_range [of n] by (intro mul_f64_mono) (auto simp: jitter_ok_def)
  moreover have "mul_f64 (from_secs 16) (12/10) = from_millis 19200"
    by (simp add: mul_f64_def from_secs_def from_millis_def)
  ultimately show "mul_f64 (backoff n) j \<le> from_millis 19200" by simp
qed

lemma said_to_wait_floor: "said_to_wait e = Some d \<Longrightarrow> MIN_SAID_WAIT \<le> d"
  by (cases e) (auto split: option.splits if_splits)

lemma wait_at_Some:
  assumes "wait_at b now said jitter took = Some w"
  obtains deadline where "bd_deadline b = Some deadline" "now + int w \<le> deadline"
    "w = (case said of Some d \<Rightarrow> d | None \<Rightarrow> mul_f64 (backoff (bd_retries b + 1)) jitter)"
    "\<forall>hard. bd_hard b = Some hard \<longrightarrow> now + int w + int took \<le> hard"
  using assms that by (auto simp: wait_at_def Let_def checked_add_def split: option.splits if_splits)

lemma wait_after_taking_Some:
  assumes "wait_after_taking b now jitter err took = Some w" "jitter_ok jitter"
  shows "is_transient err \<and> MIN_SAID_WAIT \<le> w \<and> (\<exists>d. bd_deadline b = Some d \<and> now + int w \<le> d) \<and>
    (\<forall>hard. bd_hard b = Some hard \<longrightarrow> now + int w + int took \<le> hard)"
proof -
  from assms have tr: "is_transient err" and wa: "wait_at b now (said_to_wait err) jitter took = Some w"
    by (auto simp: wait_after_taking_def split: if_splits)
  from wa show ?thesis
  proof (rule wait_at_Some)
    fix deadline
    assume d: "bd_deadline b = Some deadline" "now + int w \<le> deadline"
      and w: "w = (case said_to_wait err of Some d \<Rightarrow> d | None \<Rightarrow> mul_f64 (backoff (bd_retries b + 1)) jitter)"
      and h: "\<forall>hard. bd_hard b = Some hard \<longrightarrow> now + int w + int took \<le> hard"
    have "from_millis 250 \<le> from_millis 1600" by (simp add: from_millis_def)
    with w jittered_range [OF assms(2), of "bd_retries b + 1"] have "MIN_SAID_WAIT \<le> w"
      by (auto dest: said_to_wait_floor simp: MIN_SAID_WAIT_def split: option.splits)
    with tr d h show ?thesis by blast
  qed
qed

text \<open>
  (C37) A retry waits long enough and never too long: it follows only a failure of the moment, waits at least a
  quarter of a second whatever the upstream says, between 1.6 and 19.2 seconds when it says nothing, ends
  within the request's deadline, and leaves room before the hard deadline for another attempt as long as the
  last. With no allowance there is no retry.
\<close>

theorem retry_wait_bounds:
  assumes "wait_after_taking b now jitter err took = Some w" and "jitter_ok jitter"
  shows "is_transient err \<and> from_millis 250 \<le> w \<and>
    (said_to_wait err = None \<longrightarrow> from_millis 1600 \<le> w \<and> w \<le> from_millis 19200) \<and>
    (\<exists>d. bd_deadline b = Some d \<and> now + int w \<le> d) \<and>
    (case bd_hard b of None \<Rightarrow> True | Some hard \<Rightarrow> now + int w + int took \<le> hard)"
proof -
  note bounds = wait_after_taking_Some [OF assms]
  have "said_to_wait err = None \<Longrightarrow> w = mul_f64 (backoff (bd_retries b + 1)) jitter"
    using assms(1) by (auto simp: wait_after_taking_def split: if_splits elim: wait_at_Some)
  with jittered_range [OF assms(2)] bounds show ?thesis by (auto simp: MIN_SAID_WAIT_def split: option.split)
qed

theorem retry_wait_bounds_witness:
  "from_millis 1600 \<le> mul_f64 (backoff 1) 1 \<and>
   wait_after_taking (Budget_new 0 (from_secs 60)) 0 1 (NetworkError ''reset'') 0 = Some (mul_f64 (backoff 1) 1)"
proof -
  have "mul_f64 (backoff 1) 1 = from_secs 2" by (simp add: mul_f64_def backoff_def)
  then have w: "wait_after_taking (Budget_new 0 (from_secs 60)) 0 1 (NetworkError ''reset'') 0 = Some (mul_f64 (backoff 1) 1)"
    by (simp add: wait_after_taking_def is_transient_def transient_def wait_at_def Budget_new_def checked_add_def from_secs_def)
  from retry_wait_bounds [OF w] w show ?thesis by (simp add: jitter_ok_def)
qed

end
