(* ===== verification/Sealed.thy ===== *)
theory Sealed
  imports Gateway_Error Redis_Keys
begin

section \<open>Conversations whose history an upstream sealed\<close>

text \<open>
  \<^verbatim>\<open>crates/gateway/src/proxy/sealed.rs\<close>: which provider holds a conversation's encrypted history, and where a
  request that carries some may go. \<open>parse_uuid\<close> stands for \<^verbatim>\<open>Uuid::parse_str\<close>, and \<open>tw_dialect\<close> for the
  dialect crate: its format \<^verbatim>\<open>Dialect::Responses\<close> and its test for a refusal of sealed history.
\<close>

datatype sealed_kind = Reasoning | Content

record 'd tw_dialect =
  td_responses :: 'd
  td_refused :: "'d \<Rightarrow> string \<Rightarrow> bool"

definition BINDING_TTL_SECS :: int where
  "BINDING_TTL_SECS = 30 * 24 * 60 * 60"

record Conversation =
  cv_key :: string

definition Conversation_of :: "string option \<Rightarrow> string option \<Rightarrow> Conversation option" where
  "Conversation_of user_id session_id =
     (case (user_id, session_id) of
        (Some u, Some s) \<Rightarrow> Some \<lparr>cv_key = ''sealed_holder:'' @ u @ '':'' @ s\<rparr>
      | _ \<Rightarrow> None)"

record Holder =
  ho_provider_id :: uuid
  ho_provider_name :: string

definition Holder_encode :: "Holder \<Rightarrow> string" where
  "Holder_encode h = ho_provider_id h @ '' '' @ ho_provider_name h"

definition Holder_parse :: "(string \<Rightarrow> uuid option) \<Rightarrow> string \<Rightarrow> Holder option" where
  "Holder_parse parse_uuid value =
     (case split_once value '' '' of
        None \<Rightarrow> None
      | Some (i, name) \<Rightarrow> map_option (\<lambda>u. \<lparr>ho_provider_id = u, ho_provider_name = name\<rparr>) (parse_uuid i))"

definition conversation_holder ::
  "'s redis_kv \<Rightarrow> (string \<Rightarrow> uuid option) \<Rightarrow> Conversation \<Rightarrow> 's \<Rightarrow> Holder option" where
  "conversation_holder K parse_uuid cv s =
     (case kv_err K s (cv_key cv) of
        Some e \<Rightarrow> None
      | None \<Rightarrow> Option.bind (kv_get K s (cv_key cv)) (Holder_parse parse_uuid))"

definition answered_by :: "'s redis_kv \<Rightarrow> Conversation \<Rightarrow> uuid \<Rightarrow> string \<Rightarrow> 's \<Rightarrow> 's" where
  "answered_by K cv provider_id provider_name s =
     (case kv_err K s (cv_key cv) of
        Some e \<Rightarrow> s
      | None \<Rightarrow> kv_set_ex K (cv_key cv)
                  (Holder_encode \<lparr>ho_provider_id = provider_id, ho_provider_name = provider_name\<rparr>)
                  BINDING_TTL_SECS s)"

subsection \<open>Where a request may go\<close>

datatype Pin = PinOnly uuid | PinFirst uuid

fun Pin_provider_id :: "Pin \<Rightarrow> uuid" where
  "Pin_provider_id (PinOnly i) = i"
| "Pin_provider_id (PinFirst i) = i"

definition decide ::
  "sealed_kind option \<Rightarrow> Holder option \<Rightarrow> uuid list \<Rightarrow> string \<Rightarrow> GatewayError + Pin option" where
  "decide sealed holder providers model =
     (case (sealed, holder) of
        (Some k, Some h) \<Rightarrow>
          (let routed = list_ex (\<lambda>p. p = ho_provider_id h) providers in
           case (k, routed) of
             (Content, True) \<Rightarrow> Inr (Some (PinOnly (ho_provider_id h)))
           | (Content, False) \<Rightarrow> Inl (SealedHistoryUnavailable (ho_provider_name h) model)
           | (Reasoning, True) \<Rightarrow> Inr (Some (PinFirst (ho_provider_id h)))
           | (Reasoning, False) \<Rightarrow> Inr None)
      | _ \<Rightarrow> Inr None)"

definition refused :: "'d tw_dialect \<Rightarrow> 'd \<Rightarrow> string \<Rightarrow> bool" where
  "refused D wire said = (wire = td_responses D \<and> td_refused D wire said)"

definition explain_refusal :: "'d tw_dialect \<Rightarrow> 'd \<Rightarrow> string \<Rightarrow> string \<Rightarrow> GatewayError \<Rightarrow> GatewayError" where
  "explain_refusal D wire provider lab e =
     (case e of
        ProviderHttpError status message ra \<Rightarrow>
          if 400 \<le> status \<and> status < 500 \<and> refused D wire message then
            SealedHistoryRefused status provider
              (unwrap_or (Option.bind (strip_prefix message lab) (\<lambda>m. strip_prefix m '': '')) message)
          else e
      | _ \<Rightarrow> e)"

subsection \<open>The holder of a conversation\<close>

lemma uuid_ok_no_char: "uuid_ok u \<Longrightarrow> \<not> uuid_char c \<Longrightarrow> c \<notin> set u"
  by (auto simp: uuid_ok_def list_all_iff)

lemma not_uuid_char: "\<not> uuid_char (CHR '' '')" "\<not> uuid_char (CHR '':'')"
  by (simp_all add: uuid_char_def)

lemmas uuid_ok_no_space = uuid_ok_no_char [OF _ not_uuid_char(1)]
lemmas uuid_ok_no_colon = uuid_ok_no_char [OF _ not_uuid_char(2)]

lemma Holder_roundtrip:
  assumes "uuid_ok (ho_provider_id h)" "parse_uuid (ho_provider_id h) = Some (ho_provider_id h)"
  shows "Holder_parse parse_uuid (Holder_encode h) = Some h"
proof -
  from split_once_char [OF uuid_ok_no_space [OF assms(1)]] assms(2) show ?thesis by (simp add: Holder_parse_def Holder_encode_def)
qed

lemma Conversation_key_inj:
  assumes "CHR '':'' \<notin> set u" "CHR '':'' \<notin> set u'"
    "Conversation_of (Some u) (Some se) = Some cv" "Conversation_of (Some u') (Some se') = Some cv'"
    "cv_key cv = cv_key cv'"
  shows "u = u' \<and> se = se'"
proof -
  from assms(3-5) have "u @ CHR '':'' # se = u' @ CHR '':'' # se'" by (auto simp: Conversation_of_def)
  with append_sep_inj [of "CHR '':''" u u' se se'] assms(1,2) show ?thesis by simp
qed

text \<open>
  A sealed conversation stays with the provider that answered it: once a provider has answered, the
  conversation's holder is that provider, no other user's or session's is changed, and a request that carries
  sealed content then goes to that provider alone, or is refused naming it when it has no route left.
\<close>

theorem sealed_content_follows_its_holder:
  assumes "kv_laws K" and "kv_err K s (cv_key cv) = None" and "kv_err K (answered_by K cv p name s) (cv_key cv) = None"
    and "uuid_ok p" and "parse_uuid p = Some p"
    and "uuid_ok u" and "Conversation_of (Some u) (Some se) = Some cv"
  shows "conversation_holder K parse_uuid cv (answered_by K cv p name s) =
       Some \<lparr>ho_provider_id = p, ho_provider_name = name\<rparr> \<and>
     (\<forall>u' se' cv'. uuid_ok u' \<and> Conversation_of (Some u') (Some se') = Some cv' \<and> (u', se') \<noteq> (u, se) \<longrightarrow>
        kv_get K (answered_by K cv p name s) (cv_key cv') = kv_get K s (cv_key cv')) \<and>
     decide (Some Content) (conversation_holder K parse_uuid cv (answered_by K cv p name s)) providers model =
       (if p \<in> set providers then Inr (Some (PinOnly p)) else Inl (SealedHistoryUnavailable name model))"
proof (intro conjI)
  let ?h = "\<lparr>ho_provider_id = p, ho_provider_name = name\<rparr>"
  have get: "kv_get K (answered_by K cv p name s) k =
      (if k = cv_key cv then Some (Holder_encode ?h) else kv_get K s k)" for k
    using assms(2) by (simp add: answered_by_def kv_laws.get_set_ex [OF assms(1)])
  show h: "conversation_holder K parse_uuid cv (answered_by K cv p name s) = Some ?h"
    using assms(3) Holder_roundtrip [of ?h parse_uuid] assms(4,5) by (simp add: conversation_holder_def get)
  show "decide (Some Content) (conversation_holder K parse_uuid cv (answered_by K cv p name s)) providers model =
      (if p \<in> set providers then Inr (Some (PinOnly p)) else Inl (SealedHistoryUnavailable name model))"
    by (auto simp: h decide_def list_ex_iff Let_def)
  show "\<forall>u' se' cv'. uuid_ok u' \<and> Conversation_of (Some u') (Some se') = Some cv' \<and> (u', se') \<noteq> (u, se) \<longrightarrow>
      kv_get K (answered_by K cv p name s) (cv_key cv') = kv_get K s (cv_key cv')"
  proof (intro allI impI)
    fix u' se' cv'
    assume a: "uuid_ok u' \<and> Conversation_of (Some u') (Some se') = Some cv' \<and> (u', se') \<noteq> (u, se)"
    then have "cv_key cv' \<noteq> cv_key cv"
      using Conversation_key_inj [OF uuid_ok_no_colon uuid_ok_no_colon, of u' u se' cv' se cv] assms(6,7) by blast
    then show "kv_get K (answered_by K cv p name s) (cv_key cv') = kv_get K s (cv_key cv')" by (simp add: get)
  qed
qed

theorem sealed_content_follows_its_holder_witness:
  "decide (Some Content)
     (conversation_holder mem_kv (\<lambda>s. Some s) \<lparr>cv_key = ''sealed_holder:'' @ uuid_nil @ '':s''\<rparr>
       (answered_by mem_kv \<lparr>cv_key = ''sealed_holder:'' @ uuid_nil @ '':s''\<rparr> uuid_nil ''p'' kv_empty)) [uuid_nil] ''m'' =
   Inr (Some (PinOnly uuid_nil))"
proof -
  let ?cv = "\<lparr>cv_key = ''sealed_holder:'' @ uuid_nil @ '':s''\<rparr>"
  have "kv_err mem_kv kv_empty (cv_key ?cv) = None"
    "kv_err mem_kv (answered_by mem_kv ?cv uuid_nil ''p'' kv_empty) (cv_key ?cv) = None"
    by (simp_all add: mem_kv_def kv_empty_def answered_by_def)
  from sealed_content_follows_its_holder [OF mem_kv.kv_laws_axioms this uuid_ok_nil _ uuid_ok_nil,
      of "\<lambda>s. Some s" "''s''" "[uuid_nil]" "''m''"]
  have "decide (Some Content) (conversation_holder mem_kv (\<lambda>s. Some s) ?cv
      (answered_by mem_kv ?cv uuid_nil ''p'' kv_empty)) [uuid_nil] ''m'' =
      (if uuid_nil \<in> set [uuid_nil] then Inr (Some (PinOnly uuid_nil)) else Inl (SealedHistoryUnavailable ''p'' ''m''))"
    unfolding Conversation_of_def by fastforce
  then show ?thesis by simp
qed

end
