(* ===== verification/Routing.thy ===== *)
theory Routing
  imports Router Route_Caps Route_Health Retry Sealed
begin

section \<open>Choosing a route, and failing over\<close>

text \<open>
  \<^verbatim>\<open>crates/gateway/src/proxy/routing.rs\<close> with the weights of \<^verbatim>\<open>strategy.rs\<close>: session affinity, the pick among
  the candidates of a model, the loop that sends a request to one route after another and goes round again,
  and what a stream needs to go out again.

  What the code awaits is in \<open>gw_env\<close>: the commands of Redis, the breaker crate, the parsers of the \<^verbatim>\<open>uuid\<close>
  crate and of \<open>f64\<close>, the random draws, the sending of a request (\<^verbatim>\<open>generate::send\<close> and \<^verbatim>\<open>read_whole\<close>), the sleep,
  and what other replicas do to Redis meanwhile. \<open>gw\<close> is the world a request sees: Redis, the two clocks, the
  number of random draws so far, and the routes the request has been sent to, which nothing reads back and
  the theorems speak about. An \<open>f64\<close> is a real number.
\<close>

subsection \<open>Weights\<close>

record RouteSignal =
  rs_configured_weight :: nat
  rs_ewma_latency_ms :: "real option"
  rs_success_rate :: "real option"

definition latency_factor :: "real option \<Rightarrow> real \<Rightarrow> real" where
  "latency_factor ewma_ms k = 1 / (max (unwrap_or ewma_ms 1) 1) powr k"

definition health_factor :: "real option \<Rightarrow> real \<Rightarrow> real" where
  "health_factor success_rate k = (min (max (unwrap_or success_rate 1) 0) 1) powr k"

fun compute_weights :: "RoutingStrategy \<Rightarrow> RouteSignal list \<Rightarrow> real \<Rightarrow> real list" where
  "compute_weights Weighted signals k = map (\<lambda>s. real (rs_configured_weight s)) signals"
| "compute_weights Latency signals k =
     map (\<lambda>s. latency_factor (rs_ewma_latency_ms s) k * real (rs_configured_weight s)) signals"
| "compute_weights Health signals k =
     map (\<lambda>s. health_factor (rs_success_rate s) k * real (rs_configured_weight s)) signals"
| "compute_weights LatencyHealth signals k =
     map (\<lambda>s. latency_factor (rs_ewma_latency_ms s) k * health_factor (rs_success_rate s) k *
            real (rs_configured_weight s)) signals"

subsection \<open>The world and the context of a request\<close>

record 's gw =
  gw_redis :: 's
  gw_now :: instant
  gw_utc :: int
  gw_draws :: nat
  gw_sent :: "RouteEntry list"

type_synonym 's moved = "'s \<times> instant \<times> int"

record ('s, 'b, 'a) gw_env =
  ge_R :: "'s redis"
  ge_K :: "'s redis_kv"
  ge_T :: "'b tw_breaker"
  ge_parse_uuid :: "string \<Rightarrow> uuid option"
  ge_parse_f64 :: "string \<Rightarrow> real option"
  ge_random :: "nat \<Rightarrow> real \<Rightarrow> real"
  ge_jitter :: "nat \<Rightarrow> real"
  ge_between :: "nat \<Rightarrow> 's \<Rightarrow> 's"
  ge_send :: "RouteEntry \<Rightarrow> string \<Rightarrow> 's gw \<Rightarrow> 's moved \<times> (GatewayError + 'a)"
  ge_send_until :: "instant \<Rightarrow> RouteEntry \<Rightarrow> string \<Rightarrow> 's gw \<Rightarrow> 's moved \<times> (GatewayError + 'a) option"
  ge_sleep :: "duration \<Rightarrow> 's gw \<Rightarrow> 's moved"

definition moved_to :: "'s gw \<Rightarrow> 's moved \<Rightarrow> 's gw" where
  "moved_to g m = g\<lparr>gw_redis := fst m, gw_now := fst (snd m), gw_utc := snd (snd m)\<rparr>"

record SelectionCtx =
  sc_model_id :: string
  sc_user_id :: "string option"
  sc_strategy :: RoutingStrategy
  sc_affinity_mode :: AffinityMode
  sc_affinity_ttl_secs :: nat
  sc_latency_k :: real
  sc_breaker :: CircuitBreakerConfig
  sc_fail_closed :: bool
  sc_pin :: "Pin option"

record ModelRoutingConfig =
  mc_strategy :: "RoutingStrategy option"
  mc_affinity_mode :: "AffinityMode option"
  mc_affinity_ttl_secs :: "nat option"
  mc_max_output_tokens :: "nat option"

text \<open>The per-model override, or the gateway-wide setting given as text and number.\<close>

definition resolve_routing_config ::
  "ModelRoutingConfig \<Rightarrow> ModelRoutingConfig ModelRouter \<Rightarrow> string \<Rightarrow> string \<Rightarrow> nat \<Rightarrow> string \<Rightarrow>
   RoutingStrategy \<times> AffinityMode \<times> nat" where
  "resolve_routing_config default_config router default_strategy default_mode default_ttl model =
     (let cfg = config_for default_config router model in
      (case mc_strategy cfg of Some s \<Rightarrow> s
       | None \<Rightarrow> unwrap_or (RoutingStrategy_from_str default_strategy) LatencyHealth,
       case mc_affinity_mode cfg of Some m \<Rightarrow> m
       | None \<Rightarrow> AffinityMode_parse_or_default default_mode,
       case mc_affinity_ttl_secs cfg of Some t \<Rightarrow> t | None \<Rightarrow> default_ttl))"

subsection \<open>Affinity\<close>

datatype AffinityHit = HitProvider uuid | HitRoute uuid

definition affinity_key :: "AffinityMode \<Rightarrow> string \<Rightarrow> string \<Rightarrow> string" where
  "affinity_key mode uid model = ''affinity:'' @ AffinityMode_as_str mode @ '':'' @ uid @ '':'' @ model"

definition get_ok :: "'s redis_kv \<Rightarrow> string \<Rightarrow> 's \<Rightarrow> string option" where
  "get_ok K k s = (if kv_err K s k = None then kv_get K s k else None)"

definition check_affinity ::
  "'s redis_kv \<Rightarrow> (string \<Rightarrow> uuid option) \<Rightarrow> string option \<Rightarrow> string \<Rightarrow> AffinityMode \<Rightarrow> RouteEntry list \<Rightarrow> 's \<Rightarrow>
   AffinityHit option" where
  "check_affinity K parse_uuid user_id model mode entries s =
     (if mode = AffinityNone then None
      else case user_id of
             None \<Rightarrow> None
           | Some uid \<Rightarrow>
               (case Option.bind (get_ok K (affinity_key mode uid model) s) parse_uuid of
                  None \<Rightarrow> None
                | Some i \<Rightarrow>
                    (case mode of
                       AffinityProvider \<Rightarrow>
                         if list_ex (\<lambda>e. re_provider_id e = i) entries then Some (HitProvider i) else None
                     | AffinityRoute \<Rightarrow>
                         if list_ex (\<lambda>e. re_route_id e = i) entries then Some (HitRoute i) else None
                     | AffinityNone \<Rightarrow> None)))"

definition set_affinity ::
  "'s redis_kv \<Rightarrow> string option \<Rightarrow> string \<Rightarrow> AffinityMode \<Rightarrow> RouteEntry \<Rightarrow> nat \<Rightarrow> 's \<Rightarrow> 's" where
  "set_affinity K user_id model mode entry ttl s =
     (if mode = AffinityNone \<or> ttl = 0 then s
      else case user_id of
             None \<Rightarrow> s
           | Some uid \<Rightarrow>
               (let i = (case mode of AffinityProvider \<Rightarrow> re_provider_id entry | _ \<Rightarrow> re_route_id entry);
                    k = affinity_key mode uid model
                in if kv_err K s k = None then kv_set_ex K k i (int ttl) s else s))"

definition forget_one :: "'s redis_kv \<Rightarrow> string \<Rightarrow> string \<Rightarrow> AffinityMode \<times> uuid \<Rightarrow> 's \<Rightarrow> 's" where
  "forget_one K uid model mi s =
     (let k = affinity_key (fst mi) uid model in
      if get_ok K k s = Some (snd mi) \<and> kv_err K s k = None then kv_del K [k] s else s)"

definition forget_affinity :: "'s redis_kv \<Rightarrow> string option \<Rightarrow> string \<Rightarrow> uuid \<Rightarrow> uuid \<Rightarrow> 's \<Rightarrow> 's" where
  "forget_affinity K user_id model provider_id route_id s =
     (case user_id of
        None \<Rightarrow> s
      | Some uid \<Rightarrow> fold (forget_one K uid model) [(AffinityProvider, provider_id), (AffinityRoute, route_id)] s)"

subsection \<open>One pick\<close>

definition route_signal :: "RouteEntry \<Rightarrow> RouteHealth \<Rightarrow> RouteSignal" where
  "route_signal e h =
     \<lparr>rs_configured_weight = re_weight e, rs_ewma_latency_ms = rh_ewma_latency_ms h,
      rs_success_rate = (if 0 < rh_total h then Some (min (max (1 - rh_error_pct h / 100) 0) 1) else None)\<rparr>"

definition is_excluded :: "SelectionCtx \<Rightarrow> uuid list \<Rightarrow> uuid list \<Rightarrow> RouteEntry \<Rightarrow> RouteHealth \<Rightarrow> bool" where
  "is_excluded ctx tried capped e h =
     ((rh_state h = Open \<and> (case sc_pin ctx of Some (PinOnly _) \<Rightarrow> False | _ \<Rightarrow> True)) \<or>
      List.member tried (re_provider_id e) \<or> List.member capped (re_route_id e))"

definition pin_to_holder :: "RouteEntry list \<Rightarrow> bool list \<Rightarrow> Pin option \<Rightarrow> bool list" where
  "pin_to_holder cands excluded pin =
     (case pin of
        None \<Rightarrow> excluded
      | Some p \<Rightarrow>
          (let holder = Pin_provider_id p;
               eligible = list_ex (\<lambda>(e, x). \<not> x \<and> re_provider_id e = holder) (zip cands excluded)
           in if (case p of PinFirst _ \<Rightarrow> True | PinOnly _ \<Rightarrow> False) \<and> \<not> eligible then excluded
              else map (\<lambda>(e, x). x \<or> re_provider_id e \<noteq> holder) (zip cands excluded)))"

definition hit_matches :: "AffinityHit \<Rightarrow> RouteEntry \<Rightarrow> bool" where
  "hit_matches hit e =
     (case hit of HitProvider i \<Rightarrow> re_provider_id e = i | HitRoute i \<Rightarrow> re_route_id e = i)"

fun weighted_walk :: "real \<Rightarrow> real \<Rightarrow> nat \<Rightarrow> real list \<Rightarrow> nat option" where
  "weighted_walk pick acc i [] = None"
| "weighted_walk pick acc i (w # ws) =
     (if pick < acc + w then Some i else weighted_walk pick (acc + w) (i + 1) ws)"

text \<open>The draw is taken only when some weight is positive.\<close>

definition pick_with_strategy ::
  "('s, 'b, 'a) gw_env \<Rightarrow> SelectionCtx \<Rightarrow> RouteEntry list \<Rightarrow> uuid list \<Rightarrow> uuid list \<Rightarrow> 's gw \<Rightarrow> 's gw \<times> RouteEntry option" where
  "pick_with_strategy E ctx cands tried capped g =
     (if cands = [] then (g, None)
      else
        (let healths = map (\<lambda>e. health_snapshot (ge_R E) (ge_K E) (ge_T E) (ge_parse_f64 E) (sc_breaker ctx)
                                  (re_route_id e) (gw_utc g) (gw_redis g)) cands;
             affinity = check_affinity (ge_K E) (ge_parse_uuid E) (sc_user_id ctx) (sc_model_id ctx)
                          (sc_affinity_mode ctx) cands (gw_redis g);
             excluded = pin_to_holder cands (map2 (is_excluded ctx tried capped) cands healths) (sc_pin ctx);
             weights = compute_weights (sc_strategy ctx) (map2 route_signal cands healths) (sc_latency_k ctx)
         in case Option.bind affinity
                   (\<lambda>hit. find (\<lambda>(e, x). \<not> x \<and> hit_matches hit e) (zip cands excluded)) of
              Some (e, x) \<Rightarrow> (g, Some e)
            | None \<Rightarrow>
                (let masked = map2 (\<lambda>x w. if x then 0 else w) excluded weights;
                     tot = sum_list masked
                 in if tot \<le> 0 then
                      (g, map_option fst (find (\<lambda>(e, x). \<not> x) (zip cands excluded)))
                    else
                      (g\<lparr>gw_draws := gw_draws g + 1\<rparr>,
                       map_option (nth cands) (weighted_walk (ge_random E (gw_draws g) tot) 0 0 masked)))))"

subsection \<open>A pick under its caps\<close>

definition RouteCaps_of :: "RouteEntry \<Rightarrow> RouteCaps" where
  "RouteCaps_of e = \<lparr>rc_route_id = re_route_id e, rc_rpm = re_rpm_cap e, rc_tpm = re_tpm_cap e\<rparr>"

fun pick_admitted_loop ::
  "nat \<Rightarrow> ('s, 'b, 'a) gw_env \<Rightarrow> SelectionCtx \<Rightarrow> RouteEntry list \<Rightarrow> uuid list \<Rightarrow> CappedRoutes \<Rightarrow> 's gw \<Rightarrow>
   's gw \<times> CappedRoutes \<times> (GatewayError + RouteEntry option)" where
  "pick_admitted_loop 0 E ctx cands tried capped g = (g, capped, Inr None)"
| "pick_admitted_loop (Suc n) E ctx cands tried capped g =
     (case pick_with_strategy E ctx cands tried (cr_routes capped) g of
        (g1, None) \<Rightarrow> (g1, capped, Inr None)
      | (g1, Some e) \<Rightarrow>
          (case route_admit_at (ge_R E) (RouteCaps_of e) (sc_fail_closed ctx) (gw_utc g1) (gw_redis g1) of
             (s', Inl err) \<Rightarrow> (g1\<lparr>gw_redis := s'\<rparr>, capped, Inl err)
           | (s', Inr Admitted) \<Rightarrow> (g1\<lparr>gw_redis := s'\<rparr>, capped, Inr (Some e))
           | (s', Inr (Capped lab secs)) \<Rightarrow>
               pick_admitted_loop n E ctx cands tried (CappedRoutes_add (re_route_id e) lab secs capped)
                 (g1\<lparr>gw_redis := s'\<rparr>)))"

definition pick_admitted ::
  "('s, 'b, 'a) gw_env \<Rightarrow> SelectionCtx \<Rightarrow> RouteEntry list \<Rightarrow> uuid list \<Rightarrow> CappedRoutes \<Rightarrow> 's gw \<Rightarrow>
   's gw \<times> CappedRoutes \<times> (GatewayError + RouteEntry option)" where
  "pick_admitted E ctx cands tried capped g = pick_admitted_loop (length cands) E ctx cands tried capped g"

subsection \<open>Whose failure it is\<close>

definition fails :: "string \<Rightarrow> int \<Rightarrow> bool" where
  "fails tag status =
     (if tag = ''ProviderHttpError'' then 500 \<le> status \<or> status = 408
      else \<not> List.member [''TransformError'', ''PolicyBlocked'', ''LocalRateLimited'', ''SealedHistoryRefused'',
                           ''SealedHistoryUnavailable''] tag)"

definition is_upstream_failure :: "GatewayError \<Rightarrow> bool" where
  "is_upstream_failure err = fails (error_tag err) (status_code err)"

record SelectionRecord =
  sl_picked_route_id :: uuid
  sl_started_at :: instant
  sl_picked_latency_ms :: "nat option"
  sl_retries :: nat
  sl_counted :: bool

definition as_latency_ms :: "duration \<Rightarrow> nat" where
  "as_latency_ms d = min (d div 1000000) (2 ^ 32 - 1)"

definition record_health :: "('s, 'b, 'a) gw_env \<Rightarrow> SelectionCtx \<Rightarrow> uuid \<Rightarrow> nat \<Rightarrow> bool \<Rightarrow> 's gw \<Rightarrow> 's gw" where
  "record_health E ctx route_id latency_ms is_error g =
     g\<lparr>gw_redis := fst (health_record (ge_R E) (ge_K E) (ge_T E) (sc_breaker ctx) route_id latency_ms is_error
         (gw_draws g) (gw_utc g) (ge_between E (gw_draws g)) (gw_redis g)), gw_draws := gw_draws g + 1\<rparr>"

definition finalize_health ::
  "('s, 'b, 'a) gw_env \<Rightarrow> SelectionCtx \<Rightarrow> SelectionRecord \<Rightarrow> bool \<Rightarrow> 's gw \<Rightarrow> 's gw" where
  "finalize_health E ctx sel success g =
     (if sl_counted sel then g
      else record_health E ctx (sl_picked_route_id sel)
             (unwrap_or (sl_picked_latency_ms sel) (as_latency_ms (nat (gw_now g - sl_started_at sel)))) (\<not> success) g)"

subsection \<open>Failover\<close>

text \<open>What the loop carries from one attempt to the next.\<close>

record progress =
  pr_last_error :: "GatewayError option"
  pr_tried :: "uuid list"
  pr_capped :: CappedRoutes
  pr_transient :: "uuid list"
  pr_last_took :: duration
  pr_attempted :: bool

definition progress_start :: progress where
  "progress_start = \<lparr>pr_last_error = None, pr_tried = [], pr_capped = CappedRoutes_default, pr_transient = [],
     pr_last_took = 0, pr_attempted = False\<rparr>"

type_synonym 'a answered = "RouteEntry \<times> 'a \<times> SelectionRecord"

text \<open>An attempt ends the request, or lets the loop go on.\<close>

datatype 'a flow = Return "GatewayError + 'a answered" | Proceed progress

text \<open>One attempt: the request goes to the route, and is given up at the hard deadline if there is one.\<close>

definition send_to ::
  "('s, 'b, 'a) gw_env \<Rightarrow> Budget \<Rightarrow> RouteEntry \<Rightarrow> string \<Rightarrow> 's gw \<Rightarrow> 's gw \<times> (GatewayError + 'a) option" where
  "send_to E budget e caller_model g =
     (let model = unwrap_or (re_upstream_model e) caller_model;
          g1 = g\<lparr>gw_sent := gw_sent g @ [e]\<rparr>
      in case bd_hard budget of
           Some hard \<Rightarrow> (case ge_send_until E hard e model g1 of (m, r) \<Rightarrow> (moved_to g1 m, r))
         | None \<Rightarrow> (case ge_send E e model g1 of (m, r) \<Rightarrow> (moved_to g1 m, Some r)))"

definition timeout_error :: "RouteEntry \<Rightarrow> GatewayError" where
  "timeout_error e =
     ProviderTimeout (re_provider_name e @ '' did not answer within the gateway's request timeout'')"

text \<open>What an attempt's outcome does.\<close>

definition after_attempt ::
  "('s, 'b, 'a) gw_env \<Rightarrow> SelectionCtx \<Rightarrow> Budget \<Rightarrow> instant \<Rightarrow> RouteEntry \<Rightarrow> progress \<Rightarrow> duration \<Rightarrow>
   (GatewayError + 'a) option \<Rightarrow> 's gw \<Rightarrow> 's gw \<times> 'a flow" where
  "after_attempt E ctx budget started e pr took outcome g =
     (let ms = as_latency_ms took; pr1 = pr\<lparr>pr_last_took := took\<rparr> in
      case outcome of
        None \<Rightarrow> (record_health E ctx (re_route_id e) ms True g, Return (Inl (unwrap_or (pr_last_error pr) (timeout_error e))))
      | Some (Inr answer) \<Rightarrow>
          (g\<lparr>gw_redis := set_affinity (ge_K E) (sc_user_id ctx) (sc_model_id ctx) (sc_affinity_mode ctx) e
               (sc_affinity_ttl_secs ctx) (gw_redis g)\<rparr>,
           Return (Inr (e, answer, \<lparr>sl_picked_route_id = re_route_id e, sl_started_at = started,
             sl_picked_latency_ms = Some ms, sl_retries = bd_retries budget, sl_counted = False\<rparr>)))
      | Some (Inl err) \<Rightarrow>
          if is_upstream_failure err then
            (record_health E ctx (re_route_id e) ms True g,
             Proceed (pr1\<lparr>pr_transient := filter (\<lambda>p. p \<noteq> re_provider_id e) (pr_transient pr) @
                                            (if is_transient err then [re_provider_id e] else []),
                        pr_last_error := Some err\<rparr>))
          else
            ((if error_tag err = ''ProviderHttpError'' \<or> error_tag err = ''SealedHistoryRefused''
              then record_health E ctx (re_route_id e) ms False g else g),
             Return (Inl err)))"

text \<open>The inner loop: at most one attempt per candidate.\<close>

fun failover_round ::
  "nat \<Rightarrow> ('s, 'b, 'a) gw_env \<Rightarrow> SelectionCtx \<Rightarrow> Budget \<Rightarrow> instant \<Rightarrow> RouteEntry list \<Rightarrow> string \<Rightarrow> progress \<Rightarrow> 's gw \<Rightarrow>
   's gw \<times> 'a flow" where
  "failover_round 0 E ctx budget started cands caller_model pr g = (g, Proceed pr)"
| "failover_round (Suc n) E ctx budget started cands caller_model pr g =
     (case pick_admitted E ctx cands (pr_tried pr) (pr_capped pr) g of
        (g1, capped, Inl err) \<Rightarrow> (g1, Return (Inl err))
      | (g1, capped, Inr None) \<Rightarrow> (g1, Proceed (pr\<lparr>pr_capped := capped\<rparr>))
      | (g1, capped, Inr (Some e)) \<Rightarrow>
          (let pr1 = pr\<lparr>pr_capped := capped, pr_tried := pr_tried pr @ [re_provider_id e], pr_attempted := True\<rparr> in
           case send_to E budget e caller_model g1 of
             (g2, outcome) \<Rightarrow>
               (case after_attempt E ctx budget started e pr1 (nat (gw_now g2 - gw_now g1)) outcome g2 of
                  (g3, Return r) \<Rightarrow> (g3, Return r)
                | (g3, Proceed pr2) \<Rightarrow> failover_round n E ctx budget started cands caller_model pr2 g3)))"

definition retry_wait :: "('s, 'b, 'a) gw_env \<Rightarrow> Budget \<Rightarrow> progress \<Rightarrow> 's gw \<Rightarrow> duration option" where
  "retry_wait E budget pr g =
     (case pr_last_error pr of
        Some err \<Rightarrow>
          if pr_attempted pr \<and> pr_transient pr \<noteq> []
          then wait_after_taking budget (gw_now g) (ge_jitter E (gw_draws g)) err (pr_last_took pr) else None
      | None \<Rightarrow> None)"

definition final_error :: "SelectionCtx \<Rightarrow> progress \<Rightarrow> GatewayError" where
  "final_error ctx pr =
     (case pr_last_error pr of
        Some err \<Rightarrow> err
      | None \<Rightarrow> unwrap_or (CappedRoutes_refusal (pr_capped pr))
                  (ProviderError (''All routes failed for model: '' @ sc_model_id ctx)))"

text \<open>The next round asks only the providers that failed for the moment, and counts the caps afresh.\<close>

definition next_round :: "RouteEntry list \<Rightarrow> progress \<Rightarrow> progress" where
  "next_round cands pr =
     pr\<lparr>pr_tried := filter (\<lambda>p. \<not> List.member (pr_transient pr) p) (map re_provider_id cands),
        pr_capped := CappedRoutes_default, pr_attempted := False\<rparr>"

text \<open>
  The outer loop has no bound of its own; \<open>fuel\<close> is the number of rounds, and \<open>None\<close> says it ran out.
\<close>

fun failover_loop ::
  "nat \<Rightarrow> ('s, 'b, 'a) gw_env \<Rightarrow> SelectionCtx \<Rightarrow> Budget \<Rightarrow> instant \<Rightarrow> RouteEntry list \<Rightarrow> string \<Rightarrow> progress \<Rightarrow> 's gw \<Rightarrow>
   ('s gw \<times> Budget \<times> (GatewayError + 'a answered)) option" where
  "failover_loop 0 E ctx budget started cands caller_model pr g = None"
| "failover_loop (Suc fuel) E ctx budget started cands caller_model pr g =
     (case failover_round (length cands) E ctx budget started cands caller_model pr g of
        (g1, Return r) \<Rightarrow> Some (g1, budget, r)
      | (g1, Proceed pr1) \<Rightarrow>
          (case retry_wait E budget pr1 g1 of
             None \<Rightarrow> Some (g1, budget, Inl (final_error ctx pr1))
           | Some wait \<Rightarrow>
               failover_loop fuel E ctx (Budget_sent budget) started cands caller_model (next_round cands pr1)
                 (moved_to (g1\<lparr>gw_draws := gw_draws g1 + 1\<rparr>) (ge_sleep E wait g1))))"

definition select_route_with_failover ::
  "nat \<Rightarrow> ('s, 'b, 'a) gw_env \<Rightarrow> SelectionCtx \<Rightarrow> Budget \<Rightarrow> RouteEntry list \<Rightarrow> string \<Rightarrow> 's gw \<Rightarrow>
   ('s gw \<times> Budget \<times> (GatewayError + 'a answered)) option" where
  "select_route_with_failover fuel E ctx budget cands caller_model g =
     failover_loop fuel E ctx budget (gw_now g) cands caller_model progress_start g"

subsection \<open>Streams\<close>

definition select_route_for_stream ::
  "('s, 'b, 'a) gw_env \<Rightarrow> SelectionCtx \<Rightarrow> RouteEntry list \<Rightarrow> 's gw \<Rightarrow>
   's gw \<times> (GatewayError + RouteEntry \<times> SelectionRecord)" where
  "select_route_for_stream E ctx cands g =
     (case pick_admitted E ctx cands [] CappedRoutes_default g of
        (g1, capped, Inl err) \<Rightarrow> (g1, Inl err)
      | (g1, capped, Inr (Some e)) \<Rightarrow>
          (g1, Inr (e, \<lparr>sl_picked_route_id = re_route_id e, sl_started_at = gw_now g, sl_picked_latency_ms = None,
             sl_retries = 0, sl_counted = False\<rparr>))
      | (g1, capped, Inr None) \<Rightarrow>
          (g1, Inl (unwrap_or (CappedRoutes_refusal capped)
                      (ProviderError (''No provider found for model: '' @ sc_model_id ctx)))))"

record Resend =
  rsd_route_id :: uuid
  rsd_caps :: RouteCaps
  rsd_fail_closed :: bool
  rsd_pinned_only :: bool
  rsd_budget :: Budget

definition Resend_new :: "RouteEntry \<Rightarrow> SelectionCtx \<Rightarrow> Budget \<Rightarrow> Resend" where
  "Resend_new e ctx budget =
     \<lparr>rsd_route_id = re_route_id e, rsd_caps = RouteCaps_of e, rsd_fail_closed = sc_fail_closed ctx,
      rsd_pinned_only = (case sc_pin ctx of Some (PinOnly p) \<Rightarrow> p = re_provider_id e | _ \<Rightarrow> False),
      rsd_budget = budget\<rparr>"

definition Resend_admit ::
  "('s, 'b, 'a) gw_env \<Rightarrow> SelectionCtx \<Rightarrow> nat \<Rightarrow> Resend \<Rightarrow> 's gw \<Rightarrow> 's gw \<times> Resend \<times> bool" where
  "Resend_admit E ctx failed_ms rsd g =
     (let h = health_snapshot (ge_R E) (ge_K E) (ge_T E) (ge_parse_f64 E) (sc_breaker ctx) (rsd_route_id rsd)
                (gw_utc g) (gw_redis g)
      in if rh_state h = Open \<and> \<not> rsd_pinned_only rsd then (g, rsd, False)
         else case route_admit_at (ge_R E) (rsd_caps rsd) (rsd_fail_closed rsd) (gw_utc g) (gw_redis g) of
                (s', Inr Admitted) \<Rightarrow>
                  (record_health E ctx (rsd_route_id rsd) failed_ms True (g\<lparr>gw_redis := s'\<rparr>),
                   rsd\<lparr>rsd_budget := Budget_sent (rsd_budget rsd)\<rparr>, True)
              | (s', _) \<Rightarrow> (g\<lparr>gw_redis := s'\<rparr>, rsd, False))"

end
