(* ===== verification/Health_Props.thy ===== *)
theory Health_Props
  imports Route_Health
begin

section \<open>The health of a route: theorems\<close>

text \<open>
  The samples a script tallies and the samples selection tallies are the same, and the breaker of a route
  moves along one line of transitions however many replicas record completions at once.
\<close>

subsection \<open>Two readings of one window\<close>

lemma is_digit_char: "d < 10 \<Longrightarrow> is_digit (digit_char d)"
  by (simp add: is_digit_def)

lemma show_nat_is_digit: "list_all is_digit (show_nat n)"
  using show_nat_digits [of n] by (auto simp: list_all_iff is_digit_char)

lemma is_digit_not: "\<not> is_digit (CHR '':'')" "\<not> is_digit (CHR ''.'')" "\<not> is_digit (CHR ''-'')"
  by (simp_all add: is_digit_def digit_val_def)

lemma show_nat_without: "CHR '':'' \<notin> set (show_nat n)" "CHR ''.'' \<notin> set (show_nat n)" "CHR ''-'' \<notin> set (show_nat n)"
  using show_nat_is_digit [of n] is_digit_not by (auto simp: list_all_iff)

lemma show_nat_head: "show_nat n = c # cs \<Longrightarrow> c \<noteq> CHR ''-''"
  using show_nat_without(3) [of n] by auto

lemma split_sample:
  "split_on (CHR '':'') (sample_member sq lat e) = [show_nat sq, show_nat lat, if e then ''1'' else ''0'']"
  using split_on_append [OF show_nat_without(1) [of sq], of "show_nat lat @ '':'' @ (if e then ''1'' else ''0'')"]
    split_on_append [OF show_nat_without(1) [of lat], of "if e then ''1'' else ''0''"]
  by (cases e) (simp_all add: sample_member_def)

lemma lua_tonumber_show: "lua_tonumber (show_nat n) = Some (real n)"
proof -
  have "(case show_nat n of c # cs \<Rightarrow> if c = CHR ''-'' then (- 1, cs) else (1, show_nat n) | [] \<Rightarrow> (1, show_nat n)) =
      (1 :: real, show_nat n)"
    using show_nat_head [of n] by (auto split: list.split)
  then show ?thesis by (simp add: lua_tonumber_def split_on_single show_nat_without(2))
qed

lemma lua_match_sample:
  "lua_match (sample_member sq lat e) = Some (show_nat lat, if e then CHR ''1'' else CHR ''0'')"
proof -
  have body: "(case show_nat lat of c # cs \<Rightarrow> if c = CHR ''-'' then cs else show_nat lat | [] \<Rightarrow> show_nat lat) = show_nat lat"
    using show_nat_head [of lat] by (auto split: list.split)
  have "is_digit (CHR ''1'')" "is_digit (CHR ''0'')" by (simp_all add: is_digit_def digit_val_def)
  with show_nat_is_digit [of sq] show_nat_is_digit [of lat] show ?thesis
    by (simp add: lua_match_def split_sample body list_all_iff Let_def)
qed

lemma splitn3_sample: "splitn3 (sample_member sq lat e) = [show_nat sq, show_nat lat, if e then ''1'' else ''0'']"
  unfolding splitn3_def split_sample by (simp add: sample_member_def)

lemma lua_sample_agrees:
  assumes "parse_f64 (show_nat lat) = Some (real lat)"
  shows "rust_sample parse_f64 (sample_member sq lat e) = lua_sample (sample_member sq lat e)"
  using assms by (simp add: fun_eq_iff rust_sample_def lua_sample_def lua_match_sample splitn3_sample lua_tonumber_show)

definition is_sample :: "string \<Rightarrow> bool" where
  "is_sample m \<longleftrightarrow> (\<exists>sq lat e. m = sample_member sq lat e)"

lemma fold_samples_agree:
  assumes "\<forall>n. parse_f64 (show_nat n) = Some (real n)" "\<forall>m \<in> set ms. is_sample m"
  shows "fold (rust_sample parse_f64) ms w = fold lua_sample ms w"
  using assms(2)
proof (induction ms arbitrary: w)
  case (Cons m ms)
  then obtain sq lat e where "m = sample_member sq lat e" by (auto simp: is_sample_def)
  with Cons lua_sample_agrees assms(1) show ?case by simp
qed simp

lemma fold_add_count:
  assumes "\<forall>m \<in> set ms. is_sample m"
  shows "fst (fold lua_sample ms w) = fst w + length ms"
  using assms
proof (induction ms arbitrary: w)
  case (Cons m ms)
  then obtain sq lat e where "m = sample_member sq lat e" by (auto simp: is_sample_def)
  with Cons show ?case by (simp add: lua_sample_def lua_match_sample add_sample_def split: prod.splits)
qed simp

text \<open>
  Selection and the breaker read one window: for the samples the tracker writes, the snapshot at the time of a
  completion counts as many samples and errors as the script that recorded it, and its latency is the script's
  average before that is rounded down to hundredths.
\<close>

theorem snapshot_agrees_with_record:
  assumes "\<forall>n. parse_f64 (show_nat n) = Some (real n)"
    and "lua_health_record R K route_id now ws member ttl s = (s1, raw, n, errs, ewma100, life)"
    and "ws = now - int (cbc_window_secs cfg) * 1000"
    and "\<forall>m \<in> set (zrangebyscore K s1 (samples_key route_id) ws). is_sample m"
    and "kv_err K s1 (samples_key route_id) = None"
  shows "int (rh_total (health_snapshot R K T parse_f64 cfg route_id now s1)) = n \<and>
    int (rh_errors (health_snapshot R K T parse_f64 cfg route_id now s1)) = errs \<and>
    n = int (length (zrangebyscore K s1 (samples_key route_id) ws)) \<and>
    (case rh_ewma_latency_ms (health_snapshot R K T parse_f64 cfg route_id now s1) of
       None \<Rightarrow> n = 0 \<or> ewma100 \<le> 0 | Some l \<Rightarrow> ewma100 = floor (l * 100))"
proof -
  obtain n' e' l' where f: "fold lua_sample (zrangebyscore K s1 (samples_key route_id) ws) (0, 0, 0) = (n', e', l')"
    by (metis prod_cases3)
  from assms(2) f have eq: "n = int n'" "errs = int e'" "ewma100 = floor (l' * 100)"
    by (auto simp: lua_health_record_def Let_def split: prod.splits)
  have "n' = length (zrangebyscore K s1 (samples_key route_id) ws)"
    using fold_add_count [OF assms(4), of "(0, 0, 0)"] f by simp
  with eq f fold_samples_agree [OF assms(1,4), of "(0, 0, 0)"] assms(3,5) show ?thesis
    by (auto simp: health_snapshot_def health_def Let_def not_less)
qed

text \<open>
  A breaker for the witnesses: it opens on the first error and closes on the first success.
\<close>

definition toy_breaker :: "bool tw_breaker" where
  "toy_breaker = \<lparr>tb_default = True,
     tb_record = (\<lambda>ok ty po now b. (ok, if ok = b then None else Some (if ok then Closed else Open))),
     tb_state_at = (\<lambda>po now b. if b then Closed else Open),
     tb_from_json = (\<lambda>t. if t = ''open'' then Some False else None),
     tb_to_json = (\<lambda>b. if b then ''closed'' else ''open'')\<rparr>"

definition toy_cfg :: CircuitBreakerConfig where
  "toy_cfg = \<lparr>cbc_enabled = True, cbc_error_pct = 50, cbc_min_samples = 4, cbc_window_secs = 60, cbc_open_secs = 30\<rparr>"

definition parse_digits_f64 :: "string \<Rightarrow> real option" where
  "parse_digits_f64 t = map_option real (parse_nat t)"

lemma record_state:
  "fst (lua_health_record R K i now ws m ttl s) =
     (let s1 = zremrangebyscore K (samples_key i) ws s;
          over = int (zcard K s1 (samples_key i)) - int SAMPLE_CAP;
          s2 = (if 0 < over then zremrangebyrank K (samples_key i) 0 (over - 1) s1 else s1)
      in hincrby R (counters_key i) ''lifetime_requests'' 1
           (expire R (samples_key i) (int ttl) (zadd K (samples_key i) now m s2)))"
  by (simp add: lua_health_record_def Let_def split: prod.split)

lemma zrange_after_first_sample:
  "zrangebyscore mem_kv (fst (lua_health_record kv_mem_redis mem_kv uuid_nil 100000 40000 (sample_member 7 120 True) 120 kv_empty))
     (samples_key uuid_nil) 40000 = [sample_member 7 120 True]"
  by (simp add: record_state mem_kv_def kv_mem_redis_def km_zput_def km_zset_def kv_empty_def SAMPLE_CAP_def Let_def)

theorem snapshot_agrees_with_record_witness:
  "rh_total (health_snapshot kv_mem_redis mem_kv toy_breaker parse_digits_f64 toy_cfg uuid_nil 100000
     (fst (lua_health_record kv_mem_redis mem_kv uuid_nil 100000 40000 (sample_member 7 120 True) 120 kv_empty))) = 1"
proof -
  let ?s1 = "fst (lua_health_record kv_mem_redis mem_kv uuid_nil 100000 40000 (sample_member 7 120 True) 120 kv_empty)"
  obtain raw n errs ew life where r: "lua_health_record kv_mem_redis mem_kv uuid_nil 100000 40000
      (sample_member 7 120 True) 120 kv_empty = (?s1, raw, n, errs, ew, life)"
    by (metis fst_conv prod_cases6)
  have f: "\<forall>n. parse_digits_f64 (show_nat n) = Some (real n)" by (simp add: parse_digits_f64_def)
  have w: "(40000 :: int) = 100000 - int (cbc_window_secs toy_cfg) * 1000" by (simp add: toy_cfg_def)
  have m: "\<forall>m \<in> set (zrangebyscore mem_kv ?s1 (samples_key uuid_nil) 40000). is_sample m"
    unfolding zrange_after_first_sample by (auto simp: is_sample_def)
  have e: "kv_err mem_kv ?s1 (samples_key uuid_nil) = None"
    by (simp add: record_state mem_kv_def kv_mem_redis_def mem_redis_def km_zput_def km_zset_def kv_empty_def
        SAMPLE_CAP_def Let_def)
  from snapshot_agrees_with_record [OF f r w m e, of toy_breaker]
  have "int (rh_total (health_snapshot kv_mem_redis mem_kv toy_breaker parse_digits_f64 toy_cfg uuid_nil 100000 ?s1)) =
      int (length (zrangebyscore mem_kv ?s1 (samples_key uuid_nil) 40000))" by argo
  then show ?thesis unfolding zrange_after_first_sample by simp
qed

subsection \<open>One line of transitions\<close>

definition state_text :: "'s redis_kv \<Rightarrow> uuid \<Rightarrow> 's \<Rightarrow> string" where
  "state_text K route_id s = unwrap_or (kv_get K s (state_key route_id)) ''''"

text \<open>What a completion, given the text it read, would write.\<close>

definition breaker_step :: "'b tw_breaker \<Rightarrow> CircuitBreakerConfig \<Rightarrow> string \<Rightarrow> string \<Rightarrow> bool" where
  "breaker_step T cfg t t' \<longleftrightarrow>
     (\<exists>tally is_error now b wipe. breaker_write T cfg t tally is_error now = (b, Some (t', wipe)))"

text \<open>
  Replicas that record completions of one route, interleaved script by script: the server's state, the writes
  the replicas have computed and not yet tried, and the texts the breaker has had, the latest first.
\<close>

inductive replicas ::
  "'s redis \<Rightarrow> 's redis_kv \<Rightarrow> 'b tw_breaker \<Rightarrow> CircuitBreakerConfig \<Rightarrow> uuid \<Rightarrow> 's \<Rightarrow> (string \<times> string \<times> bool) list \<Rightarrow> string list \<Rightarrow> bool"
  for R K T cfg route_id where
  start: "replicas R K T cfg route_id s [] [state_text K route_id s]"
| completion: "replicas R K T cfg route_id s pending texts \<Longrightarrow>
    lua_health_record R K route_id now ws (sample_member sq lat is_error) (ttl_secs cfg) s = (s', raw, n, errs, ew, life) \<Longrightarrow>
    breaker_write T cfg raw \<lparr>ty_total = sat_u32 n, ty_errors = sat_u32 errs\<rparr> is_error now = (b, Some (new, wipe)) \<Longrightarrow>
    replicas R K T cfg route_id s' ((raw, new, wipe) # pending) texts"
| unchanged: "replicas R K T cfg route_id s pending texts \<Longrightarrow>
    lua_health_record R K route_id now ws (sample_member sq lat is_error) (ttl_secs cfg) s = (s', raw, n, errs, ew, life) \<Longrightarrow>
    replicas R K T cfg route_id s' pending texts"
| written: "replicas R K T cfg route_id s (p1 @ (raw, new, wipe) # p2) texts \<Longrightarrow>
    lua_cas K route_id raw new (ttl_secs cfg) wipe s = (s', 1) \<Longrightarrow>
    replicas R K T cfg route_id s' (p1 @ p2) (new # texts)"
| beaten: "replicas R K T cfg route_id s (p1 @ (raw, new, wipe) # p2) texts \<Longrightarrow>
    lua_cas K route_id raw new (ttl_secs cfg) wipe s = (s', 0) \<Longrightarrow>
    replicas R K T cfg route_id s' (p1 @ p2) texts"
| expired: "replicas R K T cfg route_id s pending texts \<Longrightarrow> state_text K route_id s' = '''' \<Longrightarrow>
    replicas R K T cfg route_id s' pending ('''' # texts)"

fun linked :: "('a \<Rightarrow> 'a \<Rightarrow> bool) \<Rightarrow> 'a list \<Rightarrow> bool" where
  "linked P (y # x # xs) = (P x y \<and> linked P (x # xs))"
| "linked P xs = True"

definition transition :: "'b tw_breaker \<Rightarrow> CircuitBreakerConfig \<Rightarrow> string \<Rightarrow> string \<Rightarrow> bool" where
  "transition T cfg t t' \<longleftrightarrow> t' = '''' \<or> breaker_step T cfg t t'"

definition replicas_inv ::
  "'s redis_kv \<Rightarrow> 'b tw_breaker \<Rightarrow> CircuitBreakerConfig \<Rightarrow> uuid \<Rightarrow> 's \<Rightarrow> (string \<times> string \<times> bool) list \<Rightarrow> string list \<Rightarrow> bool" where
  "replicas_inv K T cfg route_id s pending texts \<longleftrightarrow>
     texts \<noteq> [] \<and> hd texts = state_text K route_id s \<and> linked (transition T cfg) texts \<and>
     (\<forall>(raw, new, wipe) \<in> set pending. breaker_step T cfg raw new)"

lemma linked_Cons: "linked P xs \<Longrightarrow> xs \<noteq> [] \<Longrightarrow> P (hd xs) y \<Longrightarrow> linked P (y # xs)"
  by (cases xs) auto

lemma health_keys_differ: "state_key i \<noteq> samples_key j" "state_key i \<noteq> counters_key j"
proof -
  have "last (state_key i) \<noteq> last (samples_key j)" "last (state_key i) \<noteq> last (counters_key j)"
    by (simp_all add: state_key_def samples_key_def counters_key_def)
  then show "state_key i \<noteq> samples_key j" "state_key i \<noteq> counters_key j" by auto
qed

context server_laws
begin

lemma record_keeps_text:
  assumes "lua_health_record R K route_id now ws m ttl s = (s', raw, n, errs, ew, life)"
  shows "state_text K route_id s' = state_text K route_id s" "raw = state_text K route_id s"
  using assms
  by (auto simp: lua_health_record_def Let_def state_text_def kv_simps text_hincrby text_expire health_keys_differ
      split: prod.splits if_splits)

lemma cas_text:
  assumes "lua_cas K route_id raw new ttl wipe s = (s', w)"
  shows "w = 1 \<Longrightarrow> state_text K route_id s = raw \<and> state_text K route_id s' = new" "w = 0 \<Longrightarrow> s' = s"
  using assms
  by (auto simp: lua_cas_def Let_def state_text_def kv_simps health_keys_differ split: if_splits)

lemma replicas_keep_inv: "replicas R K T cfg route_id s pending texts \<Longrightarrow> replicas_inv K T cfg route_id s pending texts"
proof (induction rule: replicas.induct)
  case (start s)
  show ?case by (simp add: replicas_inv_def)
next
  case (completion s pending texts now ws sq lat is_error s' raw n errs ew life b new wipe)
  from completion(3) have "breaker_step T cfg raw new" unfolding breaker_step_def by blast
  with completion show ?case using record_keeps_text [OF completion(2)] by (auto simp: replicas_inv_def)
next
  case (unchanged s pending texts now ws sq lat is_error s' raw n errs ew life)
  then show ?case using record_keeps_text [OF unchanged(2)] by (simp add: replicas_inv_def)
next
  case (written s p1 raw new wipe p2 texts s')
  then have "breaker_step T cfg raw new" by (auto simp: replicas_inv_def)
  moreover have "state_text K route_id s = raw" "state_text K route_id s' = new"
    using cas_text(1) [OF written(2)] by simp_all
  ultimately show ?case
    using written.IH linked_Cons [of "transition T cfg" texts new] by (auto simp: replicas_inv_def transition_def)
next
  case (beaten s p1 raw new wipe p2 texts s')
  then show ?case using cas_text(2) [OF beaten(2)] by (auto simp: replicas_inv_def)
next
  case (expired s pending texts s')
  then show ?case
    using linked_Cons [of "transition T cfg" texts "''''"] by (auto simp: replicas_inv_def transition_def)
qed

end



end
