(* ===== verification/Routing_Props.thy ===== *)
theory Routing_Props
  imports Routing Health_Props
begin

section \<open>Choosing a route, and failing over: theorems\<close>

text \<open>
  A pick is eligible and there is one whenever something is eligible; a failover asks each provider at most
  once a round and goes back only to those that failed for the moment; and it ends.
\<close>

subsection \<open>The pick\<close>

definition random_ok :: "('s, 'b, 'a) gw_env \<Rightarrow> bool" where
  "random_ok E \<longleftrightarrow> (\<forall>n t. 0 < t \<longrightarrow> 0 \<le> ge_random E n t \<and> ge_random E n t < t)"

text \<open>What selection sees of a route, and the candidates it may still pick before the pin.\<close>

definition seen_health :: "('s, 'b, 'a) gw_env \<Rightarrow> SelectionCtx \<Rightarrow> 's gw \<Rightarrow> RouteEntry \<Rightarrow> RouteHealth" where
  "seen_health E ctx g e = health_snapshot (ge_R E) (ge_K E) (ge_T E) (ge_parse_f64 E) (sc_breaker ctx)
     (re_route_id e) (gw_utc g) (gw_redis g)"

definition open_to :: "('s, 'b, 'a) gw_env \<Rightarrow> SelectionCtx \<Rightarrow> uuid list \<Rightarrow> uuid list \<Rightarrow> 's gw \<Rightarrow> RouteEntry \<Rightarrow> bool" where
  "open_to E ctx tried capped g e \<longleftrightarrow>
     re_provider_id e \<notin> set tried \<and> re_route_id e \<notin> set capped \<and>
     (rh_state (seen_health E ctx g e) = Open \<longrightarrow> (\<exists>p. sc_pin ctx = Some (PinOnly p)))"

text \<open>An eligible candidate: open to the request, and with the provider that holds its sealed history where it must be.\<close>

definition eligible ::
  "('s, 'b, 'a) gw_env \<Rightarrow> SelectionCtx \<Rightarrow> RouteEntry list \<Rightarrow> uuid list \<Rightarrow> uuid list \<Rightarrow> 's gw \<Rightarrow> RouteEntry \<Rightarrow> bool" where
  "eligible E ctx cands tried capped g e \<longleftrightarrow>
     e \<in> set cands \<and> open_to E ctx tried capped g e \<and>
     (case sc_pin ctx of
        None \<Rightarrow> True
      | Some (PinOnly p) \<Rightarrow> re_provider_id e = p
      | Some (PinFirst p) \<Rightarrow>
          re_provider_id e = p \<or> (\<forall>c \<in> set cands. re_provider_id c = p \<longrightarrow> \<not> open_to E ctx tried capped g c))"

lemma zip_map_self: "zip xs (map f xs) = map (\<lambda>x. (x, f x)) xs"
  by (induction xs) simp_all

lemma map2_map_self: "map2 f xs (map h xs) = map (\<lambda>x. f x (h x)) xs"
  by (induction xs) simp_all

lemma map2_mask: "map2 (\<lambda>x w. if x then 0 else w) (map (\<lambda>e. \<not> P e) xs) (map f xs) = map (\<lambda>e. if P e then f e else 0) xs"
  by (induction xs) simp_all

lemma find_pair_self:
  "map_option fst (find (\<lambda>(e, x). \<not> x \<and> P e) (map (\<lambda>e. (e, F e)) xs)) = find (\<lambda>e. \<not> F e \<and> P e) xs"
  by (induction xs) auto

lemma is_excluded_open:
  "is_excluded ctx tried capped e (seen_health E ctx g e) \<longleftrightarrow> \<not> open_to E ctx tried capped g e"
  by (auto simp: is_excluded_def open_to_def List.member_iff split: option.split Pin.split)

lemma pin_to_holder_map:
  "pin_to_holder cands (map F cands) pin =
     map (\<lambda>e. case pin of
            None \<Rightarrow> F e
          | Some (PinOnly p) \<Rightarrow> F e \<or> re_provider_id e \<noteq> p
          | Some (PinFirst p) \<Rightarrow> F e \<or> (re_provider_id e \<noteq> p \<and> (\<exists>c \<in> set cands. \<not> F c \<and> re_provider_id c = p))) cands"
  by (cases pin)
    (auto simp: pin_to_holder_def zip_map_self list_ex_iff Let_def case_prod_unfold comp_def split: Pin.split)

lemma excluded_list:
  "pin_to_holder cands (map2 (is_excluded ctx tried capped) cands (map (seen_health E ctx g) cands)) (sc_pin ctx) =
     map (\<lambda>e. \<not> eligible E ctx cands tried capped g e) cands"
  unfolding map2_map_self is_excluded_open pin_to_holder_map
  by (rule map_cong [OF refl]) (auto simp: eligible_def split: option.split Pin.split)

definition weight_of :: "SelectionCtx \<Rightarrow> RouteEntry \<Rightarrow> RouteHealth \<Rightarrow> real" where
  "weight_of ctx e h =
     (let s = route_signal e h; w = real (rs_configured_weight s);
          l = latency_factor (rs_ewma_latency_ms s) (sc_latency_k ctx);
          q = health_factor (rs_success_rate s) (sc_latency_k ctx)
      in case sc_strategy ctx of Weighted \<Rightarrow> w | Latency \<Rightarrow> l * w | Health \<Rightarrow> q * w | LatencyHealth \<Rightarrow> l * q * w)"

lemma compute_weights_map:
  "compute_weights (sc_strategy ctx) (map2 route_signal cands (map h cands)) (sc_latency_k ctx) =
     map (\<lambda>e. weight_of ctx e (h e)) cands"
  by (cases "sc_strategy ctx") (simp_all add: map2_map_self weight_of_def Let_def)

lemma weight_of_nonneg: "0 \<le> weight_of ctx e h"
proof -
  have "0 \<le> latency_factor x k" for x k by (simp add: latency_factor_def)
  moreover have "0 \<le> health_factor x k" for x k by (simp add: health_factor_def)
  ultimately show ?thesis by (simp add: weight_of_def Let_def split: RoutingStrategy.split)
qed

lemma weighted_walk_picks:
  assumes "\<forall>w \<in> set ws. 0 \<le> w" "acc \<le> pick" "pick < acc + sum_list ws"
  shows "\<exists>i < length ws. weighted_walk pick acc k ws = Some (k + i) \<and> 0 < ws ! i"
  using assms
proof (induction ws arbitrary: acc k)
  case (Cons w ws)
  show ?case
  proof (cases "pick < acc + w")
    case True
    with Cons.prems(2) have "0 < w" by linarith
    with True show ?thesis by (intro exI [of _ 0]) simp
  next
    case False
    with Cons.prems Cons.IH [of "acc + w" "k + 1"] obtain i
      where "i < length ws" "weighted_walk pick (acc + w) (k + 1) ws = Some (k + 1 + i)" "0 < ws ! i"
      by (auto simp: add.assoc)
    with False show ?thesis by (intro exI [of _ "Suc i"]) simp
  qed
qed simp

lemma mask_nonneg: "\<forall>w \<in> set (map (\<lambda>e. if F e then 0 else weight_of ctx e (h e)) cands). 0 \<le> w"
  by (auto simp: weight_of_nonneg)

lemma find_Some_P: "find P xs = Some x \<Longrightarrow> P x \<and> x \<in> set xs"
  by (induction xs) (auto split: if_splits)

lemma pick_unfold:
  assumes "cands \<noteq> []"
  shows "snd (pick_with_strategy E ctx cands tried capped g) =
    (let ok = eligible E ctx cands tried capped g;
         hits = Option.bind (check_affinity (ge_K E) (ge_parse_uuid E) (sc_user_id ctx) (sc_model_id ctx)
                   (sc_affinity_mode ctx) cands (gw_redis g)) (\<lambda>hit. find (\<lambda>e. ok e \<and> hit_matches hit e) cands);
         masked = map (\<lambda>e. if ok e then weight_of ctx e (seen_health E ctx g e) else 0) cands
     in case hits of
          Some e \<Rightarrow> Some e
        | None \<Rightarrow> if sum_list masked \<le> 0 then find ok cands
                  else map_option (nth cands) (weighted_walk (ge_random E (gw_draws g) (sum_list masked)) 0 0 masked))"
proof -
  let ?ok = "eligible E ctx cands tried capped g"
  have h: "map (\<lambda>e. health_snapshot (ge_R E) (ge_K E) (ge_T E) (ge_parse_f64 E) (sc_breaker ctx)
      (re_route_id e) (gw_utc g) (gw_redis g)) cands = map (seen_health E ctx g) cands"
    by (simp add: seen_health_def)
  have mask: "map2 (\<lambda>x w. if x then 0 else w) (map (\<lambda>e. \<not> ?ok e) cands)
      (map (\<lambda>e. weight_of ctx e (seen_health E ctx g e)) cands) =
      map (\<lambda>e. if ?ok e then weight_of ctx e (seen_health E ctx g e) else 0) cands"
    by (rule map2_mask)
  have aff: "map_option fst (Option.bind a (\<lambda>hit. find (\<lambda>(e, x). \<not> x \<and> hit_matches hit e) (map (\<lambda>e. (e, \<not> ?ok e)) cands))) =
      Option.bind a (\<lambda>hit. find (\<lambda>e. ?ok e \<and> hit_matches hit e) cands)" for a
    by (cases a) (simp_all add: find_pair_self)
  have one: "map_option fst (find (\<lambda>(e, x). \<not> x) (map (\<lambda>e. (e, \<not> ?ok e)) cands)) = find ?ok cands"
    using find_pair_self [of "\<lambda>_. True" "\<lambda>e. \<not> ?ok e" cands] by (simp add: case_prod_unfold)
  show ?thesis
    unfolding pick_with_strategy_def Let_def
    unfolding h
    unfolding excluded_list compute_weights_map
    unfolding mask
    unfolding zip_map_self one aff [symmetric]
    using assms by (simp split: option.split)
qed

lemma pick_eligible:
  assumes "random_ok E"
  shows "case snd (pick_with_strategy E ctx cands tried capped g) of
      Some e \<Rightarrow> eligible E ctx cands tried capped g e
    | None \<Rightarrow> \<forall>e. \<not> eligible E ctx cands tried capped g e"
proof (cases "cands = []")
  case True
  then show ?thesis by (simp add: pick_with_strategy_def eligible_def)
next
  case False
  let ?ok = "eligible E ctx cands tried capped g"
  let ?hits = "Option.bind (check_affinity (ge_K E) (ge_parse_uuid E) (sc_user_id ctx) (sc_model_id ctx)
      (sc_affinity_mode ctx) cands (gw_redis g)) (\<lambda>hit. find (\<lambda>e. ?ok e \<and> hit_matches hit e) cands)"
  let ?masked = "map (\<lambda>e. if ?ok e then weight_of ctx e (seen_health E ctx g e) else 0) cands"
  note unf = pick_unfold [OF False, of E ctx tried capped g, unfolded Let_def]
  have inc: "?ok e \<Longrightarrow> e \<in> set cands" for e by (simp add: eligible_def)
  show ?thesis
  proof (cases ?hits)
    case (Some e)
    then have "?ok e" by (auto simp: bind_eq_Some_conv dest: find_Some_P)
    with Some show ?thesis unfolding unf by simp
  next
    case hits: None
    show ?thesis
    proof (cases "sum_list ?masked \<le> 0")
      case True
      with hits inc show ?thesis unfolding unf by (auto simp: find_None_iff dest: find_Some_P split: option.split)
    next
      case pos: False
      let ?p = "ge_random E (gw_draws g) (sum_list ?masked)"
      from assms pos have "0 \<le> ?p" "?p < 0 + sum_list ?masked" by (auto simp: random_ok_def)
      have "\<forall>w \<in> set ?masked. 0 \<le> w" by (auto simp: weight_of_nonneg)
      from weighted_walk_picks [OF this \<open>0 \<le> ?p\<close> \<open>?p < 0 + sum_list ?masked\<close>, of 0] obtain i
        where i: "i < length ?masked" "weighted_walk ?p 0 0 ?masked = Some (0 + i)" "0 < ?masked ! i" by blast
      then have "?ok (cands ! i)" by (auto split: if_splits)
      with i hits pos show ?thesis unfolding unf by simp
    qed
  qed
qed

lemma pick_keeps: "fst (pick_with_strategy E ctx cands tried capped g) = g \<or>
    fst (pick_with_strategy E ctx cands tried capped g) = g\<lparr>gw_draws := gw_draws g + 1\<rparr>"
  by (auto simp: pick_with_strategy_def Let_def split: option.split prod.split)


subsection \<open>The attempts of a request\<close>

text \<open>What one request leaves of the world besides Redis: the routes it was sent to, and the clock.\<close>

lemma record_health_keeps [simp]:
  "gw_sent (record_health E ctx i ms err g) = gw_sent g" "gw_now (record_health E ctx i ms err g) = gw_now g"
  by (simp_all add: record_health_def)

lemma moved_to_sel [simp]:
  "gw_sent (moved_to g m) = gw_sent g" "gw_now (moved_to g m) = fst (snd m)" "gw_draws (moved_to g m) = gw_draws g"
  by (simp_all add: moved_to_def)

lemma pick_keeps_sel:
  assumes "pick_with_strategy E ctx cands tried capped g = (g', r)"
  shows "gw_sent g' = gw_sent g" "gw_now g' = gw_now g"
  using pick_keeps [of E ctx cands tried capped g] assms by auto

definition may_send :: "SelectionCtx \<Rightarrow> RouteEntry list \<Rightarrow> uuid list \<Rightarrow> RouteEntry \<Rightarrow> bool" where
  "may_send ctx cands tried e \<longleftrightarrow> e \<in> set cands \<and> re_provider_id e \<notin> set tried \<and>
     (\<forall>p. sc_pin ctx = Some (PinOnly p) \<longrightarrow> re_provider_id e = p)"

lemma pick_may_send:
  assumes "random_ok E" "pick_with_strategy E ctx cands tried capped g = (g', Some e)"
  shows "may_send ctx cands tried e"
  using pick_eligible [OF assms(1), of ctx cands tried capped g] assms(2)
  by (auto simp: eligible_def open_to_def may_send_def)

lemma route_admit_at_Inl:
  "route_admit_at R caps fc now s = (s', Inl err) \<Longrightarrow> err = limiter_unavailable ''rate_limiter_unavailable''"
  by (auto simp: route_admit_at_def Let_def split: if_splits prod.splits sum.splits)

lemma pick_admitted_loop_keeps:
  assumes "random_ok E" "pick_admitted_loop n E ctx cands tried capped g = (g', capped', res)"
  shows "gw_sent g' = gw_sent g \<and> gw_now g' = gw_now g \<and>
    (case res of Inl err \<Rightarrow> err = limiter_unavailable ''rate_limiter_unavailable''
       | Inr None \<Rightarrow> True | Inr (Some e) \<Rightarrow> may_send ctx cands tried e)"
  using assms(2)
proof (induction n arbitrary: capped g)
  case (Suc n)
  obtain g1 r where p: "pick_with_strategy E ctx cands tried (cr_routes capped) g = (g1, r)" by fastforce
  note keep = pick_keeps_sel [OF p]
  show ?case
  proof (cases r)
    case None
    with Suc.prems p keep show ?thesis by auto
  next
    case (Some e)
    obtain s' a where adm: "route_admit_at (ge_R E) (RouteCaps_of e) (sc_fail_closed ctx) (gw_utc g1) (gw_redis g1) = (s', a)"
      by fastforce
    from pick_may_send [OF assms(1)] p Some have may: "may_send ctx cands tried e" by blast
    show ?thesis
    proof (cases a)
      case (Inl err)
      with Suc.prems p Some adm keep route_admit_at_Inl show ?thesis by fastforce
    next
      case (Inr ad)
      show ?thesis
      proof (cases ad)
        case Admitted
        with Suc.prems p Some adm Inr keep may show ?thesis by auto
      next
        case (Capped lab secs)
        with Suc.prems p Some adm Inr
        have "pick_admitted_loop n E ctx cands tried (CappedRoutes_add (re_route_id e) lab secs capped)
            (g1\<lparr>gw_redis := s'\<rparr>) = (g', capped', res)" by simp
        from Suc.IH [OF this] keep show ?thesis by simp
      qed
    qed
  qed
qed auto

lemmas pick_admitted_keeps = pick_admitted_loop_keeps [of _ "length cands" _ cands for cands, folded pick_admitted_def]

lemma send_to_sent: "send_to E b e m g = (g', r) \<Longrightarrow> gw_sent g' = gw_sent g @ [e]"
  by (auto simp: send_to_def Let_def split: option.splits prod.splits)

lemma after_attempt_keeps:
  assumes "after_attempt E ctx b started e pr took out g = (g', fl)"
  shows "gw_sent g' = gw_sent g \<and> gw_now g' = gw_now g \<and>
    (case fl of
       Return (Inl err) \<Rightarrow> True
     | Return (Inr (e', a, sel)) \<Rightarrow> e' = e \<and> sl_picked_route_id sel = re_route_id e
     | Proceed pr' \<Rightarrow> pr_tried pr' = pr_tried pr \<and> pr_attempted pr' = pr_attempted pr \<and>
         set (pr_transient pr') \<subseteq> insert (re_provider_id e) (set (pr_transient pr)))"
  using assms by (auto simp: after_attempt_def Let_def split: option.splits sum.splits if_splits)

lemma failover_round_sends:
  assumes "random_ok E" "failover_round n E ctx b started cands m pr g = (g', fl)"
  shows "\<exists>sent. gw_sent g' = gw_sent g @ sent \<and> list_all (may_send ctx cands (pr_tried pr)) sent \<and>
    distinct (map re_provider_id sent) \<and>
    (case fl of
       Return (Inl err) \<Rightarrow> sent = [] \<longrightarrow> err = limiter_unavailable ''rate_limiter_unavailable''
     | Return (Inr (e, a, sel)) \<Rightarrow> sent \<noteq> [] \<and> e = last sent \<and> sl_picked_route_id sel = re_route_id e
     | Proceed pr' \<Rightarrow> set (pr_transient pr') \<subseteq> set (pr_transient pr) \<union> re_provider_id ` set sent \<and>
         (sent = [] \<longrightarrow> pr_last_error pr' = pr_last_error pr))"
  using assms(2)
proof (induction n arbitrary: pr g)
  case (Suc n)
  obtain g1 capped r where p: "pick_admitted E ctx cands (pr_tried pr) (pr_capped pr) g = (g1, capped, r)"
    using prod_cases3 by blast
  note keep = pick_admitted_keeps [OF assms(1) p]
  show ?case
  proof (cases r)
    case (Inl err)
    with Suc.prems p keep show ?thesis by (intro exI [of _ "[]"]) auto
  next
    case (Inr eo)
    show ?thesis
    proof (cases eo)
      case None
      with Suc.prems p Inr keep show ?thesis by (intro exI [of _ "[]"]) auto
    next
      case (Some e)
      let ?pr1 = "pr\<lparr>pr_capped := capped, pr_tried := pr_tried pr @ [re_provider_id e], pr_attempted := True\<rparr>"
      obtain g2 out where snt: "send_to E b e m g1 = (g2, out)" by fastforce
      obtain g3 f3 where aft: "after_attempt E ctx b started e ?pr1 (nat (gw_now g2 - gw_now g1)) out g2 = (g3, f3)"
        by fastforce
      note ak = after_attempt_keeps [OF aft]
      have s3: "gw_sent g3 = gw_sent g @ [e]" using ak send_to_sent [OF snt] keep by simp
      have may: "may_send ctx cands (pr_tried pr) e" using keep Inr Some by simp
      show ?thesis
      proof (cases f3)
        case (Return res)
        with Suc.prems p Inr Some snt aft have "g' = g3" "fl = Return res" by (simp_all add: Let_def)
        with s3 may ak Return show ?thesis by (intro exI [of _ "[e]"]) (auto split: sum.splits)
      next
        case (Proceed pr2)
        with Suc.prems p Inr Some snt aft have "failover_round n E ctx b started cands m pr2 g3 = (g', fl)"
          by (simp add: Let_def)
        from Suc.IH [OF this] obtain sent where sent: "gw_sent g' = gw_sent g3 @ sent"
          "list_all (may_send ctx cands (pr_tried pr2)) sent" "distinct (map re_provider_id sent)"
          "case fl of
             Return (Inl err) \<Rightarrow> sent = [] \<longrightarrow> err = limiter_unavailable ''rate_limiter_unavailable''
           | Return (Inr (e, a, sel)) \<Rightarrow> sent \<noteq> [] \<and> e = last sent \<and> sl_picked_route_id sel = re_route_id e
           | Proceed pr' \<Rightarrow> set (pr_transient pr') \<subseteq> set (pr_transient pr2) \<union> re_provider_id ` set sent \<and>
               (sent = [] \<longrightarrow> pr_last_error pr' = pr_last_error pr2)" by blast
        have t2: "pr_tried pr2 = pr_tried pr @ [re_provider_id e]"
          "set (pr_transient pr2) \<subseteq> insert (re_provider_id e) (set (pr_transient pr))" using ak Proceed by auto
        have "list_all (may_send ctx cands (pr_tried pr)) (e # sent)" "distinct (map re_provider_id (e # sent))"
          using sent(2,3) may t2(1) by (auto simp: may_send_def list_all_iff)
        with sent(1,4) s3 t2(2) show ?thesis
          by (intro exI [of _ "e # sent"]) (auto split: flow.splits sum.splits)
      qed
    qed
  qed
qed auto

definition providers :: "RouteEntry list \<Rightarrow> uuid set" where
  "providers es = re_provider_id ` set es"

definition round_ok :: "SelectionCtx \<Rightarrow> RouteEntry list \<Rightarrow> RouteEntry list \<Rightarrow> bool" where
  "round_ok ctx cands r \<longleftrightarrow> set r \<subseteq> set cands \<and> distinct (map re_provider_id r) \<and>
     (\<forall>p. sc_pin ctx = Some (PinOnly p) \<longrightarrow> providers r \<subseteq> {p})"

lemma round_ok_sent:
  "list_all (may_send ctx cands tried) sent \<Longrightarrow> distinct (map re_provider_id sent) \<Longrightarrow> round_ok ctx cands sent"
  by (auto simp: round_ok_def may_send_def list_all_iff providers_def)

lemma next_round_sends:
  assumes "list_all (may_send ctx cands (pr_tried (next_round cands pr))) sent"
  shows "providers sent \<subseteq> set (pr_transient pr)"
  using assms by (auto simp: may_send_def list_all_iff next_round_def providers_def List.member_iff)

lemma final_error_no_failure:
  assumes "pr_last_error pr = None"
  shows "(\<exists>lab secs. final_error ctx pr = rate_limited lab secs) \<or> (\<exists>msg. final_error ctx pr = ProviderError msg)"
  using assms by (auto simp: final_error_def CappedRoutes_refusal_def unwrap_or_def split: option.splits)

text \<open>The errors of a request that was sent nowhere.\<close>

definition local_refusal :: "GatewayError \<Rightarrow> bool" where
  "local_refusal err \<longleftrightarrow> err = limiter_unavailable ''rate_limiter_unavailable'' \<or>
     (\<exists>lab secs. err = rate_limited lab secs) \<or> (\<exists>msg. err = ProviderError msg)"

lemma failover_loop_sends:
  assumes "random_ok E" "failover_loop fuel E ctx b started cands m pr g = Some (g', b', res)"
  shows "\<exists>rounds. rounds \<noteq> [] \<and> gw_sent g' = gw_sent g @ concat rounds \<and>
    bd_retries b' + 1 = bd_retries b + length rounds \<and> list_all (round_ok ctx cands) rounds \<and>
    list_all (may_send ctx cands (pr_tried pr)) (hd rounds) \<and>
    (\<forall>r \<in> set (tl rounds). providers r \<subseteq> set (pr_transient pr) \<union> providers (hd rounds)) \<and>
    (case res of
       Inr (e, a, sel) \<Rightarrow> concat rounds \<noteq> [] \<and> last (concat rounds) = e \<and> sl_picked_route_id sel = re_route_id e
     | Inl err \<Rightarrow> concat rounds = [] \<longrightarrow> pr_last_error pr = None \<longrightarrow> local_refusal err)"
  using assms(2)
proof (induction fuel arbitrary: b pr g)
  case (Suc fuel)
  obtain g1 fl where rd: "failover_round (length cands) E ctx b started cands m pr g = (g1, fl)" by fastforce
  from failover_round_sends [OF assms(1) rd] obtain sent where sent: "gw_sent g1 = gw_sent g @ sent"
    "list_all (may_send ctx cands (pr_tried pr)) sent" "distinct (map re_provider_id sent)"
    and fl: "case fl of
       Return (Inl err) \<Rightarrow> sent = [] \<longrightarrow> err = limiter_unavailable ''rate_limiter_unavailable''
     | Return (Inr (e, a, sel)) \<Rightarrow> sent \<noteq> [] \<and> e = last sent \<and> sl_picked_route_id sel = re_route_id e
     | Proceed pr' \<Rightarrow> set (pr_transient pr') \<subseteq> set (pr_transient pr) \<union> re_provider_id ` set sent \<and>
         (sent = [] \<longrightarrow> pr_last_error pr' = pr_last_error pr)" by blast
  note ok = round_ok_sent [OF sent(2,3)]
  show ?case
  proof (cases fl)
    case (Return r)
    with Suc.prems rd have "g' = g1" "b' = b" "res = r" by simp_all
    with sent ok fl Return show ?thesis
      by (intro exI [of _ "[sent]"]) (auto simp: local_refusal_def split: sum.splits)
  next
    case (Proceed pr1)
    show ?thesis
    proof (cases "retry_wait E b pr1 g1")
      case None
      with Suc.prems rd Proceed have "g' = g1" "b' = b" "res = Inl (final_error ctx pr1)" by simp_all
      with sent ok fl Proceed final_error_no_failure [of pr1 ctx] show ?thesis
        by (intro exI [of _ "[sent]"]) (auto simp: local_refusal_def)
    next
      case (Some w)
      let ?g2 = "moved_to (g1\<lparr>gw_draws := gw_draws g1 + 1\<rparr>) (ge_sleep E w g1)"
      from Some Suc.prems rd Proceed
      have rec: "failover_loop fuel E ctx (Budget_sent b) started cands m (next_round cands pr1) ?g2 = Some (g', b', res)" by simp
      from Suc.IH [OF rec] obtain rounds where rs: "rounds \<noteq> []" "gw_sent g' = gw_sent ?g2 @ concat rounds"
        "bd_retries b' + 1 = bd_retries (Budget_sent b) + length rounds" "list_all (round_ok ctx cands) rounds"
        "list_all (may_send ctx cands (pr_tried (next_round cands pr1))) (hd rounds)"
        "\<forall>r \<in> set (tl rounds). providers r \<subseteq> set (pr_transient (next_round cands pr1)) \<union> providers (hd rounds)"
        "case res of
           Inr (e, a, sel) \<Rightarrow> concat rounds \<noteq> [] \<and> last (concat rounds) = e \<and> sl_picked_route_id sel = re_route_id e
         | Inl err \<Rightarrow> concat rounds = [] \<longrightarrow> pr_last_error (next_round cands pr1) = None \<longrightarrow> local_refusal err" by blast
      have tr: "set (pr_transient pr1) \<subseteq> set (pr_transient pr) \<union> providers sent"
        using fl Proceed by (simp add: providers_def)
      have "\<forall>r \<in> set rounds. providers r \<subseteq> set (pr_transient pr) \<union> providers sent"
        using rs(1,6) next_round_sends [OF rs(5)] tr by (cases rounds) (auto simp: next_round_def)
      moreover have "sent = [] \<Longrightarrow> pr_last_error pr \<noteq> None"
        using fl Proceed Some by (auto simp: retry_wait_def split: option.splits)
      ultimately show ?thesis
        using rs sent ok by (intro exI [of _ "sent # rounds"]) (auto simp: Budget_sent_def split: sum.splits)
    qed
  qed
qed simp

text \<open>
  Who a request is sent to: the attempts of a request fall into rounds, one more than the retries counted; a
  round asks routes of the model only, each provider at most once, and only the holder of sealed content; every
  later round asks only providers the first round asked. An answer is from the route asked last, and is
  recorded against it; an error with no attempt at all is the gateway's own.
\<close>

theorem failover_rounds:
  assumes "random_ok E" and "select_route_with_failover fuel E ctx b cands m g = Some (g', b', res)"
  shows "\<exists>rounds. gw_sent g' = gw_sent g @ concat rounds \<and> bd_retries b' + 1 = bd_retries b + length rounds \<and>
    (\<forall>r \<in> set rounds. set r \<subseteq> set cands \<and> distinct (map re_provider_id r) \<and>
       (\<forall>p. sc_pin ctx = Some (PinOnly p) \<longrightarrow> re_provider_id ` set r \<subseteq> {p})) \<and>
    (\<forall>r \<in> set (tl rounds). re_provider_id ` set r \<subseteq> re_provider_id ` set (hd rounds)) \<and>
    (case res of
       Inr (e, a, sel) \<Rightarrow> concat rounds \<noteq> [] \<and> last (concat rounds) = e \<and> sl_picked_route_id sel = re_route_id e
     | Inl err \<Rightarrow> concat rounds = [] \<longrightarrow> err = limiter_unavailable ''rate_limiter_unavailable'' \<or>
         (\<exists>lab secs. err = rate_limited lab secs) \<or> (\<exists>msg. err = ProviderError msg))"
proof -
  from failover_loop_sends [OF assms(1) assms(2) [unfolded select_route_with_failover_def]] obtain rounds where rs:
    "gw_sent g' = gw_sent g @ concat rounds" "bd_retries b' + 1 = bd_retries b + length rounds"
    "list_all (round_ok ctx cands) rounds"
    "\<forall>r \<in> set (tl rounds). providers r \<subseteq> set (pr_transient progress_start) \<union> providers (hd rounds)"
    "case res of
       Inr (e, a, sel) \<Rightarrow> concat rounds \<noteq> [] \<and> last (concat rounds) = e \<and> sl_picked_route_id sel = re_route_id e
     | Inl err \<Rightarrow> concat rounds = [] \<longrightarrow> pr_last_error progress_start = None \<longrightarrow> local_refusal err" by blast
  then show ?thesis
    by (intro exI [of _ rounds])
      (auto simp: list_all_iff round_ok_def providers_def progress_start_def local_refusal_def split: sum.splits)
qed

subsection \<open>The loop ends\<close>

text \<open>The clock does not go back while a request is out, a sleep lasts at least as long as asked, and the factor is as drawn.\<close>

definition clock_ok :: "('s, 'b, 'a) gw_env \<Rightarrow> bool" where
  "clock_ok E \<longleftrightarrow>
     (\<forall>e m g. gw_now g \<le> fst (snd (fst (ge_send E e m g)))) \<and>
     (\<forall>h e m g. gw_now g \<le> fst (snd (fst (ge_send_until E h e m g)))) \<and>
     (\<forall>d g. gw_now g + int d \<le> fst (snd (ge_sleep E d g))) \<and>
     (\<forall>n. jitter_ok (ge_jitter E n))"

lemma send_to_now:
  assumes "clock_ok E" "send_to E b e m g = (g', r)"
  shows "gw_now g \<le> gw_now g'"
proof -
  let ?g1 = "g\<lparr>gw_sent := gw_sent g @ [e]\<rparr>" and ?m = "unwrap_or (re_upstream_model e) m"
  have s: "gw_now ?g1 \<le> fst (snd (fst (ge_send E e ?m ?g1)))"
    and u: "gw_now ?g1 \<le> fst (snd (fst (ge_send_until E h e ?m ?g1)))" for h
    using assms(1) unfolding clock_ok_def by blast+
  show ?thesis
  proof (cases "bd_hard b")
    case None
    with assms(2) s show ?thesis by (auto simp: send_to_def Let_def case_prod_unfold)
  next
    case (Some h)
    with assms(2) u [of h] show ?thesis by (auto simp: send_to_def Let_def case_prod_unfold)
  qed
qed

lemma failover_round_now:
  assumes "clock_ok E" "random_ok E" "failover_round n E ctx b started cands m pr g = (g', fl)"
  shows "gw_now g \<le> gw_now g'"
  using assms(3)
proof (induction n arbitrary: pr g)
  case (Suc n)
  obtain g1 capped r where p: "pick_admitted E ctx cands (pr_tried pr) (pr_capped pr) g = (g1, capped, r)"
    using prod_cases3 by blast
  have now1: "gw_now g1 = gw_now g" using pick_admitted_keeps [OF assms(2) p] by simp
  show ?case
  proof (cases "\<exists>e. r = Inr (Some e)")
    case False
    with Suc.prems p now1 show ?thesis by (auto split: sum.splits option.splits)
  next
    case True
    then obtain e where r: "r = Inr (Some e)" by blast
    let ?pr1 = "pr\<lparr>pr_capped := capped, pr_tried := pr_tried pr @ [re_provider_id e], pr_attempted := True\<rparr>"
    obtain g2 out where snt: "send_to E b e m g1 = (g2, out)" by fastforce
    obtain g3 f3 where aft: "after_attempt E ctx b started e ?pr1 (nat (gw_now g2 - gw_now g1)) out g2 = (g3, f3)"
      by fastforce
    have now3: "gw_now g \<le> gw_now g3"
      using now1 send_to_now [OF assms(1) snt] after_attempt_keeps [OF aft] by simp
    show ?thesis
    proof (cases f3)
      case (Return res)
      with Suc.prems p r snt aft now3 show ?thesis by (simp add: Let_def)
    next
      case (Proceed pr2)
      with Suc.prems p r snt aft have "failover_round n E ctx b started cands m pr2 g3 = (g', fl)" by (simp add: Let_def)
      from Suc.IH [OF this] now3 show ?thesis by simp
    qed
  qed
qed simp

lemma failover_loop_ends:
  assumes "clock_ok E" "random_ok E" "bd_deadline b = Some d" "d - gw_now g < int k * int MIN_SAID_WAIT"
  shows "\<exists>r. failover_loop (Suc k) E ctx b started cands m pr g = Some r"
  using assms(3,4)
proof (induction k arbitrary: b pr g)
  case (0 b pr g)
  obtain g1 fl where rd: "failover_round (length cands) E ctx b started cands m pr g = (g1, fl)" by fastforce
  have "retry_wait E b pr1 g1 = None" for pr1
  proof (rule ccontr)
    assume "retry_wait E b pr1 g1 \<noteq> None"
    then obtain w err where "wait_after_taking b (gw_now g1) (ge_jitter E (gw_draws g1)) err (pr_last_took pr1) = Some w"
      by (auto simp: retry_wait_def split: option.splits if_splits)
    from wait_after_taking_Some [OF this] assms(1) 0 failover_round_now [OF assms(1,2) rd] show False
      by (auto simp: clock_ok_def)
  qed
  with rd show ?case by (cases fl) simp_all
next
  case (Suc k b pr g)
  obtain g1 fl where rd: "failover_round (length cands) E ctx b started cands m pr g = (g1, fl)" by fastforce
  show ?case
  proof (cases fl)
    case (Return r)
    with rd show ?thesis by simp
  next
    case (Proceed pr1)
    show ?thesis
    proof (cases "retry_wait E b pr1 g1")
      case None
      with rd Proceed show ?thesis by simp
    next
      case (Some w)
      let ?g2 = "moved_to (g1\<lparr>gw_draws := gw_draws g1 + 1\<rparr>) (ge_sleep E w g1)"
      from Some obtain err where "wait_after_taking b (gw_now g1) (ge_jitter E (gw_draws g1)) err (pr_last_took pr1) = Some w"
        by (auto simp: retry_wait_def split: option.splits if_splits)
      from wait_after_taking_Some [OF this] assms(1) have "MIN_SAID_WAIT \<le> w" by (auto simp: clock_ok_def)
      moreover have "gw_now g1 + int w \<le> gw_now ?g2" using assms(1) by (simp add: clock_ok_def)
      ultimately have "d - gw_now ?g2 < int k * int MIN_SAID_WAIT"
        using Suc.prems(2) failover_round_now [OF assms(1,2) rd] by (simp add: algebra_simps)
      from Suc.IH [OF _ this, of "Budget_sent b" "next_round cands pr1"] Suc.prems(1) rd Proceed Some
      show ?thesis by (simp add: Budget_sent_def)
    qed
  qed
qed

lemma failover_ends:
  assumes "clock_ok E" and "random_ok E"
    and "case bd_deadline b of None \<Rightarrow> True | Some d \<Rightarrow> d - gw_now g < int k * int MIN_SAID_WAIT"
  shows "\<exists>g' b' res. select_route_with_failover (Suc k) E ctx b cands m g = Some (g', b', res)"
proof (cases "bd_deadline b")
  case None
  obtain g1 fl where rd: "failover_round (length cands) E ctx b (gw_now g) cands m progress_start g = (g1, fl)" by fastforce
  have "retry_wait E b pr g1 = None" for pr
    using None by (auto simp: retry_wait_def wait_after_taking_def wait_at_def split: option.splits)
  with rd show ?thesis by (cases fl) (simp_all add: select_route_with_failover_def)
next
  case (Some d)
  with failover_loop_ends [OF assms(1,2) Some, of g k ctx "gw_now g" cands m progress_start] assms(3)
  show ?thesis by (auto simp: select_route_with_failover_def)
qed

text \<open>
  (C23) Failover ends: with a deadline, a number of rounds that the time left allows at a quarter of a second each is
  always enough, because every wait is at least that long and none may end past the deadline; with none, one
  round is enough.
\<close>

theorem failover_terminates:
  assumes "clock_ok E" and "random_ok E"
    and "case bd_deadline b of None \<Rightarrow> True | Some d \<Rightarrow> d - gw_now g < int k * int MIN_SAID_WAIT"
  shows "\<exists>g' b' res. select_route_with_failover (Suc k) E ctx b cands m g = Some (g', b', res)"
  by (rule failover_ends [OF assms])

subsection \<open>Witnesses\<close>

text \<open>An upstream that answers at once, on a server that is up, for one route.\<close>

definition demo_env :: "(kv_mem, bool, unit) gw_env" where
  "demo_env = \<lparr>ge_R = kv_mem_redis, ge_K = mem_kv, ge_T = toy_breaker, ge_parse_uuid = (\<lambda>s. Some s),
     ge_parse_f64 = parse_digits_f64, ge_random = (\<lambda>n t. 0), ge_jitter = (\<lambda>n. 1), ge_between = (\<lambda>n s. s),
     ge_send = (\<lambda>e m g. ((gw_redis g, gw_now g, gw_utc g), Inr ())),
     ge_send_until = (\<lambda>h e m g. ((gw_redis g, gw_now g, gw_utc g), Some (Inr ()))),
     ge_sleep = (\<lambda>d g. (gw_redis g, gw_now g + int d, gw_utc g))\<rparr>"

definition demo_ctx :: SelectionCtx where
  "demo_ctx = \<lparr>sc_model_id = ''m'', sc_user_id = None, sc_strategy = Weighted, sc_affinity_mode = AffinityNone,
     sc_affinity_ttl_secs = 0, sc_latency_k = 2, sc_breaker = toy_cfg, sc_fail_closed = False, sc_pin = None\<rparr>"

definition demo_route :: RouteEntry where
  "demo_route = \<lparr>re_provider_id = uuid_nil, re_route_id = uuid_nil, re_provider_name = ''p'', re_upstream_model = None,
     re_weight = 1, re_rpm_cap = None, re_tpm_cap = None\<rparr>"

definition demo_gw :: "kv_mem gw" where
  "demo_gw = \<lparr>gw_redis = kv_empty, gw_now = 0, gw_utc = 0, gw_draws = 0, gw_sent = []\<rparr>"

lemma demo_env_ok: "random_ok demo_env" "clock_ok demo_env"
  by (simp_all add: random_ok_def clock_ok_def demo_env_def jitter_ok_def)


theorem failover_terminates_witness:
  "\<exists>g' b' res. select_route_with_failover 5 demo_env demo_ctx (Budget_new 0 (from_millis 900)) [demo_route] ''m'' demo_gw =
     Some (g', b', res)"
  using failover_terminates [OF demo_env_ok(2,1), where b = "Budget_new 0 (from_millis 900)" and g = demo_gw and k = 4
      and ctx = demo_ctx and cands = "[demo_route]" and m = "''m''"]
  by (simp add: Budget_new_def checked_add_def from_millis_def demo_gw_def MIN_SAID_WAIT_def)

theorem failover_rounds_witness:
  "\<exists>g' b' res rounds. select_route_with_failover 1 demo_env demo_ctx (Budget_new 0 0) [demo_route] ''m'' demo_gw =
     Some (g', b', res) \<and> gw_sent g' = concat rounds \<and> length rounds = bd_retries b' + 1"
proof -
  obtain g' b' res where r: "select_route_with_failover 1 demo_env demo_ctx (Budget_new 0 0) [demo_route] ''m'' demo_gw =
      Some (g', b', res)"
    using failover_ends [OF demo_env_ok(2,1), where b = "Budget_new 0 0" and g = demo_gw and k = 0 and ctx = demo_ctx
        and cands = "[demo_route]" and m = "''m''"] by (auto simp: Budget_new_def)
  from failover_rounds [OF demo_env_ok(1) r] r show ?thesis by (auto simp: Budget_new_def demo_gw_def)
qed

end
