(* ===== verification/Mcp_Registry.thy ===== *)
theory Mcp_Registry
  imports TW_Prelude
begin

section \<open>The MCP server registry and tool names\<close>

text \<open>
  \<^verbatim>\<open>crates/mcp-gateway/src/registry.rs\<close> with the enumerations of \<^verbatim>\<open>user_token.rs\<close> its record holds, the tool
  patterns of \<^verbatim>\<open>access_control.rs\<close>, the JSON-RPC envelopes of \<^verbatim>\<open>proxy/jsonrpc.rs\<close>, the cache scope of
  \<^verbatim>\<open>server/src/mcp_runtime.rs\<close>, and the namespace prefixes of \<^verbatim>\<open>server/src/handlers/mcp_shared.rs\<close>.

  The \<open>HashMap\<close> behind the registry's lock is an association list in the order its iteration has; the theorems
  hold for every order.
\<close>

subsection \<open>JSON-RPC\<close>

record JsonRpcRequest =
  jq_jsonrpc :: string
  jq_id :: "json option"
  jq_method :: string
  jq_params :: "json option"

record JsonRpcError =
  je_code :: int
  je_message :: string
  je_data :: "json option"

record JsonRpcResponse =
  jr_jsonrpc :: string
  jr_id :: "json option"
  jr_result :: "json option"
  jr_error :: "JsonRpcError option"

definition INVALID_REQUEST :: int where "INVALID_REQUEST = -32600"
definition METHOD_NOT_FOUND :: int where "METHOD_NOT_FOUND = -32601"
definition INVALID_PARAMS :: int where "INVALID_PARAMS = -32602"
definition INTERNAL_ERROR :: int where "INTERNAL_ERROR = -32603"
definition RESOURCE_BUSY :: int where "RESOURCE_BUSY = -32005"
definition NEEDS_USER_CREDENTIALS :: int where "NEEDS_USER_CREDENTIALS = -32050"

lemmas rpc_codes = INVALID_REQUEST_def METHOD_NOT_FOUND_def INVALID_PARAMS_def INTERNAL_ERROR_def
  RESOURCE_BUSY_def NEEDS_USER_CREDENTIALS_def

definition ok_response :: "json option \<Rightarrow> json \<Rightarrow> JsonRpcResponse" where
  "ok_response i r = \<lparr>jr_jsonrpc = ''2.0'', jr_id = i, jr_result = Some r, jr_error = None\<rparr>"

definition err_response :: "json option \<Rightarrow> int \<Rightarrow> string \<Rightarrow> JsonRpcResponse" where
  "err_response i code msg =
     \<lparr>jr_jsonrpc = ''2.0'', jr_id = i, jr_result = None,
      jr_error = Some \<lparr>je_code = code, je_message = msg, je_data = None\<rparr>\<rparr>"

subsection \<open>Tool patterns\<close>

definition NAMESPACE_SEPARATOR :: string where
  "NAMESPACE_SEPARATOR = ''__''"

definition pattern_matches :: "string \<Rightarrow> string \<Rightarrow> bool" where
  "pattern_matches pat name =
     (if pat = ''*'' then True
      else case strip_suffix pat ''__*'' of
             Some server \<Rightarrow>
               if server = [] \<or> find_sub server ''__'' \<noteq> None \<or> CHR ''*'' \<in> set server then False
               else (case split_once name ''__'' of Some (s, t) \<Rightarrow> s = server \<and> t \<noteq> [] | None \<Rightarrow> False)
           | None \<Rightarrow>
               if CHR ''*'' \<in> set pat then False
               else (case split_once pat ''__'' of
                       Some (s, t) \<Rightarrow> if s \<noteq> [] \<and> t \<noteq> [] then pat = name else False
                     | None \<Rightarrow> False))"

definition is_tool_allowed :: "string list option \<Rightarrow> string \<Rightarrow> bool" where
  "is_tool_allowed patterns name =
     (case patterns of None \<Rightarrow> True | Some pats \<Rightarrow> list_ex (\<lambda>p. pattern_matches p name) pats)"

subsection \<open>Servers\<close>

datatype TransportType = StreamableHttp | Sse

datatype ServerStatus = Connected | Disconnected | Unknown

datatype CredentialOwner = PerUser | AdminShared

datatype AuthShape = Anonymous | OAuth | Static

datatype ServerCacheScope = Global | PerCaller

fun CredentialOwner_as_str :: "CredentialOwner \<Rightarrow> string" where
  "CredentialOwner_as_str PerUser = ''per_user''"
| "CredentialOwner_as_str AdminShared = ''admin_shared''"

definition CredentialOwner_parse :: "string \<Rightarrow> CredentialOwner" where
  "CredentialOwner_parse s = (if s = ''admin_shared'' then AdminShared else PerUser)"

fun AuthShape_as_str :: "AuthShape \<Rightarrow> string" where
  "AuthShape_as_str Anonymous = ''anonymous''"
| "AuthShape_as_str OAuth = ''oauth''"
| "AuthShape_as_str Static = ''static''"

definition AuthShape_parse :: "string \<Rightarrow> AuthShape" where
  "AuthShape_parse s = (if s = ''oauth'' then OAuth else if s = ''static'' then Static else Anonymous)"

record McpToolInfo =
  ti_name :: string
  ti_description :: "string option"
  ti_input_schema :: "json option"

record OAuthClientCfg =
  oc_token_endpoint :: string
  oc_authorization_endpoint :: "string option"
  oc_client_id :: string
  oc_client_secret :: "string option"
  oc_scopes :: "string list"

record RegisteredServer =
  sv_id :: uuid
  sv_name :: string
  sv_namespace_prefix :: string
  sv_endpoint_url :: string
  sv_transport_type :: TransportType
  sv_tools :: "McpToolInfo list"
  sv_status :: ServerStatus
  sv_last_health_check :: "int option"
  sv_oauth_cfg :: "OAuthClientCfg option"
  sv_auth_shape :: AuthShape
  sv_credential_owner :: CredentialOwner
  sv_auth_header_name :: string
  sv_auth_value_template :: string
  sv_custom_headers :: "(string \<times> string) list"
  sv_cache_ttl_secs :: "nat option"
  sv_cache_scope :: ServerCacheScope

record ServerAuthCfg =
  ac_credential_owner :: CredentialOwner
  ac_auth_shape :: AuthShape
  ac_oauth_cfg :: "OAuthClientCfg option"
  ac_auth_header_name :: string
  ac_auth_value_template :: string

definition auth_cfg :: "RegisteredServer \<Rightarrow> ServerAuthCfg" where
  "auth_cfg sv =
     \<lparr>ac_credential_owner = sv_credential_owner sv, ac_auth_shape = sv_auth_shape sv,
      ac_oauth_cfg = sv_oauth_cfg sv, ac_auth_header_name = sv_auth_header_name sv,
      ac_auth_value_template = sv_auth_value_template sv\<rparr>"

definition determine_cache_scope :: "AuthShape \<Rightarrow> (string \<times> string) list \<Rightarrow> CredentialOwner \<Rightarrow> ServerCacheScope" where
  "determine_cache_scope shape headers own =
     (if list_ex (\<lambda>h. find_sub (snd h) ''{{user_id}}'' \<noteq> None \<or> find_sub (snd h) ''{{user_email}}'' \<noteq> None) headers
      then PerCaller
      else case (own, shape) of
             (_, Anonymous) \<Rightarrow> Global
           | (AdminShared, _) \<Rightarrow> Global
           | (PerUser, _) \<Rightarrow> PerCaller)"

subsection \<open>The registry\<close>

type_synonym Registry = "(uuid \<times> RegisteredServer) list"

definition is_ascii_lowercase :: "char \<Rightarrow> bool" where
  "is_ascii_lowercase c \<longleftrightarrow> 97 \<le> (of_char c :: nat) \<and> (of_char c :: nat) \<le> 122"

definition is_ascii_uppercase :: "char \<Rightarrow> bool" where
  "is_ascii_uppercase c \<longleftrightarrow> 65 \<le> (of_char c :: nat) \<and> (of_char c :: nat) \<le> 90"

definition is_ascii_digit :: "char \<Rightarrow> bool" where
  "is_ascii_digit c \<longleftrightarrow> 48 \<le> (of_char c :: nat) \<and> (of_char c :: nat) \<le> 57"

definition validate_tool_name :: "string \<Rightarrow> bool" where
  "validate_tool_name name \<longleftrightarrow>
     name \<noteq> [] \<and> length name \<le> 255 \<and>
     list_all (\<lambda>c. is_ascii_lowercase c \<or> is_ascii_uppercase c \<or> is_ascii_digit c \<or>
                   c = CHR ''_'' \<or> c = CHR ''-'' \<or> c = CHR ''.'') name"

definition keep_valid :: "McpToolInfo list \<Rightarrow> McpToolInfo list" where
  "keep_valid ts = filter (\<lambda>t. validate_tool_name (ti_name t)) ts"

definition registry_register :: "RegisteredServer \<Rightarrow> Registry \<Rightarrow> Registry" where
  "registry_register sv g =
     (let sv' = sv\<lparr>sv_tools := keep_valid (sv_tools sv)\<rparr> in entry_upd (sv_id sv') (\<lambda>_. sv') sv' g)"

definition registry_unregister :: "uuid \<Rightarrow> Registry \<Rightarrow> Registry" where
  "registry_unregister i g = filter (\<lambda>e. fst e \<noteq> i) g"

definition registry_get :: "Registry \<Rightarrow> uuid \<Rightarrow> RegisteredServer option" where
  "registry_get g i = map_of g i"

definition registry_list :: "Registry \<Rightarrow> RegisteredServer list" where
  "registry_list g = map snd g"

definition registry_update :: "uuid \<Rightarrow> (RegisteredServer \<Rightarrow> RegisteredServer) \<Rightarrow> Registry \<Rightarrow> Registry" where
  "registry_update i f g = map (\<lambda>e. if fst e = i then (i, f (snd e)) else e) g"

definition update_status :: "uuid \<Rightarrow> ServerStatus \<Rightarrow> int \<Rightarrow> Registry \<Rightarrow> Registry" where
  "update_status i st now = registry_update i (\<lambda>sv. sv\<lparr>sv_status := st, sv_last_health_check := Some now\<rparr>)"

definition update_tools :: "uuid \<Rightarrow> McpToolInfo list \<Rightarrow> Registry \<Rightarrow> Registry" where
  "update_tools i ts = registry_update i (\<lambda>sv. sv\<lparr>sv_tools := keep_valid ts\<rparr>)"

definition find_server_for_tool :: "Registry \<Rightarrow> string \<Rightarrow> (RegisteredServer \<times> string) option" where
  "find_server_for_tool g namespaced =
     (case split_once namespaced NAMESPACE_SEPARATOR of
        None \<Rightarrow> None
      | Some (prefix, tool) \<Rightarrow>
          if prefix = [] \<or> tool = [] then None
          else map_option (\<lambda>sv. (sv, tool)) (List.find (\<lambda>sv. sv_namespace_prefix sv = prefix) (map snd g)))"

definition namespaced :: "RegisteredServer \<Rightarrow> string \<Rightarrow> string" where
  "namespaced sv tool = sv_namespace_prefix sv @ NAMESPACE_SEPARATOR @ tool"

definition get_all_tools :: "Registry \<Rightarrow> uuid list option \<Rightarrow> (string \<times> McpToolInfo) list" where
  "get_all_tools g filter_ids =
     concat (map (\<lambda>sv. map (\<lambda>t. (namespaced sv (ti_name t), t)) (sv_tools sv))
       (filter (\<lambda>sv. case filter_ids of None \<Rightarrow> True | Some ids \<Rightarrow> sv_id sv \<in> set ids) (map snd g)))"

subsection \<open>Namespace prefixes\<close>

text \<open>
  \<^verbatim>\<open>char::to_lowercase\<close> on the characters of the model; a character it maps outside \<^verbatim>\<open>[a-z0-9]\<close> becomes an
  underscore whatever it is.
\<close>

definition to_lowercase :: "char \<Rightarrow> char" where
  "to_lowercase c = (if is_ascii_uppercase c then char_of (of_char c + 32 :: nat) else c)"

definition trim_matches :: "char \<Rightarrow> string \<Rightarrow> string" where
  "trim_matches c s = rev (dropWhile (\<lambda>x. x = c) (rev (dropWhile (\<lambda>x. x = c) s)))"

definition prefix_char :: "char \<Rightarrow> bool" where
  "prefix_char c \<longleftrightarrow> is_ascii_lowercase c \<or> is_ascii_digit c"

definition normalize_namespace_prefix :: "string option \<Rightarrow> string \<Rightarrow> string + string" where
  "normalize_namespace_prefix explicit fallback_name =
     (case explicit of
        Some p \<Rightarrow>
          if \<not> list_all (\<lambda>c. prefix_char c \<or> c = CHR ''_'') p \<or> p = [] \<or> 32 < length p
          then Inl ''namespace_prefix must match [a-z0-9_]{1,32}''
          else Inr p
      | None \<Rightarrow>
          (let derived = take 32 (trim_matches (CHR ''_'')
             (map (\<lambda>c. if prefix_char c then c else CHR ''_'') (map to_lowercase fallback_name)))
           in if derived = []
              then Inl ''Could not derive namespace_prefix from name; please provide one explicitly ([a-z0-9_]{1,32})''
              else Inr derived))"

end
