(* ===== verification/Mcp_Stream.thy ===== *)
theory Mcp_Stream
  imports Lifecycle Mcp_Registry
begin

section \<open>Server-sent events of MCP servers\<close>

text \<open>
  \<^verbatim>\<open>crates/mcp-gateway/src/proxy/streaming.rs\<close> and the parser of \<^verbatim>\<open>pool.rs\<close>: the events of an upstream stream as it is
  passed through chunk by chunk, the events of one that was read whole, the choice of the response among them,
  and the replay of a buffered answer as events. Texts are bytes. A chunk is an error, or bytes with whether the
  stream's memory budget admits them. The JSON parser and printer are parameters.
\<close>

subsection \<open>UTF-8\<close>

definition byte_in :: "char \<Rightarrow> nat \<Rightarrow> nat \<Rightarrow> bool" where
  "byte_in c lo hi \<longleftrightarrow> lo \<le> of_char c \<and> (of_char c :: nat) \<le> hi"

text \<open>
  The bytes after a leading byte: for each, the range it has to be in. No entry for a byte that starts nothing.
\<close>

definition utf8_tail :: "char \<Rightarrow> (nat \<times> nat) list option" where
  "utf8_tail c =
     (if byte_in c 0 0x7F then Some []
      else if byte_in c 0xC2 0xDF then Some [(0x80, 0xBF)]
      else if byte_in c 0xE0 0xE0 then Some [(0xA0, 0xBF), (0x80, 0xBF)]
      else if byte_in c 0xED 0xED then Some [(0x80, 0x9F), (0x80, 0xBF)]
      else if byte_in c 0xE1 0xEF then Some [(0x80, 0xBF), (0x80, 0xBF)]
      else if byte_in c 0xF0 0xF0 then Some [(0x90, 0xBF), (0x80, 0xBF), (0x80, 0xBF)]
      else if byte_in c 0xF1 0xF3 then Some [(0x80, 0xBF), (0x80, 0xBF), (0x80, 0xBF)]
      else if byte_in c 0xF4 0xF4 then Some [(0x80, 0x8F), (0x80, 0xBF), (0x80, 0xBF)]
      else None)"

fun utf8_take :: "(nat \<times> nat) list \<Rightarrow> string \<Rightarrow> nat" where
  "utf8_take (r # rs) (c # s) = (if byte_in c (fst r) (snd r) then Suc (utf8_take rs s) else 0)"
| "utf8_take _ _ = 0"

text \<open>\<^verbatim>\<open>String::from_utf8_lossy\<close>: a maximal part of a character that does not complete becomes U+FFFD.\<close>

function from_utf8_lossy :: "string \<Rightarrow> string" where
  "from_utf8_lossy [] = []"
| "from_utf8_lossy (c # s) =
     (case utf8_tail c of
        None \<Rightarrow> [CHR 0xEF, CHR 0xBF, CHR 0xBD] @ from_utf8_lossy s
      | Some rs \<Rightarrow>
          (let n = utf8_take rs s in
           (if n = length rs then c # take n s else [CHR 0xEF, CHR 0xBF, CHR 0xBD]) @ from_utf8_lossy (drop n s)))"
  by pat_completeness auto
termination by (relation "measure length") auto

subsection \<open>Events\<close>

definition LF2 :: string where "LF2 = [CHR 0x0A, CHR 0x0A]"
definition CRLF2 :: string where "CRLF2 = [CHR 0x0D, CHR 0x0A, CHR 0x0D, CHR 0x0A]"

definition find_sse_event_terminator :: "string \<Rightarrow> nat option" where
  "find_sse_event_terminator s =
     (let lf = map_option (\<lambda>i. i + 2) (find_sub s LF2);
          crlf = map_option (\<lambda>i. i + 4) (find_sub s CRLF2)
      in case (lf, crlf) of
           (Some a, Some b) \<Rightarrow> Some (min a b)
         | (Some a, None) \<Rightarrow> Some a
         | (None, b) \<Rightarrow> b)"

text \<open>\<^verbatim>\<open>str::lines\<close>: a line ends with a line feed, and the carriage return before it goes too.\<close>

definition strip_cr :: "string \<Rightarrow> string" where
  "strip_cr l = unwrap_or (strip_suffix l [CHR 0x0D]) l"

definition str_lines :: "string \<Rightarrow> string list" where
  "str_lines s =
     (let ps = split_on (CHR 0x0A) s
      in map strip_cr (butlast ps) @ (if last ps = [] then [] else [last ps]))"

definition str_trim_start :: "string \<Rightarrow> string" where
  "str_trim_start s = trim_start_fuel (length s) s"

definition data_lines :: "string \<Rightarrow> string list" where
  "data_lines blk = map str_trim_start (List.map_filter (\<lambda>l. strip_prefix l ''data:'') (str_lines blk))"

fun join_lf :: "string list \<Rightarrow> string" where
  "join_lf [] = []"
| "join_lf [p] = p"
| "join_lf (p # q # ps) = p @ CHR 0x0A # join_lf (q # ps)"

definition extract_sse_data_payload :: "string \<Rightarrow> string option" where
  "extract_sse_data_payload blk = (if data_lines blk = [] then None else Some (join_lf (data_lines blk)))"

subsection \<open>The response among the events\<close>

definition response_shaped :: "json \<Rightarrow> bool" where
  "response_shaped e \<longleftrightarrow> json_get e ''result'' \<noteq> None \<or> json_get e ''error'' \<noteq> None"

text \<open>\<open>from_value\<close> is \<^verbatim>\<open>serde_json::from_value\<close> into a response.\<close>

definition pick_event :: "json list \<Rightarrow> json option \<Rightarrow> json option" where
  "pick_event events request_id =
     (let pick = (\<lambda>with_id. List.find (\<lambda>e. response_shaped e \<and>
                    (with_id \<longrightarrow> (case request_id of Some rid \<Rightarrow> json_get e ''id'' = Some rid | None \<Rightarrow> False))) (rev events))
      in case pick True of Some e \<Rightarrow> Some e | None \<Rightarrow> pick False)"

definition pick_response_envelope ::
  "(json \<Rightarrow> string + JsonRpcResponse) \<Rightarrow> json list \<Rightarrow> json option \<Rightarrow> JsonRpcResponse option" where
  "pick_response_envelope from_value events request_id =
     (case pick_event events request_id of
        None \<Rightarrow> None
      | Some e \<Rightarrow> (case from_value e of Inr r \<Rightarrow> Some r | Inl _ \<Rightarrow> None))"

datatype ReadError = TooLarge | Busy | Transport string

datatype PoolError = RequestFailed string | PoolUpstreamError nat string | ParseError string | Buffering ReadError

fun ReadError_show :: "ReadError \<Rightarrow> string" where
  "ReadError_show TooLarge = ''The response exceeds the gateway buffering limit''"
| "ReadError_show Busy = ''The gateway buffering budget is occupied; retry shortly''"
| "ReadError_show (Transport e) = e"

fun PoolError_show :: "PoolError \<Rightarrow> string" where
  "PoolError_show (RequestFailed e) = ''HTTP request to upstream MCP server failed: '' @ e"
| "PoolError_show (PoolUpstreamError status body) =
     ''Upstream MCP server returned non-success status '' @ show_nat status @ '': '' @ body"
| "PoolError_show (ParseError e) = ''Failed to parse upstream JSON-RPC response: '' @ e"
| "PoolError_show (Buffering e) = ReadError_show e"

definition error_response :: "json option \<Rightarrow> PoolError \<Rightarrow> JsonRpcResponse" where
  "error_response i e =
     err_response i (if e = Buffering Busy then RESOURCE_BUSY else INTERNAL_ERROR)
       (''Upstream server error: '' @ PoolError_show e)"

subsection \<open>An answer read whole\<close>

definition MAX_AUDIT_EVENTS :: nat where
  "MAX_AUDIT_EVENTS = 1024"

definition parse_event :: "(string \<Rightarrow> json option) \<Rightarrow> string \<Rightarrow> json" where
  "parse_event from_str buf = unwrap_or (from_str buf) (JString buf)"

definition flush_event :: "(string \<Rightarrow> json option) \<Rightarrow> string \<Rightarrow> json list \<times> nat \<Rightarrow> json list \<times> nat" where
  "flush_event from_str buf et =
     (if buf = [] then et
      else let e = parse_event from_str buf in
           if response_shaped e \<or> length (fst et) < MAX_AUDIT_EVENTS then (fst et @ [e], snd et)
           else (fst et, snd et + 1))"

fun sse_lines :: "(string \<Rightarrow> json option) \<Rightarrow> string list \<Rightarrow> string \<Rightarrow> json list \<times> nat \<Rightarrow> json list \<times> nat" where
  "sse_lines from_str [] buf et = flush_event from_str buf et"
| "sse_lines from_str (l # ls) buf et =
     (case strip_prefix l ''data:'' of
        Some p \<Rightarrow> sse_lines from_str ls (buf @ (if buf = [] then [] else [CHR 0x0A]) @ str_trim_start p) et
      | None \<Rightarrow>
          if l = [] then sse_lines from_str ls [] (flush_event from_str buf et)
          else sse_lines from_str ls buf et)"

definition sse_events :: "(string \<Rightarrow> json option) \<Rightarrow> string \<Rightarrow> json list" where
  "sse_events from_str txt =
     (case sse_lines from_str (str_lines txt) [] ([], 0) of
        (events, dropped) \<Rightarrow>
          if 0 < dropped then events @ [JObject [(''_truncated_events'', JNumber (show_nat dropped))]] else events)"

definition match_event :: "json list \<Rightarrow> json option \<Rightarrow> json option" where
  "match_event events request_id =
     (case request_id of
        Some rid \<Rightarrow>
          (case List.find (\<lambda>e. case json_get e ''id'' of Some i \<Rightarrow> i = rid \<and> response_shaped e | None \<Rightarrow> False) (rev events) of
             Some e \<Rightarrow> Some e
           | None \<Rightarrow> List.find response_shaped (rev events))
      | None \<Rightarrow> List.find response_shaped (rev events))"

definition parse_sse_json_rpc ::
  "(string \<Rightarrow> json option) \<Rightarrow> (json \<Rightarrow> string + JsonRpcResponse) \<Rightarrow> (json list \<Rightarrow> string + string) \<Rightarrow> string \<Rightarrow>
   json option \<Rightarrow> PoolError + JsonRpcResponse \<times> string" where
  "parse_sse_json_rpc from_str from_value to_string txt request_id =
     (let events = sse_events from_str txt in
      if events = [] then Inl (ParseError ''No SSE events found in stream'')
      else case match_event events request_id of
             None \<Rightarrow> Inl (ParseError (''SSE stream had '' @ show_nat (length events) @
               '' event(s) but none carried a result or error''))
           | Some e \<Rightarrow>
               (case from_value e of
                  Inl err \<Rightarrow> Inl (ParseError (''matched SSE event failed to deserialize: '' @ err))
                | Inr r \<Rightarrow>
                    (case to_string events of
                       Inl err \<Rightarrow> Inl (ParseError (''audit serialization: '' @ err))
                     | Inr body \<Rightarrow> Inr (r, body))))"

subsection \<open>The pump\<close>

lemma find_terminator_bound:
  "find_sse_event_terminator s = Some e \<Longrightarrow> 0 < e \<and> e \<le> length s"
  using find_sub_Some [of s LF2] find_sub_Some [of s CRLF2]
  by (fastforce simp: find_sse_event_terminator_def Let_def LF2_def CRLF2_def split: option.splits)

function drain_events :: "string \<Rightarrow> string list \<times> string" where
  "drain_events buf =
     (case find_sse_event_terminator buf of
        None \<Rightarrow> ([], buf)
      | Some e \<Rightarrow>
          (case drain_events (drop e buf) of
             (ps, rest) \<Rightarrow>
               ((case extract_sse_data_payload (take e buf) of
                   Some p \<Rightarrow> if p = [] then ps else p # ps
                 | None \<Rightarrow> ps), rest)))"
  by pat_completeness auto
termination
  by (relation "measure length") (auto dest: find_terminator_bound)

declare drain_events.simps [simp del]

definition MAX_SSE_EVENT_BYTES :: nat where
  "MAX_SSE_EVENT_BYTES = 8 * 1024 * 1024"

definition trim_end_newlines :: "string \<Rightarrow> string" where
  "trim_end_newlines s = rev (dropWhile (\<lambda>c. c = CHR 0x0A \<or> c = CHR 0x0D) (rev s))"

definition flush_trailing :: "string \<Rightarrow> string list" where
  "flush_trailing buf =
     (let trailing = trim_end_newlines buf in
      if trailing = [] then []
      else case extract_sse_data_payload trailing of
             Some p \<Rightarrow> if p = [] then [] else [p]
           | None \<Rightarrow> [])"

text \<open>
  \<open>pump\<close> is \<^verbatim>\<open>build_passthrough_body\<close> for a consumer that reads to the end: the payloads that go downstream, each of
  which is also kept, parsed, for the audit, and how the stream ended. The answer to a full budget is an extra
  payload that is not kept; \<open>busy\<close> is that payload.
\<close>

fun pump :: "string \<Rightarrow> (string + string \<times> bool) list \<Rightarrow> string \<Rightarrow> string list \<times> string list \<times> StreamOutcome" where
  "pump busy [] buf = (flush_trailing buf, flush_trailing buf, Natural)"
| "pump busy (Inl msg # cs) buf =
     (flush_trailing buf, flush_trailing buf, UpstreamError ''transport'' msg 502)"
| "pump busy (Inr (bytes, admitted) # cs) buf =
     (if \<not> admitted then
        ([busy], [], UpstreamError ''gateway_memory'' ''Gateway buffering capacity is occupied; retry shortly'' 429)
      else if MAX_SSE_EVENT_BYTES < length buf + length bytes then
        (flush_trailing buf, flush_trailing buf,
         UpstreamError ''transport''
           (''MCP SSE event exceeded '' @ show_nat MAX_SSE_EVENT_BYTES @ '' bytes without delimiter'') 502)
      else case drain_events (buf @ from_utf8_lossy bytes) of
             (ps, rest) \<Rightarrow>
               (case pump busy cs rest of (sent, kept, outcome) \<Rightarrow> (ps @ sent, ps @ kept, outcome)))"

definition captured :: "(string \<Rightarrow> json option) \<Rightarrow> string list \<Rightarrow> json list" where
  "captured from_str kept = map (parse_event from_str) kept"

subsection \<open>Replay\<close>

text \<open>\<open>parse_array\<close> reads the audit body back; an event or a response that does not print is skipped.\<close>

definition build_replay_payload ::
  "(string \<Rightarrow> json list option) \<Rightarrow> (json \<Rightarrow> string option) \<Rightarrow> (JsonRpcResponse \<Rightarrow> string option) \<Rightarrow> JsonRpcResponse \<Rightarrow>
   string option \<Rightarrow> string list" where
  "build_replay_payload parse_array show_event show_response response audit =
     (let events = (case Option.bind audit parse_array of None \<Rightarrow> [] | Some es \<Rightarrow> List.map_filter show_event es)
      in if events = [] then (case show_response response of Some s \<Rightarrow> [s] | None \<Rightarrow> []) else events)"

subsection \<open>Chunks do not matter, characters do\<close>

lemma starts_with_length: "starts_with s p \<Longrightarrow> length p \<le> length s"
  by (auto simp: starts_with_iff)

lemma starts_with_append_iff: "length p \<le> length s \<Longrightarrow> starts_with (s @ t) p \<longleftrightarrow> starts_with s p"
  by (simp add: starts_with_def)

lemma find_sub_extend: "find_sub s p = Some i \<Longrightarrow> find_sub (s @ t) p = Some i"
proof (induction s arbitrary: i)
  case Nil
  then show ?case by (auto simp: find_sub.simps [of "[]"] find_sub.simps [of t] starts_with_def split: if_splits)
next
  case (Cons c s)
  from find_sub_Some [OF Cons.prems] have "length p \<le> length (c # s)" by auto
  then have "starts_with (c # s @ t) p \<longleftrightarrow> starts_with (c # s) p" using starts_with_append_iff [of p "c # s" t] by simp
  with Cons show ?case by (auto simp: find_sub.simps [of "c # s"] find_sub.simps [of "c # s @ t"] split: if_splits)
qed

lemma find_sub_late:
  assumes "find_sub s p = None" "find_sub (s @ t) p = Some i"
  shows "length s < i + length p"
proof (rule ccontr)
  assume "\<not> length s < i + length p"
  then have le: "i + length p \<le> length s" by simp
  from find_sub_Some [OF assms(2)] obtain r where r: "s @ t = take i (s @ t) @ p @ r" by blast
  have "s = take (length s) (s @ t)" by simp
  also have "\<dots> = take (length s) (take i (s @ t) @ p @ r)" by (rule arg_cong [OF r])
  also have "\<dots> = take i (s @ t) @ p @ take (length s - i - length p) r" using le by simp
  finally show False using find_sub_None [OF assms(1)] by blast
qed

lemma terminator_extend:
  assumes "find_sse_event_terminator s = Some e"
  shows "find_sse_event_terminator (s @ t) = Some e"
proof -
  have len: "i + length p \<le> length s" if "find_sub s p = Some i" for p i using find_sub_Some [OF that] by blast
  have two: "length LF2 = 2" and four: "length CRLF2 = 4" by (simp_all add: LF2_def CRLF2_def)
  consider (lf) a where "find_sub s LF2 = Some a" "find_sub s CRLF2 = None" "e = a + 2"
    | (crlf) b where "find_sub s LF2 = None" "find_sub s CRLF2 = Some b" "e = b + 4"
    | (both) a b where "find_sub s LF2 = Some a" "find_sub s CRLF2 = Some b" "e = min (a + 2) (b + 4)"
    using assms by (cases "find_sub s LF2"; cases "find_sub s CRLF2") (auto simp: find_sse_event_terminator_def)
  then show ?thesis
  proof cases
    case lf
    have "e \<le> i + 4" if "find_sub (s @ t) CRLF2 = Some i" for i
      using find_sub_late [OF lf(2) that] len [OF lf(1)] lf(3) two four by simp
    with find_sub_extend [OF lf(1), of t] lf(3) show ?thesis
      by (cases "find_sub (s @ t) CRLF2") (simp_all add: find_sse_event_terminator_def min_absorb1)
  next
    case crlf
    have "e \<le> i + 2" if "find_sub (s @ t) LF2 = Some i" for i
      using find_sub_late [OF crlf(1) that] len [OF crlf(2)] crlf(3) two four by simp
    with find_sub_extend [OF crlf(2), of t] crlf(3) show ?thesis
      by (cases "find_sub (s @ t) LF2") (simp_all add: find_sse_event_terminator_def min_absorb2)
  next
    case both
    with find_sub_extend [OF both(1), of t] find_sub_extend [OF both(2), of t] show ?thesis
      by (simp add: find_sse_event_terminator_def)
  qed
qed

lemma drain_extend: "drain_events s = (ps, rest) \<Longrightarrow> drain_events (s @ t) = (ps @ fst (drain_events (rest @ t)), snd (drain_events (rest @ t)))"
proof (induction s arbitrary: ps rest rule: drain_events.induct)
  case (1 s)
  show ?case
  proof (cases "find_sse_event_terminator s")
    case None
    with "1.prems" show ?thesis by (simp add: drain_events.simps [of s])
  next
    case (Some e)
    have e: "e \<le> length s" using find_terminator_bound [OF Some] by simp
    obtain qs where d: "drain_events (drop e s) = (qs, rest)"
        and ps: "ps = (case extract_sse_data_payload (take e s) of Some p \<Rightarrow> if p = [] then qs else p # qs | None \<Rightarrow> qs)"
      using "1.prems" Some by (auto simp: drain_events.simps [of s] split: prod.splits)
    from "1.IH" [OF Some d] e have "drain_events (drop e (s @ t)) = (qs @ fst (drain_events (rest @ t)), snd (drain_events (rest @ t)))" by simp
    then show ?thesis using terminator_extend [OF Some, of t] e ps
      by (simp add: drain_events.simps [of "s @ t"] split: option.split)
  qed
qed

lemma drain_rest: "drain_events s = (ps, rest) \<Longrightarrow> drain_events rest = ([], rest)"
proof (induction s arbitrary: ps rest rule: drain_events.induct)
  case (1 s)
  show ?case
  proof (cases "find_sse_event_terminator s")
    case None
    with "1.prems" have "rest = s" by (simp add: drain_events.simps [of s])
    with None show ?thesis by (simp add: drain_events.simps [of s])
  next
    case (Some e)
    with "1.prems" obtain qs where "drain_events (drop e s) = (qs, rest)"
      by (auto simp: drain_events.simps [of s] split: prod.splits)
    from "1.IH" [OF Some this] show ?thesis .
  qed
qed

lemma length_drain_rest: "length (snd (drain_events s)) \<le> length s"
proof (induction s rule: drain_events.induct)
  case (1 s)
  then show ?case
    by (subst drain_events.simps) (force split: option.splits prod.splits)
qed

lemma picks_agree: "pick_event es rid = match_event es rid"
proof (cases rid)
  case None
  have "List.find (\<lambda>e. False) xs = None" for xs :: "json list" by (induction xs) simp_all
  with None show ?thesis by (simp add: pick_event_def match_event_def)
next
  case (Some i)
  have "(\<lambda>e. response_shaped e \<and> json_get e ''id'' = Some i) =
      (\<lambda>e. case json_get e ''id'' of Some j \<Rightarrow> j = i \<and> response_shaped e | None \<Rightarrow> False)"
    by (auto simp: fun_eq_iff split: option.split)
  with Some show ?thesis by (simp add: pick_event_def match_event_def split: option.split)
qed

definition whole :: "string \<Rightarrow> string list \<times> string list \<times> StreamOutcome" where
  "whole txt = (let (ps, rest) = drain_events txt in (ps @ flush_trailing rest, ps @ flush_trailing rest, Natural))"

lemma pump_whole:
  assumes "drain_events buf = ([], buf)" "list_all (\<lambda>c. from_utf8_lossy c = c) cs"
    and "length buf + length (concat cs) \<le> MAX_SSE_EVENT_BYTES"
  shows "pump busy (map (\<lambda>c. Inr (c, True)) cs) buf = whole (buf @ concat cs)"
  using assms
proof (induction cs arbitrary: buf)
  case Nil
  then show ?case by (simp add: whole_def)
next
  case (Cons c cs)
  obtain ps rest where d: "drain_events (buf @ c) = (ps, rest)" by (metis prod.exhaust)
  have "length rest \<le> length buf + length c" using length_drain_rest [of "buf @ c"] d by simp
  then have "pump busy (map (\<lambda>c. Inr (c, True)) cs) rest = whole (rest @ concat cs)"
    using Cons.IH [of rest] drain_rest [OF d] Cons.prems by simp
  moreover have "whole (buf @ concat (c # cs)) =
      (case whole (rest @ concat cs) of (sent, kept, out) \<Rightarrow> (ps @ sent, ps @ kept, out))"
    using drain_extend [OF d, of "concat cs"] by (simp add: whole_def split: prod.split)
  ultimately show ?case using Cons.prems d by (simp split: prod.split)
qed

text \<open>
  (C33) What a client of a stream receives, and what the audit keeps of it, does not depend on how the network cuts
  the upstream's bytes into chunks, as long as no chunk ends inside a character, the stream's budget admits them
  and the whole is no longer than the cap on one event. The response picked from the events is the one the
  buffered reader picks.
\<close>

theorem stream_does_not_depend_on_chunks:
  assumes "concat cs = concat ds" and "list_all (\<lambda>c. from_utf8_lossy c = c) (cs @ ds)"
    and "length (concat cs) \<le> MAX_SSE_EVENT_BYTES"
  shows "pump busy (map (\<lambda>c. Inr (c, True)) cs) [] = pump busy (map (\<lambda>c. Inr (c, True)) ds) [] \<and>
         pick_event (captured from_str kept) rid = match_event (captured from_str kept) rid"
proof -
  have e: "drain_events [] = ([], [])"
    by (simp add: drain_events.simps [of "[]"] find_sse_event_terminator_def LF2_def CRLF2_def find_sub.simps starts_with_def)
  show ?thesis using pump_whole [OF e, of cs] pump_whole [OF e, of ds] assms picks_agree by simp
qed

definition demo_event :: string where
  "demo_event = ''data: hi'' @ LF2"

lemma demo_chunks:
  "concat [''data: hi'', LF2] = concat [demo_event]"
  "list_all (\<lambda>c. from_utf8_lossy c = c) ([''data: hi'', LF2] @ [demo_event])"
  "length (concat [''data: hi'', LF2]) \<le> MAX_SSE_EVENT_BYTES"
  by (simp_all add: demo_event_def LF2_def utf8_tail_def byte_in_def MAX_SSE_EVENT_BYTES_def)

theorem stream_does_not_depend_on_chunks_witness:
  "pump [] [Inr (''data: hi'', True), Inr (LF2, True)] [] = pump [] [Inr (demo_event, True)] []"
  using stream_does_not_depend_on_chunks [OF demo_chunks, where busy = "[]"] by simp

text \<open>
  A chunk that ends inside a character loses it. Each chunk is decoded on its own, so the two bytes C3 A9 of
  one letter become two replacement characters when the network cuts between them, both for the client and in
  the audit; in one chunk they arrive as they were.
\<close>

theorem split_character_is_lost:
  "pump [] [Inr (''data: '' @ [CHR 0xC3, CHR 0xA9] @ LF2, True)] [] = ([[CHR 0xC3, CHR 0xA9]], [[CHR 0xC3, CHR 0xA9]], Natural) \<and>
   pump [] [Inr (''data: '' @ [CHR 0xC3], True), Inr ([CHR 0xA9] @ LF2, True)] [] =
     (let lost = [CHR 0xEF, CHR 0xBF, CHR 0xBD, CHR 0xEF, CHR 0xBF, CHR 0xBD] in ([lost], [lost], Natural))"
proof -
  have u: "from_utf8_lossy (''data: '' @ [CHR 0xC3, CHR 0xA9] @ LF2) = ''data: '' @ [CHR 0xC3, CHR 0xA9] @ LF2"
      "from_utf8_lossy (''data: '' @ [CHR 0xC3]) = ''data: '' @ [CHR 0xEF, CHR 0xBF, CHR 0xBD]"
      "from_utf8_lossy ([CHR 0xA9] @ LF2) = [CHR 0xEF, CHR 0xBF, CHR 0xBD] @ LF2"
    by code_simp+
  have d: "drain_events (''data: '' @ [CHR 0xC3, CHR 0xA9] @ LF2) = ([[CHR 0xC3, CHR 0xA9]], [])"
      "drain_events (''data: '' @ [CHR 0xEF, CHR 0xBF, CHR 0xBD]) = ([], ''data: '' @ [CHR 0xEF, CHR 0xBF, CHR 0xBD])"
      "drain_events ((''data: '' @ [CHR 0xEF, CHR 0xBF, CHR 0xBD]) @ [CHR 0xEF, CHR 0xBF, CHR 0xBD] @ LF2) =
         ([[CHR 0xEF, CHR 0xBF, CHR 0xBD, CHR 0xEF, CHR 0xBF, CHR 0xBD]], [])"
    by code_simp+
  have f: "flush_trailing [] = []" by code_simp
  have len: "length (''data: '' @ [CHR 0xC3, CHR 0xA9] @ LF2) \<le> MAX_SSE_EVENT_BYTES"
      "length (''data: '' @ [CHR 0xC3]) \<le> MAX_SSE_EVENT_BYTES"
      "length (''data: '' @ [CHR 0xEF, CHR 0xBF, CHR 0xBD]) + length ([CHR 0xA9] @ LF2) \<le> MAX_SSE_EVENT_BYTES"
    by (simp_all add: LF2_def MAX_SSE_EVENT_BYTES_def)
  show ?thesis
    using len by (simp only: pump.simps u append_Nil d f list.size(3) add_0 linorder_not_le [symmetric] Let_def) (use d(3) f in simp)
qed


end
