(* ===== verification/Redis_Scan.thy ===== *)
theory Redis_Scan
  imports Redis_Keys
begin

section \<open>Deleting by pattern\<close>

text \<open>
  \<^verbatim>\<open>crates/common/src/redis_keys.rs\<close> on one node and on a cluster, and \<^verbatim>\<open>cached_body\<close> of \<^verbatim>\<open>resources.rs\<close>. The stream
  of a \<^verbatim>\<open>SCAN\<close> is the list of what it yields, keys and errors, and \<^verbatim>\<open>DEL\<close> answers with a count or an error; both
  and the slot of a key are parameters, with the behaviour Redis documents in the locale \<open>scan_laws\<close>: a scan
  without an error yields every key that matches, and a failed \<^verbatim>\<open>DEL\<close> has deleted some of its keys or none.
\<close>

text \<open>A \<^verbatim>\<open>MATCH\<close> glob with \<^verbatim>\<open>*\<close> as its only special character.\<close>

fun star_match :: "string \<Rightarrow> string \<Rightarrow> bool" where
  "star_match [] s = (s = [])"
| "star_match (c # p) s =
     (if c = CHR ''*'' then
        star_match p s \<or> (case s of [] \<Rightarrow> False | _ # t \<Rightarrow> star_match (c # p) t)
      else (case s of [] \<Rightarrow> False | x # t \<Rightarrow> x = c \<and> star_match p t))"

lemma star_match_star: "star_match (CHR ''*'' # p) s \<longleftrightarrow> (\<exists>a b. s = a @ b \<and> star_match p b)"
proof (induction s)
  case Nil
  then show ?case by auto
next
  case (Cons x s)
  have "(\<exists>a b. x # s = a @ b \<and> star_match p b) \<longleftrightarrow> star_match p (x # s) \<or> (\<exists>a b. s = a @ b \<and> star_match p b)"
    by (metis append_Cons append_Nil list.exhaust list.inject)
  then show ?case using Cons.IH by simp
qed

lemma star_match_char: "c \<noteq> CHR ''*'' \<Longrightarrow> star_match (c # p) s \<longleftrightarrow> (\<exists>t. s = c # t \<and> star_match p t)"
  by (cases s) auto

lemma star_match_end: "star_match ''*'' s"
  by (induction s) auto

declare star_match.simps(2) [simp del]

lemma star_match_lit: "CHR ''*'' \<notin> set l \<Longrightarrow> star_match (l @ p) s \<longleftrightarrow> (\<exists>r. s = l @ r \<and> star_match p r)"
  by (induction l arbitrary: s) (auto simp: star_match_char)

lemma star_match_prefix: "CHR ''*'' \<notin> set l \<Longrightarrow> star_match (l @ ''*'') s \<longleftrightarrow> (\<exists>r. s = l @ r)"
  by (simp add: star_match_lit star_match_end)

subsection \<open>The delete\<close>

record 's redis_scan =
  rs_clustered :: bool
  rs_scan :: "string \<Rightarrow> 's \<Rightarrow> (string + string) list"
  rs_del :: "string list \<Rightarrow> 's \<Rightarrow> 's \<times> (string + nat)"
  rs_keyslot :: "string \<Rightarrow> nat"

definition BATCH :: nat where
  "BATCH = 256"

record del_tally =
  dt_deleted :: nat
  dt_failures :: nat
  dt_first :: "string option"

record IncompleteDelete =
  id_deleted :: nat
  id_failures :: nat
  id_first :: string

definition tally_failed :: "string \<Rightarrow> del_tally \<Rightarrow> del_tally" where
  "tally_failed e t =
     t\<lparr>dt_failures := dt_failures t + 1, dt_first := Some (unwrap_or (dt_first t) e)\<rparr>"

definition by_slot :: "(string \<Rightarrow> nat) \<Rightarrow> string list \<Rightarrow> string list list" where
  "by_slot slot keys = map (\<lambda>n. filter (\<lambda>k. slot k = n) keys) (sort (remdups (map slot keys)))"

definition delete_group :: "'s redis_scan \<Rightarrow> string list \<Rightarrow> 's \<times> del_tally \<Rightarrow> 's \<times> del_tally" where
  "delete_group Z ks st =
     (case rs_del Z ks (fst st) of
        (s', Inr n) \<Rightarrow> (s', (snd st)\<lparr>dt_deleted := dt_deleted (snd st) + n\<rparr>)
      | (s', Inl e) \<Rightarrow> (s', tally_failed e (snd st)))"

definition delete_batch :: "'s redis_scan \<Rightarrow> string list \<Rightarrow> 's \<times> del_tally \<Rightarrow> 's \<times> del_tally" where
  "delete_batch Z keys st =
     (if keys = [] then st
      else fold (delete_group Z) (if rs_clustered Z then by_slot (rs_keyslot Z) keys else [keys]) st)"

fun delete_loop :: "'s redis_scan \<Rightarrow> (string + string) list \<Rightarrow> string list \<Rightarrow> 's \<times> del_tally \<Rightarrow> 's \<times> del_tally" where
  "delete_loop Z [] batch st = delete_batch Z batch st"
| "delete_loop Z (x # xs) batch st =
     (let batch' = (case x of Inr k \<Rightarrow> batch @ [k] | Inl e \<Rightarrow> batch);
          st' = (case x of Inr k \<Rightarrow> st | Inl e \<Rightarrow> (fst st, tally_failed e (snd st)))
      in if length batch' = BATCH then delete_loop Z xs [] (delete_batch Z batch' st')
         else delete_loop Z xs batch' st')"

definition delete_all :: "'s redis_scan \<Rightarrow> (string + string) list \<Rightarrow> 's \<Rightarrow> 's \<times> (IncompleteDelete + nat)" where
  "delete_all Z keys s =
     (case delete_loop Z keys [] (s, \<lparr>dt_deleted = 0, dt_failures = 0, dt_first = None\<rparr>) of
        (s', t) \<Rightarrow>
          (s', case dt_first t of
                 None \<Rightarrow> Inr (dt_deleted t)
               | Some e \<Rightarrow> Inl \<lparr>id_deleted = dt_deleted t, id_failures = dt_failures t, id_first = e\<rparr>))"

definition delete_matching :: "'s redis_scan \<Rightarrow> string \<Rightarrow> 's \<Rightarrow> 's \<times> (IncompleteDelete + nat)" where
  "delete_matching Z pat s = delete_all Z (rs_scan Z pat s) s"

subsection \<open>What is gone and what stays\<close>

lemma tally_failed_first [simp]: "dt_first (tally_failed e t) = Some (unwrap_or (dt_first t) e)"
  by (simp add: tally_failed_def)

lemma set_by_slot: "\<Union> (set (map set (by_slot slot keys))) = set keys"
  by (auto simp: by_slot_def)

locale scan_laws = kv_laws K for K :: "'s redis_kv" +
  fixes Z :: "'s redis_scan"
  assumes scan_complete:
      "(\<And>e. Inl e \<notin> set (rs_scan Z pat s)) \<Longrightarrow> kv_get K s k \<noteq> None \<Longrightarrow> star_match pat k \<Longrightarrow> Inr k \<in> set (rs_scan Z pat s)"
    and scan_sound: "Inr k \<in> set (rs_scan Z pat s) \<Longrightarrow> star_match pat k"
    and del_ok: "rs_del Z ks s = (s', Inr n) \<Longrightarrow> kv_get K s' k = (if k \<in> set ks then None else kv_get K s k)"
    and del_err: "rs_del Z ks s = (s', Inl e) \<Longrightarrow> kv_get K s' k = kv_get K s k \<or> (k \<in> set ks \<and> kv_get K s' k = None)"
begin

text \<open>
  What a run of deletes over the keys \<open>ks\<close> guarantees: other texts stay, no text appears, an error stays noted,
  and with no error noted the keys are gone.
\<close>

definition deletes :: "string set \<Rightarrow> 's \<times> del_tally \<Rightarrow> 's \<times> del_tally \<Rightarrow> bool" where
  "deletes ks st st' \<longleftrightarrow>
     (\<forall>k. k \<notin> ks \<longrightarrow> kv_get K (fst st') k = kv_get K (fst st) k) \<and>
     (\<forall>k. kv_get K (fst st) k = None \<longrightarrow> kv_get K (fst st') k = None) \<and>
     (dt_first (snd st) \<noteq> None \<longrightarrow> dt_first (snd st') \<noteq> None) \<and>
     (dt_first (snd st') = None \<longrightarrow> (\<forall>k \<in> ks. kv_get K (fst st') k = None))"

lemma deletes_trans: "deletes a st st' \<Longrightarrow> deletes b st' st'' \<Longrightarrow> deletes (a \<union> b) st st''"
  unfolding deletes_def by (metis Un_iff)

lemma deletes_refl: "deletes {} st st"
  by (simp add: deletes_def)

lemma delete_group_deletes: "deletes (set ks) st (delete_group Z ks st)"
proof (cases "rs_del Z ks (fst st)")
  case (Pair s' r)
  show ?thesis
  proof (cases r)
    case (Inl e)
    with del_err [of ks "fst st" s' e] Pair show ?thesis
      by (auto simp: deletes_def delete_group_def) (metis option.distinct(1))+
  next
    case (Inr n)
    with del_ok [of ks "fst st" s' n] Pair show ?thesis by (simp add: deletes_def delete_group_def)
  qed
qed

lemma fold_deletes: "deletes (\<Union> (set (map set gs))) st (fold (delete_group Z) gs st)"
proof (induction gs arbitrary: st)
  case Nil
  show ?case by (simp add: deletes_refl)
next
  case (Cons g gs)
  from deletes_trans [OF delete_group_deletes [of g st] Cons.IH] show ?case by simp
qed

lemma delete_batch_deletes: "deletes (set keys) st (delete_batch Z keys st)"
proof (cases "keys = []")
  case True
  then show ?thesis by (simp add: delete_batch_def deletes_refl)
next
  case False
  have "\<Union> (set (map set (if rs_clustered Z then by_slot (rs_keyslot Z) keys else [keys]))) = set keys"
    using set_by_slot [of "rs_keyslot Z" keys] by simp
  with fold_deletes [of "if rs_clustered Z then by_slot (rs_keyslot Z) keys else [keys]" st] False
  show ?thesis by (simp only: delete_batch_def if_False)
qed

lemma delete_loop_deletes:
  "deletes (set batch \<union> {k. Inr k \<in> set xs}) st (delete_loop Z xs batch st) \<and>
   ((\<exists>e. Inl e \<in> set xs) \<longrightarrow> dt_first (snd (delete_loop Z xs batch st)) \<noteq> None)"
proof (induction xs arbitrary: batch st)
  case Nil
  show ?case using delete_batch_deletes by simp
next
  case (Cons x xs)
  let ?batch = "case x of Inr k \<Rightarrow> batch @ [k] | Inl e \<Rightarrow> batch"
  let ?st = "case x of Inr k \<Rightarrow> st | Inl e \<Rightarrow> (fst st, tally_failed e (snd st))"
  have noted: "deletes {} st ?st \<and> (\<forall>e. x = Inl e \<longrightarrow> dt_first (snd ?st) \<noteq> None)"
    by (auto simp: deletes_def split: sum.split)
  have keys: "set ?batch \<union> {k. Inr k \<in> set xs} = set batch \<union> {k. Inr k \<in> set (x # xs)}"
    by (auto split: sum.split)
  have step: "deletes (set ?batch \<union> {k. Inr k \<in> set xs}) ?st (delete_loop Z (x # xs) batch st) \<and>
      ((\<exists>e. Inl e \<in> set xs) \<longrightarrow> dt_first (snd (delete_loop Z (x # xs) batch st)) \<noteq> None)"
  proof (cases "length ?batch = BATCH")
    case True
    then have eq: "delete_loop Z (x # xs) batch st = delete_loop Z xs [] (delete_batch Z ?batch ?st)"
      by (simp add: Let_def)
    show ?thesis unfolding eq
      using deletes_trans [OF delete_batch_deletes [of ?batch ?st] Cons.IH [THEN conjunct1, of "[]"]]
        Cons.IH [of "[]" "delete_batch Z ?batch ?st"] by simp
  next
    case False
    then have eq: "delete_loop Z (x # xs) batch st = delete_loop Z xs ?batch ?st" by (simp add: Let_def)
    show ?thesis unfolding eq using Cons.IH [of ?batch ?st] .
  qed
  have "dt_first (snd ?st) \<noteq> None \<longrightarrow> dt_first (snd (delete_loop Z (x # xs) batch st)) \<noteq> None"
    using step [THEN conjunct1] unfolding deletes_def by blast
  with noted step deletes_trans [OF noted [THEN conjunct1] step [THEN conjunct1]] show ?case
    unfolding keys by auto
qed

lemma delete_matching_spec:
  assumes "delete_matching Z pat s = (s', r)"
  shows "(\<not> star_match pat k \<longrightarrow> kv_get K s' k = kv_get K s k) \<and>
    (\<forall>n. r = Inr n \<longrightarrow> star_match pat k \<longrightarrow> kv_get K s' k = None)"
proof -
  let ?t0 = "\<lparr>dt_deleted = 0, dt_failures = 0, dt_first = None\<rparr>"
  let ?res = "delete_loop Z (rs_scan Z pat s) [] (s, ?t0)"
  note loop = delete_loop_deletes [of "[]" "rs_scan Z pat s" "(s, ?t0)"]
  from assms have s': "s' = fst ?res" and r: "(\<exists>n. r = Inr n) \<longleftrightarrow> dt_first (snd ?res) = None"
    by (auto simp: delete_matching_def delete_all_def split: prod.splits option.splits)
  have "\<not> star_match pat k \<Longrightarrow> Inr k \<notin> set (rs_scan Z pat s)" using scan_sound by blast
  moreover have "kv_get K (fst ?res) k = None" if "dt_first (snd ?res) = None" "star_match pat k"
  proof (cases "kv_get K s k")
    case None
    with loop show ?thesis by (simp add: deletes_def)
  next
    case (Some v)
    from that loop have "\<And>e. Inl e \<notin> set (rs_scan Z pat s)" by blast
    from scan_complete [OF this _ that(2)] Some have "Inr k \<in> set (rs_scan Z pat s)" by simp
    with loop that(1) show ?thesis by (simp add: deletes_def)
  qed
  ultimately show ?thesis using loop s' r by (auto simp: deletes_def)
qed

end

subsection \<open>In memory\<close>

definition mem_scan :: "kv_mem redis_scan" where
  "mem_scan = \<lparr>
     rs_clustered = True,
     rs_scan = (\<lambda>pat s. map Inr (filter (star_match pat) (map fst (km_text s)))),
     rs_del = (\<lambda>ks s. (kv_del mem_kv ks s, Inr (length (filter (\<lambda>k. kv_get mem_kv s k \<noteq> None) (remdups ks))))),
     rs_keyslot = length\<rparr>"

interpretation mem_scan: scan_laws mem_kv mem_scan
proof
  show "Inr k \<in> set (rs_scan mem_scan pat s)"
    if "\<And>e. Inl e \<notin> set (rs_scan mem_scan pat s)" "kv_get mem_kv s k \<noteq> None" "star_match pat k" for pat s k
    using that by (auto simp: mem_scan_def mem_kv_def image_iff map_of_eq_None_iff)
qed (auto simp: mem_scan_def mem_kv.get_kv_del)

subsection \<open>Reading a cached body\<close>

definition BODY_HEADROOM :: nat where
  "BODY_HEADROOM = 32"

text \<open>\<open>grant\<close> is the budget of the process; \<open>s\<close> and \<open>s'\<close> are what \<^verbatim>\<open>STRLEN\<close> and \<^verbatim>\<open>GETRANGE\<close> see.\<close>

definition cached_body ::
  "'s redis_kv \<Rightarrow> nat \<Rightarrow> (nat \<Rightarrow> bool) \<Rightarrow> string \<Rightarrow> 's \<Rightarrow> 's \<Rightarrow> string option" where
  "cached_body K max_body grant key s s' =
     (if kv_err K s key \<noteq> None then None
      else let n = length (unwrap_or (kv_get K s key) []) in
           if n = 0 \<or> max_body < n then None
           else if \<not> grant (n * BODY_HEADROOM) then None
           else if kv_err K s' key \<noteq> None then None
           else let bytes = take (n + 1) (unwrap_or (kv_get K s' key) []) in
                if n < length bytes then None else Some bytes)"

lemma cached_body_whole: "cached_body K mb grant key s s' = Some v \<Longrightarrow> v = unwrap_or (kv_get K s' key) [] \<and> length v \<le> mb"
  by (auto simp: cached_body_def Let_def split: if_splits)

end
