(* ===== verification/Mcp_Cache.thy ===== *)
theory Mcp_Cache
  imports Redis_Scan Mcp_Registry
begin

section \<open>The MCP response cache\<close>

text \<open>
  \<^verbatim>\<open>crates/mcp-gateway/src/cache.rs\<close>: the keys with their lanes, the lookup, the store and the three
  invalidations. The serialisation of \<^verbatim>\<open>serde_json\<close> and the hash \<^verbatim>\<open>xxh3_128\<close> are the fields of \<open>codec\<close>.
  Metrics and tracing are left out.
\<close>

subsection \<open>Hexadecimal and UUIDs\<close>

definition hex_digit :: "nat \<Rightarrow> char" where
  "hex_digit d = ''0123456789abcdef'' ! d"

fun hex_pad :: "nat \<Rightarrow> nat \<Rightarrow> string" where
  "hex_pad 0 n = []"
| "hex_pad (Suc w) n = hex_pad w (n div 16) @ [hex_digit (n mod 16)]"

definition hex_encode :: "string \<Rightarrow> string" where
  "hex_encode s = concat (map (\<lambda>c. hex_pad 2 (of_char c)) s)"

text \<open>\<^verbatim>\<open>Uuid::simple\<close>: the hexadecimal digits without the hyphens.\<close>

definition uuid_simple :: "uuid \<Rightarrow> string" where
  "uuid_simple u = filter (\<lambda>c. c \<noteq> CHR ''-'') u"

definition hex_char :: "char \<Rightarrow> bool" where
  "hex_char c \<longleftrightarrow> c \<in> set ''0123456789abcdef''"

text \<open>The hyphenated form: groups of 8, 4, 4, 4 and 12 digits.\<close>

definition uuid_shape :: "uuid \<Rightarrow> bool" where
  "uuid_shape u \<longleftrightarrow>
     map length (split_on (CHR ''-'') u) = [8, 4, 4, 4, 12] \<and> list_all (list_all hex_char) (split_on (CHR ''-'') u)"

subsection \<open>Keys and lanes\<close>

record CallerScope =
  cl_user_id :: uuid
  cl_account_label :: "string option"

record codec =
  cx_params :: "json \<Rightarrow> string option"
  cx_hash :: "string \<Rightarrow> nat"
  cx_enc :: "JsonRpcResponse \<Rightarrow> string option"
  cx_dec :: "string \<Rightarrow> JsonRpcResponse option"

definition KEY_PREFIX :: string where
  "KEY_PREFIX = ''mcp_cache:''"

definition caller_key_parts :: "CallerScope option \<Rightarrow> string \<times> string" where
  "caller_key_parts caller =
     (case caller of
        None \<Rightarrow> (''_'', ''_'')
      | Some c \<Rightarrow>
          (uuid_simple (cl_user_id c),
           case cl_account_label c of
             None \<Rightarrow> ''_''
           | Some l \<Rightarrow> if l = [] then ''_'' else hex_encode l))"

definition req_hash :: "codec \<Rightarrow> JsonRpcRequest \<Rightarrow> string" where
  "req_hash cx rq =
     (let params_json = (case jq_params rq of None \<Rightarrow> [] | Some p \<Rightarrow> unwrap_or (cx_params cx p) [])
      in hex_pad 32 (cx_hash cx (jq_method rq @ '':'' @ params_json)))"

definition cache_key :: "codec \<Rightarrow> uuid \<Rightarrow> CallerScope option \<Rightarrow> JsonRpcRequest \<Rightarrow> string" where
  "cache_key cx server caller rq =
     KEY_PREFIX @ uuid_simple server @ '':'' @ fst (caller_key_parts caller) @ '':'' @
     snd (caller_key_parts caller) @ '':'' @ req_hash cx rq"

definition cache_get ::
  "'s redis_kv \<Rightarrow> codec \<Rightarrow> nat \<Rightarrow> (nat \<Rightarrow> bool) \<Rightarrow> uuid \<Rightarrow> CallerScope option \<Rightarrow> JsonRpcRequest \<Rightarrow> 's \<Rightarrow> 's \<Rightarrow>
   JsonRpcResponse option" where
  "cache_get K cx max_body grant server caller rq s s' =
     Option.bind (cached_body K max_body grant (cache_key cx server caller rq) s s') (cx_dec cx)"

text \<open>The cast \<^verbatim>\<open>ttl_secs as i64\<close> wraps.\<close>

definition as_i64 :: "nat \<Rightarrow> int" where
  "as_i64 n = (if n < 2 ^ 63 then int n else int n - 2 ^ 64)"

definition cache_set ::
  "'s redis_kv \<Rightarrow> codec \<Rightarrow> uuid \<Rightarrow> CallerScope option \<Rightarrow> JsonRpcRequest \<Rightarrow> JsonRpcResponse \<Rightarrow> nat \<Rightarrow> 's \<Rightarrow> 's" where
  "cache_set K cx server caller rq resp ttl s =
     (if jr_error resp \<noteq> None then s
      else let key = cache_key cx server caller rq in
           case cx_enc cx resp of
             None \<Rightarrow> s
           | Some j \<Rightarrow> if kv_err K s key = None then kv_set_ex K key j (as_i64 ttl) s else s)"

definition scope_metric_label :: "CallerScope option \<Rightarrow> string" where
  "scope_metric_label caller =
     (case caller of
        None \<Rightarrow> ''global''
      | Some c \<Rightarrow> (case cl_account_label c of None \<Rightarrow> ''per_user'' | Some l \<Rightarrow> ''per_credential''))"

subsection \<open>Invalidation\<close>

text \<open>The number is what the metric counts.\<close>

definition scan_and_delete :: "'s redis_scan \<Rightarrow> string \<Rightarrow> 's \<Rightarrow> 's \<times> nat" where
  "scan_and_delete Z pat s =
     (case delete_matching Z pat s of
        (s', Inr n) \<Rightarrow> (s', n)
      | (s', Inl e) \<Rightarrow> (s', id_deleted e))"

definition user_lane_pattern :: "uuid \<Rightarrow> uuid \<Rightarrow> string" where
  "user_lane_pattern server user = KEY_PREFIX @ uuid_simple server @ '':'' @ uuid_simple user @ '':*''"

definition server_lane_pattern :: "uuid \<Rightarrow> string" where
  "server_lane_pattern server = KEY_PREFIX @ uuid_simple server @ '':*''"

definition user_all_servers_pattern :: "uuid \<Rightarrow> string" where
  "user_all_servers_pattern user = KEY_PREFIX @ ''*:'' @ uuid_simple user @ '':*''"

definition invalidate_user_lane :: "'s redis_scan \<Rightarrow> uuid \<Rightarrow> uuid \<Rightarrow> 's \<Rightarrow> 's \<times> nat" where
  "invalidate_user_lane Z server user = scan_and_delete Z (user_lane_pattern server user)"

definition invalidate_server_lane :: "'s redis_scan \<Rightarrow> uuid \<Rightarrow> 's \<Rightarrow> 's \<times> nat" where
  "invalidate_server_lane Z server = scan_and_delete Z (server_lane_pattern server)"

definition invalidate_user_lane_all_servers :: "'s redis_scan \<Rightarrow> uuid \<Rightarrow> 's \<Rightarrow> 's \<times> nat" where
  "invalidate_user_lane_all_servers Z user = scan_and_delete Z (user_all_servers_pattern user)"

subsection \<open>Keys tell lanes apart\<close>

lemma hex_digit_char: "d < 16 \<Longrightarrow> hex_char (hex_digit d)"
  unfolding hex_digit_def hex_char_def by (rule nth_mem) simp

lemma hex_digit_inj: "d < 16 \<Longrightarrow> e < 16 \<Longrightarrow> hex_digit d = hex_digit e \<longleftrightarrow> d = e"
  unfolding hex_digit_def by (rule nth_eq_iff_index_eq) simp_all

lemma hex_pad_chars: "list_all hex_char (hex_pad w n)"
  by (induction w arbitrary: n) (simp_all add: hex_digit_char)

lemma length_hex_pad [simp]: "length (hex_pad w n) = w"
  by (induction w arbitrary: n) simp_all

lemma hex_pad_inj: "n < 16 ^ w \<Longrightarrow> m < 16 ^ w \<Longrightarrow> hex_pad w n = hex_pad w m \<longleftrightarrow> n = m"
proof (induction w arbitrary: n m)
  case 0
  then show ?case by simp
next
  case (Suc w)
  then have "n div 16 < 16 ^ w" "m div 16 < 16 ^ w" by (simp_all add: div_less_iff_less_mult)
  with Suc.IH have "hex_pad (Suc w) n = hex_pad (Suc w) m \<longleftrightarrow> n div 16 = m div 16 \<and> n mod 16 = m mod 16"
    by (simp add: hex_digit_inj)
  then show ?case by (metis div_mult_mod_eq)
qed

lemma hex_encode_chars: "list_all hex_char (hex_encode s)"
  using hex_pad_chars by (induction s) (auto simp: hex_encode_def)

lemma hex_encode_eq_Nil [simp]: "hex_encode s = [] \<longleftrightarrow> s = []"
  by (cases s) (auto simp: hex_encode_def dest: arg_cong [of _ _ length])

lemma hex_encode_inj: "hex_encode s = hex_encode t \<longleftrightarrow> s = t"
proof (induction s arbitrary: t)
  case Nil
  show ?case by (metis hex_encode_eq_Nil)
next
  case (Cons c s)
  show ?case
  proof (cases t)
    case Nil
    then show ?thesis by (metis hex_encode_eq_Nil list.distinct(1))
  next
    case (Cons d t')
    have "(of_char c :: nat) < 16 ^ 2" "(of_char d :: nat) < 16 ^ 2"
      using nat_of_char_less_256 [of c] nat_of_char_less_256 [of d] by simp_all
    with Cons.IH [of t'] show ?thesis
      by (simp add: Cons hex_encode_def hex_pad_inj append_eq_append_conv del: hex_pad.simps)
  qed
qed

lemma concat_split_on: "concat (split_on c s) = filter (\<lambda>x. x \<noteq> c) s"
  by (induction s) (auto split: list.splits)

lemma split_on_inj: "split_on c s = split_on c t \<Longrightarrow> s = t"
proof (induction s arbitrary: t)
  case Nil
  then show ?case by (cases t) (auto split: list.splits if_splits)
next
  case (Cons x s)
  then show ?case by (cases t) (auto split: list.splits if_splits)
qed

lemma uuid_simple_inj:
  assumes "uuid_shape u" "uuid_shape v"
  shows "uuid_simple u = uuid_simple v \<longleftrightarrow> u = v"
proof
  assume eq: "uuid_simple u = uuid_simple v"
  let ?a = "split_on (CHR ''-'') u" and ?b = "split_on (CHR ''-'') v"
  from assms have len: "map length ?a = map length ?b" by (simp add: uuid_shape_def)
  from eq have "concat ?a = concat ?b" by (simp add: uuid_simple_def concat_split_on)
  moreover have "length ?a = length ?b" using len by (metis length_map)
  moreover have "\<forall>(x, y) \<in> set (zip ?a ?b). length x = length y"
    using len by (auto simp: set_zip) (metis nth_map)
  ultimately have "?a = ?b" by (rule concat_injective)
  then show "u = v" by (rule split_on_inj)
qed simp

lemma uuid_simple_chars: "uuid_shape u \<Longrightarrow> list_all hex_char (uuid_simple u)"
  unfolding uuid_simple_def concat_split_on [symmetric] by (auto simp: uuid_shape_def list_all_iff)

lemma length_uuid_simple: "uuid_shape u \<Longrightarrow> length (uuid_simple u) = 32"
  unfolding uuid_simple_def concat_split_on [symmetric] by (simp add: uuid_shape_def length_concat)

lemma not_hex_char: "\<not> hex_char (CHR '':'')" "\<not> hex_char (CHR ''_'')" "\<not> hex_char (CHR ''*'')"
  by (simp_all add: hex_char_def)

lemma hex_chars_no: "list_all hex_char s \<Longrightarrow> \<not> hex_char c \<Longrightarrow> c \<notin> set s"
  by (auto simp: list_all_iff)

definition caller_ok :: "CallerScope option \<Rightarrow> bool" where
  "caller_ok caller \<longleftrightarrow> (case caller of None \<Rightarrow> True | Some c \<Rightarrow> uuid_shape (cl_user_id c))"

text \<open>The audience of an entry: everybody, or one user with one credential.\<close>

definition lane :: "CallerScope option \<Rightarrow> (uuid \<times> string) option" where
  "lane caller = map_option (\<lambda>c. (cl_user_id c, unwrap_or (cl_account_label c) [])) caller"

lemma parts_no_colon:
  "caller_ok caller \<Longrightarrow> CHR '':'' \<notin> set (fst (caller_key_parts caller)) \<and> CHR '':'' \<notin> set (snd (caller_key_parts caller))"
  using hex_chars_no [OF uuid_simple_chars not_hex_char(1)] hex_chars_no [OF hex_encode_chars not_hex_char(1)]
  by (auto simp: caller_ok_def caller_key_parts_def split: option.splits)

lemma uuid_simple_not_underscore: "uuid_shape u \<Longrightarrow> uuid_simple u \<noteq> ''_''"
  using length_uuid_simple by fastforce

lemma hex_encode_not_underscore: "hex_encode l \<noteq> ''_''"
  using hex_encode_chars [of l] not_hex_char(2) by (metis list.pred_inject(2))

lemma parts_inj:
  assumes "caller_ok a" "caller_ok b"
  shows "caller_key_parts a = caller_key_parts b \<longleftrightarrow> lane a = lane b"
  using assms uuid_simple_inj uuid_simple_not_underscore hex_encode_not_underscore hex_encode_inj
  by (auto simp: caller_ok_def caller_key_parts_def lane_def split: option.splits) metis+

lemma uuid_simple_no_colon: "uuid_shape u \<Longrightarrow> CHR '':'' \<notin> set (uuid_simple u)"
  by (rule hex_chars_no [OF uuid_simple_chars not_hex_char(1)])

lemma cache_key_eq_iff:
  assumes "uuid_shape u" "uuid_shape v" "caller_ok a" "caller_ok b"
  shows "cache_key cx u a rq = cache_key cx v b rq' \<longleftrightarrow> u = v \<and> lane a = lane b \<and> req_hash cx rq = req_hash cx rq'"
  using parts_no_colon [OF assms(3)] parts_no_colon [OF assms(4)] uuid_simple_no_colon [OF assms(1)]
    uuid_simple_no_colon [OF assms(2)] uuid_simple_inj [OF assms(1,2)] parts_inj [OF assms(3,4)]
  by (auto simp: cache_key_def append_sep_inj prod_eq_iff)

lemma simple_no_star: "uuid_shape u \<Longrightarrow> CHR ''*'' \<notin> set (uuid_simple u)"
  by (rule hex_chars_no [OF uuid_simple_chars not_hex_char(3)])

lemma key_prefix_no_star: "CHR ''*'' \<notin> set KEY_PREFIX"
  by (simp add: KEY_PREFIX_def)

text \<open>Which keys the patterns of the invalidations match.\<close>

lemma user_lane_pattern_match:
  assumes "uuid_shape server" "uuid_shape user" "uuid_shape srv" "caller_ok caller"
  shows "star_match (user_lane_pattern server user) (cache_key cx srv caller rq) \<longleftrightarrow>
    srv = server \<and> map_option fst (lane caller) = Some user"
proof -
  let ?l = "KEY_PREFIX @ uuid_simple server @ '':'' @ uuid_simple user @ '':''"
  have pat: "user_lane_pattern server user = ?l @ ''*''" by (simp add: user_lane_pattern_def)
  have "CHR ''*'' \<notin> set ?l" using simple_no_star assms(1,2) key_prefix_no_star by simp
  then have "star_match (user_lane_pattern server user) (cache_key cx srv caller rq) \<longleftrightarrow>
      (\<exists>r. cache_key cx srv caller rq = ?l @ r)"
    unfolding pat by (rule star_match_prefix)
  also have "\<dots> \<longleftrightarrow> uuid_simple srv = uuid_simple server \<and> fst (caller_key_parts caller) = uuid_simple user"
    using parts_no_colon [OF assms(4)] uuid_simple_no_colon assms(1-3)
    by (auto simp: cache_key_def append_sep_inj)
  also have "\<dots> \<longleftrightarrow> srv = server \<and> map_option fst (lane caller) = Some user"
    using assms uuid_simple_inj uuid_simple_not_underscore [OF assms(2)]
    by (auto simp: caller_key_parts_def lane_def caller_ok_def split: option.splits)
  finally show ?thesis .
qed

lemma server_lane_pattern_match:
  assumes "uuid_shape server" "uuid_shape srv"
  shows "star_match (server_lane_pattern server) (cache_key cx srv caller rq) \<longleftrightarrow> srv = server"
proof -
  let ?l = "KEY_PREFIX @ uuid_simple server @ '':''"
  have pat: "server_lane_pattern server = ?l @ ''*''" by (simp add: server_lane_pattern_def)
  have "CHR ''*'' \<notin> set ?l" using simple_no_star assms(1) key_prefix_no_star by simp
  then have "star_match (server_lane_pattern server) (cache_key cx srv caller rq) \<longleftrightarrow>
      (\<exists>r. cache_key cx srv caller rq = ?l @ r)"
    unfolding pat by (rule star_match_prefix)
  also have "\<dots> \<longleftrightarrow> uuid_simple srv = uuid_simple server"
    using uuid_simple_no_colon assms by (auto simp: cache_key_def append_sep_inj)
  finally show ?thesis using uuid_simple_inj [OF assms(2,1)] by simp
qed

lemma user_all_servers_match_iff:
  assumes "uuid_shape user"
  shows "star_match (user_all_servers_pattern user) k \<longleftrightarrow>
    (\<exists>a b. k = KEY_PREFIX @ a @ '':'' @ uuid_simple user @ '':'' @ b)"
proof -
  let ?l = "'':'' @ uuid_simple user @ '':''"
  have pat: "user_all_servers_pattern user = KEY_PREFIX @ (CHR ''*'' # (?l @ ''*''))"
    by (simp add: user_all_servers_pattern_def)
  have "CHR ''*'' \<notin> set ?l" using simple_no_star assms by simp
  then have "star_match (?l @ ''*'') x \<longleftrightarrow> (\<exists>b. x = ?l @ b)" for x
    by (rule star_match_prefix)
  then show ?thesis
    unfolding pat star_match_lit [OF key_prefix_no_star] star_match_star by (metis append.assoc)
qed

lemma user_all_servers_pattern_match:
  assumes "uuid_shape user" "lane caller = Some (user, l)" "caller_ok caller"
  shows "star_match (user_all_servers_pattern user) (cache_key cx srv caller rq)"
proof -
  have "fst (caller_key_parts caller) = uuid_simple user"
    using assms(2) by (auto simp: lane_def caller_key_parts_def)
  then show ?thesis unfolding user_all_servers_match_iff [OF assms(1)] cache_key_def by auto
qed

lemma user_all_servers_pattern_skips:
  assumes "uuid_shape user" "uuid_shape srv" "caller_ok caller"
    and "fst (caller_key_parts caller) \<noteq> uuid_simple user" "snd (caller_key_parts caller) \<noteq> uuid_simple user"
  shows "\<not> star_match (user_all_servers_pattern user) (cache_key cx srv caller rq)"
proof
  let ?c = "CHR '':''"
  let ?u = "fst (caller_key_parts caller)" and ?l = "snd (caller_key_parts caller)"
  assume "star_match (user_all_servers_pattern user) (cache_key cx srv caller rq)"
  then obtain a b where "cache_key cx srv caller rq = KEY_PREFIX @ a @ '':'' @ uuid_simple user @ '':'' @ b"
    unfolding user_all_servers_match_iff [OF assms(1)] by blast
  then have eq: "uuid_simple srv @ ?c # ?u @ ?c # ?l @ ?c # req_hash cx rq = a @ ?c # uuid_simple user @ ?c # b"
    by (simp add: cache_key_def)
  have nc: "?c \<notin> set (uuid_simple srv)" "?c \<notin> set ?u" "?c \<notin> set ?l" "?c \<notin> set (uuid_simple user)"
      "?c \<notin> set (req_hash cx rq)"
    using parts_no_colon [OF assms(3)] uuid_simple_no_colon assms(1,2) hex_chars_no [OF hex_pad_chars not_hex_char(1)]
    by (auto simp: req_hash_def Let_def)
  have "uuid_simple user \<in> set (tl (butlast (split_on ?c (a @ ?c # uuid_simple user @ ?c # b))))"
  proof -
    have gen: "split_on ?c (x @ ?c # y) = split_on ?c x @ split_on ?c y" for x y
      by (induction x) (auto split: list.splits)
    show ?thesis using nc(4) split_on_not_Nil [of ?c a] split_on_not_Nil [of ?c b]
      by (auto simp: gen split_on_append split_on_single butlast_append tl_append split: list.split)
  qed
  moreover have "split_on ?c (a @ ?c # uuid_simple user @ ?c # b) = [uuid_simple srv, ?u, ?l, req_hash cx rq]"
    unfolding eq [symmetric] using nc by (simp add: split_on_append split_on_single)
  ultimately show False using assms(4,5) by auto
qed

subsection \<open>Who is answered from the cache\<close>

context kv_laws
begin

lemma cached_body_after_set:
  assumes "kv_err K s' k' = None" "0 < length j" "length j \<le> mb" "grant (length j * BODY_HEADROOM)"
    and "s' = kv_set_ex K k j ttl s" "kv_err K s k' = None"
  shows "cached_body K mb grant k' s' s' = (if k' = k then Some j else cached_body K mb grant k' s s)"
  using assms by (auto simp: cached_body_def Let_def get_set_ex)

end

lemma cached_body_cong:
  assumes "kv_err K s k = None" "kv_err K s' k = None" "kv_get K s' k = kv_get K s k"
  shows "cached_body K mb grant k s' s' = cached_body K mb grant k s s"
  using assms unfolding cached_body_def Let_def by simp

lemma cached_body_gone: "kv_get K s k = None \<Longrightarrow> cached_body K mb grant k s s = None"
  by (simp add: cached_body_def)


text \<open>
  (C25) When no \<^verbatim>\<open>SCAN\<close> or \<^verbatim>\<open>DEL\<close> failed, an invalidation is complete and no wider than it says: after
  \<^verbatim>\<open>invalidate_user_lane\<close> the user has no cached answer of that server under any account, and every other lookup
  finds what it found before; after \<^verbatim>\<open>invalidate_server_lane\<close> the server has none for anybody and other servers
  keep theirs; after \<^verbatim>\<open>invalidate_user_lane_all_servers\<close> the user has none anywhere, and the shared lane is kept.
\<close>

theorem invalidation_is_complete:
  assumes "scan_laws K Z" and "uuid_shape server" "uuid_shape user" "uuid_shape srv" "caller_ok caller"
    and "delete_matching Z (user_lane_pattern server user) s = (s1, Inr n1)"
    and "delete_matching Z (server_lane_pattern server) s = (s2, Inr n2)"
    and "delete_matching Z (user_all_servers_pattern user) s = (s3, Inr n3)"
    and "\<forall>k. kv_err K s k = None \<and> kv_err K s1 k = None \<and> kv_err K s2 k = None \<and> kv_err K s3 k = None"
  shows "invalidate_user_lane Z server user s = (s1, n1) \<and>
    cache_get K cx mb grant srv caller rq s1 s1 =
      (if srv = server \<and> map_option fst (lane caller) = Some user then None
       else cache_get K cx mb grant srv caller rq s s) \<and>
    invalidate_server_lane Z server s = (s2, n2) \<and>
    cache_get K cx mb grant srv caller rq s2 s2 =
      (if srv = server then None else cache_get K cx mb grant srv caller rq s s) \<and>
    invalidate_user_lane_all_servers Z user s = (s3, n3) \<and>
    (map_option fst (lane caller) = Some user \<longrightarrow> cache_get K cx mb grant srv caller rq s3 s3 = None) \<and>
    (lane caller = None \<longrightarrow> cache_get K cx mb grant srv caller rq s3 s3 = cache_get K cx mb grant srv caller rq s s)"
proof -
  let ?k = "cache_key cx srv caller rq"
  have body: "cache_get K cx mb grant srv caller rq s' s' =
      (if star_match pat ?k then None else cache_get K cx mb grant srv caller rq s s)"
    if "delete_matching Z pat s = (s', Inr n)" "\<forall>k. kv_err K s k = None \<and> kv_err K s' k = None" for pat s' n
    using scan_laws.delete_matching_spec [OF assms(1) that(1), of ?k] that(2) cached_body_gone [of K s' ?k]
      cached_body_cong [of K s ?k s']
    by (simp add: cache_get_def)
  have all: "map_option fst (lane caller) = Some user \<Longrightarrow> star_match (user_all_servers_pattern user) ?k"
    using user_all_servers_pattern_match [OF assms(3) _ assms(5)] by (cases "lane caller") auto
  have none: "lane caller = None \<Longrightarrow> \<not> star_match (user_all_servers_pattern user) ?k"
    using user_all_servers_pattern_skips [OF assms(3,4,5)] uuid_simple_not_underscore [OF assms(3)]
    by (auto simp: lane_def caller_key_parts_def)
  show ?thesis
    using body [OF assms(6)] body [OF assms(7)] body [OF assms(8)] assms(6-9) all none
      user_lane_pattern_match [OF assms(2-5)] server_lane_pattern_match [OF assms(2,4)]
    by (simp add: invalidate_user_lane_def invalidate_server_lane_def invalidate_user_lane_all_servers_def
        scan_and_delete_def)
qed

subsection \<open>A store to run them on\<close>

definition demo_user :: uuid where
  "demo_user = ''11111111-2222-3333-4444-555555555555''"

definition demo_srv :: uuid where
  "demo_srv = ''aaaaaaaa-bbbb-cccc-dddd-eeeeeeeeeeee''"

definition demo_caller :: "CallerScope option" where
  "demo_caller = Some \<lparr>cl_user_id = demo_user, cl_account_label = Some ''work''\<rparr>"

definition demo_resp :: JsonRpcResponse where
  "demo_resp = ok_response None (JString ''hi'')"

definition demo_request :: JsonRpcRequest where
  "demo_request = \<lparr>jq_jsonrpc = ''2.0'', jq_id = None, jq_method = ''tools/call'', jq_params = None\<rparr>"

definition demo_codec :: codec where
  "demo_codec = \<lparr>cx_params = (\<lambda>_. None), cx_hash = length, cx_enc = (\<lambda>_. Some ''ok''), cx_dec = (\<lambda>_. Some demo_resp)\<rparr>"

lemma demo_uuids: "uuid_shape demo_user" "uuid_shape demo_srv" "caller_ok demo_caller"
  by (simp_all add: demo_user_def demo_srv_def demo_caller_def caller_ok_def uuid_shape_def hex_char_def)

lemma mem_set_up: "kv_err mem_kv s k = None \<Longrightarrow> kv_err mem_kv (cache_set mem_kv cx u a rq resp ttl s) k' = None"
  by (auto simp: cache_set_def Let_def mem_kv_def split: option.splits if_splits)

lemma demo_up: "kv_err mem_kv kv_empty k = None"
  by (simp add: mem_kv_def kv_empty_def)


definition demo_store :: kv_mem where
  "demo_store = cache_set mem_kv demo_codec demo_srv demo_caller demo_request demo_resp 60 kv_empty"

lemma demo_store_eq: "demo_store = kv_empty\<lparr>km_text := [(cache_key demo_codec demo_srv demo_caller demo_request, ''ok'')]\<rparr>"
  by (simp add: demo_store_def cache_set_def Let_def demo_codec_def demo_resp_def ok_response_def mem_kv_def kv_empty_def)

lemma demo_delete:
  "star_match pat (cache_key demo_codec demo_srv demo_caller demo_request) \<Longrightarrow>
   delete_matching mem_scan pat demo_store = (kv_empty, Inr 1)"
  by (simp add: demo_store_eq delete_matching_def delete_all_def mem_scan_def delete_batch_def by_slot_def BATCH_def
      delete_group_def mem_kv_def) (simp add: kv_empty_def)

lemma demo_store_up: "kv_err mem_kv demo_store k = None"
  unfolding demo_store_def by (rule mem_set_up) (rule demo_up)

lemma demo_lane: "map_option fst (lane demo_caller) = Some demo_user"
  by (simp add: lane_def demo_caller_def)

lemma demo_all: "star_match (user_all_servers_pattern demo_user) (cache_key demo_codec demo_srv demo_caller demo_request)"
  by (rule user_all_servers_pattern_match [OF demo_uuids(1) _ demo_uuids(3)]) (simp add: lane_def demo_caller_def)

lemmas demo_deletes =
  demo_delete [OF user_lane_pattern_match [OF demo_uuids(2,1,2,3), THEN iffD2, OF conjI [OF refl demo_lane]]]
  demo_delete [OF server_lane_pattern_match [OF demo_uuids(2,2), THEN iffD2, OF refl]]
  demo_delete [OF demo_all]

theorem invalidation_is_complete_witness:
  "invalidate_user_lane mem_scan demo_srv demo_user demo_store = (kv_empty, 1) \<and>
   cache_get mem_kv demo_codec 64 (\<lambda>_. True) demo_srv demo_caller demo_request kv_empty kv_empty = None"
  using invalidation_is_complete [OF mem_scan.scan_laws_axioms demo_uuids(2,1,2,3) demo_deletes,
      where cx = demo_codec and mb = 64 and grant = "\<lambda>_. True" and rq = demo_request] demo_up demo_store_up demo_lane
  by simp

end
