(* ===== verification/Mcp_Token.thy ===== *)
theory Mcp_Token
  imports Mcp_Cache Gateway_Error
begin

section \<open>Upstream credentials of MCP servers\<close>

text \<open>
  \<^verbatim>\<open>crates/mcp-gateway/src/user_token.rs\<close>: the choice of a credential row, the refresh of an OAuth token, and the
  header that is injected. The two tables are lists of rows. The parameters in \<open>tok_env\<close> are the database driver
  (\<open>te_db_err\<close>, asked at the fetch, the recheck and the transaction, and \<open>te_commit_err\<close> at its commit), the AES-GCM functions of \<^verbatim>\<open>crypto.rs\<close>,
  the HTTP client, the form encoder, the two JSON parsers, the addition of seconds of the \<^verbatim>\<open>chrono\<close> crate, which
  panics out of range, and what others do to the tables while the refresh waits for its lock and for the
  upstream. A result \<open>None\<close> is a panic. The in-process lock table has no effect on one call and is left out.
\<close>

record CredentialRow =
  cr_credential_type :: string
  cr_access :: string
  cr_refresh :: "string option"
  cr_expires_at :: "int option"
  cr_account_label :: "string option"

record user_cred =
  uc_server :: uuid
  uc_user :: uuid
  uc_label :: string
  uc_is_default :: bool
  uc_row :: CredentialRow

record cred_db =
  cd_user :: "user_cred list"
  cd_shared :: "(uuid \<times> CredentialRow) list"

datatype CredLocator = LocUser uuid uuid "string option" | LocShared uuid

fun locator_server :: "CredLocator \<Rightarrow> uuid" where
  "locator_server (LocUser sv u l) = sv"
| "locator_server (LocShared sv) = sv"

fun locator_owner :: "CredLocator \<Rightarrow> CredentialOwner" where
  "locator_owner (LocUser sv u l) = PerUser"
| "locator_owner (LocShared sv) = AdminShared"

fun refresh_lock_key :: "CredLocator \<Rightarrow> string" where
  "refresh_lock_key (LocUser sv u (Some l)) = ''mcp_token_refresh:per_user:'' @ sv @ '':'' @ u @ '':'' @ l"
| "refresh_lock_key (LocUser sv u None) = ''mcp_token_refresh:per_user:'' @ sv @ '':'' @ u @ '':__default__''"
| "refresh_lock_key (LocShared sv) = ''mcp_token_refresh:admin_shared:'' @ sv"

fun invalidate_cache_after_change :: "'s redis_scan \<Rightarrow> CredLocator \<Rightarrow> 's \<Rightarrow> 's" where
  "invalidate_cache_after_change Z (LocUser sv u l) s = fst (invalidate_user_lane Z sv u s)"
| "invalidate_cache_after_change Z (LocShared sv) s = fst (invalidate_server_lane Z sv s)"

datatype RefreshFailureKind = Permanent | Transient

datatype ResolverError =
    NeedsUserCredentials uuid "string option" CredentialOwner
  | RefreshFailed uuid RefreshFailureKind string
  | Database string
  | Crypto string
  | BadTokenResponse string

record AuthInjection =
  in_header_name :: string
  in_header_value :: string

record TokenResponse =
  tr_access_token :: string
  tr_refresh_token :: "string option"
  tr_expires_in :: "nat option"

record ResolverCaller =
  rc_user_id :: uuid
  rc_mcp_account_overrides :: json

record tok_env =
  te_db_err :: "nat \<Rightarrow> string option"
  te_commit_err :: "string option"
  te_decrypt :: "string \<Rightarrow> string + string"
  te_encrypt :: "string \<Rightarrow> string + string"
  te_encode_form :: "(string \<times> string) list \<Rightarrow> string + string"
  te_post :: "string \<Rightarrow> string \<Rightarrow> string + nat \<times> (string + string)"
  te_parse_json :: "string \<Rightarrow> json option"
  te_parse_token :: "string \<Rightarrow> string + TokenResponse"
  te_show_status :: "nat \<Rightarrow> string"
  te_add_secs :: "int \<Rightarrow> nat \<Rightarrow> int option"
  te_lock_wait :: "cred_db \<Rightarrow> cred_db"
  te_http_wait :: "cred_db \<Rightarrow> cred_db"

subsection \<open>The injected header\<close>

text \<open>\<^verbatim>\<open>str::replace\<close>: every occurrence from the left; \<open>n\<close> bounds the scan by the length of the text.\<close>

fun replace_from :: "nat \<Rightarrow> string \<Rightarrow> string \<Rightarrow> string \<Rightarrow> string" where
  "replace_from 0 pat new s = s"
| "replace_from (Suc n) pat new s =
     (case find_sub s pat of
        None \<Rightarrow> s
      | Some i \<Rightarrow> take i s @ new @ replace_from n pat new (drop (i + length pat) s))"

definition str_replace :: "string \<Rightarrow> string \<Rightarrow> string \<Rightarrow> string" where
  "str_replace s pat new = replace_from (length s) pat new s"

definition build_injection :: "ServerAuthCfg \<Rightarrow> string \<Rightarrow> AuthInjection" where
  "build_injection cfg token =
     \<lparr>in_header_name = ac_auth_header_name cfg,
      in_header_value = str_replace (ac_auth_value_template cfg) ''{{token}}'' token\<rparr>"

definition needs_credential :: "ServerAuthCfg \<Rightarrow> bool" where
  "needs_credential cfg \<longleftrightarrow> ac_auth_shape cfg \<noteq> Anonymous"

fun validate_template_from :: "nat \<Rightarrow> string \<Rightarrow> string option" where
  "validate_template_from 0 s = None"
| "validate_template_from (Suc n) s =
     (case find_sub s ''{{'' of
        None \<Rightarrow> None
      | Some i \<Rightarrow>
          (let after = drop (i + 2) s in
           case find_sub after ''}}'' of
             None \<Rightarrow> Some ''auth_value_template has unmatched `{{`''
           | Some e \<Rightarrow>
               (let name = str_trim (take e after) in
                if name \<noteq> ''token''
                then Some (''auth_value_template only supports the `{{token}}` placeholder; found `{{'' @ name @ ''}}`'')
                else validate_template_from n (drop (e + 2) after))))"

definition validate_auth_value_template :: "string \<Rightarrow> string option" where
  "validate_auth_value_template template =
     (if template = [] then Some ''auth_value_template must not be empty''
      else validate_template_from (length template) template)"

text \<open>The \<^verbatim>\<open>Debug\<close> form of a text: quoted, with quotes and backslashes escaped.\<close>

definition str_debug :: "string \<Rightarrow> string" where
  "str_debug s = CHR 0x22 # concat (map (\<lambda>c. if c = CHR 0x22 \<or> c = CHR 0x5C then [CHR 0x5C, c] else [c]) s) @ [CHR 0x22]"

subsection \<open>Rows\<close>

definition locator_for :: "uuid \<Rightarrow> ServerAuthCfg \<Rightarrow> ResolverCaller \<Rightarrow> CredLocator" where
  "locator_for sv cfg caller =
     (case ac_credential_owner cfg of
        AdminShared \<Rightarrow> LocShared sv
      | PerUser \<Rightarrow>
          LocUser sv (rc_user_id caller)
            (Option.bind (json_get (rc_mcp_account_overrides caller) sv) json_as_str))"

fun row_matches :: "CredLocator \<Rightarrow> user_cred \<Rightarrow> bool" where
  "row_matches (LocUser sv u (Some l)) c \<longleftrightarrow> uc_server c = sv \<and> uc_user c = u \<and> uc_label c = l"
| "row_matches (LocUser sv u None) c \<longleftrightarrow> uc_server c = sv \<and> uc_user c = u \<and> uc_is_default c"
| "row_matches (LocShared sv) c \<longleftrightarrow> False"

fun select_row :: "CredLocator \<Rightarrow> cred_db \<Rightarrow> CredentialRow option" where
  "select_row (LocShared sv) db = map_option (\<lambda>r. r\<lparr>cr_account_label := None\<rparr>) (map_of (cd_shared db) sv)"
| "select_row (LocUser sv u l) db =
     map_option (\<lambda>c. (uc_row c)\<lparr>cr_account_label := Some (uc_label c)\<rparr>)
       (List.find (row_matches (LocUser sv u l)) (cd_user db))"

definition fetch_row :: "tok_env \<Rightarrow> nat \<Rightarrow> CredLocator \<Rightarrow> cred_db \<Rightarrow> ResolverError + CredentialRow option" where
  "fetch_row E n loc db =
     (case te_db_err E n of Some e \<Rightarrow> Inl (Database e) | None \<Rightarrow> Inr (select_row loc db))"

fun delete_row :: "CredLocator \<Rightarrow> cred_db \<Rightarrow> ResolverError + cred_db" where
  "delete_row (LocUser sv u None) db = Inl (Crypto ''missing label inside lock'')"
| "delete_row (LocUser sv u (Some l)) db =
     Inr (db\<lparr>cd_user := filter (\<lambda>c. \<not> row_matches (LocUser sv u (Some l)) c) (cd_user db)\<rparr>)"
| "delete_row (LocShared sv) db = Inr (db\<lparr>cd_shared := filter (\<lambda>e. fst e \<noteq> sv) (cd_shared db)\<rparr>)"

definition refreshed :: "string \<Rightarrow> string option \<Rightarrow> int option \<Rightarrow> CredentialRow \<Rightarrow> CredentialRow" where
  "refreshed access refresh expires r = r\<lparr>cr_access := access, cr_refresh := refresh, cr_expires_at := expires\<rparr>"

fun write_refreshed_row ::
  "CredLocator \<Rightarrow> string \<Rightarrow> string option \<Rightarrow> int option \<Rightarrow> cred_db \<Rightarrow> ResolverError + cred_db" where
  "write_refreshed_row (LocUser sv u None) a r x db = Inl (Crypto ''missing label inside lock'')"
| "write_refreshed_row (LocUser sv u (Some l)) a r x db =
     Inr (db\<lparr>cd_user := map (\<lambda>c. if row_matches (LocUser sv u (Some l)) c
                                 then c\<lparr>uc_row := refreshed a r x (uc_row c)\<rparr> else c) (cd_user db)\<rparr>)"
| "write_refreshed_row (LocShared sv) a r x db =
     Inr (db\<lparr>cd_shared := map (\<lambda>e. if fst e = sv then (sv, refreshed a r x (snd e)) else e) (cd_shared db)\<rparr>)"

definition decrypt_to_string :: "tok_env \<Rightarrow> string \<Rightarrow> ResolverError + string" where
  "decrypt_to_string E b = (case te_decrypt E b of Inl e \<Rightarrow> Inl (Crypto e) | Inr t \<Rightarrow> Inr t)"

definition encrypt_token :: "tok_env \<Rightarrow> string \<Rightarrow> ResolverError + string" where
  "encrypt_token E t = (case te_encrypt E t of Inl e \<Rightarrow> Inl (Crypto e) | Inr b \<Rightarrow> Inr b)"

subsection \<open>The refresh\<close>

definition refresh_form :: "OAuthClientCfg \<Rightarrow> string \<Rightarrow> (string \<times> string) list" where
  "refresh_form cfg refresh_token =
     [(''grant_type'', ''refresh_token''), (''refresh_token'', refresh_token), (''client_id'', oc_client_id cfg)] @
     (case oc_client_secret cfg of None \<Rightarrow> [] | Some sec \<Rightarrow> [(''client_secret'', sec)]) @
     (if oc_scopes cfg = [] then [] else [(''scope'', concat (butlast (concat (map (\<lambda>x. [x, '' '']) (oc_scopes cfg)))))])"

definition oauth_refresh ::
  "tok_env \<Rightarrow> OAuthClientCfg \<Rightarrow> string \<Rightarrow> RefreshFailureKind \<times> string + TokenResponse" where
  "oauth_refresh E cfg refresh_token =
     (case te_encode_form E (refresh_form cfg refresh_token) of
        Inl e \<Rightarrow> Inl (Permanent, ''encode form: '' @ e)
      | Inr body \<Rightarrow>
          (case te_post E (oc_token_endpoint cfg) body of
             Inl e \<Rightarrow> Inl (Transient, ''network: '' @ e)
           | Inr (status, Inl e) \<Rightarrow> Inl (Transient, ''token response read: '' @ e)
           | Inr (status, Inr txt) \<Rightarrow>
               if \<not> (200 \<le> status \<and> status < 300) then
                 (let msg = ''token_endpoint returned '' @ te_show_status E status @ '': '' @ txt;
                      permanent = (if status = 401 then True
                        else if status = 400 then
                          Option.bind (Option.bind (te_parse_json E txt) (\<lambda>v. json_get v ''error'')) json_as_str
                            = Some ''invalid_grant''
                        else False)
                  in Inl (if permanent then Permanent else Transient, msg))
               else (case te_parse_token E txt of
                       Inl e \<Rightarrow> Inl (Permanent, ''parse: '' @ e)
                     | Inr t \<Rightarrow> Inr t)))"

definition near_expiry :: "bool \<Rightarrow> int \<Rightarrow> CredentialRow \<Rightarrow> bool" where
  "near_expiry absent now r = (case cr_expires_at r of None \<Rightarrow> absent | Some x \<Rightarrow> x \<le> now + 60000)"

text \<open>\<^verbatim>\<open>i64::try_from\<close> drops a lifetime beyond \<open>i64\<close>; the addition of the rest may panic, the result \<open>None\<close>.\<close>

definition new_expiry :: "tok_env \<Rightarrow> int \<Rightarrow> nat option \<Rightarrow> int option option" where
  "new_expiry E now expires_in =
     (case expires_in of
        None \<Rightarrow> Some None
      | Some secs \<Rightarrow> if secs < 2 ^ 63 then map_option Some (te_add_secs E now secs) else Some None)"

definition write_back ::
  "tok_env \<Rightarrow> 's redis_scan \<Rightarrow> CredLocator \<Rightarrow> string \<Rightarrow> TokenResponse \<Rightarrow> int \<Rightarrow> cred_db \<times> 's \<Rightarrow>
   ((cred_db \<times> 's) \<times> (ResolverError + string)) option" where
  "write_back E Z loc refresh_bytes new now st =
     (case encrypt_token E (tr_access_token new) of
        Inl e \<Rightarrow> Some (st, Inl e)
      | Inr access \<Rightarrow>
          (case (case tr_refresh_token new of None \<Rightarrow> Inr refresh_bytes | Some r \<Rightarrow> encrypt_token E r) of
             Inl e \<Rightarrow> Some (st, Inl e)
           | Inr refresh \<Rightarrow>
               (case new_expiry E now (tr_expires_in new) of
                  None \<Rightarrow> None
                | Some expires \<Rightarrow>
                    (case te_db_err E 2 of
                       Some e \<Rightarrow> Some (st, Inl (Database e))
                     | None \<Rightarrow>
                         (case write_refreshed_row loc access (Some refresh) expires (fst st) of
                            Inl e \<Rightarrow> Some (st, Inl e)
                          | Inr db \<Rightarrow>
                              (case te_commit_err E of
                                 Some e \<Rightarrow> Some (st, Inl (Database e))
                               | None \<Rightarrow>
                                   Some ((db, invalidate_cache_after_change Z loc (snd st)), Inr (tr_access_token new))))))))"

definition refresh_failed ::
  "tok_env \<Rightarrow> 's redis_scan \<Rightarrow> CredLocator \<Rightarrow> RefreshFailureKind \<Rightarrow> string \<Rightarrow> cred_db \<times> 's \<Rightarrow>
   (cred_db \<times> 's) \<times> (ResolverError + string)" where
  "refresh_failed E Z loc kind msg st =
     (case kind of
        Transient \<Rightarrow> (st, Inl (RefreshFailed (locator_server loc) Transient msg))
      | Permanent \<Rightarrow>
          (case te_db_err E 2 of
             Some e \<Rightarrow> (st, Inl (Database e))
           | None \<Rightarrow>
               (case delete_row loc (fst st) of
                  Inl e \<Rightarrow> (st, Inl e)
                | Inr db \<Rightarrow>
                    ((if te_commit_err E = None then db else fst st, invalidate_cache_after_change Z loc (snd st)),
                     Inl (RefreshFailed (locator_server loc) Permanent msg)))))"

definition refresh_locked ::
  "tok_env \<Rightarrow> 's redis_scan \<Rightarrow> CredLocator \<Rightarrow> CredentialRow \<Rightarrow> OAuthClientCfg \<Rightarrow> int \<Rightarrow> cred_db \<times> 's \<Rightarrow>
   ((cred_db \<times> 's) \<times> (ResolverError + string)) option" where
  "refresh_locked E Z loc row cfg now st =
     (let st1 = (te_lock_wait E (fst st), snd st) in
      case fetch_row E 1 loc (fst st1) of
        Inl e \<Rightarrow> Some (st1, Inl e)
      | Inr None \<Rightarrow>
          Some (st1, Inl (NeedsUserCredentials (locator_server loc) (oc_authorization_endpoint cfg) (locator_owner loc)))
      | Inr (Some current) \<Rightarrow>
          if \<not> near_expiry True now current then Some (st1, decrypt_to_string E (cr_access current))
          else (case cr_refresh row of
                  None \<Rightarrow> Some (st1, Inl (RefreshFailed (locator_server loc) Permanent ''no refresh_token stored''))
                | Some rb \<Rightarrow>
                    (case decrypt_to_string E rb of
                       Inl e \<Rightarrow> Some (st1, Inl e)
                     | Inr refresh_token \<Rightarrow>
                         (let st2 = (te_http_wait E (fst st1), snd st1) in
                          case oauth_refresh E cfg refresh_token of
                            Inl (kind, msg) \<Rightarrow> Some (refresh_failed E Z loc kind msg st2)
                          | Inr new \<Rightarrow> write_back E Z loc rb new now st2))))"

definition refresh_locator :: "CredLocator \<Rightarrow> CredentialRow \<Rightarrow> CredLocator" where
  "refresh_locator loc row =
     (case (loc, cr_account_label row) of
        (LocUser sv u None, Some l) \<Rightarrow> LocUser sv u (Some l)
      | _ \<Rightarrow> loc)"

definition resolve ::
  "tok_env \<Rightarrow> 's redis_scan \<Rightarrow> uuid \<Rightarrow> ServerAuthCfg \<Rightarrow> ResolverCaller \<Rightarrow> int \<times> int \<Rightarrow> cred_db \<times> 's \<Rightarrow>
   ((cred_db \<times> 's) \<times> (ResolverError + AuthInjection option)) option" where
  "resolve E Z sv cfg caller ts st =
     (let loc = locator_for sv cfg caller;
          inject = map_option (\<lambda>(st', r). (st', case r of Inl e \<Rightarrow> Inl e | Inr t \<Rightarrow> Inr (Some (build_injection cfg t))))
      in case fetch_row E 0 loc (fst st) of
           Inl e \<Rightarrow> Some (st, Inl e)
         | Inr None \<Rightarrow>
             Some (st, if needs_credential cfg then Inl (NeedsUserCredentials sv None (ac_credential_owner cfg)) else Inr None)
         | Inr (Some row) \<Rightarrow>
             if cr_credential_type row = ''static_token'' then inject (Some (st, decrypt_to_string E (cr_access row)))
             else if cr_credential_type row = ''oauth_authcode'' then
               if \<not> near_expiry False (fst ts) row then inject (Some (st, decrypt_to_string E (cr_access row)))
               else (case ac_oauth_cfg cfg of
                       None \<Rightarrow> Some (st, Inl (BadTokenResponse
                         ''oauth_authcode credential exists but server has no oauth client config''))
                     | Some oc \<Rightarrow> inject (refresh_locked E Z (refresh_locator loc row) row oc (snd ts) st))
             else Some (st, Inl (BadTokenResponse (''unknown credential_type '' @ str_debug (cr_credential_type row)))))"

subsection \<open>Whose credential goes upstream\<close>

lemma select_row_user:
  assumes "select_row (LocUser sv u l) db = Some r"
  obtains c where "c \<in> set (cd_user db)" "row_matches (LocUser sv u l) c" "r = (uc_row c)\<lparr>cr_account_label := Some (uc_label c)\<rparr>"
  using assms by (auto simp: find_Some_iff intro: nth_mem)

lemma row_matches_owner: "row_matches (LocUser sv u l) c \<Longrightarrow> uc_server c = sv \<and> uc_user c = u \<and> (\<forall>x. l = Some x \<longrightarrow> uc_label c = x)"
  by (cases l) auto

lemma decrypt_ok: "decrypt_to_string E b = Inr t \<longleftrightarrow> te_decrypt E b = Inr t"
  by (auto simp: decrypt_to_string_def split: sum.splits)

text \<open>A token comes from a row: its access token, or what the upstream gave for its refresh token.\<close>

definition token_of :: "tok_env \<Rightarrow> ServerAuthCfg \<Rightarrow> CredentialRow \<Rightarrow> string \<Rightarrow> bool" where
  "token_of E cfg r t \<longleftrightarrow> te_decrypt E (cr_access r) = Inr t \<or>
     (\<exists>rb rt oc new. cr_refresh r = Some rb \<and> te_decrypt E rb = Inr rt \<and> ac_oauth_cfg cfg = Some oc \<and>
        oauth_refresh E oc rt = Inr new \<and> t = tr_access_token new)"

lemma write_back_token: "write_back E Z loc rb new now st = Some (st', Inr t) \<Longrightarrow> t = tr_access_token new"
  by (auto simp: write_back_def split: sum.splits option.splits)

lemma refresh_failed_no_token: "refresh_failed E Z loc kind msg st \<noteq> (st', Inr t)"
  by (auto simp: refresh_failed_def split: RefreshFailureKind.splits sum.splits option.splits)

lemma refresh_locked_token:
  assumes "refresh_locked E Z loc row oc now st = Some (st', Inr t)" "ac_oauth_cfg cfg = Some oc"
  shows "token_of E cfg row t \<or> (\<exists>r. select_row loc (te_lock_wait E (fst st)) = Some r \<and> token_of E cfg r t)"
proof -
  obtain cur where cur: "fetch_row E 1 loc (te_lock_wait E (fst st)) = Inr (Some cur)"
    using assms(1) by (auto simp: refresh_locked_def Let_def split: sum.splits option.splits)
  then have sel: "select_row loc (te_lock_wait E (fst st)) = Some cur"
    by (auto simp: fetch_row_def split: option.splits)
  show ?thesis
  proof (cases "near_expiry True now cur")
    case False
    with assms(1) cur have "decrypt_to_string E (cr_access cur) = Inr t" by (simp add: refresh_locked_def)
    with sel show ?thesis by (auto simp: token_of_def decrypt_ok)
  next
    case True
    with assms(1) cur obtain rb where rb: "cr_refresh row = Some rb"
      by (auto simp: refresh_locked_def Let_def split: option.splits)
    with True assms(1) cur obtain rt where rt: "decrypt_to_string E rb = Inr rt"
      by (auto simp: refresh_locked_def Let_def split: sum.splits)
    obtain new where new: "oauth_refresh E oc rt = Inr new"
        and wb: "write_back E Z loc rb new now (te_http_wait E (te_lock_wait E (fst st)), snd st) = Some (st', Inr t)"
      using True assms(1) cur rb rt
      by (auto simp: refresh_locked_def Let_def refresh_failed_no_token split: sum.splits)
    with rb rt assms(2) write_back_token [OF wb] show ?thesis by (auto simp: token_of_def decrypt_ok)
  qed
qed

lemma inject_Some:
  "map_option (\<lambda>(st', r). (st', case r of Inl e \<Rightarrow> Inl e | Inr t \<Rightarrow> Inr (Some (f t)))) x = Some (st', Inr (Some h)) \<longleftrightarrow>
   (\<exists>t. x = Some (st', Inr t) \<and> h = f t)"
  by (cases x) (auto split: sum.splits)

lemma resolve_token:
  assumes "resolve E Z sv cfg caller ts st = Some (st', Inr (Some hdr))"
  obtains row t where "select_row (locator_for sv cfg caller) (fst st) = Some row" "hdr = build_injection cfg t"
    "token_of E cfg row t \<or>
     (\<exists>r. select_row (refresh_locator (locator_for sv cfg caller) row) (te_lock_wait E (fst st)) = Some r \<and> token_of E cfg r t)"
proof -
  let ?loc = "locator_for sv cfg caller"
  obtain row where f: "fetch_row E 0 ?loc (fst st) = Inr (Some row)"
    using assms by (auto simp: resolve_def Let_def split: sum.splits option.splits if_splits)
  then have sel: "select_row ?loc (fst st) = Some row" by (auto simp: fetch_row_def split: option.splits)
  consider (plain) t where "decrypt_to_string E (cr_access row) = Inr t" "hdr = build_injection cfg t"
    | (refresh) oc t where "ac_oauth_cfg cfg = Some oc" "hdr = build_injection cfg t"
        "refresh_locked E Z (refresh_locator ?loc row) row oc (snd ts) st = Some (st', Inr t)"
    using assms f by (auto simp: resolve_def Let_def inject_Some simp del: map_option_eq_Some split: option.splits if_splits sum.splits)
  then show thesis
  proof cases
    case plain
    with sel that show thesis by (auto simp: token_of_def decrypt_ok)
  next
    case refresh
    with sel that refresh_locked_token show thesis by blast
  qed
qed

text \<open>
  (C21) The header that goes upstream is built from a credential the call may use. On a per-user server it is a row
  of the calling user for that server, and exactly the account the key names when it names one; on a shared
  server it is the server's one shared row. The token is that row's access token, or what the token endpoint
  gave for that row's refresh token.
\<close>

theorem resolver_uses_own_credential:
  assumes "resolve E Z sv cfg caller ts st = Some (st', Inr (Some hdr))"
  shows "\<exists>token r db. hdr = build_injection cfg token \<and> token_of E cfg r token \<and>
    (db = fst st \<or> db = te_lock_wait E (fst st)) \<and>
    (case ac_credential_owner cfg of
       PerUser \<Rightarrow>
         (\<exists>c \<in> set (cd_user db). uc_server c = sv \<and> uc_user c = rc_user_id caller \<and>
            r = (uc_row c)\<lparr>cr_account_label := Some (uc_label c)\<rparr> \<and>
            (case Option.bind (json_get (rc_mcp_account_overrides caller) sv) json_as_str of
               Some l \<Rightarrow> uc_label c = l | None \<Rightarrow> True))
     | AdminShared \<Rightarrow> \<exists>r'. map_of (cd_shared db) sv = Some r' \<and> r = r'\<lparr>cr_account_label := None\<rparr>)"
proof -
  let ?loc = "locator_for sv cfg caller"
  obtain row t where row: "select_row ?loc (fst st) = Some row" and hdr: "hdr = build_injection cfg t"
      and tok: "token_of E cfg row t \<or>
        (\<exists>r. select_row (refresh_locator ?loc row) (te_lock_wait E (fst st)) = Some r \<and> token_of E cfg r t)"
    using resolve_token [OF assms] .
  have own: "case ac_credential_owner cfg of
       PerUser \<Rightarrow>
         (\<exists>c \<in> set (cd_user db). uc_server c = sv \<and> uc_user c = rc_user_id caller \<and>
            r = (uc_row c)\<lparr>cr_account_label := Some (uc_label c)\<rparr> \<and>
            (case Option.bind (json_get (rc_mcp_account_overrides caller) sv) json_as_str of
               Some l \<Rightarrow> uc_label c = l | None \<Rightarrow> True))
     | AdminShared \<Rightarrow> \<exists>r'. map_of (cd_shared db) sv = Some r' \<and> r = r'\<lparr>cr_account_label := None\<rparr>"
    if "select_row loc db = Some r" "loc = ?loc \<or> loc = refresh_locator ?loc row" for loc db r
  proof (cases "ac_credential_owner cfg")
    case AdminShared
    with that show ?thesis by (auto simp: locator_for_def refresh_locator_def)
  next
    case PerUser
    let ?o = "Option.bind (json_get (rc_mcp_account_overrides caller) sv) json_as_str"
    from that(2) PerUser obtain l where loc: "loc = LocUser sv (rc_user_id caller) l" and l: "?o \<noteq> None \<longrightarrow> l = ?o"
      by (auto simp: locator_for_def refresh_locator_def split: option.splits)
    from select_row_user [OF that(1) [unfolded loc]] obtain c where
      "c \<in> set (cd_user db)" "row_matches (LocUser sv (rc_user_id caller) l) c" "r = (uc_row c)\<lparr>cr_account_label := Some (uc_label c)\<rparr>" .
    with row_matches_owner [OF this(2)] l PerUser show ?thesis by (auto split: option.splits)
  qed
  from tok own row hdr show ?thesis by blast
qed

subsection \<open>What a refresh changes\<close>

lemma write_back_effect:
  assumes "write_back E Z loc rb new now st = Some (st', r)"
  shows "st' = st \<or> (snd st' = invalidate_cache_after_change Z loc (snd st) \<and>
    (\<exists>a rf x t. write_refreshed_row loc a rf x (fst st) = Inr (fst st') \<and> r = Inr t))"
  using assms by (auto simp: write_back_def split: sum.splits option.splits) blast+

lemma refresh_failed_effect:
  assumes "refresh_failed E Z loc kind msg st = (st', r)"
  shows "st' = st \<or> (snd st' = invalidate_cache_after_change Z loc (snd st) \<and>
    r = Inl (RefreshFailed (locator_server loc) Permanent msg) \<and>
    (fst st' = fst st \<or> delete_row loc (fst st) = Inr (fst st')))"
  using assms by (auto simp: refresh_failed_def split: sum.splits option.splits RefreshFailureKind.splits if_splits)

definition refresh_effect ::
  "'s redis_scan \<Rightarrow> CredLocator \<Rightarrow> cred_db \<times> 's \<Rightarrow> cred_db \<times> 's \<Rightarrow> (ResolverError + 'a) \<Rightarrow> bool" where
  "refresh_effect Z loc st st' r \<longleftrightarrow> st' = st \<or>
     (snd st' = invalidate_cache_after_change Z loc (snd st) \<and>
      ((\<exists>a rf x t. write_refreshed_row loc a rf x (fst st) = Inr (fst st') \<and> r = Inr t) \<or>
       (\<exists>msg. r = Inl (RefreshFailed (locator_server loc) Permanent msg) \<and>
          (fst st' = fst st \<or> delete_row loc (fst st) = Inr (fst st')))))"

lemma refresh_locked_effect:
  assumes "refresh_locked E Z loc row oc now st = Some (st', r)" "te_lock_wait E = id" "te_http_wait E = id"
  shows "refresh_effect Z loc st st' r"
proof -
  consider "st' = st" | kind msg where "refresh_failed E Z loc kind msg st = (st', r)"
    | rb new where "write_back E Z loc rb new now st = Some (st', r)"
    using assms by (auto simp: refresh_locked_def Let_def split: sum.splits option.splits if_splits)
  then show ?thesis
  proof cases
    case 1
    then show ?thesis by (simp add: refresh_effect_def)
  next
    case 2
    from refresh_failed_effect [OF this] show ?thesis by (auto simp: refresh_effect_def)
  next
    case 3
    from write_back_effect [OF this] show ?thesis unfolding refresh_effect_def by blast
  qed
qed

lemma locator_refresh [simp]:
  "invalidate_cache_after_change Z (refresh_locator loc row) = invalidate_cache_after_change Z loc"
  "locator_server (refresh_locator loc row) = locator_server loc"
  by (auto simp: refresh_locator_def fun_eq_iff split: CredLocator.splits option.splits)

lemma inject_effect:
  assumes "map_option (\<lambda>(st', r). (st', case r of Inl e \<Rightarrow> Inl e | Inr t \<Rightarrow> Inr (Some (f t)))) x = Some (st', r)"
  obtains r0 where "x = Some (st', r0)" "r = (case r0 of Inl e \<Rightarrow> Inl e | Inr t \<Rightarrow> Inr (Some (f t)))"
  using assms by (cases x) auto

lemma resolve_effect:
  assumes "resolve E Z sv cfg caller ts st = Some (st', r)" "te_lock_wait E = id" "te_http_wait E = id"
  shows "\<exists>row. refresh_effect Z (refresh_locator (locator_for sv cfg caller) row) st st' r"
proof -
  let ?loc = "locator_for sv cfg caller"
  consider "st' = st" | row oc where
      "map_option (\<lambda>(st', r). (st', case r of Inl e \<Rightarrow> Inl e | Inr t \<Rightarrow> Inr (Some (build_injection cfg t))))
         (refresh_locked E Z (refresh_locator ?loc row) row oc (snd ts) st) = Some (st', r)"
    using assms(1) by (auto simp: resolve_def Let_def split: sum.splits option.splits if_splits simp del: map_option_eq_Some)
  then show ?thesis
  proof cases
    case 1
    then show ?thesis by (simp add: refresh_effect_def)
  next
    case (2 row oc)
    from inject_effect [OF 2] obtain r0 where
      r0: "refresh_locked E Z (refresh_locator ?loc row) row oc (snd ts) st = Some (st', r0)"
      and r: "r = (case r0 of Inl e \<Rightarrow> Inl e | Inr t \<Rightarrow> Inr (Some (build_injection cfg t)))" .
    from refresh_locked_effect [OF r0 assms(2,3)] r have "refresh_effect Z (refresh_locator ?loc row) st st' r"
      by (auto simp: refresh_effect_def)
    then show ?thesis ..
  qed
qed

lemma others_kept:
  assumes "write_refreshed_row loc a rf x db = Inr db' \<or> delete_row loc db = Inr db'"
    and "loc = LocUser sv u l \<or> loc = LocShared sv" and "\<not> (uc_server c = sv \<and> uc_user c = u)"
  shows "c \<in> set (cd_user db') \<longleftrightarrow> c \<in> set (cd_user db)"
proof (cases loc)
  case (LocShared v)
  with assms(1) show ?thesis by auto
next
  case (LocUser v w m)
  with assms(2) have loc: "v = sv" "w = u" "m = l" by auto
  with assms(1) LocUser obtain l' where l: "l = Some l'" by (cases l) auto
  have m: "row_matches (LocUser sv u (Some l')) d \<Longrightarrow> uc_server d = sv \<and> uc_user d = u" for d by simp
  have "uc_server (d\<lparr>uc_row := y\<rparr>) = uc_server d" "uc_user (d\<lparr>uc_row := y\<rparr>) = uc_user d" for d y by simp_all
  with assms(1,3) LocUser loc l show ?thesis by (auto simp: image_iff split: if_splits)
qed

text \<open>
  What a resolution changes, when nobody else writes meanwhile: either nothing, or the calling user's row (the
  server's shared row) and, with it, the whole cache lane of that identity is dropped, so that no answer cached
  under the old token is served under the new one. Rows of other users and servers are never touched, and a
  change comes with a fresh token or with a refusal of the refresh that is permanent.
\<close>

theorem refresh_changes_own_row_and_lane:
  assumes "resolve E Z sv cfg caller ts st = Some (st', r)" and "te_lock_wait E = id" and "te_http_wait E = id"
  shows "(\<not> (uc_server c = sv \<and> uc_user c = rc_user_id caller) \<longrightarrow>
            (c \<in> set (cd_user (fst st')) \<longleftrightarrow> c \<in> set (cd_user (fst st)))) \<and>
         (st' \<noteq> st \<longrightarrow>
            snd st' = (case ac_credential_owner cfg of
                         PerUser \<Rightarrow> fst (invalidate_user_lane Z sv (rc_user_id caller) (snd st))
                       | AdminShared \<Rightarrow> fst (invalidate_server_lane Z sv (snd st))) \<and>
            ((\<exists>h. r = Inr h) \<or> (\<exists>msg. r = Inl (RefreshFailed sv Permanent msg))))"
proof -
  let ?loc = "locator_for sv cfg caller"
  obtain row where eff: "refresh_effect Z (refresh_locator ?loc row) st st' r"
    using resolve_effect [OF assms] by blast
  have loc: "(\<exists>l. refresh_locator ?loc row = LocUser sv (rc_user_id caller) l) \<or> refresh_locator ?loc row = LocShared sv"
    by (auto simp: locator_for_def refresh_locator_def split: CredentialOwner.splits option.splits)
  have inv: "invalidate_cache_after_change Z ?loc s = (case ac_credential_owner cfg of
      PerUser \<Rightarrow> fst (invalidate_user_lane Z sv (rc_user_id caller) s)
    | AdminShared \<Rightarrow> fst (invalidate_server_lane Z sv s))" and srv: "locator_server ?loc = sv" for s
    by (simp_all add: locator_for_def split: CredentialOwner.split)
  have keep: "c \<in> set (cd_user (fst st')) \<longleftrightarrow> c \<in> set (cd_user (fst st))"
    if "\<not> (uc_server c = sv \<and> uc_user c = rc_user_id caller)"
    using eff loc others_kept [OF _ _ that] unfolding refresh_effect_def by metis
  show ?thesis using eff keep by (auto simp: refresh_effect_def inv srv)
qed

subsection \<open>A database to run them on\<close>

definition demo_row :: CredentialRow where
  "demo_row = \<lparr>cr_credential_type = ''oauth_authcode'', cr_access = ''old'', cr_refresh = Some ''r'',
     cr_expires_at = Some 0, cr_account_label = None\<rparr>"

definition demo_db :: cred_db where
  "demo_db = \<lparr>cd_user = [\<lparr>uc_server = ''sv'', uc_user = ''u'', uc_label = ''work'', uc_is_default = True, uc_row = demo_row\<rparr>],
     cd_shared = []\<rparr>"

definition demo_tok_env :: tok_env where
  "demo_tok_env = \<lparr>te_db_err = (\<lambda>_. None), te_commit_err = None, te_decrypt = Inr, te_encrypt = Inr,
     te_encode_form = (\<lambda>_. Inr []), te_post = (\<lambda>_ _. Inr (200, Inr [])), te_parse_json = (\<lambda>_. None),
     te_parse_token = (\<lambda>_. Inr \<lparr>tr_access_token = ''new'', tr_refresh_token = None, tr_expires_in = Some 3600\<rparr>),
     te_show_status = (\<lambda>_. []), te_add_secs = (\<lambda>now n. Some (now + int n * 1000)), te_lock_wait = id, te_http_wait = id\<rparr>"

definition demo_auth :: ServerAuthCfg where
  "demo_auth = \<lparr>ac_credential_owner = PerUser, ac_auth_shape = OAuth,
     ac_oauth_cfg = Some \<lparr>oc_token_endpoint = ''t'', oc_authorization_endpoint = None, oc_client_id = ''c'',
       oc_client_secret = None, oc_scopes = []\<rparr>,
     ac_auth_header_name = ''Authorization'', ac_auth_value_template = ''Bearer {{token}}''\<rparr>"

definition demo_rcaller :: ResolverCaller where
  "demo_rcaller = \<lparr>rc_user_id = ''u'', rc_mcp_account_overrides = JObject []\<rparr>"

definition demo_resolved :: "(cred_db \<times> kv_mem) \<times> (ResolverError + AuthInjection option)" where
  "demo_resolved = the (resolve demo_tok_env mem_scan ''sv'' demo_auth demo_rcaller (0, 0) (demo_db, kv_empty))"

lemma bearer_new: "str_replace ''Bearer {{token}}'' ''{{token}}'' ''new'' = ''Bearer new''"
  by code_simp

lemma demo_resolve:
  "resolve demo_tok_env mem_scan ''sv'' demo_auth demo_rcaller (0, 0) (demo_db, kv_empty) =
     Some (fst demo_resolved, Inr (Some \<lparr>in_header_name = ''Authorization'', in_header_value = ''Bearer new''\<rparr>))"
  unfolding demo_resolved_def
  by (simp add: resolve_def locator_for_def demo_auth_def demo_rcaller_def json_get_def fetch_row_def demo_tok_env_def
      demo_db_def demo_row_def near_expiry_def refresh_locked_def refresh_locator_def decrypt_to_string_def
      oauth_refresh_def write_back_def encrypt_token_def new_expiry_def build_injection_def bearer_new Let_def)

theorem resolver_uses_own_credential_witness:
  "\<exists>token r. \<lparr>in_header_name = ''Authorization'', in_header_value = ''Bearer new''\<rparr> = build_injection demo_auth token \<and>
     token_of demo_tok_env demo_auth r token \<and> (\<exists>c \<in> set (cd_user demo_db). uc_server c = ''sv'' \<and> uc_user c = ''u'')"
proof -
  have e: "te_lock_wait demo_tok_env demo_db = demo_db" "ac_credential_owner demo_auth = PerUser"
      "rc_user_id demo_rcaller = ''u''"
    by (simp_all add: demo_auth_def demo_tok_env_def demo_rcaller_def)
  from resolver_uses_own_credential [OF demo_resolve, unfolded fst_conv e CredentialOwner.case] show ?thesis by blast
qed

theorem refresh_changes_own_row_and_lane_witness:
  "snd (fst demo_resolved) = fst (invalidate_user_lane mem_scan ''sv'' ''u'' kv_empty) \<or> fst demo_resolved = (demo_db, kv_empty)"
  using refresh_changes_own_row_and_lane [OF demo_resolve]
  by (auto simp: demo_auth_def demo_rcaller_def demo_tok_env_def)

subsection \<open>A template that passes and injects nothing\<close>

text \<open>
  The check of a header template trims the name between the braces, the substitution does not: the template
  \<^verbatim>\<open>Bearer {{ token }}\<close> is accepted when it is written, and every request then carries it as it stands, without
  the token.
\<close>

theorem spaced_placeholder_is_never_filled:
  "validate_auth_value_template ''Bearer {{ token }}'' = None \<and>
   in_header_value (build_injection (demo_auth\<lparr>ac_auth_value_template := ''Bearer {{ token }}''\<rparr>) token) = ''Bearer {{ token }}''"
proof -
  have v: "validate_auth_value_template ''Bearer {{ token }}'' = None" by code_simp
  have f: "find_sub ''Bearer {{ token }}'' ''{{token}}'' = None" by code_simp
  have l: "length ''Bearer {{ token }}'' = Suc 17" by simp
  show ?thesis using v unfolding build_injection_def str_replace_def by (simp only: l replace_from.simps) (simp add: f)
qed

end
