(* ===== verification/Mcp_Session.thy ===== *)
theory Mcp_Session
  imports Redis_Keys Mcp_Registry
begin

section \<open>MCP sessions\<close>

text \<open>
  \<^verbatim>\<open>crates/mcp-gateway/src/session.rs\<close>. A session manager is the map behind its lock; whether it has a Redis client
  and the session lifetime of the dynamic configuration are in \<open>sm_env\<close>, with the serialisation. Operations
  return the local map and Redis. Times are Unix milliseconds.
\<close>

record McpSession =
  ms_id :: string
  ms_user_id :: uuid
  ms_created_at :: int
  ms_last_active :: int
  ms_upstream_sessions :: "(uuid \<times> string) list"

type_synonym local_sessions = "(string \<times> McpSession) list"

record 's sm_env =
  se_redis :: "'s redis_kv option"
  se_config_ttl :: "int option"
  se_enc :: "McpSession \<Rightarrow> string option"
  se_dec :: "string \<Rightarrow> McpSession option"

definition SESSION_PREFIX :: string where
  "SESSION_PREFIX = ''mcp_session:''"

definition DEFAULT_TTL_SECS :: int where
  "DEFAULT_TTL_SECS = 3600"

definition session_key :: "string \<Rightarrow> string" where
  "session_key i = SESSION_PREFIX @ i"

definition session_ttl :: "'s sm_env \<Rightarrow> int" where
  "session_ttl E = (case se_config_ttl E of Some t \<Rightarrow> t | None \<Rightarrow> DEFAULT_TTL_SECS)"

definition store_session :: "'s sm_env \<Rightarrow> string \<Rightarrow> McpSession \<Rightarrow> 's \<Rightarrow> 's" where
  "store_session E i se s =
     (case se_redis E of
        None \<Rightarrow> s
      | Some K \<Rightarrow>
          (case se_enc E se of
             None \<Rightarrow> s
           | Some j \<Rightarrow> if kv_err K s (session_key i) = None then kv_set_ex K (session_key i) j (session_ttl E) s else s))"

definition create_session ::
  "'s sm_env \<Rightarrow> uuid \<Rightarrow> string \<Rightarrow> int \<Rightarrow> local_sessions \<times> 's \<Rightarrow> local_sessions \<times> 's" where
  "create_session E user i now ls =
     (let se = \<lparr>ms_id = i, ms_user_id = user, ms_created_at = now, ms_last_active = now, ms_upstream_sessions = []\<rparr>
      in (entry_upd i (\<lambda>_. se) se (fst ls), store_session E i se (snd ls)))"

definition get_session ::
  "'s sm_env \<Rightarrow> string \<Rightarrow> local_sessions \<times> 's \<Rightarrow> (local_sessions \<times> 's) \<times> McpSession option" where
  "get_session E i ls =
     (case map_of (fst ls) i of
        Some se \<Rightarrow> (ls, Some se)
      | None \<Rightarrow>
          (case se_redis E of
             None \<Rightarrow> (ls, None)
           | Some K \<Rightarrow>
               if kv_err K (snd ls) (session_key i) \<noteq> None then (ls, None)
               else (case Option.bind (kv_get K (snd ls) (session_key i)) (se_dec E) of
                       None \<Rightarrow> (ls, None)
                     | Some se \<Rightarrow> ((entry_upd i (\<lambda>_. se) se (fst ls), snd ls), Some se))))"

definition update_activity :: "'s sm_env \<Rightarrow> string \<Rightarrow> int \<Rightarrow> local_sessions \<times> 's \<Rightarrow> local_sessions \<times> 's" where
  "update_activity E i now ls =
     (case map_of (fst ls) i of
        None \<Rightarrow> ls
      | Some se \<Rightarrow>
          (let se' = se\<lparr>ms_last_active := now\<rparr>
           in (entry_upd i (\<lambda>_. se') se' (fst ls), store_session E i se' (snd ls))))"

definition MAX_UPSTREAM_SESSION_LEN :: nat where
  "MAX_UPSTREAM_SESSION_LEN = 256"

definition header_byte :: "char \<Rightarrow> bool" where
  "header_byte c \<longleftrightarrow> 32 \<le> (of_char c :: nat) \<and> (of_char c :: nat) \<le> 126"

definition upstream_id_ok :: "string \<Rightarrow> bool" where
  "upstream_id_ok u \<longleftrightarrow> u \<noteq> [] \<and> length u \<le> MAX_UPSTREAM_SESSION_LEN \<and> list_all header_byte u"

definition set_upstream_session ::
  "'s sm_env \<Rightarrow> string \<Rightarrow> uuid \<Rightarrow> string \<Rightarrow> local_sessions \<times> 's \<Rightarrow> local_sessions \<times> 's" where
  "set_upstream_session E i server up ls =
     (if \<not> upstream_id_ok up then ls
      else case map_of (fst ls) i of
             None \<Rightarrow> ls
           | Some se \<Rightarrow>
               (let se' = se\<lparr>ms_upstream_sessions := entry_upd server (\<lambda>_. up) up (ms_upstream_sessions se)\<rparr>
                in (entry_upd i (\<lambda>_. se') se' (fst ls), store_session E i se' (snd ls))))"

definition get_upstream_session ::
  "'s sm_env \<Rightarrow> string \<Rightarrow> uuid \<Rightarrow> local_sessions \<times> 's \<Rightarrow> (local_sessions \<times> 's) \<times> string option" where
  "get_upstream_session E i server ls =
     (case get_session E i ls of
        (ls', r) \<Rightarrow> (ls', Option.bind r (\<lambda>se. map_of (ms_upstream_sessions se) server)))"

definition remove_session ::
  "'s sm_env \<Rightarrow> string \<Rightarrow> local_sessions \<times> 's \<Rightarrow> (local_sessions \<times> 's) \<times> McpSession option" where
  "remove_session E i ls =
     (let s' = (case se_redis E of
                  None \<Rightarrow> snd ls
                | Some K \<Rightarrow> if kv_err K (snd ls) (session_key i) = None then kv_del K [session_key i] (snd ls) else snd ls)
      in ((filter (\<lambda>e. fst e \<noteq> i) (fst ls), s'), map_of (fst ls) i))"

text \<open>The loop of \<^verbatim>\<open>cleanup_expired\<close>, over the expired ids, with \<open>cutoff\<close> the current time less \<open>max_age\<close>.\<close>

definition cleanup_expired :: "'s sm_env \<Rightarrow> int \<Rightarrow> int \<Rightarrow> local_sessions \<times> 's \<Rightarrow> local_sessions \<times> 's" where
  "cleanup_expired E max_age now ls =
     (let cutoff = now - max_age;
          expired = map fst (filter (\<lambda>e. ms_last_active (snd e) \<le> cutoff) (fst ls))
      in fold (\<lambda>i ls'. fst (remove_session E i ls')) expired ls)"

subsection \<open>Replicas over one Redis\<close>

text \<open>
  Several replicas share Redis; each has its own map. A step is one operation on one replica. \<open>E\<close> is the
  environment of all of them.
\<close>

inductive replicas_of :: "'s sm_env \<Rightarrow> 's \<Rightarrow> (nat \<Rightarrow> local_sessions) \<Rightarrow> 's \<Rightarrow> bool" for E s0 where
  boot: "replicas_of E s0 (\<lambda>_. []) s0"
| create: "replicas_of E s0 L s \<Longrightarrow> create_session E user i now (L n, s) = (l', s') \<Longrightarrow> replicas_of E s0 (L(n := l')) s'"
| read: "replicas_of E s0 L s \<Longrightarrow> get_session E i (L n, s) = ((l', s'), r) \<Longrightarrow> replicas_of E s0 (L(n := l')) s'"
| touch: "replicas_of E s0 L s \<Longrightarrow> update_activity E i now (L n, s) = (l', s') \<Longrightarrow> replicas_of E s0 (L(n := l')) s'"
| upstream: "replicas_of E s0 L s \<Longrightarrow> set_upstream_session E i server up (L n, s) = (l', s') \<Longrightarrow>
    replicas_of E s0 (L(n := l')) s'"
| remove: "replicas_of E s0 L s \<Longrightarrow> remove_session E i (L n, s) = ((l', s'), r) \<Longrightarrow> replicas_of E s0 (L(n := l')) s'"
| clean: "replicas_of E s0 L s \<Longrightarrow> cleanup_expired E max_age now (L n, s) = (l', s') \<Longrightarrow> replicas_of E s0 (L(n := l')) s'"

definition session_ok :: "McpSession \<Rightarrow> bool" where
  "session_ok se \<longleftrightarrow> (\<forall>v up. map_of (ms_upstream_sessions se) v = Some up \<longrightarrow> upstream_id_ok up)"

definition local_ok :: "local_sessions \<Rightarrow> bool" where
  "local_ok l \<longleftrightarrow> (\<forall>i se. map_of l i = Some se \<longrightarrow> session_ok se)"

definition stored_ok :: "'s sm_env \<Rightarrow> 's \<Rightarrow> bool" where
  "stored_ok E s \<longleftrightarrow>
     (\<forall>K i j se. se_redis E = Some K \<longrightarrow> kv_get K s (session_key i) = Some j \<longrightarrow> se_dec E j = Some se \<longrightarrow> session_ok se)"

definition codec_ok :: "'s sm_env \<Rightarrow> bool" where
  "codec_ok E \<longleftrightarrow> (\<forall>se j se'. se_enc E se = Some j \<longrightarrow> se_dec E j = Some se' \<longrightarrow> se' = se) \<and>
     (\<forall>K. se_redis E = Some K \<longrightarrow> kv_laws K)"

lemma store_ok: "codec_ok E \<Longrightarrow> stored_ok E s \<Longrightarrow> session_ok se \<Longrightarrow> stored_ok E (store_session E i se s)"
  unfolding stored_ok_def codec_ok_def store_session_def
  by (auto split: option.splits if_splits simp: kv_laws.get_set_ex session_key_def) blast

lemma local_ok_upd: "local_ok l \<Longrightarrow> session_ok se \<Longrightarrow> local_ok (entry_upd i (\<lambda>_. se) se l)"
  by (auto simp: local_ok_def split: if_splits option.splits)

lemma remove_ok:
  assumes "codec_ok E" "stored_ok E s" "local_ok l" "remove_session E i (l, s) = ((l', s'), r)"
  shows "local_ok l' \<and> stored_ok E s'"
  using assms unfolding codec_ok_def stored_ok_def local_ok_def remove_session_def
  by (auto simp: kv_laws.get_kv_del map_of_filter_keys split: option.splits if_splits)

lemma cleanup_ok:
  assumes "codec_ok E" "stored_ok E s" "local_ok l" "cleanup_expired E max_age now (l, s) = (l', s')"
  shows "local_ok l' \<and> stored_ok E s'"
proof -
  have "local_ok (fst (fold (\<lambda>i ls'. fst (remove_session E i ls')) is (l, s))) \<and>
      stored_ok E (snd (fold (\<lambda>i ls'. fst (remove_session E i ls')) is (l, s)))" for "is"
    using assms(2,3)
  proof (induction "is" arbitrary: l s)
    case (Cons i "is")
    obtain l1 s1 r where r: "remove_session E i (l, s) = ((l1, s1), r)" by (metis prod.exhaust)
    with remove_ok [OF assms(1) Cons.prems r] Cons.IH [of s1 l1] show ?case by simp
  qed simp
  then show ?thesis using assms(4) unfolding cleanup_expired_def Let_def by (metis fst_conv snd_conv)
qed

lemma get_session_ok:
  assumes "stored_ok E s" "local_ok l" "get_session E i (l, s) = ((l', s'), r)"
  shows "local_ok l' \<and> s' = s \<and> (\<forall>se. r = Some se \<longrightarrow> session_ok se)"
proof (cases "map_of l i")
  case (Some se)
  with assms show ?thesis by (auto simp: get_session_def local_ok_def)
next
  case None
  show ?thesis
  proof (cases "r")
    case r: None
    with assms None show ?thesis by (auto simp: get_session_def split: option.splits if_splits)
  next
    case (Some se)
    from assms(3) None Some obtain K where K: "se_redis E = Some K" and up: "kv_err K s (session_key i) = None"
      by (cases "se_redis E") (auto simp: get_session_def split: if_splits)
    from assms(3) None Some K up
    have d: "Option.bind (kv_get K s (session_key i)) (se_dec E) = Some se" and l': "l' = entry_upd i (\<lambda>_. se) se l" "s' = s"
      by (cases "Option.bind (kv_get K s (session_key i)) (se_dec E)"; simp add: get_session_def)+
    from d K assms(1) have "session_ok se" by (auto simp: stored_ok_def bind_eq_Some_conv)
    with l' Some local_ok_upd [OF assms(2)] show ?thesis by simp
  qed
qed

lemma replicas_ok:
  assumes "replicas_of E s0 L s" "codec_ok E" "stored_ok E s0"
  shows "(\<forall>n. local_ok (L n)) \<and> stored_ok E s"
  using assms(1)
proof (induction rule: replicas_of.induct)
  case boot
  show ?case using assms(3) by (simp add: local_ok_def)
next
  case (create L s user i now n l' s')
  let ?se = "\<lparr>ms_id = i, ms_user_id = user, ms_created_at = now, ms_last_active = now, ms_upstream_sessions = []\<rparr>"
  have "session_ok ?se" by (simp add: session_ok_def)
  with create local_ok_upd store_ok [OF assms(2)] show ?case by (auto simp: create_session_def Let_def)
next
  case (read L s i n l' s' r)
  with get_session_ok [of E s "L n" i l' s' r] show ?case by auto
next
  case (touch L s i now n l' s')
  have ok: "session_ok (se\<lparr>ms_last_active := now\<rparr>)" if "map_of (L n) i = Some se" for se
    using touch.IH that by (auto simp: local_ok_def session_ok_def)
  with touch local_ok_upd store_ok [OF assms(2)] show ?case
    by (auto simp: update_activity_def Let_def split: option.splits)
next
  case (upstream L s i server up n l' s')
  have ok: "session_ok (se\<lparr>ms_upstream_sessions := entry_upd server (\<lambda>_. up) up (ms_upstream_sessions se)\<rparr>)"
    if "map_of (L n) i = Some se" "upstream_id_ok up" for se
    using upstream.IH that by (auto simp: local_ok_def session_ok_def split: if_splits option.splits)
  with upstream local_ok_upd store_ok [OF assms(2)] show ?case
    by (auto simp: set_upstream_session_def Let_def split: option.splits if_splits)
next
  case (remove L s i n l' s' r)
  with remove_ok [OF assms(2)] show ?case by (metis fun_upd_apply)
next
  case (clean L s max_age now n l' s')
  with cleanup_ok [OF assms(2)] show ?case by (metis fun_upd_apply)
qed

text \<open>
  An upstream session id that goes into an outbound \<^verbatim>\<open>Mcp-Session-Id\<close> header is non-empty, at most 256 bytes and
  printable, whichever replica stored it and however the operations of the replicas interleave: the check in
  \<^verbatim>\<open>set_upstream_session\<close> protects the shared store as well as the local map. An id that passes the check is what
  the next call of the session reads back.
\<close>

theorem upstream_ids_stay_well_formed:
  assumes "replicas_of E s0 L s" and "codec_ok E" and "stored_ok E s0"
  shows "(get_upstream_session E i server (L n, s) = (ls, Some up) \<longrightarrow>
            up \<noteq> [] \<and> length up \<le> 256 \<and> list_all header_byte up) \<and>
         (upstream_id_ok new \<and> map_of (L n) i \<noteq> None \<longrightarrow>
            snd (get_upstream_session E i server (set_upstream_session E i server new (L n, s))) = Some new)"
proof -
  note ok = replicas_ok [OF assms]
  have "upstream_id_ok up" if "get_upstream_session E i server (L n, s) = (ls, Some up)"
  proof -
    obtain l' s' r where g: "get_session E i (L n, s) = ((l', s'), r)" by (metis prod.exhaust)
    with that obtain se where "r = Some se" "map_of (ms_upstream_sessions se) server = Some up"
      by (auto simp: get_upstream_session_def bind_eq_Some_conv)
    with get_session_ok [of E s "L n" i l' s' r] ok g show ?thesis by (auto simp: session_ok_def)
  qed
  moreover have "snd (get_upstream_session E i server (set_upstream_session E i server new (L n, s))) = Some new"
    if "upstream_id_ok new" "map_of (L n) i \<noteq> None"
    using that by (auto simp: set_upstream_session_def get_upstream_session_def get_session_def Let_def split: option.splits)
  ultimately show ?thesis by (auto simp: upstream_id_ok_def MAX_UPSTREAM_SESSION_LEN_def)
qed

subsection \<open>Two replicas\<close>

text \<open>A codec for one session, its last activity in the length of the text.\<close>

definition demo_session :: "int \<Rightarrow> McpSession" where
  "demo_session t = \<lparr>ms_id = ''c1'', ms_user_id = ''u1'', ms_created_at = 0, ms_last_active = t, ms_upstream_sessions = []\<rparr>"

definition demo_env :: "kv_mem sm_env" where
  "demo_env = \<lparr>se_redis = Some mem_kv, se_config_ttl = None,
     se_enc = (\<lambda>se. if se = demo_session (ms_last_active se) \<and> 0 \<le> ms_last_active se
                    then Some (replicate (nat (ms_last_active se)) CHR ''t'') else None),
     se_dec = (\<lambda>j. Some (demo_session (int (length j))))\<rparr>"

lemma demo_codec_ok: "codec_ok demo_env"
  using mem_kv.kv_laws_axioms by (auto simp: codec_ok_def demo_env_def split: if_splits)

lemma demo_stored_ok: "stored_ok demo_env kv_empty"
  by (simp add: stored_ok_def demo_env_def mem_kv_def kv_empty_def)

lemma demo_created:
  "replicas_of demo_env kv_empty ((\<lambda>_. [])(0 := fst (create_session demo_env ''u1'' ''c1'' 0 ([], kv_empty))))
     (snd (create_session demo_env ''u1'' ''c1'' 0 ([], kv_empty)))"
  by (rule replicas_of.create [OF replicas_of.boot, where n = 0]) simp

theorem upstream_ids_stay_well_formed_witness:
  "snd (get_upstream_session demo_env ''c1'' ''s1'' (set_upstream_session demo_env ''c1'' ''s1'' ''up''
      (create_session demo_env ''u1'' ''c1'' 0 ([], kv_empty)))) = Some ''up''"
  using upstream_ids_stay_well_formed [OF demo_created demo_codec_ok demo_stored_ok, where n = 0 and i = "''c1''"
      and server = "''s1''" and new = "''up''"]
  by (simp add: upstream_id_ok_def MAX_UPSTREAM_SESSION_LEN_def header_byte_def create_session_def Let_def)

text \<open>
  The sweep of one replica ends a session that is active on another. Replica A creates the session at 0 and
  replica B serves its client until time 9; the sweep of A at time 10, with a maximal age of 5, goes by A's own
  copy, last active at 0, and deletes the shared entry, so a third replica no longer knows the session.
\<close>

theorem sweep_ends_session_active_elsewhere:
  "let (a, s1) = create_session demo_env ''u1'' ''c1'' 0 ([], kv_empty);
       ((b, s2), _) = get_session demo_env ''c1'' ([], s1);
       (b', s3) = update_activity demo_env ''c1'' 9 (b, s2);
       (a', s4) = cleanup_expired demo_env 5 10 (a, s3)
   in snd (get_session demo_env ''c1'' ([], s3)) = Some (demo_session 9) \<and>
      snd (get_session demo_env ''c1'' ([], s4)) = None"
  by (simp add: create_session_def get_session_def update_activity_def cleanup_expired_def remove_session_def
      store_session_def demo_env_def demo_session_def mem_kv_def kv_empty_def session_key_def Let_def)

end
