(* ===== verification/Mcp_Pool.thy ===== *)
theory Mcp_Pool
  imports Mcp_Stream Mcp_Token Mcp_Session
begin

section \<open>Connections to MCP servers\<close>

text \<open>
  \<^verbatim>\<open>crates/mcp-gateway/src/pool.rs\<close>: the cached connections, the headers of an upstream request and the two ways of
  sending it. The HTTP client is a parameter: it gives a transport error, or a status, the two response headers
  the code reads and the chunks of the body; so is the bounded read of \<^verbatim>\<open>resources.rs\<close>.
\<close>

record McpConnection =
  cn_server_id :: uuid
  cn_endpoint_url :: string
  cn_custom_headers :: "(string \<times> string) list"

definition McpConnection_new :: "RegisteredServer \<Rightarrow> McpConnection" where
  "McpConnection_new sv =
     \<lparr>cn_server_id = sv_id sv, cn_endpoint_url = sv_endpoint_url sv, cn_custom_headers = sv_custom_headers sv\<rparr>"

type_synonym ConnectionPool = "(uuid \<times> McpConnection) list"

definition get_or_create :: "RegisteredServer \<Rightarrow> ConnectionPool \<Rightarrow> ConnectionPool \<times> McpConnection" where
  "get_or_create sv pool =
     (case map_of pool (sv_id sv) of
        Some conn \<Rightarrow> (pool, conn)
      | None \<Rightarrow> (let conn = McpConnection_new sv in ((sv_id sv, conn) # pool, conn)))"

definition pool_remove :: "uuid \<Rightarrow> ConnectionPool \<Rightarrow> ConnectionPool" where
  "pool_remove i pool = filter (\<lambda>e. fst e \<noteq> i) pool"

record CallerIdentity =
  ci_user_id :: string
  ci_user_email :: string

record http_reply =
  hr_status :: nat
  hr_content_type :: "string option"
  hr_session_id :: "string option"
  hr_body :: "(string + string \<times> bool) list"

record upstream =
  up_http :: "string \<Rightarrow> (string \<times> string) list \<Rightarrow> JsonRpcRequest \<Rightarrow> string + http_reply"
  up_read :: "nat \<Rightarrow> (string + string \<times> bool) list \<Rightarrow> ReadError + string"
  up_max_body :: nat
  up_from_str :: "string \<Rightarrow> json option"
  up_from_value :: "json \<Rightarrow> string + JsonRpcResponse"
  up_from_slice :: "string \<Rightarrow> string + JsonRpcResponse"
  up_show_events :: "json list \<Rightarrow> string + string"

definition upstream_headers ::
  "McpConnection \<Rightarrow> AuthInjection option \<Rightarrow> CallerIdentity option \<Rightarrow> string option \<Rightarrow> string option \<Rightarrow> (string \<times> string) list" where
  "upstream_headers conn auth caller sid trace =
     [(''Content-Type'', ''application/json''), (''Accept'', ''application/json, text/event-stream'')] @
     (case auth of None \<Rightarrow> [] | Some h \<Rightarrow> [(in_header_name h, in_header_value h)]) @
     (case trace of None \<Rightarrow> [] | Some t \<Rightarrow> [(''x-trace-id'', t)]) @
     map (\<lambda>(k, template). (k, case caller of
            None \<Rightarrow> template
          | Some c \<Rightarrow> str_replace (str_replace template ''{{user_id}}'' (ci_user_id c)) ''{{user_email}}'' (ci_user_email c)))
       (cn_custom_headers conn) @
     (case sid of None \<Rightarrow> [] | Some s \<Rightarrow> [(''Mcp-Session-Id'', s)])"

definition status_ok :: "nat \<Rightarrow> bool" where
  "status_ok n \<longleftrightarrow> 200 \<le> n \<and> n < 300"

definition upstream_failure :: "upstream \<Rightarrow> http_reply \<Rightarrow> PoolError" where
  "upstream_failure U rp =
     PoolUpstreamError (hr_status rp)
       (case up_read U (64 * 1024) (hr_body rp) of Inr b \<Rightarrow> from_utf8_lossy b | Inl e \<Rightarrow> ReadError_show e)"

definition is_event_stream :: "http_reply \<Rightarrow> bool" where
  "is_event_stream rp \<longleftrightarrow>
     find_sub (map to_lowercase (unwrap_or (hr_content_type rp) [])) ''text/event-stream'' \<noteq> None"

definition read_json_response :: "upstream \<Rightarrow> http_reply \<Rightarrow> PoolError + JsonRpcResponse" where
  "read_json_response U rp =
     (case up_read U (up_max_body U) (hr_body rp) of
        Inl e \<Rightarrow> Inl (Buffering e)
      | Inr b \<Rightarrow> (case up_from_slice U b of Inl e \<Rightarrow> Inl (ParseError e) | Inr r \<Rightarrow> Inr r))"

definition read_reply :: "upstream \<Rightarrow> JsonRpcRequest \<Rightarrow> http_reply \<Rightarrow> PoolError + JsonRpcResponse \<times> string option" where
  "read_reply U rq rp =
     (if is_event_stream rp then
        (case up_read U (up_max_body U) (hr_body rp) of
           Inl e \<Rightarrow> Inl (Buffering e)
         | Inr b \<Rightarrow>
             (case parse_sse_json_rpc (up_from_str U) (up_from_value U) (up_show_events U) (from_utf8_lossy b) (jq_id rq) of
                Inl e \<Rightarrow> Inl e
              | Inr (r, full) \<Rightarrow> Inr (r, Some full)))
      else (case read_json_response U rp of Inl e \<Rightarrow> Inl e | Inr r \<Rightarrow> Inr (r, None)))"

definition send_request ::
  "upstream \<Rightarrow> McpConnection \<Rightarrow> JsonRpcRequest \<Rightarrow> (string \<times> string) list \<Rightarrow>
   PoolError + JsonRpcResponse \<times> string option \<times> string option" where
  "send_request U conn rq headers =
     (case up_http U (cn_endpoint_url conn) headers rq of
        Inl e \<Rightarrow> Inl (RequestFailed e)
      | Inr rp \<Rightarrow>
          if \<not> status_ok (hr_status rp) then Inl (upstream_failure U rp)
          else (case read_reply U rq rp of
                  Inl e \<Rightarrow> Inl e
                | Inr (r, audit) \<Rightarrow>
                    if jr_jsonrpc r \<noteq> ''2.0'' then Inl (ParseError ''Invalid JSON-RPC version'')
                    else Inr (r, hr_session_id rp, audit)))"

definition send_request_streaming ::
  "upstream \<Rightarrow> McpConnection \<Rightarrow> JsonRpcRequest \<Rightarrow> (string \<times> string) list \<Rightarrow> PoolError + http_reply" where
  "send_request_streaming U conn rq headers =
     (case up_http U (cn_endpoint_url conn) headers rq of
        Inl e \<Rightarrow> Inl (RequestFailed e)
      | Inr rp \<Rightarrow> if \<not> status_ok (hr_status rp) then Inl (upstream_failure U rp) else Inr rp)"

end
