(* ===== verification/Mcp_Breaker.thy ===== *)
theory Mcp_Breaker
  imports Breaker_Api Mcp_Registry
begin

section \<open>Circuit breakers of MCP servers and the dashboard\<close>

text \<open>
  \<^verbatim>\<open>crates/mcp-gateway/src/circuit_breaker.rs\<close> and the process-wide registry of \<^verbatim>\<open>common/src/cb_registry.rs\<close> it
  mirrors every transition into. \<open>cr_opened\<close> lists the calls of the installed listener, in order. The breakers
  themselves are \<open>Breakers\<close> of the \<^verbatim>\<open>tw-breaker\<close> crate, the parameter \<open>breaker_map\<close>: the locale \<open>breaker_laws\<close>
  states what the code relies on, that a call reports a change exactly when the state of its key changes, and
  that it leaves the other keys alone.
\<close>

subsection \<open>The dashboard's registry\<close>

record cb_registry =
  cr_states :: "(string \<times> cb_state) list"
  cr_poisoned :: bool
  cr_listener :: bool
  cr_opened :: "(string \<times> string) list"

fun cb_label :: "cb_state \<Rightarrow> string" where
  "cb_label Closed = ''Closed''"
| "cb_label HalfOpen = ''HalfOpen''"
| "cb_label Open = ''Open''"

text \<open>A listener set a second time is ignored; what it is called with is kept.\<close>

definition set_open_listener :: "cb_registry \<Rightarrow> cb_registry" where
  "set_open_listener r = r\<lparr>cr_listener := True\<rparr>"

definition record_cb_with_kind :: "string \<Rightarrow> cb_state \<Rightarrow> string \<Rightarrow> cb_registry \<Rightarrow> cb_registry" where
  "record_cb_with_kind key st kind r =
     (let prev = (if cr_poisoned r then None else map_of (cr_states r) key);
          r1 = (if cr_poisoned r then r else r\<lparr>cr_states := entry_upd key (\<lambda>_. st) st (cr_states r)\<rparr>)
      in if st = Open \<and> prev \<noteq> Some Open \<and> cr_listener r
         then r1\<lparr>cr_opened := cr_opened r1 @ [(key, kind)]\<rparr> else r1)"

definition snapshot_cb_states :: "cb_registry \<Rightarrow> (string \<times> cb_state) list" where
  "snapshot_cb_states r = (if cr_poisoned r then [] else cr_states r)"

subsection \<open>The breakers\<close>

record CircuitConfig =
  cc_failure_threshold :: nat
  cc_recovery_secs :: nat
  cc_half_open_max :: nat

definition CircuitConfig_default :: CircuitConfig where
  "CircuitConfig_default = \<lparr>cc_failure_threshold = 5, cc_recovery_secs = 60, cc_half_open_max = 3\<rparr>"

definition circuit_policy :: "CircuitConfig \<Rightarrow> Policy" where
  "circuit_policy c =
     \<lparr>po_trip = Consecutive (cc_failure_threshold c), po_cooldown_secs = cc_recovery_secs c,
      po_probes = cc_half_open_max c\<rparr>"

record 'm McpCircuitBreakers =
  mb_breakers :: 'm
  mb_known :: "uuid list"
  mb_registry :: cb_registry

definition announce :: "uuid \<Rightarrow> string \<Rightarrow> 'm McpCircuitBreakers \<Rightarrow> 'm McpCircuitBreakers" where
  "announce i name b =
     (if i \<in> set (mb_known b) then b
      else b\<lparr>mb_known := i # mb_known b, mb_registry := record_cb_with_kind name Closed ''mcp'' (mb_registry b)\<rparr>)"

definition report :: "string \<Rightarrow> cb_state option \<Rightarrow> 'm McpCircuitBreakers \<Rightarrow> 'm McpCircuitBreakers" where
  "report name change b =
     (case change of
        None \<Rightarrow> b
      | Some s \<Rightarrow> b\<lparr>mb_registry := record_cb_with_kind name s ''mcp'' (mb_registry b)\<rparr>)"

definition breaker_check ::
  "'m breaker_map \<Rightarrow> uuid \<Rightarrow> string \<Rightarrow> int \<Rightarrow> 'm McpCircuitBreakers \<Rightarrow> 'm McpCircuitBreakers \<times> bool" where
  "breaker_check M i name now b =
     (case bm_admit M i now (mb_breakers (announce i name b)) of
        (m, admitted, change) \<Rightarrow> (report name change ((announce i name b)\<lparr>mb_breakers := m\<rparr>), admitted))"

definition breaker_record ::
  "'m breaker_map \<Rightarrow> bool \<Rightarrow> uuid \<Rightarrow> string \<Rightarrow> int \<Rightarrow> 'm McpCircuitBreakers \<Rightarrow> 'm McpCircuitBreakers" where
  "breaker_record M ok i name now b =
     (case bm_record M i ok now (mb_breakers (announce i name b)) of
        (m, change) \<Rightarrow> report name change ((announce i name b)\<lparr>mb_breakers := m\<rparr>))"

definition record_success ::
  "'m breaker_map \<Rightarrow> uuid \<Rightarrow> string \<Rightarrow> int \<Rightarrow> 'm McpCircuitBreakers \<Rightarrow> 'm McpCircuitBreakers" where
  "record_success M = breaker_record M True"

definition record_failure ::
  "'m breaker_map \<Rightarrow> uuid \<Rightarrow> string \<Rightarrow> int \<Rightarrow> 'm McpCircuitBreakers \<Rightarrow> 'm McpCircuitBreakers" where
  "record_failure M = breaker_record M False"

definition breaker_register :: "uuid \<Rightarrow> string \<Rightarrow> 'm McpCircuitBreakers \<Rightarrow> 'm McpCircuitBreakers" where
  "breaker_register = announce"

subsection \<open>What a breaker crate promises\<close>

definition changed :: "cb_state \<Rightarrow> cb_state \<Rightarrow> cb_state option" where
  "changed old new = (if new = old then None else Some new)"

locale breaker_laws =
  fixes M :: "'m breaker_map" and st :: "'m \<Rightarrow> uuid \<Rightarrow> cb_state"
  assumes admit_change: "bm_admit M i now m = (m', a, c) \<Longrightarrow> c = changed (st m i) (st m' i)"
    and admit_frame: "bm_admit M i now m = (m', a, c) \<Longrightarrow> j \<noteq> i \<Longrightarrow> st m' j = st m j"
    and record_change: "bm_record M i ok now m = (m', c) \<Longrightarrow> c = changed (st m i) (st m' i)"
    and record_frame: "bm_record M i ok now m = (m', c) \<Longrightarrow> j \<noteq> i \<Longrightarrow> st m' j = st m j"

text \<open>
  What the processes of the gateway do with the breakers, one call after another: \<open>name\<close> gives the display name
  of a server. The list holds the openings so far.
\<close>

inductive breaker_run ::
  "'m breaker_map \<Rightarrow> ('m \<Rightarrow> uuid \<Rightarrow> cb_state) \<Rightarrow> (uuid \<Rightarrow> string) \<Rightarrow> 'm \<Rightarrow> 'm McpCircuitBreakers \<Rightarrow> uuid list \<Rightarrow> bool"
  for M st name m0 where
  start: "breaker_run M st name m0
    \<lparr>mb_breakers = m0, mb_known = [], mb_registry = \<lparr>cr_states = [], cr_poisoned = False, cr_listener = True, cr_opened = []\<rparr>\<rparr> []"
| register: "breaker_run M st name m0 b os \<Longrightarrow> breaker_run M st name m0 (breaker_register i (name i) b) os"
| checked: "breaker_run M st name m0 b os \<Longrightarrow> breaker_check M i (name i) now b = (b', a) \<Longrightarrow>
    breaker_run M st name m0 b'
      (if st (mb_breakers b) i \<noteq> Open \<and> st (mb_breakers b') i = Open then os @ [i] else os)"
| recorded: "breaker_run M st name m0 b os \<Longrightarrow> breaker_record M ok i (name i) now b = b' \<Longrightarrow>
    breaker_run M st name m0 b'
      (if st (mb_breakers b) i \<noteq> Open \<and> st (mb_breakers b') i = Open then os @ [i] else os)"

text \<open>The dashboard shows the state of every server seen; a server not seen is closed; the listener's calls are the openings.\<close>

definition dashboard_ok :: "('m \<Rightarrow> uuid \<Rightarrow> cb_state) \<Rightarrow> (uuid \<Rightarrow> string) \<Rightarrow> 'm McpCircuitBreakers \<Rightarrow> uuid list \<Rightarrow> bool" where
  "dashboard_ok st name b os \<longleftrightarrow>
     \<not> cr_poisoned (mb_registry b) \<and> cr_listener (mb_registry b) \<and>
     (\<forall>i. if i \<in> set (mb_known b) then map_of (cr_states (mb_registry b)) (name i) = Some (st (mb_breakers b) i)
          else st (mb_breakers b) i = Closed \<and> map_of (cr_states (mb_registry b)) (name i) = None) \<and>
     cr_opened (mb_registry b) = map (\<lambda>i. (name i, ''mcp'')) os"

lemma dashboard_announce:
  assumes "inj name" "dashboard_ok st name b os"
  shows "dashboard_ok st name (announce i (name i) b) os \<and> i \<in> set (mb_known (announce i (name i) b)) \<and>
    mb_breakers (announce i (name i) b) = mb_breakers b"
  using assms by (auto simp: dashboard_ok_def announce_def record_cb_with_kind_def Let_def inj_eq)

lemma dashboard_report:
  assumes inj: "inj name" and ok: "dashboard_ok st name b os" and i: "i \<in> set (mb_known b)"
    and fr: "\<And>j. j \<noteq> i \<Longrightarrow> st m j = st (mb_breakers b) j"
  shows "dashboard_ok st name (report (name i) (changed (st (mb_breakers b) i) (st m i)) (b\<lparr>mb_breakers := m\<rparr>))
    (if st (mb_breakers b) i \<noteq> Open \<and> st m i = Open then os @ [i] else os)"
proof (cases "st m i = st (mb_breakers b) i")
  case True
  then have "st m = st (mb_breakers b)" using fr by fastforce
  with True ok show ?thesis by (simp add: dashboard_ok_def report_def changed_def)
next
  case False
  let ?r = "record_cb_with_kind (name i) (st m i) ''mcp'' (mb_registry b)"
  have up: "\<not> cr_poisoned (mb_registry b)" "cr_listener (mb_registry b)"
      and now: "map_of (cr_states (mb_registry b)) (name i) = Some (st (mb_breakers b) i)"
    using ok i by (auto simp: dashboard_ok_def split: if_splits)
  have r: "\<not> cr_poisoned ?r" "cr_listener ?r"
      "map_of (cr_states ?r) = (map_of (cr_states (mb_registry b)))(name i \<mapsto> st m i)"
      "cr_opened ?r = (if st (mb_breakers b) i \<noteq> Open \<and> st m i = Open then cr_opened (mb_registry b) @ [(name i, ''mcp'')]
                       else cr_opened (mb_registry b))"
    using up now False by (auto simp: record_cb_with_kind_def Let_def fun_eq_iff)
  have states: "if j \<in> set (mb_known b) then map_of (cr_states ?r) (name j) = Some (st m j)
      else st m j = Closed \<and> map_of (cr_states ?r) (name j) = None" for j
  proof (cases "j = i")
    case True
    then show ?thesis using i r(3) by simp
  next
    case False
    then have "name j \<noteq> name i" using inj by (simp add: inj_eq)
    then show ?thesis using False fr [of j] ok r(3) by (simp add: dashboard_ok_def)
  qed
  have rep: "report (name i) (changed (st (mb_breakers b) i) (st m i)) (b\<lparr>mb_breakers := m\<rparr>) =
      b\<lparr>mb_breakers := m, mb_registry := ?r\<rparr>"
    using False by (simp add: report_def changed_def)
  have "cr_opened (mb_registry b) = map (\<lambda>i. (name i, ''mcp'')) os" using ok by (simp add: dashboard_ok_def)
  then show ?thesis unfolding rep dashboard_ok_def using r(1,2,4) states by (intro conjI allI) simp_all
qed

context breaker_laws
begin

lemma run_keeps_dashboard:
  assumes run: "breaker_run M st name m0 b os" and inj: "inj name" and m0: "\<And>i. st m0 i = Closed"
  shows "dashboard_ok st name b os"
  using run
proof (induction rule: breaker_run.induct)
  case start
  show ?case by (simp add: dashboard_ok_def m0)
next
  case (register b os i)
  show ?case using dashboard_announce [OF inj register.IH] by (simp add: breaker_register_def)
next
  case (checked b os i now b' a)
  let ?b = "announce i (name i) b"
  obtain m c where m: "bm_admit M i now (mb_breakers ?b) = (m, a, c)"
      and b': "b' = report (name i) c (?b\<lparr>mb_breakers := m\<rparr>)"
    using checked.hyps by (auto simp: breaker_check_def split: prod.splits)
  have "mb_breakers b' = m" by (simp add: b' report_def split: option.split)
  with dashboard_report [OF inj, of st ?b os i m] dashboard_announce [OF inj checked.IH, of i]
    admit_frame [OF m] admit_change [OF m] b' show ?case by simp
next
  case (recorded b os ok i now b')
  let ?b = "announce i (name i) b"
  obtain m c where m: "bm_record M i ok now (mb_breakers ?b) = (m, c)"
      and b': "b' = report (name i) c (?b\<lparr>mb_breakers := m\<rparr>)"
    using recorded.hyps by (auto simp: breaker_record_def split: prod.splits)
  have "mb_breakers b' = m" by (simp add: b' report_def split: option.split)
  with dashboard_report [OF inj, of st ?b os i m] dashboard_announce [OF inj recorded.IH, of i]
    record_frame [OF m] record_change [OF m] b' show ?case by simp
qed

end

subsection \<open>Breakers in memory\<close>

type_synonym mem_cells = "uuid \<Rightarrow> cb_state \<times> nat \<times> int"

definition mem_admit :: "CircuitConfig \<Rightarrow> uuid \<Rightarrow> int \<Rightarrow> mem_cells \<Rightarrow> mem_cells \<times> bool \<times> cb_state option" where
  "mem_admit c i now m =
     (case m i of
        (Open, n, t) \<Rightarrow>
          if t + int (cc_recovery_secs c) * 1000 \<le> now then (m(i := (HalfOpen, 0, t)), True, Some HalfOpen)
          else (m, False, None)
      | _ \<Rightarrow> (m, True, None))"

definition mem_record :: "CircuitConfig \<Rightarrow> uuid \<Rightarrow> bool \<Rightarrow> int \<Rightarrow> mem_cells \<Rightarrow> mem_cells \<times> cb_state option" where
  "mem_record c i ok now m =
     (case m i of
        (Closed, n, t) \<Rightarrow>
          if ok then (m(i := (Closed, 0, t)), None)
          else if cc_failure_threshold c \<le> n + 1 then (m(i := (Open, 0, now)), Some Open)
          else (m(i := (Closed, n + 1, t)), None)
      | (HalfOpen, n, t) \<Rightarrow>
          if \<not> ok then (m(i := (Open, 0, now)), Some Open)
          else if cc_half_open_max c \<le> n + 1 then (m(i := (Closed, 0, t)), Some Closed)
          else (m(i := (HalfOpen, n + 1, t)), None)
      | (Open, n, t) \<Rightarrow> (m, None))"

definition mem_breakers :: "CircuitConfig \<Rightarrow> mem_cells breaker_map" where
  "mem_breakers c = \<lparr>bm_admit = mem_admit c, bm_record = mem_record c\<rparr>"

definition mem_state :: "mem_cells \<Rightarrow> uuid \<Rightarrow> cb_state" where
  "mem_state m i = fst (m i)"

interpretation mem_breakers: breaker_laws "mem_breakers c" mem_state for c
  by unfold_locales
    (auto simp: mem_breakers_def mem_admit_def mem_record_def mem_state_def changed_def
      split: prod.splits cb_state.splits if_splits)

subsection \<open>The dashboard is right\<close>

text \<open>
  However the gateway's calls interleave, the dashboard shows the state of the breaker of every server that
  was called or registered, and the open listener, which writes the audit event, has been called exactly once
  for each time a breaker opened, in that order, and at no other time. Display names are distinct, as the
  table of servers keeps them, and the breakers of the crate report their changes.
\<close>

theorem dashboard_mirrors_breakers:
  assumes "breaker_laws M st" and "inj name" and "\<forall>i. st m0 i = Closed" and "breaker_run M st name m0 b os"
  shows "(i \<in> set (mb_known b) \<longrightarrow>
            map_of (snapshot_cb_states (mb_registry b)) (name i) = Some (st (mb_breakers b) i)) \<and>
         (i \<notin> set (mb_known b) \<longrightarrow>
            st (mb_breakers b) i = Closed \<and> map_of (snapshot_cb_states (mb_registry b)) (name i) = None) \<and>
         cr_opened (mb_registry b) = map (\<lambda>i. (name i, ''mcp'')) os"
proof -
  have "dashboard_ok st name b os"
    using breaker_laws.run_keeps_dashboard [OF assms(1) assms(4,2)] assms(3) by blast
  then show ?thesis by (auto simp: dashboard_ok_def snapshot_cb_states_def split: if_splits)
qed

definition demo_cfg :: CircuitConfig where
  "demo_cfg = \<lparr>cc_failure_threshold = 1, cc_recovery_secs = 60, cc_half_open_max = 1\<rparr>"

definition demo_cells :: mem_cells where
  "demo_cells = (\<lambda>_. (Closed, 0, 0))"

definition demo_breakers :: "mem_cells McpCircuitBreakers" where
  "demo_breakers = \<lparr>mb_breakers = demo_cells, mb_known = [],
     mb_registry = \<lparr>cr_states = [], cr_poisoned = False, cr_listener = True, cr_opened = []\<rparr>\<rparr>"

lemma demo_open:
  "mem_state (mb_breakers demo_breakers) ''s1'' = Closed"
  "mem_state (mb_breakers (breaker_record (mem_breakers demo_cfg) False ''s1'' (id ''s1'') 7 demo_breakers)) ''s1'' = Open"
  by (simp_all add: demo_breakers_def demo_cells_def demo_cfg_def breaker_record_def mem_breakers_def mem_record_def
      mem_state_def announce_def report_def record_cb_with_kind_def)

lemma demo_run:
  "breaker_run (mem_breakers demo_cfg) mem_state id demo_cells
     (breaker_record (mem_breakers demo_cfg) False ''s1'' (id ''s1'') 7 demo_breakers) [''s1'']"
proof -
  have "breaker_run (mem_breakers demo_cfg) mem_state id demo_cells demo_breakers []"
    unfolding demo_breakers_def by (rule breaker_run.start)
  from breaker_run.recorded [OF this refl, where ok = False and i = "''s1''" and now = 7] demo_open
  show ?thesis by simp
qed

theorem dashboard_mirrors_breakers_witness:
  "cr_opened (mb_registry (breaker_record (mem_breakers demo_cfg) False ''s1'' (id ''s1'') 7 demo_breakers)) = [(''s1'', ''mcp'')]"
  using dashboard_mirrors_breakers [OF mem_breakers.breaker_laws_axioms inj_on_id _ demo_run]
  by (simp add: mem_state_def demo_cells_def)

end
