(* ===== verification/Mcp_Proxy.thy ===== *)
theory Mcp_Proxy
  imports Mcp_Pool Mcp_Breaker
begin

section \<open>The MCP proxy\<close>

text \<open>
  \<^verbatim>\<open>crates/mcp-gateway/src/proxy.rs\<close> and \<^verbatim>\<open>lifecycle/\<close>: the MCP surface's hooks for the shared stages, the two
  stages of its own, and the dispatch of a JSON-RPC request. \<open>mcp_world\<close> is what a call reads and changes:
  Redis and the audit log (\<open>world\<close>), the breakers, the sessions of the replica, the connections, the credential
  tables, and the requests sent upstream so far, which nothing reads back and the theorems speak about. The
  registry is an argument. The catalogs of tools per user are read by \<^verbatim>\<open>tools/list\<close> from the database and given
  as rows; the discovery it spawns in the background is left out, and so are the bodies of an audit row.
  An SSE answer is pumped to a client who may leave; what runs after the call is run when the stream has ended.
\<close>

subsection \<open>The surface\<close>

record McpIdentity =
  mi_user_id :: uuid
  mi_user_email :: string
  mi_ip_address :: "string option"
  mi_surface_constraints :: SurfaceConstraints
  mi_allowed_mcp_tools :: "string list option"

definition mcp_hooks :: "(McpIdentity, JsonRpcResponse) hooks" where
  "mcp_hooks = \<lparr>
     is_access_allowed = (\<lambda>i candidate. is_tool_allowed (mi_allowed_mcp_tools i) candidate),
     access_denied_response = (\<lambda>_. err_response None INVALID_REQUEST ''Access denied for this tool''),
     rate_limited_response = (\<lambda>lab _. err_response None INVALID_REQUEST (''Rate limited: '' @ lab)),
     rate_limiter_unavailable_response = err_response None INVALID_REQUEST ''Rate limited: rate_limiter_unavailable'',
     budget_exceeded_response = (\<lambda>lab _. err_response None INVALID_REQUEST (''Budget exceeded: '' @ lab)),
     budget_unavailable_response = err_response None INVALID_REQUEST ''Budget cap backend unavailable''\<rparr>"

definition rate_limits :: "uuid \<Rightarrow> SurfaceConstraints \<Rightarrow> (uuid \<times> SurfaceConstraints) option \<Rightarrow> RequestLimits" where
  "rate_limits user_id user key =
     (let limits = for_request McpGateway user_id user key
      in limits\<lparr>rq_rules := filter (\<lambda>r. rl_metric r = Requests) (rq_rules limits), rq_caps := []\<rparr>)"

record ('s, 'm) mcp_world =
  mw_world :: "('s, McpIdentity) world"
  mw_breakers :: "'m McpCircuitBreakers"
  mw_sessions :: local_sessions
  mw_pool :: ConnectionPool
  mw_creds :: cred_db
  mw_sent :: "(uuid \<times> JsonRpcRequest \<times> (string \<times> string) list) list"

record ('s, 'm) mcp_env =
  me_R :: "'s redis"
  me_K :: "'s redis_kv"
  me_Z :: "'s redis_scan"
  me_M :: "'m breaker_map"
  me_cx :: codec
  me_max_body :: nat
  me_grant :: "nat \<Rightarrow> bool"
  me_sessions :: "'s sm_env"
  me_tokens :: tok_env
  me_upstream :: upstream
  me_cache_ttl_secs :: nat
  me_fail_closed :: bool
  me_parse_array :: "string \<Rightarrow> json list option"
  me_show_event :: "json \<Rightarrow> string option"
  me_show_response :: "JsonRpcResponse \<Rightarrow> string option"
  me_show_busy :: "JsonRpcResponse \<Rightarrow> string"
  me_version :: string

text \<open>The readings of the clock during one call, and when the client of a stream leaves it, if it does.\<close>

record mcp_times =
  mt_start :: int
  mt_admit :: int
  mt_breaker :: int
  mt_resolve :: "int \<times> int"
  mt_outcome :: int
  mt_audit :: int
  mt_client_leaves :: "nat option"

record RequestContext =
  cx_user_id :: uuid
  cx_user_email :: string
  cx_client_session_id :: string
  cx_surface_constraints :: SurfaceConstraints
  cx_api_key_lineage_id :: "uuid option"
  cx_key_constraints :: SurfaceConstraints
  cx_allowed_mcp_tools :: "string list option"
  cx_trace_id :: string
  cx_mcp_account_overrides :: json
  cx_ip_address :: "string option"
  cx_wants_streaming :: bool

datatype HandleOutcome = HandleBuffered JsonRpcResponse | HandleStreaming "string list"

definition account_label_for_server :: "json \<Rightarrow> uuid \<Rightarrow> string option" where
  "account_label_for_server overrides sv = Option.bind (json_get overrides sv) json_as_str"

definition quoted :: "string \<Rightarrow> string" where
  "quoted s = CHR 0x27 # s @ [CHR 0x27]"

definition mcp_log :: "McpIdentity \<Rightarrow> string \<Rightarrow> string \<Rightarrow> json \<Rightarrow> ('s, 'm) mcp_world \<Rightarrow> ('s, 'm) mcp_world" where
  "mcp_log i act tr det w = w\<lparr>mw_world := log_row i act tr det (mw_world w)\<rparr>"

definition on_redis :: "('s \<Rightarrow> 's) \<Rightarrow> ('s, 'm) mcp_world \<Rightarrow> ('s, 'm) mcp_world" where
  "on_redis f w = w\<lparr>mw_world := (mw_world w)\<lparr>w_redis := f (w_redis (mw_world w))\<rparr>\<rparr>"

abbreviation redis_of :: "('s, 'm) mcp_world \<Rightarrow> 's" where
  "redis_of w \<equiv> w_redis (mw_world w)"

subsection \<open>The stages of MCP\<close>

definition check_cache ::
  "('s, 'm) mcp_env \<Rightarrow> McpIdentity Authorized \<Rightarrow> uuid \<Rightarrow> CallerScope option \<Rightarrow> nat \<Rightarrow> JsonRpcRequest \<Rightarrow>
   ('s, 'm) mcp_world \<Rightarrow> ('s, 'm) mcp_world \<times> (JsonRpcResponse + McpIdentity Authorized)" where
  "check_cache E st sv scope ttl rq w =
     (if ttl = 0 then (w, Inr st)
      else case cache_get (me_K E) (me_cx E) (me_max_body E) (me_grant E) sv scope rq (redis_of w) (redis_of w) of
             Some cached \<Rightarrow>
               (mcp_log (identity st) ''tools.call.cache_hit'' (trace_id st)
                  (JObject [(''server_id'', JString sv), (''tool'', JString (access_candidate st))]) w, Inl cached)
           | None \<Rightarrow> (w, Inr st))"

definition check_breaker ::
  "('s, 'm) mcp_env \<Rightarrow> McpIdentity Authorized \<Rightarrow> uuid \<Rightarrow> string \<Rightarrow> int \<Rightarrow> ('s, 'm) mcp_world \<Rightarrow>
   ('s, 'm) mcp_world \<times> (JsonRpcResponse + McpIdentity Authorized)" where
  "check_breaker E st sv name now w =
     (case breaker_check (me_M E) sv name now (mw_breakers w) of
        (b, admitted) \<Rightarrow>
          if \<not> admitted then
            (mcp_log (identity st) ''tools.call.breaker_open'' (trace_id st)
               (JObject [(''server_name'', JString name), (''tool'', JString (access_candidate st))]) (w\<lparr>mw_breakers := b\<rparr>),
             Inl (err_response None INTERNAL_ERROR (''Upstream MCP server '' @ quoted name @ '' is temporarily unavailable'')))
          else (w\<lparr>mw_breakers := b\<rparr>, Inr st))"

subsection \<open>After the call\<close>

record McpPostInvokeDeps =
  pd_server_id :: uuid
  pd_server_name :: string
  pd_tool_name :: string
  pd_upstream_request :: JsonRpcRequest
  pd_logged_arguments :: "json option"
  pd_cache_scope_kind :: ServerCacheScope
  pd_cache_account_label :: "string option"
  pd_effective_cache_ttl :: nat
  pd_stream_audit_body :: "string option"
  pd_original_request_id :: "json option"

definition response_for_hooks ::
  "('s, 'm) mcp_env \<Rightarrow> McpPostInvokeDeps \<Rightarrow> (McpIdentity, JsonRpcResponse, json list) Invoked \<Rightarrow> JsonRpcResponse" where
  "response_for_hooks E d iv =
     (case view iv of
        Buffered r \<Rightarrow> r
      | Streaming outcome events \<Rightarrow>
          (let picked = unwrap_or (pick_response_envelope (up_from_value (me_upstream E)) events (pd_original_request_id d))
             (err_response (pd_original_request_id d) INTERNAL_ERROR
                (case outcome of
                   Natural \<Rightarrow> ''Upstream stream ended without a response envelope''
                 | UpstreamError ty msg code \<Rightarrow> ''Upstream stream error: '' @ msg
                 | ClientCancelled \<Rightarrow> ''Client cancelled before upstream replied''))
           in case outcome of
                UpstreamError ty msg code \<Rightarrow>
                  if ty = ''gateway_memory'' then err_response (pd_original_request_id d) RESOURCE_BUSY msg else picked
              | _ \<Rightarrow> picked))"

definition server_failure :: "JsonRpcResponse \<Rightarrow> bool" where
  "server_failure r \<longleftrightarrow>
     (case jr_error r of
        None \<Rightarrow> False
      | Some e \<Rightarrow> je_code e = INTERNAL_ERROR \<or> (-32099 \<le> je_code e \<and> je_code e \<le> -32000))"

definition record_breaker_for_response ::
  "('s, 'm) mcp_env \<Rightarrow> uuid \<Rightarrow> string \<Rightarrow> JsonRpcResponse \<Rightarrow> int \<Rightarrow> ('s, 'm) mcp_world \<Rightarrow> ('s, 'm) mcp_world" where
  "record_breaker_for_response E sv name r now w =
     (if map_option je_code (jr_error r) = Some RESOURCE_BUSY then w
      else w\<lparr>mw_breakers := (if server_failure r then record_failure (me_M E) sv name now (mw_breakers w)
                            else record_success (me_M E) sv name now (mw_breakers w))\<rparr>)"

definition mcp_record_outcome ::
  "('s, 'm) mcp_env \<Rightarrow> McpPostInvokeDeps \<Rightarrow> int \<Rightarrow> (McpIdentity, JsonRpcResponse, json list) Invoked \<Rightarrow>
   ('s, 'm) mcp_world \<Rightarrow> ('s, 'm) mcp_world" where
  "mcp_record_outcome E d now iv w =
     (case view iv of
        Streaming (UpstreamError ty msg code) events \<Rightarrow>
          if ty = ''gateway_memory'' then w
          else w\<lparr>mw_breakers := record_failure (me_M E) (pd_server_id d) (pd_server_name d) now (mw_breakers w)\<rparr>
      | _ \<Rightarrow> record_breaker_for_response E (pd_server_id d) (pd_server_name d) (response_for_hooks E d iv) now w)"

definition mcp_write_cache ::
  "('s, 'm) mcp_env \<Rightarrow> McpPostInvokeDeps \<Rightarrow> (McpIdentity, JsonRpcResponse, json list) Invoked \<Rightarrow>
   ('s, 'm) mcp_world \<Rightarrow> ('s, 'm) mcp_world" where
  "mcp_write_cache E d iv w =
     (if pd_effective_cache_ttl d = 0 then w
      else let r = response_for_hooks E d iv in
           if jr_error r \<noteq> None then w
           else let scope = (case pd_cache_scope_kind d of
                               Global \<Rightarrow> None
                             | PerCaller \<Rightarrow> Some \<lparr>cl_user_id = mi_user_id (identity iv),
                                                cl_account_label = pd_cache_account_label d\<rparr>)
                in on_redis (cache_set (me_K E) (me_cx E) (pd_server_id d) scope (pd_upstream_request d) r
                     (pd_effective_cache_ttl d)) w)"

definition emit_tools_call_audit ::
  "('s, 'm) mcp_env \<Rightarrow> McpPostInvokeDeps \<Rightarrow> int \<Rightarrow> (McpIdentity, JsonRpcResponse, json list) Invoked \<Rightarrow>
   ('s, 'm) mcp_world \<Rightarrow> ('s, 'm) mcp_world" where
  "emit_tools_call_audit E d now iv w =
     (let r = response_for_hooks E d iv in
      mcp_log (identity iv) ''tools.call'' (trace_id iv)
        (JObject [(''server_id'', JString (pd_server_id d)), (''server_name'', JString (pd_server_name d)),
                  (''tool_name'', JString (pd_tool_name d)), (''arguments'', unwrap_or (pd_logged_arguments d) JNull),
                  (''duration_ms'', JNumber (show_int (now - started_at iv))),
                  (''status'', JString (if jr_error r = None then ''ok'' else ''error'')),
                  (''error_message'', case jr_error r of None \<Rightarrow> JNull | Some e \<Rightarrow> JString (je_message e))]) w)"

definition mcp_post_hooks ::
  "('s, 'm) mcp_env \<Rightarrow> McpPostInvokeDeps \<Rightarrow> mcp_times \<Rightarrow>
   (McpIdentity, JsonRpcResponse, json list, ('s, 'm) mcp_world) post_hooks" where
  "mcp_post_hooks E d t = \<lparr>
     record_outcome = mcp_record_outcome E d (mt_outcome t),
     write_cache = mcp_write_cache E d,
     record_usage = (\<lambda>_ w. w),
     emit_audit = emit_tools_call_audit E d (mt_audit t)\<rparr>"

subsection \<open>Calling a tool\<close>

definition call_scope :: "RequestContext \<Rightarrow> RegisteredServer \<Rightarrow> CallerScope option" where
  "call_scope cx sv =
     (case sv_cache_scope sv of
        Global \<Rightarrow> None
      | PerCaller \<Rightarrow> Some \<lparr>cl_user_id = cx_user_id cx,
                           cl_account_label = account_label_for_server (cx_mcp_account_overrides cx) (sv_id sv)\<rparr>)"

definition upstream_request :: "JsonRpcRequest \<Rightarrow> json \<Rightarrow> string \<Rightarrow> JsonRpcRequest" where
  "upstream_request rq params tool =
     \<lparr>jq_jsonrpc = ''2.0'', jq_id = jq_id rq, jq_method = ''tools/call'',
      jq_params = Some (case params of
                          JObject m \<Rightarrow> JObject (entry_upd ''name'' (\<lambda>_. JString tool) (JString tool) m)
                        | v \<Rightarrow> v)\<rparr>"

definition effective_cache_ttl :: "('s, 'm) mcp_env \<Rightarrow> RegisteredServer \<Rightarrow> nat" where
  "effective_cache_ttl E sv = unwrap_or (sv_cache_ttl_secs sv) (me_cache_ttl_secs E)"

definition call_identity :: "RequestContext \<Rightarrow> McpIdentity" where
  "call_identity cx =
     \<lparr>mi_user_id = cx_user_id cx, mi_user_email = cx_user_email cx, mi_ip_address = cx_ip_address cx,
      mi_surface_constraints = cx_surface_constraints cx, mi_allowed_mcp_tools = cx_allowed_mcp_tools cx\<rparr>"

definition call_limits :: "RequestContext \<Rightarrow> RequestLimits" where
  "call_limits cx =
     rate_limits (cx_user_id cx) (cx_surface_constraints cx)
       (map_option (\<lambda>l. (l, cx_key_constraints cx)) (cx_api_key_lineage_id cx))"

text \<open>The four gates before the call, in their order.\<close>

definition call_gates ::
  "('s, 'm) mcp_env \<Rightarrow> RequestContext \<Rightarrow> mcp_times \<Rightarrow> RegisteredServer \<Rightarrow> string \<Rightarrow> JsonRpcRequest \<Rightarrow>
   ('s, 'm) mcp_world \<Rightarrow> ('s, 'm) mcp_world \<times> (JsonRpcResponse + McpIdentity Authorized)" where
  "call_gates E cx t sv name up w =
     (let raw = \<lparr>identity = call_identity cx, trace_id = cx_trace_id cx, started_at = mt_start t,
                 client_ip = cx_ip_address cx\<rparr>
      in case check_access mcp_hooks raw name (mw_world w) of
           (w1, Inl r) \<Rightarrow> (w\<lparr>mw_world := w1\<rparr>, Inl r)
         | (w1, Inr ac) \<Rightarrow>
             (case check_limits (me_R E) mcp_hooks ac (rq_rules (call_limits cx)) (rq_owner (call_limits cx))
                     (mt_admit t) (me_fail_closed E) w1 of
                (w2, Inl r) \<Rightarrow> (w\<lparr>mw_world := w2\<rparr>, Inl r)
              | (w2, Inr az) \<Rightarrow>
                  (case check_cache E az (sv_id sv) (call_scope cx sv) (effective_cache_ttl E sv) up (w\<lparr>mw_world := w2\<rparr>) of
                     (w3, Inl r) \<Rightarrow> (w3, Inl r)
                   | (w3, Inr az') \<Rightarrow> check_breaker E az' (sv_id sv) (sv_name sv) (mt_breaker t) w3)))"

definition opt_string :: "string option \<Rightarrow> json" where
  "opt_string x = (case x of None \<Rightarrow> JNull | Some s \<Rightarrow> JString s)"

definition needs_credentials_response ::
  "json option \<Rightarrow> string \<Rightarrow> (string \<times> json) list \<Rightarrow> uuid \<Rightarrow> string \<Rightarrow> string option \<Rightarrow> string \<Rightarrow> CredentialOwner \<Rightarrow> JsonRpcResponse" where
  "needs_credentials_response i msg reason sv name authorize_url console_url own =
     \<lparr>jr_jsonrpc = ''2.0'', jr_id = i, jr_result = None,
      jr_error = Some \<lparr>je_code = NEEDS_USER_CREDENTIALS, je_message = msg,
        je_data = Some (JObject ([(''kind'', JString ''needs_user_credentials'')] @ reason @
          [(''server_id'', JString sv), (''server_name'', JString name), (''authorize_url'', opt_string authorize_url),
           (''console_url'', JString console_url), (''owner'', JString (CredentialOwner_as_str own))]))\<rparr>\<rparr>"

fun console_url :: "CredentialOwner \<Rightarrow> string" where
  "console_url PerUser = ''/connections''"
| "console_url AdminShared = ''/admin/mcp/servers''"

fun ResolverError_show :: "ResolverError \<Rightarrow> string" where
  "ResolverError_show (NeedsUserCredentials sv u own) = ''MCP server '' @ sv @ '' has no credential available''"
| "ResolverError_show (RefreshFailed sv kind msg) = ''refresh failed for MCP server '' @ sv @ '': '' @ msg"
| "ResolverError_show (Database e) = ''database error: '' @ e"
| "ResolverError_show (Crypto e) = ''crypto error: '' @ e"
| "ResolverError_show (BadTokenResponse e) = ''invalid token-endpoint response: '' @ e"

fun resolver_response :: "json option \<Rightarrow> RegisteredServer \<Rightarrow> ResolverError \<Rightarrow> JsonRpcResponse" where
  "resolver_response i sv (NeedsUserCredentials srv url own) =
     needs_credentials_response i
       (case own of
          PerUser \<Rightarrow> ''User has not connected an account for MCP server '' @ quoted (sv_name sv) @
            ''. Open /connections in the ThinkWatch console to authorize.''
        | AdminShared \<Rightarrow> ''MCP server '' @ quoted (sv_name sv) @
            '' is configured to use a shared credential, but no admin has provisioned one yet. Ask an administrator to configure it in the server settings.'')
       [] srv (sv_name sv)
       (case url of Some u \<Rightarrow> Some u | None \<Rightarrow> Option.bind (sv_oauth_cfg sv) oc_authorization_endpoint)
       (console_url own) own"
| "resolver_response i sv (RefreshFailed srv Permanent msg) =
     needs_credentials_response i
       (''Authorization for MCP server '' @ quoted (sv_name sv) @
        '' was rejected by the upstream and has been cleared. Re-authorize at '' @ console_url (sv_credential_owner sv) @ ''.'')
       [(''reason'', JString ''refresh_rejected'')] srv (sv_name sv)
       (Option.bind (sv_oauth_cfg sv) oc_authorization_endpoint) (console_url (sv_credential_owner sv)) (sv_credential_owner sv)"
| "resolver_response i sv (RefreshFailed srv Transient msg) =
     err_response i INTERNAL_ERROR
       (''Upstream OAuth provider for MCP server '' @ quoted (sv_name sv) @ '' is temporarily unavailable ('' @ msg @
        ''). Retry in a few seconds.'')"
| "resolver_response i sv e = err_response i INTERNAL_ERROR (''Credential resolver failed: '' @ ResolverError_show e)"

definition call_deps ::
  "('s, 'm) mcp_env \<Rightarrow> RequestContext \<Rightarrow> RegisteredServer \<Rightarrow> string \<Rightarrow> JsonRpcRequest \<Rightarrow> json \<Rightarrow> json option \<Rightarrow> McpPostInvokeDeps" where
  "call_deps E cx sv tool up params i =
     \<lparr>pd_server_id = sv_id sv, pd_server_name = sv_name sv, pd_tool_name = tool, pd_upstream_request = up,
      pd_logged_arguments = json_get params ''arguments'', pd_cache_scope_kind = sv_cache_scope sv,
      pd_cache_account_label = account_label_for_server (cx_mcp_account_overrides cx) (sv_id sv),
      pd_effective_cache_ttl = effective_cache_ttl E sv, pd_stream_audit_body = None, pd_original_request_id = i\<rparr>"

definition save_upstream_session ::
  "('s, 'm) mcp_env \<Rightarrow> RequestContext \<Rightarrow> uuid \<Rightarrow> string option \<Rightarrow> ('s, 'm) mcp_world \<Rightarrow> ('s, 'm) mcp_world" where
  "save_upstream_session E cx sv sid w =
     (case sid of
        None \<Rightarrow> w
      | Some up \<Rightarrow>
          (case set_upstream_session (me_sessions E) (cx_client_session_id cx) sv up (mw_sessions w, redis_of w) of
             (l, s) \<Rightarrow> on_redis (\<lambda>_. s) (w\<lparr>mw_sessions := l\<rparr>)))"

definition invoked :: "McpIdentity Authorized \<Rightarrow> (JsonRpcResponse, json list) CapturedView \<Rightarrow>
    (McpIdentity, JsonRpcResponse, json list) Invoked" where
  "invoked az v =
     \<lparr>identity = identity az, trace_id = trace_id az, started_at = started_at az, client_ip = client_ip az,
      access_candidate = access_candidate az, limit_check = limit_check az, view = v\<rparr>"

text \<open>A client that leaves after \<open>n\<close> payloads has got, and left in the audit, the first \<open>n\<close>.\<close>

definition pump_to_client ::
  "('s, 'm) mcp_env \<Rightarrow> mcp_times \<Rightarrow> json option \<Rightarrow> http_reply \<Rightarrow> string list \<times> (JsonRpcResponse, json list) CapturedView" where
  "pump_to_client E t i rp =
     (let busy = me_show_busy E (err_response i RESOURCE_BUSY ''Gateway buffering capacity is occupied; retry shortly'')
      in case pump busy (hr_body rp) [] of
           (sent, kept, outcome) \<Rightarrow>
             (case mt_client_leaves t of
                None \<Rightarrow> (sent, Streaming outcome (captured (up_from_str (me_upstream E)) kept))
              | Some n \<Rightarrow>
                  (take n sent, Streaming ClientCancelled (captured (up_from_str (me_upstream E)) (take n kept)))))"

text \<open>What the client gets and what is kept of the call, after the request went out with \<open>headers\<close>.\<close>

definition call_upstream ::
  "('s, 'm) mcp_env \<Rightarrow> RequestContext \<Rightarrow> mcp_times \<Rightarrow> RegisteredServer \<Rightarrow> McpConnection \<Rightarrow> JsonRpcRequest \<Rightarrow>
   (string \<times> string) list \<Rightarrow> json option \<Rightarrow> ('s, 'm) mcp_world \<Rightarrow>
   ('s, 'm) mcp_world \<times> string list option \<times> (JsonRpcResponse, json list) CapturedView \<times> string option" where
  "call_upstream E cx t sv conn up headers i w =
     (let w1 = w\<lparr>mw_sent := mw_sent w @ [(sv_id sv, up, headers)]\<rparr>; U = me_upstream E in
      if cx_wants_streaming cx then
        (case send_request_streaming U conn up headers of
           Inl e \<Rightarrow> (w1, None, Buffered (error_response i e), None)
         | Inr rp \<Rightarrow>
             (let w2 = save_upstream_session E cx (sv_id sv) (hr_session_id rp) w1 in
              if is_event_stream rp then
                (case pump_to_client E t i rp of (sent, v) \<Rightarrow> (w2, Some sent, v, None))
              else (w2, None, Buffered (case read_json_response U rp of Inr r \<Rightarrow> r | Inl e \<Rightarrow> error_response i e), None)))
      else
        (case send_request U conn up headers of
           Inl e \<Rightarrow> (w1, None, Buffered (error_response i e), None)
         | Inr (r, sid, audit) \<Rightarrow> (save_upstream_session E cx (sv_id sv) sid w1, None, Buffered r, audit)))"

definition answer_buffered ::
  "('s, 'm) mcp_env \<Rightarrow> RequestContext \<Rightarrow> McpPostInvokeDeps \<Rightarrow> JsonRpcResponse \<Rightarrow> HandleOutcome" where
  "answer_buffered E cx d r =
     (if cx_wants_streaming cx \<and> map_option je_code (jr_error r) \<noteq> Some RESOURCE_BUSY
      then HandleStreaming (build_replay_payload (me_parse_array E) (me_show_event E) (me_show_response E) r (pd_stream_audit_body d))
      else HandleBuffered r)"

definition call_and_finish ::
  "('s, 'm) mcp_env \<Rightarrow> RequestContext \<Rightarrow> mcp_times \<Rightarrow> RegisteredServer \<Rightarrow> string \<Rightarrow> json \<Rightarrow> JsonRpcRequest \<Rightarrow> json option \<Rightarrow>
   McpConnection \<Rightarrow> (string \<times> string) list \<Rightarrow> McpIdentity Authorized \<Rightarrow> ('s, 'm) mcp_world \<Rightarrow> ('s, 'm) mcp_world \<times> HandleOutcome" where
  "call_and_finish E cx t sv tool params up i conn headers az w =
     (case call_upstream E cx t sv conn up headers i w of
        (w1, stream, v, audit) \<Rightarrow>
          (let d = (call_deps E cx sv tool up params i)\<lparr>pd_stream_audit_body := audit\<rparr> in
           case run_post_invoke (mcp_post_hooks E d t) (invoked az v) w1 of
             (w2, emitted) \<Rightarrow>
               (w2, case stream of
                      Some payloads \<Rightarrow> HandleStreaming payloads
                    | None \<Rightarrow> (case emitted of
                                Some r \<Rightarrow> answer_buffered E cx d r
                              | None \<Rightarrow> HandleStreaming []))))"

text \<open>
  From the gates on. A buffered view always emits a response, so the last branch above is not taken. The
  result \<open>None\<close> is the resolver's panic.
\<close>

definition call_authorized ::
  "('s, 'm) mcp_env \<Rightarrow> RequestContext \<Rightarrow> mcp_times \<Rightarrow> RegisteredServer \<Rightarrow> string \<Rightarrow> json \<Rightarrow> JsonRpcRequest \<Rightarrow> json option \<Rightarrow>
   McpIdentity Authorized \<Rightarrow> ('s, 'm) mcp_world \<Rightarrow> (('s, 'm) mcp_world \<times> HandleOutcome) option" where
  "call_authorized E cx t sv tool params up i az w =
     (case get_or_create sv (mw_pool w) of
        (pool, conn) \<Rightarrow>
          (case get_upstream_session (me_sessions E) (cx_client_session_id cx) (sv_id sv) (mw_sessions w, redis_of w) of
             ((l, s), sid) \<Rightarrow>
               (let w1 = on_redis (\<lambda>_. s) (w\<lparr>mw_pool := pool, mw_sessions := l\<rparr>);
                    caller = \<lparr>rc_user_id = cx_user_id cx, rc_mcp_account_overrides = cx_mcp_account_overrides cx\<rparr>
                in case resolve (me_tokens E) (me_Z E) (sv_id sv) (auth_cfg sv) caller (mt_resolve t) (mw_creds w1, redis_of w1) of
                     None \<Rightarrow> None
                   | Some ((db, s'), r) \<Rightarrow>
                       (let w2 = on_redis (\<lambda>_. s') (w1\<lparr>mw_creds := db\<rparr>) in
                        case r of
                          Inl e \<Rightarrow> Some (w2, HandleBuffered (resolver_response i sv e))
                        | Inr hdr \<Rightarrow>
                            Some (call_and_finish E cx t sv tool params up i conn
                              (upstream_headers conn hdr
                                 (Some \<lparr>ci_user_id = cx_user_id cx, ci_user_email = cx_user_email cx\<rparr>) sid (Some (cx_trace_id cx)))
                              az w2)))))"

definition handle_tools_call ::
  "('s, 'm) mcp_env \<Rightarrow> Registry \<Rightarrow> RequestContext \<Rightarrow> mcp_times \<Rightarrow> JsonRpcRequest \<Rightarrow> ('s, 'm) mcp_world \<Rightarrow>
   (('s, 'm) mcp_world \<times> HandleOutcome) option" where
  "handle_tools_call E reg cx t rq w =
     (case jq_params rq of
        None \<Rightarrow> Some (w, HandleBuffered (err_response (jq_id rq) INVALID_PARAMS ''Missing params for tools/call''))
      | Some params \<Rightarrow>
          (case Option.bind (json_get params ''name'') json_as_str of
             None \<Rightarrow> Some (w, HandleBuffered (err_response (jq_id rq) INVALID_PARAMS
               (''Missing or invalid '' @ quoted ''name'' @ '' in params'')))
           | Some name \<Rightarrow>
               (case find_server_for_tool reg name of
                  None \<Rightarrow> Some (w, HandleBuffered (err_response (jq_id rq) INVALID_PARAMS (''Unknown tool: '' @ name)))
                | Some (sv, tool) \<Rightarrow>
                    (let up = upstream_request rq params tool in
                     case call_gates E cx t sv name up w of
                       (w1, Inl r) \<Rightarrow> Some (w1, HandleBuffered (r\<lparr>jr_id := jq_id rq\<rparr>))
                     | (w1, Inr az) \<Rightarrow> call_authorized E cx t sv tool params up (jq_id rq) az w1))))"

subsection \<open>Listing tools, and the dispatch\<close>

record UserToolRow =
  ut_mcp_server_id :: uuid
  ut_tool_name :: string
  ut_description :: "string option"
  ut_input_schema :: "json option"

text \<open>The caller's rows of the two tables; a query that fails gives none.\<close>

record user_catalog =
  ca_connected :: "uuid list"
  ca_rows :: "UserToolRow list"

definition row_tool :: "UserToolRow \<Rightarrow> McpToolInfo" where
  "row_tool r = \<lparr>ti_name = ut_tool_name r, ti_description = ut_description r, ti_input_schema = ut_input_schema r\<rparr>"

definition tool_source :: "user_catalog \<Rightarrow> RegisteredServer \<Rightarrow> McpToolInfo list" where
  "tool_source cat sv =
     (let rows = filter (\<lambda>r. ut_mcp_server_id r = sv_id sv) (ca_rows cat) in
      if sv_credential_owner sv = AdminShared then sv_tools sv
      else if sv_auth_shape sv \<noteq> Anonymous \<and> sv_id sv \<in> set (ca_connected cat) then
        if rows = [] then sv_tools sv else map row_tool rows
      else sv_tools sv)"

definition requires_user_auth :: "user_catalog \<Rightarrow> RegisteredServer \<Rightarrow> bool" where
  "requires_user_auth cat sv \<longleftrightarrow>
     sv_credential_owner sv \<noteq> AdminShared \<and> sv_auth_shape sv \<noteq> Anonymous \<and> sv_id sv \<notin> set (ca_connected cat)"

definition tool_entry :: "user_catalog \<Rightarrow> RegisteredServer \<Rightarrow> McpToolInfo \<Rightarrow> json" where
  "tool_entry cat sv t =
     JObject ([(''name'', JString (namespaced sv (ti_name t))),
               (''description'', JString (unwrap_or (ti_description t) [])),
               (''inputSchema'', unwrap_or (ti_input_schema t) (JObject [(''type'', JString ''object'')]))] @
              (if requires_user_auth cat sv
               then [(''_meta'', JObject [(''requires_user_auth'', JBool True), (''server_id'', JString (sv_id sv)),
                                          (''server_name'', JString (sv_name sv))])]
               else []))"

definition listed_tools :: "string list option \<Rightarrow> user_catalog \<Rightarrow> Registry \<Rightarrow> (RegisteredServer \<times> McpToolInfo) list" where
  "listed_tools patterns cat reg =
     concat (map (\<lambda>sv. map (Pair sv) (filter (\<lambda>t. is_tool_allowed patterns (namespaced sv (ti_name t))) (tool_source cat sv)))
       (registry_list reg))"

definition handle_tools_list :: "RequestContext \<Rightarrow> user_catalog \<Rightarrow> Registry \<Rightarrow> JsonRpcRequest \<Rightarrow> JsonRpcResponse" where
  "handle_tools_list cx cat reg rq =
     ok_response (jq_id rq)
       (JObject [(''tools'', JArray (map (\<lambda>(sv, t). tool_entry cat sv t) (listed_tools (cx_allowed_mcp_tools cx) cat reg)))])"

definition handle_initialize :: "string \<Rightarrow> JsonRpcRequest \<Rightarrow> JsonRpcResponse" where
  "handle_initialize version rq =
     ok_response (jq_id rq)
       (JObject [(''protocolVersion'', JString ''2025-03-26''),
                 (''capabilities'', JObject [(''tools'', JObject [(''listChanged'', JBool True)]),
                                             (''resources'', JObject []), (''prompts'', JObject [])]),
                 (''serverInfo'', JObject [(''name'', JString ''ThinkWatch MCP Gateway''), (''version'', JString version)])])"

definition handle_request ::
  "('s, 'm) mcp_env \<Rightarrow> Registry \<Rightarrow> user_catalog \<Rightarrow> RequestContext \<Rightarrow> mcp_times \<Rightarrow> JsonRpcRequest \<Rightarrow> ('s, 'm) mcp_world \<Rightarrow>
   (('s, 'm) mcp_world \<times> HandleOutcome) option" where
  "handle_request E reg cat cx t rq w =
     (if jq_method rq = ''initialize'' then Some (w, HandleBuffered (handle_initialize (me_version E) rq))
      else if jq_method rq = ''tools/list'' then Some (w, HandleBuffered (handle_tools_list cx cat reg rq))
      else if jq_method rq = ''tools/call'' then handle_tools_call E reg cx t rq w
      else Some (w, HandleBuffered (err_response (jq_id rq) METHOD_NOT_FOUND (''Method not found: '' @ jq_method rq))))"

end
