(* ===== verification/Mcp_Tools_Props.thy ===== *)
theory Mcp_Tools_Props
  imports Mcp_Registry
begin

section \<open>Tool names, their servers and their grants\<close>

text \<open>
  Which names \<open>find_server_for_tool\<close> resolves and which patterns \<open>is_tool_allowed\<close> matches, for the registries
  the operations of \<^verbatim>\<open>registry.rs\<close> build.
\<close>

subsection \<open>Names with a prefix\<close>

text \<open>A prefix is clean when the first separator of \<open>p @ ''__'' @ t\<close> is the one after \<open>p\<close>.\<close>

definition clean_prefix :: "string \<Rightarrow> bool" where
  "clean_prefix p \<longleftrightarrow> p \<noteq> [] \<and> find_sub (p @ ''_'') ''__'' = None"

lemma clean_prefix_no_sep: "clean_prefix p \<Longrightarrow> p @ ''_'' \<noteq> a @ ''__'' @ b"
  using find_sub_None [of "p @ ''_''" "''__''" a b] unfolding clean_prefix_def by blast

lemma clean_prefix_find: "clean_prefix p \<Longrightarrow> find_sub p ''__'' = None"
proof (rule ccontr)
  assume c: "clean_prefix p" and "find_sub p ''__'' \<noteq> None"
  then obtain n where "find_sub p ''__'' = Some n" by blast
  from find_sub_Some [OF this] obtain r where "p = take n p @ ''__'' @ r" by blast
  then have "p @ ''_'' = take n p @ ''__'' @ (r @ ''_'')" by (metis append.assoc)
  with clean_prefix_no_sep [OF c] show False by blast
qed

lemma split_once_clean:
  assumes "clean_prefix p"
  shows "split_once (p @ ''__'' @ t) ''__'' = Some (p, t)"
proof (rule split_once_unique)
  fix a b
  assume eq: "p @ ''__'' @ t = a @ ''__'' @ b"
  show "length p \<le> length a"
  proof (rule ccontr)
    assume lt: "\<not> length p \<le> length a"
    from eq have "take (length p + 1) (p @ ''__'' @ t) = take (length p + 1) (a @ ''__'' @ b)" by simp
    then have "p @ ''_'' = take (length p + 1) (a @ ''__'' @ b)" by simp
    also from lt have "\<dots> = a @ ''__'' @ take (length p + 1 - (length a + 2)) b"
      by (cases "length p - length a") (simp_all add: Suc_diff_le flip: Suc_diff_Suc)
    finally show False using clean_prefix_no_sep [OF assms] by blast
  qed
qed

lemma namespaced_eq: "namespaced sv t = sv_namespace_prefix sv @ ''__'' @ t"
  by (simp add: namespaced_def NAMESPACE_SEPARATOR_def)

text \<open>A name without a star is matched by three patterns and no other.\<close>

lemma pattern_matches_iff:
  assumes p: "clean_prefix p" and star: "CHR ''*'' \<notin> set p" "CHR ''*'' \<notin> set t" and t: "t \<noteq> []"
  shows "pattern_matches pat (p @ ''__'' @ t) \<longleftrightarrow> pat = ''*'' \<or> pat = p @ ''__*'' \<or> pat = p @ ''__'' @ t"
proof (cases "strip_suffix pat ''__*''")
  case None
  then have ne: "pat \<noteq> p @ ''__*''" by (metis option.distinct(1) strip_suffix_Some)
  have "pattern_matches pat (p @ ''__'' @ t) \<longleftrightarrow> pat = ''*'' \<or>
      (CHR ''*'' \<notin> set pat \<and> (\<exists>a b. split_once pat ''__'' = Some (a, b) \<and> a \<noteq> [] \<and> b \<noteq> []) \<and> pat = p @ ''__'' @ t)"
    unfolding pattern_matches_def None by (auto split: option.split)
  moreover have "p \<noteq> []" using p by (simp add: clean_prefix_def)
  ultimately show ?thesis using ne star t split_once_clean [OF p, of t] by (cases "pat = p @ ''__'' @ t") simp_all
next
  case (Some server)
  then have pat: "pat = server @ ''__*''" by (simp add: strip_suffix_Some)
  then have "CHR ''*'' \<in> set pat" by simp
  then have ne: "pat \<noteq> p @ ''__'' @ t" using star by auto
  have star': "pat \<noteq> ''*''" using pat by (cases server) simp_all
  have "pattern_matches pat (p @ ''__'' @ t) \<longleftrightarrow>
      \<not> (server = [] \<or> find_sub server ''__'' \<noteq> None \<or> CHR ''*'' \<in> set server) \<and> p = server \<and> t \<noteq> []"
    unfolding pattern_matches_def Some split_once_clean [OF p] using star' by simp
  then show ?thesis using ne star' pat star t clean_prefix_find [OF p] p by (auto simp: clean_prefix_def)
qed

lemma valid_name: "validate_tool_name t \<Longrightarrow> t \<noteq> [] \<and> CHR ''*'' \<notin> set t"
  by (auto simp: validate_tool_name_def list_all_iff is_ascii_lowercase_def is_ascii_uppercase_def is_ascii_digit_def)

subsection \<open>The registries that are built\<close>

inductive built :: "Registry \<Rightarrow> bool" where
  empty: "built []"
| register: "built g \<Longrightarrow> built (registry_register sv g)"
| unregister: "built g \<Longrightarrow> built (registry_unregister i g)"
| status: "built g \<Longrightarrow> built (update_status i st now g)"
| tools: "built g \<Longrightarrow> built (update_tools i ts g)"

definition registry_ok :: "Registry \<Rightarrow> bool" where
  "registry_ok g \<longleftrightarrow> distinct (map fst g) \<and>
     list_all (\<lambda>(i, sv). sv_id sv = i \<and> list_all (\<lambda>t. validate_tool_name (ti_name t)) (sv_tools sv)) g"

lemma list_all_entry_upd:
  "list_all (\<lambda>(i, v). P i v) g \<Longrightarrow> P k v0 \<Longrightarrow> (\<And>v. P k v \<Longrightarrow> P k (f v)) \<Longrightarrow> list_all (\<lambda>(i, v). P i v) (entry_upd k f v0 g)"
  by (induction g) auto

lemma list_all_registry_update:
  "list_all (\<lambda>(i, v). P i v) g \<Longrightarrow> (\<And>v. P k v \<Longrightarrow> P k (f v)) \<Longrightarrow> list_all (\<lambda>(i, v). P i v) (registry_update k f g)"
  by (auto simp: registry_update_def list_all_iff)

lemma registry_update_keys [simp]: "map fst (registry_update k f g) = map fst g"
  by (induction g) (auto simp: registry_update_def)

lemma keep_valid_ok [simp]: "list_all (\<lambda>t. validate_tool_name (ti_name t)) (keep_valid ts)"
  by (simp add: keep_valid_def list_all_iff)

lemma registry_ok_register: "registry_ok g \<Longrightarrow> registry_ok (registry_register sv g)"
  unfolding registry_ok_def registry_register_def Let_def
  by (intro conjI list_all_entry_upd) simp_all

lemma registry_ok_update:
  assumes "registry_ok g"
    "\<And>sv. sv_id sv = i \<Longrightarrow> list_all (\<lambda>t. validate_tool_name (ti_name t)) (sv_tools sv) \<Longrightarrow>
       sv_id (f sv) = i \<and> list_all (\<lambda>t. validate_tool_name (ti_name t)) (sv_tools (f sv))"
  shows "registry_ok (registry_update i f g)"
  using assms unfolding registry_ok_def by (auto intro!: list_all_registry_update)

lemma registry_ok_unregister: "registry_ok g \<Longrightarrow> registry_ok (registry_unregister i g)"
  by (auto simp: registry_ok_def registry_unregister_def list_all_iff distinct_map_filter)

lemma built_ok: "built g \<Longrightarrow> registry_ok g"
proof (induction rule: built.induct)
  case empty
  show ?case by (simp add: registry_ok_def)
next
  case (register g sv)
  then show ?case by (simp add: registry_ok_register)
next
  case (unregister g i)
  then show ?case by (simp add: registry_ok_unregister)
next
  case (status g i st now)
  show ?case unfolding update_status_def by (rule registry_ok_update [OF status.IH]) simp_all
next
  case (tools g i ts)
  show ?case unfolding update_tools_def by (rule registry_ok_update [OF tools.IH]) simp_all
qed

text \<open>The prefixes of a registry as the table \<^verbatim>\<open>mcp_servers\<close> keeps them, each without a separator inside.\<close>

definition prefixes_ok :: "Registry \<Rightarrow> bool" where
  "prefixes_ok g \<longleftrightarrow> distinct (map (\<lambda>e. sv_namespace_prefix (snd e)) g) \<and>
     list_all (\<lambda>e. clean_prefix (sv_namespace_prefix (snd e)) \<and>
       list_all (\<lambda>c. prefix_char c \<or> c = CHR ''_'') (sv_namespace_prefix (snd e))) g"

lemma prefix_char_star: "\<not> prefix_char (CHR ''*'')"
  by (simp add: prefix_char_def is_ascii_lowercase_def is_ascii_digit_def)

lemma prefixes_okD:
  assumes "prefixes_ok g" "(i, sv) \<in> set g"
  shows "clean_prefix (sv_namespace_prefix sv) \<and> (\<forall>c \<in> set (sv_namespace_prefix sv). prefix_char c \<or> c = CHR ''_'')"
  using assms by (force simp: prefixes_ok_def list_all_iff)

lemma find_unique:
  assumes "distinct (map f xs)" "x \<in> set xs"
  shows "List.find (\<lambda>y. f y = f x) xs = Some x"
  using assms by (induction xs) (auto simp: image_iff)

lemma find_server_clean:
  assumes g: "prefixes_ok g" and sv: "(i, sv) \<in> set g" and t: "t \<noteq> []"
  shows "find_server_for_tool g (namespaced sv t) = Some (sv, t)"
proof -
  have c: "clean_prefix (sv_namespace_prefix sv)" using prefixes_okD [OF g sv] by simp
  then have ne: "sv_namespace_prefix sv \<noteq> []" by (simp add: clean_prefix_def)
  from g have "distinct (map sv_namespace_prefix (map snd g))" by (simp add: prefixes_ok_def comp_def)
  moreover from sv have "sv \<in> set (map snd g)" by force
  ultimately have "List.find (\<lambda>y. sv_namespace_prefix y = sv_namespace_prefix sv) (map snd g) = Some sv"
    by (rule find_unique)
  with split_once_clean [OF c, of t] ne t show ?thesis
    by (simp add: find_server_for_tool_def namespaced_eq NAMESPACE_SEPARATOR_def)
qed

subsection \<open>What clients can call\<close>


definition demo_tool :: McpToolInfo where
  "demo_tool = \<lparr>ti_name = ''aws___list'', ti_description = None, ti_input_schema = None\<rparr>"

definition demo_server :: RegisteredServer where
  "demo_server =
     \<lparr>sv_id = ''s1'', sv_name = ''AWS: Docs'', sv_namespace_prefix = ''aws_docs'', sv_endpoint_url = ''http://x'',
      sv_transport_type = StreamableHttp, sv_tools = [demo_tool], sv_status = Unknown, sv_last_health_check = None,
      sv_oauth_cfg = None, sv_auth_shape = Anonymous, sv_credential_owner = PerUser,
      sv_auth_header_name = ''Authorization'', sv_auth_value_template = ''Bearer {{token}}'',
      sv_custom_headers = [], sv_cache_ttl_secs = None, sv_cache_scope = Global\<rparr>"

lemma demo_built: "built (registry_register demo_server [])"
  by (intro built.intros)

lemma demo_registry: "registry_register demo_server [] = [(''s1'', demo_server)]"
  by (simp add: registry_register_def keep_valid_def demo_server_def demo_tool_def validate_tool_name_def
      is_ascii_lowercase_def)

lemma demo_listed: "(''aws_docs__aws___list'', demo_tool) \<in> set (get_all_tools (registry_register demo_server []) None)"
  unfolding demo_registry
  by (simp add: get_all_tools_def namespaced_eq) (simp add: demo_server_def demo_tool_def)

lemma demo_prefixes: "prefixes_ok (registry_register demo_server [])"
  unfolding demo_registry prefixes_ok_def
  by (simp add: demo_server_def clean_prefix_def find_sub.simps starts_with_def prefix_char_def
      is_ascii_lowercase_def)


text \<open>
  A prefix that \<^verbatim>\<open>normalize_namespace_prefix\<close> derives or accepts can hold the separator: the server named
  \<^verbatim>\<open>AWS: Docs\<close> gets the prefix \<^verbatim>\<open>aws__docs\<close>. Its tool is listed as \<^verbatim>\<open>aws__docs__search\<close>, but that name belongs to the
  tool \<^verbatim>\<open>docs__search\<close> of a server \<^verbatim>\<open>aws\<close>: with no such server the call is an unknown tool, with one it goes to the
  other server, and the wildcard \<^verbatim>\<open>aws__docs__*\<close> grants nothing.
\<close>

theorem derived_prefix_hides_tools:
  "normalize_namespace_prefix None ''AWS: Docs'' = Inr ''aws__docs'' \<and>
   normalize_namespace_prefix (Some ''aws__docs'') [] = Inr ''aws__docs'' \<and>
   (let sv = demo_server\<lparr>sv_namespace_prefix := ''aws__docs'', sv_tools := [demo_tool\<lparr>ti_name := ''search''\<rparr>]\<rparr>;
        aws = demo_server\<lparr>sv_id := ''s2'', sv_namespace_prefix := ''aws''\<rparr>
    in map fst (get_all_tools [(''s1'', sv)] None) = [''aws__docs__search''] \<and>
       find_server_for_tool [(''s1'', sv)] ''aws__docs__search'' = None \<and>
       find_server_for_tool [(''s1'', sv), (''s2'', aws)] ''aws__docs__search'' = Some (aws, ''docs__search'') \<and>
       \<not> is_tool_allowed (Some [''aws__docs__*'']) ''aws__docs__search'')"
proof -
  have s: "split_once ''aws__docs__search'' ''__'' = Some (''aws'', ''docs__search'')" by code_simp
  have n: "normalize_namespace_prefix None ''AWS: Docs'' = Inr ''aws__docs''" by code_simp
  have e: "normalize_namespace_prefix (Some ''aws__docs'') [] = Inr ''aws__docs''" by code_simp
  have p: "\<not> is_tool_allowed (Some [''aws__docs__*'']) ''aws__docs__search''" by code_simp
  show ?thesis
    using n e p
    by (simp add: find_server_for_tool_def s NAMESPACE_SEPARATOR_def get_all_tools_def namespaced_eq demo_server_def)
qed

end
