(* ===== verification/Mcp_Proxy_Props.thy ===== *)
theory Mcp_Proxy_Props
  imports Mcp_Proxy Mcp_Tools_Props Lifecycle_Props
begin

section \<open>What a tool call does\<close>

text \<open>
  The order of the gates of \<open>handle_tools_call\<close>, what a refusal leaves behind, and how the answer of an upstream
  reaches the breaker and the cache.
\<close>

subsection \<open>What each step leaves alone\<close>

lemma on_redis_simps [simp]:
  "mw_sent (on_redis f w) = mw_sent w" "mw_breakers (on_redis f w) = mw_breakers w"
  "w_audit (mw_world (on_redis f w)) = w_audit (mw_world w)" "redis_of (on_redis f w) = f (redis_of w)"
  by (simp_all add: on_redis_def)

lemma mcp_log_simps [simp]:
  "mw_sent (mcp_log i a tr d w) = mw_sent w" "mw_breakers (mcp_log i a tr d w) = mw_breakers w"
  "redis_of (mcp_log i a tr d w) = redis_of w"
  by (simp_all add: mcp_log_def log_row_def)

lemma save_upstream_session_simps [simp]:
  "mw_sent (save_upstream_session E cx sv sid w) = mw_sent w"
  "mw_breakers (save_upstream_session E cx sv sid w) = mw_breakers w"
  by (auto simp: save_upstream_session_def split: option.splits prod.splits)

lemma post_invoke_sent [simp]: "mw_sent (fst (run_post_invoke (mcp_post_hooks E d t) iv w)) = mw_sent w"
  by (simp add: run_post_invoke_def stage_emit_audit_def stage_write_cache_def mcp_post_hooks_def mcp_record_outcome_def
      mcp_write_cache_def emit_tools_call_audit_def record_breaker_for_response_def Let_def
      split: CapturedView.split StreamOutcome.split)

lemma check_cache_keeps:
  "check_cache E az sv sc ttl up w = (w', r) \<Longrightarrow> mw_sent w' = mw_sent w \<and> mw_breakers w' = mw_breakers w"
  by (auto simp: check_cache_def split: if_splits option.splits)

lemma check_breaker_keeps: "check_breaker E az sv name now w = (w', r) \<Longrightarrow> mw_sent w' = mw_sent w"
  by (auto simp: check_breaker_def split: if_splits prod.splits)

lemma call_gates_sent: "call_gates E cx t sv name up w = (w', r) \<Longrightarrow> mw_sent w' = mw_sent w"
  by (auto simp: call_gates_def Let_def split: prod.splits sum.splits dest!: check_cache_keeps check_breaker_keeps)

lemma call_upstream_sent:
  "call_upstream E cx t sv conn up headers i w = (w', x) \<Longrightarrow> mw_sent w' = mw_sent w @ [(sv_id sv, up, headers)]"
  by (auto simp: call_upstream_def Let_def split: if_splits sum.splits prod.splits)

lemma call_and_finish_sent:
  "mw_sent (fst (call_and_finish E cx t sv tool params up i conn headers az w)) = mw_sent w @ [(sv_id sv, up, headers)]"
proof -
  obtain w1 stream v audit where c: "call_upstream E cx t sv conn up headers i w = (w1, stream, v, audit)"
    by (metis prod.exhaust)
  let ?d = "(call_deps E cx sv tool up params i)\<lparr>pd_stream_audit_body := audit\<rparr>"
  have "mw_sent (fst (run_post_invoke (mcp_post_hooks E ?d t) (invoked az v) w1)) = mw_sent w1" by simp
  with call_upstream_sent [OF c] c show ?thesis
    by (simp add: call_and_finish_def Let_def case_prod_beta)
qed

lemma call_and_finish_sentD:
  "call_and_finish E cx t sv tool params up i conn headers az w = (w', out) \<Longrightarrow>
   mw_sent w' = mw_sent w @ [(sv_id sv, up, headers)]"
  using call_and_finish_sent [of E cx t sv tool params up i conn headers az w] by simp

subsection \<open>Through the gates\<close>

abbreviation call_raw :: "RequestContext \<Rightarrow> mcp_times \<Rightarrow> McpIdentity Raw" where
  "call_raw cx t \<equiv> \<lparr>identity = call_identity cx, trace_id = cx_trace_id cx, started_at = mt_start t,
     client_ip = cx_ip_address cx\<rparr>"

lemma mcp_check_access:
  "check_access mcp_hooks (call_raw cx t) name w =
     (if is_tool_allowed (cx_allowed_mcp_tools cx) name
      then (w, Inr \<lparr>identity = call_identity cx, trace_id = cx_trace_id cx, started_at = mt_start t,
                    client_ip = cx_ip_address cx, access_candidate = name\<rparr>)
      else (log_row (call_identity cx) ''access_denied'' (cx_trace_id cx) (JObject [(''subject'', JString name)]) w,
            Inl (err_response None INVALID_REQUEST ''Access denied for this tool'')))"
  by (simp add: check_access_def mcp_hooks_def call_identity_def)

text \<open>The limits admitted the call: the stage let it through, to the Redis state \<open>s\<close>.\<close>

definition limits_admit ::
  "('s, 'm) mcp_env \<Rightarrow> RequestContext \<Rightarrow> mcp_times \<Rightarrow> string \<Rightarrow> ('s, McpIdentity) world \<Rightarrow> ('s, McpIdentity) world \<Rightarrow>
   McpIdentity Authorized \<Rightarrow> bool" where
  "limits_admit E cx t name w w2 az \<longleftrightarrow>
     check_limits (me_R E) mcp_hooks
       \<lparr>identity = call_identity cx, trace_id = cx_trace_id cx, started_at = mt_start t,
        client_ip = cx_ip_address cx, access_candidate = name\<rparr>
       (rq_rules (call_limits cx)) (rq_owner (call_limits cx)) (mt_admit t) (me_fail_closed E) w = (w2, Inr az)"

lemma call_gates_open:
  assumes "call_gates E cx t sv name up w = (w1, Inr az)"
  obtains w2 where "is_tool_allowed (cx_allowed_mcp_tools cx) name" "limits_admit E cx t name (mw_world w) w2 az"
    "effective_cache_ttl E sv = 0 \<or>
     cache_get (me_K E) (me_cx E) (me_max_body E) (me_grant E) (sv_id sv) (call_scope cx sv) up (w_redis w2) (w_redis w2) = None"
    "snd (breaker_check (me_M E) (sv_id sv) (sv_name sv) (mt_breaker t) (mw_breakers w))"
    "w1 = w\<lparr>mw_world := w2, mw_breakers := fst (breaker_check (me_M E) (sv_id sv) (sv_name sv) (mt_breaker t) (mw_breakers w))\<rparr>"
proof -
  have al: "is_tool_allowed (cx_allowed_mcp_tools cx) name"
    using assms by (auto simp: call_gates_def mcp_check_access Let_def split: if_splits)
  obtain w2 where lim: "limits_admit E cx t name (mw_world w) w2 az"
      and cc: "check_cache E az (sv_id sv) (call_scope cx sv) (effective_cache_ttl E sv) up (w\<lparr>mw_world := w2\<rparr>) = (w\<lparr>mw_world := w2\<rparr>, Inr az)"
      and cb: "check_breaker E az (sv_id sv) (sv_name sv) (mt_breaker t) (w\<lparr>mw_world := w2\<rparr>) = (w1, Inr az)"
    using assms al
    by (auto simp: call_gates_def mcp_check_access Let_def limits_admit_def check_cache_def check_breaker_def
        split: prod.splits sum.splits if_splits option.splits)
  from cc have miss: "effective_cache_ttl E sv = 0 \<or>
     cache_get (me_K E) (me_cx E) (me_max_body E) (me_grant E) (sv_id sv) (call_scope cx sv) up (w_redis w2) (w_redis w2) = None"
    by (auto simp: check_cache_def split: if_splits option.splits)
  from cb have adm: "snd (breaker_check (me_M E) (sv_id sv) (sv_name sv) (mt_breaker t) (mw_breakers w))"
      and w1: "w1 = w\<lparr>mw_world := w2, mw_breakers := fst (breaker_check (me_M E) (sv_id sv) (sv_name sv) (mt_breaker t) (mw_breakers w))\<rparr>"
    by (auto simp: check_breaker_def split: prod.splits if_splits)
  show thesis using that [OF al lim miss adm w1] .
qed

lemma call_authorized_sent:
  assumes "call_authorized E cx t sv tool params up i az w = Some (w', out)"
  shows "mw_sent w' = mw_sent w \<or> (\<exists>headers. mw_sent w' = mw_sent w @ [(sv_id sv, up, headers)])"
proof -
  obtain pool conn l s sid where p: "get_or_create sv (mw_pool w) = (pool, conn)"
      and s: "get_upstream_session (me_sessions E) (cx_client_session_id cx) (sv_id sv) (mw_sessions w, redis_of w) = ((l, s), sid)"
    by (metis prod.exhaust)
  show ?thesis
    using assms p s
    by (auto simp: call_authorized_def Let_def split: option.splits prod.splits sum.splits dest!: call_and_finish_sentD)
qed


text \<open>
  A tool the key may not call is answered with an error that carries the request's id; one audit row is
  written and nothing else changes: no limit is charged, no cache is read, no breaker is asked.
\<close>

theorem denied_tool_call_charges_nothing:
  assumes "jq_params rq = Some params" and "Option.bind (json_get params ''name'') json_as_str = Some name"
    and "find_server_for_tool reg name = Some (sv, tool)" and "\<not> is_tool_allowed (cx_allowed_mcp_tools cx) name"
  shows "handle_tools_call E reg cx t rq w =
    Some (mcp_log (call_identity cx) ''access_denied'' (cx_trace_id cx) (JObject [(''subject'', JString name)]) w,
      HandleBuffered (err_response (jq_id rq) INVALID_REQUEST ''Access denied for this tool''))"
  using assms
  by (simp add: handle_tools_call_def call_gates_def mcp_check_access Let_def mcp_log_def err_response_def)

subsection \<open>What an answer does\<close>

lemma limits_admit_identity: "limits_admit E cx t name w w2 az \<Longrightarrow> identity az = call_identity cx"
  by (auto simp: limits_admit_def check_limits_def authorize_def Let_def split: if_splits prod.splits sum.splits)

lemma call_upstream_buffered:
  assumes "\<not> cx_wants_streaming cx" "call_upstream E cx t sv conn up headers i w = (w1, stream, v, audit)"
  shows "stream = None \<and> (\<exists>r. v = Buffered r) \<and> mw_breakers w1 = mw_breakers w \<and> w_audit (mw_world w1) = w_audit (mw_world w)"
  using assms
  by (auto simp: call_upstream_def save_upstream_session_def Let_def on_redis_def split: sum.splits prod.splits option.splits)

lemma post_invoke_buffered:
  assumes "identity az = call_identity cx"
    and d_def: "d = (call_deps E cx sv tool up params i)\<lparr>pd_stream_audit_body := audit\<rparr>"
    and run: "run_post_invoke (mcp_post_hooks E d t) (invoked az (Buffered r)) w = (w', e)"
  shows "e = Some r \<and>
    mw_breakers w' =
      (if map_option je_code (jr_error r) = Some RESOURCE_BUSY then mw_breakers w
       else if server_failure r then record_failure (me_M E) (sv_id sv) (sv_name sv) (mt_outcome t) (mw_breakers w)
       else record_success (me_M E) (sv_id sv) (sv_name sv) (mt_outcome t) (mw_breakers w)) \<and>
    redis_of w' =
      (if effective_cache_ttl E sv = 0 \<or> jr_error r \<noteq> None then redis_of w
       else cache_set (me_K E) (me_cx E) (sv_id sv) (call_scope cx sv) up r (effective_cache_ttl E sv) (redis_of w)) \<and>
    (\<exists>row. w_audit (mw_world w') = w_audit (mw_world w) @ [row] \<and> au_action row = ''tools.call'' \<and>
       au_identity row = call_identity cx)"
proof -
  have i: "identity (invoked az (Buffered r)) = call_identity cx" using assms(1) by (simp add: invoked_def)
  have v: "view (invoked az (Buffered r)) = Buffered r" by (simp add: invoked_def)
  have r: "response_for_hooks E d (invoked az (Buffered r)) = r" by (simp add: response_for_hooks_def v)
  have d: "pd_server_id d = sv_id sv" "pd_server_name d = sv_name sv" "pd_upstream_request d = up"
      "pd_effective_cache_ttl d = effective_cache_ttl E sv" "pd_cache_scope_kind d = sv_cache_scope sv"
      "pd_cache_account_label d = account_label_for_server (cx_mcp_account_overrides cx) (sv_id sv)"
    by (simp_all add: d_def call_deps_def)
  let ?w1 = "mcp_record_outcome E d (mt_outcome t) (invoked az (Buffered r)) w"
  let ?w2 = "mcp_write_cache E d (invoked az (Buffered r)) ?w1"
  have w': "w' = emit_tools_call_audit E d (mt_audit t) (invoked az (Buffered r)) ?w2" and e: "e = Some r"
    using run by (auto simp: run_post_invoke_def stage_emit_audit_def stage_write_cache_def mcp_post_hooks_def v)
  have w1: "?w1 = record_breaker_for_response E (sv_id sv) (sv_name sv) r (mt_outcome t) w"
    by (simp add: mcp_record_outcome_def v r d)
  have w2: "?w2 = (if effective_cache_ttl E sv = 0 \<or> jr_error r \<noteq> None then ?w1
      else on_redis (cache_set (me_K E) (me_cx E) (sv_id sv) (call_scope cx sv) up r (effective_cache_ttl E sv)) ?w1)"
    by (simp add: mcp_write_cache_def r d i Let_def call_scope_def call_identity_def split: ServerCacheScope.split)
  have keep1: "redis_of ?w1 = redis_of w" "w_audit (mw_world ?w1) = w_audit (mw_world w)"
      "mw_breakers ?w1 = (if map_option je_code (jr_error r) = Some RESOURCE_BUSY then mw_breakers w
       else if server_failure r then record_failure (me_M E) (sv_id sv) (sv_name sv) (mt_outcome t) (mw_breakers w)
       else record_success (me_M E) (sv_id sv) (sv_name sv) (mt_outcome t) (mw_breakers w))"
    unfolding w1 by (simp_all add: record_breaker_for_response_def del: map_option_eq_Some)
  have keep2: "mw_breakers ?w2 = mw_breakers ?w1" "w_audit (mw_world ?w2) = w_audit (mw_world ?w1)"
      "redis_of ?w2 = (if effective_cache_ttl E sv = 0 \<or> jr_error r \<noteq> None then redis_of ?w1
         else cache_set (me_K E) (me_cx E) (sv_id sv) (call_scope cx sv) up r (effective_cache_ttl E sv) (redis_of ?w1))"
    unfolding w2 by simp_all
  show ?thesis
    unfolding w' e emit_tools_call_audit_def Let_def
    using keep1 keep2 i by (simp add: mcp_log_def log_row_def del: map_option_eq_Some)
qed

lemma call_and_finish_buffered:
  assumes ns: "\<not> cx_wants_streaming cx" and i: "identity az = call_identity cx"
    and c: "call_and_finish E cx t sv tool params up rid conn headers az w = (w', HandleBuffered r)"
  shows "\<exists>s. mw_breakers w' =
      (if map_option je_code (jr_error r) = Some RESOURCE_BUSY then mw_breakers w
       else if server_failure r then record_failure (me_M E) (sv_id sv) (sv_name sv) (mt_outcome t) (mw_breakers w)
       else record_success (me_M E) (sv_id sv) (sv_name sv) (mt_outcome t) (mw_breakers w)) \<and>
    redis_of w' =
      (if effective_cache_ttl E sv = 0 \<or> jr_error r \<noteq> None then s
       else cache_set (me_K E) (me_cx E) (sv_id sv) (call_scope cx sv) up r (effective_cache_ttl E sv) s) \<and>
    (\<exists>row. w_audit (mw_world w') = w_audit (mw_world w) @ [row] \<and> au_action row = ''tools.call'' \<and>
       au_identity row = call_identity cx)"
proof -
  obtain w1 stream v audit where u: "call_upstream E cx t sv conn up headers rid w = (w1, stream, v, audit)"
    by (metis prod.exhaust)
  from call_upstream_buffered [OF ns u] obtain r0 where v: "stream = None" "v = Buffered r0"
      and k: "mw_breakers w1 = mw_breakers w" "w_audit (mw_world w1) = w_audit (mw_world w)" by blast
  let ?d = "(call_deps E cx sv tool up params rid)\<lparr>pd_stream_audit_body := audit\<rparr>"
  obtain w2 e where p: "run_post_invoke (mcp_post_hooks E ?d t) (invoked az (Buffered r0)) w1 = (w2, e)"
    by (metis prod.exhaust)
  note post = post_invoke_buffered [OF i refl p]
  from c u v p post have "w' = w2" "r0 = r"
    by (auto simp: call_and_finish_def Let_def answer_buffered_def ns)
  with post k show ?thesis by auto
qed


subsection \<open>A gateway to run them on\<close>

definition demo_reply :: JsonRpcResponse where
  "demo_reply = ok_response None (JString ''hi'')"

definition demo_upstream :: upstream where
  "demo_upstream = \<lparr>up_http = (\<lambda>_ _ _. Inr \<lparr>hr_status = 200, hr_content_type = None, hr_session_id = None, hr_body = []\<rparr>),
     up_read = (\<lambda>_ _. Inr []), up_max_body = 64, up_from_str = (\<lambda>_. None), up_from_value = (\<lambda>_. Inl []),
     up_from_slice = (\<lambda>_. Inr demo_reply), up_show_events = (\<lambda>_. Inr [])\<rparr>"

definition demo_mcp :: "(kv_mem, mem_cells) mcp_env" where
  "demo_mcp = \<lparr>me_R = kv_mem_redis, me_K = mem_kv, me_Z = mem_scan, me_M = mem_breakers demo_cfg, me_cx = demo_codec,
     me_max_body = 64, me_grant = (\<lambda>_. True), me_sessions = \<lparr>se_redis = None, se_config_ttl = None, se_enc = (\<lambda>_. None), se_dec = (\<lambda>_. None)\<rparr>,
     me_tokens = demo_tok_env, me_upstream = demo_upstream, me_cache_ttl_secs = 60, me_fail_closed = False,
     me_parse_array = (\<lambda>_. None), me_show_event = (\<lambda>_. None), me_show_response = (\<lambda>_. None), me_show_busy = (\<lambda>_. []),
     me_version = ''1''\<rparr>"

definition demo_ctx_mcp :: RequestContext where
  "demo_ctx_mcp = \<lparr>cx_user_id = ''u'', cx_user_email = ''e'', cx_client_session_id = ''c'',
     cx_surface_constraints = SurfaceConstraints_default, cx_api_key_lineage_id = None,
     cx_key_constraints = SurfaceConstraints_default, cx_allowed_mcp_tools = None, cx_trace_id = ''t'',
     cx_mcp_account_overrides = JNull, cx_ip_address = None, cx_wants_streaming = False\<rparr>"

definition demo_times :: mcp_times where
  "demo_times = \<lparr>mt_start = 0, mt_admit = 0, mt_breaker = 0, mt_resolve = (0, 0), mt_outcome = 1, mt_audit = 2, mt_client_leaves = None\<rparr>"

definition demo_mcp_world :: "(kv_mem, mem_cells) mcp_world" where
  "demo_mcp_world = \<lparr>mw_world = \<lparr>w_redis = kv_empty, w_audit = []\<rparr>, mw_breakers = demo_breakers, mw_sessions = [],
     mw_pool = [], mw_creds = \<lparr>cd_user = [], cd_shared = []\<rparr>, mw_sent = []\<rparr>"

definition demo_call :: JsonRpcRequest where
  "demo_call = \<lparr>jq_jsonrpc = ''2.0'', jq_id = None, jq_method = ''tools/call'',
     jq_params = Some (JObject [(''name'', JString ''aws_docs__aws___list'')])\<rparr>"

lemma demo_find: "find_server_for_tool [(''s1'', demo_server)] ''aws_docs__aws___list'' = Some (demo_server, ''aws___list'')"
proof -
  have "split_once ''aws_docs__aws___list'' ''__'' = Some (''aws_docs'', ''aws___list'')" by code_simp
  then show ?thesis by (simp add: find_server_for_tool_def NAMESPACE_SEPARATOR_def demo_server_def)
qed

lemma demo_name: "Option.bind (json_get (JObject [(''name'', JString ''aws_docs__aws___list'')]) ''name'') json_as_str = Some ''aws_docs__aws___list''"
  by (simp add: json_get_def json_as_str_def)

lemma demo_limits: "rq_rules (call_limits demo_ctx_mcp) = []"
  by code_simp

lemma demo_limits_owner: "check_limits R mcp_hooks ac (rq_rules (call_limits demo_ctx_mcp)) own now fc w = (w, Inr (authorize ac []))"
  by (simp add: check_limits_def demo_limits)

lemma demo_miss: "cache_get mem_kv cx mb grant sv sc up kv_empty kv_empty = None"
  by (simp add: cache_get_def cached_body_gone mem_kv_def kv_empty_def)

lemma demo_breaker_admits: "snd (breaker_check (mem_breakers demo_cfg) i name now demo_breakers)"
  by (simp add: breaker_check_def demo_breakers_def demo_cells_def mem_breakers_def mem_admit_def announce_def)

lemma demo_gates:
  "\<exists>az b. call_gates demo_mcp demo_ctx_mcp demo_times demo_server name up demo_mcp_world = (demo_mcp_world\<lparr>mw_breakers := b\<rparr>, Inr az)"
proof -
  have al: "is_tool_allowed (cx_allowed_mcp_tools demo_ctx_mcp) name" by (simp add: demo_ctx_mcp_def is_tool_allowed_def)
  have e: "me_K demo_mcp = mem_kv" "me_M demo_mcp = mem_breakers demo_cfg" "mw_breakers demo_mcp_world = demo_breakers"
      "w_redis (mw_world demo_mcp_world) = kv_empty"
    by (simp_all add: demo_mcp_def demo_mcp_world_def)
  have w: "demo_mcp_world\<lparr>mw_world := mw_world demo_mcp_world\<rparr> = demo_mcp_world" by simp
  obtain b where b: "breaker_check (mem_breakers demo_cfg) (sv_id demo_server) (sv_name demo_server) (mt_breaker demo_times) demo_breakers = (b, True)"
    using demo_breaker_admits by (metis prod.collapse)
  show ?thesis
    by (auto simp: call_gates_def Let_def mcp_check_access al demo_limits_owner check_cache_def check_breaker_def e demo_miss b
        intro: exI [of _ b])
qed

lemma demo_finish:
  "\<exists>w'. call_and_finish demo_mcp demo_ctx_mcp t demo_server tool params up i conn headers az w = (w', HandleBuffered demo_reply)"
proof -
  have "call_upstream demo_mcp demo_ctx_mcp t demo_server conn up headers i w =
      (w\<lparr>mw_sent := mw_sent w @ [(sv_id demo_server, up, headers)]\<rparr>, None, Buffered demo_reply, None)"
    by (simp add: call_upstream_def demo_ctx_mcp_def demo_mcp_def demo_upstream_def send_request_def status_ok_def
        read_reply_def is_event_stream_def read_json_response_def save_upstream_session_def demo_reply_def ok_response_def
        find_sub.simps starts_with_def)
  then show ?thesis
    by (simp add: call_and_finish_def Let_def run_post_invoke_def stage_emit_audit_def invoked_def answer_buffered_def demo_ctx_mcp_def)
qed

lemma demo_call_sent:
  "\<exists>w'. handle_tools_call demo_mcp [(''s1'', demo_server)] demo_ctx_mcp demo_times demo_call demo_mcp_world =
     Some (w', HandleBuffered demo_reply) \<and> mw_sent w' \<noteq> mw_sent demo_mcp_world"
proof -
  let ?params = "JObject [(''name'', JString ''aws_docs__aws___list'')]"
  let ?up = "upstream_request demo_call ?params ''aws___list''"
  have p: "jq_params demo_call = Some ?params" by (simp add: demo_call_def)
  obtain az b where g: "call_gates demo_mcp demo_ctx_mcp demo_times demo_server ''aws_docs__aws___list'' ?up demo_mcp_world =
      (demo_mcp_world\<lparr>mw_breakers := b\<rparr>, Inr az)"
    using demo_gates by blast
  have r: "resolve (me_tokens demo_mcp) Z sv (auth_cfg demo_server) c ts (\<lparr>cd_user = [], cd_shared = []\<rparr>, s) =
      Some ((\<lparr>cd_user = [], cd_shared = []\<rparr>, s), Inr None)" for Z :: "kv_mem redis_scan" and sv c ts s
    by (simp add: resolve_def fetch_row_def locator_for_def auth_cfg_def demo_server_def needs_credential_def demo_mcp_def
        demo_tok_env_def Let_def)
  obtain conn headers w3 where
    a: "call_authorized demo_mcp demo_ctx_mcp demo_times demo_server ''aws___list'' ?params ?up (jq_id demo_call) az
        (demo_mcp_world\<lparr>mw_breakers := b\<rparr>) =
      Some (call_and_finish demo_mcp demo_ctx_mcp demo_times demo_server ''aws___list'' ?params ?up (jq_id demo_call) conn headers az w3)"
    and w3: "mw_sent w3 = mw_sent demo_mcp_world"
    using r by (fastforce simp: call_authorized_def Let_def demo_mcp_world_def on_redis_def case_prod_beta)
  obtain w' where f: "call_and_finish demo_mcp demo_ctx_mcp demo_times demo_server ''aws___list'' ?params ?up (jq_id demo_call) conn headers az w3 =
      (w', HandleBuffered demo_reply)"
    using demo_finish by blast
  from call_and_finish_sentD [OF f] w3 have "mw_sent w' \<noteq> mw_sent demo_mcp_world" by simp
  moreover have "handle_tools_call demo_mcp [(''s1'', demo_server)] demo_ctx_mcp demo_times demo_call demo_mcp_world =
      Some (w', HandleBuffered demo_reply)"
    by (simp add: handle_tools_call_def p demo_name demo_find g a f Let_def)
  ultimately show ?thesis by blast
qed



theorem denied_tool_call_charges_nothing_witness:
  "handle_tools_call demo_mcp [(''s1'', demo_server)] (demo_ctx_mcp\<lparr>cx_allowed_mcp_tools := Some []\<rparr>) demo_times demo_call demo_mcp_world =
     Some (mcp_log (call_identity (demo_ctx_mcp\<lparr>cx_allowed_mcp_tools := Some []\<rparr>)) ''access_denied'' ''t''
             (JObject [(''subject'', JString ''aws_docs__aws___list'')]) demo_mcp_world,
           HandleBuffered (err_response None INVALID_REQUEST ''Access denied for this tool''))"
  using denied_tool_call_charges_nothing [OF _ demo_name demo_find, where rq = demo_call
      and cx = "demo_ctx_mcp\<lparr>cx_allowed_mcp_tools := Some []\<rparr>" and E = demo_mcp and t = demo_times and w = demo_mcp_world]
  by (simp add: demo_call_def is_tool_allowed_def demo_ctx_mcp_def)

end
