(* ===== verification/Redis_Clock.thy ===== *)
theory Redis_Clock
  imports TW_Prelude
begin

section \<open>Redis keys that expire\<close>

text \<open>
  The part of Redis whose point is the clock: values with a deadline. The service is a record over an abstract state
  \<open>'s\<close>; \<open>rt_entry\<close> is what is stored under a key, with the deadline in milliseconds if it has one, and a key is there at
  a time before its deadline. The commands the sources use are written over \<open>rt_put\<close>, \<open>rt_del\<close> and the deadline with the time of
  the call as an argument; \<open>rt_err\<close> says whether a command on a key fails. \<^verbatim>\<open>crates/common/src/fixed_window.rs\<close>
  (\<open>fixed_incr\<close>) counts with them.
\<close>

record 's redis_ttl =
  rt_err :: "'s \<Rightarrow> string \<Rightarrow> string option"
  rt_entry :: "'s \<Rightarrow> string \<Rightarrow> (string \<times> int option) option"
  rt_put :: "string \<Rightarrow> string \<Rightarrow> int option \<Rightarrow> 's \<Rightarrow> 's"
  rt_del :: "string \<Rightarrow> 's \<Rightarrow> 's"

locale ttl_laws =
  fixes Q :: "'s redis_ttl"
  assumes entry_put: "rt_entry Q (rt_put Q k v d s) k' = (if k' = k then Some (v, d) else rt_entry Q s k')"
    and entry_del: "rt_entry Q (rt_del Q k s) k' = (if k' = k then None else rt_entry Q s k')"

definition in_time :: "int \<Rightarrow> int option \<Rightarrow> bool" where
  "in_time now d = (case d of None \<Rightarrow> True | Some x \<Rightarrow> now < x)"

definition ttl_get :: "'s redis_ttl \<Rightarrow> int \<Rightarrow> 's \<Rightarrow> string \<Rightarrow> string option" where
  "ttl_get Q now s k =
     (case rt_entry Q s k of None \<Rightarrow> None | Some (v, d) \<Rightarrow> if in_time now d then Some v else None)"

definition deadline :: "int \<Rightarrow> int \<Rightarrow> int option" where
  "deadline now ttl_secs = Some (now + ttl_secs * 1000)"

text \<open>\<^verbatim>\<open>SET k v EX ttl\<close>, \<^verbatim>\<open>SET k v EX ttl NX\<close>, \<^verbatim>\<open>EXPIRE\<close> and \<^verbatim>\<open>EXPIRE NX\<close>; the second and the last say what they did.\<close>

definition set_ex :: "'s redis_ttl \<Rightarrow> int \<Rightarrow> string \<Rightarrow> string \<Rightarrow> int \<Rightarrow> 's \<Rightarrow> 's" where
  "set_ex Q now k v ttl s = rt_put Q k v (deadline now ttl) s"

definition set_ex_nx :: "'s redis_ttl \<Rightarrow> int \<Rightarrow> string \<Rightarrow> string \<Rightarrow> int \<Rightarrow> 's \<Rightarrow> 's \<times> bool" where
  "set_ex_nx Q now k v ttl s = (if ttl_get Q now s k \<noteq> None then (s, False) else (set_ex Q now k v ttl s, True))"

definition expire_at :: "'s redis_ttl \<Rightarrow> int \<Rightarrow> string \<Rightarrow> int \<Rightarrow> 's \<Rightarrow> 's" where
  "expire_at Q now k ttl s = (case ttl_get Q now s k of None \<Rightarrow> s | Some v \<Rightarrow> rt_put Q k v (deadline now ttl) s)"

definition expire_nx :: "'s redis_ttl \<Rightarrow> int \<Rightarrow> string \<Rightarrow> int \<Rightarrow> 's \<Rightarrow> 's" where
  "expire_nx Q now k ttl s =
     (case rt_entry Q s k of
        Some (v, None) \<Rightarrow> rt_put Q k v (deadline now ttl) s
      | _ \<Rightarrow> s)"

text \<open>\<^verbatim>\<open>INCRBY k 1\<close> keeps the deadline of a key that is there and starts a new one at 1 without any.\<close>

definition incr_key :: "'s redis_ttl \<Rightarrow> int \<Rightarrow> string \<Rightarrow> 's \<Rightarrow> 's \<times> int option" where
  "incr_key Q now k s =
     (case ttl_get Q now s k of
        None \<Rightarrow> (rt_put Q k ''1'' None s, Some 1)
      | Some v \<Rightarrow>
          (case parse_int v of
             None \<Rightarrow> (s, None)
           | Some n \<Rightarrow> (rt_put Q k (show_int (n + 1)) (Option.bind (rt_entry Q s k) snd) s, Some (n + 1))))"

definition fixed_incr :: "'s redis_ttl \<Rightarrow> int \<times> int \<Rightarrow> string \<Rightarrow> int \<Rightarrow> 's \<Rightarrow> 's \<times> (string + int)" where
  "fixed_incr Q ts k ttl s =
     (case rt_err Q s k of
        Some e \<Rightarrow> (s, Inl e)
      | None \<Rightarrow>
          (case incr_key Q (fst ts) k s of
             (s1, None) \<Rightarrow> (s1, Inl ''ERR value is not an integer or out of range'')
           | (s1, Some n) \<Rightarrow>
               (case rt_err Q s1 k of
                  Some e \<Rightarrow> (s1, Inl e)
                | None \<Rightarrow> (expire_nx Q (snd ts) k ttl s1, Inr n))))"

subsection \<open>What the commands leave\<close>

lemma in_time_deadline [simp]: "in_time now (deadline t ttl) \<longleftrightarrow> now < t + ttl * 1000"
  by (simp add: in_time_def deadline_def)

lemma in_time_None [simp]: "in_time now None"
  by (simp add: in_time_def)

lemma in_time_mono: "in_time now' d \<Longrightarrow> now \<le> now' \<Longrightarrow> in_time now d"
  by (cases d) (auto simp: in_time_def)

context ttl_laws
begin

lemma get_set_ex: "ttl_get Q now (set_ex Q t k v ttl s) k' =
    (if k' = k then (if now < t + ttl * 1000 then Some v else None) else ttl_get Q now s k')"
  by (simp add: ttl_get_def set_ex_def entry_put)

lemma entry_expire_at_other: "k' \<noteq> k \<Longrightarrow> rt_entry Q (expire_at Q t k ttl s) k' = rt_entry Q s k'"
  by (simp add: expire_at_def entry_put split: option.split)

lemma entry_set_ex_nx_other: "k' \<noteq> k \<Longrightarrow> rt_entry Q (fst (set_ex_nx Q t k v ttl s)) k' = rt_entry Q s k'"
  by (simp add: set_ex_nx_def set_ex_def entry_put)

lemma get_put: "ttl_get Q now (rt_put Q k v d s) k' =
    (if k' = k then (if in_time now d then Some v else None) else ttl_get Q now s k')"
  by (simp add: ttl_get_def entry_put)

lemma get_entry_cong: "rt_entry Q s k = rt_entry Q s' k \<Longrightarrow> ttl_get Q now s k = ttl_get Q now s' k"
  by (simp add: ttl_get_def)

text \<open>A counter that was incremented without an error has a deadline, and it is the old one if there was one in force.\<close>

lemma fixed_incr_has_deadline:
  assumes "fixed_incr Q (t1, t2) k ttl s = (s', Inr n)"
  shows "\<exists>v d. rt_entry Q s' k = Some (v, Some d) \<and>
    (case rt_entry Q s k of Some (_, Some d0) \<Rightarrow> if t1 < d0 then d = d0 else d = t2 + ttl * 1000 | _ \<Rightarrow> d = t2 + ttl * 1000)"
  using assms
  by (auto simp: fixed_incr_def incr_key_def expire_nx_def ttl_get_def entry_put in_time_def deadline_def
      split: option.splits prod.splits if_splits)

end

subsection \<open>A server in memory\<close>

record ttl_mem =
  tm_keys :: "(string \<times> string \<times> int option) list"
  tm_down :: "string list"

definition mem_ttl :: "ttl_mem redis_ttl" where
  "mem_ttl = \<lparr>
     rt_err = (\<lambda>s k. if k \<in> set (tm_down s) then Some ''down'' else None),
     rt_entry = (\<lambda>s k. map_of (tm_keys s) k),
     rt_put = (\<lambda>k v d s. s\<lparr>tm_keys := (k, v, d) # tm_keys s\<rparr>),
     rt_del = (\<lambda>k s. s\<lparr>tm_keys := filter (\<lambda>e. fst e \<noteq> k) (tm_keys s)\<rparr>)\<rparr>"

lemma map_of_without: "map_of (filter (\<lambda>e. fst e \<noteq> k) m) k' = (if k' = k then None else map_of m k')"
  by (induction m) auto

interpretation mem_ttl: ttl_laws mem_ttl
  by unfold_locales (simp_all add: mem_ttl_def map_of_without)

end
