(* ===== verification/App_Error.thy ===== *)
theory App_Error
  imports TW_Prelude
begin

section \<open>Requests, answers and the errors of the server\<close>

text \<open>
  \<^verbatim>\<open>crates/common/src/errors.rs\<close>: the errors a handler of the management server returns, their status codes and the
  body a client sees, and the reading of database and Redis errors. A header map is an association list from
  lower-case names to values, \<open>None\<close> for a value that is not text (\<^verbatim>\<open>to_str\<close> fails on it).
\<close>

type_synonym headers = "(string \<times> string option) list"

definition header_str :: "headers \<Rightarrow> string \<Rightarrow> string option" where
  "header_str h name = Option.bind (map_of h name) id"

definition contains_header :: "headers \<Rightarrow> string \<Rightarrow> bool" where
  "contains_header h name \<longleftrightarrow> map_of h name \<noteq> None"

definition opt_filter :: "('a \<Rightarrow> bool) \<Rightarrow> 'a option \<Rightarrow> 'a option" where
  "opt_filter P x = Option.bind x (\<lambda>v. if P v then Some v else None)"

definition or_else :: "'a option \<Rightarrow> 'a option \<Rightarrow> 'a option" where
  "or_else x y = (case x of None \<Rightarrow> y | Some v \<Rightarrow> Some v)"

datatype AppError =
    Unauthorized
  | Forbidden string
  | TotpEnrollmentRequired
  | NotFound string
  | BadRequest string
  | RateLimited
  | Conflict string
  | ModelNotServed string
  | ServiceUnavailable string
  | Internal string

fun AppError_status :: "AppError \<Rightarrow> nat" where
  "AppError_status Unauthorized = 401"
| "AppError_status (Forbidden _) = 403"
| "AppError_status TotpEnrollmentRequired = 403"
| "AppError_status (NotFound _) = 404"
| "AppError_status (BadRequest _) = 400"
| "AppError_status RateLimited = 429"
| "AppError_status (Conflict _) = 409"
| "AppError_status (ModelNotServed _) = 400"
| "AppError_status (ServiceUnavailable _) = 503"
| "AppError_status (Internal _) = 500"

fun AppError_type :: "AppError \<Rightarrow> string" where
  "AppError_type Unauthorized = ''unauthorized''"
| "AppError_type (Forbidden _) = ''forbidden''"
| "AppError_type TotpEnrollmentRequired = ''totp_enrollment_required''"
| "AppError_type (NotFound _) = ''not_found''"
| "AppError_type (BadRequest _) = ''bad_request''"
| "AppError_type RateLimited = ''rate_limited''"
| "AppError_type (Conflict _) = ''conflict''"
| "AppError_type (ModelNotServed _) = ''model_not_served''"
| "AppError_type (ServiceUnavailable _) = ''service_unavailable''"
| "AppError_type (Internal _) = ''internal_error''"

text \<open>The dash of the 503 message is the three bytes of its UTF-8 form.\<close>

fun AppError_message :: "AppError \<Rightarrow> string" where
  "AppError_message Unauthorized = ''Authentication required''"
| "AppError_message (Forbidden m) = m"
| "AppError_message TotpEnrollmentRequired = ''Two-factor authentication must be set up before continuing''"
| "AppError_message (NotFound m) = m"
| "AppError_message (BadRequest m) = m"
| "AppError_message RateLimited = ''Rate limit exceeded''"
| "AppError_message (Conflict m) = m"
| "AppError_message (ModelNotServed m) = m"
| "AppError_message (ServiceUnavailable _) =
     ''Service temporarily unavailable '' @ [CHR 0xE2, CHR 0x80, CHR 0x94] @ '' please retry''"
| "AppError_message (Internal _) = ''Internal server error''"

definition DEFAULT_RETRY_AFTER_SECS :: nat where
  "DEFAULT_RETRY_AFTER_SECS = 60"

text \<open>
  An answer: its status, its \<open>Retry-After\<close> and its body. Bodies in a provider's dialect are written by the dialect
  crate from the dialect, the status and the message.
\<close>

datatype Dialect = Anthropic | Gemini | OpenAiResponses | OpenAiChat

datatype answer_body = NoBody | JsonBody json | DialectError Dialect nat string

record answer =
  an_status :: nat
  an_retry_after :: "nat option"
  an_body :: answer_body

definition bare :: "nat \<Rightarrow> answer" where
  "bare st = \<lparr>an_status = st, an_retry_after = None, an_body = NoBody\<rparr>"

definition into_response :: "AppError \<Rightarrow> answer" where
  "into_response e =
     (let st = AppError_status e in
      \<lparr>an_status = st,
       an_retry_after = (if st = 429 \<or> st = 503 then Some DEFAULT_RETRY_AFTER_SECS else None),
       an_body = JsonBody (JObject [(''error'', JObject [(''message'', JString (AppError_message e)),
                                                       (''type'', JString (AppError_type e))])])\<rparr>)"

text \<open>An error of a query is a text; \<open>kind\<close> says which variant of \<^verbatim>\<open>sqlx::Error\<close> it is.\<close>

datatype sqlx_kind = PoolTimedOut | PoolClosed | WorkerCrashed | Io | UniqueViolation | OtherDb

fun from_sqlx :: "sqlx_kind \<Rightarrow> AppError" where
  "from_sqlx PoolTimedOut = ServiceUnavailable ''Database unavailable''"
| "from_sqlx PoolClosed = ServiceUnavailable ''Database unavailable''"
| "from_sqlx WorkerCrashed = ServiceUnavailable ''Database unavailable''"
| "from_sqlx Io = ServiceUnavailable ''Database unavailable''"
| "from_sqlx UniqueViolation = Conflict ''Resource already exists''"
| "from_sqlx OtherDb = Internal ''Database error''"

definition from_redis :: AppError where
  "from_redis = ServiceUnavailable ''Cache unavailable''"

definition db_failure_response :: "sqlx_kind \<Rightarrow> answer" where
  "db_failure_response k = into_response (from_sqlx k)"

lemma opt_filter_Some [simp]: "opt_filter P x = Some v \<longleftrightarrow> x = Some v \<and> P v"
  by (auto simp: opt_filter_def bind_eq_Some_conv split: if_splits)

lemma or_else_Some: "or_else x y = Some v \<longleftrightarrow> x = Some v \<or> (x = None \<and> y = Some v)"
  by (cases x) (auto simp: or_else_def)

text \<open>What a server-side failure says stays on the server: the client's body is the same for all of them.\<close>

lemma internal_body_is_constant: "into_response (Internal a) = into_response (Internal b)"
  by (simp add: into_response_def)

lemma db_failure_status: "an_status (db_failure_response k) \<in> {409, 500, 503}"
  by (cases k) (simp_all add: db_failure_response_def into_response_def)

end
