(* ===== verification/Key_Auth.thy ===== *)
theory Key_Auth
  imports Rbac Mcp_Tools_Props Gateway_Error App_Error
begin

section \<open>API keys at the gateways\<close>

text \<open>
  \<^verbatim>\<open>crates/server/src/middleware/api_key_auth.rs\<close>: where a client puts its key, the lookup of a live key, the gates of
  surface, expiry and role, the limits that go with the request, and the two identities the gateways read. Times
  are microseconds; those of the database and of the process are separate readings. The hash of a key is a
  parameter, and so is the reading of a policy document by serde. The row a client leaves when it goes away early
  is left out, and the update of \<^verbatim>\<open>last_used_at\<close>, which runs in a task of its own, is done when the call returns.
\<close>

subsection \<open>The data\<close>

text \<open>The row of \<^verbatim>\<open>api_keys\<close>: the columns of the struct, and \<^verbatim>\<open>last_expiry_warning_days\<close>, which only the sweep reads.\<close>

record ApiKey =
  ak_id :: uuid
  ak_key_prefix :: string
  ak_key_hash :: string
  ak_name :: string
  ak_user_id :: "uuid option"
  ak_surfaces :: "string list"
  ak_allowed_models :: "string list option"
  ak_allowed_mcp_tools :: "string list option"
  ak_mcp_account_overrides :: json
  ak_expires_at :: "int option"
  ak_is_active :: bool
  ak_last_used_at :: "int option"
  ak_created_at :: int
  ak_deleted_at :: "int option"
  ak_rotation_period_days :: "int option"
  ak_rotated_from_id :: "uuid option"
  ak_grace_period_ends_at :: "int option"
  ak_inactivity_timeout_days :: "int option"
  ak_disabled_reason :: "string option"
  ak_last_rotation_at :: "int option"
  ak_lineage_id :: uuid
  ak_cost_center :: "string option"
  ak_last_expiry_warning_days :: "int option"

record user_row =
  us_id :: uuid
  us_email :: string
  us_display_name :: string
  us_password_hash :: "string option"
  us_oidc_subject :: "string option"
  us_oidc_issuer :: "string option"
  us_avatar_url :: "string option"
  us_is_active :: bool
  us_totp_secret :: "string option"
  us_totp_enabled :: bool
  us_totp_recovery_codes :: "string option"
  us_password_change_required :: bool
  us_created_at :: int
  us_updated_at :: int
  us_deleted_at :: "int option"

record auth_db =
  ad_limits :: limit_db
  ad_keys :: "ApiKey list"
  ad_users :: "user_row list"

record GatewayRequestIdentity =
  gi_user_id :: "string option"
  gi_user_email :: "string option"
  gi_api_key_id :: "string option"
  gi_api_key_lineage_id :: "string option"
  gi_allowed_models :: "string list option"
  gi_surface_constraints :: SurfaceConstraints
  gi_key_constraints :: SurfaceConstraints
  gi_ip_address :: "string option"
  gi_key_expires_at :: "int option"

record McpRequestIdentity =
  qi_user_id :: uuid
  qi_user_email :: string
  qi_user_roles :: "string list"
  qi_surface_constraints :: SurfaceConstraints
  qi_api_key_lineage_id :: uuid
  qi_key_constraints :: SurfaceConstraints
  qi_allowed_mcp_tools :: "string list option"
  qi_mcp_account_overrides :: json
  qi_ip_address :: "string option"

definition may_call :: "GatewayRequestIdentity \<Rightarrow> string \<Rightarrow> bool" where
  "may_call i model =
     (case gi_allowed_models i of
        None \<Rightarrow> True
      | Some allowed \<Rightarrow> list_ex (\<lambda>m. model = m \<or> starts_with model m) allowed)"

subsection \<open>Allow-lists\<close>

definition covered :: "(string \<Rightarrow> string \<Rightarrow> bool) \<Rightarrow> string list \<Rightarrow> string list \<Rightarrow> string list" where
  "covered covers side other = filter (\<lambda>entry. list_ex (\<lambda>g. covers g entry) other) side"

definition intersect_allowlists ::
  "string list option \<Rightarrow> string list option \<Rightarrow> (string \<Rightarrow> string \<Rightarrow> bool) \<Rightarrow> string list option" where
  "intersect_allowlists key_list role_list covers =
     (case (key_list, role_list) of
        (None, None) \<Rightarrow> None
      | (Some k, None) \<Rightarrow> Some k
      | (None, Some r) \<Rightarrow> Some r
      | (Some k, Some r) \<Rightarrow> Some (btree (covered covers k r @ covered covers r k)))"

definition model_entry_covers :: "string \<Rightarrow> string \<Rightarrow> bool" where
  "model_entry_covers general specific = starts_with specific general"

definition mcp_entry_covers :: "string \<Rightarrow> string \<Rightarrow> bool" where
  "mcp_entry_covers general specific =
     (if general = ''*'' \<or> general = specific then True
      else if specific = ''*'' \<or> ends_with specific ''__*'' then False
      else is_tool_allowed (Some [general]) specific)"

subsection \<open>The key a client presents\<close>

fun find_map :: "('a \<Rightarrow> 'b option) \<Rightarrow> 'a list \<Rightarrow> 'b option" where
  "find_map f [] = None"
| "find_map f (x # xs) = (case f x of Some y \<Rightarrow> Some y | None \<Rightarrow> find_map f xs)"

definition presented_key :: "headers \<Rightarrow> string option \<Rightarrow> string option" where
  "presented_key h query =
     (let header = (\<lambda>name. opt_filter (\<lambda>v. v \<noteq> []) (header_str h name)) in
      or_else (header ''x-api-key'')
        (or_else (header ''x-goog-api-key'')
          (or_else (opt_filter (\<lambda>v. v \<noteq> []) (Option.bind (header ''authorization'') (\<lambda>v. strip_prefix v ''Bearer '')))
            (opt_filter (\<lambda>v. v \<noteq> [])
              (Option.bind query (\<lambda>q. find_map (\<lambda>kv. strip_prefix kv ''key='') (split_on (CHR ''&'') q)))))))"

definition stops_authenticating_at :: "int option \<Rightarrow> int option \<Rightarrow> int option" where
  "stops_authenticating_at expires_at grace =
     (case (expires_at, grace) of
        (Some a, Some b) \<Rightarrow> Some (min a b)
      | (a, b) \<Rightarrow> or_else a b)"

definition KEY_PREFIX_TW :: string where
  "KEY_PREFIX_TW = ''tw-''"

subsection \<open>The lookup\<close>

definition DAY :: int where
  "DAY = 86400 * 1000000"

definition inactivity_interval :: "int option \<Rightarrow> int \<Rightarrow> int" where
  "inactivity_interval key_days global_days =
     (if unwrap_or key_days 0 > 0 then unwrap_or key_days 0 * DAY
      else if global_days > 0 then global_days * DAY
      else 999999 * DAY)"

definition user_live :: "auth_db \<Rightarrow> uuid \<Rightarrow> bool" where
  "user_live db u = list_ex (\<lambda>r. us_id r = u \<and> us_is_active r \<and> us_deleted_at r = None) (ad_users db)"

definition key_live :: "int \<Rightarrow> int \<Rightarrow> ApiKey \<Rightarrow> bool" where
  "key_live now global_days k \<longleftrightarrow>
     ak_deleted_at k = None \<and>
     (ak_is_active k \<or> (case ak_grace_period_ends_at k of Some g \<Rightarrow> now < g | None \<Rightarrow> False)) \<and>
     (case ak_last_used_at k of
        None \<Rightarrow> True
      | Some t \<Rightarrow> now - inactivity_interval (ak_inactivity_timeout_days k) global_days < t)"

definition lookup_key :: "auth_db \<Rightarrow> int \<Rightarrow> int \<Rightarrow> string \<Rightarrow> ApiKey option" where
  "lookup_key db now global_days hash =
     find (\<lambda>k. ak_key_hash k = hash \<and> (case ak_user_id k of Some u \<Rightarrow> user_live db u | None \<Rightarrow> False) \<and>
               key_live now global_days k)
       (ad_keys db)"

definition touch_key :: "string option \<Rightarrow> int \<Rightarrow> uuid \<Rightarrow> auth_db \<Rightarrow> auth_db" where
  "touch_key err now i db =
     (case err of
        Some _ \<Rightarrow> db
      | None \<Rightarrow> db\<lparr>ad_keys := map (\<lambda>k. if ak_id k = i then k\<lparr>ak_last_used_at := Some now\<rparr> else k) (ad_keys db)\<rparr>)"

subsection \<open>Refusals\<close>

definition client_dialect :: "string \<Rightarrow> Dialect" where
  "client_dialect path =
     (if path = ''/v1/messages'' then Anthropic
      else if starts_with path ''/v1beta/'' \<or> starts_with path ''/v1/models/'' then Gemini
      else if path = ''/v1/responses'' then OpenAiResponses
      else OpenAiChat)"

definition gateway_use_refused :: "string \<Rightarrow> string \<Rightarrow> answer" where
  "gateway_use_refused surface path =
     (let message = ''Access denied: no role held by the owner of this API key grants '' @ surface @ '':use.'' in
      \<lparr>an_status = 403, an_retry_after = None,
       an_body = (if surface = ''mcp_gateway'' then
                    JsonBody (JObject [(''jsonrpc'', JString ''2.0''), (''id'', JNull),
                      (''error'', JObject [(''code'', JNumber (show_int (-32001))), (''message'', JString message)])])
                  else DialectError (client_dialect path) 403 message)\<rparr>)"

definition LIMITS_UNAVAILABLE :: string where
  "LIMITS_UNAVAILABLE = ''limits_unavailable''"

definition limits_unavailable :: "string \<Rightarrow> string \<Rightarrow> answer" where
  "limits_unavailable surface path =
     (let refusal = limiter_unavailable LIMITS_UNAVAILABLE;
          message = ''Rate limited: '' @ LIMITS_UNAVAILABLE
      in if surface = ''mcp_gateway'' then
           \<lparr>an_status = 429, an_retry_after = Some (unwrap_or (error_retry_after_secs refusal) 30),
            an_body = JsonBody (JObject [(''jsonrpc'', JString ''2.0''), (''id'', JNull),
              (''error'', JObject [(''code'', JNumber (show_int INVALID_REQUEST)), (''message'', JString message)])])\<rparr>
         else
           \<lparr>an_status = nat (status_code refusal), an_retry_after = error_retry_after_secs refusal,
            an_body = DialectError (client_dialect path) (nat (status_code refusal)) message\<rparr>)"

definition unavailable_response :: answer where
  "unavailable_response =
     \<lparr>an_status = 503, an_retry_after = None,
      an_body = DialectError OpenAiChat 503 (''The key'' @ [CHR 0x27] @ ''s limits and usage are unavailable.'')\<rparr>"

subsection \<open>Limits\<close>

record key_env =
  kn_hash :: "string \<Rightarrow> string"
  kn_from_doc :: "json \<Rightarrow> PolicyDocument option"
  kn_from_cons :: "json \<Rightarrow> PolicyConstraints option"
  kn_kind :: "string \<Rightarrow> sqlx_kind"
  kn_inactivity_days :: int
  kn_fail_closed :: bool

text \<open>The errors of the queries, in the order they run, and the readings of the clocks.\<close>

record key_errs =
  kx_lookup :: "string option"
  kx_touch :: "string option"
  kx_roles :: "string option"
  kx_names :: "string option"
  kx_user :: "string option \<times> string option \<times> string option"
  kx_key :: "string option \<times> string option"
  kx_email :: "string option"

record key_times =
  kt_lookup :: int
  kt_expiry :: int
  kt_touch :: int
  kt_user :: int
  kt_key :: int

definition load_request_limits ::
  "key_env \<Rightarrow> key_errs \<Rightarrow> key_times \<Rightarrow> limit_db \<Rightarrow> uuid \<Rightarrow> uuid \<Rightarrow> string + SurfaceConstraints \<times> SurfaceConstraints" where
  "load_request_limits E errs t db user lineage =
     (case compute_user_surface_constraints (kn_from_cons E) (kx_user errs) db (kt_user t) user of
        Inl e \<Rightarrow> Inl e
      | Inr u \<Rightarrow>
          (case compute_key_surface_constraints (kx_key errs) db (kt_key t) lineage of
             Inl e \<Rightarrow> Inl e
           | Inr k \<Rightarrow> Inr (u, k)))"

definition limits_or_refusal ::
  "string + SurfaceConstraints \<times> SurfaceConstraints \<Rightarrow> bool \<Rightarrow> (SurfaceConstraints \<times> SurfaceConstraints) option" where
  "limits_or_refusal loaded fail_closed =
     (case loaded of
        Inr limits \<Rightarrow> Some limits
      | Inl _ \<Rightarrow> if fail_closed then None else Some (SurfaceConstraints_default, SurfaceConstraints_default))"

subsection \<open>The middleware\<close>

datatype KeyUse = Call | Read

record http_request =
  hq_method :: string
  hq_path :: string
  hq_query :: "string option"
  hq_headers :: headers
  hq_body :: string

record refusal_row =
  rr_action :: string
  rr_user_id :: "uuid option"
  rr_api_key_id :: uuid
  rr_lineage_id :: uuid
  rr_surface :: string

type_synonym auth_state = "auth_db \<times> refusal_row list"

definition surface_granted :: "string \<Rightarrow> UserResourceLimits \<Rightarrow> bool" where
  "surface_granted surface l =
     (if surface = ''ai_gateway'' then url_ai_gateway l
      else if surface = ''mcp_gateway'' then url_mcp_gateway l
      else False)"

definition owner_email :: "key_errs \<Rightarrow> auth_db \<Rightarrow> uuid option \<Rightarrow> string option" where
  "owner_email errs db user =
     (case (user, kx_email errs) of
        (Some u, None) \<Rightarrow> map_option us_email (find (\<lambda>r. us_id r = u) (ad_users db))
      | _ \<Rightarrow> None)"

definition request_identities ::
  "string \<Rightarrow> key_errs \<Rightarrow> string option \<Rightarrow> auth_db \<Rightarrow> ApiKey \<Rightarrow> UserResourceLimits \<Rightarrow> string list \<Rightarrow>
   SurfaceConstraints \<times> SurfaceConstraints \<Rightarrow> answer + GatewayRequestIdentity \<times> McpRequestIdentity option" where
  "request_identities surface errs ip db row role_limits names limits =
     (let models = intersect_allowlists (ak_allowed_models row) (allowed_models role_limits) model_entry_covers;
          tools = intersect_allowlists (ak_allowed_mcp_tools row) (allowed_mcp_tools role_limits) mcp_entry_covers;
          email = owner_email errs db (ak_user_id row);
          gi = \<lparr>gi_user_id = ak_user_id row, gi_user_email = email, gi_api_key_id = Some (ak_id row),
                gi_api_key_lineage_id = Some (ak_lineage_id row), gi_allowed_models = models,
                gi_surface_constraints = fst limits, gi_key_constraints = snd limits, gi_ip_address = ip,
                gi_key_expires_at = stops_authenticating_at (ak_expires_at row) (ak_grace_period_ends_at row)\<rparr>
      in if surface = ''mcp_gateway'' then
           (case ak_user_id row of
              None \<Rightarrow> Inl (bare 401)
            | Some uid \<Rightarrow>
                (case email of
                   None \<Rightarrow> Inl (bare 401)
                 | Some em \<Rightarrow>
                     Inr (gi, Some \<lparr>qi_user_id = uid, qi_user_email = em, qi_user_roles = names,
                       qi_surface_constraints = fst limits, qi_api_key_lineage_id = ak_lineage_id row,
                       qi_key_constraints = snd limits, qi_allowed_mcp_tools = tools,
                       qi_mcp_account_overrides = ak_mcp_account_overrides row, qi_ip_address = ip\<rparr>)))
         else Inr (gi, None))"

text \<open>What the owner's roles say: the resources, the names (none when they cannot be read) and the limits.\<close>

definition load_owner ::
  "key_env \<Rightarrow> key_errs \<Rightarrow> key_times \<Rightarrow> auth_db \<Rightarrow> ApiKey \<Rightarrow>
   string + UserResourceLimits \<times> string list \<times> (string + SurfaceConstraints \<times> SurfaceConstraints)" where
  "load_owner E errs t db row =
     (case ak_user_id row of
        None \<Rightarrow> Inr (UserResourceLimits_none, [], Inr (SurfaceConstraints_default, SurfaceConstraints_default))
      | Some uid \<Rightarrow>
          (case compute_user_resource_limits (kn_from_doc E) (kx_roles errs) (rbac_part (ad_limits db)) uid of
             Inl e \<Rightarrow> Inl e
           | Inr limits \<Rightarrow>
               Inr (limits,
                    (case load_user_role_names (kx_names errs) (rbac_part (ad_limits db)) uid of Inr ns \<Rightarrow> ns | Inl _ \<Rightarrow> []),
                    load_request_limits E errs t (ad_limits db) uid (ak_lineage_id row))))"

definition authorize_key ::
  "key_env \<Rightarrow> string \<Rightarrow> KeyUse \<Rightarrow> string \<Rightarrow> key_errs \<Rightarrow> key_times \<Rightarrow> string option \<Rightarrow> ApiKey \<Rightarrow> auth_state \<Rightarrow>
   auth_state \<times> (answer + GatewayRequestIdentity \<times> McpRequestIdentity option)" where
  "authorize_key E surface use path errs t ip row st =
     (case st of (db, log) \<Rightarrow>
        (let db' = (if use = Call then touch_key (kx_touch errs) (kt_touch t) (ak_id row) db else db) in
         case load_owner E errs t db row of
           Inl e \<Rightarrow> ((db', log), Inl (db_failure_response (kn_kind E e)))
         | Inr (role_limits, names, loaded) \<Rightarrow>
             if \<not> surface_granted surface role_limits then ((db', log), Inl (gateway_use_refused surface path))
             else if use = Read \<and> (case loaded of Inl _ \<Rightarrow> True | Inr _ \<Rightarrow> False) then ((db', log), Inl unavailable_response)
             else (case limits_or_refusal loaded (kn_fail_closed E) of
                     None \<Rightarrow>
                       ((db', log @ [\<lparr>rr_action = LIMITS_UNAVAILABLE, rr_user_id = ak_user_id row, rr_api_key_id = ak_id row,
                                      rr_lineage_id = ak_lineage_id row, rr_surface = surface\<rparr>]),
                        Inl (limits_unavailable surface path))
                   | Some limits \<Rightarrow>
                       ((db', log), request_identities surface errs ip db row role_limits names limits))))"

definition authenticate ::
  "key_env \<Rightarrow> string \<Rightarrow> KeyUse \<Rightarrow> http_request \<Rightarrow> key_errs \<Rightarrow> key_times \<Rightarrow> string option \<Rightarrow> auth_state \<Rightarrow>
   auth_state \<times> (answer + GatewayRequestIdentity \<times> McpRequestIdentity option)" where
  "authenticate E surface use rq errs t ip st =
     (case presented_key (hq_headers rq) (hq_query rq) of
        None \<Rightarrow> (st, Inl (bare 401))
      | Some token \<Rightarrow>
          if \<not> starts_with token KEY_PREFIX_TW then (st, Inl (bare 401))
          else (case kx_lookup errs of
                  Some e \<Rightarrow> (st, Inl (db_failure_response (kn_kind E e)))
                | None \<Rightarrow>
                    (case lookup_key (fst st) (kt_lookup t) (kn_inactivity_days E) (kn_hash E token) of
                       None \<Rightarrow> (st, Inl (bare 401))
                     | Some row \<Rightarrow>
                         if \<not> List.member (ak_surfaces row) surface then (st, Inl (bare 403))
                         else if (case ak_expires_at row of Some x \<Rightarrow> x < kt_expiry t | None \<Rightarrow> False) then (st, Inl (bare 401))
                         else authorize_key E surface use (hq_path rq) errs t ip row st)))"

definition require_api_key ::
  "key_env \<Rightarrow> string \<Rightarrow> http_request \<Rightarrow> key_errs \<Rightarrow> key_times \<Rightarrow> string option \<Rightarrow> auth_state \<Rightarrow>
   auth_state \<times> (answer + GatewayRequestIdentity \<times> McpRequestIdentity option)" where
  "require_api_key E surface = authenticate E surface Call"

definition require_api_key_to_read ::
  "key_env \<Rightarrow> string \<Rightarrow> http_request \<Rightarrow> key_errs \<Rightarrow> key_times \<Rightarrow> string option \<Rightarrow> auth_state \<Rightarrow>
   auth_state \<times> (answer + GatewayRequestIdentity \<times> McpRequestIdentity option)" where
  "require_api_key_to_read E surface = authenticate E surface Read"

end
