(* ===== verification/Request_Signing.thy ===== *)
theory Request_Signing
  imports Redis_Clock App_Error Key_Auth
begin

section \<open>Signed requests of the console\<close>

text \<open>
  \<^verbatim>\<open>crates/server/src/middleware/verify_signature.rs\<close>, with \<^verbatim>\<open>register_key\<close> of \<^verbatim>\<open>handlers/auth.rs\<close> and
  \<^verbatim>\<open>clear_signing_key_slot\<close> of \<^verbatim>\<open>services/session_service.rs\<close>: a browser session registers a public key, bound to
  its address, and signs its requests with it. Time is in milliseconds; what the code reads as a time stamp is its
  whole seconds, and a call happens at one instant: it reads the clock once. The elliptic curve, the base64 and hash functions and serde are parameters. Arithmetic on time
  stamps is that of a release build, where \<open>i64\<close> wraps around. The Redis client
  reads the reply OK of \<^verbatim>\<open>SET NX\<close> as true; a nil is refused whether it reads as false or as an error.
\<close>

subsection \<open>Cookies\<close>

definition ACCESS_COOKIE_NAME :: string where
  "ACCESS_COOKIE_NAME = ''__Host-access_token''"

definition REFRESH_COOKIE_NAME :: string where
  "REFRESH_COOKIE_NAME = ''__Secure-refresh_token''"

definition access_token_cookie :: "string \<Rightarrow> int \<Rightarrow> string" where
  "access_token_cookie token max_age =
     ACCESS_COOKIE_NAME @ ''='' @ token @ ''; HttpOnly; Secure; SameSite=Lax; Path=/; Max-Age='' @ show_int max_age"

definition refresh_token_cookie :: "string \<Rightarrow> int \<Rightarrow> string" where
  "refresh_token_cookie token max_age =
     REFRESH_COOKIE_NAME @ ''='' @ token @ ''; HttpOnly; Secure; SameSite=Lax; Path=/api/auth/refresh; Max-Age='' @ show_int max_age"

definition clear_auth_cookies :: "string list" where
  "clear_auth_cookies =
     [ACCESS_COOKIE_NAME @ ''=; HttpOnly; Secure; SameSite=Lax; Path=/; Max-Age=0'',
      REFRESH_COOKIE_NAME @ ''=; HttpOnly; Secure; SameSite=Lax; Path=/api/auth/refresh; Max-Age=0'']"

definition extract_cookie_from_headers :: "headers \<Rightarrow> string \<Rightarrow> string option" where
  "extract_cookie_from_headers h name =
     Option.bind (header_str h ''cookie'')
       (\<lambda>v. find_map (\<lambda>c. opt_filter (\<lambda>x. x \<noteq> []) (strip_prefix (str_trim c) (name @ ''=''))) (split_on (CHR '';'') v))"

subsection \<open>Keys in Redis\<close>

definition pubkey_key :: "uuid \<Rightarrow> string" where
  "pubkey_key u = ''signing_pubkey:'' @ u"

definition ip_key :: "uuid \<Rightarrow> string" where
  "ip_key u = ''signing_key_ip:'' @ u"

definition nonce_key :: "uuid \<Rightarrow> string \<Rightarrow> string" where
  "nonce_key u n = ''nonce:'' @ u @ '':'' @ n"

datatype StoreKeyOutcome = Stored | AlreadyExists

definition store_public_key ::
  "'s redis_ttl \<Rightarrow> int \<Rightarrow> uuid \<Rightarrow> string \<Rightarrow> string option \<Rightarrow> int \<Rightarrow> 's \<Rightarrow> 's \<times> (string + StoreKeyOutcome)" where
  "store_public_key Q now u jwk client_ip ttl s =
     (case rt_err Q s (pubkey_key u) of
        Some e \<Rightarrow> (s, Inl e)
      | None \<Rightarrow>
          (case set_ex_nx Q now (pubkey_key u) jwk ttl s of
             (s1, False) \<Rightarrow> (s1, Inr AlreadyExists)
           | (s1, True) \<Rightarrow>
               (case client_ip of
                  None \<Rightarrow> (s1, Inr Stored)
                | Some ip \<Rightarrow>
                    (case rt_err Q s1 (ip_key u) of
                       Some e \<Rightarrow> (s1, Inl e)
                     | None \<Rightarrow> (set_ex Q now (ip_key u) ip ttl s1, Inr Stored)))))"

definition del_best_effort :: "'s redis_ttl \<Rightarrow> string \<Rightarrow> 's \<Rightarrow> 's" where
  "del_best_effort Q k s = (case rt_err Q s k of Some _ \<Rightarrow> s | None \<Rightarrow> rt_del Q k s)"

definition clear_signing_key_slot :: "'s redis_ttl \<Rightarrow> uuid \<Rightarrow> 's \<Rightarrow> 's" where
  "clear_signing_key_slot Q u s = del_best_effort Q (ip_key u) (del_best_effort Q (pubkey_key u) s)"

subsection \<open>The signature\<close>

datatype SignatureCheck = BadKey string | BadSignature string | Mismatch

record ('pk, 'sig) p256 =
  pc_jwk :: "string \<Rightarrow> string + string \<times> string \<times> string \<times> string"
  pc_base64 :: "string \<Rightarrow> string + string"
  pc_point :: "string \<Rightarrow> 'pk option"
  pc_signature :: "string \<Rightarrow> string + 'sig"
  pc_verify :: "'pk \<Rightarrow> string \<Rightarrow> 'sig \<Rightarrow> bool"

text \<open>
  \<open>pc_jwk\<close> reads a JSON object with the fields kty, crv, x and y; \<open>pc_base64\<close> is base64url without padding; \<open>pc_point\<close> reads an
  uncompressed point.
\<close>

definition jwk_coordinate :: "('pk, 'sig) p256 \<Rightarrow> string \<Rightarrow> string \<Rightarrow> string + string" where
  "jwk_coordinate C name value =
     (case pc_base64 C value of
        Inl e \<Rightarrow> Inl (name @ '' is not base64url: '' @ e)
      | Inr bytes \<Rightarrow>
          if length bytes \<noteq> 32 then Inl (name @ '' must be 32 bytes, got '' @ show_nat (length bytes)) else Inr bytes)"

definition p256_public_key_from_jwk :: "('pk, 'sig) p256 \<Rightarrow> string \<Rightarrow> string + 'pk" where
  "p256_public_key_from_jwk C jwk =
     (case pc_jwk C jwk of
        Inl e \<Rightarrow> Inl (''not an EC JWK: '' @ e)
      | Inr (kty, crv, x, y) \<Rightarrow>
          if kty \<noteq> ''EC'' then Inl (''kty must be EC, got '' @ kty)
          else if crv \<noteq> ''P-256'' then Inl (''crv must be P-256, got '' @ crv)
          else (case jwk_coordinate C ''x'' x of
                  Inl e \<Rightarrow> Inl e
                | Inr xb \<Rightarrow>
                    (case jwk_coordinate C ''y'' y of
                       Inl e \<Rightarrow> Inl e
                     | Inr yb \<Rightarrow>
                         (case pc_point C (CHR 0x04 # xb @ yb) of
                            None \<Rightarrow> Inl ''point is not on P-256''
                          | Some pk \<Rightarrow> Inr pk))))"

definition verify_p256_jwk :: "('pk, 'sig) p256 \<Rightarrow> string \<Rightarrow> string \<Rightarrow> string \<Rightarrow> SignatureCheck + unit" where
  "verify_p256_jwk C pubkey_json message sig_bytes =
     (case p256_public_key_from_jwk C pubkey_json of
        Inl e \<Rightarrow> Inl (BadKey e)
      | Inr pk \<Rightarrow>
          (case pc_signature C sig_bytes of
             Inl e \<Rightarrow> Inl (BadSignature e)
           | Inr sig \<Rightarrow> if pc_verify C pk message sig then Inr () else Inl Mismatch))"

subsection \<open>The middleware\<close>

record ('s, 'pk, 'sig) sig_env =
  sg_redis :: "'s redis_ttl"
  sg_curve :: "('pk, 'sig) p256"
  sg_sha256_hex :: "string \<Rightarrow> string"
  sg_read_body :: "string \<Rightarrow> string option"
  sg_max_drift :: int
  sg_nonce_ttl :: int
  sg_refresh_ttl_days :: int

record AuthClaims =
  cm_sub :: uuid
  cm_email :: string
  cm_exp :: int
  cm_iat :: int
  cm_token_type :: string
  cm_aud :: string
  cm_iss :: string

record session_user =
  su_claims :: AuthClaims
  su_ip :: "string option"

definition wrap_i64 :: "int \<Rightarrow> int" where
  "wrap_i64 x = (x + 2 ^ 63) mod 2 ^ 64 - 2 ^ 63"

definition abs_i64 :: "int \<Rightarrow> int" where
  "abs_i64 x = wrap_i64 (abs x)"

definition saturating_sub_i64 :: "int \<Rightarrow> int \<Rightarrow> int" where
  "saturating_sub_i64 a b = max (- (2 ^ 63)) (min (2 ^ 63 - 1) (a - b))"

definition parse_i64_str :: "string \<Rightarrow> int option" where
  "parse_i64_str s =
     (case parse_int s of
        Some n \<Rightarrow> if - (2 ^ 63) \<le> n \<and> n < 2 ^ 63 then Some n else None
      | None \<Rightarrow> None)"

definition too_far :: "int \<Rightarrow> int \<Rightarrow> int \<Rightarrow> bool" where
  "too_far now_secs timestamp max_drift \<longleftrightarrow> max_drift < abs_i64 (wrap_i64 (now_secs - timestamp))"

definition REGISTER_KEY_GRACE_SECS :: int where
  "REGISTER_KEY_GRACE_SECS = 120"

datatype sig_pass = Unsigned | Signed string string

text \<open>
  The readings of the clock of one call, for the drift, the nonce and the lookups that follow. A request goes on
  unsigned or signed with its time stamp and nonce.
\<close>

definition unsigned_request ::
  "('s, 'pk, 'sig) sig_env \<Rightarrow> int \<Rightarrow> AuthClaims \<Rightarrow> 's \<Rightarrow> nat + sig_pass" where
  "unsigned_request E now cm s =
     (let Q = sg_redis E;
          has_pubkey = (rt_err Q s (pubkey_key (cm_sub cm)) = None \<and> ttl_get Q now s (pubkey_key (cm_sub cm)) \<noteq> None)
      in if has_pubkey then Inl 401
         else if REGISTER_KEY_GRACE_SECS < saturating_sub_i64 (now div 1000) (cm_iat cm) then Inl 401
         else Inr Unsigned)"

definition get_text :: "'s redis_ttl \<Rightarrow> int \<Rightarrow> 's \<Rightarrow> string \<Rightarrow> string option" where
  "get_text Q now s k = (if rt_err Q s k = None then ttl_get Q now s k else None)"

definition ip_bound :: "string option \<Rightarrow> string \<Rightarrow> bool" where
  "ip_bound bound request_ip = (case bound of Some b \<Rightarrow> request_ip \<noteq> [] \<and> b = request_ip | None \<Rightarrow> False)"

definition LF :: string where "LF = [CHR 0x0A]"

definition path_and_query :: "http_request \<Rightarrow> string" where
  "path_and_query rq = (case hq_query rq of None \<Rightarrow> hq_path rq | Some q \<Rightarrow> hq_path rq @ ''?'' @ q)"

definition string_to_sign :: "('s, 'pk, 'sig) sig_env \<Rightarrow> http_request \<Rightarrow> string \<Rightarrow> string \<Rightarrow> string \<Rightarrow> string" where
  "string_to_sign E rq timestamp_str nonce body_bytes =
     hq_method rq @ LF @ path_and_query rq @ LF @ timestamp_str @ LF @ nonce @ LF @ sg_sha256_hex E body_bytes"

definition check_signed ::
  "('s, 'pk, 'sig) sig_env \<Rightarrow> int \<Rightarrow> session_user \<Rightarrow> http_request \<Rightarrow> string \<Rightarrow> string \<Rightarrow> string \<Rightarrow> 's \<Rightarrow> nat + sig_pass" where
  "check_signed E now su rq timestamp_str nonce sig_header s =
     (let Q = sg_redis E; u = cm_sub (su_claims su) in
      case get_text Q now s (pubkey_key u) of
        None \<Rightarrow> Inl 401
      | Some pubkey_json \<Rightarrow>
          if \<not> ip_bound (get_text Q now s (ip_key u)) (unwrap_or (su_ip su) []) then Inl 401
          else (case strip_prefix sig_header ''ecdsa-p256:'' of
                  None \<Rightarrow> Inl 400
                | Some b64 \<Rightarrow>
                    (case pc_base64 (sg_curve E) b64 of
                       Inl _ \<Rightarrow> Inl 400
                     | Inr sig_bytes \<Rightarrow>
                         (case sg_read_body E (hq_body rq) of
                            None \<Rightarrow> Inl 400
                          | Some body_bytes \<Rightarrow>
                              (case verify_p256_jwk (sg_curve E) pubkey_json (string_to_sign E rq timestamp_str nonce body_bytes) sig_bytes of
                                 Inr () \<Rightarrow> Inr (Signed timestamp_str nonce)
                               | Inl (BadKey _) \<Rightarrow> Inl 500
                               | Inl (BadSignature _) \<Rightarrow> Inl 400
                               | Inl Mismatch \<Rightarrow> Inl 401)))))"

definition signed_request ::
  "('s, 'pk, 'sig) sig_env \<Rightarrow> int \<Rightarrow> session_user \<Rightarrow> http_request \<Rightarrow> string \<Rightarrow> string \<Rightarrow> string \<Rightarrow> 's \<Rightarrow> 's \<times> (nat + sig_pass)" where
  "signed_request E now su rq timestamp_str nonce sig_header s =
     (let Q = sg_redis E; u = cm_sub (su_claims su) in
      case parse_i64_str timestamp_str of
        None \<Rightarrow> (s, Inl 400)
      | Some timestamp \<Rightarrow>
          if too_far (now div 1000) timestamp (sg_max_drift E) then (s, Inl 401)
          else if rt_err Q s (nonce_key u nonce) \<noteq> None then (s, Inl 401)
          else (case set_ex_nx Q now (nonce_key u nonce) ''1'' (sg_nonce_ttl E) s of
                  (s1, fresh) \<Rightarrow>
                    if \<not> fresh then (s1, Inl 401)
                    else (case check_signed E now su rq timestamp_str nonce sig_header s1 of
                            Inl st \<Rightarrow> (s1, Inl st)
                          | Inr p \<Rightarrow>
                              (if rt_err Q s1 (pubkey_key u) = None
                               then expire_at Q now (pubkey_key u) (sg_refresh_ttl_days E * 86400) s1 else s1,
                               Inr p))))"

definition verify_signature ::
  "('s, 'pk, 'sig) sig_env \<Rightarrow> int \<Rightarrow> bool \<Rightarrow> session_user option \<Rightarrow> http_request \<Rightarrow> 's \<Rightarrow> 's \<times> (nat + sig_pass)" where
  "verify_signature E now api_key user rq s =
     (let h = hq_headers rq in
      if hq_method rq = ''OPTIONS'' \<or> api_key \<or> hq_path rq = ''/api/auth/register-key'' then (s, Inr Unsigned)
      else case user of
        None \<Rightarrow> (s, Inl 401)
      | Some su \<Rightarrow>
          if \<not> contains_header h ''x-signature'' then (s, unsigned_request E now (su_claims su) s)
          else (case (header_str h ''x-signature-timestamp'', header_str h ''x-signature-nonce'', header_str h ''x-signature'') of
                  (Some timestamp_str, Some nonce, Some sig_header) \<Rightarrow>
                    signed_request E now su rq timestamp_str nonce sig_header s
                | _ \<Rightarrow> (s, Inl 400)))"

subsection \<open>Registering a key\<close>

definition minimal_jwk :: "json \<Rightarrow> json" where
  "minimal_jwk jwk = JObject (map (\<lambda>f. (f, unwrap_or (json_get jwk f) JNull)) [''kty'', ''crv'', ''x'', ''y''])"

text \<open>\<open>show\<close> is \<^verbatim>\<open>serde_json::to_string\<close> on a value, which does not fail.\<close>

definition register_key ::
  "('s, 'pk, 'sig) sig_env \<Rightarrow> (json \<Rightarrow> string) \<Rightarrow> int \<Rightarrow> session_user \<Rightarrow> json \<Rightarrow> 's \<Rightarrow> 's \<times> (AppError + unit)" where
  "register_key E show now su public_key s =
     (let Q = sg_redis E; u = cm_sub (su_claims su) in
      case fixed_incr Q (now, now) (''register_key_rate:'' @ u) 60 s of
        (s1, Inl e) \<Rightarrow> (s1, Inl (Internal ''Rate limiting unavailable''))
      | (s1, Inr attempts) \<Rightarrow>
          if attempts > 5 then (s1, Inl RateLimited)
          else let pubkey_json = show (minimal_jwk public_key) in
               (case p256_public_key_from_jwk (sg_curve E) pubkey_json of
                  Inl e \<Rightarrow> (s1, Inl (BadRequest (''Invalid ECDSA P-256 public key JWK: '' @ e)))
                | Inr _ \<Rightarrow>
                    (case su_ip su of
                       None \<Rightarrow> (s1, Inl (BadRequest (''Cannot determine client IP for signing-key binding '' @
                         [CHR 0xE2, CHR 0x80, CHR 0x94] @ '' check trusted_proxies config'')))
                     | Some ip \<Rightarrow>
                         (case store_public_key Q now u pubkey_json (Some ip) (sg_refresh_ttl_days E * 86400) s1 of
                            (s2, Inl e) \<Rightarrow> (s2, Inl (Internal (''Failed to store public key: '' @ e)))
                          | (s2, Inr AlreadyExists) \<Rightarrow>
                              (s2, Inl (Conflict ''Signing key is already registered for this session. Log out and back in to rotate.''))
                          | (s2, Inr Stored) \<Rightarrow> (s2, Inr ())))))"

end
