(* ===== verification/Console_Auth.thy ===== *)
theory Console_Auth
  imports Request_Signing
begin

section \<open>Who may use the console\<close>

text \<open>
  \<^verbatim>\<open>crates/server/src/middleware/auth_guard.rs\<close> with the token blacklist of \<^verbatim>\<open>crates/auth/src/jwt.rs\<close>: the permission and scope
  checks of a signed-in user, the address a request counts as coming from, the cached permissions, and the middleware
  that turns a session cookie, a bearer token or an API key into a user. The tables are those of \<open>Key_Auth\<close>, Redis is that of
  \<open>Redis_Clock\<close>. Tokens are verified by a parameter, and so are the hash of a token and the list of permission keys. The SQL
  operator \<open>LIKE\<close> is a parameter; the statements of a stored policy document are an array, as the handlers that store
  documents require.
\<close>

record AuthUser =
  au_claims :: AuthClaims
  au_ip :: "string option"
  au_user_agent :: "string option"
  au_permissions :: "string list"
  au_denied_permissions :: "string list"
  au_scope_cache :: "(string \<times> uuid list option) list"

definition require_permission :: "AuthUser \<Rightarrow> string \<Rightarrow> AppError + unit" where
  "require_permission au perm =
     (if List.member (au_denied_permissions au) perm then Inl (Forbidden (''Permission explicitly denied: '' @ perm))
      else if List.member (au_permissions au) perm then Inr ()
      else Inl (Forbidden (''Missing required permission: '' @ perm)))"

subsection \<open>Grants in the role tables\<close>

record sql =
  sq_like :: "string \<Rightarrow> string \<Rightarrow> bool"
  sq_text :: "json \<Rightarrow> string"

text \<open>\<open>sq_like s p\<close> is \<^verbatim>\<open>s LIKE p\<close>; \<open>sq_text\<close> is the text of a JSON value that is neither a string nor null.\<close>

fun element_text :: "sql \<Rightarrow> json \<Rightarrow> string option" where
  "element_text S (JString s) = Some s"
| "element_text S JNull = None"
| "element_text S v = Some (sq_text S v)"

definition action_texts :: "sql \<Rightarrow> json \<Rightarrow> string list" where
  "action_texts S stmt =
     (case json_get stmt ''Action'' of
        Some (JArray vs) \<Rightarrow> List.map_filter (element_text S) vs
      | Some v \<Rightarrow> List.map_filter (element_text S) [v]
      | None \<Rightarrow> [])"

definition act_covers :: "sql \<Rightarrow> string \<Rightarrow> string \<Rightarrow> bool" where
  "act_covers S perm act \<longleftrightarrow>
     act = ''*'' \<or> act = perm \<or>
     (CHR ''*'' \<in> set act \<and> sq_like S perm (map (\<lambda>c. if c = CHR ''*'' then CHR ''%'' else c) act))"

definition stmt_grants :: "sql \<Rightarrow> string \<Rightarrow> json \<Rightarrow> bool" where
  "stmt_grants S perm stmt \<longleftrightarrow>
     json_get stmt ''Effect'' = Some (JString ''Allow'') \<and> list_ex (act_covers S perm) (action_texts S stmt)"

definition role_grants :: "sql \<Rightarrow> string \<Rightarrow> rbac_role \<Rightarrow> bool" where
  "role_grants S perm r =
     (case json_get (policy_document r) ''Statement'' of
        Some (JArray stmts) \<Rightarrow> list_ex (stmt_grants S perm) stmts
      | _ \<Rightarrow> False)"

definition role_id_grants :: "sql \<Rightarrow> rbac_db \<Rightarrow> string \<Rightarrow> uuid \<Rightarrow> bool" where
  "role_id_grants S db perm i = list_ex (\<lambda>r. role_id r = i \<and> role_grants S perm r) (roles db)"

text \<open>A direct assignment whose scope is one of \<open>ok\<close>, or a role of a team the user is in.\<close>

definition granted_in :: "sql \<Rightarrow> rbac_db \<Rightarrow> uuid \<Rightarrow> string \<Rightarrow> (role_assignment \<Rightarrow> bool) \<Rightarrow> bool" where
  "granted_in S db user perm ok \<longleftrightarrow>
     list_ex (\<lambda>a. ra_user_id a = user \<and> ok a \<and> role_id_grants S db perm (ra_role_id a)) (role_assignments db) \<or>
     list_ex (role_id_grants S db perm) (team_role_ids db user)"

definition is_global :: "role_assignment \<Rightarrow> bool" where
  "is_global a \<longleftrightarrow> ra_scope_kind a = ''global''"

definition global_grant :: "sql \<Rightarrow> rbac_db \<Rightarrow> uuid \<Rightarrow> string \<Rightarrow> bool" where
  "global_grant S db user perm = granted_in S db user perm is_global"

subsection \<open>Scope checks\<close>

definition scope_failed :: "string \<Rightarrow> AppError" where
  "scope_failed e = Internal (''scope check failed: '' @ e)"

definition assert_scope_global :: "sql \<Rightarrow> string option \<Rightarrow> rbac_db \<Rightarrow> AuthUser \<Rightarrow> string \<Rightarrow> AppError + unit" where
  "assert_scope_global S err db au perm =
     (case err of
        Some e \<Rightarrow> Inl (scope_failed e)
      | None \<Rightarrow>
          if global_grant S db (cm_sub (au_claims au)) perm then Inr ()
          else Inl (Forbidden (perm @ '' requires global scope (this is a platform-wide resource)'')))"

definition require_global_permission :: "sql \<Rightarrow> string option \<Rightarrow> rbac_db \<Rightarrow> AuthUser \<Rightarrow> string \<Rightarrow> AppError + unit" where
  "require_global_permission S err db au perm =
     (case require_permission au perm of Inl e \<Rightarrow> Inl e | Inr () \<Rightarrow> assert_scope_global S err db au perm)"

definition covers_user :: "rbac_db \<Rightarrow> uuid \<Rightarrow> role_assignment \<Rightarrow> bool" where
  "covers_user db target a \<longleftrightarrow>
     is_global a \<or>
     (ra_scope_kind a = ''team'' \<and>
      (case ra_scope_id a of Some t \<Rightarrow> List.member (team_members db) (t, target) | None \<Rightarrow> False))"

definition assert_scope_for_user ::
  "sql \<Rightarrow> string option \<Rightarrow> rbac_db \<Rightarrow> AuthUser \<Rightarrow> string \<Rightarrow> uuid \<Rightarrow> AppError + unit" where
  "assert_scope_for_user S err db au perm target =
     (if cm_sub (au_claims au) = target then Inr ()
      else case err of
             Some e \<Rightarrow> Inl (scope_failed e)
           | None \<Rightarrow>
               if granted_in S db (cm_sub (au_claims au)) perm (covers_user db target) then Inr ()
               else Inl (Forbidden (perm @ '' not granted in any scope covering this user'')))"

definition covers_team :: "uuid \<Rightarrow> role_assignment \<Rightarrow> bool" where
  "covers_team target a \<longleftrightarrow> is_global a \<or> (ra_scope_kind a = ''team'' \<and> ra_scope_id a = Some target)"

definition assert_scope_for_team ::
  "sql \<Rightarrow> string option \<Rightarrow> rbac_db \<Rightarrow> AuthUser \<Rightarrow> string \<Rightarrow> uuid \<Rightarrow> AppError + unit" where
  "assert_scope_for_team S err db au perm target =
     (case err of
        Some e \<Rightarrow> Inl (scope_failed e)
      | None \<Rightarrow>
          if granted_in S db (cm_sub (au_claims au)) perm (covers_team target) then Inr ()
          else Inl (Forbidden (perm @ '' not granted in any scope covering team '' @ target)))"

definition key_owner :: "ApiKey list \<Rightarrow> (ApiKey \<Rightarrow> uuid) \<Rightarrow> uuid \<Rightarrow> uuid option" where
  "key_owner keys column i = Option.bind (find (\<lambda>k. column k = i) keys) ak_user_id"

text \<open>\<open>errs\<close> are the errors of the lookup of the key's owner and of the scope query.\<close>

definition assert_scope_for_subject ::
  "sql \<Rightarrow> string option \<times> string option \<Rightarrow> auth_db \<Rightarrow> AuthUser \<Rightarrow> string \<Rightarrow> string \<Rightarrow> uuid \<Rightarrow> AppError + unit" where
  "assert_scope_for_subject S errs db au perm subject_kind subject_id =
     (let rb = rbac_part (ad_limits db);
          decide = (\<lambda>own. case own of
             Some user \<Rightarrow>
               if user \<noteq> cm_sub (au_claims au) then assert_scope_for_user S (snd errs) rb au perm user
               else assert_scope_global S (snd errs) rb au perm
           | None \<Rightarrow> assert_scope_global S (snd errs) rb au perm)
      in if subject_kind = ''role'' then assert_scope_global S (snd errs) rb au perm
         else if subject_kind = ''user'' then decide (Some subject_id)
         else if subject_kind = ''api_key'' \<or> subject_kind = ''api_key_lineage'' then
           (case fst errs of
              Some e \<Rightarrow> Inl (scope_failed e)
            | None \<Rightarrow> decide (key_owner (ad_keys db) (if subject_kind = ''api_key'' then ak_id else ak_lineage_id) subject_id))
         else Inl (BadRequest (''unknown subject_kind '' @ [CHR 0x27] @ subject_kind @ [CHR 0x27] @
           '' (expected: user, api_key, role)'')))"

definition owned_team_scope_for_perm ::
  "sql \<Rightarrow> string option \<times> string option \<Rightarrow> rbac_db \<Rightarrow> AuthUser \<Rightarrow> string \<Rightarrow> AuthUser \<times> (AppError + uuid list option)" where
  "owned_team_scope_for_perm S errs db au perm =
     (case map_of (au_scope_cache au) perm of
        Some cached \<Rightarrow> (au, Inr cached)
      | None \<Rightarrow>
          (case fst errs of
             Some e \<Rightarrow> (au, Inl (Internal (''scope lookup failed: '' @ e)))
           | None \<Rightarrow>
               if global_grant S db (cm_sub (au_claims au)) perm then
                 (au\<lparr>au_scope_cache := (perm, None) # au_scope_cache au\<rparr>, Inr None)
               else
                 (case snd errs of
                    Some e \<Rightarrow> (au, Inl (Internal (''scope lookup failed: '' @ e)))
                  | None \<Rightarrow>
                      (let teams = remdups (List.map_filter ra_scope_id
                             (filter (\<lambda>a. ra_user_id a = cm_sub (au_claims au) \<and> ra_scope_kind a = ''team'' \<and>
                                          role_id_grants S db perm (ra_role_id a)) (role_assignments db)))
                       in (au\<lparr>au_scope_cache := (perm, Some teams) # au_scope_cache au\<rparr>, Inr (Some teams))))))"

subsection \<open>The address of a request\<close>

record ip_config =
  ic_source :: string
  ic_xff_position :: string
  ic_xff_depth :: int
  ic_trusted_proxies :: "string option"
  ic_proxy_secret :: "string option"

definition PROXY_SECRET_HEADER :: string where
  "PROXY_SECRET_HEADER = ''x-thinkwatch-proxy-token''"

text \<open>Two strings of one length have no differing byte exactly when they are equal.\<close>

definition presents_proxy_secret :: "headers \<Rightarrow> string option \<Rightarrow> bool" where
  "presents_proxy_secret h secret =
     (case opt_filter (\<lambda>s. s \<noteq> []) secret of
        None \<Rightarrow> False
      | Some sec \<Rightarrow>
          (case header_str h PROXY_SECRET_HEADER of
             None \<Rightarrow> False
           | Some presented \<Rightarrow> length presented = length sec \<and> list_all2 (=) presented sec))"

definition nth_opt :: "'a list \<Rightarrow> nat \<Rightarrow> 'a option" where
  "nth_opt xs i = (if i < length xs then Some (xs ! i) else None)"

definition forwarded_ip :: "string \<Rightarrow> ip_config \<Rightarrow> headers \<Rightarrow> string option" where
  "forwarded_ip source c h =
     (if source = ''xff'' then
        (let depth = nat (max (ic_xff_depth c) 1) in
         Option.bind (header_str h ''x-forwarded-for'')
           (\<lambda>v. let parts = map str_trim (split_on (CHR '','') v);
                    idx = (if ic_xff_position c = ''right'' then
                             (if depth \<le> length parts then Some (length parts - depth) else None)
                           else if depth - 1 < length parts then Some (depth - 1) else None)
                in opt_filter (\<lambda>s. s \<noteq> []) (Option.bind idx (nth_opt parts))))
      else if source = ''x-real-ip'' then opt_filter (\<lambda>s. s \<noteq> []) (map_option str_trim (header_str h ''x-real-ip''))
      else None)"

definition whitelisted :: "ip_config \<Rightarrow> string option \<Rightarrow> bool" where
  "whitelisted c connection_ip =
     list_ex (\<lambda>proxy. proxy = unwrap_or connection_ip [] \<or> proxy = ''*'')
       (filter (\<lambda>p. p \<noteq> []) (map str_trim (split_on (CHR '','') (unwrap_or (ic_trusted_proxies c) []))))"

definition resolve_client_ip :: "ip_config \<Rightarrow> headers \<Rightarrow> string option \<Rightarrow> string option" where
  "resolve_client_ip c h connection_ip =
     (let has_secret = presents_proxy_secret h (ic_proxy_secret c) in
      if ic_source c = ''connection'' \<and> \<not> has_secret then connection_ip
      else if \<not> whitelisted c connection_ip \<and> \<not> has_secret then connection_ip
      else or_else (forwarded_ip (if ic_source c = ''connection'' then ''x-real-ip'' else ic_source c) c h) connection_ip)"

subsection \<open>Cached permissions\<close>

record guard_env =
  ge_sql :: sql
  ge_all_perms :: "string list"
  ge_from_doc :: "json \<Rightarrow> PolicyDocument option"
  ge_kind :: "string \<Rightarrow> sqlx_kind"
  ge_parse_json :: "string \<Rightarrow> json option"
  ge_show_json :: "json \<Rightarrow> string"
  ge_verify_token :: "int \<Rightarrow> string \<Rightarrow> AuthClaims option"
  ge_token_hash :: "string \<Rightarrow> string"
  ge_key_hash :: "string \<Rightarrow> string"
  ge_inactivity_days :: int
  ge_totp_required :: bool
  ge_ip :: ip_config

text \<open>\<^verbatim>\<open>serde_json::from_value\<close> at the type of lists of strings, and the default of an absent or other value.\<close>

definition string_list :: "json option \<Rightarrow> string list" where
  "string_list v =
     (case v of
        Some (JArray vs) \<Rightarrow> if list_all (\<lambda>x. json_as_str x \<noteq> None) vs then List.map_filter json_as_str vs else []
      | _ \<Rightarrow> [])"

definition perms_key :: "uuid \<Rightarrow> string" where
  "perms_key u = ''user_perms:'' @ u"

definition compute_perms ::
  "guard_env \<Rightarrow> string option \<times> string option \<Rightarrow> rbac_db \<Rightarrow> uuid \<Rightarrow> string + string list \<times> string list" where
  "compute_perms G errs db u =
     (case compute_user_permissions (fst errs) db u (ge_all_perms G) of
        Inl e \<Rightarrow> Inl e
      | Inr perms \<Rightarrow>
          (case compute_denied_permissions (ge_from_doc G) (snd errs) db u perms of
             Inl e \<Rightarrow> Inl e
           | Inr denied \<Rightarrow> Inr (perms, denied)))"

definition load_user_permissions_cached ::
  "guard_env \<Rightarrow> 's redis_ttl \<Rightarrow> int \<Rightarrow> string option \<times> string option \<Rightarrow> rbac_db \<Rightarrow> uuid \<Rightarrow> 's \<Rightarrow>
   's \<times> (string + string list \<times> string list)" where
  "load_user_permissions_cached G Q now errs db u s =
     (case Option.bind (get_text Q now s (perms_key u)) (ge_parse_json G) of
        Some v \<Rightarrow> (s, Inr (string_list (json_get v ''p''), string_list (json_get v ''d'')))
      | None \<Rightarrow>
          (case compute_perms G errs db u of
             Inl e \<Rightarrow> (s, Inl e)
           | Inr (perms, denied) \<Rightarrow>
               (if rt_err Q s (perms_key u) = None
                then set_ex Q now (perms_key u)
                       (ge_show_json G (JObject [(''p'', JArray (map JString perms)), (''d'', JArray (map JString denied))])) 60 s
                else s,
                Inr (perms, denied))))"

definition invalidate_user_perms :: "'s redis_ttl \<Rightarrow> uuid \<Rightarrow> 's \<Rightarrow> 's" where
  "invalidate_user_perms Q u s = del_best_effort Q (perms_key u) s"

text \<open>A query that fails is read as no rows.\<close>

definition invalidate_role_perms ::
  "'s redis_ttl \<Rightarrow> string option \<times> string option \<Rightarrow> rbac_db \<Rightarrow> uuid \<Rightarrow> 's \<Rightarrow> 's" where
  "invalidate_role_perms Q errs db role s =
     (let direct = (case fst errs of Some _ \<Rightarrow> [] | None \<Rightarrow>
            remdups (map ra_user_id (filter (\<lambda>a. ra_role_id a = role) (role_assignments db))));
          team = (case snd errs of Some _ \<Rightarrow> [] | None \<Rightarrow>
            remdups [u. (t, r) \<leftarrow> team_role_assignments db, r = role, (t', u) \<leftarrow> team_members db, t' = t])
      in fold (invalidate_user_perms Q) (direct @ team) s)"

definition invalidate_team_perms :: "'s redis_ttl \<Rightarrow> string option \<Rightarrow> rbac_db \<Rightarrow> uuid \<Rightarrow> 's \<Rightarrow> 's" where
  "invalidate_team_perms Q err db team s =
     fold (invalidate_user_perms Q)
       (case err of Some _ \<Rightarrow> [] | None \<Rightarrow> map snd (filter (\<lambda>(t, u). t = team) (team_members db))) s"

subsection \<open>Revoked tokens\<close>

definition blacklist_key :: "string \<Rightarrow> string" where
  "blacklist_key h = ''jwt_blacklist:'' @ h"

definition revoke_token :: "'s redis_ttl \<Rightarrow> int \<Rightarrow> string \<Rightarrow> int \<Rightarrow> 's \<Rightarrow> 's \<times> (string + unit)" where
  "revoke_token Q now h ttl s =
     (case rt_err Q s (blacklist_key h) of
        Some e \<Rightarrow> (s, Inl e)
      | None \<Rightarrow> (set_ex Q now (blacklist_key h) ''1'' ttl s, Inr ()))"

definition is_revoked :: "'s redis_ttl \<Rightarrow> int \<Rightarrow> string \<Rightarrow> 's \<Rightarrow> string + bool" where
  "is_revoked Q now h s =
     (case rt_err Q s (blacklist_key h) of
        Some e \<Rightarrow> Inl e
      | None \<Rightarrow> Inr (ttl_get Q now s (blacklist_key h) \<noteq> None))"

definition epoch_key :: "uuid \<Rightarrow> string" where
  "epoch_key u = ''pw_epoch:'' @ u"

text \<open>\<open>Some True\<close>: the token was issued before the user's sessions were ended. \<open>None\<close>: Redis did not answer.\<close>

definition before_epoch :: "'s redis_ttl \<Rightarrow> int \<Rightarrow> AuthClaims \<Rightarrow> 's \<Rightarrow> bool option" where
  "before_epoch Q now cm s =
     (case rt_err Q s (epoch_key (cm_sub cm)) of
        Some _ \<Rightarrow> None
      | None \<Rightarrow>
          Some (case Option.bind (ttl_get Q now s (epoch_key (cm_sub cm))) parse_i64_str of
                  Some epoch \<Rightarrow> cm_iat cm \<le> epoch
                | None \<Rightarrow> False))"

subsection \<open>The middleware\<close>

definition TOTP_ENROLLMENT_PATHS :: "string list" where
  "TOTP_ENROLLMENT_PATHS = [''/api/auth/me'', ''/api/auth/register-key'', ''/api/auth/logout'', ''/api/auth/totp/status'',
     ''/api/auth/totp/setup'', ''/api/auth/totp/verify-setup'']"

definition reachable_before_totp_enrollment :: "string \<Rightarrow> bool" where
  "reachable_before_totp_enrollment path = List.member TOTP_ENROLLMENT_PATHS path"

record guard_errs =
  gx_user :: "string option"
  gx_perms :: "string option \<times> string option"
  gx_lookup :: "string option"
  gx_email :: "string option"
  gx_touch :: "string option"

definition user_agent_of :: "headers \<Rightarrow> string option" where
  "user_agent_of h = opt_filter (\<lambda>s. s \<noteq> []) (map_option str_trim (header_str h ''user-agent''))"

definition bearer_of :: "headers \<Rightarrow> string option" where
  "bearer_of h =
     (case extract_cookie_from_headers h ACCESS_COOKIE_NAME of
        Some t \<Rightarrow> Some t
      | None \<Rightarrow> Option.bind (header_str h ''authorization'') (\<lambda>v. strip_prefix v ''Bearer ''))"

definition live_row :: "auth_db \<Rightarrow> uuid \<Rightarrow> user_row option" where
  "live_row db u = find (\<lambda>r. us_id r = u \<and> us_deleted_at r = None) (ad_users db)"

definition CONSOLE_API_KEY_LIMIT_PER_MIN :: int where
  "CONSOLE_API_KEY_LIMIT_PER_MIN = 120"

definition auth_via_api_key ::
  "guard_env \<Rightarrow> 's redis_ttl \<Rightarrow> int \<Rightarrow> guard_errs \<Rightarrow> string \<Rightarrow> http_request \<Rightarrow> string option \<Rightarrow> auth_db \<times> 's \<Rightarrow>
   (auth_db \<times> 's) \<times> (answer + AuthUser)" where
  "auth_via_api_key G Q now errs token rq connection_ip st =
     (case st of (db, s) \<Rightarrow>
        case gx_lookup errs of
          Some e \<Rightarrow> (st, Inl (db_failure_response (ge_kind G e)))
        | None \<Rightarrow>
            (case lookup_key db (now * 1000) (ge_inactivity_days G) (ge_key_hash G token) of
               None \<Rightarrow> (st, Inl (bare 401))
             | Some row \<Rightarrow>
                 if \<not> List.member (ak_surfaces row) ''console'' then (st, Inl (bare 403))
                 else if (case ak_expires_at row of Some x \<Rightarrow> x < now * 1000 | None \<Rightarrow> False) then (st, Inl (bare 401))
                 else (case fixed_incr Q (now, now) (''rl:console_key:'' @ ak_id row) 60 s of
                         (s1, n) \<Rightarrow>
                           if (case n of Inr c \<Rightarrow> CONSOLE_API_KEY_LIMIT_PER_MIN < c | Inl _ \<Rightarrow> False) then ((db, s1), Inl (bare 429))
                           else (case ak_user_id row of
                                   None \<Rightarrow> ((db, s1), Inl (bare 403))
                                 | Some u \<Rightarrow>
                                     (case compute_perms G (gx_perms errs) (rbac_part (ad_limits db)) u of
                                        Inl e \<Rightarrow> ((db, s1), Inl (db_failure_response (ge_kind G e)))
                                      | Inr (perms, denied) \<Rightarrow>
                                          (case gx_email errs of
                                             Some e \<Rightarrow> ((db, s1), Inl (db_failure_response (ge_kind G e)))
                                           | None \<Rightarrow>
                                               (case find (\<lambda>r. us_id r = u \<and> us_is_active r \<and> us_deleted_at r = None) (ad_users db) of
                                                  None \<Rightarrow> ((db, s1), Inl (bare 401))
                                                | Some r \<Rightarrow>
                                                    ((touch_key (gx_touch errs) (now * 1000) (ak_id row) db, s1),
                                                     Inr \<lparr>au_claims = \<lparr>cm_sub = u, cm_email = us_email r, cm_exp = now div 1000 + 86400,
                                                            cm_iat = now div 1000, cm_token_type = ''access'', cm_aud = [], cm_iss = []\<rparr>,
                                                          au_ip = resolve_client_ip (ge_ip G) (hq_headers rq) connection_ip,
                                                          au_user_agent = user_agent_of (hq_headers rq),
                                                          au_permissions = perms, au_denied_permissions = denied,
                                                          au_scope_cache = []\<rparr>))))))))"

definition session_user_of ::
  "guard_env \<Rightarrow> 's redis_ttl \<Rightarrow> int \<Rightarrow> guard_errs \<Rightarrow> AuthClaims \<Rightarrow> http_request \<Rightarrow> string option \<Rightarrow> auth_db \<times> 's \<Rightarrow>
   (auth_db \<times> 's) \<times> (answer + AuthUser)" where
  "session_user_of G Q now errs cm rq connection_ip st =
     (case st of (db, s) \<Rightarrow>
        case gx_user errs of
          Some e \<Rightarrow> (st, Inl (db_failure_response (ge_kind G e)))
        | None \<Rightarrow>
            (case live_row db (cm_sub cm) of
               None \<Rightarrow> (st, Inl (bare 401))
             | Some r \<Rightarrow>
                 if \<not> us_is_active r then (st, Inl (bare 401))
                 else (case load_user_permissions_cached G Q now (gx_perms errs) (rbac_part (ad_limits db)) (cm_sub cm) s of
                         (s1, Inl e) \<Rightarrow> ((db, s1), Inl (db_failure_response (ge_kind G e)))
                       | (s1, Inr (perms, denied)) \<Rightarrow>
                           if \<not> us_totp_enabled r \<and> \<not> reachable_before_totp_enrollment (hq_path rq) \<and> ge_totp_required G
                           then ((db, s1), Inl (into_response TotpEnrollmentRequired))
                           else ((db, s1),
                                 Inr \<lparr>au_claims = cm, au_ip = resolve_client_ip (ge_ip G) (hq_headers rq) connection_ip,
                                      au_user_agent = user_agent_of (hq_headers rq), au_permissions = perms,
                                      au_denied_permissions = denied, au_scope_cache = []\<rparr>))))"

text \<open>The flag of the result says that the user came by an API key, which \<open>verify_signature\<close> lets pass unsigned.\<close>

definition require_auth ::
  "guard_env \<Rightarrow> 's redis_ttl \<Rightarrow> int \<Rightarrow> guard_errs \<Rightarrow> http_request \<Rightarrow> string option \<Rightarrow> auth_db \<times> 's \<Rightarrow>
   (auth_db \<times> 's) \<times> (answer + bool \<times> AuthUser)" where
  "require_auth G Q now errs rq connection_ip st =
     (case bearer_of (hq_headers rq) of
        None \<Rightarrow> (st, Inl (bare 401))
      | Some bearer \<Rightarrow>
          if starts_with bearer KEY_PREFIX_TW then
            map_prod id (map_sum id (Pair True)) (auth_via_api_key G Q now errs bearer rq connection_ip st)
          else (case ge_verify_token G now bearer of
                  None \<Rightarrow> (st, Inl (bare 401))
                | Some cm \<Rightarrow>
                    if cm_token_type cm \<noteq> ''access'' then (st, Inl (bare 401))
                    else if is_revoked Q now (ge_token_hash G bearer) (snd st) \<noteq> Inr False then (st, Inl (bare 401))
                    else if before_epoch Q now cm (snd st) \<noteq> Some False then (st, Inl (bare 401))
                    else map_prod id (map_sum id (Pair False)) (session_user_of G Q now errs cm rq connection_ip st)))"

text \<open>The console's routes run \<open>require_auth\<close> and then \<open>verify_signature\<close> on what it let through.\<close>

definition console_request ::
  "guard_env \<Rightarrow> ('s, 'pk, 'sig) sig_env \<Rightarrow> int \<Rightarrow> guard_errs \<Rightarrow> http_request \<Rightarrow> string option \<Rightarrow> auth_db \<times> 's \<Rightarrow>
   (auth_db \<times> 's) \<times> (answer + AuthUser \<times> sig_pass)" where
  "console_request G E now errs rq connection_ip st =
     (case require_auth G (sg_redis E) now errs rq connection_ip st of
        (st', Inl a) \<Rightarrow> (st', Inl a)
      | ((db, s), Inr (by_key, au)) \<Rightarrow>
          (case verify_signature E now by_key (Some \<lparr>su_claims = au_claims au, su_ip = au_ip au\<rparr>) rq s of
             (s', Inl status) \<Rightarrow> ((db, s'), Inl (bare status))
           | (s', Inr p) \<Rightarrow> ((db, s'), Inr (au, p))))"

subsection \<open>Sessions\<close>

definition JWT_AUDIENCE :: string where "JWT_AUDIENCE = ''thinkwatch''"

definition JWT_ISSUER :: string where "JWT_ISSUER = ''thinkwatch''"

definition token_claims :: "string \<Rightarrow> int \<Rightarrow> uuid \<Rightarrow> string \<Rightarrow> int \<Rightarrow> AuthClaims" where
  "token_claims token_type now u email ttl_secs =
     \<lparr>cm_sub = u, cm_email = email, cm_exp = now div 1000 + ttl_secs, cm_iat = now div 1000, cm_token_type = token_type,
      cm_aud = JWT_AUDIENCE, cm_iss = JWT_ISSUER\<rparr>"

definition create_access_token_with_ttl :: "(AuthClaims \<Rightarrow> string + string) \<Rightarrow> int \<Rightarrow> uuid \<Rightarrow> string \<Rightarrow> int \<Rightarrow> string + string" where
  "create_access_token_with_ttl encode now u email ttl_secs = encode (token_claims ''access'' now u email ttl_secs)"

definition create_refresh_token_with_ttl :: "(AuthClaims \<Rightarrow> string + string) \<Rightarrow> int \<Rightarrow> uuid \<Rightarrow> string \<Rightarrow> int \<Rightarrow> string + string" where
  "create_refresh_token_with_ttl encode now u email ttl_days = encode (token_claims ''refresh'' now u email (ttl_days * 86400))"

record AuthSession =
  as_permissions :: "string list"
  as_denied_permissions :: "string list"
  as_roles :: "string list"
  as_access_ttl :: int
  as_cookie_headers :: "string list"

definition issue_auth_session ::
  "guard_env \<Rightarrow> (AuthClaims \<Rightarrow> string + string) \<Rightarrow> int \<Rightarrow> int \<Rightarrow> int \<Rightarrow> string option \<times> string option \<times> string option \<Rightarrow>
   rbac_db \<Rightarrow> uuid \<Rightarrow> string \<Rightarrow> AppError + AuthSession" where
  "issue_auth_session G encode access_ttl refresh_ttl_days now errs db u email =
     (case load_user_role_names (fst errs) db u of
        Inl e \<Rightarrow> Inl (from_sqlx (ge_kind G e))
      | Inr names \<Rightarrow>
          (case compute_perms G (snd errs) db u of
             Inl e \<Rightarrow> Inl (from_sqlx (ge_kind G e))
           | Inr (perms, denied) \<Rightarrow>
               (case create_access_token_with_ttl encode now u email access_ttl of
                  Inl e \<Rightarrow> Inl (Internal e)
                | Inr access_token \<Rightarrow>
                    (case create_refresh_token_with_ttl encode now u email refresh_ttl_days of
                       Inl e \<Rightarrow> Inl (Internal e)
                     | Inr refresh_token \<Rightarrow>
                         Inr \<lparr>as_permissions = perms, as_denied_permissions = denied, as_roles = names, as_access_ttl = access_ttl,
                              as_cookie_headers = [access_token_cookie access_token access_ttl,
                                refresh_token_cookie refresh_token (refresh_ttl_days * 86400)]\<rparr>))))"

text \<open>Two attempts, at two times; \<open>down\<close> says whether Redis fails at the first and at the second.\<close>

definition invalidate_refresh_tokens ::
  "'s redis_ttl \<Rightarrow> int \<times> int \<Rightarrow> bool \<times> bool \<Rightarrow> uuid \<Rightarrow> int \<Rightarrow> 's \<Rightarrow> 's" where
  "invalidate_refresh_tokens Q ts down u refresh_ttl_days s =
     (let put = (\<lambda>now. set_ex Q now (epoch_key u) (show_int (now div 1000)) (refresh_ttl_days * 86400) s) in
      if \<not> fst down then put (fst ts)
      else if \<not> snd down then put (snd ts)
      else s)"

end
