(* ===== verification/Key_Repository.thy ===== *)
theory Key_Repository
  imports Console_Auth Mcp_Token
begin

section \<open>The table of API keys\<close>

text \<open>
  \<^verbatim>\<open>crates/server/src/services/api_key_repository.rs\<close> and what else writes to \<^verbatim>\<open>api_keys\<close>: the lifecycle sweep
  (\<^verbatim>\<open>tasks/api_key_lifecycle.rs\<close>), the removal of users (\<^verbatim>\<open>services/user_repository.rs\<close>, \<^verbatim>\<open>services/auth_repository.rs\<close>), the first
  key of an installation (\<^verbatim>\<open>services/setup_repository.rs\<close>) and the purge of \<^verbatim>\<open>tasks/data_retention.rs\<close>. A query is named after
  its function; \<open>fl\<close> says whether it fails and with what, so every use has its error branch. Times are microseconds. The
  clock arithmetic of \<^verbatim>\<open>chrono\<close> is a parameter that panics (\<open>None\<close>) out of range; rows that compare equal keep the order
  of the table, and text is ordered by its bytes.
\<close>

type_synonym failures = "string \<Rightarrow> string option"

record chrono_ops =
  ch_add_days :: "int \<Rightarrow> int \<Rightarrow> int option"
  ch_sub_days :: "int \<Rightarrow> int \<Rightarrow> int option"
  ch_add_hours :: "int \<Rightarrow> int \<Rightarrow> int option"
  ch_rfc3339 :: "int \<Rightarrow> string"

text \<open>A row of the audit log, as far as the operations on keys fill it.\<close>

record key_event =
  ke_action :: string
  ke_user_id :: "uuid option"
  ke_resource :: string
  ke_detail :: "json option"

type_synonym key_state = "auth_db \<times> key_event list"

definition query_error :: "(string \<Rightarrow> sqlx_kind) \<Rightarrow> failures \<Rightarrow> string \<Rightarrow> AppError option" where
  "query_error K fl q = map_option (\<lambda>e. from_sqlx (K e)) (fl q)"

definition answer_query :: "(string \<Rightarrow> sqlx_kind) \<Rightarrow> failures \<Rightarrow> string \<Rightarrow> 'a \<Rightarrow> AppError + 'a" where
  "answer_query K fl q x = (case query_error K fl q of Some e \<Rightarrow> Inl e | None \<Rightarrow> Inr x)"

subsection \<open>Reads\<close>

definition live_key :: "auth_db \<Rightarrow> uuid \<Rightarrow> ApiKey option" where
  "live_key db i = find (\<lambda>k. ak_id k = i \<and> ak_deleted_at k = None) (ad_keys db)"

text \<open>The owner is read into a type without null, so a key that has none is a decoding error.\<close>

definition owner_of_live :: "(string \<Rightarrow> sqlx_kind) \<Rightarrow> failures \<Rightarrow> auth_db \<Rightarrow> uuid \<Rightarrow> AppError + uuid option" where
  "owner_of_live K fl db i =
     (case query_error K fl ''owner_of_live'' of
        Some e \<Rightarrow> Inl e
      | None \<Rightarrow>
          (case live_key db i of
             None \<Rightarrow> Inr None
           | Some k \<Rightarrow> (case ak_user_id k of None \<Rightarrow> Inl (from_sqlx OtherDb) | Some u \<Rightarrow> Inr (Some u))))"

definition find_live :: "(string \<Rightarrow> sqlx_kind) \<Rightarrow> failures \<Rightarrow> auth_db \<Rightarrow> uuid \<Rightarrow> AppError + ApiKey option" where
  "find_live K fl db i = answer_query K fl ''find_live'' (live_key db i)"

definition mcp_credential_exists ::
  "(string \<Rightarrow> sqlx_kind) \<Rightarrow> failures \<Rightarrow> cred_db \<Rightarrow> uuid \<Rightarrow> uuid \<Rightarrow> string \<Rightarrow> AppError + bool" where
  "mcp_credential_exists K fl cdb server user label =
     answer_query K fl ''mcp_credential_exists''
       (list_ex (\<lambda>c. uc_server c = server \<and> uc_user c = user \<and> uc_label c = label) (cd_user cdb))"

definition visibility_clause :: "bool \<Rightarrow> ApiKey \<Rightarrow> bool" where
  "visibility_clause archived k =
     (if archived then
        ak_deleted_at k \<noteq> None \<and>
        (case ak_disabled_reason k of Some r \<Rightarrow> r = ''revoked'' \<or> starts_with r ''force_revoked:'' | None \<Rightarrow> False)
      else ak_deleted_at k = None)"

definition page_of :: "int \<Rightarrow> int \<Rightarrow> ApiKey list \<Rightarrow> ApiKey list" where
  "page_of limit offset ks = take (nat limit) (drop (nat offset) (sort_key (\<lambda>k. - ak_created_at k) ks))"

definition count_all :: "(string \<Rightarrow> sqlx_kind) \<Rightarrow> failures \<Rightarrow> auth_db \<Rightarrow> bool \<Rightarrow> AppError + int" where
  "count_all K fl db archived = answer_query K fl ''count_all'' (int (length (filter (visibility_clause archived) (ad_keys db))))"

definition list_all_page ::
  "(string \<Rightarrow> sqlx_kind) \<Rightarrow> failures \<Rightarrow> auth_db \<Rightarrow> bool \<Rightarrow> int \<Rightarrow> int \<Rightarrow> AppError + ApiKey list" where
  "list_all_page K fl db archived limit offset =
     answer_query K fl ''list_all_page'' (page_of limit offset (filter (visibility_clause archived) (ad_keys db)))"

definition of_user :: "bool \<Rightarrow> uuid \<Rightarrow> ApiKey \<Rightarrow> bool" where
  "of_user archived user k \<longleftrightarrow> visibility_clause archived k \<and> ak_user_id k = Some user"

definition count_for_user :: "(string \<Rightarrow> sqlx_kind) \<Rightarrow> failures \<Rightarrow> auth_db \<Rightarrow> bool \<Rightarrow> uuid \<Rightarrow> AppError + int" where
  "count_for_user K fl db archived user =
     answer_query K fl ''count_for_user'' (int (length (filter (of_user archived user) (ad_keys db))))"

definition list_for_user_page ::
  "(string \<Rightarrow> sqlx_kind) \<Rightarrow> failures \<Rightarrow> auth_db \<Rightarrow> bool \<Rightarrow> uuid \<Rightarrow> int \<Rightarrow> int \<Rightarrow> AppError + ApiKey list" where
  "list_for_user_page K fl db archived user limit offset =
     answer_query K fl ''list_for_user_page'' (page_of limit offset (filter (of_user archived user) (ad_keys db)))"

definition expiring :: "int \<Rightarrow> ApiKey \<Rightarrow> bool" where
  "expiring threshold k \<longleftrightarrow>
     ak_is_active k \<and> ak_deleted_at k = None \<and> (case ak_expires_at k of Some x \<Rightarrow> x \<le> threshold | None \<Rightarrow> False)"

definition list_expiring_all :: "(string \<Rightarrow> sqlx_kind) \<Rightarrow> failures \<Rightarrow> auth_db \<Rightarrow> int \<Rightarrow> AppError + ApiKey list" where
  "list_expiring_all K fl db threshold =
     answer_query K fl ''list_expiring_all'' (sort_key (\<lambda>k. unwrap_or (ak_expires_at k) 0) (filter (expiring threshold) (ad_keys db)))"

definition list_expiring_for_user :: "(string \<Rightarrow> sqlx_kind) \<Rightarrow> failures \<Rightarrow> auth_db \<Rightarrow> int \<Rightarrow> uuid \<Rightarrow> AppError + ApiKey list" where
  "list_expiring_for_user K fl db threshold user =
     answer_query K fl ''list_expiring_for_user''
       (sort_key (\<lambda>k. unwrap_or (ak_expires_at k) 0) (filter (\<lambda>k. expiring threshold k \<and> ak_user_id k = Some user) (ad_keys db)))"

definition cost_centers :: "(string \<Rightarrow> sqlx_kind) \<Rightarrow> failures \<Rightarrow> auth_db \<Rightarrow> AppError + string list" where
  "cost_centers K fl db =
     answer_query K fl ''cost_centers'' (btree (List.map_filter ak_cost_center (filter (\<lambda>k. ak_deleted_at k = None) (ad_keys db))))"

subsection \<open>Writes\<close>

definition map_keys :: "(ApiKey \<Rightarrow> bool) \<Rightarrow> (ApiKey \<Rightarrow> ApiKey) \<Rightarrow> auth_db \<Rightarrow> auth_db" where
  "map_keys P f db = db\<lparr>ad_keys := map (\<lambda>k. if P k then f k else k) (ad_keys db)\<rparr>"

definition rows_affected :: "(ApiKey \<Rightarrow> bool) \<Rightarrow> auth_db \<Rightarrow> int" where
  "rows_affected P db = int (length (filter P (ad_keys db)))"

record NewApiKey =
  nk_id :: uuid
  nk_key_prefix :: string
  nk_key_hash :: string
  nk_name :: string
  nk_user_id :: uuid
  nk_surfaces :: "string list"
  nk_allowed_models :: "string list option"
  nk_allowed_mcp_tools :: "string list option"
  nk_mcp_account_overrides :: json
  nk_expires_at :: "int option"
  nk_cost_center :: "string option"
  nk_rotation_period_days :: "int option"

text \<open>The unique index on the hash, and the checks on the two periods.\<close>

definition row_error :: "auth_db \<Rightarrow> ApiKey \<Rightarrow> AppError option" where
  "row_error db k =
     (if (case ak_rotation_period_days k of Some d \<Rightarrow> d \<le> 0 | None \<Rightarrow> False) \<or>
         (case ak_inactivity_timeout_days k of Some d \<Rightarrow> d < 0 | None \<Rightarrow> False) then Some (from_sqlx OtherDb)
      else if list_ex (\<lambda>k'. ak_id k' = ak_id k \<or> ak_key_hash k' = ak_key_hash k) (ad_keys db) then Some (from_sqlx UniqueViolation)
      else None)"

definition add_key :: "auth_db \<Rightarrow> ApiKey \<Rightarrow> AppError + auth_db" where
  "add_key db k = (case row_error db k of Some e \<Rightarrow> Inl e | None \<Rightarrow> Inr (db\<lparr>ad_keys := ad_keys db @ [k]\<rparr>))"

definition new_row :: "int \<Rightarrow> NewApiKey \<Rightarrow> ApiKey" where
  "new_row now n = \<lparr>ak_id = nk_id n, ak_key_prefix = nk_key_prefix n, ak_key_hash = nk_key_hash n, ak_name = nk_name n,
     ak_user_id = Some (nk_user_id n), ak_surfaces = nk_surfaces n, ak_allowed_models = nk_allowed_models n,
     ak_allowed_mcp_tools = nk_allowed_mcp_tools n, ak_mcp_account_overrides = nk_mcp_account_overrides n,
     ak_expires_at = nk_expires_at n, ak_is_active = True, ak_last_used_at = None, ak_created_at = now, ak_deleted_at = None,
     ak_rotation_period_days = nk_rotation_period_days n, ak_rotated_from_id = None, ak_grace_period_ends_at = None,
     ak_inactivity_timeout_days = None, ak_disabled_reason = None, ak_last_rotation_at = None, ak_lineage_id = nk_id n,
     ak_cost_center = nk_cost_center n, ak_last_expiry_warning_days = None\<rparr>"

definition insert_key :: "(string \<Rightarrow> sqlx_kind) \<Rightarrow> failures \<Rightarrow> int \<Rightarrow> NewApiKey \<Rightarrow> auth_db \<Rightarrow> AppError + auth_db \<times> ApiKey" where
  "insert_key K fl now n db =
     (case query_error K fl ''insert'' of
        Some e \<Rightarrow> Inl e
      | None \<Rightarrow> map_sum id (\<lambda>db'. (db', new_row now n)) (add_key db (new_row now n)))"

definition is_live :: "uuid \<Rightarrow> ApiKey \<Rightarrow> bool" where
  "is_live i k \<longleftrightarrow> ak_id k = i \<and> ak_deleted_at k = None"

definition archive :: "string \<Rightarrow> int \<Rightarrow> ApiKey \<Rightarrow> ApiKey" where
  "archive reason now k =
     k\<lparr>ak_is_active := False, ak_grace_period_ends_at := None, ak_disabled_reason := Some reason, ak_deleted_at := Some now\<rparr>"

definition force_revoke ::
  "(string \<Rightarrow> sqlx_kind) \<Rightarrow> failures \<Rightarrow> int \<Rightarrow> uuid \<Rightarrow> string \<Rightarrow> auth_db \<Rightarrow> AppError + auth_db \<times> int" where
  "force_revoke K fl now i reason db =
     answer_query K fl ''force_revoke'' (map_keys (is_live i) (archive reason now) db, rows_affected (is_live i) db)"

definition revoke :: "(string \<Rightarrow> sqlx_kind) \<Rightarrow> failures \<Rightarrow> int \<Rightarrow> uuid \<Rightarrow> auth_db \<Rightarrow> AppError + auth_db \<times> int" where
  "revoke K fl now i db =
     answer_query K fl ''revoke'' (map_keys (is_live i) (archive ''revoked'' now) db, rows_affected (is_live i) db)"

record ApiKeyPatch =
  pt_allowed_models_set :: bool
  pt_allowed_models :: "string list option"
  pt_allowed_mcp_tools_set :: bool
  pt_allowed_mcp_tools :: "string list option"
  pt_surfaces :: "string list option"
  pt_expires_at :: "int option"
  pt_rotation_period_days :: "int option"
  pt_inactivity_timeout_days :: "int option"
  pt_cost_center_set :: bool
  pt_cost_center :: "string option"
  pt_mcp_account_overrides_set :: bool
  pt_mcp_account_overrides :: json
  pt_expiry_extended :: bool

definition patched :: "ApiKeyPatch \<Rightarrow> ApiKey \<Rightarrow> ApiKey" where
  "patched p k = k\<lparr>
     ak_allowed_models := if pt_allowed_models_set p then pt_allowed_models p else ak_allowed_models k,
     ak_allowed_mcp_tools := if pt_allowed_mcp_tools_set p then pt_allowed_mcp_tools p else ak_allowed_mcp_tools k,
     ak_surfaces := unwrap_or (pt_surfaces p) (ak_surfaces k),
     ak_expires_at := pt_expires_at p,
     ak_rotation_period_days := or_else (pt_rotation_period_days p) (ak_rotation_period_days k),
     ak_inactivity_timeout_days := or_else (pt_inactivity_timeout_days p) (ak_inactivity_timeout_days k),
     ak_cost_center := if pt_cost_center_set p then pt_cost_center p else ak_cost_center k,
     ak_mcp_account_overrides := if pt_mcp_account_overrides_set p then pt_mcp_account_overrides p else ak_mcp_account_overrides k,
     ak_last_expiry_warning_days := if pt_expiry_extended p then None else ak_last_expiry_warning_days k\<rparr>"

text \<open>\<^verbatim>\<open>fetch_one\<close> fails when there is no such row, and a row the checks refuse fails the statement.\<close>

definition update_row :: "(string \<Rightarrow> sqlx_kind) \<Rightarrow> failures \<Rightarrow> uuid \<Rightarrow> ApiKeyPatch \<Rightarrow> auth_db \<Rightarrow> AppError + auth_db \<times> ApiKey" where
  "update_row K fl i p db =
     (case query_error K fl ''update'' of
        Some e \<Rightarrow> Inl e
      | None \<Rightarrow>
          (case find (\<lambda>k. ak_id k = i) (ad_keys db) of
             None \<Rightarrow> Inl (from_sqlx OtherDb)
           | Some k \<Rightarrow>
               (case row_error (db\<lparr>ad_keys := []\<rparr>) (patched p k) of
                  Some e \<Rightarrow> Inl e
                | None \<Rightarrow> Inr (map_keys (\<lambda>k. ak_id k = i) (patched p) db, patched p k))))"

definition successor :: "int \<Rightarrow> uuid \<Rightarrow> string \<Rightarrow> string \<Rightarrow> ApiKey \<Rightarrow> ApiKey" where
  "successor now new_id key_prefix key_hash old = \<lparr>ak_id = new_id, ak_key_prefix = key_prefix, ak_key_hash = key_hash,
     ak_name = ak_name old, ak_user_id = ak_user_id old, ak_surfaces = ak_surfaces old, ak_allowed_models = ak_allowed_models old,
     ak_allowed_mcp_tools = ak_allowed_mcp_tools old, ak_mcp_account_overrides = JObject [], ak_expires_at = ak_expires_at old,
     ak_is_active = True, ak_last_used_at = None, ak_created_at = now, ak_deleted_at = None,
     ak_rotation_period_days = ak_rotation_period_days old, ak_rotated_from_id = Some (ak_id old), ak_grace_period_ends_at = None,
     ak_inactivity_timeout_days = ak_inactivity_timeout_days old, ak_disabled_reason = None, ak_last_rotation_at = Some now,
     ak_lineage_id = ak_lineage_id old, ak_cost_center = ak_cost_center old, ak_last_expiry_warning_days = None\<rparr>"

definition rotate ::
  "(string \<Rightarrow> sqlx_kind) \<Rightarrow> failures \<Rightarrow> int \<Rightarrow> uuid \<Rightarrow> ApiKey \<Rightarrow> string \<Rightarrow> string \<Rightarrow> int \<Rightarrow> auth_db \<Rightarrow> AppError + auth_db \<times> ApiKey" where
  "rotate K fl now new_id old key_prefix key_hash grace db =
     (case query_error K fl ''rotate'' of
        Some e \<Rightarrow> Inl e
      | None \<Rightarrow>
          (case add_key db (successor now new_id key_prefix key_hash old) of
             Inl e \<Rightarrow> Inl e
           | Inr db' \<Rightarrow>
               Inr (map_keys (\<lambda>k. ak_id k = ak_id old)
                      (\<lambda>k. k\<lparr>ak_grace_period_ends_at := Some grace, ak_disabled_reason := Some ''rotated''\<rparr>) db',
                    successor now new_id key_prefix key_hash old)))"

subsection \<open>The lifecycle sweep\<close>

definition key_resource :: "uuid \<Rightarrow> string" where
  "key_resource i = ''api_key:'' @ i"

definition emit_disable_audits :: "string \<Rightarrow> ApiKey list \<Rightarrow> string \<Rightarrow> key_event list" where
  "emit_disable_audits act rows reason =
     map (\<lambda>k. \<lparr>ke_action = act, ke_user_id = ak_user_id k, ke_resource = key_resource (ak_id k),
       ke_detail = Some (JObject [(''api_key_id'', JString (ak_id k)), (''disabled_reason'', JString reason)])\<rparr>) rows"

text \<open>One statement of the sweep: an update, and an audit row for each row it returns.\<close>

definition sweep_update :: "(ApiKey \<Rightarrow> bool) \<Rightarrow> (ApiKey \<Rightarrow> ApiKey) \<Rightarrow> string \<Rightarrow> string \<Rightarrow> key_state \<Rightarrow> key_state" where
  "sweep_update P f act reason st =
     (map_keys P f (fst st), snd st @ emit_disable_audits act (filter P (ad_keys (fst st))) reason)"

definition is_expired :: "int \<Rightarrow> ApiKey \<Rightarrow> bool" where
  "is_expired now k \<longleftrightarrow>
     ak_is_active k \<and> (case ak_expires_at k of Some x \<Rightarrow> x < now | None \<Rightarrow> False) \<and> ak_disabled_reason k = None"

definition is_inactive_global :: "int \<Rightarrow> ApiKey \<Rightarrow> bool" where
  "is_inactive_global threshold k \<longleftrightarrow>
     ak_is_active k \<and> (case ak_last_used_at k of Some t \<Rightarrow> t < threshold | None \<Rightarrow> False) \<and> ak_disabled_reason k = None \<and>
     (ak_inactivity_timeout_days k = None \<or> ak_inactivity_timeout_days k = Some 0)"

definition is_inactive_per_key :: "int \<Rightarrow> ApiKey \<Rightarrow> bool" where
  "is_inactive_per_key db_now k \<longleftrightarrow>
     ak_is_active k \<and>
     (case (ak_inactivity_timeout_days k, ak_last_used_at k) of
        (Some d, Some t) \<Rightarrow> 0 < d \<and> t < db_now - d * DAY
      | _ \<Rightarrow> False) \<and>
     ak_disabled_reason k = None"

definition is_past_grace :: "int \<Rightarrow> ApiKey \<Rightarrow> bool" where
  "is_past_grace now k \<longleftrightarrow> ak_is_active k \<and> (case ak_grace_period_ends_at k of Some g \<Rightarrow> g < now | None \<Rightarrow> False)"

definition disable :: "string \<Rightarrow> ApiKey \<Rightarrow> ApiKey" where
  "disable reason k = k\<lparr>ak_is_active := False, ak_disabled_reason := Some reason\<rparr>"

definition warning_bucket :: "int \<Rightarrow> ApiKey \<Rightarrow> int option" where
  "warning_bucket db_now k =
     (if ak_is_active k \<and> ak_deleted_at k = None \<and> ak_grace_period_ends_at k = None then
        (case ak_expires_at k of
           None \<Rightarrow> None
         | Some x \<Rightarrow>
             if \<not> db_now < x then None
             else if x \<le> db_now + DAY then Some 1
             else if x \<le> db_now + 3 * DAY then Some 3
             else if x \<le> db_now + 7 * DAY then Some 7
             else None)
      else None)"

definition due_warning :: "int \<Rightarrow> ApiKey \<Rightarrow> int option" where
  "due_warning db_now k =
     (case warning_bucket db_now k of
        None \<Rightarrow> None
      | Some b \<Rightarrow>
          if (case ak_last_expiry_warning_days k of None \<Rightarrow> True | Some w \<Rightarrow> b < w) then Some b else None)"

definition warning_event :: "chrono_ops \<Rightarrow> ApiKey \<Rightarrow> int \<Rightarrow> key_event" where
  "warning_event C k b =
     \<lparr>ke_action = ''key.expiry_warning'', ke_user_id = ak_user_id k, ke_resource = key_resource (ak_id k),
      ke_detail = Some (JObject [(''api_key_id'', JString (ak_id k)),
        (''expires_at'', JString (ch_rfc3339 C (unwrap_or (ak_expires_at k) 0))), (''days_remaining_bucket'', JNumber (show_int b))])\<rparr>"

definition sweep_warnings :: "chrono_ops \<Rightarrow> int \<Rightarrow> key_state \<Rightarrow> key_state" where
  "sweep_warnings C db_now st =
     (map_keys (\<lambda>k. due_warning db_now k \<noteq> None) (\<lambda>k. k\<lparr>ak_last_expiry_warning_days := due_warning db_now k\<rparr>) (fst st),
      snd st @ List.map_filter (\<lambda>k. map_option (warning_event C k) (due_warning db_now k)) (ad_keys (fst st)))"

text \<open>
  A pass of the sweep. \<open>now\<close> is its own reading of the clock, the times of the two statements that use the database's
  are \<open>fst ts\<close> and \<open>snd ts\<close>. A failing statement ends the pass; what was done before it stays.
\<close>

definition run_lifecycle_check ::
  "chrono_ops \<Rightarrow> failures \<Rightarrow> int \<Rightarrow> int \<Rightarrow> int \<times> int \<Rightarrow> key_state \<Rightarrow> (key_state \<times> (string + unit)) option" where
  "run_lifecycle_check C fl global_inactivity_days now ts st =
     (case fl ''expired'' of Some e \<Rightarrow> Some (st, Inl e) | None \<Rightarrow>
      let st1 = sweep_update (is_expired now) (disable ''expired'') ''api_key.disable'' ''expired'' st in
      case (if global_inactivity_days > 0 then map_option Some (ch_sub_days C now global_inactivity_days) else Some None) of
        None \<Rightarrow> None
      | Some threshold \<Rightarrow>
          if threshold \<noteq> None \<and> fl ''inactive'' \<noteq> None then Some (st1, Inl (unwrap_or (fl ''inactive'') []))
          else
            let st2 = (case threshold of
                         Some t \<Rightarrow> sweep_update (is_inactive_global t) (disable ''inactive'') ''api_key.disable'' ''inactive_global'' st1
                       | None \<Rightarrow> st1) in
            case fl ''per_key'' of Some e \<Rightarrow> Some (st2, Inl e) | None \<Rightarrow>
            let st3 = sweep_update (is_inactive_per_key (fst ts)) (disable ''inactive'') ''api_key.disable'' ''inactive_per_key'' st2 in
            case fl ''grace'' of Some e \<Rightarrow> Some (st3, Inl e) | None \<Rightarrow>
            let st4 = sweep_update (is_past_grace now) (\<lambda>k. k\<lparr>ak_is_active := False\<rparr>) ''api_key.revoke'' ''grace_period_expired'' st3 in
            case fl ''warnings'' of Some e \<Rightarrow> Some (st4, Inl e) | None \<Rightarrow> Some (sweep_warnings C (snd ts) st4, Inr ()))"

subsection \<open>Users that go\<close>

definition drop_key :: "string \<Rightarrow> int \<Rightarrow> ApiKey \<Rightarrow> ApiKey" where
  "drop_key reason now k = k\<lparr>ak_is_active := False, ak_deleted_at := Some now, ak_disabled_reason := Some reason\<rparr>"

definition live_of :: "uuid \<Rightarrow> ApiKey \<Rightarrow> bool" where
  "live_of user k \<longleftrightarrow> ak_user_id k = Some user \<and> ak_deleted_at k = None"

definition disable_api_keys_of_disabled_user :: "int \<Rightarrow> uuid \<Rightarrow> auth_db \<Rightarrow> auth_db" where
  "disable_api_keys_of_disabled_user now user = map_keys (live_of user) (drop_key ''user_disabled'' now)"

definition disable_api_keys_of_deleted_user :: "int \<Rightarrow> uuid \<Rightarrow> auth_db \<Rightarrow> auth_db" where
  "disable_api_keys_of_deleted_user now user = map_keys (live_of user) (drop_key ''user_deleted'' now)"

definition map_users :: "(user_row \<Rightarrow> bool) \<Rightarrow> (user_row \<Rightarrow> user_row) \<Rightarrow> auth_db \<Rightarrow> auth_db" where
  "map_users P f db = db\<lparr>ad_users := map (\<lambda>r. if P r then f r else r) (ad_users db)\<rparr>"

definition soft_delete :: "int \<Rightarrow> uuid \<Rightarrow> auth_db \<Rightarrow> auth_db \<times> int" where
  "soft_delete now user db =
     (let P = (\<lambda>r. us_id r = user \<and> us_deleted_at r = None) in
      (map_users P (\<lambda>r. r\<lparr>us_deleted_at := Some now, us_is_active := False, us_updated_at := now\<rparr>) db, int (length (filter P (ad_users db)))))"

definition soft_delete_account :: "int \<Rightarrow> uuid \<Rightarrow> auth_db \<Rightarrow> auth_db" where
  "soft_delete_account now user db =
     map_users (\<lambda>r. us_id r = user) (\<lambda>r. r\<lparr>us_is_active := False, us_deleted_at := Some now\<rparr>)
       (map_keys (\<lambda>k. ak_user_id k = Some user) (drop_key ''account_deleted'' now) db)"

subsection \<open>The purge\<close>

definition gone :: "int \<Rightarrow> int option \<Rightarrow> bool" where
  "gone cutoff deleted_at = (case deleted_at of Some t \<Rightarrow> t < cutoff | None \<Rightarrow> False)"

text \<open>Removing a user row takes its role assignments and memberships with it and leaves its keys without an owner.\<close>

definition purge_users :: "int \<Rightarrow> auth_db \<Rightarrow> auth_db" where
  "purge_users cutoff db =
     (let out = map us_id (filter (\<lambda>r. gone cutoff (us_deleted_at r)) (ad_users db));
          rb = rbac_part (ad_limits db) in
      db\<lparr>ad_users := filter (\<lambda>r. \<not> gone cutoff (us_deleted_at r)) (ad_users db),
         ad_keys := map (\<lambda>k. if (case ak_user_id k of Some u \<Rightarrow> List.member out u | None \<Rightarrow> False) then k\<lparr>ak_user_id := None\<rparr> else k) (ad_keys db),
         ad_limits := (ad_limits db)\<lparr>rbac_part := rb\<lparr>
           role_assignments := filter (\<lambda>a. \<not> List.member out (ra_user_id a)) (role_assignments rb),
           team_members := filter (\<lambda>(t, u). \<not> List.member out u) (team_members rb)\<rparr>\<rparr>\<rparr>)"

definition purge_keys :: "int \<Rightarrow> auth_db \<Rightarrow> auth_db" where
  "purge_keys cutoff db =
     (let out = map ak_id (filter (\<lambda>k. gone cutoff (ak_deleted_at k)) (ad_keys db)) in
      db\<lparr>ad_keys := map (\<lambda>k. if (case ak_rotated_from_id k of Some i \<Rightarrow> List.member out i | None \<Rightarrow> False)
                              then k\<lparr>ak_rotated_from_id := None\<rparr> else k)
           (filter (\<lambda>k. \<not> gone cutoff (ak_deleted_at k)) (ad_keys db))\<rparr>)"

definition orphaned :: "auth_db \<Rightarrow> string \<Rightarrow> uuid \<Rightarrow> bool" where
  "orphaned db kind i \<longleftrightarrow>
     (kind = ''user'' \<and> \<not> list_ex (\<lambda>u. us_id u = i) (ad_users db)) \<or>
     (kind = ''api_key_lineage'' \<and> \<not> list_ex (\<lambda>k. ak_lineage_id k = i) (ad_keys db))"

definition purge_orphans :: "auth_db \<Rightarrow> auth_db" where
  "purge_orphans db =
     db\<lparr>ad_limits := (ad_limits db)\<lparr>
       rate_limit_rules := filter (\<lambda>r. \<not> orphaned db (rw_subject_kind r) (rw_subject_id r)) (rate_limit_rules (ad_limits db)),
       budget_caps := filter (\<lambda>r. \<not> orphaned db (cw_subject_kind r) (cw_subject_id r)) (budget_caps (ad_limits db))\<rparr>\<rparr>"

end
