(* ===== verification/Key_Handlers.thy ===== *)
theory Key_Handlers
  imports Key_Repository
begin

section \<open>Creating, changing, rotating and revoking keys\<close>

text \<open>
  \<^verbatim>\<open>crates/server/src/handlers/api_keys.rs\<close> and \<^verbatim>\<open>generate_api_key\<close> of \<^verbatim>\<open>crates/auth/src/api_key.rs\<close>. A handler gets the user that
  \<open>require_auth\<close> let through, works on the tables and the audit log, and returns a value or an error; \<open>None\<close> in its place is
  a panic of the clock arithmetic. Times of the process and of the database are one reading here. The random bytes and ids of
  new keys, and the parser of UUIDs, are arguments.
\<close>

definition and_then :: "'e + 'a \<Rightarrow> ('a \<Rightarrow> 'e + 'b) \<Rightarrow> 'e + 'b" where
  "and_then x f = (case x of Inl e \<Rightarrow> Inl e | Inr v \<Rightarrow> f v)"

lemma and_then_simps [simp]: "and_then (Inl e) f = Inl e" "and_then (Inr v) f = f v"
  by (simp_all add: and_then_def)

lemma and_then_Inr: "and_then x f = Inr y \<longleftrightarrow> (\<exists>v. x = Inr v \<and> f v = Inr y)"
  by (cases x) auto

record key_api =
  ka_guard :: guard_env
  ka_chrono :: chrono_ops
  ka_parse_uuid :: "string \<Rightarrow> uuid option"
  ka_default_expiry_days :: int
  ka_rotation_period_days :: int
  ka_grace_hours :: int

subsection \<open>Characters\<close>

text \<open>\<^verbatim>\<open>chars().count()\<close> and \<^verbatim>\<open>chars().take(n)\<close> of UTF-8 text: a character starts at each byte that does not continue one.\<close>

definition char_start :: "char \<Rightarrow> bool" where
  "char_start c \<longleftrightarrow> \<not> ((128::nat) \<le> of_char c \<and> of_char c < (192::nat))"

definition chars_count :: "string \<Rightarrow> nat" where
  "chars_count s = length (filter char_start s)"

fun chars_take :: "nat \<Rightarrow> string \<Rightarrow> string" where
  "chars_take n [] = []"
| "chars_take n (c # cs) =
     (if char_start c then (case n of 0 \<Rightarrow> [] | Suc m \<Rightarrow> c # chars_take m cs) else c # chars_take n cs)"

subsection \<open>New keys\<close>

definition KEY_LENGTH :: nat where "KEY_LENGTH = 48"

record GeneratedApiKey =
  gk_plaintext :: string
  gk_prefix :: string
  gk_hash :: string

definition generate_api_key :: "(string \<Rightarrow> string) \<Rightarrow> string \<Rightarrow> GeneratedApiKey" where
  "generate_api_key hash_api_key random_bytes =
     (let plaintext = KEY_PREFIX_TW @ hex_encode random_bytes in
      \<lparr>gk_plaintext = plaintext, gk_prefix = take 15 plaintext, gk_hash = hash_api_key plaintext\<rparr>)"

subsection \<open>Who may touch a key\<close>

definition caller_has_global :: "key_api \<Rightarrow> failures \<Rightarrow> rbac_db \<Rightarrow> AuthUser \<Rightarrow> string \<Rightarrow> AppError + bool" where
  "caller_has_global A fl db au perm =
     map_sum id (\<lambda>teams. teams = None)
       (snd (owned_team_scope_for_perm (ge_sql (ka_guard A)) (fl ''global_scope'', fl ''team_scope'') db au perm))"

definition caller_is_admin_tier :: "AuthUser \<Rightarrow> bool" where
  "caller_is_admin_tier au \<longleftrightarrow>
     \<not> List.member (au_denied_permissions au) ''api_keys:admin'' \<and> List.member (au_permissions au) ''api_keys:admin''"

definition assert_owner_or_admin :: "key_api \<Rightarrow> failures \<Rightarrow> auth_db \<Rightarrow> AuthUser \<Rightarrow> uuid \<Rightarrow> AppError + unit" where
  "assert_owner_or_admin A fl db au key_id =
     and_then (owner_of_live (ge_kind (ka_guard A)) fl db key_id) (\<lambda>found.
       case found of
         None \<Rightarrow> Inl (NotFound ''API key not found'')
       | Some own \<Rightarrow>
           if cm_sub (au_claims au) = own then Inr ()
           else if \<not> List.member (au_denied_permissions au) ''api_keys:admin'' \<and> List.member (au_permissions au) ''api_keys:admin'' then Inr ()
           else Inl (Forbidden (''api_keys:admin required to operate on another user'' @ [CHR 0x27] @ ''s key'')))"

subsection \<open>Allow lists within the roles\<close>

definition first_uncovered_model :: "string list \<Rightarrow> string list \<Rightarrow> string option" where
  "first_uncovered_model requested given =
     find (\<lambda>m. \<not> list_ex (\<lambda>g. m = g \<or> starts_with m g) given) requested"

definition mcp_pattern_covered :: "string \<Rightarrow> string list \<Rightarrow> bool" where
  "mcp_pattern_covered requested given =
     (if List.member given ''*'' then True
      else if List.member given requested then True
      else \<not> ends_with requested ''__*'' \<and>
           (case split_once requested ''__'' of Some (server, _) \<Rightarrow> List.member given (server @ ''__*'') | None \<Rightarrow> False))"

definition first_uncovered_mcp_tool :: "string list \<Rightarrow> string list \<Rightarrow> string option" where
  "first_uncovered_mcp_tool requested given = find (\<lambda>p. \<not> mcp_pattern_covered p given) requested"

definition not_granted :: "string \<Rightarrow> string \<Rightarrow> AppError" where
  "not_granted what bad = BadRequest (what @ '' entry '' @ [CHR 0x27] @ bad @ [CHR 0x27] @ '' is not granted by your roles'')"

definition role_limits_of :: "key_api \<Rightarrow> failures \<Rightarrow> auth_db \<Rightarrow> uuid \<Rightarrow> AppError + UserResourceLimits" where
  "role_limits_of A fl db user =
     (case compute_user_resource_limits (ge_from_doc (ka_guard A)) (fl ''role_limits'') (rbac_part (ad_limits db)) user of
        Inl e \<Rightarrow> Inl (Internal (''Failed to load role limits: '' @ e))
      | Inr l \<Rightarrow> Inr l)"

definition within :: "string \<Rightarrow> (string list \<Rightarrow> string list \<Rightarrow> string option) \<Rightarrow> string list option \<Rightarrow> string list option \<Rightarrow> AppError + unit" where
  "within what uncovered requested given =
     (case (requested, given) of
        (Some req, Some g) \<Rightarrow> (case uncovered req g of Some bad \<Rightarrow> Inl (not_granted what bad) | None \<Rightarrow> Inr ())
      | _ \<Rightarrow> Inr ())"

definition validate_allowlists_within_role ::
  "key_api \<Rightarrow> failures \<Rightarrow> auth_db \<Rightarrow> uuid \<Rightarrow> string list option \<Rightarrow> string list option \<Rightarrow> AppError + unit" where
  "validate_allowlists_within_role A fl db user requested_models requested_mcp_tools =
     (if requested_models = None \<and> requested_mcp_tools = None then Inr ()
      else and_then (role_limits_of A fl db user) (\<lambda>limits.
             and_then (within ''allowed_models'' first_uncovered_model requested_models (allowed_models limits)) (\<lambda>_.
               within ''allowed_mcp_tools'' first_uncovered_mcp_tool requested_mcp_tools (allowed_mcp_tools limits))))"

fun check_overrides ::
  "key_api \<Rightarrow> failures \<Rightarrow> cred_db \<Rightarrow> uuid \<Rightarrow> (string \<times> json) list \<Rightarrow> AppError + unit" where
  "check_overrides A fl cdb user [] = Inr ()"
| "check_overrides A fl cdb user ((server_id_str, label_val) # rest) =
     (case ka_parse_uuid A server_id_str of
        None \<Rightarrow> Inl (BadRequest (''mcp_account_overrides key '' @ [CHR 0x27] @ server_id_str @ [CHR 0x27] @ '' is not a UUID''))
      | Some server_id \<Rightarrow>
          (case json_as_str label_val of
             None \<Rightarrow> Inl (BadRequest ''mcp_account_overrides values must be strings'')
           | Some label \<Rightarrow>
               and_then (mcp_credential_exists (ge_kind (ka_guard A)) fl cdb server_id user label) (\<lambda>there.
                 if \<not> there then
                   Inl (BadRequest (''mcp_account_overrides points at '' @ [CHR 0x27] @ label @ [CHR 0x27] @ '' for server '' @
                     server_id_str @ '', but you have no credential with that label''))
                 else check_overrides A fl cdb user rest)))"

definition validate_mcp_account_overrides ::
  "key_api \<Rightarrow> failures \<Rightarrow> cred_db \<Rightarrow> uuid \<Rightarrow> json option \<Rightarrow> AppError + json" where
  "validate_mcp_account_overrides A fl cdb user ov =
     (case ov of
        None \<Rightarrow> Inr (JObject [])
      | Some (JObject m) \<Rightarrow>
          if m = [] then Inr (JObject []) else map_sum id (\<lambda>_. JObject m) (check_overrides A fl cdb user m)
      | Some JNull \<Rightarrow> Inr (JObject [])
      | Some _ \<Rightarrow> Inl (BadRequest ''mcp_account_overrides must be a JSON object''))"

subsection \<open>Lists\<close>

record ListKeysParams =
  lp_page :: "nat option"
  lp_per_page :: "nat option"
  lp_archived :: bool

definition per_page :: "ListKeysParams \<Rightarrow> nat" where
  "per_page p = min (unwrap_or (lp_per_page p) 20) 100"

text \<open>The product is taken in \<open>u32\<close>, which wraps in a release build.\<close>

definition page_offset :: "ListKeysParams \<Rightarrow> nat" where
  "page_offset p = (max (unwrap_or (lp_page p) 1) 1 - 1) * per_page p mod 2 ^ 32"

definition list_keys ::
  "key_api \<Rightarrow> failures \<Rightarrow> AuthUser \<Rightarrow> ListKeysParams \<Rightarrow> auth_db \<Rightarrow> AppError + (int \<times> ApiKey list) \<times> nat \<times> nat" where
  "list_keys A fl au p db =
     (let K = ge_kind (ka_guard A); u = cm_sub (au_claims au); lim = int (per_page p); off = int (page_offset p) in
      and_then (require_permission au ''api_keys:read'') (\<lambda>_.
      and_then (if caller_is_admin_tier au then
                  and_then (count_all K fl db (lp_archived p)) (\<lambda>n.
                    map_sum id (Pair n) (list_all_page K fl db (lp_archived p) lim off))
                else
                  and_then (count_for_user K fl db (lp_archived p) u) (\<lambda>n.
                    map_sum id (Pair n) (list_for_user_page K fl db (lp_archived p) u lim off))) (\<lambda>found.
        Inr (found, max (unwrap_or (lp_page p) 1) 1, per_page p))))"

definition get_key :: "key_api \<Rightarrow> failures \<Rightarrow> AuthUser \<Rightarrow> uuid \<Rightarrow> auth_db \<Rightarrow> AppError + ApiKey" where
  "get_key A fl au i db =
     and_then (require_permission au ''api_keys:read'') (\<lambda>_.
     and_then (assert_owner_or_admin A fl db au i) (\<lambda>_.
     and_then (find_live (ge_kind (ka_guard A)) fl db i) (\<lambda>k.
       case k of None \<Rightarrow> Inl (NotFound ''API key not found'') | Some k \<Rightarrow> Inr k)))"

definition list_expiring_keys ::
  "key_api \<Rightarrow> failures \<Rightarrow> int \<Rightarrow> AuthUser \<Rightarrow> int option \<Rightarrow> auth_db \<Rightarrow> (AppError + ApiKey list) option" where
  "list_expiring_keys A fl now au days db =
     (case require_permission au ''api_keys:read'' of
        Inl e \<Rightarrow> Some (Inl e)
      | Inr _ \<Rightarrow>
          (case ch_add_days (ka_chrono A) now (max 0 (min 365 (unwrap_or days 7))) of
             None \<Rightarrow> None
           | Some threshold \<Rightarrow>
               Some (if caller_is_admin_tier au then list_expiring_all (ge_kind (ka_guard A)) fl db threshold
                     else list_expiring_for_user (ge_kind (ka_guard A)) fl db threshold (cm_sub (au_claims au)))))"

definition list_cost_centers :: "key_api \<Rightarrow> failures \<Rightarrow> AuthUser \<Rightarrow> auth_db \<Rightarrow> AppError + string list" where
  "list_cost_centers A fl au db =
     and_then (require_permission au ''api_keys:read'') (\<lambda>_. cost_centers (ge_kind (ka_guard A)) fl db)"

definition get_policy_scope ::
  "key_api \<Rightarrow> failures \<Rightarrow> AuthUser \<Rightarrow> auth_db \<Rightarrow> AppError + string list option \<times> string list option" where
  "get_policy_scope A fl au db =
     and_then (require_permission au ''api_keys:read'') (\<lambda>_.
       map_sum id (\<lambda>l. (allowed_models l, allowed_mcp_tools l)) (role_limits_of A fl db (cm_sub (au_claims au))))"

subsection \<open>Surfaces, cost centres and days\<close>

definition ALLOWED_SURFACES :: "string list" where
  "ALLOWED_SURFACES = [''ai_gateway'', ''mcp_gateway'', ''console'']"

fun collect_surfaces :: "string list \<Rightarrow> string list \<Rightarrow> AppError + string list" where
  "collect_surfaces out [] = Inr (sort out)"
| "collect_surfaces out (s # rest) =
     (if \<not> List.member ALLOWED_SURFACES s then
        Inl (BadRequest (''Unknown surface '' @ [CHR 0x27] @ s @ [CHR 0x27] @ '' (allowed: ai_gateway, mcp_gateway, console)''))
      else collect_surfaces (if List.member out s then out else out @ [s]) rest)"

definition normalize_surfaces :: "string list \<Rightarrow> AppError + string list" where
  "normalize_surfaces inp =
     (if inp = [] then Inl (BadRequest ''API key must be enabled for at least one gateway surface'')
      else collect_surfaces [] inp)"

definition validate_cost_center :: "string option \<Rightarrow> AppError + string option" where
  "validate_cost_center inp =
     (case inp of
        None \<Rightarrow> Inr None
      | Some raw \<Rightarrow>
          (let trimmed = str_trim raw in
           if trimmed = [] then Inr None
           else if chars_count trimmed > 64 then Inl (BadRequest ''cost_center must be 64 characters or fewer'')
           else Inr (Some trimmed)))"

text \<open>\<^verbatim>\<open>as i32\<close> of an \<open>i64\<close>.\<close>

definition wrap_i32 :: "int \<Rightarrow> int" where
  "wrap_i32 n = (n + 2 ^ 31) mod 2 ^ 32 - 2 ^ 31"

text \<open>The time \<open>days\<close> from now, for a positive number of days; a panic is \<open>None\<close>.\<close>

definition days_ahead :: "chrono_ops \<Rightarrow> int \<Rightarrow> int option \<Rightarrow> int option option" where
  "days_ahead C now days =
     (case days of
        Some d \<Rightarrow> if d > 0 then map_option Some (ch_add_days C now d) else Some None
      | None \<Rightarrow> Some None)"

subsection \<open>Create\<close>

record CreateApiKeyRequest =
  cq_name :: string
  cq_surfaces :: "string list"
  cq_allowed_models :: "string list option"
  cq_allowed_mcp_tools :: "string list option"
  cq_mcp_account_overrides :: "json option"
  cq_expires_in_days :: "int option"
  cq_cost_center :: "string option"

record CreateApiKeyResponse =
  cs_id :: uuid
  cs_key :: string
  cs_name :: string
  cs_key_prefix :: string

definition key_response :: "GeneratedApiKey \<Rightarrow> ApiKey \<Rightarrow> CreateApiKeyResponse" where
  "key_response gen row = \<lparr>cs_id = ak_id row, cs_key = gk_plaintext gen, cs_name = ak_name row, cs_key_prefix = ak_key_prefix row\<rparr>"

definition create_checks ::
  "key_api \<Rightarrow> failures \<Rightarrow> AuthUser \<Rightarrow> CreateApiKeyRequest \<Rightarrow> auth_db \<Rightarrow> AppError + string list" where
  "create_checks A fl au req db =
     and_then (require_permission au ''api_keys:create'') (\<lambda>_.
     and_then (normalize_surfaces (cq_surfaces req)) (\<lambda>surfaces.
     and_then (validate_allowlists_within_role A fl db (cm_sub (au_claims au)) (cq_allowed_models req) (cq_allowed_mcp_tools req)) (\<lambda>_.
       if (case cq_expires_in_days req of Some d \<Rightarrow> d < 0 | None \<Rightarrow> False) then Inl (BadRequest ''expires_in_days must be >= 0'')
       else Inr surfaces)))"

text \<open>The expiry of a new key: the request's days, or the setting's; zero means none.\<close>

definition created_expiry :: "key_api \<Rightarrow> int \<Rightarrow> CreateApiKeyRequest \<Rightarrow> int option option" where
  "created_expiry A now req =
     days_ahead (ka_chrono A) now (or_else (cq_expires_in_days req)
       (if ka_default_expiry_days A > 0 then Some (wrap_i32 (ka_default_expiry_days A)) else None))"

definition insert_created ::
  "key_api \<Rightarrow> failures \<Rightarrow> cred_db \<Rightarrow> int \<Rightarrow> uuid \<Rightarrow> GeneratedApiKey \<Rightarrow> AuthUser \<Rightarrow> CreateApiKeyRequest \<Rightarrow> string list \<Rightarrow> int option \<Rightarrow>
   auth_db \<Rightarrow> AppError + auth_db \<times> ApiKey" where
  "insert_created A fl cdb now new_id gen au req surfaces expires_at db =
     and_then (validate_cost_center (cq_cost_center req)) (\<lambda>cc.
     and_then (validate_mcp_account_overrides A fl cdb (cm_sub (au_claims au)) (cq_mcp_account_overrides req)) (\<lambda>ov.
       insert_key (ge_kind (ka_guard A)) fl now
         \<lparr>nk_id = new_id, nk_key_prefix = gk_prefix gen, nk_key_hash = gk_hash gen, nk_name = cq_name req,
          nk_user_id = cm_sub (au_claims au), nk_surfaces = surfaces, nk_allowed_models = cq_allowed_models req,
          nk_allowed_mcp_tools = cq_allowed_mcp_tools req, nk_mcp_account_overrides = ov,
          nk_expires_at = expires_at, nk_cost_center = cc,
          nk_rotation_period_days = (if ka_rotation_period_days A > 0 then Some (wrap_i32 (ka_rotation_period_days A)) else None)\<rparr> db))"

definition create_key ::
  "key_api \<Rightarrow> failures \<Rightarrow> cred_db \<Rightarrow> int \<Rightarrow> uuid \<Rightarrow> string \<Rightarrow> AuthUser \<Rightarrow> CreateApiKeyRequest \<Rightarrow> key_state \<Rightarrow>
   key_state \<times> (AppError + CreateApiKeyResponse) option" where
  "create_key A fl cdb now new_id random au req st =
     (case create_checks A fl au req (fst st) of
        Inl e \<Rightarrow> (st, Some (Inl e))
      | Inr surfaces \<Rightarrow>
          (let gen = generate_api_key (ge_key_hash (ka_guard A)) random in
           case created_expiry A now req of
             None \<Rightarrow> (st, None)
           | Some expires_at \<Rightarrow>
               (case insert_created A fl cdb now new_id gen au req surfaces expires_at (fst st) of
                  Inl e \<Rightarrow> (st, Some (Inl e))
                | Inr (db', row) \<Rightarrow> ((db', snd st), Some (Inr (key_response gen row))))))"

subsection \<open>Revoke\<close>

definition user_event :: "AuthUser \<Rightarrow> string \<Rightarrow> uuid \<Rightarrow> json option \<Rightarrow> key_event" where
  "user_event au act i detail =
     \<lparr>ke_action = act, ke_user_id = Some (cm_sub (au_claims au)), ke_resource = key_resource i, ke_detail = detail\<rparr>"

text \<open>What both revocations do with the answer of their update.\<close>

definition revoked :: "AppError + auth_db \<times> int \<Rightarrow> key_event \<Rightarrow> json \<Rightarrow> key_state \<Rightarrow> key_state \<times> (AppError + json)" where
  "revoked upd ev ok st =
     (case upd of
        Inl e \<Rightarrow> (st, Inl e)
      | Inr (db', n) \<Rightarrow>
          if n = 0 then ((db', snd st), Inl (NotFound ''API key not found''))
          else ((db', snd st @ [ev]), Inr ok))"

definition revoke_key ::
  "key_api \<Rightarrow> failures \<Rightarrow> int \<Rightarrow> AuthUser \<Rightarrow> uuid \<Rightarrow> key_state \<Rightarrow> key_state \<times> (AppError + json)" where
  "revoke_key A fl now au i st =
     (case and_then (require_permission au ''api_keys:delete'') (\<lambda>_. assert_owner_or_admin A fl (fst st) au i) of
        Inl e \<Rightarrow> (st, Inl e)
      | Inr _ \<Rightarrow>
          revoked (revoke (ge_kind (ka_guard A)) fl now i (fst st)) (user_event au ''api_key.revoke'' i None)
            (JObject [(''status'', JString ''revoked'')]) st)"

definition force_revoke_checks :: "key_api \<Rightarrow> failures \<Rightarrow> AuthUser \<Rightarrow> string \<Rightarrow> auth_db \<Rightarrow> AppError + string" where
  "force_revoke_checks A fl au reason_text db =
     and_then (require_permission au ''api_keys:delete'') (\<lambda>_.
     and_then (caller_has_global A fl (rbac_part (ad_limits db)) au ''api_keys:delete'') (\<lambda>global.
       if \<not> global then Inl (Forbidden ''Force-revoke requires api_keys:delete at global scope'')
       else let reason = str_trim reason_text in
            if reason = [] then Inl (BadRequest ''reason is required'')
            else if length reason > 500 then Inl (BadRequest ''reason must be 500 characters or fewer'')
            else Inr reason))"

definition force_revoke_key ::
  "key_api \<Rightarrow> failures \<Rightarrow> int \<Rightarrow> AuthUser \<Rightarrow> uuid \<Rightarrow> string \<Rightarrow> key_state \<Rightarrow> key_state \<times> (AppError + json)" where
  "force_revoke_key A fl now au i reason_text st =
     (case force_revoke_checks A fl au reason_text (fst st) of
        Inl e \<Rightarrow> (st, Inl e)
      | Inr reason \<Rightarrow>
          revoked (force_revoke (ge_kind (ka_guard A)) fl now i (''force_revoked:'' @ chars_take 64 reason) (fst st))
            (user_event au ''api_key.force_revoke'' i (Some (JObject [(''reason'', JString reason)])))
            (JObject [(''status'', JString ''force_revoked''), (''reason'', JString reason)]) st)"

subsection \<open>Update\<close>

text \<open>An absent field is \<open>None\<close>, a JSON null is \<open>Some None\<close>.\<close>

record UpdateKeyRequest =
  uq_allowed_models :: "string list option option"
  uq_allowed_mcp_tools :: "string list option option"
  uq_surfaces :: "string list option"
  uq_expires_in_days :: "int option"
  uq_rotation_period_days :: "int option"
  uq_inactivity_timeout_days :: "int option"
  uq_cost_center :: "string option"
  uq_mcp_account_overrides :: "json option option"

definition negative_field :: "UpdateKeyRequest \<Rightarrow> string option" where
  "negative_field req =
     map_option fst (find (\<lambda>(_, v). case v of Some d \<Rightarrow> d < 0 | None \<Rightarrow> False)
       [(''expires_in_days'', uq_expires_in_days req), (''rotation_period_days'', uq_rotation_period_days req),
        (''inactivity_timeout_days'', uq_inactivity_timeout_days req)])"

definition update_checks ::
  "key_api \<Rightarrow> failures \<Rightarrow> AuthUser \<Rightarrow> uuid \<Rightarrow> UpdateKeyRequest \<Rightarrow> auth_db \<Rightarrow> AppError + ApiKey \<times> string list option" where
  "update_checks A fl au i req db =
     and_then (require_permission au ''api_keys:update'') (\<lambda>_.
     and_then (assert_owner_or_admin A fl db au i) (\<lambda>_.
       case negative_field req of
         Some name \<Rightarrow> Inl (BadRequest (name @ '' must be >= 0''))
       | None \<Rightarrow>
           and_then (find_live (ge_kind (ka_guard A)) fl db i) (\<lambda>found.
             case found of
               None \<Rightarrow> Inl (NotFound ''API key not found'')
             | Some key \<Rightarrow>
                 and_then (case ak_user_id key of
                             Some own \<Rightarrow>
                               validate_allowlists_within_role A fl db own (Option.bind (uq_allowed_models req) id)
                                 (Option.bind (uq_allowed_mcp_tools req) id)
                           | None \<Rightarrow> Inr ()) (\<lambda>_.
                 case uq_surfaces req of
                   None \<Rightarrow> Inr (key, None)
                 | Some l \<Rightarrow> map_sum id (\<lambda>n. (key, Some n)) (normalize_surfaces l)))))"

text \<open>The new expiry: that of the request, zero days removing it, or the one the key has.\<close>

definition new_expiry_of :: "chrono_ops \<Rightarrow> int \<Rightarrow> UpdateKeyRequest \<Rightarrow> ApiKey \<Rightarrow> int option option" where
  "new_expiry_of C now req key =
     (case uq_expires_in_days req of
        Some d \<Rightarrow> days_ahead C now (Some d)
      | None \<Rightarrow> Some (ak_expires_at key))"

definition cost_center_patch :: "string option \<Rightarrow> AppError + bool \<times> string option" where
  "cost_center_patch c =
     (case c of
        None \<Rightarrow> Inr (False, None)
      | Some s \<Rightarrow> if s = [] then Inr (True, None) else map_sum id (Pair True) (validate_cost_center (Some s)))"

definition overrides_patch :: "key_api \<Rightarrow> failures \<Rightarrow> cred_db \<Rightarrow> ApiKey \<Rightarrow> json option option \<Rightarrow> AppError + bool \<times> json" where
  "overrides_patch A fl cdb key ov =
     (case ov of
        None \<Rightarrow> Inr (False, JObject [])
      | Some None \<Rightarrow> Inr (True, JObject [])
      | Some (Some v) \<Rightarrow>
          (case ak_user_id key of
             None \<Rightarrow> Inl (BadRequest ''service-account keys cannot use mcp_account_overrides'')
           | Some own \<Rightarrow> map_sum id (Pair True) (validate_mcp_account_overrides A fl cdb own (Some v))))"

definition expiry_extended :: "int option \<Rightarrow> int option \<Rightarrow> bool" where
  "expiry_extended before after =
     (case (before, after) of
        (Some prev, Some new_val) \<Rightarrow> prev < new_val
      | (Some _, None) \<Rightarrow> True
      | _ \<Rightarrow> False)"

definition patch_of ::
  "UpdateKeyRequest \<Rightarrow> ApiKey \<Rightarrow> string list option \<Rightarrow> int option \<Rightarrow> bool \<times> string option \<Rightarrow> bool \<times> json \<Rightarrow> ApiKeyPatch" where
  "patch_of req key surfaces expires_at cc ov =
     \<lparr>pt_allowed_models_set = (uq_allowed_models req \<noteq> None), pt_allowed_models = Option.bind (uq_allowed_models req) id,
      pt_allowed_mcp_tools_set = (uq_allowed_mcp_tools req \<noteq> None), pt_allowed_mcp_tools = Option.bind (uq_allowed_mcp_tools req) id,
      pt_surfaces = surfaces, pt_expires_at = expires_at, pt_rotation_period_days = uq_rotation_period_days req,
      pt_inactivity_timeout_days = uq_inactivity_timeout_days req, pt_cost_center_set = fst cc, pt_cost_center = snd cc,
      pt_mcp_account_overrides_set = fst ov, pt_mcp_account_overrides = snd ov,
      pt_expiry_extended = expiry_extended (ak_expires_at key) expires_at\<rparr>"

definition json_option :: "('a \<Rightarrow> json) \<Rightarrow> 'a option \<Rightarrow> json" where
  "json_option f x = (case x of None \<Rightarrow> JNull | Some v \<Rightarrow> f v)"

definition json_texts :: "string list \<Rightarrow> json" where
  "json_texts l = JArray (map JString l)"

definition change :: "string \<Rightarrow> json \<Rightarrow> json \<Rightarrow> string \<times> json" where
  "change field before after = (field, JObject [(''before'', before), (''after'', after)])"

definition key_changes :: "key_api \<Rightarrow> UpdateKeyRequest \<Rightarrow> string list option \<Rightarrow> int option \<Rightarrow> ApiKey \<Rightarrow> ApiKey \<Rightarrow> (string \<times> json) list" where
  "key_changes A req surfaces expires_at key updated =
     (let lst = json_option json_texts; num = json_option (\<lambda>d. JNumber (show_int d));
          tim = json_option (\<lambda>t. JString (ch_rfc3339 (ka_chrono A) t)) in
      (if uq_allowed_models req \<noteq> None \<and> ak_allowed_models key \<noteq> ak_allowed_models updated
       then [change ''allowed_models'' (lst (ak_allowed_models key)) (lst (ak_allowed_models updated))] else []) @
      (if uq_allowed_mcp_tools req \<noteq> None \<and> ak_allowed_mcp_tools key \<noteq> ak_allowed_mcp_tools updated
       then [change ''allowed_mcp_tools'' (lst (ak_allowed_mcp_tools key)) (lst (ak_allowed_mcp_tools updated))] else []) @
      (if surfaces \<noteq> None \<and> surfaces \<noteq> Some (ak_surfaces key)
       then [change ''surfaces'' (json_texts (ak_surfaces key)) (json_texts (ak_surfaces updated))] else []) @
      (if expires_at \<noteq> ak_expires_at key
       then [change ''expires_at'' (tim (ak_expires_at key)) (tim (ak_expires_at updated))] else []) @
      (if uq_rotation_period_days req \<noteq> None \<and> uq_rotation_period_days req \<noteq> ak_rotation_period_days key
       then [change ''rotation_period_days'' (num (ak_rotation_period_days key)) (num (ak_rotation_period_days updated))] else []) @
      (if uq_inactivity_timeout_days req \<noteq> None \<and> uq_inactivity_timeout_days req \<noteq> ak_inactivity_timeout_days key
       then [change ''inactivity_timeout_days'' (num (ak_inactivity_timeout_days key)) (num (ak_inactivity_timeout_days updated))] else []))"

definition update_key ::
  "key_api \<Rightarrow> failures \<Rightarrow> cred_db \<Rightarrow> int \<Rightarrow> AuthUser \<Rightarrow> uuid \<Rightarrow> UpdateKeyRequest \<Rightarrow> key_state \<Rightarrow>
   key_state \<times> (AppError + ApiKey) option" where
  "update_key A fl cdb now au i req st =
     (case update_checks A fl au i req (fst st) of
        Inl e \<Rightarrow> (st, Some (Inl e))
      | Inr (key, surfaces) \<Rightarrow>
          (case new_expiry_of (ka_chrono A) now req key of
             None \<Rightarrow> (st, None)
           | Some expires_at \<Rightarrow>
               (case and_then (cost_center_patch (uq_cost_center req)) (\<lambda>cc.
                     and_then (overrides_patch A fl cdb key (uq_mcp_account_overrides req)) (\<lambda>ov.
                       update_row (ge_kind (ka_guard A)) fl i (patch_of req key surfaces expires_at cc ov) (fst st))) of
                  Inl e \<Rightarrow> (st, Some (Inl e))
                | Inr (db', updated) \<Rightarrow>
                    ((db', snd st @ [user_event au ''api_key.update'' i
                        (Some (JObject (key_changes A req surfaces expires_at key updated)))]), Some (Inr updated)))))"

subsection \<open>Rotate\<close>

definition rotate_checks :: "key_api \<Rightarrow> failures \<Rightarrow> AuthUser \<Rightarrow> uuid \<Rightarrow> auth_db \<Rightarrow> AppError + ApiKey" where
  "rotate_checks A fl au i db =
     and_then (require_permission au ''api_keys:rotate'') (\<lambda>_.
     and_then (assert_owner_or_admin A fl db au i) (\<lambda>_.
     and_then (find_live (ge_kind (ka_guard A)) fl db i) (\<lambda>found.
       case found of
         None \<Rightarrow> Inl (NotFound ''API key not found'')
       | Some old \<Rightarrow>
           if \<not> ak_is_active old then Inl (BadRequest ''Cannot rotate an inactive key'')
           else if ak_disabled_reason old = Some ''rotated'' then
             Inl (BadRequest (''Key is already rotated and inside its grace period '' @ [CHR 0xE2, CHR 0x80, CHR 0x94] @
               '' rotate the new key instead, or revoke this one to short-circuit the grace window''))
           else Inr old)))"

definition rotate_key ::
  "key_api \<Rightarrow> failures \<Rightarrow> int \<Rightarrow> uuid \<Rightarrow> string \<Rightarrow> AuthUser \<Rightarrow> uuid \<Rightarrow> key_state \<Rightarrow>
   key_state \<times> (AppError + CreateApiKeyResponse) option" where
  "rotate_key A fl now new_id random au i st =
     (case rotate_checks A fl au i (fst st) of
        Inl e \<Rightarrow> (st, Some (Inl e))
      | Inr old \<Rightarrow>
          (case ch_add_hours (ka_chrono A) now (ka_grace_hours A) of
             None \<Rightarrow> (st, None)
           | Some grace \<Rightarrow>
               (let gen = generate_api_key (ge_key_hash (ka_guard A)) random in
                case rotate (ge_kind (ka_guard A)) fl now new_id old (gk_prefix gen) (gk_hash gen) grace (fst st) of
                  Inl e \<Rightarrow> (st, Some (Inl e))
                | Inr (db', new_key) \<Rightarrow>
                    ((db', snd st @ [user_event au ''api_key.rotate'' i (Some (JObject
                        [(''new_key_id'', JString (ak_id new_key)), (''grace_period_ends_at'', JString (ch_rfc3339 (ka_chrono A) grace))]))]),
                     Some (Inr (key_response gen new_key))))))"

end
