(* ===== verification/Signing_Props.thy ===== *)
theory Signing_Props
  imports Request_Signing
begin

section \<open>Replays of signed requests\<close>

text \<open>
  Runs of the console: requests through \<open>verify_signature\<close>, registrations and new sessions, on any number of replicas over
  one Redis, while time passes. A signed request is served once if a nonce is kept for longer than a time stamp is good.
\<close>

inductive served :: "('s, 'pk, 'sig) sig_env \<Rightarrow> 's \<Rightarrow> int \<Rightarrow> (uuid \<times> string \<times> string) list \<Rightarrow> bool" for E where
  start: "0 \<le> now \<Longrightarrow> now < 2 ^ 62 \<Longrightarrow> served E s now []"
| tick: "served E s now log \<Longrightarrow> now \<le> now' \<Longrightarrow> now' < 2 ^ 62 \<Longrightarrow> served E s now' log"
| request: "served E s now log \<Longrightarrow> verify_signature E now api_key (Some su) rq s = (s', Inr (Signed ts n)) \<Longrightarrow>
    served E s' now (log @ [(cm_sub (su_claims su), ts, n)])"
| other: "served E s now log \<Longrightarrow> verify_signature E now api_key user rq s = (s', r) \<Longrightarrow> \<forall>ts n. r \<noteq> Inr (Signed ts n) \<Longrightarrow>
    served E s' now log"
| register: "served E s now log \<Longrightarrow> register_key E show now su jwk s = (s', r) \<Longrightarrow> served E s' now log"
| session: "served E s now log \<Longrightarrow> served E (clear_signing_key_slot (sg_redis E) u s) now log"

subsection \<open>Time stamps\<close>

lemma wrap_i64_range: "- (2 ^ 63) \<le> x \<Longrightarrow> x < 2 ^ 63 \<Longrightarrow> wrap_i64 x = x"
  by (simp add: wrap_i64_def)

lemma too_far_cases:
  assumes "\<not> too_far n ts D" "0 \<le> n" "n < 2 ^ 62" "- (2 ^ 63) \<le> ts" "ts < 2 ^ 63" "0 \<le> D" "D < 2 ^ 61"
  shows "\<bar>n - ts\<bar> \<le> D \<or> n - ts = 2 ^ 63"
proof (cases "n - ts < 2 ^ 63")
  case True
  with assms(2,5) have w: "wrap_i64 (n - ts) = n - ts" by (simp add: wrap_i64_def)
  from True assms(2,3,5) have "\<bar>n - ts\<bar> < 2 ^ 63" by auto
  with assms(1) w show ?thesis by (simp add: too_far_def abs_i64_def wrap_i64_range)
next
  case False
  with assms(3,4) have b: "2 ^ 63 \<le> n - ts" "n - ts < 2 ^ 63 + 2 ^ 62" by auto
  have "(n - ts + 2 ^ 63) mod 2 ^ 64 = (n - ts + 2 ^ 63 - 2 ^ 64) mod 2 ^ 64"
    by (rule minus_mod_self2 [symmetric])
  also have "\<dots> = n - ts + 2 ^ 63 - 2 ^ 64"
    by (rule mod_pos_pos_trivial) (use b in auto)
  finally have w: "wrap_i64 (n - ts) = n - ts - 2 ^ 64" by (simp add: wrap_i64_def)
  show ?thesis
  proof (rule ccontr)
    assume c: "\<not> ?thesis"
    with b have "\<bar>n - ts - 2 ^ 64\<bar> < 2 ^ 63" by auto
    with assms(1) w have "\<bar>n - ts - 2 ^ 64\<bar> \<le> D" by (simp add: too_far_def abs_i64_def wrap_i64_range)
    with b assms(7) show False by auto
  qed
qed

lemma fresh_stamps_close:
  assumes "\<not> too_far n ts D" "\<not> too_far n' ts D" "0 \<le> n" "n < 2 ^ 62" "0 \<le> n'" "n' < 2 ^ 62"
    "- (2 ^ 63) \<le> ts" "ts < 2 ^ 63" "0 \<le> D" "D < 2 ^ 61"
  shows "n' - n \<le> 2 * D"
  using too_far_cases [OF assms(1,3,4,7,8,9,10)] too_far_cases [OF assms(2,5,6,7,8,9,10)] assms(3-10) by auto

subsection \<open>The nonces of the served requests\<close>

definition nonce_kept :: "('s, 'pk, 'sig) sig_env \<Rightarrow> 's \<Rightarrow> int \<Rightarrow> uuid \<times> string \<times> string \<Rightarrow> bool" where
  "nonce_kept E s now e = (case e of (u, ts, n) \<Rightarrow>
     \<exists>x i v d. 0 \<le> x \<and> x \<le> now \<and> now < 2 ^ 62 \<and> parse_i64_str ts = Some i \<and> \<not> too_far (x div 1000) i (sg_max_drift E) \<and>
       rt_entry (sg_redis E) s (nonce_key u n) = Some (v, Some d) \<and> x + sg_nonce_ttl E * 1000 \<le> d)"

lemma nonce_key_apart [simp]:
  "nonce_key u n \<noteq> pubkey_key u'" "nonce_key u n \<noteq> ip_key u'" "nonce_key u n \<noteq> ''register_key_rate:'' @ u'"
  by (simp_all add: nonce_key_def pubkey_key_def ip_key_def)

lemma pubkey_key_apart [simp]: "pubkey_key u \<noteq> ip_key u'" "ip_key u' \<noteq> pubkey_key u"
  by (simp_all add: pubkey_key_def ip_key_def)

lemma parse_i64_str_range: "parse_i64_str s = Some i \<Longrightarrow> - (2 ^ 63) \<le> i \<and> i < 2 ^ 63"
  by (auto simp: parse_i64_str_def split: option.splits if_splits)

context ttl_laws
begin

lemma entry_del_best_effort: "k \<noteq> k' \<Longrightarrow> rt_entry Q (del_best_effort Q k s) k' = rt_entry Q s k'"
  by (simp add: del_best_effort_def entry_del split: option.split)

lemma entry_clear_slot: "rt_entry Q (clear_signing_key_slot Q u s) (nonce_key v n) = rt_entry Q s (nonce_key v n)"
  by (simp add: clear_signing_key_slot_def entry_del_best_effort nonce_key_apart [symmetric] del: nonce_key_apart)

lemma entry_fixed_incr: "k \<noteq> k' \<Longrightarrow> rt_entry Q (fst (fixed_incr Q ts k ttl s)) k' = rt_entry Q s k'"
  by (auto simp: fixed_incr_def incr_key_def expire_nx_def entry_put split: option.split prod.split)

lemma entry_store_public_key:
  "rt_entry Q (fst (store_public_key Q now u jwk ip ttl s)) (nonce_key v n) = rt_entry Q s (nonce_key v n)"
  by (auto simp: store_public_key_def set_ex_nx_def set_ex_def entry_put split: option.split)

lemma entry_register_key:
  assumes "register_key E show now su jwk s = (s', r)" and "sg_redis E = Q"
  shows "rt_entry Q s' (nonce_key v n) = rt_entry Q s (nonce_key v n)"
proof -
  let ?u = "cm_sub (su_claims su)"
  obtain s1 c where f: "fixed_incr Q (now, now) (''register_key_rate:'' @ ?u) 60 s = (s1, c)" by (metis prod.exhaust)
  have e1: "rt_entry Q s1 (nonce_key v n) = rt_entry Q s (nonce_key v n)"
    using entry_fixed_incr [of "''register_key_rate:'' @ ?u" "nonce_key v n" "(now, now)" 60 s] f
      nonce_key_apart(3) by (metis fst_conv)
  have e2: "rt_entry Q s2 (nonce_key v n) = rt_entry Q s1 (nonce_key v n)"
    if "store_public_key Q now ?u j ip ttl s1 = (s2, x)" for j ip ttl s2 x
    using entry_store_public_key [of now ?u j ip ttl s1 v n] that by simp
  show ?thesis
    using assms f e1 e2
    by (auto simp: register_key_def Let_def split: sum.splits if_splits option.splits prod.splits StoreKeyOutcome.splits)
qed

end

subsection \<open>One step of a run\<close>

lemma check_signed_pass:
  assumes "check_signed E now su rq ts n h s = Inr p"
  shows "p = Signed ts n"
proof -
  have "check_signed E now su rq ts n h s \<in> range Inl \<union> {Inr (Signed ts n)}"
    unfolding check_signed_def Let_def
    by (simp split: option.split sum.split SignatureCheck.split unit.split)
  with assms show ?thesis by auto
qed

lemma signed_request_cases:
  obtains r where "signed_request E now su rq ts n h s = (s, Inl r)"
  | i s1 r where "parse_i64_str ts = Some i" "\<not> too_far (now div 1000) i (sg_max_drift E)"
    "set_ex_nx (sg_redis E) now (nonce_key (cm_sub (su_claims su)) n) ''1'' (sg_nonce_ttl E) s = (s1, True)"
    "check_signed E now su rq ts n h s1 = r"
    "signed_request E now su rq ts n h s =
       (if isl r \<or> rt_err (sg_redis E) s1 (pubkey_key (cm_sub (su_claims su))) \<noteq> None then s1
        else expire_at (sg_redis E) now (pubkey_key (cm_sub (su_claims su))) (sg_refresh_ttl_days E * 86400) s1, r)"
proof -
  let ?u = "cm_sub (su_claims su)"
  obtain s1 fresh where f: "set_ex_nx (sg_redis E) now (nonce_key ?u n) ''1'' (sg_nonce_ttl E) s = (s1, fresh)"
    by (metis prod.exhaust)
  show thesis
  proof (cases "\<exists>i. parse_i64_str ts = Some i \<and> \<not> too_far (now div 1000) i (sg_max_drift E) \<and>
      rt_err (sg_redis E) s (nonce_key ?u n) = None \<and> fresh")
    case True
    then show thesis
      using that(2) f by (cases "check_signed E now su rq ts n h s1") (auto simp: signed_request_def Let_def)
  next
    case False
    then have "\<exists>r. signed_request E now su rq ts n h s = (s, Inl r)"
      using f by (auto simp: signed_request_def Let_def set_ex_nx_def split: option.splits if_splits)
    with that(1) show thesis by blast
  qed
qed

lemma verify_signature_cases:
  obtains (direct) r where "verify_signature E now api_key user rq s = (s, r)" "\<forall>ts n. r \<noteq> Inr (Signed ts n)"
  | (signed) su ts n h where "user = Some su" "header_str (hq_headers rq) ''x-signature'' = Some h"
      "verify_signature E now api_key user rq s = signed_request E now su rq ts n h s"
proof -
  have u: "\<forall>ts n. unsigned_request E now cm s \<noteq> Inr (Signed ts n)" for cm
    by (simp add: unsigned_request_def Let_def)
  show thesis
  proof (cases "hq_method rq = ''OPTIONS'' \<or> api_key \<or> hq_path rq = ''/api/auth/register-key'' \<or> user = None \<or>
      \<not> contains_header (hq_headers rq) ''x-signature''")
    case True
    then have "\<exists>r. verify_signature E now api_key user rq s = (s, r) \<and> (\<forall>ts n. r \<noteq> Inr (Signed ts n))"
      using u by (cases user) (auto simp: verify_signature_def Let_def)
    with direct show thesis by blast
  next
    case False
    then obtain su where su: "user = Some su" by auto
    show thesis
    proof (cases "header_str (hq_headers rq) ''x-signature-timestamp'' = None \<or>
        header_str (hq_headers rq) ''x-signature-nonce'' = None \<or> header_str (hq_headers rq) ''x-signature'' = None")
      case True
      with False su have "verify_signature E now api_key user rq s = (s, Inl 400)"
        by (auto simp: verify_signature_def Let_def split: option.split)
      with direct show thesis by blast
    next
      case complete: False
      then obtain ts n h where "header_str (hq_headers rq) ''x-signature-timestamp'' = Some ts"
        "header_str (hq_headers rq) ''x-signature-nonce'' = Some n" "header_str (hq_headers rq) ''x-signature'' = Some h"
        by auto
      with False su signed show thesis by (auto simp: verify_signature_def Let_def)
    qed
  qed
qed

text \<open>A nonce that a request put there outlives the ones put before it, and nothing else writes under its name.\<close>

lemma nonce_kept_later: "nonce_kept E s now e \<Longrightarrow> now \<le> now' \<Longrightarrow> now' < 2 ^ 62 \<Longrightarrow> nonce_kept E s now' e"
  by (force simp: nonce_kept_def split: prod.split)

lemma nonce_kept_frame:
  assumes "nonce_kept E s now e" "\<And>u n. rt_entry (sg_redis E) s' (nonce_key u n) = rt_entry (sg_redis E) s (nonce_key u n)"
  shows "nonce_kept E s' now e"
  using assms by (auto simp: nonce_kept_def split: prod.splits)

context ttl_laws
begin

lemma entry_nonce_put:
  assumes "set_ex_nx Q now (nonce_key u n) v ttl s = (s1, True)"
  shows "rt_entry Q s1 k = (if k = nonce_key u n then Some (v, Some (now + ttl * 1000)) else rt_entry Q s k)"
    "ttl_get Q now s (nonce_key u n) = None"
  using assms by (auto simp: set_ex_nx_def set_ex_def entry_put deadline_def split: if_splits)

lemma nonce_kept_put:
  assumes "nonce_kept E s now e" "sg_redis E = Q" "set_ex_nx Q now (nonce_key u n) ''1'' (sg_nonce_ttl E) s = (s1, True)"
  shows "nonce_kept E s1 now e"
  using assms(1) entry_nonce_put(1) [OF assms(3)] by (fastforce simp: nonce_kept_def assms(2) split: prod.splits)

lemma nonce_kept_expire:
  assumes "nonce_kept E s now e" "sg_redis E = Q"
  shows "nonce_kept E (expire_at Q t (pubkey_key u) ttl s) now e"
  by (rule nonce_kept_frame [OF assms(1)]) (simp add: assms(2) entry_expire_at_other)

lemma nonce_kept_signed_request:
  assumes "nonce_kept E s now e" "sg_redis E = Q"
  shows "nonce_kept E (fst (signed_request E now su rq ts n h s)) now e"
proof (cases rule: signed_request_cases [of E now su rq ts n h s])
  case (2 i s1 r)
  have "nonce_kept E s1 now e" using nonce_kept_put [OF assms] 2(3) by (simp add: assms(2))
  with nonce_kept_expire [OF this assms(2)] 2(5) show ?thesis by (simp add: assms(2))
qed (use assms in simp)

lemma nonce_kept_verify:
  assumes "nonce_kept E s now e" "sg_redis E = Q" "verify_signature E now api_key user rq s = (s', r)"
  shows "nonce_kept E s' now e"
  using assms(3)
proof (cases rule: verify_signature_cases [of E now api_key user rq s])
  case (signed su ts n h)
  with nonce_kept_signed_request [OF assms(1,2), of su rq ts n h] assms(3) show ?thesis by (metis fst_conv)
qed (use assms in auto)

lemma nonce_kept_new:
  assumes "verify_signature E now api_key (Some su) rq s = (s', Inr (Signed ts n))" "sg_redis E = Q"
    "0 \<le> now" "now < 2 ^ 62"
  shows "nonce_kept E s' now (cm_sub (su_claims su), ts, n)"
    "ttl_get Q now s (nonce_key (cm_sub (su_claims su)) n) = None"
    "\<exists>i. parse_i64_str ts = Some i \<and> \<not> too_far (now div 1000) i (sg_max_drift E)"
proof -
  let ?u = "cm_sub (su_claims su)"
  obtain ts' n' h where r: "signed_request E now su rq ts' n' h s = (s', Inr (Signed ts n))"
    using assms(1) by (cases rule: verify_signature_cases [of E now api_key "Some su" rq s]) auto
  from r obtain i s1 where i: "parse_i64_str ts' = Some i" "\<not> too_far (now div 1000) i (sg_max_drift E)"
      and p: "set_ex_nx Q now (nonce_key ?u n') ''1'' (sg_nonce_ttl E) s = (s1, True)"
      and c: "check_signed E now su rq ts' n' h s1 = Inr (Signed ts n)"
      and s': "s' = s1 \<or> s' = expire_at Q now (pubkey_key ?u) (sg_refresh_ttl_days E * 86400) s1"
    using assms(2) by (cases rule: signed_request_cases [of E now su rq ts' n' h s]) (auto split: if_splits)
  from check_signed_pass [OF c] have [simp]: "ts' = ts" "n' = n" by simp_all
  have k: "nonce_kept E s1 now (?u, ts, n)"
    using i entry_nonce_put(1) [OF p] assms(2,3,4) by (auto simp: nonce_kept_def)
  then show "nonce_kept E s' now (?u, ts, n)" using s' nonce_kept_expire [OF k assms(2)] by auto
  show "ttl_get Q now s (nonce_key ?u n) = None" using entry_nonce_put(2) [OF p] by simp
  show "\<exists>i. parse_i64_str ts = Some i \<and> \<not> too_far (now div 1000) i (sg_max_drift E)" using i by auto
qed

end

subsection \<open>Served once\<close>

definition SIGNATURE_DRIFT_MAX_SECS :: int where
  "SIGNATURE_DRIFT_MAX_SECS = 300"

lemma served_kept:
  assumes "served E s now log" "ttl_laws (sg_redis E)"
  shows "0 \<le> now \<and> now < 2 ^ 62 \<and> (\<forall>e \<in> set log. nonce_kept E s now e)"
  using assms(1)
proof (induction rule: served.induct)
  case (tick s now log now')
  then show ?case using nonce_kept_later by fastforce
next
  case (request s now log api_key su rq s' ts n)
  then show ?case
    using ttl_laws.nonce_kept_verify [OF assms(2) _ refl request(2)] ttl_laws.nonce_kept_new(1) [OF assms(2) request(2) refl] by auto
next
  case (other s now log api_key user rq s' r)
  then show ?case using ttl_laws.nonce_kept_verify [OF assms(2) _ refl other(2)] by blast
next
  case (register s now log show_json su jwk s' r)
  then show ?case
    using nonce_kept_frame [OF _ ttl_laws.entry_register_key [OF assms(2) register(2) refl]] by blast
next
  case (session s now log u)
  then show ?case using nonce_kept_frame [OF _ ttl_laws.entry_clear_slot [OF assms(2)]] by blast
qed simp_all

lemma replay_is_refused:
  assumes kept: "nonce_kept E s now (u, ts, n)"
    and free: "ttl_get (sg_redis E) now s (nonce_key u n) = None"
    and fresh: "parse_i64_str ts = Some i" "\<not> too_far (now div 1000) i (sg_max_drift E)"
    and drift: "0 \<le> sg_max_drift E" "sg_max_drift E \<le> 300" "2 * sg_max_drift E < sg_nonce_ttl E"
  shows False
proof -
  from kept fresh(1) obtain x v d where x: "0 \<le> x" "x \<le> now" "now < 2 ^ 62" and tx: "\<not> too_far (x div 1000) i (sg_max_drift E)"
      and en: "rt_entry (sg_redis E) s (nonce_key u n) = Some (v, Some d)" and d: "x + sg_nonce_ttl E * 1000 \<le> d"
    by (auto simp: nonce_kept_def)
  from free en have "d \<le> now" by (auto simp: ttl_get_def in_time_def split: if_splits)
  moreover have "now div 1000 - x div 1000 \<le> 2 * sg_max_drift E"
    using fresh_stamps_close [OF tx fresh(2)] parse_i64_str_range [OF fresh(1)] x drift(1,2) by (simp add: zdiv_mono1)
  ultimately show False using d drift(3) by linarith
qed

text \<open>
  (C9) Whoever sends what, on however many replicas, a signed request is served at most once: the same user's time stamp
  and nonce do not pass the middleware a second time, now or later, as long as a nonce is kept for more than twice
  the drift a time stamp may have.
\<close>

theorem signed_requests_are_served_once:
  assumes "ttl_laws (sg_redis E)" "served E s now log"
    and "0 \<le> sg_max_drift E" "sg_max_drift E \<le> SIGNATURE_DRIFT_MAX_SECS" "2 * sg_max_drift E < sg_nonce_ttl E"
  shows "distinct log"
  using assms(2)
proof (induction rule: served.induct)
  case (request s now log api_key su rq s' ts n)
  let ?e = "(cm_sub (su_claims su), ts, n)"
  note old = served_kept [OF request(1) assms(1)]
  note new = ttl_laws.nonce_kept_new [OF assms(1) request(2) refl]
  have "?e \<notin> set log"
    using old new(2,3) replay_is_refused [of E s now "cm_sub (su_claims su)" ts n] assms(3-5)
    by (auto simp: SIGNATURE_DRIFT_MAX_SECS_def)
  with request.IH show ?case by simp
qed simp_all

subsection \<open>A console to run it on\<close>

definition demo_curve :: "(unit, unit) p256" where
  "demo_curve = \<lparr>pc_jwk = (\<lambda>_. Inr (''EC'', ''P-256'', ''x'', ''y'')),
     pc_base64 = (\<lambda>s. Inr (if s = ''x'' \<or> s = ''y'' then replicate 32 (CHR ''a'') else s)),
     pc_point = (\<lambda>_. Some ()), pc_signature = (\<lambda>_. Inr ()), pc_verify = (\<lambda>_ _ _. True)\<rparr>"

definition demo_sig :: "int \<Rightarrow> (ttl_mem, unit, unit) sig_env" where
  "demo_sig ttl = \<lparr>sg_redis = mem_ttl, sg_curve = demo_curve, sg_sha256_hex = id, sg_read_body = Some,
     sg_max_drift = 300, sg_nonce_ttl = ttl, sg_refresh_ttl_days = 7\<rparr>"

definition demo_su :: session_user where
  "demo_su = \<lparr>su_claims = \<lparr>cm_sub = ''u'', cm_email = ''e'', cm_exp = 900, cm_iat = 0, cm_token_type = ''access'',
     cm_aud = ''thinkwatch'', cm_iss = ''thinkwatch''\<rparr>, su_ip = Some ''1.2.3.4''\<rparr>"

definition demo_signed :: "string \<Rightarrow> string \<Rightarrow> http_request" where
  "demo_signed ts n = \<lparr>hq_method = ''POST'', hq_path = ''/api/keys'', hq_query = None,
     hq_headers = [(''x-signature'', Some ''ecdsa-p256:s''), (''x-signature-timestamp'', Some ts), (''x-signature-nonce'', Some n)],
     hq_body = []\<rparr>"

definition demo_keyed :: "int \<Rightarrow> ttl_mem" where
  "demo_keyed now = fst (register_key (demo_sig 601) (\<lambda>_. ''jwk'') now demo_su JNull \<lparr>tm_keys = [], tm_down = []\<rparr>)"

definition demo_sent :: "int \<Rightarrow> int \<Rightarrow> string \<Rightarrow> string \<Rightarrow> ttl_mem \<Rightarrow> ttl_mem" where
  "demo_sent ttl now ts n s = fst (verify_signature (demo_sig ttl) now False (Some demo_su) (demo_signed ts n) s)"

lemma demo_register:
  "register_key (demo_sig 600) (\<lambda>_. ''jwk'') 0 demo_su JNull \<lparr>tm_keys = [], tm_down = []\<rparr> = (demo_keyed 0, Inr ())"
  "register_key (demo_sig 601) (\<lambda>_. ''jwk'') 0 demo_su JNull \<lparr>tm_keys = [], tm_down = []\<rparr> = (demo_keyed 0, Inr ())"
  by code_simp+

lemma demo_laws: "ttl_laws (sg_redis (demo_sig ttl))"
  by (simp add: demo_sig_def mem_ttl.ttl_laws_axioms)

lemma demo_run_start: "served (demo_sig 600) (demo_keyed 0) 0 []" "served (demo_sig 601) (demo_keyed 0) 0 []"
  by (rule served.register [OF served.start demo_register(1)] served.register [OF served.start demo_register(2)]; simp)+

lemma demo_first:
  "verify_signature (demo_sig 601) 0 False (Some demo_su) (demo_signed ''300'' ''n'') (demo_keyed 0) =
     (demo_sent 601 0 ''300'' ''n'' (demo_keyed 0), Inr (Signed ''300'' ''n''))"
  "verify_signature (demo_sig 600) 0 False (Some demo_su) (demo_signed ''300'' ''n'') (demo_keyed 0) =
     (demo_sent 600 0 ''300'' ''n'' (demo_keyed 0), Inr (Signed ''300'' ''n''))"
  by code_simp+

lemma demo_again:
  "snd (verify_signature (demo_sig 601) 600000 False (Some demo_su) (demo_signed ''300'' ''n'') (demo_sent 601 0 ''300'' ''n'' (demo_keyed 0))) = Inl 401"
  "snd (verify_signature (demo_sig 600) 600000 False (Some demo_su) (demo_signed ''300'' ''n'') (demo_sent 600 0 ''300'' ''n'' (demo_keyed 0))) =
     Inr (Signed ''300'' ''n'')"
  by code_simp+

theorem signed_requests_are_served_once_witness:
  "served (demo_sig 601) (demo_sent 601 0 ''300'' ''n'' (demo_keyed 0)) 0 [(''u'', ''300'', ''n'')] \<and> distinct [(''u'', ''300'', ''n'')] \<and>
   snd (verify_signature (demo_sig 601) 600000 False (Some demo_su) (demo_signed ''300'' ''n'') (demo_sent 601 0 ''300'' ''n'' (demo_keyed 0))) = Inl 401"
proof -
  have r: "served (demo_sig 601) (demo_sent 601 0 ''300'' ''n'' (demo_keyed 0)) 0 [(''u'', ''300'', ''n'')]"
    using served.request [OF demo_run_start(2) demo_first(1)] by (simp add: demo_su_def)
  have "distinct [(''u'', ''300'', ''n'')]"
    by (rule signed_requests_are_served_once [OF demo_laws r]) (simp_all add: demo_sig_def SIGNATURE_DRIFT_MAX_SECS_def)
  with r demo_again(1) show ?thesis by blast
qed

text \<open>
  The settings as shipped, a drift of 300 seconds and nonces kept for 600, are one second short of that. A request
  stamped 300 seconds ahead passes at once, and passes again 600 seconds later, when its nonce has just expired and
  its time stamp is still good.
\<close>

theorem default_settings_serve_a_replay:
  "sg_max_drift (demo_sig 600) = 300 \<and> sg_nonce_ttl (demo_sig 600) = 600 \<and>
   (\<exists>s. served (demo_sig 600) s 600000 [(''u'', ''300'', ''n''), (''u'', ''300'', ''n'')])"
proof -
  let ?s = "demo_sent 600 0 ''300'' ''n'' (demo_keyed 0)"
  have "served (demo_sig 600) ?s 0 [(''u'', ''300'', ''n'')]"
    using served.request [OF demo_run_start(1) demo_first(2)] by (simp add: demo_su_def)
  from served.tick [OF this] have t: "served (demo_sig 600) ?s 600000 [(''u'', ''300'', ''n'')]" by simp
  have "verify_signature (demo_sig 600) 600000 False (Some demo_su) (demo_signed ''300'' ''n'') ?s =
      (demo_sent 600 600000 ''300'' ''n'' ?s, Inr (Signed ''300'' ''n''))"
    using demo_again(2) by (simp add: demo_sent_def prod_eq_iff)
  from served.request [OF t this] show ?thesis by (auto simp: demo_su_def demo_sig_def)
qed

subsection \<open>A session that outlives its address\<close>

lemma unbound_key_refuses:
  assumes "ttl_laws (sg_redis E)" and u: "u = cm_sub (su_claims su)"
    and ip: "ttl_get (sg_redis E) now s (ip_key u) = None"
    and pk: "rt_err (sg_redis E) s (pubkey_key u) = None" "ttl_get (sg_redis E) now s (pubkey_key u) \<noteq> None"
    and rq: "hq_method rq \<noteq> ''OPTIONS''" "hq_path rq \<noteq> ''/api/auth/register-key''"
  shows "isl (snd (verify_signature E now False (Some su) rq s))"
proof -
  have un: "unsigned_request E now (su_claims su) s = Inl 401" using pk u by (simp add: unsigned_request_def Let_def)
  have c: "isl (check_signed E now su rq ts n h s1)"
    if "set_ex_nx (sg_redis E) now (nonce_key u n) ''1'' (sg_nonce_ttl E) s = (s1, True)" for ts n h s1
  proof -
    have "rt_entry (sg_redis E) s1 (ip_key u) = rt_entry (sg_redis E) s (ip_key u)"
      using ttl_laws.entry_nonce_put(1) [OF assms(1) that, of "ip_key u"] nonce_key_apart(2) by metis
    with ip have "get_text (sg_redis E) now s1 (ip_key u) = None" by (simp add: get_text_def ttl_get_def)
    then show ?thesis using u by (simp add: check_signed_def Let_def ip_bound_def split: option.split)
  qed
  have "isl (snd (signed_request E now su rq ts n h s))" for ts n h
    by (cases rule: signed_request_cases [of E now su rq ts n h s]) (use c u in auto)
  with un rq show ?thesis by (simp add: verify_signature_def Let_def split: option.split)
qed

definition demo_week :: ttl_mem where
  "demo_week = demo_sent 601 600000 ''300'' ''n'' (demo_keyed 0)"

lemma demo_week_first:
  "verify_signature (demo_sig 601) 600000 False (Some demo_su) (demo_signed ''300'' ''n'') (demo_keyed 0) =
     (demo_week, Inr (Signed ''300'' ''n''))"
  by code_simp

lemma demo_week_state:
  "ttl_get mem_ttl 604800000 demo_week (ip_key ''u'') = None"
  "rt_err mem_ttl demo_week (pubkey_key ''u'') = None"
  "ttl_get mem_ttl 604800000 demo_week (pubkey_key ''u'') = Some ''jwk''"
  by code_simp+

lemma demo_week_register:
  "snd (register_key (demo_sig 601) (\<lambda>_. ''jwk'') 604800000 demo_su JNull demo_week) =
     Inl (Conflict ''Signing key is already registered for this session. Log out and back in to rotate.'')"
  by code_simp

text \<open>
  A verified request renews the public key and not the address it is bound to. Seven days after it was registered, a
  session that was used meanwhile has a key without an address: every request is refused, signed or not, and so is a
  new registration, since the key is still there.
\<close>

theorem renewed_key_outlives_its_address:
  "\<exists>s. served (demo_sig 601) s 604800000 [(''u'', ''300'', ''n'')] \<and>
     (\<forall>rq. hq_method rq = ''OPTIONS'' \<or> hq_path rq = ''/api/auth/register-key'' \<or>
        isl (snd (verify_signature (demo_sig 601) 604800000 False (Some demo_su) rq s))) \<and>
     snd (register_key (demo_sig 601) (\<lambda>_. ''jwk'') 604800000 demo_su JNull s) =
       Inl (Conflict ''Signing key is already registered for this session. Log out and back in to rotate.'')"
proof -
  have "served (demo_sig 601) demo_week 600000 [(''u'', ''300'', ''n'')]"
    using served.request [OF served.tick [OF demo_run_start(2)] demo_week_first] by (simp add: demo_su_def)
  from served.tick [OF this] have run: "served (demo_sig 601) demo_week 604800000 [(''u'', ''300'', ''n'')]" by simp
  have e: "sg_redis (demo_sig 601) = mem_ttl" "cm_sub (su_claims demo_su) = ''u''" by (simp_all add: demo_sig_def demo_su_def)
  have "isl (snd (verify_signature (demo_sig 601) 604800000 False (Some demo_su) rq demo_week))"
    if "hq_method rq \<noteq> ''OPTIONS''" "hq_path rq \<noteq> ''/api/auth/register-key''" for rq
    by (rule unbound_key_refuses [OF demo_laws e(2) [symmetric]]) (simp_all add: e demo_week_state that)
  with run demo_week_register show ?thesis by blast
qed

subsection \<open>What a request that passes has shown\<close>

lemma verify_p256_jwk_Inr:
  assumes "verify_p256_jwk C jwk m b = Inr ()"
  obtains pk sig where "p256_public_key_from_jwk C jwk = Inr pk" "pc_signature C b = Inr sig" "pc_verify C pk m sig"
  using assms by (auto simp: verify_p256_jwk_def split: sum.splits if_splits)

lemma check_signed_Inr:
  assumes "check_signed E now su rq ts n h s = Inr p"
  obtains jwk b64 b body where "get_text (sg_redis E) now s (pubkey_key (cm_sub (su_claims su))) = Some jwk"
    "ip_bound (get_text (sg_redis E) now s (ip_key (cm_sub (su_claims su)))) (unwrap_or (su_ip su) [])"
    "h = ''ecdsa-p256:'' @ b64" "pc_base64 (sg_curve E) b64 = Inr b" "sg_read_body E (hq_body rq) = Some body"
    "verify_p256_jwk (sg_curve E) jwk (string_to_sign E rq ts n body) b = Inr ()"
proof (cases "get_text (sg_redis E) now s (pubkey_key (cm_sub (su_claims su)))")
  case (Some jwk)
  with assms have ip: "ip_bound (get_text (sg_redis E) now s (ip_key (cm_sub (su_claims su)))) (unwrap_or (su_ip su) [])"
    by (simp add: check_signed_def Let_def split: if_splits)
  with assms Some obtain b64 where h: "strip_prefix h ''ecdsa-p256:'' = Some b64"
    by (cases "strip_prefix h ''ecdsa-p256:''") (simp_all add: check_signed_def Let_def)
  with assms Some ip obtain b where b: "pc_base64 (sg_curve E) b64 = Inr b"
    by (cases "pc_base64 (sg_curve E) b64") (simp_all add: check_signed_def Let_def)
  with assms Some ip h obtain body where r: "sg_read_body E (hq_body rq) = Some body"
    by (cases "sg_read_body E (hq_body rq)") (simp_all add: check_signed_def Let_def)
  with assms Some ip h b have v: "verify_p256_jwk (sg_curve E) jwk (string_to_sign E rq ts n body) b = Inr ()"
    by (simp add: check_signed_def Let_def split: sum.splits SignatureCheck.splits)
  show thesis using that [OF Some ip _ b r v] h by (simp add: strip_prefix_Some)
qed (use assms in \<open>simp add: check_signed_def Let_def\<close>)

definition signature_holds :: "('s, 'pk, 'sig) sig_env \<Rightarrow> int \<Rightarrow> session_user \<Rightarrow> http_request \<Rightarrow> string \<Rightarrow> string \<Rightarrow> 's \<Rightarrow> bool" where
  "signature_holds E now su rq ts n s \<longleftrightarrow>
     (\<exists>jwk b64 b body pk sig. ttl_get (sg_redis E) now s (pubkey_key (cm_sub (su_claims su))) = Some jwk \<and>
        header_str (hq_headers rq) ''x-signature'' = Some (''ecdsa-p256:'' @ b64) \<and> pc_base64 (sg_curve E) b64 = Inr b \<and>
        p256_public_key_from_jwk (sg_curve E) jwk = Inr pk \<and> pc_signature (sg_curve E) b = Inr sig \<and>
        sg_read_body E (hq_body rq) = Some body \<and> pc_verify (sg_curve E) pk (string_to_sign E rq ts n body) sig)"

lemma signed_request_Inr:
  assumes "ttl_laws (sg_redis E)" "signed_request E now su rq ts n h s = (s', Inr p)"
    "header_str (hq_headers rq) ''x-signature'' = Some h"
  shows "p = Signed ts n" "signature_holds E now su rq ts n s"
    "su_ip su \<noteq> None" "ttl_get (sg_redis E) now s (ip_key (cm_sub (su_claims su))) = su_ip su"
proof -
  let ?u = "cm_sub (su_claims su)"
  obtain s1 where put: "set_ex_nx (sg_redis E) now (nonce_key ?u n) ''1'' (sg_nonce_ttl E) s = (s1, True)"
      and c: "check_signed E now su rq ts n h s1 = Inr p"
    using assms(2) by (cases rule: signed_request_cases [of E now su rq ts n h s]) auto
  show "p = Signed ts n" by (rule check_signed_pass [OF c])
  have same: "ttl_get (sg_redis E) now s1 k = ttl_get (sg_redis E) now s k" if "k = pubkey_key ?u \<or> k = ip_key ?u" for k
    using ttl_laws.entry_nonce_put(1) [OF assms(1) put, of k] that nonce_key_apart(1,2) [of ?u n ?u] by (metis ttl_get_def)
  from c show "signature_holds E now su rq ts n s"
    using assms(3) by (elim check_signed_Inr verify_p256_jwk_Inr) (auto simp: signature_holds_def get_text_def same split: if_splits)
  from c have "ip_bound (get_text (sg_redis E) now s1 (ip_key ?u)) (unwrap_or (su_ip su) [])" by (rule check_signed_Inr)
  then show "su_ip su \<noteq> None" "ttl_get (sg_redis E) now s (ip_key ?u) = su_ip su"
    by (cases "su_ip su"; auto simp: ip_bound_def get_text_def same split: option.splits if_splits)+
qed

text \<open>What a pass says of the request, the user and the state it was judged in.\<close>

definition signed_or_new :: "('s, 'pk, 'sig) sig_env \<Rightarrow> int \<Rightarrow> session_user \<Rightarrow> http_request \<Rightarrow> 's \<Rightarrow> sig_pass \<Rightarrow> bool" where
  "signed_or_new E now su rq s p =
     (case p of
        Signed ts n \<Rightarrow> header_str (hq_headers rq) ''x-signature-timestamp'' = Some ts \<and>
          header_str (hq_headers rq) ''x-signature-nonce'' = Some n \<and> signature_holds E now su rq ts n s \<and>
          su_ip su \<noteq> None \<and> ttl_get (sg_redis E) now s (ip_key (cm_sub (su_claims su))) = su_ip su
      | Unsigned \<Rightarrow> \<not> contains_header (hq_headers rq) ''x-signature'' \<and>
          get_text (sg_redis E) now s (pubkey_key (cm_sub (su_claims su))) = None \<and>
          saturating_sub_i64 (now div 1000) (cm_iat (su_claims su)) \<le> REGISTER_KEY_GRACE_SECS)"

lemma passed_request_was_signed:
  assumes "ttl_laws (sg_redis E)" "verify_signature E now False (Some su) rq s = (s', Inr p)"
    and "hq_method rq \<noteq> ''OPTIONS''" "hq_path rq \<noteq> ''/api/auth/register-key''"
  shows "signed_or_new E now su rq s p"
proof (cases "contains_header (hq_headers rq) ''x-signature''")
  case True
  from assms(2-4) True obtain ts n h where hd: "header_str (hq_headers rq) ''x-signature-timestamp'' = Some ts"
      "header_str (hq_headers rq) ''x-signature-nonce'' = Some n" "header_str (hq_headers rq) ''x-signature'' = Some h"
      and sr: "signed_request E now su rq ts n h s = (s', Inr p)"
    by (auto simp: verify_signature_def Let_def split: option.splits)
  from signed_request_Inr [OF assms(1) sr hd(3)] hd show ?thesis by (simp add: signed_or_new_def)
next
  case False
  with assms(2-4) have "unsigned_request E now (su_claims su) s = Inr p" by (auto simp: verify_signature_def Let_def)
  with False show ?thesis
    by (auto simp: signed_or_new_def unsigned_request_def Let_def get_text_def split: if_splits)
qed

end
