(* ===== verification/Key_Auth_Props.thy ===== *)
theory Key_Auth_Props
  imports Key_Auth Rbac_Props
begin

section \<open>What a key lets through\<close>

text \<open>
  The list a request carries allows exactly what the key's own list and its owner's roles both allow, and a request
  that passes the middleware carries a live key of an active user whose roles grant the surface.
\<close>

subsection \<open>Intersections\<close>

lemma starts_with_self: "starts_with m m"
  by (simp add: starts_with_iff)

lemma prefixes_comparable:
  assumes "starts_with m a" "starts_with m b"
  shows "starts_with a b \<or> starts_with b a"
  using assms by (auto simp: starts_with_iff append_eq_append_conv2)

lemma model_entry_covers_trans: "model_entry_covers g e \<Longrightarrow> starts_with m e \<Longrightarrow> starts_with m g"
  by (auto simp: model_entry_covers_def starts_with_iff)

lemma pattern_star [simp]: "pattern_matches ''*'' name"
  by (simp add: pattern_matches_def)

lemma pattern_exact:
  assumes "pattern_matches e name" "e \<noteq> ''*''" "\<not> ends_with e ''__*''"
  shows "e = name"
proof -
  have "strip_suffix e ''__*'' = None" using assms(3) by (simp add: strip_suffix_def)
  with assms(1,2) show ?thesis by (auto simp: pattern_matches_def split: option.splits if_splits)
qed

lemma mcp_entry_covers_trans:
  assumes "mcp_entry_covers g e" "pattern_matches e name"
  shows "pattern_matches g name"
  using assms pattern_exact [OF assms(2)]
  by (auto simp: mcp_entry_covers_def is_tool_allowed_def split: if_splits)

lemma pattern_wild_server:
  assumes "pattern_matches e name" "ends_with e ''__*''"
  obtains server t where "e = server @ ''__*''" "split_once name ''__'' = Some (server, t)"
proof -
  have "strip_suffix e ''__*'' \<noteq> None" using assms(2) by (simp add: strip_suffix_def)
  then obtain server where s: "strip_suffix e ''__*'' = Some server" by blast
  then have e: "e = server @ ''__*''" by (simp add: strip_suffix_Some)
  then have "e \<noteq> ''*''" by auto
  with assms(1) s obtain t where "split_once name ''__'' = Some (server, t)"
    by (auto simp: pattern_matches_def split: option.splits if_splits)
  with e that show thesis by blast
qed

lemma mcp_patterns_comparable:
  assumes "pattern_matches a name" "pattern_matches b name"
  shows "mcp_entry_covers a b \<or> mcp_entry_covers b a"
proof (cases "a = ''*'' \<or> b = ''*''")
  case False
  show ?thesis
  proof (cases "ends_with a ''__*''")
    case wild: True
    show ?thesis
    proof (cases "ends_with b ''__*''")
      case True
      obtain s t where a: "a = s @ ''__*''" "split_once name ''__'' = Some (s, t)"
        using pattern_wild_server [OF assms(1) wild] .
      obtain s' t' where "b = s' @ ''__*''" "split_once name ''__'' = Some (s', t')"
        using pattern_wild_server [OF assms(2) True] .
      with a have "a = b" by simp
      then show ?thesis by (simp add: mcp_entry_covers_def)
    next
      case exact: False
      then have "b = name" using pattern_exact [OF assms(2)] False by blast
      with assms(1) False exact show ?thesis by (simp add: mcp_entry_covers_def is_tool_allowed_def)
    qed
  next
    case exact: False
    then have "a = name" using pattern_exact [OF assms(1)] False by blast
    with assms(2) False exact show ?thesis by (simp add: mcp_entry_covers_def is_tool_allowed_def)
  qed
qed (auto simp: mcp_entry_covers_def)

text \<open>Both kinds of entry are a case of one: a relation that entries cover each other by.\<close>

locale entry_order =
  fixes covers :: "string \<Rightarrow> string \<Rightarrow> bool" and matches :: "string \<Rightarrow> string \<Rightarrow> bool"
  assumes covers_trans: "covers g e \<Longrightarrow> matches e name \<Longrightarrow> matches g name"
    and comparable: "matches a name \<Longrightarrow> matches b name \<Longrightarrow> covers a b \<or> covers b a"
begin

definition admits :: "string list option \<Rightarrow> string \<Rightarrow> bool" where
  "admits l name = (case l of None \<Rightarrow> True | Some es \<Rightarrow> list_ex (\<lambda>e. matches e name) es)"

lemma admits_intersect: "admits (intersect_allowlists k r covers) name \<longleftrightarrow> admits k name \<and> admits r name"
proof (cases k; cases r)
  fix ks rs assume [simp]: "k = Some ks" "r = Some rs"
  have "admits (intersect_allowlists k r covers) name \<longleftrightarrow>
      (\<exists>e \<in> set ks. matches e name \<and> (\<exists>g \<in> set rs. covers g e)) \<or> (\<exists>e \<in> set rs. matches e name \<and> (\<exists>g \<in> set ks. covers g e))"
    by (auto simp: intersect_allowlists_def admits_def covered_def list_ex_iff)
  also have "\<dots> \<longleftrightarrow> admits k name \<and> admits r name"
    using comparable covers_trans by (auto simp: admits_def list_ex_iff) blast+
  finally show ?thesis .
qed (simp_all add: intersect_allowlists_def admits_def)

end

interpretation model_entries: entry_order model_entry_covers "\<lambda>e m. starts_with m e"
proof
  show "starts_with m g" if "model_entry_covers g e" "starts_with m e" for g e m
    using that by (rule model_entry_covers_trans)
  show "model_entry_covers a b \<or> model_entry_covers b a" if "starts_with m a" "starts_with m b" for a b m
    using prefixes_comparable [OF that] by (auto simp: model_entry_covers_def)
qed

interpretation tool_entries: entry_order mcp_entry_covers pattern_matches
  by unfold_locales (rule mcp_entry_covers_trans mcp_patterns_comparable; assumption)+

definition models_allow :: "string list option \<Rightarrow> string \<Rightarrow> bool" where
  "models_allow l model = may_call \<lparr>gi_user_id = None, gi_user_email = None, gi_api_key_id = None,
     gi_api_key_lineage_id = None, gi_allowed_models = l, gi_surface_constraints = SurfaceConstraints_default,
     gi_key_constraints = SurfaceConstraints_default, gi_ip_address = None, gi_key_expires_at = None\<rparr> model"

lemma models_allow_admits: "models_allow l model = model_entries.admits l model"
  by (auto simp: models_allow_def may_call_def model_entries.admits_def list_ex_iff split: option.splits intro: starts_with_self)

lemma may_call_models_allow: "may_call i model = models_allow (gi_allowed_models i) model"
  by (simp add: models_allow_def may_call_def)

lemma is_tool_allowed_admits: "is_tool_allowed l name = tool_entries.admits l name"
  by (simp add: is_tool_allowed_def tool_entries.admits_def)

text \<open>
  (C26) A key's list and the role's list merged: a model passes the merged list exactly when it passes both, where an
  entry is a prefix of the models it allows; and so for tools, where an entry is a name, all tools of a server, or
  everything. An entry of one list survives when the other covers it, and that loses nothing because two entries
  that allow one name are always comparable.
\<close>

theorem merged_lists_allow_what_both_allow:
  "(models_allow (intersect_allowlists k r model_entry_covers) model \<longleftrightarrow> models_allow k model \<and> models_allow r model) \<and>
   (is_tool_allowed (intersect_allowlists k' r' mcp_entry_covers) tool \<longleftrightarrow> is_tool_allowed k' tool \<and> is_tool_allowed r' tool)"
  by (simp add: models_allow_admits is_tool_allowed_admits model_entries.admits_intersect tool_entries.admits_intersect)

subsection \<open>A request that passes\<close>

definition key_admits :: "key_env \<Rightarrow> string \<Rightarrow> http_request \<Rightarrow> key_times \<Rightarrow> auth_db \<Rightarrow> ApiKey \<Rightarrow> bool" where
  "key_admits E surface rq t db row \<longleftrightarrow>
     (\<exists>token. presented_key (hq_headers rq) (hq_query rq) = Some token \<and> starts_with token KEY_PREFIX_TW \<and>
        row \<in> set (ad_keys db) \<and> ak_key_hash row = kn_hash E token) \<and>
     (\<exists>u. ak_user_id row = Some u \<and> user_live db u) \<and>
     key_live (kt_lookup t) (kn_inactivity_days E) row \<and>
     surface \<in> set (ak_surfaces row) \<and>
     (case ak_expires_at row of Some x \<Rightarrow> kt_expiry t \<le> x | None \<Rightarrow> True)"

lemma lookup_key_SomeD:
  assumes "lookup_key db now days hash = Some row"
  shows "row \<in> set (ad_keys db)" "ak_key_hash row = hash" "\<exists>u. ak_user_id row = Some u \<and> user_live db u"
    "key_live now days row"
  using assms by (auto simp: lookup_key_def find_Some_iff split: option.splits)

lemma authenticate_cases:
  obtains a where "authenticate E surface use rq errs t ip st = (st, Inl a)"
  | row where "key_admits E surface rq t (fst st) row"
      "authenticate E surface use rq errs t ip st = authorize_key E surface use (hq_path rq) errs t ip row st"
proof (cases "presented_key (hq_headers rq) (hq_query rq)")
  case (Some token)
  show thesis
  proof (cases "starts_with token KEY_PREFIX_TW \<and> kx_lookup errs = None")
    case ok: True
    show thesis
    proof (cases "lookup_key (fst st) (kt_lookup t) (kn_inactivity_days E) (kn_hash E token)")
      case l: (Some row)
      show thesis
      proof (cases "List.member (ak_surfaces row) surface \<and> \<not> (case ak_expires_at row of Some x \<Rightarrow> x < kt_expiry t | None \<Rightarrow> False)")
        case True
        then have "key_admits E surface rq t (fst st) row"
          using Some ok lookup_key_SomeD [OF l] by (auto simp: key_admits_def List.member_iff split: option.splits)
        with True Some ok l that(2) show thesis by (simp add: authenticate_def)
      next
        case False
        then have "\<exists>a. authenticate E surface use rq errs t ip st = (st, Inl a)"
          using Some ok l by (auto simp: authenticate_def)
        with that(1) show thesis by blast
      qed
    qed (use Some ok that(1) in \<open>simp add: authenticate_def\<close>)
  next
    case False
    then have "\<exists>a. authenticate E surface use rq errs t ip st = (st, Inl a)"
      using Some by (auto simp: authenticate_def)
    with that(1) show thesis by blast
  qed
qed (use that(1) in \<open>simp add: authenticate_def\<close>)

lemma authenticate_InrD:
  assumes "authenticate E surface use rq errs t ip st = (st', Inr r)"
  obtains row where "key_admits E surface rq t (fst st) row"
    "authorize_key E surface use (hq_path rq) errs t ip row st = (st', Inr r)"
  using assms by (cases rule: authenticate_cases [of E surface use rq errs t ip st]) auto

lemma request_identities_InrD:
  assumes "request_identities surface errs ip db row rl names limits = Inr (gi, mi)"
  shows "gi_allowed_models gi = intersect_allowlists (ak_allowed_models row) (allowed_models rl) model_entry_covers"
    "gi_user_id gi = ak_user_id row" "gi_api_key_lineage_id gi = Some (ak_lineage_id row)"
    "(gi_surface_constraints gi, gi_key_constraints gi) = limits"
    "surface = ''mcp_gateway'' \<longleftrightarrow> mi \<noteq> None"
    "\<And>q. mi = Some q \<Longrightarrow> Some (qi_user_id q) = ak_user_id row \<and> qi_api_key_lineage_id q = ak_lineage_id row \<and>
       qi_allowed_mcp_tools q = intersect_allowlists (ak_allowed_mcp_tools row) (allowed_mcp_tools rl) mcp_entry_covers \<and>
       (qi_surface_constraints q, qi_key_constraints q) = limits"
  using assms by (auto simp: request_identities_def Let_def split: if_splits option.splits)

lemma authorize_key_InrD:
  assumes "authorize_key E surface use path errs t ip row (db, log) = (st', Inr (gi, mi))"
  obtains rl names loaded limits where "load_owner E errs t db row = Inr (rl, names, loaded)" "surface_granted surface rl"
    "limits_or_refusal loaded (kn_fail_closed E) = Some limits" "use = Read \<longrightarrow> loaded = Inr limits"
    "request_identities surface errs ip db row rl names limits = Inr (gi, mi)" "snd st' = log"
  using assms
  by (auto simp: authorize_key_def Let_def limits_or_refusal_def split: sum.splits if_splits option.splits prod.splits)

lemma limits_loaded:
  assumes "limits_or_refusal loaded fc = Some limits" and "fc"
  shows "loaded = Inr limits"
  using assms by (auto simp: limits_or_refusal_def split: sum.splits)

lemma load_owner_InrD:
  assumes "load_owner E errs t db row = Inr (rl, names, loaded)" "ak_user_id row = Some u"
  shows "compute_user_resource_limits (kn_from_doc E) (kx_roles errs) (rbac_part (ad_limits db)) u = Inr rl"
    "loaded = load_request_limits E errs t (ad_limits db) u (ak_lineage_id row)"
  using assms by (auto simp: load_owner_def split: sum.splits)

text \<open>
  (C6) A request that passes the middleware of a gateway presented a key that is in the table, not deleted, active or in
  its grace period, not idle too long, not expired, and issued for this surface; its owner is an active user whose
  roles grant the surface. It may call exactly the models and tools that the key's lists and the roles both allow.
  When limits must not be skipped, or the request reads about the key, the limits it carries are the ones loaded for
  the owner and for the key's lineage.
\<close>

theorem passed_key_is_live_and_narrowed:
  assumes "authenticate E surface use rq errs t ip st = (st', Inr (gi, mi))"
  shows "\<exists>row u rl. key_admits E surface rq t (fst st) row \<and> ak_user_id row = Some u \<and>
     compute_user_resource_limits (kn_from_doc E) (kx_roles errs) (rbac_part (ad_limits (fst st))) u = Inr rl \<and>
     surface_granted surface rl \<and> gi_user_id gi = Some u \<and>
     (\<forall>model. may_call gi model \<longleftrightarrow> models_allow (ak_allowed_models row) model \<and> models_allow (allowed_models rl) model) \<and>
     (surface = ''mcp_gateway'' \<longleftrightarrow> mi \<noteq> None) \<and>
     (\<forall>q. mi = Some q \<longrightarrow> qi_user_id q = u \<and>
        (\<forall>tool. is_tool_allowed (qi_allowed_mcp_tools q) tool \<longleftrightarrow>
           is_tool_allowed (ak_allowed_mcp_tools row) tool \<and> is_tool_allowed (allowed_mcp_tools rl) tool)) \<and>
     (kn_fail_closed E \<or> use = Read \<longrightarrow>
        load_request_limits E errs t (ad_limits (fst st)) u (ak_lineage_id row) =
          Inr (gi_surface_constraints gi, gi_key_constraints gi)) \<and>
     snd st' = snd st"
proof -
  obtain db log where st: "st = (db, log)" by (cases st)
  from assms obtain row where k: "key_admits E surface rq t db row"
      and a: "authorize_key E surface use (hq_path rq) errs t ip row (db, log) = (st', Inr (gi, mi))"
    unfolding st by (rule authenticate_InrD) simp
  from k obtain u where u: "ak_user_id row = Some u" by (auto simp: key_admits_def)
  from a obtain rl names loaded limits where l: "load_owner E errs t db row = Inr (rl, names, loaded)" and g: "surface_granted surface rl"
      and lim: "limits_or_refusal loaded (kn_fail_closed E) = Some limits" and rd: "use = Read \<longrightarrow> loaded = Inr limits"
      and i: "request_identities surface errs ip db row rl names limits = Inr (gi, mi)" and log: "snd st' = log"
    by (rule authorize_key_InrD)
  note ident = request_identities_InrD [OF i]
  note own = load_owner_InrD [OF l u]
  have m: "may_call gi model \<longleftrightarrow> models_allow (ak_allowed_models row) model \<and> models_allow (allowed_models rl) model" for model
    by (simp add: may_call_models_allow ident(1) models_allow_admits model_entries.admits_intersect)
  have t: "qi_user_id q = u \<and> (\<forall>tool. is_tool_allowed (qi_allowed_mcp_tools q) tool \<longleftrightarrow>
      is_tool_allowed (ak_allowed_mcp_tools row) tool \<and> is_tool_allowed (allowed_mcp_tools rl) tool)" if "mi = Some q" for q
    using ident(6) [OF that] u by (simp add: is_tool_allowed_admits tool_entries.admits_intersect)
  have c: "load_request_limits E errs t (ad_limits db) u (ak_lineage_id row) = Inr (gi_surface_constraints gi, gi_key_constraints gi)"
    if "kn_fail_closed E \<or> use = Read"
    using that limits_loaded [OF lim] rd own(2) ident(4) by auto
  show ?thesis
    using k u own(1) g ident(2,5) m t c log by (auto simp: st)
qed

subsection \<open>A key to run it on\<close>

definition demo_use_doc :: json where
  "demo_use_doc = JObject [(''Statement'', JArray [JObject [(''Effect'', JString ''Allow''), (''Action'', JString ''ai_gateway:use''),
     (''Resource'', JString ''model:gpt-4o'')]])]"

definition demo_key :: ApiKey where
  "demo_key = \<lparr>ak_id = ''k'', ak_key_prefix = ''tw-'', ak_key_hash = ''tw-1'', ak_name = ''n'', ak_user_id = Some ''u'',
     ak_surfaces = [''ai_gateway''], ak_allowed_models = Some [''gpt-4o-mini''], ak_allowed_mcp_tools = None,
     ak_mcp_account_overrides = JNull, ak_expires_at = Some 10, ak_is_active = True, ak_last_used_at = None, ak_created_at = 0,
     ak_deleted_at = None, ak_rotation_period_days = None, ak_rotated_from_id = None, ak_grace_period_ends_at = None,
     ak_inactivity_timeout_days = None, ak_disabled_reason = None, ak_last_rotation_at = None, ak_lineage_id = ''l'',
     ak_cost_center = None, ak_last_expiry_warning_days = None\<rparr>"

definition demo_auth_db :: auth_db where
  "demo_auth_db = \<lparr>ad_limits = \<lparr>rbac_part = \<lparr>role_assignments = [\<lparr>ra_user_id = ''u'', ra_role_id = ''r'',
       ra_scope_kind = ''global'', ra_scope_id = None\<rparr>], team_members = [], team_role_assignments = [],
       roles = [\<lparr>role_id = ''r'', role_name = ''dev'', policy_document = demo_use_doc, role_description = None, role_is_system = False,
         role_created_by = None, role_created_at = 0, role_updated_at = 0\<rparr>], team_rows = []\<rparr>, rate_limit_rules = [], budget_caps = []\<rparr>,
     ad_keys = [demo_key],
     ad_users = [\<lparr>us_id = ''u'', us_email = ''e'', us_display_name = ''U'', us_password_hash = Some ''h'', us_oidc_subject = None,
       us_oidc_issuer = None, us_avatar_url = None, us_is_active = True, us_totp_secret = None, us_totp_enabled = False,
       us_totp_recovery_codes = None, us_password_change_required = False, us_created_at = 0, us_updated_at = 0,
       us_deleted_at = None\<rparr>]\<rparr>"

definition demo_key_env :: key_env where
  "demo_key_env = \<lparr>kn_hash = id, kn_from_doc = (\<lambda>_. None), kn_from_cons = (\<lambda>_. None), kn_kind = (\<lambda>_. OtherDb),
     kn_inactivity_days = 0, kn_fail_closed = True\<rparr>"

definition demo_errs :: key_errs where
  "demo_errs = \<lparr>kx_lookup = None, kx_touch = None, kx_roles = None, kx_names = None, kx_user = (None, None, None),
     kx_key = (None, None), kx_email = None\<rparr>"

definition demo_key_times :: key_times where
  "demo_key_times = \<lparr>kt_lookup = 1, kt_expiry = 2, kt_touch = 3, kt_user = 4, kt_key = 5\<rparr>"

definition demo_request :: http_request where
  "demo_request = \<lparr>hq_method = ''POST'', hq_path = ''/v1/messages'', hq_query = None,
     hq_headers = [(''x-api-key'', Some ''tw-1'')], hq_body = []\<rparr>"

definition demo_gi :: GatewayRequestIdentity where
  "demo_gi = \<lparr>gi_user_id = Some ''u'', gi_user_email = Some ''e'', gi_api_key_id = Some ''k'',
     gi_api_key_lineage_id = Some ''l'', gi_allowed_models = Some [''gpt-4o-mini''],
     gi_surface_constraints = SurfaceConstraints_default, gi_key_constraints = SurfaceConstraints_default,
     gi_ip_address = None, gi_key_expires_at = Some 10\<rparr>"

lemma demo_authenticates:
  "authenticate demo_key_env ''ai_gateway'' Call demo_request demo_errs demo_key_times None (demo_auth_db, []) =
     ((demo_auth_db\<lparr>ad_keys := [demo_key\<lparr>ak_last_used_at := Some 3\<rparr>]\<rparr>, []), Inr (demo_gi, None))"
  by code_simp

theorem passed_key_is_live_and_narrowed_witness:
  "authenticate demo_key_env ''ai_gateway'' Call demo_request demo_errs demo_key_times None (demo_auth_db, []) =
     ((demo_auth_db\<lparr>ad_keys := [demo_key\<lparr>ak_last_used_at := Some 3\<rparr>]\<rparr>, []), Inr (demo_gi, None)) \<and>
   (\<exists>row u rl. key_admits demo_key_env ''ai_gateway'' demo_request demo_key_times demo_auth_db row \<and>
      ak_user_id row = Some u \<and> surface_granted ''ai_gateway'' rl \<and>
      load_request_limits demo_key_env demo_errs demo_key_times (ad_limits demo_auth_db) u (ak_lineage_id row) =
        Inr (SurfaceConstraints_default, SurfaceConstraints_default))"
proof -
  have "kn_fail_closed demo_key_env" "gi_surface_constraints demo_gi = SurfaceConstraints_default"
      "gi_key_constraints demo_gi = SurfaceConstraints_default"
    by (simp_all add: demo_key_env_def demo_gi_def)
  with passed_key_is_live_and_narrowed [OF demo_authenticates] demo_authenticates show ?thesis by auto
qed

subsection \<open>What the middleware writes\<close>

lemma touch_key_frame:
  "ad_limits (touch_key err now i db) = ad_limits db" "ad_users (touch_key err now i db) = ad_users db"
  "map (\<lambda>k. k\<lparr>ak_last_used_at := None\<rparr>) (ad_keys (touch_key err now i db)) = map (\<lambda>k. k\<lparr>ak_last_used_at := None\<rparr>) (ad_keys db)"
  by (auto simp: touch_key_def split: option.split)

text \<open>
  Reading about a key is not a use of it: the tables stay as they were, whatever the answer. A call writes the time
  of use of one key and nothing else, and a request that is refused before its key is known to be good writes
  nothing at all.
\<close>

theorem middleware_writes_last_use_only:
  "let st' = fst (authenticate E surface use rq errs t ip st) in
     (fst st' = fst st \<or>
      (use = Call \<and> (\<exists>row. key_admits E surface rq t (fst st) row \<and>
         fst st' = touch_key (kx_touch errs) (kt_touch t) (ak_id row) (fst st))))"
proof -
  obtain db log where st: "st = (db, log)" by (cases st)
  have frame: "fst (fst (authorize_key E surface use p errs t ip row (db, log))) =
      (if use = Call then touch_key (kx_touch errs) (kt_touch t) (ak_id row) db else db)" for p row
    by (simp add: authorize_key_def Let_def split: sum.split prod.split option.split)
  show ?thesis
    by (cases rule: authenticate_cases [of E surface use rq errs t ip st]) (auto simp: st frame Let_def)
qed

end
