(* ===== verification/Console_Props.thy ===== *)
theory Console_Props
  imports Console_Auth Signing_Props Key_Auth_Props
begin

section \<open>What the console lets through\<close>

text \<open>
  A request that reaches a handler of the console comes from a current session or a live key; a session that was ended
  stays out; nobody widens their own limits by a grant that is scoped to a team; and an address other than that of the
  connection is believed only on proof.
\<close>

subsection \<open>Scopes\<close>

lemma granted_in_mono: "granted_in S db u perm ok \<Longrightarrow> (\<And>a. ok a \<Longrightarrow> ok' a) \<Longrightarrow> granted_in S db u perm ok'"
  by (auto simp: granted_in_def list_ex_iff)

lemma assert_scope_global_ok: "assert_scope_global S err db au perm = Inr x \<Longrightarrow> global_grant S db (cm_sub (au_claims au)) perm"
  by (auto simp: assert_scope_global_def split: option.splits if_splits)

lemma assert_scope_for_user_ok:
  "assert_scope_for_user S err db au perm t = Inr x \<Longrightarrow>
     t = cm_sub (au_claims au) \<or> granted_in S db (cm_sub (au_claims au)) perm (covers_user db t)"
  by (auto simp: assert_scope_for_user_def split: option.splits if_splits)

text \<open>The user a limit's subject belongs to, as the check reads it: none for a role and for a key without an owner.\<close>

definition subject_owner :: "auth_db \<Rightarrow> string \<Rightarrow> uuid \<Rightarrow> uuid option" where
  "subject_owner db kind i =
     (if kind = ''user'' then Some i
      else if kind = ''api_key'' then key_owner (ad_keys db) ak_id i
      else if kind = ''api_key_lineage'' then key_owner (ad_keys db) ak_lineage_id i
      else None)"

text \<open>
  Limits are changed with a grant that reaches them. A grant scoped to a team reaches the other members of that team
  and their keys; the caller's own user and keys, a role, and a key that belongs to nobody are reached by a global
  grant only. So a team manager cannot lift the limits they are held to.
\<close>

theorem own_limits_need_a_global_grant:
  assumes "assert_scope_for_subject S errs db au perm kind i = Inr ()"
  shows "global_grant S (rbac_part (ad_limits db)) (cm_sub (au_claims au)) perm \<or>
    (\<exists>u. subject_owner db kind i = Some u \<and> u \<noteq> cm_sub (au_claims au) \<and>
       granted_in S (rbac_part (ad_limits db)) (cm_sub (au_claims au)) perm (covers_user (rbac_part (ad_limits db)) u))"
  using assms
  by (auto simp: assert_scope_for_subject_def subject_owner_def Let_def split: if_splits option.splits
      dest: assert_scope_global_ok assert_scope_for_user_ok)

subsection \<open>Addresses\<close>

lemma presents_proxy_secret_iff:
  "presents_proxy_secret h secret \<longleftrightarrow> (\<exists>s. secret = Some s \<and> s \<noteq> [] \<and> header_str h PROXY_SECRET_HEADER = Some s)"
  by (cases secret) (auto simp: presents_proxy_secret_def opt_filter_def list.rel_eq split: option.split)

text \<open>
  A request counts as coming from an address other than its connection's only when it carries the proxy secret, or the
  settings name a header as the source and the connection comes from a proxy on the list. Then the address is the one
  that header gives. With neither, no header changes the address.
\<close>

theorem forwarded_address_needs_proof:
  assumes "resolve_client_ip c h conn = Some ip" "conn \<noteq> Some ip"
  shows "((\<exists>s. ic_proxy_secret c = Some s \<and> s \<noteq> [] \<and> header_str h PROXY_SECRET_HEADER = Some s) \<or>
      (ic_source c \<noteq> ''connection'' \<and> whitelisted c conn)) \<and>
    forwarded_ip (if ic_source c = ''connection'' then ''x-real-ip'' else ic_source c) c h = Some ip \<and> ip \<noteq> []"
proof -
  from assms have f: "forwarded_ip (if ic_source c = ''connection'' then ''x-real-ip'' else ic_source c) c h = Some ip"
    by (auto simp: resolve_client_ip_def Let_def or_else_Some split: if_splits)
  then have "ip \<noteq> []" by (auto simp: forwarded_ip_def Let_def bind_eq_Some_conv split: if_splits)
  moreover have "presents_proxy_secret h (ic_proxy_secret c) \<or> (ic_source c \<noteq> ''connection'' \<and> whitelisted c conn)"
    using assms by (auto simp: resolve_client_ip_def Let_def split: if_splits)
  ultimately show ?thesis using f by (simp add: presents_proxy_secret_iff)
qed

subsection \<open>Sessions and keys\<close>

definition session_current :: "guard_env \<Rightarrow> 's redis_ttl \<Rightarrow> int \<Rightarrow> http_request \<Rightarrow> auth_db \<Rightarrow> 's \<Rightarrow> AuthUser \<Rightarrow> bool" where
  "session_current G Q now rq db s au \<longleftrightarrow>
     (\<exists>bearer. bearer_of (hq_headers rq) = Some bearer \<and> ge_verify_token G now bearer = Some (au_claims au) \<and>
        ttl_get Q now s (blacklist_key (ge_token_hash G bearer)) = None) \<and>
     cm_token_type (au_claims au) = ''access'' \<and> before_epoch Q now (au_claims au) s = Some False \<and>
     (\<exists>r. live_row db (cm_sub (au_claims au)) = Some r \<and> us_is_active r \<and>
        (us_totp_enabled r \<or> reachable_before_totp_enrollment (hq_path rq) \<or> \<not> ge_totp_required G))"

definition console_key_live :: "guard_env \<Rightarrow> int \<Rightarrow> http_request \<Rightarrow> auth_db \<Rightarrow> AuthUser \<Rightarrow> bool" where
  "console_key_live G now rq db au \<longleftrightarrow>
     (\<exists>bearer row. bearer_of (hq_headers rq) = Some bearer \<and> starts_with bearer KEY_PREFIX_TW \<and> row \<in> set (ad_keys db) \<and>
        ak_key_hash row = ge_key_hash G bearer \<and> ak_user_id row = Some (cm_sub (au_claims au)) \<and>
        user_live db (cm_sub (au_claims au)) \<and> key_live (now * 1000) (ge_inactivity_days G) row \<and>
        ''console'' \<in> set (ak_surfaces row) \<and> (case ak_expires_at row of Some x \<Rightarrow> now * 1000 \<le> x | None \<Rightarrow> True))"

lemma auth_via_api_key_Inr:
  assumes "auth_via_api_key G Q now errs token rq ip (db, s) = (st', Inr au)"
  obtains row where "lookup_key db (now * 1000) (ge_inactivity_days G) (ge_key_hash G token) = Some row"
    "List.member (ak_surfaces row) ''console''" "\<not> (case ak_expires_at row of Some x \<Rightarrow> x < now * 1000 | None \<Rightarrow> False)"
    "ak_user_id row = Some (cm_sub (au_claims au))"
proof -
  from assms obtain row where l: "lookup_key db (now * 1000) (ge_inactivity_days G) (ge_key_hash G token) = Some row"
    by (cases "gx_lookup errs"; cases "lookup_key db (now * 1000) (ge_inactivity_days G) (ge_key_hash G token)")
      (simp_all add: auth_via_api_key_def)
  with assms have c: "List.member (ak_surfaces row) ''console''"
      "\<not> (case ak_expires_at row of Some x \<Rightarrow> x < now * 1000 | None \<Rightarrow> False)"
    by (auto simp: auth_via_api_key_def simp del: not_less split: option.splits if_splits)
  obtain s1 n where f: "fixed_incr Q (now, now) (''rl:console_key:'' @ ak_id row) 60 s = (s1, n)" by (metis prod.exhaust)
  from assms l c f have "ak_user_id row = Some (cm_sub (au_claims au))"
    by (cases "gx_lookup errs"; cases "ak_user_id row")
      (auto simp: auth_via_api_key_def simp del: not_less split: sum.splits prod.splits option.splits if_splits)
  with that l c show thesis by blast
qed

lemma session_user_of_Inr:
  assumes "session_user_of G Q now errs cm rq ip (db, s) = (st', Inr au)"
  shows "au_claims au = cm"
    "\<exists>r. live_row db (cm_sub cm) = Some r \<and> us_is_active r \<and>
       (us_totp_enabled r \<or> reachable_before_totp_enrollment (hq_path rq) \<or> \<not> ge_totp_required G)"
    "au_ip au = resolve_client_ip (ge_ip G) (hq_headers rq) ip"
  using assms by (auto simp: session_user_of_def split: option.splits if_splits prod.splits sum.splits)

lemma is_revoked_False: "is_revoked Q now h s = Inr False \<longleftrightarrow> rt_err Q s (blacklist_key h) = None \<and> ttl_get Q now s (blacklist_key h) = None"
  by (auto simp: is_revoked_def split: option.split)

lemma require_auth_Inr:
  assumes "require_auth G Q now errs rq ip (db, s) = (st', Inr (by_key, au))"
  shows "if by_key then console_key_live G now rq db au else session_current G Q now rq db s au"
proof -
  from assms obtain b where b: "bearer_of (hq_headers rq) = Some b"
    by (cases "bearer_of (hq_headers rq)") (simp_all add: require_auth_def)
  show ?thesis
  proof (cases "starts_with b KEY_PREFIX_TW")
    case True
    with assms b obtain x where a: "auth_via_api_key G Q now errs b rq ip (db, s) = (st', x)"
        and x: "map_sum id (Pair True) x = Inr (by_key, au)"
      by (auto simp: require_auth_def map_prod_def split: prod.splits)
    from x have [simp]: "by_key" and xr: "x = Inr au" by (cases x; simp)+
    from a [unfolded xr] obtain row where "lookup_key db (now * 1000) (ge_inactivity_days G) (ge_key_hash G b) = Some row"
      "List.member (ak_surfaces row) ''console''" "\<not> (case ak_expires_at row of Some x \<Rightarrow> x < now * 1000 | None \<Rightarrow> False)"
      "ak_user_id row = Some (cm_sub (au_claims au))" by (rule auth_via_api_key_Inr)
    with lookup_key_SomeD [OF this(1)] b True show ?thesis
      by (auto simp: console_key_live_def List.member_iff split: option.splits)
  next
    case False
    with assms b obtain cm where v: "ge_verify_token G now b = Some cm" and ty: "cm_token_type cm = ''access''"
        and rv: "is_revoked Q now (ge_token_hash G b) s = Inr False" and ep: "before_epoch Q now cm s = Some False"
        and m: "map_prod id (map_sum id (Pair False)) (session_user_of G Q now errs cm rq ip (db, s)) = (st', Inr (by_key, au))"
      by (auto simp: require_auth_def split: option.splits if_splits)
    obtain st'' x where so: "session_user_of G Q now errs cm rq ip (db, s) = (st'', x)" by (metis prod.exhaust)
    with m have "map_sum id (Pair False) x = Inr (by_key, au)" by simp
    then have bk: "\<not> by_key" and x: "x = Inr au" by (cases x; simp)+
    note u = session_user_of_Inr [OF so [unfolded x]]
    show ?thesis using bk b v ty rv ep u by (auto simp: session_current_def is_revoked_False)
  qed
qed

lemma console_request_Inr:
  assumes "console_request G E now errs rq ip (db, s) = (st', Inr (au, p))"
  obtains k db1 s1 s' where "require_auth G (sg_redis E) now errs rq ip (db, s) = ((db1, s1), Inr (k, au))"
    "verify_signature E now k (Some \<lparr>su_claims = au_claims au, su_ip = au_ip au\<rparr>) rq s1 = (s', Inr p)"
proof -
  obtain db1 s1 x where r: "require_auth G (sg_redis E) now errs rq ip (db, s) = ((db1, s1), x)" by (metis prod.exhaust)
  show thesis
  proof (cases x)
    case (Inl a)
    with r assms show thesis by (simp add: console_request_def)
  next
    case (Inr y)
    obtain k au' where y: "y = (k, au')" by (metis prod.exhaust)
    obtain s' w where v: "verify_signature E now k (Some \<lparr>su_claims = au_claims au', su_ip = au_ip au'\<rparr>) rq s1 = (s', w)"
      by (metis prod.exhaust)
    with r Inr y assms obtain "au' = au" "w = Inr p"
      by (cases w) (simp_all add: console_request_def)
    with that r Inr y v show thesis by blast
  qed
qed


subsection \<open>Ending sessions\<close>

lemma epoch_mark:
  assumes "ttl_laws Q" "\<not> (fst down \<and> snd down)" "fst ts \<le> snd ts"
    and mark: "rt_entry Q s' (epoch_key u) = rt_entry Q (invalidate_refresh_tokens Q ts down u days s) (epoch_key u)"
    and time: "now < fst ts + days * 86400 * 1000" "- (2 ^ 63) \<le> fst ts" "snd ts < 2 ^ 63"
  obtains t where "fst ts \<le> t" "t \<le> snd ts"
    "\<And>cm :: AuthClaims. cm_sub cm = u \<Longrightarrow> rt_err Q s' (epoch_key u) = None \<Longrightarrow> before_epoch Q now cm s' = Some (cm_iat cm \<le> t div 1000)"
proof -
  obtain t where t: "fst ts \<le> t" "t \<le> snd ts"
      and inv: "invalidate_refresh_tokens Q ts down u days s = set_ex Q t (epoch_key u) (show_int (t div 1000)) (days * 86400) s"
  proof (cases "fst down")
    case True
    with assms(2,3) that [of "snd ts"] show thesis by (simp add: invalidate_refresh_tokens_def)
  next
    case False
    with assms(3) that [of "fst ts"] show thesis by (simp add: invalidate_refresh_tokens_def)
  qed
  have "ttl_get Q now s' (epoch_key u) = Some (show_int (t div 1000))"
    using ttl_laws.get_entry_cong [OF assms(1) mark] inv time t by (simp add: ttl_laws.get_set_ex [OF assms(1)])
  moreover have "parse_i64_str (show_int (t div 1000)) = Some (t div 1000)"
  proof -
    have "t = 1000 * (t div 1000) + t mod 1000" "0 \<le> t mod 1000" "t mod 1000 < 1000" by simp_all
    then have "- (2 ^ 63) \<le> t div 1000" "t div 1000 < 2 ^ 63" using t time(2,3) by linarith+
    then show ?thesis by (simp add: parse_i64_str_def)
  qed
  ultimately show thesis using t by (intro that [of t]) (simp_all add: before_epoch_def)
qed

text \<open>
  Ending a user's sessions, on a password change or by an administrator, keeps out every access token issued until then,
  those of the same second included, for as long as a refresh token could live: as long as one of the two attempts
  reaches Redis. It holds whatever else happens there, as long as the mark itself is left alone.
\<close>

theorem ended_sessions_stay_out:
  assumes "ttl_laws Q" "\<not> (fst down \<and> snd down)" "fst ts \<le> snd ts"
    and mark: "rt_entry Q s' (epoch_key u) = rt_entry Q (invalidate_refresh_tokens Q ts down u days s) (epoch_key u)"
    and time: "now < fst ts + days * 86400 * 1000"
    and tok: "bearer_of (hq_headers rq) = Some b" "\<not> starts_with b KEY_PREFIX_TW" "ge_verify_token G now b = Some cm"
      "cm_sub cm = u" "cm_iat cm \<le> fst ts div 1000" "- (2 ^ 63) \<le> fst ts" "snd ts < 2 ^ 63"
  shows "require_auth G Q now errs rq ip (db, s') = ((db, s'), Inl (bare 401))"
proof -
  obtain t where t: "fst ts \<le> t"
    and e: "\<And>cm :: AuthClaims. cm_sub cm = u \<Longrightarrow> rt_err Q s' (epoch_key u) = None \<Longrightarrow> before_epoch Q now cm s' = Some (cm_iat cm \<le> t div 1000)"
    using epoch_mark [OF assms(1-3) mark time tok(6,7)] by blast
  have "cm_iat cm \<le> t div 1000" using tok(5) t by (meson order_trans zdiv_mono1 zero_less_numeral)
  with e [OF tok(4)] tok(4) have "before_epoch Q now cm s' \<noteq> Some False"
    by (cases "rt_err Q s' (epoch_key u)") (simp_all add: before_epoch_def)
  with tok show ?thesis by (simp add: require_auth_def)
qed

subsection \<open>A console to run it on\<close>

definition demo_ip :: ip_config where
  "demo_ip = \<lparr>ic_source = ''x-real-ip'', ic_xff_position = ''left'', ic_xff_depth = 1, ic_trusted_proxies = Some ''9.9.9.9'',
     ic_proxy_secret = None\<rparr>"

theorem forwarded_address_needs_proof_witness:
  "resolve_client_ip demo_ip [(''x-real-ip'', Some ''1.2.3.4'')] (Some ''9.9.9.9'') = Some ''1.2.3.4'' \<and>
   (ic_source demo_ip \<noteq> ''connection'' \<and> whitelisted demo_ip (Some ''9.9.9.9'')) \<and>
   forwarded_ip ''x-real-ip'' demo_ip [(''x-real-ip'', Some ''1.2.3.4'')] = Some ''1.2.3.4''"
proof -
  have r: "resolve_client_ip demo_ip [(''x-real-ip'', Some ''1.2.3.4'')] (Some ''9.9.9.9'') = Some ''1.2.3.4''" by code_simp
  have c: "ic_source demo_ip = ''x-real-ip''" "ic_proxy_secret demo_ip = None" by (simp_all add: demo_ip_def)
  from forwarded_address_needs_proof [OF r] r c show ?thesis by simp
qed

definition demo_guard :: guard_env where
  "demo_guard = \<lparr>ge_sql = \<lparr>sq_like = (\<lambda>_ _. False), sq_text = (\<lambda>_. [])\<rparr>, ge_all_perms = [], ge_from_doc = (\<lambda>_. None),
     ge_kind = (\<lambda>_. OtherDb), ge_parse_json = (\<lambda>_. None), ge_show_json = (\<lambda>_. []),
     ge_verify_token = (\<lambda>now t. if t = ''jwt'' then Some (su_claims demo_su) else None), ge_token_hash = id, ge_key_hash = id,
     ge_inactivity_days = 0, ge_totp_required = False, ge_ip = demo_ip\<rparr>"

definition demo_no_errs :: guard_errs where
  "demo_no_errs = \<lparr>gx_user = None, gx_perms = (None, None), gx_lookup = None, gx_email = None, gx_touch = None\<rparr>"

definition demo_console_rq :: http_request where
  "demo_console_rq = (demo_signed ''300'' ''n'')\<lparr>hq_headers := (''authorization'', Some ''Bearer jwt'') # hq_headers (demo_signed ''300'' ''n'')\<rparr>"

definition demo_au :: AuthUser where
  "demo_au = \<lparr>au_claims = su_claims demo_su, au_ip = Some ''1.2.3.4'', au_user_agent = None, au_permissions = [''ai_gateway:use''],
     au_denied_permissions = [], au_scope_cache = []\<rparr>"

definition demo_asked :: "(auth_db \<times> ttl_mem) \<times> (answer + AuthUser \<times> sig_pass)" where
  "demo_asked = console_request demo_guard (demo_sig 601) 0 demo_no_errs demo_console_rq (Some ''1.2.3.4'') (demo_auth_db, demo_keyed 0)"

lemma demo_passes: "snd demo_asked = Inr (demo_au, Signed ''300'' ''n'')"
  by code_simp


theorem ended_sessions_stay_out_witness:
  "require_auth demo_guard mem_ttl 1000 demo_no_errs demo_console_rq None
     (demo_auth_db, invalidate_refresh_tokens mem_ttl (0, 500) (True, False) ''u'' 7 (demo_keyed 0)) =
   ((demo_auth_db, invalidate_refresh_tokens mem_ttl (0, 500) (True, False) ''u'' 7 (demo_keyed 0)), Inl (bare 401))"
  by (rule ended_sessions_stay_out [OF mem_ttl.ttl_laws_axioms _ _ refl, where b = "''jwt''" and cm = "su_claims demo_su"])
    (code_simp+)

definition demo_manager_db :: auth_db where
  "demo_manager_db = demo_auth_db\<lparr>ad_limits := (ad_limits demo_auth_db)\<lparr>rbac_part := (rbac_part (ad_limits demo_auth_db))
     \<lparr>role_assignments := [\<lparr>ra_user_id = ''u'', ra_role_id = ''r'', ra_scope_kind = ''team'', ra_scope_id = Some ''t''\<rparr>],
      team_members := [(''t'', ''u''), (''t'', ''v'')]\<rparr>\<rparr>\<rparr>"

theorem own_limits_need_a_global_grant_witness:
  "assert_scope_for_subject (ge_sql demo_guard) (None, None) demo_manager_db demo_au ''ai_gateway:use'' ''user'' ''v'' = Inr () \<and>
   granted_in (ge_sql demo_guard) (rbac_part (ad_limits demo_manager_db)) ''u'' ''ai_gateway:use''
     (covers_user (rbac_part (ad_limits demo_manager_db)) ''v'')"
proof -
  have a: "assert_scope_for_subject (ge_sql demo_guard) (None, None) demo_manager_db demo_au ''ai_gateway:use'' ''user'' ''v'' = Inr ()"
    by code_simp
  have "\<not> global_grant (ge_sql demo_guard) (rbac_part (ad_limits demo_manager_db)) ''u'' ''ai_gateway:use''" by code_simp
  with own_limits_need_a_global_grant [OF a] a show ?thesis by (auto simp: subject_owner_def demo_au_def demo_su_def)
qed

end
