(* ===== verification/Key_Lifecycle_Props.thy ===== *)
theory Key_Lifecycle_Props
  imports Key_Handlers Console_Props
begin

section \<open>The life of a key\<close>

text \<open>
  Keys under everything that writes to their table: handlers, middleware, sweep, removal of users and purge, in any order
  and on any settings. A revoked key stays out, a chain of rotations has one current key, the sweep ends what the middleware
  already refuses, and a key gets into other hands only through its owner or an administrator.
\<close>

subsection \<open>What an operation does to a row\<close>

text \<open>A key that a client is meant to use: neither removed nor disabled nor replaced.\<close>

definition current :: "ApiKey \<Rightarrow> bool" where
  "current k \<longleftrightarrow> ak_deleted_at k = None \<and> ak_is_active k \<and> ak_disabled_reason k \<noteq> Some ''rotated''"

definition evolves :: "ApiKey \<Rightarrow> ApiKey \<Rightarrow> bool" where
  "evolves k k' \<longleftrightarrow>
     ak_id k' = ak_id k \<and> ak_key_hash k' = ak_key_hash k \<and> ak_lineage_id k' = ak_lineage_id k \<and>
     (ak_deleted_at k \<noteq> None \<longrightarrow> ak_deleted_at k' \<noteq> None) \<and> (current k' \<longrightarrow> current k)"

text \<open>Rows changed in place, some of them removed.\<close>

definition reworked :: "ApiKey list \<Rightarrow> ApiKey list \<Rightarrow> bool" where
  "reworked ks ks' \<longleftrightarrow> (\<exists>P f. ks' = map f (filter P ks) \<and> list_all (\<lambda>k. evolves k (f k)) ks)"

lemma evolves_refl [simp]: "evolves k k"
  by (simp add: evolves_def)

lemma evolves_trans: "evolves k k' \<Longrightarrow> evolves k' k'' \<Longrightarrow> evolves k k''"
  by (auto simp: evolves_def)

lemma reworked_map: "list_all (\<lambda>k. evolves k (f k)) ks \<Longrightarrow> reworked ks (map f ks)"
  unfolding reworked_def by (rule exI [of _ "\<lambda>_. True"]) auto

lemma reworked_refl [simp]: "reworked ks ks"
  using reworked_map [of id ks] by (simp add: list_all_iff)

lemma reworked_trans:
  assumes "reworked ks ks'" "reworked ks' ks''"
  shows "reworked ks ks''"
proof -
  from assms(1) obtain P f where 1: "ks' = map f (filter P ks)" "list_all (\<lambda>k. evolves k (f k)) ks" by (auto simp: reworked_def)
  from assms(2) obtain Q g where 2: "ks'' = map g (filter Q ks')" "list_all (\<lambda>k. evolves k (g k)) ks'" by (auto simp: reworked_def)
  let ?R = "\<lambda>k. P k \<and> Q (f k)"
  let ?h = "\<lambda>k. if P k then g (f k) else k"
  have m: "map g (filter Q (map f (filter P xs))) = map ?h (filter ?R xs)" for xs by (induction xs) auto
  have h: "list_all (\<lambda>k. evolves k (?h k)) ks"
    using 1 2(2) by (auto simp: list_all_iff intro: evolves_trans)
  show ?thesis unfolding reworked_def using m [of ks] h 1(1) 2(1) by blast
qed

lemma map_keys_reworked:
  assumes "\<And>k. P k \<Longrightarrow> evolves k (f k)"
  shows "reworked (ad_keys db) (ad_keys (map_keys P f db))"
  using reworked_map [of "\<lambda>k. if P k then f k else k" "ad_keys db"] assms by (simp add: map_keys_def list_all_iff)

subsection \<open>Invariants\<close>

definition keys_ok :: "ApiKey list \<Rightarrow> bool" where
  "keys_ok ks \<longleftrightarrow> distinct (map ak_id ks) \<and> distinct (map ak_key_hash ks) \<and> distinct (map ak_lineage_id (filter current ks))"

definition hash_dead :: "string \<Rightarrow> ApiKey list \<Rightarrow> bool" where
  "hash_dead h ks \<longleftrightarrow> list_all (\<lambda>k. ak_key_hash k = h \<longrightarrow> ak_deleted_at k \<noteq> None) ks"

lemma distinct_map_filter: "distinct (map g xs) \<Longrightarrow> distinct (map g (filter P xs))"
  by (simp add: distinct_map inj_on_def)

lemma filter_map_current: "filter Q (map f xs) = map f (filter (\<lambda>x. Q (f x)) xs)"
  by (induction xs) auto

lemma reworked_keys_ok:
  assumes "reworked ks ks'" "keys_ok ks"
  shows "keys_ok ks'"
proof -
  from assms(1) obtain P f where w: "ks' = map f (filter P ks)" and e: "list_all (\<lambda>k. evolves k (f k)) ks" by (auto simp: reworked_def)
  have same: "map ak_id ks' = map ak_id (filter P ks)" "map ak_key_hash ks' = map ak_key_hash (filter P ks)"
    using e by (auto simp: w list_all_iff evolves_def)
  have cur: "filter current ks' = map f (filter (\<lambda>k. current (f k) \<and> P k) ks)"
    by (simp add: w filter_map_current conj_commute)
  have "map ak_lineage_id (filter current ks') = map ak_lineage_id (filter (\<lambda>k. current (f k) \<and> P k) ks)"
    using e by (auto simp: cur list_all_iff evolves_def)
  also have "filter (\<lambda>k. current (f k) \<and> P k) ks = filter (\<lambda>k. current (f k) \<and> P k) (filter current ks)"
    using e by (auto simp: list_all_iff evolves_def intro!: filter_cong)
  finally have "map ak_lineage_id (filter current ks') = map ak_lineage_id (filter (\<lambda>k. current (f k) \<and> P k) (filter current ks))" .
  moreover have "distinct (map ak_lineage_id (filter (\<lambda>k. current (f k) \<and> P k) (filter current ks)))"
    by (rule distinct_map_filter) (use assms(2) in \<open>simp add: keys_ok_def\<close>)
  ultimately show ?thesis using assms(2) same by (simp add: keys_ok_def distinct_map_filter)
qed

lemma reworked_hash_dead: "reworked ks ks' \<Longrightarrow> hash_dead h ks \<Longrightarrow> hash_dead h ks'"
  by (fastforce simp: reworked_def hash_dead_def list_all_iff evolves_def)

subsection \<open>Rows that are added\<close>

lemma add_key_Inr:
  assumes "add_key db k = Inr db'"
  shows "ad_keys db' = ad_keys db @ [k]" "ak_id k \<notin> ak_id ` set (ad_keys db)" "ak_key_hash k \<notin> ak_key_hash ` set (ad_keys db)"
  using assms by (auto simp: add_key_def row_error_def list_ex_iff split: if_splits)

lemma keys_ok_add:
  assumes "keys_ok ks" "ak_id k \<notin> ak_id ` set ks" "ak_key_hash k \<notin> ak_key_hash ` set ks"
    and "current k \<Longrightarrow> ak_lineage_id k \<notin> ak_lineage_id ` set (filter current ks)"
  shows "keys_ok (ks @ [k])"
  using assms by (auto simp: keys_ok_def)

lemma hash_dead_add: "hash_dead h ks \<Longrightarrow> ak_key_hash k \<noteq> h \<Longrightarrow> hash_dead h (ks @ [k])"
  by (simp add: hash_dead_def)

text \<open>A rotation retires the old row and adds its successor, which is the only current key of the lineage afterwards.\<close>

definition retired :: "int \<Rightarrow> ApiKey \<Rightarrow> ApiKey" where
  "retired grace k = k\<lparr>ak_grace_period_ends_at := Some grace, ak_disabled_reason := Some ''rotated''\<rparr>"

lemma evolves_retired: "evolves k (retired grace k)"
  by (simp add: evolves_def retired_def current_def)

lemma rotate_Inr:
  assumes "rotate K fl now new_id old pre h grace db = Inr (db', k)"
  shows "k = successor now new_id pre h old"
    "ad_keys db' = map (\<lambda>k. if ak_id k = ak_id old then retired grace k else k) (ad_keys db @ [k])"
    "new_id \<notin> ak_id ` set (ad_keys db)" "h \<notin> ak_key_hash ` set (ad_keys db)" "ad_users db' = ad_users db" "ad_limits db' = ad_limits db"
proof -
  from assms obtain db1 where a: "add_key db (successor now new_id pre h old) = Inr db1"
      and db': "db' = map_keys (\<lambda>k. ak_id k = ak_id old) (retired grace) db1" and k: "k = successor now new_id pre h old"
    by (auto simp: rotate_def retired_def [abs_def] split: option.splits sum.splits)
  from a have "ad_users db1 = ad_users db" "ad_limits db1 = ad_limits db" by (auto simp: add_key_def split: option.splits)
  with add_key_Inr [OF a] k db'
  show "k = successor now new_id pre h old"
    "ad_keys db' = map (\<lambda>k. if ak_id k = ak_id old then retired grace k else k) (ad_keys db @ [k])"
    "new_id \<notin> ak_id ` set (ad_keys db)" "h \<notin> ak_key_hash ` set (ad_keys db)" "ad_users db' = ad_users db" "ad_limits db' = ad_limits db"
    by (simp_all add: map_keys_def successor_def)
qed

lemma rotate_keys_ok:
  assumes "rotate K fl now new_id old pre h grace db = Inr (db', k)" "keys_ok (ad_keys db)"
    and "old \<in> set (ad_keys db)" "current old"
  shows "keys_ok (ad_keys db')"
proof -
  note r = rotate_Inr [OF assms(1)]
  let ?f = "\<lambda>k. if ak_id k = ak_id old then retired grace k else k"
  have new: "ak_id k = new_id" "ak_key_hash k = h" "ak_lineage_id k = ak_lineage_id old" by (simp_all add: r(1) successor_def)
  have ne: "new_id \<noteq> ak_id old" using r(3) assms(3) by auto
  have eq: "ad_keys db' = map ?f (ad_keys db) @ [k]" using r(2) new(1) ne by simp
  have w: "reworked (ad_keys db) (map ?f (ad_keys db))" by (rule reworked_map) (simp add: list_all_iff evolves_retired)
  have same: "map ak_id (map ?f (ad_keys db)) = map ak_id (ad_keys db)" "map ak_key_hash (map ?f (ad_keys db)) = map ak_key_hash (ad_keys db)"
    by (simp_all add: retired_def)
  have "ak_lineage_id old \<notin> ak_lineage_id ` set (filter current (map ?f (ad_keys db)))"
  proof
    assume "ak_lineage_id old \<in> ak_lineage_id ` set (filter current (map ?f (ad_keys db)))"
    then obtain x where x: "x \<in> set (ad_keys db)" "current (?f x)" "ak_lineage_id (?f x) = ak_lineage_id old" by auto
    then have "ak_id x \<noteq> ak_id old" "current x" "ak_lineage_id x = ak_lineage_id old"
      by (auto simp: retired_def current_def split: if_splits)
    moreover have "x = old"
      using assms(2,3,4) x(1) \<open>current x\<close> \<open>ak_lineage_id x = ak_lineage_id old\<close>
      by (auto simp: keys_ok_def distinct_map inj_on_def)
    ultimately show False by simp
  qed
  moreover have "ak_id ` set (map ?f (ad_keys db)) = ak_id ` set (ad_keys db)" "ak_key_hash ` set (map ?f (ad_keys db)) = ak_key_hash ` set (ad_keys db)"
    using arg_cong [OF same(1), of set] arg_cong [OF same(2), of set] by (simp_all only: set_map)
  ultimately show ?thesis
    unfolding eq using reworked_keys_ok [OF w assms(2)] r(3,4) new by (intro keys_ok_add) auto
qed

subsection \<open>What each operation does to the table\<close>

lemma live_key_SomeD: "live_key db i = Some k \<Longrightarrow> k \<in> set (ad_keys db) \<and> ak_id k = i \<and> ak_deleted_at k = None"
  by (auto simp: live_key_def find_Some_iff)

lemma evolves_archive: "evolves k (archive reason now k)"
  by (simp add: evolves_def archive_def current_def)

lemma evolves_drop_key: "evolves k (drop_key reason now k)"
  by (simp add: evolves_def drop_key_def current_def)

lemma evolves_patched: "evolves k (patched p k)"
  by (simp add: evolves_def patched_def current_def)

lemma evolves_off: "evolves k (k\<lparr>ak_is_active := False\<rparr>)" "evolves k (disable reason k)"
  by (simp_all add: evolves_def disable_def current_def)

lemma evolves_warned: "evolves k (k\<lparr>ak_last_expiry_warning_days := w\<rparr>)"
  by (simp add: evolves_def current_def)

lemmas evolves_updates = evolves_archive evolves_drop_key evolves_patched evolves_off evolves_warned

definition keys_of :: "key_state \<Rightarrow> ApiKey list" where
  "keys_of st = ad_keys (fst st)"

lemma keys_of_pair [simp]: "keys_of (db, log) = ad_keys db"
  by (simp add: keys_of_def)

lemma insert_key_Inr: "insert_key K fl now n db = Inr (db', row) \<Longrightarrow> row = new_row now n \<and> add_key db (new_row now n) = Inr db'"
  by (cases "add_key db (new_row now n)") (auto simp: insert_key_def split: option.splits)

lemma insert_created_Inr:
  assumes "insert_created A fl cdb now new_id gen au req surfaces expires_at db = Inr (db', row)"
  shows "add_key db row = Inr db'" "ak_id row = new_id" "ak_lineage_id row = new_id" "ak_key_hash row = gk_hash gen"
    "ak_allowed_models row = cq_allowed_models req" "ak_allowed_mcp_tools row = cq_allowed_mcp_tools req"
    "ak_user_id row = Some (cm_sub (au_claims au))"
  using assms by (auto simp: insert_created_def and_then_Inr new_row_def dest!: insert_key_Inr)

lemma create_key_effect:
  "let st' = fst (create_key A fl cdb now new_id random au req st); h = gk_hash (generate_api_key (ge_key_hash (ka_guard A)) random) in
   st' = st \<or> (\<exists>k. add_key (fst st) k = Inr (fst st') \<and> ak_id k = new_id \<and> ak_lineage_id k = new_id \<and> ak_key_hash k = h)"
  by (auto simp: create_key_def Let_def split: sum.splits option.splits dest: insert_created_Inr)

lemma rotate_checks_Inr:
  assumes "rotate_checks A fl au i db = Inr old"
  shows "old \<in> set (ad_keys db)" "current old" "ak_id old = i"
    "require_permission au ''api_keys:rotate'' = Inr ()" "assert_owner_or_admin A fl db au i = Inr ()"
  using assms live_key_SomeD [of db i old]
  by (auto simp: rotate_checks_def and_then_Inr find_live_def answer_query_def current_def split: option.splits if_splits)

lemma rotate_key_effect:
  "let st' = fst (rotate_key A fl now new_id random au i st); gen = generate_api_key (ge_key_hash (ka_guard A)) random in
   st' = st \<or> (\<exists>old grace k. rotate_checks A fl au i (fst st) = Inr old \<and>
     rotate (ge_kind (ka_guard A)) fl now new_id old (gk_prefix gen) (gk_hash gen) grace (fst st) = Inr (fst st', k))"
  by (auto simp: rotate_key_def Let_def split: sum.splits option.splits)

lemma revoked_reworked:
  assumes "\<And>db n. upd = Inr (db, n) \<Longrightarrow> reworked (keys_of st) (ad_keys db)"
  shows "reworked (keys_of st) (keys_of (fst (revoked upd ev ok st)))"
  using assms by (auto simp: revoked_def keys_of_def split: sum.splits)

lemma revoke_reworked:
  "revoke K fl now i db = Inr (db', n) \<Longrightarrow> reworked (ad_keys db) (ad_keys db')"
  "force_revoke K fl now i reason db = Inr (db', n) \<Longrightarrow> reworked (ad_keys db) (ad_keys db')"
  by (auto simp: revoke_def force_revoke_def answer_query_def evolves_updates intro!: map_keys_reworked split: option.splits)

lemma revoke_key_reworked: "reworked (keys_of st) (keys_of (fst (revoke_key A fl now au i st)))"
  by (simp add: revoke_key_def split: sum.split)
    (metis keys_of_def revoke_reworked(1) revoked_reworked)

lemma force_revoke_key_reworked: "reworked (keys_of st) (keys_of (fst (force_revoke_key A fl now au i reason st)))"
  by (simp add: force_revoke_key_def split: sum.split) (metis keys_of_def revoke_reworked(2) revoked_reworked)

lemma update_row_Inr:
  assumes "update_row K fl i p db = Inr (db', k)"
  shows "db' = map_keys (\<lambda>k. ak_id k = i) (patched p) db" "pt_rotation_period_days p \<noteq> Some 0"
proof -
  from assms obtain k0 where "row_error (db\<lparr>ad_keys := []\<rparr>) (patched p k0) = None" and db': "db' = map_keys (\<lambda>k. ak_id k = i) (patched p) db"
    by (auto simp: update_row_def split: option.splits)
  then show "pt_rotation_period_days p \<noteq> Some 0" by (auto simp: row_error_def patched_def or_else_def)
  show "db' = map_keys (\<lambda>k. ak_id k = i) (patched p) db" by (rule db')
qed

lemma update_key_effect:
  "let st' = fst (update_key A fl cdb now au i req st) in
   st' = st \<or> (\<exists>p k. update_row (ge_kind (ka_guard A)) fl i p (fst st) = Inr (fst st', k) \<and>
     assert_owner_or_admin A fl (fst st) au i = Inr () \<and> require_permission au ''api_keys:update'' = Inr ())"
  by (auto simp: update_key_def Let_def and_then_Inr update_checks_def split: sum.splits option.splits)

lemma update_key_reworked: "reworked (keys_of st) (keys_of (fst (update_key A fl cdb now au i req st)))"
  using update_key_effect [of A fl cdb now au i req st]
  by (auto simp: Let_def keys_of_def dest!: update_row_Inr(1) intro!: map_keys_reworked simp: evolves_updates)

lemma touch_key_reworked: "reworked (ad_keys db) (ad_keys (touch_key err now i db))"
  using map_keys_reworked [of "\<lambda>k. ak_id k = i" "\<lambda>k. k\<lparr>ak_last_used_at := Some now\<rparr>" db]
  by (auto simp: touch_key_def map_keys_def evolves_def current_def split: option.splits)

lemma sweep_update_reworked:
  "reworked ks (keys_of st) \<Longrightarrow> (\<And>k. evolves k (f k)) \<Longrightarrow> reworked ks (keys_of (sweep_update P f act reason st))"
  by (erule reworked_trans) (auto simp: sweep_update_def keys_of_def intro: map_keys_reworked)

lemma sweep_warnings_reworked: "reworked ks (keys_of st) \<Longrightarrow> reworked ks (keys_of (sweep_warnings C db_now st))"
  by (erule reworked_trans) (auto simp: sweep_warnings_def keys_of_def intro: map_keys_reworked evolves_updates)

text \<open>A pass that ends well is these five steps.\<close>

definition swept :: "int \<Rightarrow> int option \<Rightarrow> int \<Rightarrow> key_state \<Rightarrow> key_state" where
  "swept now threshold db_now st =
     sweep_update (is_past_grace now) (\<lambda>k. k\<lparr>ak_is_active := False\<rparr>) ''api_key.revoke'' ''grace_period_expired''
      (sweep_update (is_inactive_per_key db_now) (disable ''inactive'') ''api_key.disable'' ''inactive_per_key''
        (case threshold of
           Some t \<Rightarrow> sweep_update (is_inactive_global t) (disable ''inactive'') ''api_key.disable'' ''inactive_global''
             (sweep_update (is_expired now) (disable ''expired'') ''api_key.disable'' ''expired'' st)
         | None \<Rightarrow> sweep_update (is_expired now) (disable ''expired'') ''api_key.disable'' ''expired'' st))"

definition inactive_threshold :: "chrono_ops \<Rightarrow> int \<Rightarrow> int \<Rightarrow> int option \<Rightarrow> bool" where
  "inactive_threshold C days now threshold \<longleftrightarrow>
     (if days > 0 then threshold = ch_sub_days C now days \<and> threshold \<noteq> None else threshold = None)"

lemma run_lifecycle_check_ok:
  assumes "run_lifecycle_check C fl days now ts st = Some (st', Inr ())"
  obtains threshold where "inactive_threshold C days now threshold" "st' = sweep_warnings C (snd ts) (swept now threshold (fst ts) st)"
  using assms that
  by (auto simp: run_lifecycle_check_def swept_def inactive_threshold_def Let_def split: option.splits if_splits)

lemma run_lifecycle_check_reworked:
  assumes "run_lifecycle_check C fl days now ts st = Some (st', r)"
  shows "reworked (keys_of st) (keys_of st')"
  using assms
  by (auto simp: run_lifecycle_check_def Let_def evolves_updates split: option.splits if_splits
      intro!: sweep_update_reworked sweep_warnings_reworked)

lemma purge_keys_reworked: "reworked (ad_keys db) (ad_keys (purge_keys cutoff db))"
proof -
  let ?out = "map ak_id (filter (\<lambda>k. gone cutoff (ak_deleted_at k)) (ad_keys db))"
  let ?f = "\<lambda>k. if (case ak_rotated_from_id k of Some i \<Rightarrow> List.member ?out i | None \<Rightarrow> False) then k\<lparr>ak_rotated_from_id := None\<rparr> else k"
  have "list_all (\<lambda>k. evolves k (?f k)) (ad_keys db)" by (simp add: list_all_iff evolves_def current_def)
  moreover have "ad_keys (purge_keys cutoff db) = map ?f (filter (\<lambda>k. \<not> gone cutoff (ak_deleted_at k)) (ad_keys db))"
    by (simp add: purge_keys_def Let_def)
  ultimately show ?thesis unfolding reworked_def by blast
qed

lemma purge_users_reworked: "reworked (ad_keys db) (ad_keys (purge_users cutoff db))"
proof -
  let ?out = "map us_id (filter (\<lambda>r. gone cutoff (us_deleted_at r)) (ad_users db))"
  let ?f = "\<lambda>k. if (case ak_user_id k of Some u \<Rightarrow> List.member ?out u | None \<Rightarrow> False) then k\<lparr>ak_user_id := None\<rparr> else k"
  have "ad_keys (purge_users cutoff db) = map ?f (ad_keys db)" by (simp add: purge_users_def Let_def)
  then show ?thesis using reworked_map [of ?f "ad_keys db"] by (simp add: list_all_iff evolves_def current_def)
qed

lemma user_gone_reworked:
  "reworked (ad_keys db) (ad_keys (disable_api_keys_of_disabled_user now u db))"
  "reworked (ad_keys db) (ad_keys (disable_api_keys_of_deleted_user now u (fst (soft_delete now u db))))"
  "reworked (ad_keys db) (ad_keys (soft_delete_account now u db))"
proof -
  have m: "ad_keys (map_users P f db) = ad_keys db" for P f db by (simp add: map_users_def)
  have k: "ad_keys (map_keys P f (map_users Q g db)) = ad_keys (map_keys P f db)" for P f Q g db by (simp add: map_users_def map_keys_def)
  show "reworked (ad_keys db) (ad_keys (disable_api_keys_of_disabled_user now u db))"
    by (simp add: disable_api_keys_of_disabled_user_def map_keys_reworked evolves_updates)
  show "reworked (ad_keys db) (ad_keys (disable_api_keys_of_deleted_user now u (fst (soft_delete now u db))))"
    by (simp add: disable_api_keys_of_deleted_user_def soft_delete_def Let_def k map_keys_reworked evolves_updates)
  show "reworked (ad_keys db) (ad_keys (soft_delete_account now u db))"
    by (simp add: soft_delete_account_def m map_keys_reworked evolves_updates)
qed

subsection \<open>Runs\<close>

text \<open>
  Any sequence of operations, each by any caller with any input at any time and with any failures. \<open>hs\<close> collects the hashes
  of the keys that were generated on the way. The ids the code draws are new, which is all that is assumed of them.
\<close>

inductive key_run :: "key_state \<Rightarrow> string list \<Rightarrow> key_state \<Rightarrow> bool" for st0 where
  start: "key_run st0 [] st0"
| create: "\<lbrakk>key_run st0 hs st; new_id \<notin> ak_lineage_id ` set (keys_of st)\<rbrakk> \<Longrightarrow>
    key_run st0 (gk_hash (generate_api_key (ge_key_hash (ka_guard A)) random) # hs) (fst (create_key A fl cdb now new_id random au req st))"
| rotate: "key_run st0 hs st \<Longrightarrow>
    key_run st0 (gk_hash (generate_api_key (ge_key_hash (ka_guard A)) random) # hs) (fst (rotate_key A fl now new_id random au i st))"
| revoke: "key_run st0 hs st \<Longrightarrow> key_run st0 hs (fst (revoke_key A fl now au i st))"
| force_revoke: "key_run st0 hs st \<Longrightarrow> key_run st0 hs (fst (force_revoke_key A fl now au i reason st))"
| update: "key_run st0 hs st \<Longrightarrow> key_run st0 hs (fst (update_key A fl cdb now au i req st))"
| used: "key_run st0 hs (db, log) \<Longrightarrow> key_run st0 hs (touch_key err now i db, log)"
| sweep: "\<lbrakk>key_run st0 hs st; run_lifecycle_check C fl days now ts st = Some (st', r)\<rbrakk> \<Longrightarrow> key_run st0 hs st'"
| user_disabled: "key_run st0 hs (db, log) \<Longrightarrow> key_run st0 hs (disable_api_keys_of_disabled_user now u db, log)"
| user_deleted: "key_run st0 hs (db, log) \<Longrightarrow>
    key_run st0 hs (disable_api_keys_of_deleted_user now u (fst (soft_delete now u db)), log)"
| account_deleted: "key_run st0 hs (db, log) \<Longrightarrow> key_run st0 hs (soft_delete_account now u db, log)"
| purge: "key_run st0 hs (db, log) \<Longrightarrow> key_run st0 hs (purge_orphans (purge_keys cutoff (purge_users cutoff db)), log)"

text \<open>A run keeps what a change in place, a new row and a rotation keep.\<close>

lemma key_run_keeps:
  assumes "key_run st0 hs st" "set hs \<subseteq> H" "I (keys_of st0)"
    and rw: "\<And>ks ks'. reworked ks ks' \<Longrightarrow> I ks \<Longrightarrow> I ks'"
    and add: "\<And>db db' k. add_key db k = Inr db' \<Longrightarrow> ak_key_hash k \<in> H \<Longrightarrow> ak_lineage_id k = ak_id k \<Longrightarrow>
      ak_id k \<notin> ak_lineage_id ` set (ad_keys db) \<Longrightarrow> I (ad_keys db) \<Longrightarrow> I (ad_keys db')"
    and rot: "\<And>K fl now i old p h g db db' k. rotate K fl now i old p h g db = Inr (db', k) \<Longrightarrow> old \<in> set (ad_keys db) \<Longrightarrow> current old \<Longrightarrow>
      h \<in> H \<Longrightarrow> I (ad_keys db) \<Longrightarrow> I (ad_keys db')"
  shows "I (keys_of st)"
  using assms(1,2)
proof (induction rule: key_run.induct)
  case start
  show ?case by (rule assms(3))
next
  case (create hs st new_id A random fl cdb now au req)
  then have I: "I (keys_of st)" and h: "gk_hash (generate_api_key (ge_key_hash (ka_guard A)) random) \<in> H" by auto
  from create_key_effect [of A fl cdb now new_id random au req st] show ?case
  proof (simp only: Let_def, elim disjE exE conjE)
    fix k assume "add_key (fst st) k = Inr (fst (fst (create_key A fl cdb now new_id random au req st)))"
      and "ak_id k = new_id" "ak_lineage_id k = new_id" "ak_key_hash k = gk_hash (generate_api_key (ge_key_hash (ka_guard A)) random)"
    with add [of "fst st" k] h create.hyps(2) I show ?thesis by (simp add: keys_of_def)
  qed (simp add: I)
next
  case (rotate hs st A random fl now new_id au i)
  then have I: "I (keys_of st)" and h: "gk_hash (generate_api_key (ge_key_hash (ka_guard A)) random) \<in> H" by auto
  from rotate_key_effect [of A fl now new_id random au i st] show ?case
  proof (simp only: Let_def, elim disjE exE conjE)
    fix old grace k assume c: "rotate_checks A fl au i (fst st) = Inr old"
      and r: "Key_Repository.rotate (ge_kind (ka_guard A)) fl now new_id old (gk_prefix (generate_api_key (ge_key_hash (ka_guard A)) random))
          (gk_hash (generate_api_key (ge_key_hash (ka_guard A)) random)) grace (fst st) =
        Inr (fst (fst (rotate_key A fl now new_id random au i st)), k)"
    from rot [OF r rotate_checks_Inr(1,2) [OF c] h] I show ?thesis by (simp add: keys_of_def)
  qed (simp add: I)
next
  case (purge hs db log cutoff)
  then have "I (ad_keys db)" by (simp add: keys_of_def)
  then have "I (ad_keys (purge_keys cutoff (purge_users cutoff db)))"
    using rw [OF purge_users_reworked] rw [OF purge_keys_reworked] by blast
  then show ?case by (simp add: keys_of_def purge_orphans_def)
qed (auto intro: rw [OF run_lifecycle_check_reworked] rw [OF revoke_key_reworked] rw [OF force_revoke_key_reworked]
    rw [OF update_key_reworked] rw [OF touch_key_reworked] rw [OF user_gone_reworked(1)] rw [OF user_gone_reworked(2)]
    rw [OF user_gone_reworked(3)])

subsection \<open>One current key per lineage\<close>


subsection \<open>Revoked keys\<close>

lemma hash_dead_lookup: "hash_dead h (ad_keys db) \<Longrightarrow> lookup_key db t days h = None"
  by (auto simp: lookup_key_def find_None_iff hash_dead_def list_all_iff key_live_def)

lemma key_run_hash_dead:
  assumes "key_run st0 hs st" "hash_dead h (keys_of st0)" "h \<notin> set hs"
  shows "hash_dead h (keys_of st)"
proof (rule key_run_keeps [OF assms(1) order_refl, of "hash_dead h"])
  fix db db' k
  assume "add_key db k = Inr db'" "ak_key_hash k \<in> set hs" "hash_dead h (ad_keys db)"
  then show "hash_dead h (ad_keys db')" using assms(3) add_key_Inr(1) [of db k db'] by (auto intro!: hash_dead_add)
next
  fix K fl now i old p h' g db db' k
  assume r: "Key_Repository.rotate K fl now i old p h' g db = Inr (db', k)" and "h' \<in> set hs" "hash_dead h (ad_keys db)"
  then show "hash_dead h (ad_keys db')"
    using rotate_Inr(1,2) [OF r] assms(3) by (auto simp: hash_dead_def list_all_iff retired_def successor_def)
qed (fact assms(2), erule (1) reworked_hash_dead)

lemma archived_hash_dead:
  assumes "keys_ok (ad_keys db)" "live_key db i = Some k"
  shows "hash_dead (ak_key_hash k) (ad_keys (map_keys (is_live i) (archive reason now) db))"
proof -
  from live_key_SomeD [OF assms(2)] have k: "k \<in> set (ad_keys db)" "ak_id k = i" "ak_deleted_at k = None" by auto
  have "x = k" if "x \<in> set (ad_keys db)" "ak_key_hash x = ak_key_hash k" for x
    using assms(1) k(1) that by (auto simp: keys_ok_def distinct_map inj_on_def)
  with k show ?thesis by (auto simp: hash_dead_def list_all_iff map_keys_def is_live_def archive_def)
qed

lemma revoked_Inr: "revoked upd ev ok st = (st', Inr r) \<Longrightarrow> \<exists>n. upd = Inr (fst st', n)"
  by (auto simp: revoked_def split: sum.splits if_splits)

lemma revoke_key_archives:
  assumes "revoke_key A fl now au i st = (st', Inr r) \<or> force_revoke_key A fl now au i text st = (st', Inr r)"
  shows "\<exists>reason. map_keys (is_live i) (archive reason now) (fst st) = fst st'"
  using assms
proof
  assume "revoke_key A fl now au i st = (st', Inr r)"
  then show ?thesis by (auto simp: revoke_key_def revoke_def answer_query_def split: sum.splits option.splits dest!: revoked_Inr)
next
  assume "force_revoke_key A fl now au i text st = (st', Inr r)"
  then show ?thesis by (auto simp: force_revoke_key_def force_revoke_def answer_query_def split: sum.splits option.splits dest!: revoked_Inr)
qed

lemma no_key_no_entry:
  assumes "presented_key (hq_headers rq) (hq_query rq) = Some token" "lookup_key db (kt_lookup ts) (kn_inactivity_days E) (kn_hash E token) = None"
  shows "\<exists>a. snd (authenticate E surface use rq errs ts ip (db, log)) = Inl a"
  using assms by (auto simp: authenticate_def split: option.split)

lemma no_key_no_console:
  assumes "lookup_key db (now * 1000) (ge_inactivity_days G) (ge_key_hash G token) = None"
  shows "\<exists>a. snd (auth_via_api_key G Q now errs token rq ip (db, s)) = Inl a"
  using assms by (auto simp: auth_via_api_key_def split: option.split)

text \<open>
  (C16) A key that was revoked, by its owner or by force, opens neither a gateway nor the console again, whatever happens to the
  tables afterwards and whatever the clock and the settings say, unless a key with the same hash is generated.
\<close>

theorem revoked_key_stays_out:
  assumes "keys_ok (keys_of st)" "live_key (fst st) i = Some k"
    and "revoke_key A fl now au i st = (st1, Inr r) \<or> force_revoke_key A fl now au i text st = (st1, Inr r)"
    and "key_run st1 hs st2" "ak_key_hash k \<notin> set hs"
    and "presented_key (hq_headers rq) (hq_query rq) = Some token" "kn_hash E token = ak_key_hash k" "ge_key_hash G token = ak_key_hash k"
  shows "(\<exists>a. snd (authenticate E surface use rq errs ts ip (fst st2, log)) = Inl a) \<and>
    (\<exists>a. snd (auth_via_api_key G Q now' errs' token rq ip (fst st2, s)) = Inl a)"
proof -
  have "hash_dead (ak_key_hash k) (keys_of st1)"
    using revoke_key_archives [OF assms(3)] archived_hash_dead [of "fst st"] assms(1,2) by (metis keys_of_def)
  then have "lookup_key (fst st2) t days (ak_key_hash k) = None" for t days
    using key_run_hash_dead [OF assms(4) _ assms(5)] by (simp add: hash_dead_lookup keys_of_def)
  then show ?thesis using no_key_no_entry [OF assms(6)] no_key_no_console assms(7,8) by metis
qed

subsection \<open>Rotation\<close>

lemma rotate_key_ok:
  assumes "rotate_key A fl now new_id random au i st = (st', Some (Inr r))"
  obtains old grace gen where "rotate_checks A fl au i (fst st) = Inr old" "ch_add_hours (ka_chrono A) now (ka_grace_hours A) = Some grace"
    "gen = generate_api_key (ge_key_hash (ka_guard A)) random"
    "rotate (ge_kind (ka_guard A)) fl now new_id old (gk_prefix gen) (gk_hash gen) grace (fst st) = Inr (fst st', successor now new_id (gk_prefix gen) (gk_hash gen) old)"
proof -
  let ?gen = "generate_api_key (ge_key_hash (ka_guard A)) random"
  from assms obtain old grace k where c: "rotate_checks A fl au i (fst st) = Inr old"
      and g: "ch_add_hours (ka_chrono A) now (ka_grace_hours A) = Some grace"
      and t: "rotate (ge_kind (ka_guard A)) fl now new_id old (gk_prefix ?gen) (gk_hash ?gen) grace (fst st) = Inr (fst st', k)"
    by (auto simp: rotate_key_def Let_def split: sum.splits option.splits)
  with that [OF c g refl] rotate_Inr(1) [OF t] show thesis by simp
qed

lemma find_only_hit:
  assumes "x \<in> set xs" "P x" "\<And>y. y \<in> set xs \<Longrightarrow> P y \<Longrightarrow> y = x"
  shows "find P xs = Some x"
proof (cases "find P xs")
  case None
  with assms(1,2) show ?thesis by (auto simp: find_None_iff)
next
  case (Some y)
  then have "y \<in> set xs" "P y" by (auto simp: find_Some_iff)
  with assms(3) Some show ?thesis by simp
qed

lemma lookup_unique:
  assumes "distinct (map ak_key_hash (ad_keys db))" "k \<in> set (ad_keys db)" "ak_user_id k = Some u" "user_live db u" "key_live t days k"
  shows "lookup_key db t days (ak_key_hash k) = Some k"
  unfolding lookup_key_def
proof (rule find_only_hit [OF assms(2)])
  fix y assume "y \<in> set (ad_keys db)" and "ak_key_hash y = ak_key_hash k \<and> (case ak_user_id y of Some u \<Rightarrow> user_live db u | None \<Rightarrow> False) \<and> key_live t days y"
  with assms(1,2) show "y = k" by (meson distinct_map inj_onD)
qed (use assms in simp)

text \<open>The rows a rotation leaves: the old one with its grace, and a successor that carries on for it.\<close>

lemma rotate_key_rows:
  assumes "rotate_key A fl now new_id random au i st = (st', Some (Inr r))" "keys_ok (keys_of st)" "live_key (fst st) i = Some k"
  obtains grace h pre where "ch_add_hours (ka_chrono A) now (ka_grace_hours A) = Some grace" "retired grace k \<in> set (keys_of st')"
    "successor now new_id pre h k \<in> set (keys_of st')" "h = gk_hash (generate_api_key (ge_key_hash (ka_guard A)) random)" "current k"
    "ad_users (fst st') = ad_users (fst st)" "keys_ok (keys_of st')"
proof -
  obtain old grace gen where c: "rotate_checks A fl au i (fst st) = Inr old" and g: "ch_add_hours (ka_chrono A) now (ka_grace_hours A) = Some grace"
      and gen: "gen = generate_api_key (ge_key_hash (ka_guard A)) random"
      and t: "rotate (ge_kind (ka_guard A)) fl now new_id old (gk_prefix gen) (gk_hash gen) grace (fst st) =
        Inr (fst st', successor now new_id (gk_prefix gen) (gk_hash gen) old)"
    using assms(1) by (rule rotate_key_ok)
  note o = rotate_checks_Inr [OF c]
  note rt = rotate_Inr [OF t]
  from live_key_SomeD [OF assms(3)] o have "old = k" using assms(2) by (auto simp: keys_ok_def keys_of_def distinct_map inj_on_def)
  let ?s = "successor now new_id (gk_prefix gen) (gk_hash gen) k"
  have "keys_of st' = map (\<lambda>x. if ak_id x = ak_id k then retired grace x else x) (ad_keys (fst st) @ [?s])" "ak_id ?s \<noteq> ak_id k"
    using rt(2,3) o(1) \<open>old = k\<close> by (auto simp: keys_of_def successor_def)
  then have in_old: "retired grace k \<in> set (keys_of st')" and in_new: "?s \<in> set (keys_of st')"
    using o(1) \<open>old = k\<close> by auto
  show thesis
    using that [OF g in_old in_new] gen o(2) rt(5) rotate_keys_ok [OF t _ o(1,2)] assms(2) \<open>old = k\<close> by (simp add: keys_of_def)
qed

text \<open>
  A rotation that succeeds leaves a successor that authenticates at once, for the same owner, surfaces, lists, expiry and
  lineage, so the limits of the old key hold the new one. What it does not carry over is the choice of MCP accounts: the new
  key starts without any.
\<close>

theorem rotation_hands_over:
  assumes "rotate_key A fl now new_id random au i st = (st', Some (Inr r))" "keys_ok (keys_of st)" "live_key (fst st) i = Some k"
    and "ak_user_id k = Some u" "user_live (fst st) u"
  shows "\<exists>k'. lookup_key (fst st') t days (gk_hash (generate_api_key (ge_key_hash (ka_guard A)) random)) = Some k' \<and>
    ak_user_id k' = Some u \<and> ak_surfaces k' = ak_surfaces k \<and> ak_allowed_models k' = ak_allowed_models k \<and>
    ak_allowed_mcp_tools k' = ak_allowed_mcp_tools k \<and> ak_expires_at k' = ak_expires_at k \<and> ak_lineage_id k' = ak_lineage_id k \<and>
    ak_rotated_from_id k' = Some i \<and> ak_mcp_account_overrides k' = JObject []"
proof -
  obtain grace h pre where h: "h = gk_hash (generate_api_key (ge_key_hash (ka_guard A)) random)"
      and s: "successor now new_id pre h k \<in> set (keys_of st')" and us: "ad_users (fst st') = ad_users (fst st)" and ok: "keys_ok (keys_of st')"
    using assms(1-3) by (rule rotate_key_rows)
  have "lookup_key (fst st') t days (ak_key_hash (successor now new_id pre h k)) = Some (successor now new_id pre h k)"
    using s ok us assms(4,5)
    by (intro lookup_unique [of _ _ u]) (auto simp: keys_of_def keys_ok_def successor_def user_live_def key_live_def)
  with h assms(4) live_key_SomeD [OF assms(3)] show ?thesis by (simp add: successor_def)
qed

text \<open>
  A rotated key is kept active, and the lookup asks for an active key or one in its grace. So until the sweep has passed, it
  authenticates at any time, also after the end of its grace, which the code elsewhere reports as the time it stops working.
\<close>

theorem rotated_key_outlives_its_grace:
  assumes "rotate_key A fl now new_id random au i st = (st', Some (Inr r))" "keys_ok (keys_of st)" "live_key (fst st) i = Some k"
    and "ak_user_id k = Some u" "user_live (fst st) u" "ak_last_used_at k = None"
  shows "\<exists>grace k'. ch_add_hours (ka_chrono A) now (ka_grace_hours A) = Some grace \<and> ak_grace_period_ends_at k' = Some grace \<and>
    (case stops_authenticating_at (ak_expires_at k') (Some grace) of Some stop \<Rightarrow> stop \<le> grace | None \<Rightarrow> False) \<and>
    (\<forall>t days. lookup_key (fst st') t days (ak_key_hash k) = Some k')"
proof -
  obtain grace where g: "ch_add_hours (ka_chrono A) now (ka_grace_hours A) = Some grace"
      and s: "retired grace k \<in> set (keys_of st')" and c: "current k" and us: "ad_users (fst st') = ad_users (fst st)" and ok: "keys_ok (keys_of st')"
    using assms(1-3) by (rule rotate_key_rows)
  have "lookup_key (fst st') t days (ak_key_hash (retired grace k)) = Some (retired grace k)" for t days
    using s ok us assms(4-6) c
    by (intro lookup_unique [of _ _ u]) (auto simp: keys_of_def keys_ok_def retired_def user_live_def key_live_def current_def)
  moreover have "ak_key_hash (retired grace k) = ak_key_hash k" "ak_grace_period_ends_at (retired grace k) = Some grace"
    by (simp_all add: retired_def)
  moreover have "case stops_authenticating_at e (Some grace) of Some stop \<Rightarrow> stop \<le> grace | None \<Rightarrow> False" for e
    by (simp add: stops_authenticating_at_def or_else_def split: option.split)
  ultimately show ?thesis using g by metis
qed

subsection \<open>The sweep\<close>

text \<open>A key the middleware lets in at a time, as far as its own row says.\<close>

definition admits_at :: "int \<Rightarrow> int \<Rightarrow> ApiKey \<Rightarrow> bool" where
  "admits_at t days k \<longleftrightarrow> key_live t days k \<and> (case ak_expires_at k of Some x \<Rightarrow> t \<le> x | None \<Rightarrow> True)"

text \<open>What the sweep does to one row, before the warnings.\<close>

definition sweep_row :: "int \<Rightarrow> int option \<Rightarrow> int \<Rightarrow> ApiKey \<Rightarrow> ApiKey" where
  "sweep_row now threshold db_now k =
     (let upd = (\<lambda>P f k. if P k then f k else k);
          k1 = upd (is_expired now) (disable ''expired'') k;
          k2 = (case threshold of Some t \<Rightarrow> upd (is_inactive_global t) (disable ''inactive'') k1 | None \<Rightarrow> k1);
          k3 = upd (is_inactive_per_key db_now) (disable ''inactive'') k2
      in upd (is_past_grace now) (\<lambda>k. k\<lparr>ak_is_active := False\<rparr>) k3)"

definition warn_row :: "int \<Rightarrow> ApiKey \<Rightarrow> ApiKey" where
  "warn_row db_now k = (if due_warning db_now k \<noteq> None then k\<lparr>ak_last_expiry_warning_days := due_warning db_now k\<rparr> else k)"

lemma keys_of_swept: "keys_of (swept now threshold db_now st) = map (sweep_row now threshold db_now) (keys_of st)"
  by (simp add: swept_def keys_of_def sweep_update_def map_keys_def sweep_row_def Let_def split: option.split)

lemma keys_of_warned: "keys_of (sweep_warnings C db_now st) = map (warn_row db_now) (keys_of st)"
  by (simp add: sweep_warnings_def keys_of_def map_keys_def warn_row_def)

lemma warn_row_frame [simp]:
  "ak_is_active (warn_row d k) = ak_is_active k" "ak_grace_period_ends_at (warn_row d k) = ak_grace_period_ends_at k"
  "ak_disabled_reason (warn_row d k) = ak_disabled_reason k" "ak_expires_at (warn_row d k) = ak_expires_at k"
  "ak_last_used_at (warn_row d k) = ak_last_used_at k" "ak_inactivity_timeout_days (warn_row d k) = ak_inactivity_timeout_days k"
  "ak_deleted_at (warn_row d k) = ak_deleted_at k"
  by (simp_all add: warn_row_def)

lemma sweep_row_frame [simp]:
  "ak_grace_period_ends_at (sweep_row now th d k) = ak_grace_period_ends_at k"
  "ak_expires_at (sweep_row now th d k) = ak_expires_at k" "ak_last_used_at (sweep_row now th d k) = ak_last_used_at k"
  "ak_inactivity_timeout_days (sweep_row now th d k) = ak_inactivity_timeout_days k" "ak_deleted_at (sweep_row now th d k) = ak_deleted_at k"
  by (simp_all add: sweep_row_def Let_def disable_def split: option.split)

text \<open>
  (C29) Once the grace of a rotated key has ended, the next pass of the sweep that goes through ends it for good: the row is not
  active any more, and no later time lets it in.
\<close>

theorem sweep_ends_grace:
  assumes "run_lifecycle_check C fl days now ts st = Some (st', Inr ())" "k \<in> set (keys_of st')"
    and "ak_grace_period_ends_at k = Some grace" "grace < now" "now \<le> t"
  shows "\<not> ak_is_active k \<and> \<not> key_live t d k"
proof -
  obtain th where "st' = sweep_warnings C (snd ts) (swept now th (fst ts) st)" using assms(1) by (rule run_lifecycle_check_ok)
  with assms(2) obtain k0 where k: "k = warn_row (snd ts) (sweep_row now th (fst ts) k0)"
    by (auto simp: keys_of_warned keys_of_swept)
  have "\<not> is_past_grace now (sweep_row now th (fst ts) k0)"
    by (simp add: sweep_row_def Let_def is_past_grace_def)
  with assms(3,4) k have "\<not> ak_is_active k" by (auto simp: is_past_grace_def)
  with assms(3-5) show ?thesis by (simp add: key_live_def)
qed

lemma sweep_row_spares:
  assumes "admits_at t days k" "\<not> is_past_grace now k" "now \<le> t" "d \<le> t"
    and "inactive_threshold C days now th" "\<And>x. ch_sub_days C now days = Some x \<Longrightarrow> x \<le> t - days * DAY"
  shows "sweep_row now th d k = k"
proof -
  have e: "\<not> is_expired now k" using assms(1,3) by (auto simp: is_expired_def admits_at_def split: option.splits)
  have g: "\<not> is_inactive_global x k" if "th = Some x" for x
  proof
    assume "is_inactive_global x k"
    moreover from that assms(5) have "0 < days" "ch_sub_days C now days = Some x" by (auto simp: inactive_threshold_def split: if_splits)
    ultimately show False using assms(1) assms(6) [of x]
      by (auto simp: is_inactive_global_def admits_at_def key_live_def inactivity_interval_def unwrap_or_def split: option.splits)
  qed
  have p: "\<not> is_inactive_per_key d k"
  proof
    assume "is_inactive_per_key d k"
    with assms(1,4) show False
      by (auto simp: is_inactive_per_key_def admits_at_def key_live_def inactivity_interval_def unwrap_or_def DAY_def split: option.splits)
  qed
  show ?thesis using e g p assms(2) by (simp add: sweep_row_def Let_def split: option.split)
qed

text \<open>
  (C28) Apart from rotated keys past their grace, the sweep takes away nothing that worked: a key that the middleware would let
  in at the time of the sweep or later is as it was, but for the warning it may have been given.
\<close>

theorem sweep_spares_working_keys:
  assumes "run_lifecycle_check C fl days now ts st = Some (st', Inr ())"
    and "now \<le> t" "fst ts \<le> t" "\<And>x. ch_sub_days C now days = Some x \<Longrightarrow> x \<le> t - days * DAY"
  shows "list_all2 (\<lambda>k k'. admits_at t days k \<and> \<not> is_past_grace now k \<longrightarrow> k' = warn_row (snd ts) k) (keys_of st) (keys_of st')"
proof -
  obtain th where th: "inactive_threshold C days now th" "st' = sweep_warnings C (snd ts) (swept now th (fst ts) st)"
    using assms(1) by (rule run_lifecycle_check_ok)
  show ?thesis
    using sweep_row_spares [OF _ _ assms(2,3) th(1) assms(4)]
    by (simp add: th(2) keys_of_warned keys_of_swept list_all2_conv_all_nth)
qed

lemma run_lifecycle_check_iff:
  "run_lifecycle_check C fl days now ts st = Some (st', Inr ()) \<longleftrightarrow>
     fl ''expired'' = None \<and> fl ''per_key'' = None \<and> fl ''grace'' = None \<and> fl ''warnings'' = None \<and>
     (\<exists>th. inactive_threshold C days now th \<and> (th \<noteq> None \<longrightarrow> fl ''inactive'' = None) \<and>
        st' = sweep_warnings C (snd ts) (swept now th (fst ts) st))"
  by (auto simp: run_lifecycle_check_def swept_def inactive_threshold_def Let_def split: option.splits if_splits)

lemma sweep_update_idle: "list_all (\<lambda>k. \<not> P k) (keys_of st) \<Longrightarrow> sweep_update P f act reason st = st"
  by (cases st) (simp add: sweep_update_def map_keys_def keys_of_def list_all_iff emit_disable_audits_def map_idI)

lemma sweep_warnings_idle: "list_all (\<lambda>k. due_warning d k = None) (keys_of st) \<Longrightarrow> sweep_warnings C d st = st"
  by (cases st) (simp add: sweep_warnings_def map_keys_def keys_of_def list_all_iff map_idI map_filter_def)

lemma swept_row_settled:
  "\<not> is_expired now (warn_row d2 (sweep_row now th d k))" "\<not> is_inactive_per_key d (warn_row d2 (sweep_row now th d k))"
  "\<not> is_past_grace now (warn_row d2 (sweep_row now th d k))" "th = Some x \<Longrightarrow> \<not> is_inactive_global x (warn_row d2 (sweep_row now th d k))"
  by (simp_all add: is_expired_def is_inactive_per_key_def is_past_grace_def is_inactive_global_def)
    (simp_all add: sweep_row_def Let_def disable_def is_expired_def is_inactive_per_key_def is_past_grace_def is_inactive_global_def split: option.split)

lemma warned_row_settled: "due_warning d (warn_row d k) = None"
  by (auto simp: warn_row_def due_warning_def warning_bucket_def split: option.splits if_splits)

text \<open>
  A second pass at the same time, on any replica, finds nothing to do: it changes no row and writes nothing to the audit
  log. So no key is reported twice as disabled, and no expiry threshold is warned about twice.
\<close>

theorem sweep_is_idempotent:
  assumes "run_lifecycle_check C fl days now ts st = Some (st', Inr ())"
  shows "run_lifecycle_check C fl days now ts st' = Some (st', Inr ())"
proof -
  from assms obtain th where fl: "fl ''expired'' = None" "fl ''per_key'' = None" "fl ''grace'' = None" "fl ''warnings'' = None"
      and th: "inactive_threshold C days now th" "th \<noteq> None \<longrightarrow> fl ''inactive'' = None"
      and st': "st' = sweep_warnings C (snd ts) (swept now th (fst ts) st)"
    by (auto simp: run_lifecycle_check_iff)
  have rows: "keys_of st' = map (\<lambda>k. warn_row (snd ts) (sweep_row now th (fst ts) k)) (keys_of st)"
    by (simp add: st' keys_of_warned keys_of_swept)
  have "swept now th (fst ts) st' = st'"
    using rows by (simp add: swept_def sweep_update_idle list_all_iff swept_row_settled split: option.split)
  moreover have "sweep_warnings C (snd ts) st' = st'" using rows by (simp add: sweep_warnings_idle list_all_iff warned_row_settled)
  ultimately show ?thesis using fl th by (auto simp: run_lifecycle_check_iff)
qed

subsection \<open>Whose keys\<close>

lemma assert_owner_or_admin_Inr:
  assumes "assert_owner_or_admin A fl db au i = Inr ()"
  shows "\<exists>k. live_key db i = Some k \<and> (ak_user_id k = Some (cm_sub (au_claims au)) \<or> caller_is_admin_tier au)"
  using assms
  by (auto simp: assert_owner_or_admin_def and_then_Inr owner_of_live_def caller_is_admin_tier_def split: option.splits if_splits)

lemma require_permission_Inr: "require_permission au p = Inr x \<Longrightarrow> p \<in> set (au_permissions au) \<and> p \<notin> set (au_denied_permissions au)"
  by (auto simp: require_permission_def List.member_iff split: if_splits)

text \<open>
  (C27) An owner's keys are theirs: updating, rotating or revoking one changes the tables or the log only when the caller holds
  the permission, undenied, and owns the live key or is an administrator of keys.
\<close>

theorem keys_change_by_owner_or_admin:
  assumes "(st', perm) = (fst (update_key A fl cdb now au i req st), ''api_keys:update'') \<or>
      (st', perm) = (fst (rotate_key A fl now new_id random au i st), ''api_keys:rotate'') \<or>
      (st', perm) = (fst (revoke_key A fl now au i st), ''api_keys:delete'')"
    and "st' \<noteq> st"
  shows "perm \<in> set (au_permissions au) \<and> perm \<notin> set (au_denied_permissions au) \<and>
    (\<exists>k. live_key (fst st) i = Some k \<and> (ak_user_id k = Some (cm_sub (au_claims au)) \<or> caller_is_admin_tier au))"
proof -
  have "require_permission au perm = Inr () \<and> assert_owner_or_admin A fl (fst st) au i = Inr ()"
    using assms(1)
  proof (elim disjE)
    assume "(st', perm) = (fst (update_key A fl cdb now au i req st), ''api_keys:update'')"
    with update_key_effect [of A fl cdb now au i req st] assms(2) show ?thesis by (auto simp: Let_def)
  next
    assume "(st', perm) = (fst (rotate_key A fl now new_id random au i st), ''api_keys:rotate'')"
    with rotate_key_effect [of A fl now new_id random au i st] assms(2) show ?thesis
      by (auto simp: Let_def dest: rotate_checks_Inr(4,5))
  next
    assume "(st', perm) = (fst (revoke_key A fl now au i st), ''api_keys:delete'')"
    with assms(2) show ?thesis by (auto simp: revoke_key_def and_then_Inr split: sum.splits)
  qed
  then show ?thesis using require_permission_Inr assert_owner_or_admin_Inr by blast
qed

subsection \<open>Lists within the roles\<close>

lemma split_once_before: "split_once s sep = Some (a, b) \<Longrightarrow> sep \<noteq> [] \<Longrightarrow> find_sub a sep = None"
proof (rule ccontr)
  assume s: "split_once s sep = Some (a, b)" and ne: "sep \<noteq> []" and "find_sub a sep \<noteq> None"
  then obtain n where "find_sub a sep = Some n" by blast
  from find_sub_Some [OF this] obtain r where r: "a = take n a @ sep @ r" "n + length sep \<le> length a" by blast
  from split_once_SomeD [OF s] r(1) have "s = take n a @ sep @ (r @ sep @ b)" by (metis append.assoc)
  from split_once_first [OF s this] r(2) ne show False by (cases sep) auto
qed

lemma covered_pattern_matches:
  assumes "mcp_pattern_covered p gs" "pattern_matches p tool"
  shows "\<exists>g \<in> set gs. pattern_matches g tool"
proof (cases "''*'' \<in> set gs \<or> p \<in> set gs")
  case True
  with assms(2) show ?thesis using pattern_star by blast
next
  case False
  with assms(1) obtain server x where e: "\<not> ends_with p ''__*''" and sp: "split_once p ''__'' = Some (server, x)" and g: "server @ ''__*'' \<in> set gs"
    by (auto simp: mcp_pattern_covered_def List.member_iff split: if_splits option.splits)
  have "p \<noteq> ''*''" using sp by (auto simp: split_once_def find_sub.simps starts_with_def split: list.splits)
  with pattern_exact [OF assms(2) _ e] have p: "p = tool" by blast
  from assms(2) e \<open>p \<noteq> ''*''\<close> sp have "server \<noteq> []" "x \<noteq> []" "CHR ''*'' \<notin> set p"
    by (auto simp: pattern_matches_def strip_suffix_def split: if_splits option.splits)
  moreover from split_once_SomeD [OF sp] have "set server \<subseteq> set p" by auto
  ultimately have "pattern_matches (server @ ''__*'') tool"
    using sp p split_once_before [OF sp]
    by (auto simp: pattern_matches_def strip_suffix_Some [THEN iffD2] split: option.splits)
  with g show ?thesis by blast
qed

lemma covered_models_allow:
  assumes "first_uncovered_model ms gs = None" "models_allow (Some ms) model"
  shows "models_allow (Some gs) model"
proof -
  from assms(2) obtain m where m: "m \<in> set ms" "starts_with model m"
    by (auto simp: models_allow_admits model_entries.admits_def list_ex_iff)
  with assms(1) obtain g where "g \<in> set gs" "m = g \<or> starts_with m g"
    by (auto simp: first_uncovered_model_def find_None_iff list_ex_iff)
  moreover from this m(2) have "starts_with model g" using model_entry_covers_trans [of g m model] by (auto simp: model_entry_covers_def)
  ultimately show ?thesis by (auto simp: models_allow_admits model_entries.admits_def list_ex_iff)
qed

lemma within_Inr: "within what unc (Some req) g = Inr () \<Longrightarrow> (case g of None \<Rightarrow> True | Some gs \<Rightarrow> unc req gs = None)"
  by (auto simp: within_def split: option.splits)

lemma create_key_ok:
  assumes "create_key A fl cdb now new_id random au req st = (st', Some (Inr r))"
  shows "validate_allowlists_within_role A fl (fst st) (cm_sub (au_claims au)) (cq_allowed_models req) (cq_allowed_mcp_tools req) = Inr ()"
  using assms by (auto simp: create_key_def create_checks_def and_then_Inr split: sum.splits option.splits)

text \<open>
  A new key cannot be given more than its owner has: each model and tool its own lists let through is one that the roles of
  the owner, as read for the check, let through as well. Where the request gives no list, the roles alone decide.
\<close>

theorem new_key_lists_stay_within_roles:
  assumes "create_key A fl cdb now new_id random au req st = (st', Some (Inr r))"
    and "role_limits_of A fl (fst st) (cm_sub (au_claims au)) = Inr l"
  shows "(\<forall>ms model. cq_allowed_models req = Some ms \<and> models_allow (Some ms) model \<longrightarrow> models_allow (allowed_models l) model) \<and>
    (\<forall>ps tool. cq_allowed_mcp_tools req = Some ps \<and> is_tool_allowed (Some ps) tool \<longrightarrow> is_tool_allowed (allowed_mcp_tools l) tool)"
proof (intro conjI allI impI; elim conjE)
  note v = create_key_ok [OF assms(1)]
  fix ms model assume ms: "cq_allowed_models req = Some ms" and a: "models_allow (Some ms) model"
  with v assms(2) have "within ''allowed_models'' first_uncovered_model (Some ms) (allowed_models l) = Inr ()"
    by (auto simp: validate_allowlists_within_role_def and_then_Inr)
  from within_Inr [OF this] a show "models_allow (allowed_models l) model"
    using covered_models_allow by (auto simp: models_allow_admits model_entries.admits_def split: option.splits)
next
  note v = create_key_ok [OF assms(1)]
  fix ps tool assume ps: "cq_allowed_mcp_tools req = Some ps" and a: "is_tool_allowed (Some ps) tool"
  with v assms(2) have "within ''allowed_mcp_tools'' first_uncovered_mcp_tool (Some ps) (allowed_mcp_tools l) = Inr ()"
    by (auto simp: validate_allowlists_within_role_def and_then_Inr)
  from within_Inr [OF this] a covered_pattern_matches show "is_tool_allowed (allowed_mcp_tools l) tool"
    by (fastforce simp: first_uncovered_mcp_tool_def find_None_iff list_ex_iff is_tool_allowed_def split: option.splits)
qed

subsection \<open>A setting that cannot be cleared\<close>

text \<open>
  The handler lets a rotation period of zero days through, and the create path writes \<open>NULL\<close> for it; the table refuses it. So a
  request that sets it to zero never succeeds, whoever sends it.
\<close>

theorem zero_rotation_period_is_refused:
  assumes "uq_rotation_period_days req = Some 0"
  shows "snd (update_key A fl cdb now au i req st) \<noteq> Some (Inr k)"
proof
  assume "snd (update_key A fl cdb now au i req st) = Some (Inr k)"
  then obtain key surfaces expires_at cc ov db' where
      "update_row (ge_kind (ka_guard A)) fl i (patch_of req key surfaces expires_at cc ov) (fst st) = Inr (db', k)"
    by (auto simp: update_key_def and_then_Inr split: sum.splits option.splits)
  from update_row_Inr(2) [OF this] assms show False by (simp add: patch_of_def)
qed

subsection \<open>Keys to run it on\<close>

definition demo_chrono :: chrono_ops where
  "demo_chrono = \<lparr>ch_add_days = (\<lambda>t d. Some (t + d * DAY)), ch_sub_days = (\<lambda>t d. Some (t - d * DAY)),
     ch_add_hours = (\<lambda>t h. Some (t + h * 3600000000)), ch_rfc3339 = (\<lambda>_. ''t'')\<rparr>"

definition demo_api :: key_api where
  "demo_api = \<lparr>ka_guard = demo_guard, ka_chrono = demo_chrono, ka_parse_uuid = Some, ka_default_expiry_days = 90,
     ka_rotation_period_days = 0, ka_grace_hours = 24\<rparr>"

definition demo_owner :: AuthUser where
  "demo_owner = demo_au\<lparr>au_permissions := [''api_keys:create'', ''api_keys:update'', ''api_keys:rotate'', ''api_keys:delete'']\<rparr>"

definition demo_keys :: key_state where
  "demo_keys = (demo_auth_db, [])"

definition demo_rotated :: "key_state \<times> (AppError + CreateApiKeyResponse) option" where
  "demo_rotated = rotate_key demo_api (\<lambda>_. None) 5 ''k2'' ''r'' demo_owner ''k'' demo_keys"

definition demo_revoked :: "key_state \<times> (AppError + json)" where
  "demo_revoked = revoke_key demo_api (\<lambda>_. None) 5 demo_owner ''k'' demo_keys"

definition demo_new_key :: CreateApiKeyResponse where
  "demo_new_key = \<lparr>cs_id = ''k2'', cs_key = ''tw-72'', cs_name = ''n'', cs_key_prefix = ''tw-72''\<rparr>"

lemma demo_keys_ok: "keys_ok (keys_of demo_keys)"
  by code_simp

lemma demo_live: "live_key (fst demo_keys) ''k'' = Some demo_key" "ak_user_id demo_key = Some ''u''" "user_live (fst demo_keys) ''u''"
    "ak_last_used_at demo_key = None"
  by code_simp+

lemma demo_rotation: "rotate_key demo_api (\<lambda>_. None) 5 ''k2'' ''r'' demo_owner ''k'' demo_keys = (fst demo_rotated, Some (Inr demo_new_key))"
proof -
  have "snd demo_rotated = Some (Inr demo_new_key)" by code_simp
  then show ?thesis by (simp add: demo_rotated_def prod_eq_iff)
qed

lemma demo_revocation: "revoke_key demo_api (\<lambda>_. None) 5 demo_owner ''k'' demo_keys = (fst demo_revoked, Inr (JObject [(''status'', JString ''revoked'')]))"
proof -
  have "snd demo_revoked = Inr (JObject [(''status'', JString ''revoked'')])" by code_simp
  then show ?thesis by (simp add: demo_revoked_def prod_eq_iff)
qed


theorem revoked_key_stays_out_witness:
  "\<exists>a. snd (authenticate demo_key_env ''ai_gateway'' Call demo_request demo_errs demo_key_times None (fst (fst demo_revoked), [])) = Inl a"
proof -
  have "presented_key (hq_headers demo_request) (hq_query demo_request) = Some ''tw-1''" "kn_hash demo_key_env ''tw-1'' = ak_key_hash demo_key"
      "ge_key_hash demo_guard ''tw-1'' = ak_key_hash demo_key"
    by code_simp+
  from revoked_key_stays_out [OF demo_keys_ok demo_live(1) disjI1 [OF demo_revocation] key_run.start _ this,
      where surface = "''ai_gateway''" and use = Call and errs = demo_errs and ts = demo_key_times and ip = None and log = "[]"
      and Q = mem_ttl and now' = 0 and errs' = demo_no_errs and s = "demo_keyed 0"]
  show ?thesis by simp
qed

theorem rotation_hands_over_witness:
  "\<exists>k'. lookup_key (fst (fst demo_rotated)) 7 0 ''tw-72'' = Some k' \<and> ak_user_id k' = Some ''u'' \<and> ak_lineage_id k' = ''l'' \<and>
     ak_mcp_account_overrides k' = JObject []"
proof -
  have h: "gk_hash (generate_api_key (ge_key_hash (ka_guard demo_api)) ''r'') = ''tw-72''" "ak_lineage_id demo_key = ''l''" by code_simp+
  from rotation_hands_over [OF demo_rotation demo_keys_ok demo_live(1-3), of 7 0] show ?thesis by (auto simp: h)
qed

theorem rotated_key_outlives_its_grace_witness:
  "\<exists>k'. ak_grace_period_ends_at k' = Some 86400000005 \<and> lookup_key (fst (fst demo_rotated)) 86400000006 0 ''tw-1'' = Some k'"
proof -
  have h: "ch_add_hours (ka_chrono demo_api) 5 (ka_grace_hours demo_api) = Some 86400000005" "ak_key_hash demo_key = ''tw-1''" by code_simp+
  from rotated_key_outlives_its_grace [OF demo_rotation demo_keys_ok demo_live] show ?thesis by (auto simp: h)
qed

definition demo_sweep :: "(key_state \<times> (string + unit)) option" where
  "demo_sweep = run_lifecycle_check demo_chrono (\<lambda>_. None) 30 86400000006 (86400000006, 86400000006) (fst demo_rotated)"

definition demo_swept :: key_state where
  "demo_swept = (case demo_sweep of Some (st, _) \<Rightarrow> st | None \<Rightarrow> demo_keys)"

lemma demo_sweeps: "run_lifecycle_check demo_chrono (\<lambda>_. None) 30 86400000006 (86400000006, 86400000006) (fst demo_rotated) = Some (demo_swept, Inr ())"
proof -
  have "map_option snd demo_sweep = Some (Inr ())" by code_simp
  then show ?thesis by (auto simp: demo_swept_def demo_sweep_def)
qed

theorem sweep_ends_grace_witness:
  "map ak_is_active (keys_of (fst demo_rotated)) = [True, True] \<and> \<not> ak_is_active (keys_of demo_swept ! 0)"
proof -
  have k: "keys_of demo_swept ! 0 \<in> set (keys_of demo_swept)" "ak_grace_period_ends_at (keys_of demo_swept ! 0) = Some 86400000005"
    "map ak_is_active (keys_of (fst demo_rotated)) = [True, True]" by code_simp+
  from sweep_ends_grace [OF demo_sweeps k(1,2) _ order_refl] k(3) show ?thesis by simp
qed

theorem sweep_spares_working_keys_witness:
  "admits_at 5 30 demo_key \<and>
   (\<exists>st'. run_lifecycle_check demo_chrono (\<lambda>_. None) 30 5 (5, 5) demo_keys = Some (st', Inr ()) \<and>
      keys_of st' = [warn_row 5 demo_key])"
proof -
  let ?run = "run_lifecycle_check demo_chrono (\<lambda>_. None) 30 5 (5, 5) demo_keys"
  have a: "admits_at 5 30 demo_key" "\<not> is_past_grace 5 demo_key" "keys_of demo_keys = [demo_key]" by code_simp+
  have "map_option snd ?run = Some (Inr ())" by code_simp
  then obtain st' where r: "?run = Some (st', Inr ())" by (cases ?run) auto
  have "list_all2 (\<lambda>k k'. admits_at 5 30 k \<and> \<not> is_past_grace 5 k \<longrightarrow> k' = warn_row (snd (5::int, 5::int)) k) (keys_of demo_keys) (keys_of st')"
    by (rule sweep_spares_working_keys [OF r]) (simp_all add: demo_chrono_def)
  then have "keys_of st' = [warn_row 5 demo_key]" using a by (auto simp: list_all2_Cons1)
  with a r show ?thesis by blast
qed

theorem sweep_is_idempotent_witness:
  "length (snd demo_swept) = 3 \<and>
   run_lifecycle_check demo_chrono (\<lambda>_. None) 30 86400000006 (86400000006, 86400000006) demo_swept = Some (demo_swept, Inr ())"
proof -
  have "length (snd demo_swept) = 3" by code_simp
  with sweep_is_idempotent [OF demo_sweeps] show ?thesis by simp
qed

theorem keys_change_by_owner_or_admin_witness:
  "fst demo_rotated \<noteq> demo_keys \<and> ''api_keys:rotate'' \<in> set (au_permissions demo_owner) \<and>
   (\<exists>k. live_key (fst demo_keys) ''k'' = Some k \<and> (ak_user_id k = Some (cm_sub (au_claims demo_owner)) \<or> caller_is_admin_tier demo_owner))"
proof -
  have "length (keys_of (fst demo_rotated)) \<noteq> length (keys_of demo_keys)" by code_simp
  then have ne: "fst demo_rotated \<noteq> demo_keys" by auto
  have "(fst demo_rotated, ''api_keys:rotate'') = (fst (rotate_key demo_api (\<lambda>_. None) 5 ''k2'' ''r'' demo_owner ''k'' demo_keys), ''api_keys:rotate'')"
    by (simp add: demo_rotated_def)
  from keys_change_by_owner_or_admin [OF disjI2 [OF disjI1 [OF this]] ne] ne show ?thesis by blast
qed

definition demo_create :: CreateApiKeyRequest where
  "demo_create = \<lparr>cq_name = ''n'', cq_surfaces = [''ai_gateway''], cq_allowed_models = Some [''gpt-4o''], cq_allowed_mcp_tools = None,
     cq_mcp_account_overrides = None, cq_expires_in_days = Some 0, cq_cost_center = None\<rparr>"

definition demo_created :: "key_state \<times> (AppError + CreateApiKeyResponse) option" where
  "demo_created = create_key demo_api (\<lambda>_. None) \<lparr>cd_user = [], cd_shared = []\<rparr> 5 ''k2'' ''r'' demo_owner demo_create demo_keys"

definition demo_limits :: UserResourceLimits where
  "demo_limits = (case role_limits_of demo_api (\<lambda>_. None) (fst demo_keys) ''u'' of Inr l \<Rightarrow> l | Inl _ \<Rightarrow> UserResourceLimits_none)"

theorem new_key_lists_stay_within_roles_witness:
  "snd demo_created = Some (Inr demo_new_key) \<and> models_allow (allowed_models demo_limits) ''gpt-4o-mini''"
proof -
  have c: "snd demo_created = Some (Inr demo_new_key)" by code_simp
  then have "create_key demo_api (\<lambda>_. None) \<lparr>cd_user = [], cd_shared = []\<rparr> 5 ''k2'' ''r'' demo_owner demo_create demo_keys =
      (fst demo_created, Some (Inr demo_new_key))"
    by (simp add: demo_created_def prod_eq_iff)
  moreover have "role_limits_of demo_api (\<lambda>_. None) (fst demo_keys) (cm_sub (au_claims demo_owner)) = Inr demo_limits"
    "cq_allowed_models demo_create = Some [''gpt-4o'']" "models_allow (Some [''gpt-4o'']) ''gpt-4o-mini''" by code_simp+
  ultimately show ?thesis using new_key_lists_stay_within_roles c by blast
qed

definition demo_update :: UpdateKeyRequest where
  "demo_update = \<lparr>uq_allowed_models = None, uq_allowed_mcp_tools = None, uq_surfaces = None, uq_expires_in_days = None,
     uq_rotation_period_days = Some 0, uq_inactivity_timeout_days = None, uq_cost_center = None, uq_mcp_account_overrides = None\<rparr>"

theorem zero_rotation_period_is_refused_witness:
  "snd (update_key demo_api (\<lambda>_. None) \<lparr>cd_user = [], cd_shared = []\<rparr> 5 demo_owner ''k'' demo_update demo_keys) = Some (Inl (Internal ''Database error'')) \<and>
   snd (update_key demo_api (\<lambda>_. None) \<lparr>cd_user = [], cd_shared = []\<rparr> 5 demo_owner ''k'' demo_update demo_keys) \<noteq> Some (Inr demo_key)"
proof -
  have "snd (update_key demo_api (\<lambda>_. None) \<lparr>cd_user = [], cd_shared = []\<rparr> 5 demo_owner ''k'' demo_update demo_keys) =
      Some (Inl (Internal ''Database error''))" by code_simp
  moreover have "uq_rotation_period_days demo_update = Some 0" by (simp add: demo_update_def)
  ultimately show ?thesis using zero_rotation_period_is_refused by blast
qed

text \<open>
  The check that a key was not rotated before reads the row, and the transaction that follows does not look again. Two
  rotations that read the row at the same time both succeed and leave two current keys in one lineage.
\<close>

theorem stale_rotations_fork_a_lineage:
  "case rotate (\<lambda>_. OtherDb) (\<lambda>_. None) 5 ''k2'' demo_key ''tw-'' ''h2'' 9 demo_auth_db of
     Inl _ \<Rightarrow> False
   | Inr (db1, _) \<Rightarrow>
       (case rotate (\<lambda>_. OtherDb) (\<lambda>_. None) 6 ''k3'' demo_key ''tw-'' ''h3'' 9 db1 of
          Inl _ \<Rightarrow> False
        | Inr (db2, _) \<Rightarrow> keys_ok (ad_keys demo_auth_db) \<and> \<not> keys_ok (ad_keys db2))"
  by code_simp

end
