(* ===== verification/Validation.thy ===== *)
theory Validation
  imports App_Error Gateway_Error Mcp_Registry "HOL-Library.Word"
begin

section \<open>What a request may name\<close>

text \<open>
  \<^verbatim>\<open>crates/common/src/validation.rs\<close>: passwords, addresses of mail, headers an administrator adds to upstream calls and the
  URLs the server may call. An IP address is a tuple of octets or of 16-bit segments at their widths; the parsers of URLs,
  hosts and addresses and the resolver are arguments.
\<close>

unbundle bit_operations_syntax

subsection \<open>Passwords and mail addresses\<close>

definition validate_password :: "string \<Rightarrow> AppError + unit" where
  "validate_password p =
     (if length p < 8 then Inl (BadRequest ''Password must be at least 8 characters'')
      else if \<not> list_ex is_ascii_uppercase p \<or> \<not> list_ex is_ascii_lowercase p \<or> \<not> list_ex is_ascii_digit p
      then Inl (BadRequest ''Password must contain at least one uppercase letter, one lowercase letter, and one digit'')
      else Inr ())"

definition is_ascii :: "char \<Rightarrow> bool" where
  "is_ascii c \<longleftrightarrow> of_char c < (128::nat)"

definition validate_email :: "string \<Rightarrow> AppError + unit" where
  "validate_email email =
     (if 254 < length email then Inl (BadRequest ''Email too long (max 254 chars)'')
      else if \<not> list_all is_ascii email then Inl (BadRequest ''Email must contain ASCII characters only'')
      else case split_once email ''@'' of
        None \<Rightarrow> Inl (BadRequest ''Invalid email format'')
      | Some (local_part, domain) \<Rightarrow>
          if local_part = [] \<or> domain = [] \<or> CHR ''.'' \<notin> set domain \<or> starts_with domain ''.'' \<or> ends_with domain ''.''
          then Inl (BadRequest ''Invalid email format'')
          else if 64 < length local_part then Inl (BadRequest ''Email local part too long (max 64 chars)'')
          else Inr ())"

definition normalize_email :: "string \<Rightarrow> string" where
  "normalize_email email = map to_lowercase (str_trim email)"

subsection \<open>Headers\<close>

definition BLOCKED_HEADERS :: "string list" where
  "BLOCKED_HEADERS = [''host'', ''authorization'', ''cookie'', ''set-cookie'', ''transfer-encoding'', ''content-length'',
     ''connection'', ''proxy-authorization'', ''te'', ''upgrade'']"

definition MAX_CUSTOM_HEADERS :: nat where "MAX_CUSTOM_HEADERS = 20"

definition MAX_HEADER_NAME_LEN :: nat where "MAX_HEADER_NAME_LEN = 128"

definition MAX_HEADER_VALUE_LEN :: nat where "MAX_HEADER_VALUE_LEN = 4096"

definition header_name_char :: "char \<Rightarrow> bool" where
  "header_name_char c \<longleftrightarrow>
     is_ascii_lowercase c \<or> is_ascii_uppercase c \<or> is_ascii_digit c \<or> List.member ''-_.~'' c"

definition header_error :: "string \<times> string \<Rightarrow> string option" where
  "header_error e =
     (case e of (name, val) \<Rightarrow>
        if MAX_HEADER_NAME_LEN < length name \<or> MAX_HEADER_VALUE_LEN < length val
        then Some (''Header '' @ [CHR 0x27] @ name @ [CHR 0x27] @ '' exceeds size limit (name max 128, value max 4096)'')
        else if List.member BLOCKED_HEADERS (map to_lowercase name)
        then Some (''Header '' @ [CHR 0x27] @ name @ [CHR 0x27] @ '' is not allowed as a custom header'')
        else if \<not> list_all header_name_char name
        then Some (''Header name '' @ [CHR 0x27] @ name @ [CHR 0x27] @ '' contains invalid characters'')
        else if CHR 0x0D \<in> set val \<or> CHR 0x0A \<in> set val
        then Some (''Header '' @ [CHR 0x27] @ name @ [CHR 0x27] @ '' value contains invalid characters'')
        else None)"

text \<open>The pairs of the map in the order the iteration meets them.\<close>

definition validate_custom_headers :: "(string \<times> string) list \<Rightarrow> AppError + unit" where
  "validate_custom_headers hs =
     (if MAX_CUSTOM_HEADERS < length hs then Inl (BadRequest ''Too many custom headers (max 20)'')
      else case List.map_filter header_error hs of
        [] \<Rightarrow> Inr ()
      | e # _ \<Rightarrow> Inl (BadRequest e))"

subsection \<open>Addresses\<close>

datatype IpAddr =
    V4 "8 word" "8 word" "8 word" "8 word"
  | V6 "16 word" "16 word" "16 word" "16 word" "16 word" "16 word" "16 word" "16 word"

fun is_loopback :: "IpAddr \<Rightarrow> bool" where
  "is_loopback (V4 a b c d) \<longleftrightarrow> a = 127"
| "is_loopback (V6 a b c d e f g h) \<longleftrightarrow> [a, b, c, d, e, f, g, h] = [0, 0, 0, 0, 0, 0, 0, 1]"

fun is_unspecified :: "IpAddr \<Rightarrow> bool" where
  "is_unspecified (V4 a b c d) \<longleftrightarrow> [a, b, c, d] = [0, 0, 0, 0]"
| "is_unspecified (V6 a b c d e f g h) \<longleftrightarrow> [a, b, c, d, e, f, g, h] = [0, 0, 0, 0, 0, 0, 0, 0]"

fun is_private_ip :: "IpAddr \<Rightarrow> bool" where
  "is_private_ip (V4 a b c d) \<longleftrightarrow>
     a = 10 \<or> a = 172 \<and> 16 \<le> b \<and> b \<le> 31 \<or> a = 192 \<and> b = 168 \<or> a = 100 \<and> 64 \<le> b \<and> b \<le> 127"
| "is_private_ip (V6 a b c d e f g h) \<longleftrightarrow> a AND 0xFE00 = 0xFC00"

fun is_link_local :: "IpAddr \<Rightarrow> bool" where
  "is_link_local (V4 a b c d) \<longleftrightarrow> a = 169 \<and> b = 254"
| "is_link_local (V6 a b c d e f g h) \<longleftrightarrow> a AND 0xFFC0 = 0xFE80"

text \<open>\<^verbatim>\<open>Ipv6Addr::to_ipv4_mapped\<close>.\<close>

fun to_ipv4_mapped :: "IpAddr \<Rightarrow> IpAddr option" where
  "to_ipv4_mapped (V6 a b c d e f g h) =
     (if [a, b, c, d, e] = [0, 0, 0, 0, 0] \<and> f = 0xFFFF
      then Some (V4 (ucast (drop_bit 8 g)) (ucast g) (ucast (drop_bit 8 h)) (ucast h)) else None)"
| "to_ipv4_mapped (V4 a b c d) = None"

definition plainly_blocked :: "IpAddr \<Rightarrow> bool" where
  "plainly_blocked ip \<longleftrightarrow> is_loopback ip \<or> is_unspecified ip \<or> is_private_ip ip \<or> is_link_local ip"

fun is_blocked_ip :: "IpAddr \<Rightarrow> bool" where
  "is_blocked_ip (V4 a b c d) \<longleftrightarrow> plainly_blocked (V4 a b c d)"
| "is_blocked_ip (V6 a b c d e f g h) \<longleftrightarrow>
     plainly_blocked (V6 a b c d e f g h) \<or>
     (case to_ipv4_mapped (V6 a b c d e f g h) of Some inner \<Rightarrow> plainly_blocked inner | None \<Rightarrow> False) \<or>
     a = 0x2002 \<or> a AND 0xFF00 = 0xFF00"

subsection \<open>URLs\<close>

record url_env =
  ue_parse :: "string \<Rightarrow> (string \<times> string option) option"
  ue_parse_ip :: "string \<Rightarrow> IpAddr option"
  ue_resolve :: "string \<Rightarrow> IpAddr list"
  ue_parse_host :: "string \<Rightarrow> string option"

definition trim_end_char :: "char \<Rightarrow> string \<Rightarrow> string" where
  "trim_end_char c s = rev (dropWhile (\<lambda>x. x = c) (rev s))"

definition blocked_hosts :: "string list" where
  "blocked_hosts = [''localhost'', ''127.0.0.1'', ''0.0.0.0'', ''169.254.169.254'', ''[::1]'', ''metadata.google.internal'']"

definition validate_url :: "url_env \<Rightarrow> string \<Rightarrow> AppError + unit" where
  "validate_url U url_str =
     (case ue_parse U url_str of
        None \<Rightarrow> Inl (BadRequest ''Invalid URL'')
      | Some (scheme, host_str) \<Rightarrow>
          if scheme \<noteq> ''http'' \<and> scheme \<noteq> ''https'' then Inl (BadRequest ''URL must use http or https'')
          else case host_str of
            None \<Rightarrow> Inl (BadRequest ''URL must contain a host'')
          | Some raw_host \<Rightarrow>
              (let host = trim_end_char (CHR ''.'') raw_host in
               if List.member blocked_hosts host then Inl (BadRequest ''URL points to blocked address'')
               else case ue_parse_ip U host of
                 Some ip \<Rightarrow> if is_blocked_ip ip then Inl (BadRequest ''URL points to private network'') else Inr ()
               | None \<Rightarrow>
                   if ue_resolve U host = [] then Inl (BadRequest ''URL host could not be resolved'')
                   else if list_ex is_blocked_ip (ue_resolve U host)
                   then Inl (BadRequest ''URL resolves to a private or loopback address'')
                   else Inr ()))"

definition bare_host_char :: "char \<Rightarrow> bool" where
  "bare_host_char c \<longleftrightarrow>
     is_ascii_lowercase c \<or> is_ascii_uppercase c \<or> is_ascii_digit c \<or> List.member ''.-_:[]'' c"

definition is_ipv6_text :: "url_env \<Rightarrow> string \<Rightarrow> bool" where
  "is_ipv6_text U host = (case ue_parse_ip U host of Some (V6 _ _ _ _ _ _ _ _) \<Rightarrow> True | _ \<Rightarrow> False)"

definition bare_host :: "url_env \<Rightarrow> string \<Rightarrow> string option" where
  "bare_host U raw =
     (let host = str_trim raw in
      if host = [] then None
      else opt_filter (list_all bare_host_char)
             (ue_parse_host U (if is_ipv6_text U host then ''['' @ host @ '']'' else host)))"

subsection \<open>Blocks of addresses\<close>

text \<open>
  The reference: an address as a number, and a block as a base address with the length of its prefix. \<open>BLOCKED_V4\<close> and
  \<open>BLOCKED_V6\<close> list the blocks the comment of \<open>is_blocked_ip\<close> names: this host, loopback, the private and shared
  ranges, link-local, unique local addresses, 6to4 and multicast, and each block of version 4 in its mapped form.
\<close>

fun ip_number :: "IpAddr \<Rightarrow> int" where
  "ip_number (V4 a b c d) = ((uint a * 2 ^ 8 + uint b) * 2 ^ 8 + uint c) * 2 ^ 8 + uint d"
| "ip_number (V6 a b c d e f g h) =
     ((((((uint a * 2 ^ 16 + uint b) * 2 ^ 16 + uint c) * 2 ^ 16 + uint d) * 2 ^ 16 + uint e) * 2 ^ 16 + uint f) * 2 ^ 16
       + uint g) * 2 ^ 16 + uint h"

definition in_block :: "nat \<Rightarrow> int \<Rightarrow> int \<times> nat \<Rightarrow> bool" where
  "in_block bits n blk = (case blk of (base, len) \<Rightarrow> n div 2 ^ (bits - len) = base div 2 ^ (bits - len))"

definition v4_base :: "int \<Rightarrow> int \<Rightarrow> int \<Rightarrow> int \<Rightarrow> int" where
  "v4_base a b c d = a * 2 ^ 24 + b * 2 ^ 16 + c * 2 ^ 8 + d"

definition BLOCKED_V4 :: "(int \<times> nat) list" where
  "BLOCKED_V4 = [(v4_base 127 0 0 0, 8), (v4_base 0 0 0 0, 32), (v4_base 10 0 0 0, 8), (v4_base 172 16 0 0, 12),
     (v4_base 192 168 0 0, 16), (v4_base 100 64 0 0, 10), (v4_base 169 254 0 0, 16)]"

definition BLOCKED_V6 :: "(int \<times> nat) list" where
  "BLOCKED_V6 = [(1, 128), (0, 128), (0xFC00 * 2 ^ 112, 7), (0xFE80 * 2 ^ 112, 10), (0x2002 * 2 ^ 112, 16),
     (0xFF00 * 2 ^ 112, 8)]"

definition mapped_block :: "int \<times> nat \<Rightarrow> int \<times> nat" where
  "mapped_block blk = (0xFFFF * 2 ^ 32 + fst blk, 96 + snd blk)"

fun in_blocked_range :: "IpAddr \<Rightarrow> bool" where
  "in_blocked_range (V4 a b c d) = list_ex (in_block 32 (ip_number (V4 a b c d))) BLOCKED_V4"
| "in_blocked_range (V6 a b c d e f g h) =
     list_ex (in_block 128 (ip_number (V6 a b c d e f g h))) (BLOCKED_V6 @ map mapped_block BLOCKED_V4)"

subsection \<open>The tests against the blocks\<close>

lemma and_high_bits: "(x :: 16 word) AND NOT (mask n) = push_bit n (drop_bit n x)"
  by (rule bit_word_eqI) (auto simp: bit_simps)

lemma uint_and_high_bits: "uint ((x :: 16 word) AND NOT (mask n)) = uint x div 2 ^ n * 2 ^ n"
proof -
  have "uint x div 2 ^ n * 2 ^ n \<le> uint x"
    by (simp add: minus_mod_eq_div_mult [symmetric])
  also have "uint x < 2 ^ 16" using uint_lt2p [of x] by simp
  finally have "uint x div 2 ^ n * 2 ^ n mod 2 ^ 16 = uint x div 2 ^ n * 2 ^ n"
    by (intro mod_pos_pos_trivial) (simp_all add: pos_imp_zdiv_nonneg_iff)
  moreover have "uint x mod 2 ^ 16 = uint x" using uint_lt2p [of x] by simp
  ultimately show ?thesis
    unfolding and_high_bits
    by (simp only: unsigned_push_bit_eq unsigned_drop_bit_eq) (simp add: push_bit_eq_mult drop_bit_eq_div take_bit_eq_mod)
qed

lemma high_masks: "(0xFE00 :: 16 word) = NOT (mask 9)" "(0xFFC0 :: 16 word) = NOT (mask 6)" "(0xFF00 :: 16 word) = NOT (mask 8)"
  by code_simp+

lemma masked_segment:
  "(x :: 16 word) AND 0xFE00 = 0xFC00 \<longleftrightarrow> uint x div 2 ^ 9 = 0x7E"
  "(x :: 16 word) AND 0xFFC0 = 0xFE80 \<longleftrightarrow> uint x div 2 ^ 6 = 0x3FA"
  "(x :: 16 word) AND 0xFF00 = 0xFF00 \<longleftrightarrow> uint x div 2 ^ 8 = 0xFF"
  using uint_and_high_bits [of x 9] uint_and_high_bits [of x 6] uint_and_high_bits [of x 8]
  by (simp_all add: high_masks [symmetric] word_eq_iff_unsigned [where 'a = int])

lemma octet_bounds: "0 \<le> uint (x :: 8 word)" "uint (x :: 8 word) < 256"
  using uint_lt2p [of x] by simp_all

lemma segment_bounds: "0 \<le> uint (x :: 16 word)" "uint (x :: 16 word) < 65536"
  using uint_lt2p [of x] by simp_all

lemma octets_of_segment:
  "uint (ucast (drop_bit 8 (g :: 16 word)) :: 8 word) = uint g div 2 ^ 8"
  "uint (ucast (g :: 16 word) :: 8 word) = uint g mod 2 ^ 8"
proof -
  have "uint g div 2 ^ 8 mod 2 ^ 8 = uint g div 2 ^ 8"
    using segment_bounds [of g] by (intro mod_pos_pos_trivial) (simp_all add: pos_imp_zdiv_nonneg_iff)
  then show "uint (ucast (drop_bit 8 g) :: 8 word) = uint g div 2 ^ 8"
    by (simp add: unsigned_ucast_eq unsigned_drop_bit_eq drop_bit_eq_div take_bit_eq_mod uint_div_distrib)
qed (simp add: unsigned_ucast_eq take_bit_eq_mod)

lemma leading_part:
  assumes "n = q * 2 ^ k + r" "0 \<le> r" "r < 2 ^ k"
  shows "n div 2 ^ (k + j) = q div (2 ^ j :: int)"
proof -
  have "n div 2 ^ (k + j) = (q * 2 ^ k + r) div 2 ^ k div 2 ^ j"
    unfolding assms(1) power_add by (rule zdiv_zmult2_eq) simp
  also have "(q * 2 ^ k + r) div 2 ^ k = q" using assms(2,3) by simp
  finally show ?thesis .
qed

lemma v4_ip_number_bounds: "0 \<le> ip_number (V4 a b c d)" "ip_number (V4 a b c d) < 2 ^ 32"
  using octet_bounds [of a] octet_bounds [of b] octet_bounds [of c] octet_bounds [of d] by simp_all

lemma split_div: "((x :: int) * (m * k) + y) div k = x * m + y div k" if "k \<noteq> 0"
  using div_mult_self3 [OF that, of "x * m" y] by (simp add: algebra_simps)

lemma v4_prefixes:
  "ip_number (V4 a b c d) div 2 ^ 24 = uint a"
  "ip_number (V4 a b c d) div 2 ^ 22 = uint a * 4 + uint b div 64"
  "ip_number (V4 a b c d) div 2 ^ 20 = uint a * 16 + uint b div 16"
  "ip_number (V4 a b c d) div 2 ^ 16 = uint a * 256 + uint b"
proof -
  have pre: "ip_number (V4 a b c d) div 2 ^ (16 + j) = (uint a * 256 + uint b) div 2 ^ j" for j
    by (rule leading_part [where r = "uint c * 2 ^ 8 + uint d"]) (use octet_bounds [of c] octet_bounds [of d] in simp_all)
  show "ip_number (V4 a b c d) div 2 ^ 24 = uint a"
    using pre [of 8] split_div [of 256 "uint a" 1 "uint b"] octet_bounds [of b] by (simp add: div_pos_pos_trivial)
  show "ip_number (V4 a b c d) div 2 ^ 22 = uint a * 4 + uint b div 64"
    using pre [of 6] split_div [of 64 "uint a" 4 "uint b"] by simp
  show "ip_number (V4 a b c d) div 2 ^ 20 = uint a * 16 + uint b div 16"
    using pre [of 4] split_div [of 16 "uint a" 16 "uint b"] by simp
  show "ip_number (V4 a b c d) div 2 ^ 16 = uint a * 256 + uint b"
    using pre [of 0] by simp
qed

lemma quot_rem_eq:
  assumes "0 \<le> q" "q < m" "0 \<le> l" "l < m"
  shows "x * m + q = k * m + l \<longleftrightarrow> x = k \<and> q = (l :: int)"
proof
  assume eq: "x * m + q = k * m + l"
  from arg_cong [OF eq, of "\<lambda>n. n div m"] arg_cong [OF eq, of "\<lambda>n. n mod m"] assms
  show "x = k \<and> q = l" by simp
qed simp

lemma octet_pairs:
  assumes "0 \<le> y" "y < 256"
  shows "x * 4 + y div 64 = 401 \<longleftrightarrow> x = 100 \<and> 64 \<le> y \<and> y \<le> (127 :: int)"
    and "x * 16 + y div 16 = 2753 \<longleftrightarrow> x = 172 \<and> 16 \<le> y \<and> y \<le> 31"
    and "x * 256 + y = 49320 \<longleftrightarrow> x = 192 \<and> y = 168"
    and "x * 256 + y = 43518 \<longleftrightarrow> x = 169 \<and> y = 254"
proof -
  have "0 \<le> y div 64 \<and> y div 64 < 4" "0 \<le> y div 16 \<and> y div 16 < 16" using assms by presburger+
  moreover have "y div 64 = 1 \<longleftrightarrow> 64 \<le> y \<and> y \<le> 127" "y div 16 = 1 \<longleftrightarrow> 16 \<le> y \<and> y \<le> 31" by presburger+
  ultimately show "x * 4 + y div 64 = 401 \<longleftrightarrow> x = 100 \<and> 64 \<le> y \<and> y \<le> 127"
    "x * 16 + y div 16 = 2753 \<longleftrightarrow> x = 172 \<and> 16 \<le> y \<and> y \<le> 31"
    using quot_rem_eq [of "y div 64" 4 1 x 100] quot_rem_eq [of "y div 16" 16 1 x 172] by simp_all
  show "x * 256 + y = 49320 \<longleftrightarrow> x = 192 \<and> y = 168" "x * 256 + y = 43518 \<longleftrightarrow> x = 169 \<and> y = 254"
    using assms quot_rem_eq [of y 256 168 x 192] quot_rem_eq [of y 256 254 x 169] by simp_all
qed

lemma sum_of_parts_zero:
  assumes "0 \<le> w" "0 \<le> x" "0 \<le> y" "0 \<le> z"
  shows "((w * 2 ^ 8 + x) * 2 ^ 8 + y) * 2 ^ 8 + z = 0 \<longleftrightarrow> w = 0 \<and> x = 0 \<and> y = 0 \<and> z = (0 :: int)"
  using assms by auto

lemma v4_blocks:
  "list_ex (in_block 32 n) BLOCKED_V4 \<longleftrightarrow>
     n div 2 ^ 24 = 127 \<or> n = 0 \<or> n div 2 ^ 24 = 10 \<or> n div 2 ^ 20 = 2753 \<or> n div 2 ^ 16 = 49320 \<or> n div 2 ^ 22 = 401 \<or>
     n div 2 ^ 16 = 43518"
  by (simp add: BLOCKED_V4_def v4_base_def in_block_def)

lemma plainly_blocked_v4: "plainly_blocked (V4 a b c d) \<longleftrightarrow> in_blocked_range (V4 a b c d)"
  unfolding in_blocked_range.simps v4_blocks v4_prefixes octet_pairs [OF octet_bounds]
  unfolding ip_number.simps sum_of_parts_zero [OF octet_bounds(1) octet_bounds(1) octet_bounds(1) octet_bounds(1)]
  by (auto simp: plainly_blocked_def word_uint_eq_iff word_le_def)

lemma low_bounds: "0 \<le> uint (x :: 16 word) \<and> uint x < (2 :: int) ^ 16"
  using segment_bounds [of x] by simp

fun tail_number :: "(16 word) list \<Rightarrow> int \<Rightarrow> int" where
  "tail_number [] n = n"
| "tail_number (x # xs) n = tail_number xs (n * 2 ^ 16 + uint x)"

lemma tail_number_split: "\<exists>r. tail_number xs n = n * 2 ^ (16 * length xs) + r \<and> 0 \<le> r \<and> r < 2 ^ (16 * length xs)"
proof (induction xs arbitrary: n)
  case (Cons x xs)
  from Cons.IH [of "n * 2 ^ 16 + uint x"] obtain r
    where r: "tail_number (x # xs) n = (n * 2 ^ 16 + uint x) * 2 ^ (16 * length xs) + r" "0 \<le> r" "r < 2 ^ (16 * length xs)"
    by auto
  define P :: int where "P = 2 ^ (16 * length xs)"
  have "0 \<le> (65535 - uint x) * P" using low_bounds [of x] by (simp add: P_def)
  then have "uint x * P + r < 65536 * P" using r(3) by (simp add: P_def [symmetric] left_diff_distrib)
  with r low_bounds [of x] show ?case
    by (intro exI [of _ "uint x * P + r"]) (simp add: P_def algebra_simps power_add)
qed simp

lemma v6_as_tail: "ip_number (V6 a b c d e f g h) = tail_number [b, c, d, e, f, g, h] (uint a)"
  by simp

lemma v6_prefix: "ip_number (V6 a b c d e f g h) div 2 ^ (112 + j) = uint a div 2 ^ j"
proof -
  obtain r where "tail_number [b, c, d, e, f, g, h] (uint a) = uint a * 2 ^ 112 + r" "0 \<le> r" "r < 2 ^ 112"
    using tail_number_split [of "[b, c, d, e, f, g, h]" "uint a"] by auto
  then show ?thesis unfolding v6_as_tail by (rule leading_part)
qed

lemma v6_blocks:
  "list_ex (in_block 128 n) BLOCKED_V6 \<longleftrightarrow>
     n = 1 \<or> n = 0 \<or> n div 2 ^ (112 + 9) = 0x7E \<or> n div 2 ^ (112 + 6) = 0x3FA \<or> n div 2 ^ (112 + 0) = 0x2002 \<or>
     n div 2 ^ (112 + 8) = 0xFF"
  by (simp add: BLOCKED_V6_def in_block_def)

lemma tail_number_small:
  assumes "0 \<le> n" "0 \<le> k" "k < 2 ^ 16"
  shows "tail_number (xs @ [x]) n = k \<longleftrightarrow> n = 0 \<and> list_all (\<lambda>y. y = 0) xs \<and> uint x = k"
proof -
  have step: "m * 2 ^ 16 + uint y = 0 \<longleftrightarrow> m = 0 \<and> uint y = 0" "m * 2 ^ 16 + uint y = k \<longleftrightarrow> m = 0 \<and> uint y = k"
    if "0 \<le> m" for m and y :: "16 word"
    using quot_rem_eq [of "uint y" "2 ^ 16" 0 m 0] quot_rem_eq [of "uint y" "2 ^ 16" k m 0] low_bounds [of y] assms by simp_all
  from \<open>0 \<le> n\<close> show ?thesis
  proof (induction xs arbitrary: n)
    case Nil
    then show ?case by (simp add: step del: power_numeral)
  next
    case (Cons y ys)
    then show ?case using step(1) [of n y] low_bounds [of y] by (auto simp: word_uint_eq_iff)
  qed
qed

lemma v6_small:
  assumes "0 \<le> k" "k < 2 ^ 16"
  shows "ip_number (V6 a b c d e f g h) = k \<longleftrightarrow>
    a = 0 \<and> b = 0 \<and> c = 0 \<and> d = 0 \<and> e = 0 \<and> f = 0 \<and> g = 0 \<and> uint h = k"
  unfolding v6_as_tail using tail_number_small [OF segment_bounds(1) [of a] assms, of "[b, c, d, e, f, g]" h]
  by (simp add: word_uint_eq_iff del: tail_number.simps)

lemma plainly_blocked_v6:
  "plainly_blocked (V6 a b c d e f g h) \<or> a = 0x2002 \<or> a AND 0xFF00 = 0xFF00 \<longleftrightarrow>
     list_ex (in_block 128 (ip_number (V6 a b c d e f g h))) BLOCKED_V6"
proof -
  have "uint h = 0 \<longleftrightarrow> h = 0" "uint h = 1 \<longleftrightarrow> h = 1" "uint a div 2 ^ 0 = 0x2002 \<longleftrightarrow> a = 0x2002"
    by (simp_all add: word_uint_eq_iff)
  moreover have "(0 :: int) < 2 ^ 16" "(1 :: int) < 2 ^ 16" by simp_all
  ultimately show ?thesis
    unfolding v6_blocks v6_prefix by (simp only: v6_small order_refl zero_le_one) (auto simp: plainly_blocked_def masked_segment)
qed

text \<open>A mapped block holds the addresses whose upper 96 bits are the prefix and whose lower 32 bits are in the block.\<close>

lemma in_mapped_block:
  assumes v: "0 \<le> v" "v < 2 ^ 32" and b: "0 \<le> fst blk" "fst blk < 2 ^ 32" "snd blk \<le> 32" and p: "0 \<le> p"
  shows "in_block 128 (p * 2 ^ 32 + v) (mapped_block blk) \<longleftrightarrow> p = 0xFFFF \<and> in_block 32 v blk"
proof -
  define k where "k = 32 - snd blk"
  define m :: int where "m = 2 ^ snd blk"
  have km: "(2 :: int) ^ 32 = m * 2 ^ k" using b(3) by (simp add: k_def m_def power_add [symmetric])
  have part: "(q * 2 ^ 32 + w) div 2 ^ k = q * m + w div 2 ^ k" for q w :: int
    unfolding km by (rule split_div) simp
  have bound: "0 \<le> w div 2 ^ k \<and> w div 2 ^ k < m" if "0 \<le> w" "w < 2 ^ 32" for w :: int
  proof -
    have "w div 2 ^ k * 2 ^ k \<le> w" by (simp add: minus_mod_eq_div_mult [symmetric])
    also have "w < m * 2 ^ k" using that(2) unfolding km .
    finally have "w div 2 ^ k * 2 ^ k < m * 2 ^ k" .
    then have "w div 2 ^ k < m" by (rule mult_right_less_imp_less) simp
    with that(1) show ?thesis by (simp add: pos_imp_zdiv_nonneg_iff)
  qed
  have e: "128 - snd (mapped_block blk) = k" using b(3) by (simp add: mapped_block_def k_def)
  have f: "fst (mapped_block blk) = 0xFFFF * 2 ^ 32 + fst blk" by (simp add: mapped_block_def)
  show ?thesis
    using quot_rem_eq [of "v div 2 ^ k" m "fst blk div 2 ^ k" p "0xFFFF"] bound [OF v] bound [OF b(1,2)]
    by (simp only: in_block_def split_beta e f part k_def [symmetric])
qed

lemma v6_as_pair:
  "ip_number (V6 a b c d e f g h) = tail_number [b, c, d, e, f] (uint a) * 2 ^ 32 + (uint g * 2 ^ 16 + uint h)"
  by simp

lemma mapped_prefix:
  fixes a :: "16 word"
  shows "tail_number [b, c, d, e, f] (uint a) = 0xFFFF \<longleftrightarrow> a = 0 \<and> b = 0 \<and> c = 0 \<and> d = 0 \<and> e = 0 \<and> f = 0xFFFF"
  using tail_number_small [OF segment_bounds(1) [of a], of "0xFFFF" "[b, c, d, e]" f]
  by (simp add: word_uint_eq_iff del: tail_number.simps)

lemma mapped_number:
  "ip_number (V4 (ucast (drop_bit 8 g)) (ucast g) (ucast (drop_bit 8 h)) (ucast h)) = uint (g :: 16 word) * 2 ^ 16 + uint (h :: 16 word)"
proof -
  have "uint g div 2 ^ 8 * 2 ^ 8 + uint g mod 2 ^ 8 = uint g" "uint h div 2 ^ 8 * 2 ^ 8 + uint h mod 2 ^ 8 = uint h"
    by (rule div_mult_mod_eq)+
  then show ?thesis unfolding ip_number.simps octets_of_segment(1) octets_of_segment(2) [of g] octets_of_segment(2) [of h] by simp
qed

lemma blocked_v4_blocks: "blk \<in> set BLOCKED_V4 \<Longrightarrow> 0 \<le> fst blk \<and> fst blk < 2 ^ 32 \<and> snd blk \<le> 32"
  by (auto simp: BLOCKED_V4_def v4_base_def)

lemma mapped_blocked:
  "(case to_ipv4_mapped (V6 a b c d e f g h) of Some inner \<Rightarrow> plainly_blocked inner | None \<Rightarrow> False) \<longleftrightarrow>
     list_ex (in_block 128 (ip_number (V6 a b c d e f g h))) (map mapped_block BLOCKED_V4)"
proof -
  let ?v = "uint g * 2 ^ 16 + uint h" and ?p = "tail_number [b, c, d, e, f] (uint a)"
  have v: "0 \<le> ?v" "?v < 2 ^ 32" using low_bounds [of g] low_bounds [of h] by simp_all
  have "0 \<le> ?p" by simp
  then have "list_ex (in_block 128 (ip_number (V6 a b c d e f g h))) (map mapped_block BLOCKED_V4) \<longleftrightarrow>
      ?p = 0xFFFF \<and> list_ex (in_block 32 ?v) BLOCKED_V4"
    using blocked_v4_blocks in_mapped_block [OF v] unfolding v6_as_pair list_ex_iff set_map ball_simps bex_simps
    by (smt (verit))
  also have "\<dots> \<longleftrightarrow> ?p = 0xFFFF \<and>
      plainly_blocked (V4 (ucast (drop_bit 8 g)) (ucast g) (ucast (drop_bit 8 h)) (ucast h))"
    unfolding plainly_blocked_v4 in_blocked_range.simps mapped_number ..
  finally show ?thesis unfolding mapped_prefix by auto
qed

lemma blocked_ip_iff: "is_blocked_ip ip \<longleftrightarrow> in_blocked_range ip"
proof (cases ip)
  case (V4 a b c d)
  then show ?thesis using plainly_blocked_v4 [of a b c d] by simp
next
  case (V6 a b c d e f g h)
  then show ?thesis
    using plainly_blocked_v6 [of a b c d e f g h] mapped_blocked [of a b c d e f g h]
    by (auto simp del: ip_number.simps to_ipv4_mapped.simps)
qed

text \<open>The addresses a checked host stands for.\<close>

definition url_addresses :: "url_env \<Rightarrow> string \<Rightarrow> IpAddr list" where
  "url_addresses U host = (case ue_parse_ip U host of Some ip \<Rightarrow> [ip] | None \<Rightarrow> ue_resolve U host)"

subsection \<open>Properties\<close>

text \<open>
  (C31) The tests on octets and masks of \<open>is_blocked_ip\<close> are exactly membership in the published blocks of addresses: those
  of this host, loopback, private and shared networks, link-local, unique local, 6to4 and multicast, and each block of
  version 4 in its mapped form.
\<close>

theorem blocked_ip_is_block_membership: "is_blocked_ip ip \<longleftrightarrow> in_blocked_range ip"
  by (rule blocked_ip_iff)


end
