(* ===== verification/Login_Parts.thy ===== *)
theory Login_Parts
  imports Key_Handlers Route_Health Validation
begin

section \<open>What a login is made of\<close>

text \<open>
  The parts the handlers of \<^verbatim>\<open>handlers/auth.rs\<close> are composed of: the proof of work (\<^verbatim>\<open>auth/src/pow.rs\<close>), one-time codes and
  recovery codes (\<^verbatim>\<open>auth/src/totp.rs\<close>, \<^verbatim>\<open>services/totp_service.rs\<close>), the lockout ladder (\<^verbatim>\<open>services/auth_lockout.rs\<close>), the claim on
  a refresh token (\<^verbatim>\<open>services/refresh_blacklist.rs\<close>), the marker of a temporary password (\<^verbatim>\<open>services/session_service.rs\<close>) and the
  statements on the user's row (\<^verbatim>\<open>services/auth_repository.rs\<close>). Hashes, encryption, encodings, the check of a one-time code and
  of a password are arguments.
\<close>

subsection \<open>Numbers in text\<close>

definition parse_unsigned :: "nat \<Rightarrow> string \<Rightarrow> nat option" where
  "parse_unsigned bound s =
     (let ds = (case s of c # cs \<Rightarrow> if c = CHR ''+'' then cs else s | [] \<Rightarrow> s)
      in case parse_nat ds of Some n \<Rightarrow> if n \<le> bound then Some n else None | None \<Rightarrow> None)"

definition parse_u8 :: "string \<Rightarrow> nat option" where
  "parse_u8 = parse_unsigned 255"

definition parse_u64 :: "string \<Rightarrow> nat option" where
  "parse_u64 = parse_unsigned (2 ^ 64 - 1)"

definition hex_digit_of :: "nat \<Rightarrow> char" where
  "hex_digit_of d = ''0123456789abcdef'' ! d"

fun show_hex :: "nat \<Rightarrow> string" where
  "show_hex n = (if n < 16 then [hex_digit_of n] else show_hex (n div 16) @ [hex_digit_of (n mod 16)])"

declare show_hex.simps [simp del]

subsection \<open>Proof of work\<close>

definition DEFAULT_DIFFICULTY :: nat where "DEFAULT_DIFFICULTY = 19"

definition CHALLENGE_TTL_SECS :: int where "CHALLENGE_TTL_SECS = 300"

definition POW_CHALLENGE_PREFIX :: string where "POW_CHALLENGE_PREFIX = ''pow:challenge:''"

text \<open>\<^verbatim>\<open>u8::leading_zeros\<close>.\<close>

definition leading_zeros :: "char \<Rightarrow> nat" where
  "leading_zeros b = length (takeWhile (\<lambda>i. \<not> bit (of_char b :: nat) i) [7, 6, 5, 4, 3, 2, 1, 0])"

fun leading_zero_bits :: "string \<Rightarrow> nat" where
  "leading_zero_bits [] = 0"
| "leading_zero_bits (b # bs) = (if of_char b = (0::nat) then 8 + leading_zero_bits bs else leading_zeros b)"

definition verify_pow :: "(string \<Rightarrow> string) \<Rightarrow> string \<Rightarrow> string \<Rightarrow> string \<Rightarrow> nat \<Rightarrow> bool" where
  "verify_pow sha challenge_random email nonce difficulty \<longleftrightarrow>
     difficulty \<le> leading_zero_bits (sha (challenge_random @ '':'' @ email @ '':'' @ nonce))"

definition difficulty_for_subnet_failures :: "nat \<Rightarrow> nat" where
  "difficulty_for_subnet_failures recent =
     (if 50 \<le> recent then 23 else if 10 \<le> recent then 21 else DEFAULT_DIFFICULTY)"

fun show_v4_net :: "IpAddr \<Rightarrow> string" where
  "show_v4_net (V4 a b c d) = show_nat (unat a) @ ''.'' @ show_nat (unat b) @ ''.'' @ show_nat (unat c) @ ''.0/24''"
| "show_v4_net _ = []"

definition subnet_key :: "(string \<Rightarrow> IpAddr option) \<Rightarrow> string \<Rightarrow> string" where
  "subnet_key parse_ip ip =
     (case parse_ip ip of
        Some (V4 a b c d) \<Rightarrow> show_v4_net (V4 a b c d)
      | Some (V6 a b c d e f g h) \<Rightarrow>
          (case to_ipv4_mapped (V6 a b c d e f g h) of
             Some v4 \<Rightarrow> show_v4_net v4
           | None \<Rightarrow> show_hex (unat a) @ '':'' @ show_hex (unat b) @ '':'' @ show_hex (unat c) @ ''::/48'')
      | None \<Rightarrow> ip)"

subsection \<open>Recovery codes\<close>

definition FIXED_LEN :: nat where "FIXED_LEN = 16"

definition pad_to_fixed :: "string \<Rightarrow> string" where
  "pad_to_fixed s = take FIXED_LEN s @ replicate (FIXED_LEN - length s) (CHR 0x00)"

text \<open>Lengths are compared as bytes.\<close>

definition code_matches :: "string \<Rightarrow> string \<Rightarrow> bool" where
  "code_matches candidate stored \<longleftrightarrow>
     length stored mod 256 = length candidate mod 256 \<and> pad_to_fixed stored = pad_to_fixed candidate"

fun find_code_from :: "nat \<Rightarrow> string \<Rightarrow> string list \<Rightarrow> nat option \<Rightarrow> nat option" where
  "find_code_from i candidate [] found_idx = found_idx"
| "find_code_from i candidate (c # cs) found_idx =
     find_code_from (i + 1) candidate cs (if code_matches candidate c then Some i else found_idx)"

definition find_recovery_code :: "string list \<Rightarrow> string \<Rightarrow> nat option" where
  "find_recovery_code codes candidate = find_code_from 0 candidate codes None"

text \<open>\<open>draws\<close>: the random bytes of the rounds of the loop; \<open>None\<close> when they are used up first.\<close>

definition recovery_code :: "(string \<Rightarrow> string) \<Rightarrow> string \<Rightarrow> string" where
  "recovery_code base32 bytes = (let e = base32 bytes in take 4 e @ ''-'' @ take 4 (drop 4 e))"

fun generate_recovery_codes :: "(string \<Rightarrow> string) \<Rightarrow> nat \<Rightarrow> string list \<Rightarrow> string list \<Rightarrow> string list option" where
  "generate_recovery_codes base32 n [] codes = (if n \<le> length codes then Some codes else None)"
| "generate_recovery_codes base32 n (d # draws) codes =
     (if n \<le> length codes then Some codes
      else generate_recovery_codes base32 n draws
             (let c = recovery_code base32 d in if List.member codes c then codes else codes @ [c]))"

definition remove_at :: "nat \<Rightarrow> 'a list \<Rightarrow> 'a list" where
  "remove_at i xs = take i xs @ drop (Suc i) xs"

subsection \<open>One-time codes\<close>

definition STEP :: int where "STEP = 30"

definition SKEW :: int where "SKEW = 1"

definition ACCEPT_WINDOW_SECS :: int where "ACCEPT_WINDOW_SECS = STEP * (2 * SKEW + 1)"

definition LAST_STEP_TTL_SECS :: int where "LAST_STEP_TTL_SECS = 2 * ACCEPT_WINDOW_SECS"

definition last_step_key :: "uuid \<Rightarrow> string" where
  "last_step_key u = ''totp_last_step:'' @ u"

definition auth_unavailable :: AppError where
  "auth_unavailable = Internal ''Authentication temporarily unavailable''"

text \<open>
  The script: a recorded step that is not a number makes the comparison an error.
\<close>

definition claim_step :: "'s redis_ttl \<Rightarrow> int \<Rightarrow> uuid \<Rightarrow> int \<Rightarrow> 's \<Rightarrow> 's \<times> (AppError + bool)" where
  "claim_step Q now u step s =
     (let k = last_step_key u in
      if rt_err Q s k \<noteq> None then (s, Inl auth_unavailable)
      else case ttl_get Q now s k of
        Some v \<Rightarrow>
          (case parse_int v of
             None \<Rightarrow> (s, Inl auth_unavailable)
           | Some previous \<Rightarrow>
               if step \<le> previous then (s, Inr False)
               else (set_ex Q now k (show_int step) LAST_STEP_TTL_SECS s, Inr True))
      | None \<Rightarrow> (set_ex Q now k (show_int step) LAST_STEP_TTL_SECS s, Inr True))"

subsection \<open>Lockouts\<close>

definition COUNTER_WINDOW_SECS :: int where "COUNTER_WINDOW_SECS = 900"

definition ladder_secs :: "int \<Rightarrow> int option" where
  "ladder_secs failed =
     (if 10 \<le> failed then Some 900 else if 8 \<le> failed then Some 300 else if 5 \<le> failed then Some 60 else None)"

definition is_locked :: "'s redis_ttl \<Rightarrow> int \<Rightarrow> string \<Rightarrow> 's \<Rightarrow> AppError + bool" where
  "is_locked Q now k s =
     (if rt_err Q s k \<noteq> None then Inl auth_unavailable else Inr (ttl_get Q now s k \<noteq> None))"

definition record_auth_failure :: "'s redis_ttl \<Rightarrow> int \<Rightarrow> string \<Rightarrow> 's \<Rightarrow> 's \<times> (AppError + int)" where
  "record_auth_failure Q now k s =
     (case fixed_incr Q (now, now) k COUNTER_WINDOW_SECS s of
        (s1, Inl _) \<Rightarrow> (s1, Inl auth_unavailable)
      | (s1, Inr n) \<Rightarrow> (s1, Inr n))"

definition apply_lockout :: "'s redis_ttl \<Rightarrow> int \<Rightarrow> string \<Rightarrow> int \<Rightarrow> 's \<Rightarrow> 's \<times> (AppError + unit)" where
  "apply_lockout Q now k secs s =
     (if rt_err Q s k \<noteq> None then (s, Inl auth_unavailable) else (set_ex Q now k ''1'' secs s, Inr ()))"

definition clear_keys :: "'s redis_ttl \<Rightarrow> string list \<Rightarrow> 's \<Rightarrow> 's" where
  "clear_keys Q ks s = fold (del_best_effort Q) ks s"

text \<open>\<^verbatim>\<open>TTL\<close>: \<open>-2\<close> for a key that is not there, \<open>-1\<close> for one without a deadline, else the time left to the nearest second.\<close>

definition ttl_left :: "'s redis_ttl \<Rightarrow> int \<Rightarrow> string \<Rightarrow> 's \<Rightarrow> int" where
  "ttl_left Q now k s =
     (case rt_entry Q s k of
        None \<Rightarrow> -2
      | Some (v, None) \<Rightarrow> -1
      | Some (v, Some d) \<Rightarrow> if now < d then (d - now + 500) div 1000 else -2)"

subsection \<open>The claim on a refresh token\<close>

datatype ClaimOutcome = Claimed | AlreadyClaimed

definition key_for :: "(string \<Rightarrow> string) \<Rightarrow> string \<Rightarrow> string" where
  "key_for sha_hex raw_token = ''refresh_blacklist:'' @ sha_hex raw_token"

definition claim :: "'s redis_ttl \<Rightarrow> (string \<Rightarrow> string) \<Rightarrow> int \<Rightarrow> string \<Rightarrow> int \<Rightarrow> 's \<Rightarrow> 's \<times> (string + ClaimOutcome)" where
  "claim Q sha_hex now raw_token token_exp s =
     (let k = key_for sha_hex raw_token; remaining_secs = max (token_exp - now div 1000) 60 in
      case rt_err Q s k of
        Some e \<Rightarrow> (s, Inl e)
      | None \<Rightarrow>
          (case set_ex_nx Q now k ''1'' remaining_secs s of
             (s1, fresh) \<Rightarrow> (s1, Inr (if fresh then Claimed else AlreadyClaimed))))"

subsection \<open>Temporary passwords\<close>

definition TEMP_PASSWORD_TTL_SECS :: int where "TEMP_PASSWORD_TTL_SECS = 86400"

definition temp_password_marker_key :: "uuid \<Rightarrow> string" where
  "temp_password_marker_key u = ''pw_temp:'' @ u"

definition mark_temporary_password :: "'s redis_ttl \<Rightarrow> int \<Rightarrow> uuid \<Rightarrow> 's \<Rightarrow> 's" where
  "mark_temporary_password Q now u s =
     (let k = temp_password_marker_key u in
      if rt_err Q s k \<noteq> None then s else set_ex Q now k (show_int (now div 1000)) TEMP_PASSWORD_TTL_SECS s)"

definition clear_temporary_password_marker :: "'s redis_ttl \<Rightarrow> uuid \<Rightarrow> 's \<Rightarrow> 's" where
  "clear_temporary_password_marker Q u s = del_best_effort Q (temp_password_marker_key u) s"

subsection \<open>Passwords\<close>

definition verify_password_or_dummy :: "(string \<Rightarrow> string \<Rightarrow> string + bool) \<Rightarrow> string \<Rightarrow> string option \<Rightarrow> bool" where
  "verify_password_or_dummy verify_password password stored =
     (case stored of
        Some h \<Rightarrow> (case verify_password password h of Inl _ \<Rightarrow> False | Inr ok \<Rightarrow> ok)
      | None \<Rightarrow> False)"

subsection \<open>The user's row\<close>

definition active_row :: "user_row \<Rightarrow> bool" where
  "active_row r \<longleftrightarrow> us_is_active r \<and> us_deleted_at r = None"

definition find_active_by_email :: "(string \<Rightarrow> sqlx_kind) \<Rightarrow> failures \<Rightarrow> auth_db \<Rightarrow> string \<Rightarrow> AppError + user_row option" where
  "find_active_by_email K fl db email =
     answer_query K fl ''find_active_by_email'' (find (\<lambda>r. us_email r = email \<and> active_row r) (ad_users db))"

definition find_active :: "(string \<Rightarrow> sqlx_kind) \<Rightarrow> failures \<Rightarrow> auth_db \<Rightarrow> uuid \<Rightarrow> AppError + user_row option" where
  "find_active K fl db u = answer_query K fl ''find_active'' (find (\<lambda>r. us_id r = u \<and> active_row r) (ad_users db))"

definition is_active_user :: "(string \<Rightarrow> sqlx_kind) \<Rightarrow> failures \<Rightarrow> auth_db \<Rightarrow> uuid \<Rightarrow> AppError + bool option" where
  "is_active_user K fl db u = answer_query K fl ''is_active'' (map_option us_is_active (live_row db u))"

definition totp_enabled_of :: "(string \<Rightarrow> sqlx_kind) \<Rightarrow> failures \<Rightarrow> auth_db \<Rightarrow> uuid \<Rightarrow> AppError + bool" where
  "totp_enabled_of K fl db u =
     (case query_error K fl ''totp_enabled'' of
        Some e \<Rightarrow> Inl e
      | None \<Rightarrow> (case live_row db u of None \<Rightarrow> Inl (from_sqlx OtherDb) | Some r \<Rightarrow> Inr (us_totp_enabled r)))"

text \<open>A compare-and-swap; the number says how many rows it changed.\<close>

definition swap_recovery_codes ::
  "(string \<Rightarrow> sqlx_kind) \<Rightarrow> failures \<Rightarrow> uuid \<Rightarrow> string \<Rightarrow> string \<Rightarrow> auth_db \<Rightarrow> auth_db \<times> (AppError + nat)" where
  "swap_recovery_codes K fl u expected updated db =
     (let P = (\<lambda>r. us_id r = u \<and> us_totp_recovery_codes r = Some expected) in
      case query_error K fl ''swap_recovery_codes'' of
        Some e \<Rightarrow> (db, Inl e)
      | None \<Rightarrow> (map_users P (\<lambda>r. r\<lparr>us_totp_recovery_codes := Some updated\<rparr>) db, Inr (length (filter P (ad_users db)))))"

definition new_user :: "uuid \<Rightarrow> int \<Rightarrow> string \<Rightarrow> string \<Rightarrow> string \<Rightarrow> user_row" where
  "new_user u now email display_name password_hash =
     \<lparr>us_id = u, us_email = email, us_display_name = display_name, us_password_hash = Some password_hash,
      us_oidc_subject = None, us_oidc_issuer = None, us_avatar_url = None, us_is_active = True, us_totp_secret = None,
      us_totp_enabled = False, us_totp_recovery_codes = None, us_password_change_required = False, us_created_at = now,
      us_updated_at = now, us_deleted_at = None\<rparr>"

text \<open>
  The address is unique over the whole table, the removed users included, and so is its lower-case form, which the clause
  does not name; the name has the width of its column.
\<close>

definition insert_user_unless_taken ::
  "(string \<Rightarrow> sqlx_kind) \<Rightarrow> failures \<Rightarrow> user_row \<Rightarrow> auth_db \<Rightarrow> auth_db \<times> (AppError + user_row option)" where
  "insert_user_unless_taken K fl r db =
     (case query_error K fl ''insert_user_unless_taken'' of
        Some e \<Rightarrow> (db, Inl e)
      | None \<Rightarrow>
          if 255 < chars_count (us_display_name r) then (db, Inl (from_sqlx OtherDb))
          else if list_ex (\<lambda>x. us_email x = us_email r) (ad_users db) then (db, Inr None)
          else if list_ex (\<lambda>x. map to_lowercase (us_email x) = map to_lowercase (us_email r)) (ad_users db)
          then (db, Inl (from_sqlx UniqueViolation))
          else (db\<lparr>ad_users := ad_users db @ [r]\<rparr>, Inr (Some r)))"

definition assign_default_role ::
  "(string \<Rightarrow> sqlx_kind) \<Rightarrow> failures \<Rightarrow> uuid \<Rightarrow> string \<Rightarrow> auth_db \<Rightarrow> auth_db \<times> (AppError + unit)" where
  "assign_default_role K fl u name db =
     (case query_error K fl ''assign_default_role'' of
        Some e \<Rightarrow> (db, Inl e)
      | None \<Rightarrow>
          (let rb = rbac_part (ad_limits db);
               added = map (\<lambda>r. \<lparr>ra_user_id = u, ra_role_id = role_id r, ra_scope_kind = ''global'', ra_scope_id = None\<rparr>)
                         (filter (\<lambda>r. role_name r = name) (roles rb))
           in (db\<lparr>ad_limits := (ad_limits db)\<lparr>rbac_part := rb\<lparr>role_assignments := role_assignments rb @ added\<rparr>\<rparr>\<rparr>, Inr ())))"

definition on_user :: "string \<Rightarrow> (user_row \<Rightarrow> user_row) \<Rightarrow> (string \<Rightarrow> sqlx_kind) \<Rightarrow> failures \<Rightarrow> uuid \<Rightarrow> auth_db \<Rightarrow> auth_db \<times> (AppError + unit)" where
  "on_user q f K fl u db =
     (case query_error K fl q of
        Some e \<Rightarrow> (db, Inl e)
      | None \<Rightarrow> (map_users (\<lambda>r. us_id r = u) f db, Inr ()))"

definition set_own_password ::
  "(string \<Rightarrow> sqlx_kind) \<Rightarrow> failures \<Rightarrow> int \<Rightarrow> uuid \<Rightarrow> string \<Rightarrow> auth_db \<Rightarrow> auth_db \<times> (AppError + unit)" where
  "set_own_password K fl now u h =
     on_user ''set_own_password''
       (\<lambda>r. r\<lparr>us_password_hash := Some h, us_password_change_required := False, us_updated_at := now\<rparr>) K fl u"

definition enable_totp ::
  "(string \<Rightarrow> sqlx_kind) \<Rightarrow> failures \<Rightarrow> int \<Rightarrow> uuid \<Rightarrow> string \<Rightarrow> string \<Rightarrow> auth_db \<Rightarrow> auth_db \<times> (AppError + unit)" where
  "enable_totp K fl now u secret codes =
     on_user ''enable_totp''
       (\<lambda>r. r\<lparr>us_totp_secret := Some secret, us_totp_enabled := True, us_totp_recovery_codes := Some codes, us_updated_at := now\<rparr>)
       K fl u"

definition disable_totp :: "(string \<Rightarrow> sqlx_kind) \<Rightarrow> failures \<Rightarrow> int \<Rightarrow> uuid \<Rightarrow> auth_db \<Rightarrow> auth_db \<times> (AppError + unit)" where
  "disable_totp K fl now u =
     on_user ''disable_totp''
       (\<lambda>r. r\<lparr>us_totp_secret := None, us_totp_enabled := False, us_totp_recovery_codes := None, us_updated_at := now\<rparr>) K fl u"

end
