(* ===== verification/Login.thy ===== *)
theory Login
  imports Login_Parts
begin

section \<open>Signing in and out\<close>

text \<open>
  \<^verbatim>\<open>crates/server/src/handlers/auth.rs\<close>: the challenge, the login in its stages, registration, the refresh of a session, logout,
  the password, the account and the second factor. A handler works on the tables, on Redis and on the audit log and
  returns a value or an error; the stages of a handler are joined by \<open>and_next\<close>, which stops at the first error and keeps what
  the stages before it left. One reading of the clock (milliseconds) serves a whole handler but where the code sleeps.
\<close>

record auth_event =
  ev_action :: string
  ev_user_id :: "uuid option"
  ev_user_email :: "string option"
  ev_ip :: "string option"
  ev_user_agent :: "string option"
  ev_resource :: "string option"
  ev_resource_id :: "string option"
  ev_detail :: "json option"

record 's login_state =
  lo_db :: auth_db
  lo_redis :: 's
  lo_events :: "auth_event list"

type_synonym ('s, 'a) handled = "'s login_state \<times> (AppError + 'a)"

definition and_next :: "('s, 'a) handled \<Rightarrow> ('a \<Rightarrow> 's login_state \<Rightarrow> ('s, 'b) handled) \<Rightarrow> ('s, 'b) handled" where
  "and_next r f = (case r of (st, Inl e) \<Rightarrow> (st, Inl e) | (st, Inr x) \<Rightarrow> f x st)"

definition with_redis :: "('s \<Rightarrow> 's) \<Rightarrow> 's login_state \<Rightarrow> 's login_state" where
  "with_redis f st = st\<lparr>lo_redis := f (lo_redis st)\<rparr>"

definition in_redis :: "('s \<Rightarrow> 's \<times> (AppError + 'a)) \<Rightarrow> 's login_state \<Rightarrow> ('s, 'a) handled" where
  "in_redis f st = (case f (lo_redis st) of (s, r) \<Rightarrow> (st\<lparr>lo_redis := s\<rparr>, r))"

definition in_db :: "(auth_db \<Rightarrow> auth_db \<times> (AppError + 'a)) \<Rightarrow> 's login_state \<Rightarrow> ('s, 'a) handled" where
  "in_db f st = (case f (lo_db st) of (db, r) \<Rightarrow> (st\<lparr>lo_db := db\<rparr>, r))"

definition log_event :: "auth_event \<Rightarrow> 's login_state \<Rightarrow> 's login_state" where
  "log_event e st = st\<lparr>lo_events := lo_events st @ [e]\<rparr>"

record PowSolution =
  ps_challenge_id :: string
  ps_nonce :: string

record LoginRequest =
  lr_email :: string
  lr_password :: string
  lr_totp_code :: "string option"
  lr_pow :: "PowSolution option"

record CreateUserRequest =
  cu_email :: string
  cu_display_name :: string
  cu_password :: string

record PowChallengeResponse =
  pr_challenge_id :: string
  pr_challenge_random :: string
  pr_difficulty :: nat
  pr_issued_at :: int
  pr_ttl_secs :: int

record 's login_env =
  le_guard :: guard_env
  le_redis :: "'s redis_ttl"
  le_encode :: "AuthClaims \<Rightarrow> string + string"
  le_sha256 :: "string \<Rightarrow> string"
  le_sha256_hex :: "string \<Rightarrow> string"
  le_parse_ip :: "string \<Rightarrow> IpAddr option"
  le_verify_password :: "string \<Rightarrow> string \<Rightarrow> string + bool"
  le_hash_password :: "string \<Rightarrow> string + string"
  le_verify_step :: "int \<Rightarrow> string \<Rightarrow> string \<Rightarrow> string \<Rightarrow> string + int option"
  le_decrypt :: "string \<Rightarrow> string + string"
  le_encrypt :: "string \<Rightarrow> string + string"
  le_parse_codes :: "string \<Rightarrow> string + string list"
  le_show_codes :: "string list \<Rightarrow> string"
  le_parse_pending :: "string \<Rightarrow> (string \<times> string list) option"
  le_show_pending :: "string \<Rightarrow> string list \<Rightarrow> string"
  le_otpauth_uri :: "string \<Rightarrow> string \<Rightarrow> string + string"
  le_base32 :: "string \<Rightarrow> string"
  le_parse_login :: "string \<Rightarrow> string + LoginRequest"
  le_parse_email :: "string \<Rightarrow> string + string"
  le_parse_user :: "string \<Rightarrow> string + CreateUserRequest"
  le_parse_refresh :: "string \<Rightarrow> string + string option"
  le_access_ttl :: int
  le_refresh_ttl_days :: int
  le_allow_registration :: bool
  le_default_role :: "string option"

definition parse_json_body :: "(string \<Rightarrow> string + 'a) \<Rightarrow> int \<Rightarrow> string \<Rightarrow> AppError + 'a" where
  "parse_json_body de max_bytes body =
     (if max_bytes < int (length body) then Inl (BadRequest ''Invalid request body'')
      else case de body of Inl e \<Rightarrow> Inl (BadRequest e) | Inr x \<Rightarrow> Inr x)"

subsection \<open>Where a request comes from\<close>

definition SUBNET_FAIL_PREFIX :: string where "SUBNET_FAIL_PREFIX = ''auth_fail_subnet:''"

definition SUBNET_FAIL_WINDOW_SECS :: int where "SUBNET_FAIL_WINDOW_SECS = 600"

definition SUBNET_FAIL_SUCCESS_DECAY :: int where "SUBNET_FAIL_SUCCESS_DECAY = 3"

definition subnet_fail_key :: "'s login_env \<Rightarrow> string \<Rightarrow> string" where
  "subnet_fail_key E client_ip = SUBNET_FAIL_PREFIX @ subnet_key (le_parse_ip E) client_ip"

definition require_client_ip :: "'s login_env \<Rightarrow> http_request \<Rightarrow> string option \<Rightarrow> AppError + string" where
  "require_client_ip E rq connection_ip =
     (case resolve_client_ip (ge_ip (le_guard E)) (hq_headers rq) connection_ip of
        Some ip \<Rightarrow> Inr ip
      | None \<Rightarrow> Inl (BadRequest (''Cannot determine client IP '' @ [CHR 0xE2, CHR 0x80, CHR 0x94] @ '' check proxy configuration'')))"

definition rate_unavailable :: AppError where
  "rate_unavailable = Internal ''Rate limiting unavailable''"

definition count_request :: "'s redis_ttl \<Rightarrow> int \<Rightarrow> string \<Rightarrow> 's \<Rightarrow> 's \<times> (AppError + int)" where
  "count_request Q now k s =
     (case fixed_incr Q (now, now) k 60 s of (s1, Inl _) \<Rightarrow> (s1, Inl rate_unavailable) | (s1, Inr n) \<Rightarrow> (s1, Inr n))"

subsection \<open>The challenge\<close>

definition challenge_key :: "string \<Rightarrow> string" where
  "challenge_key i = POW_CHALLENGE_PREFIX @ i"

definition challenge_blob :: "string \<Rightarrow> nat \<Rightarrow> string \<Rightarrow> string" where
  "challenge_blob rnd difficulty email = rnd @ '':'' @ show_nat difficulty @ '':'' @ email"

text \<open>A failure to read the counter counts as no failures.\<close>

definition recent_failures :: "'s login_env \<Rightarrow> int \<Rightarrow> string \<Rightarrow> 's \<Rightarrow> nat" where
  "recent_failures E now client_ip s =
     unwrap_or (Option.bind (get_text (le_redis E) now s (subnet_fail_key E client_ip)) parse_u64) 0"

definition store_challenge ::
  "'s login_env \<Rightarrow> int \<Rightarrow> string \<times> string \<Rightarrow> string \<Rightarrow> string \<Rightarrow> 's login_state \<Rightarrow> ('s, PowChallengeResponse) handled" where
  "store_challenge E now minted client_ip email st =
     (let Q = le_redis E;
          k = challenge_key (fst minted);
          difficulty = difficulty_for_subnet_failures (recent_failures E now client_ip (lo_redis st))
      in case rt_err Q (lo_redis st) k of
           Some e \<Rightarrow> (st, Inl (Internal (''Redis pow store failed: '' @ e)))
         | None \<Rightarrow>
             (with_redis (set_ex Q now k (challenge_blob (snd minted) difficulty email) CHALLENGE_TTL_SECS) st,
              Inr \<lparr>pr_challenge_id = fst minted, pr_challenge_random = snd minted, pr_difficulty = difficulty,
                   pr_issued_at = now div 1000, pr_ttl_secs = CHALLENGE_TTL_SECS\<rparr>))"

definition mint_key :: "string \<Rightarrow> string" where "mint_key client_ip = ''pow_mint_ip:'' @ client_ip"

definition issue_pow_challenge ::
  "'s login_env \<Rightarrow> int \<Rightarrow> string \<times> string \<Rightarrow> http_request \<Rightarrow> string option \<Rightarrow> 's login_state \<Rightarrow> ('s, PowChallengeResponse) handled" where
  "issue_pow_challenge E now minted rq connection_ip st =
     and_next (st, require_client_ip E rq connection_ip) (\<lambda>client_ip st.
     and_next (in_redis (count_request (le_redis E) now (mint_key client_ip)) st) (\<lambda>n st.
       if 60 < n then (st, Inl RateLimited)
       else and_next (st, parse_json_body (le_parse_email E) 4096 (hq_body rq)) (\<lambda>raw st.
         let email = normalize_email raw in
         and_next (st, validate_email email) (\<lambda>_ st. store_challenge E now minted client_ip email st))))"

definition stale_blob :: AppError where
  "stale_blob = BadRequest ''Proof-of-work challenge expired or already consumed. Request a fresh one.''"

definition check_blob :: "'s login_env \<Rightarrow> string \<Rightarrow> string \<Rightarrow> string \<Rightarrow> AppError + unit" where
  "check_blob E blob nonce login_email =
     (case splitn3 blob of
        [rnd, diff, bound_email] \<Rightarrow>
          if rnd = [] \<or> diff = [] \<or> bound_email = [] then Inl stale_blob
          else (case parse_u8 diff of
                  None \<Rightarrow> Inl stale_blob
                | Some difficulty \<Rightarrow>
                    if bound_email \<noteq> login_email
                    then Inl (BadRequest ''Proof-of-work was issued for a different account. Request a fresh challenge.'')
                    else if \<not> verify_pow (le_sha256 E) rnd bound_email nonce difficulty
                    then Inl (BadRequest ''Invalid proof-of-work nonce. Re-grind the challenge.'')
                    else Inr ())
      | _ \<Rightarrow> Inl stale_blob)"

text \<open>\<^verbatim>\<open>GETDEL\<close> takes the challenge out whatever the outcome.\<close>

definition verify_login_pow ::
  "'s login_env \<Rightarrow> int \<Rightarrow> PowSolution option \<Rightarrow> string \<Rightarrow> 's login_state \<Rightarrow> ('s, unit) handled" where
  "verify_login_pow E now pow_solution login_email st =
     (case pow_solution of
        None \<Rightarrow> (st, Inl (BadRequest ''Proof-of-work required. Request a fresh challenge from /api/auth/pow-challenge.''))
      | Some solution \<Rightarrow>
          (let Q = le_redis E; k = challenge_key (ps_challenge_id solution) in
           case rt_err Q (lo_redis st) k of
             Some e \<Rightarrow> (st, Inl (Internal (''Redis pow lookup failed: '' @ e)))
           | None \<Rightarrow>
               (case ttl_get Q now (lo_redis st) k of
                  None \<Rightarrow> (st, Inl stale_blob)
                | Some blob \<Rightarrow> (with_redis (rt_del Q k) st, check_blob E blob (ps_nonce solution) login_email))))"

subsection \<open>The stages of a login\<close>

definition rate_key :: "string \<Rightarrow> string \<Rightarrow> string" where
  "rate_key client_ip email = ''auth_rate:'' @ client_ip @ '':'' @ email"

definition ip_rate_key :: "string \<Rightarrow> string" where "ip_rate_key client_ip = ''auth_rate_ip:'' @ client_ip"

definition lockout_key :: "string \<Rightarrow> string" where "lockout_key email = ''auth_lockout:'' @ email"

definition email_fail_key :: "string \<Rightarrow> string" where "email_fail_key email = ''auth_email_fails:'' @ email"

definition totp_fail_key :: "uuid \<Rightarrow> string" where "totp_fail_key u = ''auth_totp_fails:'' @ u"

definition totp_lock_key :: "uuid \<Rightarrow> string" where "totp_lock_key u = ''auth_totp_locked:'' @ u"

definition race_lost_key :: "uuid \<Rightarrow> string" where "race_lost_key u = ''totp_recovery_race_lost_seen:'' @ u"

record login_ctx =
  lx_ip :: string
  lx_user_agent :: "string option"
  lx_req :: LoginRequest
  lx_email :: string

definition auth_audit :: "login_ctx \<Rightarrow> user_row option \<Rightarrow> string \<Rightarrow> json option \<Rightarrow> auth_event" where
  "auth_audit x user act detail =
     \<lparr>ev_action = act, ev_user_id = map_option us_id user,
      ev_user_email = Some (case user of None \<Rightarrow> lx_email x | Some u \<Rightarrow> us_email u), ev_ip = Some (lx_ip x),
      ev_user_agent = lx_user_agent x, ev_resource = Some ''auth'', ev_resource_id = None, ev_detail = detail\<rparr>"

definition login_request :: "'s login_env \<Rightarrow> http_request \<Rightarrow> string option \<Rightarrow> AppError + login_ctx" where
  "login_request E rq connection_ip =
     and_then (require_client_ip E rq connection_ip) (\<lambda>client_ip.
     and_then (parse_json_body (le_parse_login E) (1024 * 1024) (hq_body rq)) (\<lambda>req.
       if length (lr_password req) < 8 then Inl (BadRequest ''Password must be at least 8 characters'')
       else let email = normalize_email (lr_email req) in
         and_then (validate_email email) (\<lambda>_.
           Inr \<lparr>lx_ip = client_ip, lx_user_agent = user_agent_of (hq_headers rq), lx_req = req, lx_email = email\<rparr>)))"

definition login_rates :: "'s login_env \<Rightarrow> int \<Rightarrow> login_ctx \<Rightarrow> 's login_state \<Rightarrow> ('s, int) handled" where
  "login_rates E now x st =
     and_next (in_redis (count_request (le_redis E) now (rate_key (lx_ip x) (lx_email x))) st) (\<lambda>n st.
       if 10 < n then (st, Inl (BadRequest ''Too many login attempts. Please try again later.''))
       else and_next (in_redis (count_request (le_redis E) now (ip_rate_key (lx_ip x))) st) (\<lambda>ip_n st.
         if 30 < ip_n then (st, Inl (BadRequest ''Too many login attempts from this address. Please try again later.''))
         else (st, Inr n)))"

definition check_lockout :: "'s login_env \<Rightarrow> int \<Rightarrow> login_ctx \<Rightarrow> 's login_state \<Rightarrow> AppError + unit" where
  "check_lockout E now x st =
     (let k = lockout_key (lx_email x) in
      if rt_err (le_redis E) (lo_redis st) k \<noteq> None then Inl auth_unavailable
      else if 0 < ttl_left (le_redis E) now k (lo_redis st)
      then Inl (BadRequest ''Account temporarily locked due to repeated failed attempts. Please try again later.'')
      else Inr ())"

text \<open>A failed attempt: counted, perhaps locked, counted for the subnet whether or not Redis answers, and logged.\<close>

definition punish :: "'s redis_ttl \<Rightarrow> int \<Rightarrow> int \<Rightarrow> string \<Rightarrow> string \<Rightarrow> 's \<Rightarrow> 's \<times> (AppError + unit)" where
  "punish Q now floor_count fail_key lock_key s =
     (case record_auth_failure Q now fail_key s of
        (s1, Inl e) \<Rightarrow> (s1, Inl e)
      | (s1, Inr n) \<Rightarrow>
          (case ladder_secs (max floor_count n) of
             None \<Rightarrow> (s1, Inr ())
           | Some secs \<Rightarrow> apply_lockout Q now lock_key secs s1))"

definition login_failed :: "'s login_env \<Rightarrow> int \<Rightarrow> login_ctx \<Rightarrow> int \<Rightarrow> 's login_state \<Rightarrow> ('s, 'a) handled" where
  "login_failed E now x n st =
     and_next (in_redis (punish (le_redis E) now n (email_fail_key (lx_email x)) (lockout_key (lx_email x))) st) (\<lambda>_ st.
       (log_event (auth_audit x None ''auth.login_failed'' (Some (JObject [(''email'', JString (lx_email x))])))
          (with_redis (\<lambda>s. fst (fixed_incr (le_redis E) (now, now) (subnet_fail_key E (lx_ip x)) SUBNET_FAIL_WINDOW_SECS s)) st),
        Inl Unauthorized))"

definition check_password ::
  "'s login_env \<Rightarrow> failures \<Rightarrow> int \<Rightarrow> login_ctx \<Rightarrow> int \<Rightarrow> 's login_state \<Rightarrow> ('s, user_row) handled" where
  "check_password E fl now x n st =
     and_next (st, find_active_by_email (ge_kind (le_guard E)) fl (lo_db st) (lx_email x)) (\<lambda>found st.
       case found of
         Some user \<Rightarrow>
           if verify_password_or_dummy (le_verify_password E) (lr_password (lx_req x)) (us_password_hash user) then (st, Inr user)
           else login_failed E now x n st
       | None \<Rightarrow> login_failed E now x n st)"

subsection \<open>The second factor\<close>

definition decrypt_secret :: "'s login_env \<Rightarrow> string \<Rightarrow> AppError + string" where
  "decrypt_secret E h = (case le_decrypt E h of Inl e \<Rightarrow> Inl (Internal (''TOTP decrypt error: '' @ e)) | Inr x \<Rightarrow> Inr x)"

definition encrypt_secret :: "'s login_env \<Rightarrow> string \<Rightarrow> AppError + string" where
  "encrypt_secret E x = (case le_encrypt E x of Inl e \<Rightarrow> Inl (Internal (''TOTP encrypt error: '' @ e)) | Inr h \<Rightarrow> Inr h)"

definition decrypt_recovery_codes :: "'s login_env \<Rightarrow> string \<Rightarrow> AppError + string list" where
  "decrypt_recovery_codes E h =
     (case le_decrypt E h of
        Inl e \<Rightarrow> Inl (Internal (''Recovery codes decrypt error: '' @ e))
      | Inr js \<Rightarrow>
          (case le_parse_codes E js of
             Inl e \<Rightarrow> Inl (Internal (''Recovery codes JSON parse error: '' @ e))
           | Inr codes \<Rightarrow> Inr codes))"

definition encrypt_recovery_codes :: "'s login_env \<Rightarrow> string list \<Rightarrow> AppError + string" where
  "encrypt_recovery_codes E codes =
     (case le_encrypt E (le_show_codes E codes) of
        Inl e \<Rightarrow> Inl (Internal (''Recovery codes encrypt error: '' @ e))
      | Inr h \<Rightarrow> Inr h)"

text \<open>Whether the one-time code counts, and whether it matched but was used before.\<close>

definition try_totp :: "'s login_env \<Rightarrow> int \<Rightarrow> user_row \<Rightarrow> string \<Rightarrow> 's login_state \<Rightarrow> ('s, bool \<times> bool) handled" where
  "try_totp E now user code st =
     (case us_totp_secret user of
        None \<Rightarrow> (st, Inr (False, False))
      | Some encrypted \<Rightarrow>
          and_next (st, decrypt_secret E encrypted) (\<lambda>secret st.
            case le_verify_step E (now div 1000) secret code (us_email user) of
              Inr (Some step) \<Rightarrow>
                and_next (in_redis (claim_step (le_redis E) now (us_id user) step) st) (\<lambda>fresh st. (st, Inr (fresh, \<not> fresh)))
            | _ \<Rightarrow> (st, Inr (False, False))))"

definition recovery_position :: "'s login_env \<Rightarrow> user_row \<Rightarrow> string \<Rightarrow> (string \<times> string list \<times> nat) option" where
  "recovery_position E user code =
     (case us_totp_recovery_codes user of
        None \<Rightarrow> None
      | Some blob \<Rightarrow>
          (case decrypt_recovery_codes E blob of
             Inl _ \<Rightarrow> None
           | Inr codes \<Rightarrow> map_option (\<lambda>pos. (blob, codes, pos)) (find_recovery_code codes code)))"

definition race_lost :: "'s login_env \<Rightarrow> int \<Rightarrow> login_ctx \<Rightarrow> user_row \<Rightarrow> 's login_state \<Rightarrow> ('s, 'a) handled" where
  "race_lost E now x user st =
     (let Q = le_redis E; k = race_lost_key (us_id user);
          (s, first_in_window) = (if rt_err Q (lo_redis st) k \<noteq> None then (lo_redis st, True)
                                  else set_ex_nx Q now k ''1'' 60 (lo_redis st));
          st1 = st\<lparr>lo_redis := s\<rparr>
      in (if first_in_window then log_event (auth_audit x (Some user) ''auth.totp_recovery_race_lost'' None) st1 else st1,
          Inl Unauthorized))"

definition totp_failed :: "'s login_env \<Rightarrow> int \<Rightarrow> login_ctx \<Rightarrow> user_row \<Rightarrow> bool \<Rightarrow> 's login_state \<Rightarrow> ('s, 'a) handled" where
  "totp_failed E now x user replayed st =
     and_next (in_redis (punish (le_redis E) now 0 (totp_fail_key (us_id user)) (totp_lock_key (us_id user))) st) (\<lambda>_ st.
       (log_event (auth_audit x (Some user) ''auth.totp_failed''
          (Some (JObject [(''email'', JString (lx_email x)), (''replayed'', JBool replayed)]))) st, Inl Unauthorized))"

definition try_recovery ::
  "'s login_env \<Rightarrow> failures \<Rightarrow> int \<Rightarrow> login_ctx \<Rightarrow> user_row \<Rightarrow> string \<Rightarrow> bool \<Rightarrow> 's login_state \<Rightarrow> ('s, unit) handled" where
  "try_recovery E fl now x user code replayed st =
     (case recovery_position E user code of
        None \<Rightarrow> totp_failed E now x user replayed st
      | Some (blob, codes, pos) \<Rightarrow>
          and_next (st, encrypt_recovery_codes E (remove_at pos codes)) (\<lambda>updated st.
          and_next (in_db (swap_recovery_codes (ge_kind (le_guard E)) fl (us_id user) blob updated) st) (\<lambda>n st.
            if n = 1 then (log_event (auth_audit x (Some user) ''auth.totp_recovery_used'' None) st, Inr ())
            else race_lost E now x user st)))"

datatype second_factor = Passed | CodeNeeded

definition use_code ::
  "'s login_env \<Rightarrow> failures \<Rightarrow> int \<Rightarrow> login_ctx \<Rightarrow> user_row \<Rightarrow> string \<Rightarrow> 's login_state \<Rightarrow> ('s, second_factor) handled" where
  "use_code E fl now x user code st =
     and_next (try_totp E now user code st) (\<lambda>(ok, replayed) st.
       if ok then (st, Inr Passed)
       else and_next (try_recovery E fl now x user code replayed st) (\<lambda>_ st. (st, Inr Passed)))"

definition check_totp ::
  "'s login_env \<Rightarrow> failures \<Rightarrow> int \<Rightarrow> login_ctx \<Rightarrow> user_row \<Rightarrow> 's login_state \<Rightarrow> ('s, second_factor) handled" where
  "check_totp E fl now x user st =
     (if \<not> us_totp_enabled user then (st, Inr Passed)
      else and_next (st, is_locked (le_redis E) now (totp_lock_key (us_id user)) (lo_redis st)) (\<lambda>locked st.
        if locked then (st, Inl Unauthorized)
        else case lr_totp_code (lx_req x) of
          None \<Rightarrow> (st, Inr CodeNeeded)
        | Some code \<Rightarrow> use_code E fl now x user code st))"

subsection \<open>Login\<close>

text \<open>Times in the tables are microseconds.\<close>

definition temp_password_live :: "int \<Rightarrow> bool \<Rightarrow> user_row \<Rightarrow> bool" where
  "temp_password_live now marker user \<longleftrightarrow> marker \<or> now * 1000 - TEMP_PASSWORD_TTL_SECS * 1000000 < us_updated_at user"

definition check_temp_password ::
  "'s login_env \<Rightarrow> int \<Rightarrow> login_ctx \<Rightarrow> user_row \<Rightarrow> 's login_state \<Rightarrow> ('s, unit) handled" where
  "check_temp_password E now x user st =
     (let Q = le_redis E; k = temp_password_marker_key (us_id user) in
      if \<not> us_password_change_required user then (st, Inr ())
      else if rt_err Q (lo_redis st) k \<noteq> None then (st, Inl auth_unavailable)
      else if temp_password_live now (ttl_get Q now (lo_redis st) k \<noteq> None) user then (st, Inr ())
      else (log_event (auth_audit x (Some user) ''auth.temp_password_expired'' None) st, Inl Unauthorized))"

text \<open>The script: \<^verbatim>\<open>DECRBY\<close> of a counter that is there, which keeps its deadline; a value that is no number is an error.\<close>

definition decay_counter :: "'s redis_ttl \<Rightarrow> int \<Rightarrow> string \<Rightarrow> int \<Rightarrow> 's \<Rightarrow> 's" where
  "decay_counter Q now k by s =
     (if rt_err Q s k \<noteq> None then s
      else case Option.bind (ttl_get Q now s k) parse_int of
        None \<Rightarrow> s
      | Some n \<Rightarrow> rt_put Q k (show_int (n - by)) (Option.bind (rt_entry Q s k) snd) s)"

definition clear_counters :: "'s login_env \<Rightarrow> int \<Rightarrow> login_ctx \<Rightarrow> uuid \<Rightarrow> 's \<Rightarrow> 's" where
  "clear_counters E now x u s =
     decay_counter (le_redis E) now (subnet_fail_key E (lx_ip x)) SUBNET_FAIL_SUCCESS_DECAY
       (clear_keys (le_redis E)
          [rate_key (lx_ip x) (lx_email x), lockout_key (lx_email x), email_fail_key (lx_email x), totp_fail_key u, totp_lock_key u] s)"

type_synonym rbac_errs = "string option \<times> string option \<times> string option"

definition open_session ::
  "'s login_env \<Rightarrow> rbac_errs \<Rightarrow> int \<Rightarrow> uuid \<Rightarrow> string \<Rightarrow> 's login_state \<Rightarrow> ('s, AuthSession) handled" where
  "open_session E errs now u email st =
     (st, issue_auth_session (le_guard E) (le_encode E) (le_access_ttl E) (le_refresh_ttl_days E) now errs
            (rbac_part (ad_limits (lo_db st))) u email)"

definition logged_in ::
  "'s login_env \<Rightarrow> rbac_errs \<Rightarrow> int \<Rightarrow> login_ctx \<Rightarrow> user_row \<Rightarrow> 's login_state \<Rightarrow> ('s, AuthSession) handled" where
  "logged_in E errs now x user st =
     open_session E errs now (us_id user) (us_email user)
       (with_redis (clear_signing_key_slot (le_redis E) (us_id user))
          (log_event (auth_audit x (Some user) ''auth.login'' None)
             (with_redis (clear_counters E now x (us_id user)) st)))"

datatype login_outcome = TotpRequired | SessionOpened AuthSession bool

definition login_user ::
  "'s login_env \<Rightarrow> failures \<Rightarrow> rbac_errs \<Rightarrow> int \<Rightarrow> login_ctx \<Rightarrow> user_row \<Rightarrow> 's login_state \<Rightarrow> ('s, login_outcome) handled" where
  "login_user E fl errs now x user st =
     and_next (check_totp E fl now x user st) (\<lambda>factor st.
       case factor of
         CodeNeeded \<Rightarrow> (st, Inr TotpRequired)
       | Passed \<Rightarrow>
           and_next (check_temp_password E now x user st) (\<lambda>_ st.
           and_next (logged_in E errs now x user st) (\<lambda>session st.
             (st, Inr (SessionOpened session (us_password_change_required user))))))"

definition login_after_pow ::
  "'s login_env \<Rightarrow> failures \<Rightarrow> rbac_errs \<Rightarrow> int \<Rightarrow> login_ctx \<Rightarrow> 's login_state \<Rightarrow> ('s, login_outcome) handled" where
  "login_after_pow E fl errs now x st =
     and_next (login_rates E now x st) (\<lambda>n st.
     and_next (st, check_lockout E now x st) (\<lambda>_ st.
     and_next (check_password E fl now x n st) (\<lambda>user st.
       login_user E fl errs now x user st)))"

definition login ::
  "'s login_env \<Rightarrow> failures \<Rightarrow> rbac_errs \<Rightarrow> int \<Rightarrow> http_request \<Rightarrow> string option \<Rightarrow> 's login_state \<Rightarrow> ('s, login_outcome) handled" where
  "login E fl errs now rq connection_ip st =
     and_next (st, login_request E rq connection_ip) (\<lambda>x st.
     and_next (verify_login_pow E now (lr_pow (lx_req x)) (lx_email x) st) (\<lambda>_ st.
       login_after_pow E fl errs now x st))"

definition login_body :: "AuthSession \<Rightarrow> bool \<Rightarrow> json" where
  "login_body session change_required =
     JObject ([(''token_type'', JString ''Bearer''), (''expires_in'', JNumber (show_int (as_access_ttl session))),
       (''permissions'', JArray (map JString (as_permissions session))),
       (''denied_permissions'', JArray (map JString (as_denied_permissions session))),
       (''roles'', JArray (map JString (as_roles session)))] @
       (if change_required then [(''password_change_required'', JBool True)] else []))"

text \<open>The body and the cookies of the answer.\<close>

fun login_response :: "login_outcome \<Rightarrow> json \<times> string list" where
  "login_response TotpRequired = (JObject [(''totp_required'', JBool True)], [])"
| "login_response (SessionOpened session change_required) = (login_body session change_required, as_cookie_headers session)"

subsection \<open>Registration\<close>

definition ANONYMOUS_SESSION :: json where
  "ANONYMOUS_SESSION =
     JObject [(''token_type'', JString ''Bearer''), (''expires_in'', JNumber ''0''), (''permissions'', JArray []), (''roles'', JArray [])]"

datatype register_outcome = EmailTaken | Registered AuthSession

fun register_response :: "register_outcome \<Rightarrow> json \<times> string list" where
  "register_response EmailTaken = (ANONYMOUS_SESSION, [])"
| "register_response (Registered session) = (login_body session False, as_cookie_headers session)"

definition checked_registration :: "'s login_env \<Rightarrow> http_request \<Rightarrow> string option \<Rightarrow> AppError + string \<times> CreateUserRequest \<times> string" where
  "checked_registration E rq connection_ip =
     and_then (require_client_ip E rq connection_ip) (\<lambda>client_ip.
     and_then (parse_json_body (le_parse_user E) (1024 * 1024) (hq_body rq)) (\<lambda>req.
       if \<not> le_allow_registration E then Inl (Forbidden ''Public registration is disabled'')
       else and_then (validate_password (cu_password req)) (\<lambda>_.
         let email = normalize_email (cu_email req) in
         and_then (validate_email email) (\<lambda>_. Inr (client_ip, req, email)))))"

text \<open>The transaction: its effects are kept only when both statements and the commit succeed.\<close>

definition insert_registered ::
  "'s login_env \<Rightarrow> failures \<Rightarrow> user_row \<Rightarrow> auth_db \<Rightarrow> auth_db \<times> (AppError + user_row option)" where
  "insert_registered E fl r db =
     (let K = ge_kind (le_guard E) in
      case insert_user_unless_taken K fl r db of
        (_, Inl e) \<Rightarrow> (db, Inl e)
      | (_, Inr None) \<Rightarrow> (db, answer_query K fl ''rollback'' None)
      | (db1, Inr (Some u)) \<Rightarrow>
          (case (case le_default_role E of
                   None \<Rightarrow> (db1, Inr ())
                 | Some name \<Rightarrow> assign_default_role K fl (us_id u) name db1) of
             (_, Inl e) \<Rightarrow> (db, Inl e)
           | (db2, Inr ()) \<Rightarrow>
               (case query_error K fl ''commit'' of Some e \<Rightarrow> (db, Inl e) | None \<Rightarrow> (db2, Inr (Some u)))))"

definition register_event :: "string \<Rightarrow> string option \<Rightarrow> user_row \<Rightarrow> auth_event" where
  "register_event client_ip agent user =
     \<lparr>ev_action = ''auth.register'', ev_user_id = Some (us_id user), ev_user_email = Some (us_email user), ev_ip = Some client_ip,
      ev_user_agent = agent, ev_resource = Some ''auth'', ev_resource_id = None, ev_detail = None\<rparr>"

definition register ::
  "'s login_env \<Rightarrow> failures \<Rightarrow> rbac_errs \<Rightarrow> int \<Rightarrow> uuid \<Rightarrow> http_request \<Rightarrow> string option \<Rightarrow> 's login_state \<Rightarrow>
   ('s, register_outcome) handled" where
  "register E fl errs now new_id rq connection_ip st =
     and_next (st, checked_registration E rq connection_ip) (\<lambda>(client_ip, req, email) st.
     case le_hash_password E (cu_password req) of
       Inl e \<Rightarrow> (st, Inl (Internal e))
     | Inr h \<Rightarrow>
         (case query_error (ge_kind (le_guard E)) fl ''begin'' of
            Some e \<Rightarrow> (st, Inl e)
          | None \<Rightarrow>
              and_next (in_db (insert_registered E fl (new_user new_id (now * 1000) email (cu_display_name req) h)) st) (\<lambda>inserted st.
                case inserted of
                  None \<Rightarrow> (st, Inr EmailTaken)
                | Some user \<Rightarrow>
                    and_next (open_session E errs now (us_id user) (us_email user)
                       (with_redis (clear_signing_key_slot (le_redis E) (us_id user))
                          (log_event (register_event client_ip (user_agent_of (hq_headers rq)) user) st)))
                      (\<lambda>session st. (st, Inr (Registered session))))))"

subsection \<open>Refresh and logout\<close>

definition presented_refresh :: "'s login_env \<Rightarrow> http_request \<Rightarrow> AppError + string" where
  "presented_refresh E rq =
     (case extract_cookie_from_headers (hq_headers rq) REFRESH_COOKIE_NAME of
        Some t \<Rightarrow> Inr t
      | None \<Rightarrow>
          if 64 * 1024 < int (length (hq_body rq)) then Inl (BadRequest ''Failed to read body'')
          else if hq_body rq = [] then Inl Unauthorized
          else case le_parse_refresh E (hq_body rq) of
            Inl e \<Rightarrow> Inl (BadRequest (''Invalid refresh body: '' @ e))
          | Inr None \<Rightarrow> Inl Unauthorized
          | Inr (Some t) \<Rightarrow> Inr t)"

definition refresh_claims :: "'s login_env \<Rightarrow> failures \<Rightarrow> int \<Rightarrow> string \<Rightarrow> 's login_state \<Rightarrow> AppError + AuthClaims" where
  "refresh_claims E fl now token st =
     (case ge_verify_token (le_guard E) now token of
        None \<Rightarrow> Inl Unauthorized
      | Some cm \<Rightarrow>
          if cm_token_type cm \<noteq> ''refresh'' then Inl Unauthorized
          else if before_epoch (le_redis E) now cm (lo_redis st) \<noteq> Some False then Inl Unauthorized
          else if is_active_user (ge_kind (le_guard E)) fl (lo_db st) (cm_sub cm) \<noteq> Inr (Some True) then Inl Unauthorized
          else Inr cm)"

definition claim_refresh :: "'s login_env \<Rightarrow> int \<Rightarrow> string \<Rightarrow> AuthClaims \<Rightarrow> 's \<Rightarrow> 's \<times> (AppError + unit)" where
  "claim_refresh E now token cm s =
     (case claim (le_redis E) (le_sha256_hex E) now token (cm_exp cm) s of
        (s1, Inr Claimed) \<Rightarrow> (s1, Inr ())
      | (s1, _) \<Rightarrow> (s1, Inl Unauthorized))"

definition refresh ::
  "'s login_env \<Rightarrow> failures \<Rightarrow> rbac_errs \<Rightarrow> int \<Rightarrow> http_request \<Rightarrow> 's login_state \<Rightarrow> ('s, AuthSession) handled" where
  "refresh E fl errs now rq st =
     and_next (st, presented_refresh E rq) (\<lambda>token st.
     and_next (st, refresh_claims E fl now token st) (\<lambda>cm st.
     and_next (in_redis (claim_refresh E now token cm) st) (\<lambda>_ st.
       open_session E errs now (cm_sub cm) (cm_email cm) st)))"

definition logout :: "'s login_env \<Rightarrow> int \<Rightarrow> AuthUser \<Rightarrow> headers \<Rightarrow> 's login_state \<Rightarrow> 's login_state \<times> string list" where
  "logout E now au h st =
     (let st1 = with_redis (del_best_effort (le_redis E) (pubkey_key (cm_sub (au_claims au)))) st;
          st2 = (case extract_cookie_from_headers h REFRESH_COOKIE_NAME of
                   None \<Rightarrow> st1
                 | Some presented \<Rightarrow>
                     (case ge_verify_token (le_guard E) now presented of
                        Some cm \<Rightarrow>
                          if cm_token_type cm = ''refresh''
                          then with_redis (\<lambda>s. fst (claim (le_redis E) (le_sha256_hex E) now presented (cm_exp cm) s)) st1 else st1
                      | None \<Rightarrow> st1))
      in (st2, clear_auth_cookies))"

subsection \<open>The account\<close>

definition user_audit :: "AuthUser \<Rightarrow> string \<Rightarrow> string option \<Rightarrow> auth_event" where
  "user_audit au act res =
     \<lparr>ev_action = act, ev_user_id = Some (cm_sub (au_claims au)), ev_user_email = Some (cm_email (au_claims au)),
      ev_ip = au_ip au, ev_user_agent = au_user_agent au, ev_resource = res, ev_resource_id = None, ev_detail = None\<rparr>"

definition pwchange_fail_key :: "uuid \<Rightarrow> string" where "pwchange_fail_key u = ''pwchange_fails:'' @ u"

definition pwchange_locked_key :: "uuid \<Rightarrow> string" where "pwchange_locked_key u = ''pwchange_locked:'' @ u"

definition check_old_password ::
  "'s login_env \<Rightarrow> int \<Rightarrow> uuid \<Rightarrow> string \<Rightarrow> string \<Rightarrow> 's \<Rightarrow> 's \<times> (AppError + unit)" where
  "check_old_password E now u old_password current_hash s =
     (let Q = le_redis E in
      case is_locked Q now (pwchange_locked_key u) s of
        Inl e \<Rightarrow> (s, Inl e)
      | Inr True \<Rightarrow> (s, Inl Unauthorized)
      | Inr False \<Rightarrow>
          (case le_verify_password E old_password current_hash of
             Inl e \<Rightarrow> (s, Inl (Internal e))
           | Inr False \<Rightarrow>
               map_prod id (\<lambda>r. and_then r (\<lambda>_. Inl Unauthorized)) (punish Q now 0 (pwchange_fail_key u) (pwchange_locked_key u) s)
           | Inr True \<Rightarrow> (clear_keys Q [pwchange_fail_key u, pwchange_locked_key u] s, Inr ())))"

text \<open>The times: of the checks, of the two attempts to write the epoch, and of the new session after the sleep.\<close>

record change_times =
  cg_check :: int
  cg_epoch :: "int \<times> int"
  cg_session :: int

definition end_sessions :: "'s login_env \<Rightarrow> int \<times> int \<Rightarrow> bool \<times> bool \<Rightarrow> uuid \<Rightarrow> 's \<Rightarrow> 's" where
  "end_sessions E ts down u s = invalidate_refresh_tokens (le_redis E) ts down u (le_refresh_ttl_days E) s"

definition change_password ::
  "'s login_env \<Rightarrow> failures \<Rightarrow> rbac_errs \<Rightarrow> change_times \<Rightarrow> bool \<times> bool \<Rightarrow> AuthUser \<Rightarrow> string \<Rightarrow> string \<Rightarrow> 's login_state \<Rightarrow>
   ('s, AuthSession) handled" where
  "change_password E fl errs t down au old_password new_password st =
     and_next (st, validate_password new_password) (\<lambda>_ st.
     and_next (st, find_active (ge_kind (le_guard E)) fl (lo_db st) (cm_sub (au_claims au))) (\<lambda>found st.
     case found of
       None \<Rightarrow> (st, Inl Unauthorized)
     | Some user \<Rightarrow>
         (case us_password_hash user of
            None \<Rightarrow> (st, Inl (BadRequest ''This account uses SSO login''))
          | Some current_hash \<Rightarrow>
              and_next (in_redis (check_old_password E (cg_check t) (us_id user) old_password current_hash) st) (\<lambda>_ st.
              and_next (st, case le_hash_password E new_password of Inl e \<Rightarrow> Inl (Internal e) | Inr h \<Rightarrow> Inr h) (\<lambda>h st.
              and_next (in_db (set_own_password (ge_kind (le_guard E)) fl (cg_check t * 1000) (us_id user) h) st) (\<lambda>_ st.
                open_session E errs (cg_session t) (us_id user) (us_email user)
                  (with_redis (clear_signing_key_slot (le_redis E) (us_id user))
                    (log_event (user_audit au ''auth.password_changed'' (Some ''auth''))
                      (with_redis (\<lambda>s. end_sessions E (cg_epoch t) down (us_id user)
                           (clear_temporary_password_marker (le_redis E) (us_id user)
                             (del_best_effort (le_redis E) (pubkey_key (us_id user)) s))) st)))))))))"

definition delete_account ::
  "'s login_env \<Rightarrow> failures \<Rightarrow> int \<Rightarrow> int \<times> int \<Rightarrow> bool \<times> bool \<Rightarrow> AuthUser \<Rightarrow> 's login_state \<Rightarrow> ('s, unit) handled" where
  "delete_account E fl now ts down au st =
     (let u = cm_sub (au_claims au) in
      case query_error (ge_kind (le_guard E)) fl ''soft_delete_account'' of
        Some e \<Rightarrow> (st, Inl e)
      | None \<Rightarrow>
          (log_event (user_audit au ''user.account_deleted'' None)
             (with_redis (\<lambda>s. end_sessions E ts down u (del_best_effort (le_redis E) (pubkey_key u) s))
                (st\<lparr>lo_db := soft_delete_account (now * 1000) u (lo_db st)\<rparr>)), Inr ()))"

definition user_revoked_key :: "uuid \<Rightarrow> string" where
  "user_revoked_key u = ''dashboard_user_revoked:'' @ u"

definition revoke_sessions ::
  "'s login_env \<Rightarrow> int \<Rightarrow> int \<times> int \<Rightarrow> bool \<times> bool \<Rightarrow> AuthUser \<Rightarrow> 's login_state \<Rightarrow> 's login_state" where
  "revoke_sessions E now ts down au st =
     (let u = cm_sub (au_claims au); Q = le_redis E in
      log_event (user_audit au ''auth.sessions_revoked'' (Some ''auth''))
        (with_redis (\<lambda>s.
           let s1 = end_sessions E ts down u (del_best_effort Q (pubkey_key u) s) in
           if rt_err Q s1 (user_revoked_key u) = None then set_ex Q now (user_revoked_key u) ''1'' 300 s1 else s1) st))"

subsection \<open>Managing the second factor\<close>

definition pending_key :: "uuid \<Rightarrow> string" where "pending_key u = ''totp_pending:'' @ u"

definition own_row :: "'s login_env \<Rightarrow> failures \<Rightarrow> AuthUser \<Rightarrow> 's login_state \<Rightarrow> AppError + user_row" where
  "own_row E fl au st =
     (case find_active (ge_kind (le_guard E)) fl (lo_db st) (cm_sub (au_claims au)) of
        Inl e \<Rightarrow> Inl e
      | Inr None \<Rightarrow> Inl (NotFound ''User not found'')
      | Inr (Some r) \<Rightarrow> Inr r)"

record TotpSetupResponse =
  ts_secret :: string
  ts_otpauth_uri :: string
  ts_recovery_codes :: "string list"

text \<open>\<open>secret\<close> and \<open>codes\<close> are what the generators drew.\<close>

definition totp_setup ::
  "'s login_env \<Rightarrow> failures \<Rightarrow> int \<Rightarrow> string \<Rightarrow> string list \<Rightarrow> AuthUser \<Rightarrow> 's login_state \<Rightarrow> ('s, TotpSetupResponse) handled" where
  "totp_setup E fl now secret codes au st =
     and_next (st, own_row E fl au st) (\<lambda>user st.
       if us_totp_enabled user then (st, Inl (BadRequest ''TOTP is already enabled''))
       else case le_otpauth_uri E secret (us_email user) of
         Inl e \<Rightarrow> (st, Inl (Internal (''Failed to create otpauth URI: '' @ e)))
       | Inr uri \<Rightarrow>
           (case le_encrypt E (le_show_pending E secret codes) of
              Inl e \<Rightarrow> (st, Inl (Internal (''Encryption error: '' @ e)))
            | Inr blob \<Rightarrow>
                (case rt_err (le_redis E) (lo_redis st) (pending_key (us_id user)) of
                   Some e \<Rightarrow> (st, Inl (Internal (''Redis error: '' @ e)))
                 | None \<Rightarrow>
                     (with_redis (set_ex (le_redis E) now (pending_key (us_id user)) blob 600) st,
                      Inr \<lparr>ts_secret = secret, ts_otpauth_uri = uri, ts_recovery_codes = codes\<rparr>))))"

definition pending_setup :: "'s login_env \<Rightarrow> int \<Rightarrow> uuid \<Rightarrow> 's \<Rightarrow> AppError + string \<times> string list" where
  "pending_setup E now u s =
     (case rt_err (le_redis E) s (pending_key u) of
        Some e \<Rightarrow> Inl (Internal (''Redis error: '' @ e))
      | None \<Rightarrow>
          (case ttl_get (le_redis E) now s (pending_key u) of
             None \<Rightarrow> Inl (BadRequest ''No pending TOTP setup. Call /totp/setup first.'')
           | Some blob \<Rightarrow>
               (case le_decrypt E blob of
                  Inl e \<Rightarrow> Inl (Internal (''Decryption error: '' @ e))
                | Inr js \<Rightarrow>
                    (case le_parse_pending E js of
                       None \<Rightarrow> Inl (Internal ''Corrupt pending TOTP data'')
                     | Some p \<Rightarrow> Inr p))))"

definition totp_verify_setup ::
  "'s login_env \<Rightarrow> failures \<Rightarrow> int \<Rightarrow> AuthUser \<Rightarrow> string \<Rightarrow> 's login_state \<Rightarrow> ('s, unit) handled" where
  "totp_verify_setup E fl now au code st =
     (let u = cm_sub (au_claims au); bad = Inl (BadRequest ''Invalid TOTP code'') in
      and_next (st, pending_setup E now u (lo_redis st)) (\<lambda>(secret, codes) st.
        case le_verify_step E (now div 1000) secret code (cm_email (au_claims au)) of
          Inr (Some step) \<Rightarrow>
            and_next (in_redis (claim_step (le_redis E) now u step) st) (\<lambda>fresh st.
              if \<not> fresh then (st, bad)
              else and_next (st, encrypt_secret E secret) (\<lambda>enc_secret st.
                and_next (st, encrypt_recovery_codes E codes) (\<lambda>enc_codes st.
                and_next (in_db (enable_totp (ge_kind (le_guard E)) fl (now * 1000) u enc_secret enc_codes) st) (\<lambda>_ st.
                  (log_event (user_audit au ''auth.totp_enabled'' (Some ''auth''))
                     (with_redis (del_best_effort (le_redis E) (pending_key u)) st), Inr ())))))
        | _ \<Rightarrow> (st, bad)))"

definition totp_disable ::
  "'s login_env \<Rightarrow> failures \<Rightarrow> int \<Rightarrow> AuthUser \<Rightarrow> string \<Rightarrow> 's login_state \<Rightarrow> ('s, unit) handled" where
  "totp_disable E fl now au old_password st =
     and_next (st, own_row E fl au st) (\<lambda>user st.
       if \<not> us_totp_enabled user then (st, Inl (BadRequest ''TOTP is not enabled''))
       else if ge_totp_required (le_guard E)
       then (st, Inl (BadRequest ''TOTP is required on this platform and cannot be disabled''))
       else case us_password_hash user of
         None \<Rightarrow> (st, Inl (BadRequest ''SSO accounts cannot manage TOTP here''))
       | Some h \<Rightarrow>
           (case le_verify_password E old_password h of
              Inl e \<Rightarrow> (st, Inl (Internal e))
            | Inr False \<Rightarrow> (st, Inl Unauthorized)
            | Inr True \<Rightarrow>
                and_next (in_db (disable_totp (ge_kind (le_guard E)) fl (now * 1000) (us_id user)) st) (\<lambda>_ st.
                  (log_event (user_audit au ''auth.totp_disabled'' (Some ''auth'')) st, Inr ()))))"

definition totp_status :: "'s login_env \<Rightarrow> failures \<Rightarrow> AuthUser \<Rightarrow> 's login_state \<Rightarrow> AppError + bool \<times> bool" where
  "totp_status E fl au st =
     and_then (totp_enabled_of (ge_kind (le_guard E)) fl (lo_db st) (cm_sub (au_claims au)))
       (\<lambda>enabled. Inr (enabled, ge_totp_required (le_guard E)))"

end
