(* ===== verification/User_Admin.thy ===== *)
theory User_Admin
  imports Login Mcp_Cache
begin

section \<open>Administration of users\<close>

text \<open>
  \<^verbatim>\<open>crates/server/src/handlers/admin/users.rs\<close>, the statements of \<^verbatim>\<open>services/user_repository.rs\<close> it runs and the guard of
  \<^verbatim>\<open>services/rbac_service.rs\<close>. A transaction is a function on the tables whose effects are dropped when it fails; the advisory
  lock of the guard makes those that take it one step. Queries that fail are named in \<open>fl\<close>. Lists for the console are left
  out.
\<close>

record 's admin_env =
  an_login :: "'s login_env"
  an_scan :: "'s redis_scan"
  an_parse_uuid :: "string \<Rightarrow> uuid option"
  an_rfc3339 :: "int \<Rightarrow> string"
  an_json_len :: "json \<Rightarrow> nat"
  an_from_doc :: "json \<Rightarrow> string + PolicyDocument"
  an_from_constraints :: "json \<Rightarrow> string + PolicyConstraints"

abbreviation an_redis :: "'s admin_env \<Rightarrow> 's redis_ttl" where
  "an_redis A \<equiv> le_redis (an_login A)"

abbreviation an_kind :: "'s admin_env \<Rightarrow> string \<Rightarrow> sqlx_kind" where
  "an_kind A \<equiv> ge_kind (le_guard (an_login A))"

abbreviation an_sql :: "'s admin_env \<Rightarrow> sql" where
  "an_sql A \<equiv> ge_sql (le_guard (an_login A))"

abbreviation rbac_of :: "auth_db \<Rightarrow> rbac_db" where
  "rbac_of db \<equiv> rbac_part (ad_limits db)"

definition with_rbac :: "(rbac_db \<Rightarrow> rbac_db) \<Rightarrow> auth_db \<Rightarrow> auth_db" where
  "with_rbac f db = db\<lparr>ad_limits := (ad_limits db)\<lparr>rbac_part := f (rbac_part (ad_limits db))\<rparr>\<rparr>"

type_synonym 'a stmt = "auth_db \<Rightarrow> auth_db \<times> (AppError + 'a)"

definition and_db :: "'a stmt \<Rightarrow> ('a \<Rightarrow> 'b stmt) \<Rightarrow> 'b stmt" where
  "and_db f g db = (case f db of (db1, Inl e) \<Rightarrow> (db1, Inl e) | (db1, Inr x) \<Rightarrow> g x db1)"

definition done_db :: "'a \<Rightarrow> 'a stmt" where
  "done_db x db = (db, Inr x)"

definition fail_db :: "AppError \<Rightarrow> 'a stmt" where
  "fail_db e db = (db, Inl e)"

definition run_stmt :: "(string \<Rightarrow> sqlx_kind) \<Rightarrow> failures \<Rightarrow> string \<Rightarrow> (auth_db \<Rightarrow> auth_db) \<Rightarrow> unit stmt" where
  "run_stmt K fl q f db = (case query_error K fl q of Some e \<Rightarrow> (db, Inl e) | None \<Rightarrow> (f db, Inr ()))"

definition in_tx :: "(string \<Rightarrow> sqlx_kind) \<Rightarrow> failures \<Rightarrow> 'a stmt \<Rightarrow> 'a stmt" where
  "in_tx K fl f db =
     (case query_error K fl ''begin'' of
        Some e \<Rightarrow> (db, Inl e)
      | None \<Rightarrow>
          (case f db of
             (_, Inl e) \<Rightarrow> (db, Inl e)
           | (db1, Inr x) \<Rightarrow> (case query_error K fl ''commit'' of Some e \<Rightarrow> (db, Inl e) | None \<Rightarrow> (db1, Inr x))))"

subsection \<open>The guard of the last super administrator\<close>

definition acquire_super_admin_guard_lock :: "(string \<Rightarrow> sqlx_kind) \<Rightarrow> failures \<Rightarrow> unit stmt" where
  "acquire_super_admin_guard_lock K fl = run_stmt K fl ''super_admin_guard_lock'' id"

definition super_admin_role_ids :: "rbac_db \<Rightarrow> uuid list" where
  "super_admin_role_ids rb = map role_id (filter (\<lambda>r. role_name r = ''super_admin'') (roles rb))"

definition holds_super_admin :: "rbac_db \<Rightarrow> uuid \<Rightarrow> bool" where
  "holds_super_admin rb u \<longleftrightarrow> list_ex (\<lambda>i. List.member (super_admin_role_ids rb) i) (direct_role_ids rb u @ team_role_ids rb u)"

definition super_admin_ids :: "auth_db \<Rightarrow> uuid list" where
  "super_admin_ids db = remdups (map us_id (filter (\<lambda>r. active_row r \<and> holds_super_admin (rbac_of db) (us_id r)) (ad_users db)))"

definition assert_super_admin_quorum :: "(string \<Rightarrow> sqlx_kind) \<Rightarrow> failures \<Rightarrow> unit stmt" where
  "assert_super_admin_quorum K fl db =
     (case query_error K fl ''super_admin_quorum'' of
        Some e \<Rightarrow> (db, Inl e)
      | None \<Rightarrow>
          if super_admin_ids db = []
          then (db, Inl (BadRequest (''Operation would leave the platform with zero active super admins. '' @
                 ''Add another super admin (directly or via a team role) before continuing.'')))
          else (db, Inr ()))"

definition list_super_admin_ids :: "'s admin_env \<Rightarrow> failures \<Rightarrow> AuthUser \<Rightarrow> 's login_state \<Rightarrow> AppError + uuid list" where
  "list_super_admin_ids A fl au st =
     and_then (require_permission au ''users:read'') (\<lambda>_. answer_query (an_kind A) fl ''super_admin_ids'' (super_admin_ids (lo_db st)))"

subsection \<open>Role assignments\<close>

record RoleAssignmentRequest =
  rq_role_id :: uuid
  rq_scope :: "string option"

record RoleAssignment =
  rp_role_id :: uuid
  rp_name :: string
  rp_is_system :: bool
  rp_scope :: string

definition parse_scope :: "(string \<Rightarrow> uuid option) \<Rightarrow> string \<Rightarrow> AppError + string \<times> uuid option" where
  "parse_scope parse_uuid input =
     (let trimmed = str_trim input in
      if trimmed = ''global'' \<or> trimmed = [] then Inr (''global'', None)
      else case split_once trimmed '':'' of
        Some (kind, rest) \<Rightarrow>
          if str_trim kind \<noteq> ''team''
          then Inl (BadRequest (''Unknown scope kind '' @ [CHR 0x27] @ str_trim kind @ [CHR 0x27] @ '' (expected '' @ [CHR 0x27] @ ''global'' @
                 [CHR 0x27] @ '' or '' @ [CHR 0x27] @ ''team:<uuid>'' @ [CHR 0x27] @ '')''))
          else (case parse_uuid (str_trim rest) of
                  None \<Rightarrow> Inl (BadRequest (''Invalid UUID in scope '' @ [CHR 0x27] @ input @ [CHR 0x27]))
                | Some i \<Rightarrow> Inr (str_trim kind, Some i))
      | None \<Rightarrow> Inl (BadRequest (''Invalid scope '' @ [CHR 0x27] @ input @ [CHR 0x27] @ '' (expected '' @ [CHR 0x27] @ ''global'' @ [CHR 0x27] @
                  '' or '' @ [CHR 0x27] @ ''team:<uuid>'' @ [CHR 0x27] @ '')'')))"

definition find_role :: "rbac_db \<Rightarrow> uuid \<Rightarrow> rbac_role option" where
  "find_role rb i = find (\<lambda>r. role_id r = i) (roles rb)"

definition unknown_role :: "uuid \<Rightarrow> AppError" where
  "unknown_role i = BadRequest (''Unknown role id: '' @ i)"

definition delete_role_assignments :: "(string \<Rightarrow> sqlx_kind) \<Rightarrow> failures \<Rightarrow> uuid \<Rightarrow> unit stmt" where
  "delete_role_assignments K fl u =
     run_stmt K fl ''delete_role_assignments''
       (with_rbac (\<lambda>rb. rb\<lparr>role_assignments := filter (\<lambda>a. ra_user_id a \<noteq> u) (role_assignments rb)\<rparr>))"

definition add_assignment :: "role_assignment \<Rightarrow> rbac_db \<Rightarrow> rbac_db" where
  "add_assignment a rb = (if List.member (role_assignments rb) a then rb else rb\<lparr>role_assignments := role_assignments rb @ [a]\<rparr>)"

text \<open>The foreign keys: a role that is not there is named in the error, a team that is not there is a database error.\<close>

definition insert_role_assignment ::
  "(string \<Rightarrow> sqlx_kind) \<Rightarrow> failures \<Rightarrow> uuid \<Rightarrow> uuid \<Rightarrow> string \<Rightarrow> uuid option \<Rightarrow> (string \<times> bool) stmt" where
  "insert_role_assignment K fl u role kind scope_id db =
     (case query_error K fl ''insert_role_assignment'' of
        Some e \<Rightarrow> (db, Inl e)
      | None \<Rightarrow>
          (case find_role (rbac_of db) role of
             None \<Rightarrow> (db, Inl (unknown_role role))
           | Some r \<Rightarrow>
               if (case scope_id of None \<Rightarrow> False | Some t \<Rightarrow> \<not> List.member (map te_id (team_rows (rbac_of db))) t)
               then (db, Inl (from_sqlx OtherDb))
               else (with_rbac (add_assignment \<lparr>ra_user_id = u, ra_role_id = role, ra_scope_kind = kind, ra_scope_id = scope_id\<rparr>) db,
                     Inr (role_name r, role_is_system r))))"

fun insert_assignments ::
  "(string \<Rightarrow> sqlx_kind) \<Rightarrow> failures \<Rightarrow> (string \<Rightarrow> uuid option) \<Rightarrow> uuid \<Rightarrow> RoleAssignmentRequest list \<Rightarrow> RoleAssignment list stmt" where
  "insert_assignments K fl parse_uuid u [] db = (db, Inr [])"
| "insert_assignments K fl parse_uuid u (a # as) db =
     (let raw_scope = unwrap_or (rq_scope a) ''global'' in
      case parse_scope parse_uuid raw_scope of
        Inl e \<Rightarrow> (db, Inl e)
      | Inr (kind, scope_id) \<Rightarrow>
          (case insert_role_assignment K fl u (rq_role_id a) kind scope_id db of
             (db1, Inl e) \<Rightarrow> (db1, Inl e)
           | (db1, Inr (name, is_system)) \<Rightarrow>
               (case insert_assignments K fl parse_uuid u as db1 of
                  (db2, Inl e) \<Rightarrow> (db2, Inl e)
                | (db2, Inr out) \<Rightarrow>
                    (db2, Inr (\<lparr>rp_role_id = rq_role_id a, rp_name = name, rp_is_system = is_system, rp_scope = raw_scope\<rparr> # out)))))"

definition write_user_role_assignments ::
  "(string \<Rightarrow> sqlx_kind) \<Rightarrow> failures \<Rightarrow> (string \<Rightarrow> uuid option) \<Rightarrow> uuid \<Rightarrow> RoleAssignmentRequest list \<Rightarrow> RoleAssignment list stmt" where
  "write_user_role_assignments K fl parse_uuid u assignments =
     and_db (delete_role_assignments K fl u) (\<lambda>_. insert_assignments K fl parse_uuid u assignments)"

text \<open>Who may hand out the two administrator roles. A failure to load the caller's roles counts as none. The
  names asked for are checked in the order of the table; \<^verbatim>\<open>update_user\<close> goes through them in the order of a hash set, which only decides which of the
  two refusals is given when both apply.\<close>

definition caller_role_names :: "failures \<Rightarrow> auth_db \<Rightarrow> AuthUser \<Rightarrow> string list" where
  "caller_role_names fl db au =
     (case load_user_role_names (fl ''load_user_role_names'') (rbac_of db) (cm_sub (au_claims au)) of Inl _ \<Rightarrow> [] | Inr names \<Rightarrow> names)"

definition names_of :: "rbac_db \<Rightarrow> uuid list \<Rightarrow> string list" where
  "names_of rb ids = map role_name (filter (\<lambda>r. List.member ids (role_id r)) (roles rb))"

fun check_requested :: "bool \<Rightarrow> bool \<Rightarrow> string list \<Rightarrow> AppError + unit" where
  "check_requested has_super has_admin [] = Inr ()"
| "check_requested has_super has_admin (name # names) =
     (if name = ''super_admin'' \<and> \<not> has_super then Inl (Forbidden ''Only super_admin can assign the super_admin role'')
      else if name = ''admin'' \<and> \<not> has_admin then Inl (Forbidden ''Only admin/super_admin can assign the admin role'')
      else check_requested has_super has_admin names)"

definition check_escalation :: "'s admin_env \<Rightarrow> failures \<Rightarrow> AuthUser \<Rightarrow> uuid list \<Rightarrow> auth_db \<Rightarrow> AppError + string list" where
  "check_escalation A fl au role_ids db =
     (let names = caller_role_names fl db au;
          has_super = List.member names ''super_admin'';
          has_admin = has_super \<or> List.member names ''admin''
      in and_then (answer_query (an_kind A) fl ''names_of'' (names_of (rbac_of db) role_ids)) (\<lambda>requested.
         and_then (check_requested has_super has_admin requested) (\<lambda>_. Inr requested)))"

definition admin_audit :: "AuthUser \<Rightarrow> string \<Rightarrow> string \<Rightarrow> string option \<Rightarrow> json option \<Rightarrow> auth_event" where
  "admin_audit au act res res_id detail = (user_audit au act (Some res))\<lparr>ev_resource_id := res_id, ev_detail := detail\<rparr>"

subsection \<open>Creating a user\<close>

record CreateUserByAdminRequest =
  ca_email :: string
  ca_display_name :: string
  ca_password :: "string option"
  ca_role_assignments :: "RoleAssignmentRequest list"

definition insert_user :: "(string \<Rightarrow> sqlx_kind) \<Rightarrow> failures \<Rightarrow> user_row \<Rightarrow> user_row stmt" where
  "insert_user K fl r db =
     (case query_error K fl ''insert_user'' of
        Some e \<Rightarrow> (db, Inl e)
      | None \<Rightarrow>
          if 255 < chars_count (us_display_name r) then (db, Inl (from_sqlx OtherDb))
          else if list_ex (\<lambda>x. map to_lowercase (us_email x) = map to_lowercase (us_email r)) (ad_users db)
          then (db, Inl (from_sqlx UniqueViolation))
          else (db\<lparr>ad_users := ad_users db @ [r]\<rparr>, Inr r))"

definition temp_expiry :: "'s admin_env \<Rightarrow> int \<Rightarrow> json" where
  "temp_expiry A now = JString (an_rfc3339 A (now * 1000 + TEMP_PASSWORD_TTL_SECS * 1000000))"

definition create_user ::
  "'s admin_env \<Rightarrow> failures \<Rightarrow> int \<Rightarrow> uuid \<Rightarrow> string \<Rightarrow> AuthUser \<Rightarrow> CreateUserByAdminRequest \<Rightarrow> 's login_state \<Rightarrow>
   ('s, user_row \<times> RoleAssignment list \<times> string option) handled" where
  "create_user A fl now new_id generated au req st =
     (let K = an_kind A; email = normalize_email (ca_email req); role_ids = map rq_role_id (ca_role_assignments req);
          force_change = (ca_password req = None); raw_password = unwrap_or (ca_password req) generated in
      and_next (st, require_global_permission (an_sql A) (fl ''scope'') (rbac_of (lo_db st)) au ''users:create'') (\<lambda>_ st.
      and_next (st, validate_email email) (\<lambda>_ st.
      and_next (st, case ca_password req of Some p \<Rightarrow> validate_password p | None \<Rightarrow> Inr ()) (\<lambda>_ st.
      and_next (st, check_escalation A fl au role_ids (lo_db st)) (\<lambda>_ st.
      and_next (st, answer_query K fl ''email_taken'' (list_ex (\<lambda>r. us_email r = email) (ad_users (lo_db st)))) (\<lambda>taken st.
        if taken then (st, Inl (Conflict ''Email already registered''))
        else and_next (st, case le_hash_password (an_login A) raw_password of Inl e \<Rightarrow> Inl (Internal e) | Inr h \<Rightarrow> Inr h) (\<lambda>h st.
          and_next (in_db (in_tx K fl (and_db
              (insert_user K fl ((new_user new_id (now * 1000) email (ca_display_name req) h)\<lparr>us_password_change_required := force_change\<rparr>))
              (\<lambda>user. and_db (write_user_role_assignments K fl (an_parse_uuid A) new_id (ca_role_assignments req)) (\<lambda>out. done_db (user, out))))) st)
            (\<lambda>(user, out) st.
              (log_event (admin_audit au ''admin.create_user'' ''user'' (Some new_id)
                 (Some (JObject [(''email'', JString email), (''role_ids'', JArray (map JString role_ids)),
                   (''force_password_change'', JBool force_change),
                   (''temp_password_expires_at'', if force_change then temp_expiry A now else JNull)])))
                 (if force_change then with_redis (mark_temporary_password (an_redis A) now new_id) st else st),
               Inr (user, out, if force_change then Some raw_password else None))))))))))"

subsection \<open>Ending the sessions of a user\<close>

definition revoke_sockets :: "'s redis_ttl \<Rightarrow> int \<Rightarrow> uuid \<Rightarrow> 's \<Rightarrow> 's" where
  "revoke_sockets Q now u s = (if rt_err Q s (user_revoked_key u) = None then set_ex Q now (user_revoked_key u) ''1'' 300 s else s)"

definition force_logout_user ::
  "'s admin_env \<Rightarrow> failures \<Rightarrow> int \<Rightarrow> int \<times> int \<Rightarrow> bool \<times> bool \<Rightarrow> AuthUser \<Rightarrow> uuid \<Rightarrow> 's login_state \<Rightarrow> ('s, unit) handled" where
  "force_logout_user A fl now ts down au u st =
     and_next (st, require_permission au ''sessions:revoke'') (\<lambda>_ st.
     and_next (st, assert_scope_for_user (an_sql A) (fl ''scope'') (rbac_of (lo_db st)) au ''sessions:revoke'' u) (\<lambda>_ st.
       (log_event (admin_audit au ''admin.force_logout'' (''user:'' @ u) None None)
          (with_redis (\<lambda>s. revoke_sockets (an_redis A) now u
             (end_sessions (an_login A) ts down u (del_best_effort (an_redis A) (pubkey_key u) s))) st), Inr ())))"

subsection \<open>Changing and removing a user\<close>

record UpdateUserRequest =
  uu_display_name :: "string option"
  uu_is_active :: "bool option"
  uu_role_assignments :: "RoleAssignmentRequest list option"

definition user_exists :: "(string \<Rightarrow> sqlx_kind) \<Rightarrow> failures \<Rightarrow> uuid \<Rightarrow> auth_db \<Rightarrow> AppError + bool" where
  "user_exists K fl u db = answer_query K fl ''user_exists'' (live_row db u \<noteq> None)"

definition set_display_name :: "(string \<Rightarrow> sqlx_kind) \<Rightarrow> failures \<Rightarrow> int \<Rightarrow> uuid \<Rightarrow> string \<Rightarrow> unit stmt" where
  "set_display_name K fl now u name db =
     (if query_error K fl ''set_display_name'' = None \<and> 255 < chars_count name then (db, Inl (from_sqlx OtherDb))
      else run_stmt K fl ''set_display_name''
             (map_users (\<lambda>r. us_id r = u) (\<lambda>r. r\<lparr>us_display_name := name, us_updated_at := now\<rparr>)) db)"

definition set_active :: "(string \<Rightarrow> sqlx_kind) \<Rightarrow> failures \<Rightarrow> int \<Rightarrow> uuid \<Rightarrow> bool \<Rightarrow> unit stmt" where
  "set_active K fl now u active =
     run_stmt K fl ''set_active'' (map_users (\<lambda>r. us_id r = u) (\<lambda>r. r\<lparr>us_is_active := active, us_updated_at := now\<rparr>))"

definition update_password_hash :: "(string \<Rightarrow> sqlx_kind) \<Rightarrow> failures \<Rightarrow> int \<Rightarrow> uuid \<Rightarrow> string \<Rightarrow> bool \<Rightarrow> unit stmt" where
  "update_password_hash K fl now u h force_change =
     run_stmt K fl ''update_password_hash''
       (map_users (\<lambda>r. us_id r = u)
          (\<lambda>r. r\<lparr>us_password_hash := Some h, us_password_change_required := force_change, us_updated_at := now\<rparr>))"

text \<open>The roles of an update are checked before the transaction.\<close>

definition authorize_assignments ::
  "'s admin_env \<Rightarrow> failures \<Rightarrow> AuthUser \<Rightarrow> uuid \<Rightarrow> RoleAssignmentRequest list option \<Rightarrow> auth_db \<Rightarrow> AppError + unit" where
  "authorize_assignments A fl au u assignments db =
     (case assignments of
        None \<Rightarrow> Inr ()
      | Some as \<Rightarrow>
          and_then (require_global_permission (an_sql A) (fl ''scope'') (rbac_of db) au ''roles:update'') (\<lambda>_.
          and_then (check_escalation A fl au (map rq_role_id as) db) (\<lambda>requested.
            if u = cm_sub (au_claims au) \<and> List.member (caller_role_names fl db au) ''super_admin'' \<and>
               \<not> List.member requested ''super_admin''
            then Inl (BadRequest ''Cannot remove your own super_admin role'') else Inr ())))"

definition opt_stmt :: "'a option \<Rightarrow> ('a \<Rightarrow> unit stmt) \<Rightarrow> unit stmt" where
  "opt_stmt x f = (case x of None \<Rightarrow> done_db () | Some v \<Rightarrow> f v)"

definition update_user_tx ::
  "'s admin_env \<Rightarrow> failures \<Rightarrow> int \<Rightarrow> uuid \<Rightarrow> UpdateUserRequest \<Rightarrow> unit stmt" where
  "update_user_tx A fl now u req =
     (let K = an_kind A; touches_quorum = (uu_is_active req = Some False \<or> uu_role_assignments req \<noteq> None) in
      and_db (if touches_quorum then acquire_super_admin_guard_lock K fl else done_db ()) (\<lambda>_.
      and_db (opt_stmt (uu_display_name req) (\<lambda>name.
          if str_trim name = [] then fail_db (BadRequest ''Display name cannot be empty'')
          else set_display_name K fl (now * 1000) u (str_trim name))) (\<lambda>_.
      and_db (opt_stmt (uu_is_active req) (set_active K fl (now * 1000) u)) (\<lambda>_.
      and_db (opt_stmt (uu_role_assignments req) (\<lambda>as.
          and_db (write_user_role_assignments K fl (an_parse_uuid A) u as) (\<lambda>_. done_db ()))) (\<lambda>_.
        if touches_quorum then assert_super_admin_quorum K fl else done_db ())))))"

definition wipe_lanes :: "'s admin_env \<Rightarrow> uuid \<Rightarrow> 's \<Rightarrow> 's" where
  "wipe_lanes A u s = fst (invalidate_user_lane_all_servers (an_scan A) u s)"

text \<open>A failure to drop the keys of a disabled user is only logged.\<close>

definition after_disable ::
  "'s admin_env \<Rightarrow> failures \<Rightarrow> int \<Rightarrow> int \<times> int \<Rightarrow> bool \<times> bool \<Rightarrow> uuid \<Rightarrow> 's login_state \<Rightarrow> 's login_state" where
  "after_disable A fl now ts down u st =
     (let st1 = with_redis (\<lambda>s. del_best_effort (an_redis A) (pubkey_key u)
                  (invalidate_user_perms (an_redis A) u (end_sessions (an_login A) ts down u s))) st;
          st2 = (if fl ''disable_api_keys'' = None
                 then st1\<lparr>lo_db := disable_api_keys_of_disabled_user (now * 1000) u (lo_db st1)\<rparr> else st1)
      in with_redis (wipe_lanes A u) st2)"

definition update_user ::
  "'s admin_env \<Rightarrow> failures \<Rightarrow> int \<Rightarrow> int \<times> int \<Rightarrow> bool \<times> bool \<Rightarrow> AuthUser \<Rightarrow> uuid \<Rightarrow> UpdateUserRequest \<Rightarrow> 's login_state \<Rightarrow>
   ('s, unit) handled" where
  "update_user A fl now ts down au u req st =
     and_next (st, require_permission au ''users:update'') (\<lambda>_ st.
     and_next (st, assert_scope_for_user (an_sql A) (fl ''scope'') (rbac_of (lo_db st)) au ''users:update'' u) (\<lambda>_ st.
       if uu_is_active req = Some False \<and> u = cm_sub (au_claims au)
       then (st, Inl (BadRequest ''Cannot deactivate your own account''))
       else and_next (st, user_exists (an_kind A) fl u (lo_db st)) (\<lambda>found st.
         if \<not> found then (st, Inl (NotFound ''User not found''))
         else and_next (st, authorize_assignments A fl au u (uu_role_assignments req) (lo_db st)) (\<lambda>_ st.
           and_next (in_db (in_tx (an_kind A) fl (update_user_tx A fl now u req)) st) (\<lambda>_ st.
             let st1 = (if uu_is_active req = Some False then after_disable A fl now ts down u st else st);
                 st2 = (if uu_role_assignments req \<noteq> None then with_redis (invalidate_user_perms (an_redis A) u) st1 else st1)
             in (log_event (admin_audit au ''admin.update_user'' (''user:'' @ u) None None) st2, Inr ()))))))"

definition delete_user_tx :: "'s admin_env \<Rightarrow> failures \<Rightarrow> int \<Rightarrow> uuid \<Rightarrow> unit stmt" where
  "delete_user_tx A fl now u =
     (let K = an_kind A in
      and_db (acquire_super_admin_guard_lock K fl) (\<lambda>_.
      and_db (\<lambda>db. case query_error K fl ''soft_delete'' of
                 Some e \<Rightarrow> (db, Inl e)
               | None \<Rightarrow> (case soft_delete (now * 1000) u db of (db1, n) \<Rightarrow> (db1, Inr n))) (\<lambda>n.
        if n = 0 then fail_db (NotFound ''User not found'')
        else and_db (run_stmt K fl ''disable_api_keys'' (disable_api_keys_of_deleted_user (now * 1000) u)) (\<lambda>_.
          assert_super_admin_quorum K fl))))"

definition delete_user ::
  "'s admin_env \<Rightarrow> failures \<Rightarrow> int \<Rightarrow> int \<times> int \<Rightarrow> bool \<times> bool \<Rightarrow> AuthUser \<Rightarrow> uuid \<Rightarrow> 's login_state \<Rightarrow> ('s, unit) handled" where
  "delete_user A fl now ts down au u st =
     and_next (st, require_permission au ''users:delete'') (\<lambda>_ st.
       if u = cm_sub (au_claims au) then (st, Inl (BadRequest ''Cannot delete your own account from admin panel''))
       else and_next (st, assert_scope_for_user (an_sql A) (fl ''scope'') (rbac_of (lo_db st)) au ''users:delete'' u) (\<lambda>_ st.
         and_next (in_db (in_tx (an_kind A) fl (delete_user_tx A fl now u)) st) (\<lambda>_ st.
           (log_event (admin_audit au ''admin.delete_user'' (''user:'' @ u) None None)
              (with_redis (\<lambda>s. wipe_lanes A u (del_best_effort (an_redis A) (pubkey_key u)
                 (invalidate_user_perms (an_redis A) u (end_sessions (an_login A) ts down u s)))) st), Inr ()))))"

definition reset_user_password ::
  "'s admin_env \<Rightarrow> failures \<Rightarrow> int \<Rightarrow> string \<Rightarrow> AuthUser \<Rightarrow> uuid \<Rightarrow> 's login_state \<Rightarrow> ('s, string) handled" where
  "reset_user_password A fl now generated au u st =
     and_next (st, require_permission au ''users:update'') (\<lambda>_ st.
     and_next (st, assert_scope_for_user (an_sql A) (fl ''scope'') (rbac_of (lo_db st)) au ''users:update'' u) (\<lambda>_ st.
     and_next (st, user_exists (an_kind A) fl u (lo_db st)) (\<lambda>found st.
       if \<not> found then (st, Inl (NotFound ''User not found''))
       else and_next (st, case le_hash_password (an_login A) generated of Inl e \<Rightarrow> Inl (Internal e) | Inr h \<Rightarrow> Inr h) (\<lambda>h st.
         and_next (in_db (update_password_hash (an_kind A) fl (now * 1000) u h True) st) (\<lambda>_ st.
           (log_event (admin_audit au ''admin.reset_password'' (''user:'' @ u) None
              (Some (JObject [(''temp_password_expires_at'', temp_expiry A now)])))
              (with_redis (\<lambda>s. mark_temporary_password (an_redis A) now u (del_best_effort (an_redis A) (pubkey_key u) s)) st),
            Inr generated))))))"

end
