(* ===== verification/Role_Admin.thy ===== *)
theory Role_Admin
  imports User_Admin
begin

section \<open>Administration of roles\<close>

text \<open>
  \<^verbatim>\<open>crates/server/src/handlers/roles.rs\<close> and the statements of \<^verbatim>\<open>services/role_repository.rs\<close>: the catalogue of permissions, the
  policies of the seeded roles, the check at start-up, and the handlers that create, change, reset and delete a role. The
  lists and the history for the console are left out.
\<close>

subsection \<open>The catalogue\<close>

record PermissionDef =
  pd_key :: string
  pd_resource :: string
  pd_action :: string
  pd_dangerous :: bool

definition perm_p :: "string \<Rightarrow> string \<Rightarrow> string \<Rightarrow> PermissionDef" where
  "perm_p k r a = \<lparr>pd_key = k, pd_resource = r, pd_action = a, pd_dangerous = False\<rparr>"

definition perm_d :: "string \<Rightarrow> string \<Rightarrow> string \<Rightarrow> PermissionDef" where
  "perm_d k r a = \<lparr>pd_key = k, pd_resource = r, pd_action = a, pd_dangerous = True\<rparr>"

definition PERMISSIONS :: "PermissionDef list" where
  "PERMISSIONS = [
     perm_p ''ai_gateway:use'' ''ai_gateway'' ''use'', perm_p ''mcp_gateway:use'' ''mcp_gateway'' ''use'',
     perm_p ''mcp:connect'' ''mcp'' ''connect'', perm_p ''api_keys:read'' ''api_keys'' ''read'',
     perm_p ''api_keys:create'' ''api_keys'' ''create'', perm_p ''api_keys:update'' ''api_keys'' ''update'',
     perm_d ''api_keys:rotate'' ''api_keys'' ''rotate'', perm_d ''api_keys:delete'' ''api_keys'' ''delete'',
     perm_d ''api_keys:admin'' ''api_keys'' ''admin'', perm_p ''teams:read'' ''teams'' ''read'',
     perm_p ''teams:create'' ''teams'' ''create'', perm_p ''teams:update'' ''teams'' ''update'',
     perm_d ''teams:delete'' ''teams'' ''delete'', perm_d ''team_members:write'' ''team_members'' ''write'',
     perm_p ''providers:read'' ''providers'' ''read'', perm_p ''providers:create'' ''providers'' ''create'',
     perm_p ''providers:update'' ''providers'' ''update'', perm_d ''providers:delete'' ''providers'' ''delete'',
     perm_d ''providers:rotate_key'' ''providers'' ''rotate_key'', perm_p ''models:read'' ''models'' ''read'',
     perm_d ''models:write'' ''models'' ''write'', perm_p ''mcp_servers:read'' ''mcp_servers'' ''read'',
     perm_p ''mcp_servers:create'' ''mcp_servers'' ''create'', perm_p ''mcp_servers:update'' ''mcp_servers'' ''update'',
     perm_d ''mcp_servers:delete'' ''mcp_servers'' ''delete'', perm_p ''users:read'' ''users'' ''read'',
     perm_p ''users:create'' ''users'' ''create'', perm_p ''users:update'' ''users'' ''update'',
     perm_d ''users:delete'' ''users'' ''delete'', perm_d ''sessions:revoke'' ''sessions'' ''revoke'',
     perm_p ''roles:read'' ''roles'' ''read'', perm_d ''roles:create'' ''roles'' ''create'',
     perm_d ''roles:update'' ''roles'' ''update'', perm_d ''roles:delete'' ''roles'' ''delete'',
     perm_d ''roles:edit_system'' ''roles'' ''edit_system'', perm_p ''analytics:read_own'' ''analytics'' ''read_own'',
     perm_p ''analytics:read_team'' ''analytics'' ''read_team'', perm_p ''analytics:read_all'' ''analytics'' ''read_all'',
     perm_d ''logs:read_all'' ''logs'' ''read_all'', perm_d ''logs:read_bodies'' ''logs'' ''read_bodies'',
     perm_p ''log_forwarders:read'' ''log_forwarders'' ''read'', perm_d ''log_forwarders:write'' ''log_forwarders'' ''write'',
     perm_p ''webhooks:read'' ''webhooks'' ''read'', perm_d ''webhooks:write'' ''webhooks'' ''write'',
     perm_p ''content_filter:read'' ''content_filter'' ''read'', perm_d ''content_filter:write'' ''content_filter'' ''write'',
     perm_p ''pii_redactor:read'' ''pii_redactor'' ''read'', perm_d ''pii_redactor:write'' ''pii_redactor'' ''write'',
     perm_p ''rate_limits:read'' ''rate_limits'' ''read'', perm_d ''rate_limits:write'' ''rate_limits'' ''write'',
     perm_p ''settings:read'' ''settings'' ''read'', perm_d ''settings:write'' ''settings'' ''write'',
     perm_d ''system:configure_oidc'' ''system'' ''configure_oidc'']"

definition is_known_permission :: "string \<Rightarrow> bool" where
  "is_known_permission key = list_ex (\<lambda>p. pd_key p = key) PERMISSIONS"

definition RETIRED_PERMISSIONS :: "string list" where
  "RETIRED_PERMISSIONS = [
     ''team:read'', ''team:write'', ''logs:read_own'', ''logs:read_team'', ''audit_logs:read_own'', ''audit_logs:read_team'',
     ''audit_logs:read_all'']"

definition all_permission_keys :: "string list" where
  "all_permission_keys = map pd_key PERMISSIONS"

text \<open>The entries that are neither known nor retired, and the retired ones.\<close>

definition role_perm_entries :: "string \<times> json \<Rightarrow> (string \<times> string) list" where
  "role_perm_entries row =
     map (\<lambda>perm. (perm, fst row @ '': '' @ perm))
       (filter (\<lambda>perm. \<not> is_known_permission perm) (extract_permissions (snd row) all_permission_keys))"

definition classify_role_permissions :: "(string \<times> json) list \<Rightarrow> string list \<times> string list" where
  "classify_role_permissions rows =
     (let entries = concat (map role_perm_entries rows) in
      (map snd (filter (\<lambda>(perm, _). \<not> List.member RETIRED_PERMISSIONS perm) entries),
       map snd (filter (\<lambda>(perm, _). List.member RETIRED_PERMISSIONS perm) entries)))"

text \<open>The start-up check: the server refuses to start when this is not empty.\<close>

definition validate_seeded_roles :: "rbac_db \<Rightarrow> string list" where
  "validate_seeded_roles rb = fst (classify_role_permissions (map (\<lambda>r. (role_name r, policy_document r)) (roles rb)))"

definition system_policy :: "string \<Rightarrow> json \<Rightarrow> json" where
  "system_policy i act =
     JObject [(''Version'', JString ''2024-01-01''), (''Statement'', JArray [JObject
       [(''Sid'', JString i), (''Effect'', JString ''Allow''), (''Action'', act), (''Resource'', JString ''*'')]])]"

definition SYSTEM_ROLE_DEFAULTS :: "(string \<times> json) list" where
  "SYSTEM_ROLE_DEFAULTS = [
    (''super_admin'', system_policy ''FullAccess'' (JString ''*'')),
    (''admin'', system_policy ''AdminAccess'' (JArray (map JString [
        ''ai_gateway:use'', ''mcp_gateway:use'', ''mcp:connect'', ''api_keys:read'', ''api_keys:create'', ''api_keys:update'',
        ''api_keys:rotate'', ''api_keys:delete'', ''api_keys:admin'', ''providers:read'', ''providers:create'',
        ''providers:update'', ''providers:delete'', ''providers:rotate_key'', ''models:read'', ''models:write'',
        ''mcp_servers:read'', ''mcp_servers:create'', ''mcp_servers:update'', ''mcp_servers:delete'', ''users:read'',
        ''users:create'', ''users:update'', ''teams:read'', ''teams:create'', ''teams:update'', ''teams:delete'',
        ''team_members:write'', ''sessions:revoke'', ''roles:read'', ''roles:create'', ''roles:update'', ''roles:delete'',
        ''analytics:read_all'', ''logs:read_all'', ''log_forwarders:read'', ''log_forwarders:write'', ''webhooks:read'',
        ''webhooks:write'', ''content_filter:read'', ''content_filter:write'', ''pii_redactor:read'', ''pii_redactor:write'',
        ''rate_limits:read'', ''rate_limits:write'', ''settings:read'', ''settings:write'']))),
    (''team_manager'', system_policy ''TeamManagement'' (JArray (map JString [
        ''ai_gateway:use'', ''mcp_gateway:use'', ''mcp:connect'', ''api_keys:read'', ''api_keys:create'', ''api_keys:update'',
        ''api_keys:rotate'', ''providers:read'', ''models:read'', ''mcp_servers:read'', ''users:read'', ''users:update'',
        ''team_members:write'', ''teams:read'', ''analytics:read_team'', ''rate_limits:read'', ''rate_limits:write'']))),
    (''developer'', system_policy ''DeveloperAccess'' (JArray (map JString [
        ''ai_gateway:use'', ''mcp_gateway:use'', ''mcp:connect'', ''api_keys:read'', ''api_keys:create'', ''api_keys:update'',
        ''providers:read'', ''models:read'', ''mcp_servers:read'', ''analytics:read_own'']))),
    (''viewer'', system_policy ''ViewerAccess'' (JArray (map JString [
        ''api_keys:read'', ''providers:read'', ''models:read'', ''mcp_servers:read'', ''analytics:read_own''])))]"

definition system_role_default_policy :: "string \<Rightarrow> json option" where
  "system_role_default_policy name = map_of SYSTEM_ROLE_DEFAULTS name"

subsection \<open>Policies\<close>

fun validate_constraints_from :: "(json \<Rightarrow> string + PolicyConstraints) \<Rightarrow> nat \<Rightarrow> json list \<Rightarrow> AppError + unit" where
  "validate_constraints_from from_constraints i [] = Inr ()"
| "validate_constraints_from from_constraints i (stmt # stmts) =
     (case json_get stmt ''Constraints'' of
        None \<Rightarrow> validate_constraints_from from_constraints (Suc i) stmts
      | Some c \<Rightarrow>
          if c = JNull then validate_constraints_from from_constraints (Suc i) stmts
          else (case from_constraints c of
                  Inl e \<Rightarrow> Inl (BadRequest (''Statement['' @ show_nat i @ ''].Constraints: '' @ e))
                | Inr cs \<Rightarrow>
                    (case validate_policy_constraints cs of
                       Inl e \<Rightarrow> Inl (BadRequest (''Statement['' @ show_nat i @ ''].'' @ e))
                     | Inr () \<Rightarrow> validate_constraints_from from_constraints (Suc i) stmts)))"

definition validate_policy_constraints_in_doc :: "(json \<Rightarrow> string + PolicyConstraints) \<Rightarrow> json \<Rightarrow> AppError + unit" where
  "validate_policy_constraints_in_doc from_constraints doc =
     (case json_get doc ''Statement'' of
        Some (JArray stmts) \<Rightarrow> validate_constraints_from from_constraints 0 stmts
      | _ \<Rightarrow> Inr ())"

definition checked_policy :: "'s admin_env \<Rightarrow> json \<Rightarrow> AppError + unit" where
  "checked_policy A doc =
     (case validate_policy_document (an_json_len A) (an_from_doc A) doc of
        Inl e \<Rightarrow> Inl (BadRequest e)
      | Inr _ \<Rightarrow> validate_policy_constraints_in_doc (an_from_constraints A) doc)"

subsection \<open>Statements\<close>

definition find_kind :: "(string \<Rightarrow> sqlx_kind) \<Rightarrow> failures \<Rightarrow> uuid \<Rightarrow> auth_db \<Rightarrow> AppError + bool \<times> string" where
  "find_kind K fl i db =
     and_then (answer_query K fl ''find_kind'' (find_role (rbac_of db) i)) (\<lambda>found.
       case found of None \<Rightarrow> Inl (NotFound ''Role not found'') | Some r \<Rightarrow> Inr (role_is_system r, role_name r))"

definition insert_role :: "(string \<Rightarrow> sqlx_kind) \<Rightarrow> failures \<Rightarrow> rbac_role \<Rightarrow> rbac_role stmt" where
  "insert_role K fl r db =
     (case query_error K fl ''insert_role'' of
        Some e \<Rightarrow> (db, Inl e)
      | None \<Rightarrow>
          if list_ex (\<lambda>x. role_name x = role_name r) (roles (rbac_of db))
          then (db, Inl (BadRequest (''Role name '' @ [CHR 0x27] @ role_name r @ [CHR 0x27] @ '' already exists'')))
          else (with_rbac (\<lambda>rb. rb\<lparr>roles := roles rb @ [r]\<rparr>) db, Inr r))"

definition map_roles :: "uuid \<Rightarrow> (rbac_role \<Rightarrow> rbac_role) \<Rightarrow> rbac_db \<Rightarrow> rbac_db" where
  "map_roles i f rb = rb\<lparr>roles := map (\<lambda>r. if role_id r = i then f r else r) (roles rb)\<rparr>"

text \<open>The name has the width of its column and is unique; the handler checks neither.\<close>

definition update_role_row ::
  "(string \<Rightarrow> sqlx_kind) \<Rightarrow> failures \<Rightarrow> int \<Rightarrow> uuid \<Rightarrow> string option \<Rightarrow> string option option \<Rightarrow> json option \<Rightarrow> unit stmt" where
  "update_role_row K fl now i name description doc db =
     (case query_error K fl ''update_role'' of
        Some e \<Rightarrow> (db, Inl e)
      | None \<Rightarrow>
          if (case name of None \<Rightarrow> False | Some n \<Rightarrow> 100 < chars_count n) then (db, Inl (from_sqlx OtherDb))
          else if (case name of None \<Rightarrow> False | Some n \<Rightarrow> list_ex (\<lambda>r. role_id r \<noteq> i \<and> role_name r = n) (roles (rbac_of db)))
          then (db, Inl (from_sqlx UniqueViolation))
          else (with_rbac (map_roles i (\<lambda>r. r\<lparr>role_name := unwrap_or name (role_name r),
                  role_description := unwrap_or description (role_description r),
                  policy_document := unwrap_or doc (policy_document r), role_updated_at := now\<rparr>)) db, Inr ()))"

definition set_policy_document :: "(string \<Rightarrow> sqlx_kind) \<Rightarrow> failures \<Rightarrow> int \<Rightarrow> uuid \<Rightarrow> json \<Rightarrow> unit stmt" where
  "set_policy_document K fl now i doc =
     run_stmt K fl ''set_policy_document''
       (with_rbac (map_roles i (\<lambda>r. r\<lparr>policy_document := doc, role_updated_at := now\<rparr>)))"

definition assignment_count :: "rbac_db \<Rightarrow> uuid \<Rightarrow> nat" where
  "assignment_count rb i = length (filter (\<lambda>a. ra_role_id a = i) (role_assignments rb))"

definition counted :: "failures \<Rightarrow> auth_db \<Rightarrow> uuid \<Rightarrow> nat" where
  "counted fl db i = (if fl ''assignment_count'' = None then assignment_count (rbac_of db) i else 0)"

definition copy_assignments :: "(string \<Rightarrow> sqlx_kind) \<Rightarrow> failures \<Rightarrow> uuid \<Rightarrow> uuid \<Rightarrow> unit stmt" where
  "copy_assignments K fl from_role to_role =
     run_stmt K fl ''copy_assignments''
       (with_rbac (\<lambda>rb. fold (\<lambda>a. add_assignment (a\<lparr>ra_role_id := to_role\<rparr>))
          (filter (\<lambda>a. ra_role_id a = from_role) (role_assignments rb)) rb))"

definition delete_assignments :: "(string \<Rightarrow> sqlx_kind) \<Rightarrow> failures \<Rightarrow> uuid \<Rightarrow> unit stmt" where
  "delete_assignments K fl i =
     run_stmt K fl ''delete_assignments''
       (with_rbac (\<lambda>rb. rb\<lparr>role_assignments := filter (\<lambda>a. ra_role_id a \<noteq> i) (role_assignments rb)\<rparr>))"

text \<open>What is left of a deleted role goes with it: its assignments to users and to teams.\<close>

definition drop_role :: "uuid \<Rightarrow> rbac_db \<Rightarrow> rbac_db" where
  "drop_role i rb =
     (if list_ex (\<lambda>r. role_id r = i \<and> \<not> role_is_system r) (roles rb)
      then rb\<lparr>roles := filter (\<lambda>r. role_id r \<noteq> i) (roles rb),
              role_assignments := filter (\<lambda>a. ra_role_id a \<noteq> i) (role_assignments rb),
              team_role_assignments := filter (\<lambda>(t, r). r \<noteq> i) (team_role_assignments rb)\<rparr>
      else rb)"

definition delete_custom :: "(string \<Rightarrow> sqlx_kind) \<Rightarrow> failures \<Rightarrow> uuid \<Rightarrow> unit stmt" where
  "delete_custom K fl i = run_stmt K fl ''delete_custom'' (with_rbac (drop_role i))"

subsection \<open>Handlers\<close>

record CreateRoleRequest =
  cr_name :: string
  cr_description :: "string option"
  cr_policy_document :: json

definition role_event :: "AuthUser \<Rightarrow> string \<Rightarrow> uuid \<Rightarrow> json \<Rightarrow> auth_event" where
  "role_event au act i detail = admin_audit au act ''role'' (Some i) (Some detail)"

definition create_role ::
  "'s admin_env \<Rightarrow> failures \<Rightarrow> int \<Rightarrow> uuid \<Rightarrow> AuthUser \<Rightarrow> CreateRoleRequest \<Rightarrow> 's login_state \<Rightarrow> ('s, rbac_role) handled" where
  "create_role A fl now new_id au req st =
     (let name = str_trim (cr_name req) in
      and_next (st, require_global_permission (an_sql A) (fl ''scope'') (rbac_of (lo_db st)) au ''roles:create'') (\<lambda>_ st.
        if name = [] \<or> 100 < length name then (st, Inl (BadRequest ''Role name must be 1-100 characters''))
        else and_next (st, checked_policy A (cr_policy_document req)) (\<lambda>_ st.
          and_next (in_db (insert_role (an_kind A) fl
              \<lparr>role_id = new_id, role_name = name, policy_document = cr_policy_document req, role_description = cr_description req,
               role_is_system = False, role_created_by = Some (cm_sub (au_claims au)), role_created_at = now * 1000,
               role_updated_at = now * 1000\<rparr>) st) (\<lambda>r st.
            (log_event (role_event au ''role.created'' new_id (JObject [(''name'', JString name)])) st, Inr r)))))"

record UpdateRoleRequest =
  ur_name :: "string option"
  ur_description :: "string option option"
  ur_policy_document :: "json option"

definition edit_system_check :: "'s admin_env \<Rightarrow> failures \<Rightarrow> AuthUser \<Rightarrow> bool \<Rightarrow> string option \<Rightarrow> auth_db \<Rightarrow> AppError + unit" where
  "edit_system_check A fl au is_system name db =
     (if \<not> is_system then Inr ()
      else and_then (require_global_permission (an_sql A) (fl ''scope'') (rbac_of db) au ''roles:edit_system'') (\<lambda>_.
        if name \<noteq> None then Inl (BadRequest ''Cannot rename system roles'') else Inr ()))"

text \<open>\<open>errs\<close> are the errors of the two queries of \<open>invalidate_role_perms\<close>.\<close>

definition role_changed ::
  "'s admin_env \<Rightarrow> failures \<Rightarrow> string option \<times> string option \<Rightarrow> AuthUser \<Rightarrow> string \<Rightarrow> uuid \<Rightarrow> string \<Rightarrow> 's login_state \<Rightarrow>
   ('s, rbac_role option \<times> nat) handled" where
  "role_changed A fl errs au act i name st =
     and_next (st, answer_query (an_kind A) fl ''get_role'' (find_role (rbac_of (lo_db st)) i)) (\<lambda>r st.
       (log_event (role_event au act i (JObject [(''name'', JString name)]))
          (with_redis (invalidate_role_perms (an_redis A) errs (rbac_of (lo_db st)) i) st),
        Inr (r, counted fl (lo_db st) i)))"

definition update_role ::
  "'s admin_env \<Rightarrow> failures \<Rightarrow> string option \<times> string option \<Rightarrow> int \<Rightarrow> AuthUser \<Rightarrow> uuid \<Rightarrow> UpdateRoleRequest \<Rightarrow> 's login_state \<Rightarrow>
   ('s, rbac_role option \<times> nat) handled" where
  "update_role A fl errs now au i req st =
     and_next (st, require_global_permission (an_sql A) (fl ''scope'') (rbac_of (lo_db st)) au ''roles:update'') (\<lambda>_ st.
     and_next (st, find_kind (an_kind A) fl i (lo_db st)) (\<lambda>(is_system, name) st.
     and_next (st, edit_system_check A fl au is_system (ur_name req) (lo_db st)) (\<lambda>_ st.
     and_next (st, case ur_policy_document req of None \<Rightarrow> Inr () | Some doc \<Rightarrow> checked_policy A doc) (\<lambda>_ st.
     and_next (in_db (update_role_row (an_kind A) fl (now * 1000) i (map_option str_trim (ur_name req)) (ur_description req)
         (ur_policy_document req)) st) (\<lambda>_ st.
       role_changed A fl errs au ''role.updated'' i name st)))))"

definition reset_role ::
  "'s admin_env \<Rightarrow> failures \<Rightarrow> string option \<times> string option \<Rightarrow> int \<Rightarrow> AuthUser \<Rightarrow> uuid \<Rightarrow> 's login_state \<Rightarrow>
   ('s, rbac_role option \<times> nat) handled" where
  "reset_role A fl errs now au i st =
     and_next (st, require_global_permission (an_sql A) (fl ''scope'') (rbac_of (lo_db st)) au ''roles:edit_system'') (\<lambda>_ st.
     and_next (st, find_kind (an_kind A) fl i (lo_db st)) (\<lambda>(is_system, name) st.
       if \<not> is_system then (st, Inl (BadRequest ''Reset is only available for system roles''))
       else case system_role_default_policy name of
         None \<Rightarrow> (st, Inl (BadRequest (''No defaults registered for system role '' @ [CHR 0x27] @ name @ [CHR 0x27])))
       | Some doc \<Rightarrow>
           and_next (in_db (set_policy_document (an_kind A) fl (now * 1000) i doc) st) (\<lambda>_ st.
             role_changed A fl errs au ''role.reset'' i name st)))"

definition delete_role_tx :: "'s admin_env \<Rightarrow> failures \<Rightarrow> uuid \<Rightarrow> uuid option \<Rightarrow> nat \<Rightarrow> unit stmt" where
  "delete_role_tx A fl i reassign_to assigned =
     (let K = an_kind A in
      and_db (if assigned = 0 then done_db ()
              else case reassign_to of
                None \<Rightarrow> fail_db (BadRequest (''Role still has '' @ show_nat assigned @
                          '' member(s). Pass reassign_to=<other_role_id> to migrate them.''))
              | Some target \<Rightarrow>
                  if target = i then fail_db (BadRequest ''reassign_to must be a different role'')
                  else and_db (\<lambda>db. (db, answer_query K fl ''exists_in'' (find_role (rbac_of db) target \<noteq> None))) (\<lambda>found.
                    if \<not> found then fail_db (BadRequest ''reassign_to role not found'')
                    else and_db (copy_assignments K fl i target) (\<lambda>_. delete_assignments K fl i)))
        (\<lambda>_. delete_custom K fl i))"

definition delete_role ::
  "'s admin_env \<Rightarrow> failures \<Rightarrow> AuthUser \<Rightarrow> uuid \<Rightarrow> uuid option \<Rightarrow> 's login_state \<Rightarrow> ('s, nat) handled" where
  "delete_role A fl au i reassign_to st =
     and_next (st, require_global_permission (an_sql A) (fl ''scope'') (rbac_of (lo_db st)) au ''roles:delete'') (\<lambda>_ st.
     and_next (st, find_kind (an_kind A) fl i (lo_db st)) (\<lambda>(is_system, name) st.
       if is_system then (st, Inl (BadRequest ''Cannot delete system roles''))
       else let assigned = counted fl (lo_db st) i in
         and_next (in_db (in_tx (an_kind A) fl (delete_role_tx A fl i reassign_to assigned)) st) (\<lambda>_ st.
           (log_event (role_event au ''role.deleted'' i (JObject [(''name'', JString name),
              (''reassign_to'', (case reassign_to of None \<Rightarrow> JNull | Some t \<Rightarrow> JString t)),
              (''members_migrated'', JNumber (show_nat assigned))])) st,
            Inr assigned))))"

end
