(* ===== verification/Team_Admin.thy ===== *)
theory Team_Admin
  imports Role_Admin
begin

section \<open>Administration of teams\<close>

text \<open>
  \<^verbatim>\<open>crates/server/src/handlers/teams.rs\<close> and the statements of \<^verbatim>\<open>services/team_repository.rs\<close> that change something, with the two
  reads of a single team. The lists for the console, which carry the times of joining, are left out.
\<close>

subsection \<open>Statements\<close>

definition find_team :: "rbac_db \<Rightarrow> uuid \<Rightarrow> Team option" where
  "find_team rb i = find (\<lambda>t. te_id t = i) (team_rows rb)"

definition insert_team :: "(string \<Rightarrow> sqlx_kind) \<Rightarrow> failures \<Rightarrow> Team \<Rightarrow> Team stmt" where
  "insert_team K fl t db =
     (case query_error K fl ''insert_team'' of
        Some e \<Rightarrow> (db, Inl e)
      | None \<Rightarrow>
          if list_ex (\<lambda>x. te_name x = te_name t) (team_rows (rbac_of db))
          then (db, Inl (Conflict (''Team '' @ [CHR 0x27] @ te_name t @ [CHR 0x27] @ '' already exists'')))
          else (with_rbac (\<lambda>rb. rb\<lparr>team_rows := team_rows rb @ [t]\<rparr>) db, Inr t))"

text \<open>The width of the column is checked by the table only.\<close>

definition update_team_row :: "(string \<Rightarrow> sqlx_kind) \<Rightarrow> failures \<Rightarrow> uuid \<Rightarrow> string \<Rightarrow> string option \<Rightarrow> unit stmt" where
  "update_team_row K fl i name description db =
     (case query_error K fl ''update_team'' of
        Some e \<Rightarrow> (db, Inl e)
      | None \<Rightarrow>
          if 255 < chars_count name then (db, Inl (from_sqlx OtherDb))
          else if list_ex (\<lambda>x. te_id x \<noteq> i \<and> te_name x = name) (team_rows (rbac_of db))
          then (db, Inl (Conflict (''Team '' @ [CHR 0x27] @ name @ [CHR 0x27] @ '' already exists'')))
          else (with_rbac (\<lambda>rb. rb\<lparr>team_rows := map (\<lambda>x. if te_id x = i then x\<lparr>te_name := name, te_description := description\<rparr> else x)
                  (team_rows rb)\<rparr>) db, Inr ()))"

text \<open>Members, roles and the grants scoped to the team go with it.\<close>

definition drop_team :: "uuid \<Rightarrow> rbac_db \<Rightarrow> rbac_db" where
  "drop_team i rb =
     rb\<lparr>team_rows := filter (\<lambda>t. te_id t \<noteq> i) (team_rows rb),
        team_members := filter (\<lambda>(t, u). t \<noteq> i) (team_members rb),
        team_role_assignments := filter (\<lambda>(t, r). t \<noteq> i) (team_role_assignments rb),
        role_assignments := filter (\<lambda>a. ra_scope_id a \<noteq> Some i) (role_assignments rb)\<rparr>"

definition is_member :: "rbac_db \<Rightarrow> uuid \<Rightarrow> uuid \<Rightarrow> bool" where
  "is_member rb u team \<longleftrightarrow> List.member (team_members rb) (team, u)"

definition team_count :: "rbac_db \<Rightarrow> uuid \<Rightarrow> nat" where
  "team_count rb u = length (filter (\<lambda>(t, v). v = u) (team_members rb))"

definition add_member_capped :: "(string \<Rightarrow> sqlx_kind) \<Rightarrow> failures \<Rightarrow> uuid \<Rightarrow> uuid \<Rightarrow> nat \<Rightarrow> nat stmt" where
  "add_member_capped K fl u team max_teams db =
     (case query_error K fl ''add_member_capped'' of
        Some e \<Rightarrow> (db, Inl e)
      | None \<Rightarrow>
          if max_teams \<le> team_count (rbac_of db) u \<or> is_member (rbac_of db) u team then (db, Inr 0)
          else if find_team (rbac_of db) team = None then (db, Inl (from_sqlx OtherDb))
          else (with_rbac (\<lambda>rb. rb\<lparr>team_members := team_members rb @ [(team, u)]\<rparr>) db, Inr 1))"

definition remove_member_row :: "(string \<Rightarrow> sqlx_kind) \<Rightarrow> failures \<Rightarrow> uuid \<Rightarrow> uuid \<Rightarrow> nat stmt" where
  "remove_member_row K fl team u db =
     (case query_error K fl ''remove_member'' of
        Some e \<Rightarrow> (db, Inl e)
      | None \<Rightarrow>
          (with_rbac (\<lambda>rb. rb\<lparr>team_members := filter (\<lambda>m. m \<noteq> (team, u)) (team_members rb)\<rparr>) db,
           Inr (length (filter (\<lambda>m. m = (team, u)) (team_members (rbac_of db))))))"

definition assign_role :: "(string \<Rightarrow> sqlx_kind) \<Rightarrow> failures \<Rightarrow> uuid \<Rightarrow> uuid \<Rightarrow> unit stmt" where
  "assign_role K fl team role db =
     (case query_error K fl ''assign_role'' of
        Some e \<Rightarrow> (db, Inl e)
      | None \<Rightarrow>
          if List.member (team_role_assignments (rbac_of db)) (team, role) then (db, Inr ())
          else if find_team (rbac_of db) team = None \<or> find_role (rbac_of db) role = None then (db, Inl (from_sqlx OtherDb))
          else (with_rbac (\<lambda>rb. rb\<lparr>team_role_assignments := team_role_assignments rb @ [(team, role)]\<rparr>) db, Inr ()))"

definition remove_role :: "(string \<Rightarrow> sqlx_kind) \<Rightarrow> failures \<Rightarrow> uuid \<Rightarrow> uuid \<Rightarrow> unit stmt" where
  "remove_role K fl team role =
     run_stmt K fl ''remove_role''
       (with_rbac (\<lambda>rb. rb\<lparr>team_role_assignments := filter (\<lambda>m. m \<noteq> (team, role)) (team_role_assignments rb)\<rparr>))"

subsection \<open>Handlers\<close>

record CreateTeamRequest =
  ct_name :: string
  ct_description :: "string option"

record UpdateTeamRequest =
  ut_name :: "string option"
  ut_description :: "string option option"

definition MAX_TEAMS_PER_USER :: nat where "MAX_TEAMS_PER_USER = 10"

definition team_event :: "AuthUser \<Rightarrow> string \<Rightarrow> uuid \<Rightarrow> (string \<times> string) \<Rightarrow> auth_event" where
  "team_event au act i detail = admin_audit au act ''team'' (Some i) (Some (JObject [(fst detail, JString (snd detail))]))"

definition caller_is_team_member :: "failures \<Rightarrow> auth_db \<Rightarrow> uuid \<Rightarrow> uuid \<Rightarrow> AppError + bool" where
  "caller_is_team_member fl db caller team =
     (case fl ''is_member'' of
        Some e \<Rightarrow> Inl (Internal (''team membership check failed: '' @ e))
      | None \<Rightarrow> Inr (is_member (rbac_of db) caller team))"

definition assert_can_view_team :: "'s admin_env \<Rightarrow> failures \<Rightarrow> AuthUser \<Rightarrow> uuid \<Rightarrow> auth_db \<Rightarrow> AppError + unit" where
  "assert_can_view_team A fl au team db =
     and_then (caller_is_team_member fl db (cm_sub (au_claims au)) team) (\<lambda>member.
       if member then Inr () else assert_scope_for_team (an_sql A) (fl ''scope'') (rbac_of db) au ''teams:read'' team)"

definition member_count :: "rbac_db \<Rightarrow> uuid \<Rightarrow> nat" where
  "member_count rb team = length (filter (\<lambda>(t, u). t = team) (team_members rb))"

definition get_team :: "'s admin_env \<Rightarrow> failures \<Rightarrow> AuthUser \<Rightarrow> uuid \<Rightarrow> 's login_state \<Rightarrow> AppError + Team \<times> nat" where
  "get_team A fl au team st =
     and_then (require_permission au ''teams:read'') (\<lambda>_.
     and_then (assert_can_view_team A fl au team (lo_db st)) (\<lambda>_.
     and_then (answer_query (an_kind A) fl ''find_with_count'' (find_team (rbac_of (lo_db st)) team)) (\<lambda>found.
       case found of
         None \<Rightarrow> Inl (NotFound ''Team not found'')
       | Some t \<Rightarrow> Inr (t, member_count (rbac_of (lo_db st)) team))))"

definition create_team ::
  "'s admin_env \<Rightarrow> failures \<Rightarrow> int \<Rightarrow> uuid \<Rightarrow> AuthUser \<Rightarrow> CreateTeamRequest \<Rightarrow> 's login_state \<Rightarrow> ('s, Team) handled" where
  "create_team A fl now new_id au req st =
     (let name = str_trim (ct_name req) in
      and_next (st, require_global_permission (an_sql A) (fl ''scope'') (rbac_of (lo_db st)) au ''teams:create'') (\<lambda>_ st.
        if name = [] then (st, Inl (BadRequest ''Team name is required''))
        else if 255 < chars_count name then (st, Inl (BadRequest ''Team name too long''))
        else and_next (in_db (insert_team (an_kind A) fl \<lparr>te_id = new_id, te_name = name,
               te_description = map_option str_trim (ct_description req), te_created_at = now * 1000\<rparr>) st) (\<lambda>t st.
          (log_event (team_event au ''team.create'' new_id (''name'', name)) st, Inr t))))"

definition new_team_name :: "string \<Rightarrow> string option \<Rightarrow> AppError + string" where
  "new_team_name existing name =
     (case name of
        None \<Rightarrow> Inr existing
      | Some n \<Rightarrow> if str_trim n = [] then Inl (BadRequest ''Team name cannot be empty or whitespace'') else Inr (str_trim n))"

definition new_team_description :: "string option \<Rightarrow> string option option \<Rightarrow> string option" where
  "new_team_description existing description =
     (case description of
        None \<Rightarrow> existing
      | Some None \<Rightarrow> None
      | Some (Some d) \<Rightarrow> if str_trim d = [] then None else Some (str_trim d))"

definition update_team ::
  "'s admin_env \<Rightarrow> failures \<Rightarrow> AuthUser \<Rightarrow> uuid \<Rightarrow> UpdateTeamRequest \<Rightarrow> 's login_state \<Rightarrow> ('s, Team option) handled" where
  "update_team A fl au i req st =
     and_next (st, require_permission au ''teams:update'') (\<lambda>_ st.
     and_next (st, assert_scope_for_team (an_sql A) (fl ''scope'') (rbac_of (lo_db st)) au ''teams:update'' i) (\<lambda>_ st.
     and_next (st, answer_query (an_kind A) fl ''find_team'' (find_team (rbac_of (lo_db st)) i)) (\<lambda>found st.
       case found of
         None \<Rightarrow> (st, Inl (NotFound ''Team not found''))
       | Some existing \<Rightarrow>
           and_next (st, new_team_name (te_name existing) (ut_name req)) (\<lambda>name st.
           and_next (in_db (update_team_row (an_kind A) fl i name (new_team_description (te_description existing) (ut_description req))) st) (\<lambda>_ st.
             (log_event (team_event au ''team.update'' i (''name'', name)) st, Inr (find_team (rbac_of (lo_db st)) i)))))))"

definition delete_team :: "'s admin_env \<Rightarrow> failures \<Rightarrow> AuthUser \<Rightarrow> uuid \<Rightarrow> 's login_state \<Rightarrow> ('s, unit) handled" where
  "delete_team A fl au i st =
     and_next (st, require_global_permission (an_sql A) (fl ''scope'') (rbac_of (lo_db st)) au ''teams:delete'') (\<lambda>_ st.
     and_next (st, answer_query (an_kind A) fl ''name_of'' (find_team (rbac_of (lo_db st)) i)) (\<lambda>found st.
       case found of
         None \<Rightarrow> (st, Inl (NotFound ''Team not found''))
       | Some t \<Rightarrow>
           and_next (in_db (run_stmt (an_kind A) fl ''delete_team'' (with_rbac (drop_team i))) st) (\<lambda>_ st.
             (log_event (team_event au ''team.delete'' i (''name'', te_name t)) st, Inr ()))))"

definition add_member ::
  "'s admin_env \<Rightarrow> failures \<Rightarrow> AuthUser \<Rightarrow> uuid \<Rightarrow> uuid \<Rightarrow> 's login_state \<Rightarrow> ('s, unit) handled" where
  "add_member A fl au team u st =
     and_next (st, require_permission au ''team_members:write'') (\<lambda>_ st.
     and_next (st, assert_scope_for_team (an_sql A) (fl ''scope'') (rbac_of (lo_db st)) au ''team_members:write'' team) (\<lambda>_ st.
     and_next (st, answer_query (an_kind A) fl ''active_exists'' (list_ex (\<lambda>r. us_id r = u \<and> active_row r) (ad_users (lo_db st)))) (\<lambda>found st.
       if \<not> found then (st, Inl (NotFound ''User not found''))
       else and_next (in_db (add_member_capped (an_kind A) fl u team MAX_TEAMS_PER_USER) st) (\<lambda>inserted st.
         and_next (st, if inserted \<noteq> 0 then Inr True else answer_query (an_kind A) fl ''is_member'' (is_member (rbac_of (lo_db st)) u team))
           (\<lambda>is_in st.
             if \<not> is_in
             then (st, Inl (BadRequest (''User already belongs to '' @ show_nat MAX_TEAMS_PER_USER @ '' teams (maximum)'')))
             else (log_event (team_event au ''team_member.add'' team (''user_id'', u))
                     (with_redis (invalidate_user_perms (an_redis A) u) st), Inr ()))))))"

definition remove_member ::
  "'s admin_env \<Rightarrow> failures \<Rightarrow> AuthUser \<Rightarrow> uuid \<Rightarrow> uuid \<Rightarrow> 's login_state \<Rightarrow> ('s, unit) handled" where
  "remove_member A fl au team u st =
     and_next (st, require_permission au ''team_members:write'') (\<lambda>_ st.
     and_next (st, assert_scope_for_team (an_sql A) (fl ''scope'') (rbac_of (lo_db st)) au ''team_members:write'' team) (\<lambda>_ st.
     and_next (in_db (remove_member_row (an_kind A) fl team u) st) (\<lambda>removed st.
       if removed = 0 then (st, Inl (NotFound ''Member not found''))
       else (log_event (team_event au ''team_member.remove'' team (''user_id'', u))
               (with_redis (invalidate_user_perms (an_redis A) u) st), Inr ()))))"

definition team_roles_changed ::
  "'s admin_env \<Rightarrow> failures \<Rightarrow> AuthUser \<Rightarrow> string \<Rightarrow> uuid \<Rightarrow> uuid \<Rightarrow> unit stmt \<Rightarrow> 's login_state \<Rightarrow> ('s, unit) handled" where
  "team_roles_changed A fl au act team role f st =
     and_next (st, require_permission au ''teams:update'') (\<lambda>_ st.
     and_next (st, assert_scope_for_team (an_sql A) (fl ''scope'') (rbac_of (lo_db st)) au ''teams:update'' team) (\<lambda>_ st.
     and_next (in_db f st) (\<lambda>_ st.
       (log_event (team_event au act team (''role_id'', role))
          (with_redis (invalidate_team_perms (an_redis A) (fl ''team_member_ids'') (rbac_of (lo_db st)) team) st), Inr ()))))"

definition assign_team_role ::
  "'s admin_env \<Rightarrow> failures \<Rightarrow> AuthUser \<Rightarrow> uuid \<Rightarrow> uuid \<Rightarrow> 's login_state \<Rightarrow> ('s, unit) handled" where
  "assign_team_role A fl au team role =
     team_roles_changed A fl au ''team_role.assigned'' team role (assign_role (an_kind A) fl team role)"

definition remove_team_role ::
  "'s admin_env \<Rightarrow> failures \<Rightarrow> AuthUser \<Rightarrow> uuid \<Rightarrow> uuid \<Rightarrow> 's login_state \<Rightarrow> ('s, unit) handled" where
  "remove_team_role A fl au team role =
     team_roles_changed A fl au ''team_role.removed'' team role (remove_role (an_kind A) fl team role)"

end
