(* ===== verification/Login_Frames.thy ===== *)
theory Login_Frames
  imports Login
begin

section \<open>Which keys the handlers of a login touch\<close>

text \<open>
  Keys in Redis are named by what stands before their first colon. \<open>frame\<close> says that a change of the store left every key
  with another name alone; each operation has its frame, and the frames of the handlers follow by composition. This is what
  lets the properties speak about runs in which all handlers take part.
\<close>

definition key_tag :: "string \<Rightarrow> string" where
  "key_tag k = takeWhile (\<lambda>c. c \<noteq> CHR '':'') k"

lemma key_tags [simp]:
  "key_tag (challenge_key c) = ''pow''"
  "key_tag (mint_key ip) = ''pow_mint_ip''"
  "key_tag (rate_key ip email) = ''auth_rate''"
  "key_tag (ip_rate_key ip) = ''auth_rate_ip''"
  "key_tag (lockout_key email) = ''auth_lockout''"
  "key_tag (email_fail_key email) = ''auth_email_fails''"
  "key_tag (subnet_fail_key E ip) = ''auth_fail_subnet''"
  "key_tag (totp_fail_key u) = ''auth_totp_fails''"
  "key_tag (totp_lock_key u) = ''auth_totp_locked''"
  "key_tag (race_lost_key u) = ''totp_recovery_race_lost_seen''"
  "key_tag (last_step_key u) = ''totp_last_step''"
  "key_tag (pending_key u) = ''totp_pending''"
  "key_tag (pubkey_key u) = ''signing_pubkey''"
  "key_tag (ip_key u) = ''signing_key_ip''"
  "key_tag (epoch_key u) = ''pw_epoch''"
  "key_tag (temp_password_marker_key u) = ''pw_temp''"
  "key_tag (key_for h t) = ''refresh_blacklist''"
  "key_tag (pwchange_fail_key u) = ''pwchange_fails''"
  "key_tag (pwchange_locked_key u) = ''pwchange_locked''"
  "key_tag (user_revoked_key u) = ''dashboard_user_revoked''"
  by (simp_all add: key_tag_def challenge_key_def mint_key_def POW_CHALLENGE_PREFIX_def rate_key_def ip_rate_key_def lockout_key_def
      email_fail_key_def subnet_fail_key_def SUBNET_FAIL_PREFIX_def totp_fail_key_def totp_lock_key_def race_lost_key_def
      last_step_key_def pending_key_def pubkey_key_def ip_key_def epoch_key_def temp_password_marker_key_def key_for_def
      pwchange_fail_key_def pwchange_locked_key_def user_revoked_key_def)

definition frame :: "'s redis_ttl \<Rightarrow> string set \<Rightarrow> 's \<Rightarrow> 's \<Rightarrow> bool" where
  "frame Q T s s' \<longleftrightarrow> (\<forall>k. key_tag k \<notin> T \<longrightarrow> rt_entry Q s' k = rt_entry Q s k)"

lemma frame_refl [simp, intro]: "frame Q T s s"
  by (simp add: frame_def)

lemma frame_trans: "frame Q T s s1 \<Longrightarrow> frame Q T s1 s2 \<Longrightarrow> frame Q T s s2"
  by (simp add: frame_def)

lemma frame_mono: "frame Q T s s' \<Longrightarrow> T \<subseteq> T' \<Longrightarrow> frame Q T' s s'"
  by (auto simp: frame_def)

lemma frameD: "frame Q T s s' \<Longrightarrow> key_tag k \<notin> T \<Longrightarrow> rt_entry Q s' k = rt_entry Q s k"
  by (simp add: frame_def)

named_theorems frames "what the operations leave alone"

subsection \<open>Steps joined\<close>

lemma and_next_simps [simp]: "and_next (st, Inl e) f = (st, Inl e)" "and_next (st, Inr x) f = f x st"
  by (simp_all add: and_next_def)

lemma and_next_Inr: "and_next r f = (st', Inr y) \<longleftrightarrow> (\<exists>st1 x. r = (st1, Inr x) \<and> f x st1 = (st', Inr y))"
  by (auto simp: and_next_def split: prod.splits sum.splits)

lemma redis_parts [simp]:
  "lo_redis (with_redis f st) = f (lo_redis st)" "lo_db (with_redis f st) = lo_db st"
  "lo_redis (log_event e st) = lo_redis st" "lo_db (log_event e st) = lo_db st"
  "lo_redis (fst (in_redis g st)) = fst (g (lo_redis st))" "snd (in_redis g st) = snd (g (lo_redis st))"
  "lo_db (fst (in_redis g st)) = lo_db st"
  "lo_redis (fst (in_db h st)) = lo_redis st" "snd (in_db h st) = snd (h (lo_db st))" "lo_db (fst (in_db h st)) = fst (h (lo_db st))"
  by (simp_all add: with_redis_def log_event_def in_redis_def in_db_def split: prod.splits)

lemma frame_and_next [frames]:
  assumes "frame Q T s (lo_redis (fst r))" "\<And>x st1. r = (st1, Inr x) \<Longrightarrow> frame Q T (lo_redis st1) (lo_redis (fst (f x st1)))"
  shows "frame Q T s (lo_redis (fst (and_next r f)))"
  using assms(1) assms(2) frame_trans [OF assms(1)] by (cases r; cases "snd r") (auto simp: and_next_def)

subsection \<open>Commands\<close>

context ttl_laws
begin

lemma frame_set_ex [frames]: "key_tag k \<in> T \<Longrightarrow> frame Q T s0 s \<Longrightarrow> frame Q T s0 (set_ex Q now k v ttl s)"
  by (auto simp: frame_def set_ex_def entry_put)

lemma frame_put [frames]: "key_tag k \<in> T \<Longrightarrow> frame Q T s0 s \<Longrightarrow> frame Q T s0 (rt_put Q k v d s)"
  by (auto simp: frame_def entry_put)

lemma frame_del [frames]: "key_tag k \<in> T \<Longrightarrow> frame Q T s0 s \<Longrightarrow> frame Q T s0 (rt_del Q k s)"
  by (auto simp: frame_def entry_del)

lemma frame_set_ex_nx [frames]: "key_tag k \<in> T \<Longrightarrow> frame Q T s0 s \<Longrightarrow> frame Q T s0 (fst (set_ex_nx Q now k v ttl s))"
  by (simp add: set_ex_nx_def frame_set_ex)

lemma frame_fixed_incr [frames]: "key_tag k \<in> T \<Longrightarrow> frame Q T s0 s \<Longrightarrow> frame Q T s0 (fst (fixed_incr Q ts k ttl s))"
  by (auto simp: fixed_incr_def incr_key_def expire_nx_def frame_put split: option.splits prod.splits)

lemma frame_del_best_effort [frames]: "key_tag k \<in> T \<Longrightarrow> frame Q T s0 s \<Longrightarrow> frame Q T s0 (del_best_effort Q k s)"
  by (simp add: del_best_effort_def frame_del split: option.split)

lemma frame_clear_keys [frames]: "key_tag ` set ks \<subseteq> T \<Longrightarrow> frame Q T s0 s \<Longrightarrow> frame Q T s0 (clear_keys Q ks s)"
  unfolding clear_keys_def by (induction ks arbitrary: s) (auto intro: frame_del_best_effort)

lemma frame_count_request [frames]: "key_tag k \<in> T \<Longrightarrow> frame Q T s0 s \<Longrightarrow> frame Q T s0 (fst (count_request Q now k s))"
  using frame_fixed_incr [of k T s0 s "(now, now)" 60]
  by (auto simp: count_request_def split: prod.splits sum.splits)

lemma frame_record_failure [frames]: "key_tag k \<in> T \<Longrightarrow> frame Q T s0 s \<Longrightarrow> frame Q T s0 (fst (record_auth_failure Q now k s))"
  using frame_fixed_incr [of k T s0 s "(now, now)" COUNTER_WINDOW_SECS]
  by (auto simp: record_auth_failure_def split: prod.splits sum.splits)

lemma frame_apply_lockout [frames]: "key_tag k \<in> T \<Longrightarrow> frame Q T s0 s \<Longrightarrow> frame Q T s0 (fst (apply_lockout Q now k secs s))"
  by (simp add: apply_lockout_def frame_set_ex)

lemma frame_punish [frames]:
  "key_tag a \<in> T \<Longrightarrow> key_tag b \<in> T \<Longrightarrow> frame Q T s0 s \<Longrightarrow> frame Q T s0 (fst (punish Q now n a b s))"
  using frame_record_failure [of a T s0 s now] by (auto simp: punish_def frame_apply_lockout split: prod.splits sum.splits option.splits)

lemma frame_claim_step [frames]:
  "''totp_last_step'' \<in> T \<Longrightarrow> frame Q T s0 s \<Longrightarrow> frame Q T s0 (fst (claim_step Q now u step s))"
  by (auto simp: claim_step_def Let_def frame_set_ex split: option.splits)

lemma frame_claim [frames]: "''refresh_blacklist'' \<in> T \<Longrightarrow> frame Q T s0 s \<Longrightarrow> frame Q T s0 (fst (claim Q h now t e s))"
  using frame_set_ex_nx [of "key_for h t" T s0 s now "''1''" "max (e - now div 1000) 60"]
  by (auto simp: claim_def Let_def split: option.splits prod.splits)

lemma frame_decay_counter [frames]: "key_tag k \<in> T \<Longrightarrow> frame Q T s0 s \<Longrightarrow> frame Q T s0 (decay_counter Q now k n s)"
  by (simp add: decay_counter_def frame_put split: option.split)

lemma frame_clear_signing_key_slot [frames]:
  "{''signing_pubkey'', ''signing_key_ip''} \<subseteq> T \<Longrightarrow> frame Q T s0 s \<Longrightarrow> frame Q T s0 (clear_signing_key_slot Q u s)"
  by (simp add: clear_signing_key_slot_def frame_del_best_effort)

lemma frame_invalidate_refresh_tokens [frames]:
  "''pw_epoch'' \<in> T \<Longrightarrow> frame Q T s0 s \<Longrightarrow> frame Q T s0 (invalidate_refresh_tokens Q ts down u d s)"
  by (simp add: invalidate_refresh_tokens_def Let_def frame_set_ex)

end

subsection \<open>Handlers\<close>

text \<open>The handlers in front of a Redis that keeps its laws.\<close>

locale login_laws = ttl_laws "le_redis E" for E :: "'s login_env"
begin

lemma frame_verify_login_pow [frames]:
  "''pow'' \<in> T \<Longrightarrow> frame (le_redis E) T s0 (lo_redis st) \<Longrightarrow>
   frame (le_redis E) T s0 (lo_redis (fst (verify_login_pow E now sol email st)))"
  by (auto simp: verify_login_pow_def Let_def frame_del split: option.splits)

lemma frame_store_challenge [frames]:
  "''pow'' \<in> T \<Longrightarrow> frame (le_redis E) T s0 (lo_redis st) \<Longrightarrow>
   frame (le_redis E) T s0 (lo_redis (fst (store_challenge E now minted ip email st)))"
  by (auto simp: store_challenge_def Let_def frame_set_ex split: option.splits)

lemma frame_issue_pow_challenge:
  "frame (le_redis E) {''pow'', ''pow_mint_ip''} (lo_redis st) (lo_redis (fst (issue_pow_challenge E now minted rq ip st)))"
  unfolding issue_pow_challenge_def Let_def by (auto intro!: frames)

lemma frame_login_rates [frames]:
  "{''auth_rate'', ''auth_rate_ip''} \<subseteq> T \<Longrightarrow> frame (le_redis E) T s0 (lo_redis st) \<Longrightarrow>
   frame (le_redis E) T s0 (lo_redis (fst (login_rates E now x st)))"
  unfolding login_rates_def by (auto intro!: frames)

lemma frame_login_failed [frames]:
  "{''auth_email_fails'', ''auth_lockout'', ''auth_fail_subnet''} \<subseteq> T \<Longrightarrow> frame (le_redis E) T s0 (lo_redis st) \<Longrightarrow>
   frame (le_redis E) T s0 (lo_redis (fst (login_failed E now x n st)))"
  unfolding login_failed_def by (auto intro!: frames)

lemma frame_check_password [frames]:
  "{''auth_email_fails'', ''auth_lockout'', ''auth_fail_subnet''} \<subseteq> T \<Longrightarrow> frame (le_redis E) T s0 (lo_redis st) \<Longrightarrow>
   frame (le_redis E) T s0 (lo_redis (fst (check_password E fl now x n st)))"
  unfolding check_password_def by (auto intro!: frames split: option.splits)

lemma frame_try_totp [frames]:
  "''totp_last_step'' \<in> T \<Longrightarrow> frame (le_redis E) T s0 (lo_redis st) \<Longrightarrow>
   frame (le_redis E) T s0 (lo_redis (fst (try_totp E now user code st)))"
  unfolding try_totp_def by (auto intro!: frames split: option.splits sum.splits)

lemma frame_race_lost [frames]:
  "''totp_recovery_race_lost_seen'' \<in> T \<Longrightarrow> frame (le_redis E) T s0 (lo_redis st) \<Longrightarrow>
   frame (le_redis E) T s0 (lo_redis (fst (race_lost E now x user st)))"
  using frame_set_ex_nx [of "race_lost_key (us_id user)" T s0 "lo_redis st" now "''1''" 60]
  by (auto simp: race_lost_def Let_def split: prod.splits)

lemma frame_totp_failed [frames]:
  "{''auth_totp_fails'', ''auth_totp_locked''} \<subseteq> T \<Longrightarrow> frame (le_redis E) T s0 (lo_redis st) \<Longrightarrow>
   frame (le_redis E) T s0 (lo_redis (fst (totp_failed E now x user replayed st)))"
  unfolding totp_failed_def by (auto intro!: frames)

lemma frame_try_recovery [frames]:
  "{''auth_totp_fails'', ''auth_totp_locked'', ''totp_recovery_race_lost_seen''} \<subseteq> T \<Longrightarrow>
   frame (le_redis E) T s0 (lo_redis st) \<Longrightarrow> frame (le_redis E) T s0 (lo_redis (fst (try_recovery E fl now x user code replayed st)))"
  unfolding try_recovery_def by (auto intro!: frames split: option.splits)

lemma frame_check_totp [frames]:
  "{''auth_totp_fails'', ''auth_totp_locked'', ''totp_recovery_race_lost_seen'', ''totp_last_step''} \<subseteq> T \<Longrightarrow>
   frame (le_redis E) T s0 (lo_redis st) \<Longrightarrow> frame (le_redis E) T s0 (lo_redis (fst (check_totp E fl now x user st)))"
  unfolding check_totp_def use_code_def by (auto intro!: frames split: option.splits)

lemma frame_check_temp_password [frames]:
  "frame (le_redis E) T s0 (lo_redis st) \<Longrightarrow> frame (le_redis E) T s0 (lo_redis (fst (check_temp_password E now x user st)))"
  by (simp add: check_temp_password_def Let_def)

lemma frame_clear_counters [frames]:
  "{''auth_rate'', ''auth_lockout'', ''auth_email_fails'', ''auth_totp_fails'', ''auth_totp_locked'', ''auth_fail_subnet''} \<subseteq> T \<Longrightarrow>
   frame (le_redis E) T s0 s \<Longrightarrow> frame (le_redis E) T s0 (clear_counters E now x u s)"
  unfolding clear_counters_def by (auto intro!: frames)

lemma frame_open_session [frames]:
  "frame (le_redis E) T s0 (lo_redis st) \<Longrightarrow> frame (le_redis E) T s0 (lo_redis (fst (open_session E errs now u email st)))"
  by (simp add: open_session_def)

end

text \<open>The names of the keys a login writes, after and with the proof of work.\<close>

abbreviation AFTER_POW_TAGS :: "string set" where
  "AFTER_POW_TAGS \<equiv> {''auth_rate'', ''auth_rate_ip'', ''auth_email_fails'', ''auth_lockout'', ''auth_fail_subnet'',
     ''auth_totp_fails'', ''auth_totp_locked'', ''totp_recovery_race_lost_seen'', ''totp_last_step'', ''signing_pubkey'',
     ''signing_key_ip''}"

abbreviation LOGIN_TAGS :: "string set" where
  "LOGIN_TAGS \<equiv> insert ''pow'' AFTER_POW_TAGS"

context login_laws
begin

lemma frame_logged_in_tags:
  "{''auth_rate'', ''auth_lockout'', ''auth_email_fails'', ''auth_totp_fails'', ''auth_totp_locked'', ''auth_fail_subnet'',
    ''signing_pubkey'', ''signing_key_ip''} \<subseteq> T \<Longrightarrow> frame (le_redis E) T s0 (lo_redis st) \<Longrightarrow>
   frame (le_redis E) T s0 (lo_redis (fst (logged_in E errs now x user st)))"
  unfolding logged_in_def by (simp add: frames)

lemma frame_logged_in [frames]:
  "AFTER_POW_TAGS \<subseteq> T \<Longrightarrow> frame (le_redis E) T s0 (lo_redis st) \<Longrightarrow>
   frame (le_redis E) T s0 (lo_redis (fst (logged_in E errs now x user st)))"
  by (rule frame_logged_in_tags) simp_all

lemma frame_login_user [frames]:
  assumes "AFTER_POW_TAGS \<subseteq> T" "frame (le_redis E) T s0 (lo_redis st)"
  shows "frame (le_redis E) T s0 (lo_redis (fst (login_user E fl errs now x user st)))"
  unfolding login_user_def
proof (rule frame_and_next)
  show "frame (le_redis E) T s0 (lo_redis (fst (check_totp E fl now x user st)))"
    using assms by (intro frame_check_totp) auto
next
  fix factor st1
  have "frame (le_redis E) T (lo_redis st1) (lo_redis (fst (and_next (check_temp_password E now x user st1)
      (\<lambda>_ st. and_next (logged_in E errs now x user st) (\<lambda>session st.
        (st, Inr (SessionOpened session (us_password_change_required user))))))))"
    by (intro frame_and_next frame_check_temp_password frame_logged_in assms(1) frame_refl) simp
  then show "frame (le_redis E) T (lo_redis st1) (lo_redis (fst (case factor of
      Passed \<Rightarrow> and_next (check_temp_password E now x user st1) (\<lambda>_ st. and_next (logged_in E errs now x user st) (\<lambda>session st.
        (st, Inr (SessionOpened session (us_password_change_required user)))))
    | CodeNeeded \<Rightarrow> (st1, Inr TotpRequired))))"
    by (cases factor) simp_all
qed

lemma frame_login_after_pow [frames]:
  "AFTER_POW_TAGS \<subseteq> T \<Longrightarrow> frame (le_redis E) T s0 (lo_redis st) \<Longrightarrow>
   frame (le_redis E) T s0 (lo_redis (fst (login_after_pow E fl errs now x st)))"
  unfolding login_after_pow_def by (intro frames) simp_all

lemma frame_login: "frame (le_redis E) LOGIN_TAGS (lo_redis st) (lo_redis (fst (login E fl errs now rq ip st)))"
  unfolding login_def by (intro frames) (simp_all add: subset_insertI)

lemma frame_register:
  "frame (le_redis E) {''signing_pubkey'', ''signing_key_ip''} (lo_redis st) (lo_redis (fst (register E fl errs now i rq ip st)))"
  unfolding register_def by (auto intro!: frames split: sum.splits option.splits)

lemma frame_claim_refresh [frames]:
  "''refresh_blacklist'' \<in> T \<Longrightarrow> frame (le_redis E) T s0 s \<Longrightarrow> frame (le_redis E) T s0 (fst (claim_refresh E now t cm s))"
  using frame_claim [of T s0 s "le_sha256_hex E" now t "cm_exp cm"]
  by (auto simp: claim_refresh_def split: prod.splits sum.splits ClaimOutcome.splits)

lemma frame_refresh: "frame (le_redis E) {''refresh_blacklist''} (lo_redis st) (lo_redis (fst (refresh E fl errs now rq st)))"
  unfolding refresh_def by (auto intro!: frames)

lemma frame_logout:
  "frame (le_redis E) {''signing_pubkey'', ''refresh_blacklist''} (lo_redis st) (lo_redis (fst (logout E now au h st)))"
  unfolding logout_def Let_def by (auto intro!: frames split: option.splits)

lemma frame_check_old_password [frames]:
  "{''pwchange_fails'', ''pwchange_locked''} \<subseteq> T \<Longrightarrow> frame (le_redis E) T s0 s \<Longrightarrow>
   frame (le_redis E) T s0 (fst (check_old_password E now u old h s))"
  by (simp add: check_old_password_def Let_def frame_clear_keys frame_punish split: sum.split bool.split)

lemma frame_end_sessions [frames]:
  "''pw_epoch'' \<in> T \<Longrightarrow> frame (le_redis E) T s0 s \<Longrightarrow> frame (le_redis E) T s0 (end_sessions E ts down u s)"
  unfolding end_sessions_def by (rule frame_invalidate_refresh_tokens)

lemma frame_change_password:
  "frame (le_redis E) {''pwchange_fails'', ''pwchange_locked'', ''pw_temp'', ''pw_epoch'', ''signing_pubkey'', ''signing_key_ip''}
     (lo_redis st) (lo_redis (fst (change_password E fl errs t down au old new st)))"
  unfolding change_password_def clear_temporary_password_marker_def by (auto intro!: frames split: option.splits)

lemma frame_delete_account:
  "frame (le_redis E) {''signing_pubkey'', ''pw_epoch''} (lo_redis st) (lo_redis (fst (delete_account E fl now ts down au st)))"
  unfolding delete_account_def Let_def by (auto intro!: frames split: option.splits)

lemma frame_revoke_sessions:
  "frame (le_redis E) {''signing_pubkey'', ''pw_epoch'', ''dashboard_user_revoked''} (lo_redis st)
     (lo_redis (revoke_sessions E now ts down au st))"
  unfolding revoke_sessions_def Let_def by (auto intro!: frames)

lemma frame_totp_setup:
  "frame (le_redis E) {''totp_pending''} (lo_redis st) (lo_redis (fst (totp_setup E fl now secret codes au st)))"
  unfolding totp_setup_def by (auto intro!: frames split: sum.splits option.splits)

lemma frame_totp_verify_setup:
  "frame (le_redis E) {''totp_pending'', ''totp_last_step''} (lo_redis st) (lo_redis (fst (totp_verify_setup E fl now au code st)))"
  unfolding totp_verify_setup_def Let_def by (auto intro!: frames split: sum.splits option.splits prod.splits)

lemma frame_totp_disable: "frame (le_redis E) {} (lo_redis st) (lo_redis (fst (totp_disable E fl now au old st)))"
  unfolding totp_disable_def by (auto intro!: frames split: sum.splits option.splits bool.splits)

end

end
