(* ===== verification/Login_Runs.thy ===== *)
theory Login_Runs
  imports Login_Frames
begin

section \<open>Runs of the sign-in handlers\<close>

text \<open>
  Everything that may happen to the store between two requests: any handler of \<^verbatim>\<open>handlers/auth.rs\<close> with any request, and anything
  else in the server or its replicas, which may change the tables and every key of Redis but those only these handlers
  write (\<open>GUARDED_TAGS\<close>). Time does not go back. \<open>F\<close> holds challenge ids that are not drawn again.
\<close>

abbreviation GUARDED_TAGS :: "string set" where
  "GUARDED_TAGS \<equiv> {''pow'', ''refresh_blacklist'', ''totp_last_step'', ''auth_lockout''}"

inductive auth_step :: "'s login_env \<Rightarrow> string set \<Rightarrow> int \<Rightarrow> 's login_state \<Rightarrow> 's login_state \<Rightarrow> bool" for E F where
  step_challenge: "fst minted \<notin> F \<Longrightarrow> auth_step E F now st (fst (issue_pow_challenge E now minted rq ip st))"
| step_login: "auth_step E F now st (fst (login E fl errs now rq ip st))"
| step_register: "auth_step E F now st (fst (register E fl errs now i rq ip st))"
| step_refresh: "auth_step E F now st (fst (refresh E fl errs now rq st))"
| step_logout: "auth_step E F now st (fst (logout E now au h st))"
| step_change_password: "auth_step E F now st (fst (change_password E fl errs t down au old new st))"
| step_delete_account: "auth_step E F now st (fst (delete_account E fl now ts down au st))"
| step_revoke_sessions: "auth_step E F now st (revoke_sessions E now ts down au st)"
| step_totp_setup: "auth_step E F now st (fst (totp_setup E fl now secret codes au st))"
| step_totp_verify_setup: "auth_step E F now st (fst (totp_verify_setup E fl now au code st))"
| step_totp_disable: "auth_step E F now st (fst (totp_disable E fl now au old st))"
| step_elsewhere: "frame (le_redis E) (- GUARDED_TAGS) (lo_redis st) (lo_redis st') \<Longrightarrow> auth_step E F now st st'"

inductive auth_run :: "'s login_env \<Rightarrow> string set \<Rightarrow> int \<Rightarrow> 's login_state \<Rightarrow> int \<Rightarrow> 's login_state \<Rightarrow> bool" for E F t0 st0 where
  run_here: "auth_run E F t0 st0 t0 st0"
| run_step: "auth_run E F t0 st0 t1 st1 \<Longrightarrow> t1 \<le> t2 \<Longrightarrow> auth_step E F t2 st1 st2 \<Longrightarrow> auth_run E F t0 st0 t2 st2"

lemma run_time: "auth_run E F t0 st0 t1 st1 \<Longrightarrow> t0 \<le> t1"
  by (induction rule: auth_run.induct) auto

lemma frame_unguarded: "frame Q T s s' \<Longrightarrow> T \<inter> G = {} \<Longrightarrow> frame Q (- G) s s'"
  by (erule frame_mono) auto

text \<open>A key that stays until \<open>D\<close>, and the record of a time step that does.\<close>

definition held_until :: "'s redis_ttl \<Rightarrow> string \<Rightarrow> int \<Rightarrow> 's \<Rightarrow> bool" where
  "held_until Q k D s \<longleftrightarrow> (\<exists>v d. rt_entry Q s k = Some (v, Some d) \<and> D \<le> d)"

definition step_held :: "'s redis_ttl \<Rightarrow> uuid \<Rightarrow> int \<Rightarrow> int \<Rightarrow> 's \<Rightarrow> bool" where
  "step_held Q u sg D s \<longleftrightarrow>
     (\<exists>v d n. rt_entry Q s (last_step_key u) = Some (v, Some d) \<and> parse_int v = Some n \<and> sg \<le> n \<and> D \<le> d)"

text \<open>What the library of one-time codes promises: a code belongs to the current time step or a neighbour.\<close>

definition totp_window :: "'s login_env \<Rightarrow> bool" where
  "totp_window E \<longleftrightarrow>
     (\<forall>now secret code email step. le_verify_step E now secret code email = Inr (Some step) \<longrightarrow>
        now div STEP - SKEW \<le> step \<and> step \<le> now div STEP + SKEW)"

context login_laws
begin

text \<open>A step either leaves the guarded keys alone or is one of five.\<close>

lemma auth_step_guarded:
  assumes "auth_step E F now st st'"
  obtains (unguarded) "frame (le_redis E) (- GUARDED_TAGS) (lo_redis st) (lo_redis st')"
  | (challenge) minted rq ip where "fst minted \<notin> F" "st' = fst (issue_pow_challenge E now minted rq ip st)"
  | (login) fl errs rq ip where "st' = fst (login E fl errs now rq ip st)"
  | (refresh) fl errs rq where "st' = fst (refresh E fl errs now rq st)"
  | (logout) au h where "st' = fst (logout E now au h st)"
  | (verify_setup) fl au code where "st' = fst (totp_verify_setup E fl now au code st)"
  using assms
proof (cases rule: auth_step.cases)
  case (step_register fl errs i rq ip)
  then show ?thesis using unguarded frame_unguarded [OF frame_register] by simp
next
  case (step_change_password fl errs t down au old new)
  then show ?thesis using unguarded frame_unguarded [OF frame_change_password] by simp
next
  case (step_delete_account fl ts down au)
  then show ?thesis using unguarded frame_unguarded [OF frame_delete_account] by simp
next
  case (step_revoke_sessions ts down au)
  then show ?thesis using unguarded frame_unguarded [OF frame_revoke_sessions] by simp
next
  case (step_totp_setup fl secret codes au)
  then show ?thesis using unguarded frame_unguarded [OF frame_totp_setup] by simp
next
  case (step_totp_disable fl au old)
  then show ?thesis using unguarded frame_unguarded [OF frame_totp_disable] by simp
qed (use that in auto)

subsection \<open>A challenge is taken once\<close>

lemma get_None_later: "ttl_get (le_redis E) t s k = None \<Longrightarrow> t \<le> t' \<Longrightarrow> ttl_get (le_redis E) t' s k = None"
  by (auto simp: ttl_get_def dest: in_time_mono split: option.splits if_splits)

lemma get_del: "ttl_get (le_redis E) t (rt_del (le_redis E) k s) k' = (if k' = k then None else ttl_get (le_redis E) t s k')"
  by (simp add: ttl_get_def entry_del)

lemma get_frame: "frame (le_redis E) T s s' \<Longrightarrow> key_tag k \<notin> T \<Longrightarrow> ttl_get (le_redis E) t s' k = ttl_get (le_redis E) t s k"
  by (rule get_entry_cong) (rule frameD)

lemma keeps_and_next:
  assumes "P (lo_redis (fst r))" "\<And>x st1. r = (st1, Inr x) \<Longrightarrow> P (lo_redis st1) \<Longrightarrow> P (lo_redis (fst (f x st1)))"
  shows "P (lo_redis (fst (and_next r f)))"
  using assms by (cases r; cases "snd r") (auto simp: and_next_def)

lemma spent_verify_login_pow:
  "ttl_get (le_redis E) now (lo_redis st) k = None \<Longrightarrow>
   ttl_get (le_redis E) now (lo_redis (fst (verify_login_pow E now sol email st))) k = None"
  by (auto simp: verify_login_pow_def Let_def get_del split: option.splits)

lemma login_pow_only:
  assumes "key_tag k = ''pow''"
  shows "ttl_get (le_redis E) t (lo_redis (fst (login_after_pow E fl errs now x st))) k = ttl_get (le_redis E) t (lo_redis st) k"
  by (rule get_frame [OF frame_login_after_pow [OF subset_refl]]) (simp_all add: assms)

lemma spent_login:
  assumes "key_tag k = ''pow''" "ttl_get (le_redis E) now (lo_redis st) k = None"
  shows "ttl_get (le_redis E) now (lo_redis (fst (login E fl errs now rq ip st))) k = None"
  unfolding login_def
  by (intro keeps_and_next [where P = "\<lambda>s. ttl_get (le_redis E) now s k = None"])
    (use assms in \<open>simp_all add: login_pow_only spent_verify_login_pow\<close>)

lemma store_challenge_other:
  "c \<noteq> fst minted \<Longrightarrow>
   rt_entry (le_redis E) (lo_redis (fst (store_challenge E now minted ip email st))) (challenge_key c) =
   rt_entry (le_redis E) (lo_redis st) (challenge_key c)"
  by (auto simp: store_challenge_def Let_def set_ex_def entry_put challenge_key_def split: option.splits)

lemma issue_pow_challenge_other:
  assumes "c \<noteq> fst minted"
  shows "rt_entry (le_redis E) (lo_redis (fst (issue_pow_challenge E now minted rq ip st))) (challenge_key c) =
    rt_entry (le_redis E) (lo_redis st) (challenge_key c)"
proof -
  have "frame (le_redis E) {''pow_mint_ip''} (lo_redis st1) (fst (count_request (le_redis E) now (mint_key i) (lo_redis st1)))" for st1 i
    by (intro frame_count_request) simp_all
  then have count: "rt_entry (le_redis E) (fst (count_request (le_redis E) now (mint_key i) (lo_redis st1))) (challenge_key c) =
      rt_entry (le_redis E) (lo_redis st1) (challenge_key c)" for st1 i
    by (rule frameD) simp
  show ?thesis
    unfolding issue_pow_challenge_def Let_def
    by (intro keeps_and_next [where P = "\<lambda>s. rt_entry (le_redis E) s (challenge_key c) =
          rt_entry (le_redis E) (lo_redis st) (challenge_key c)"])
      (auto simp: count store_challenge_other [OF assms] intro!: keeps_and_next [where P = "\<lambda>s. rt_entry (le_redis E) s (challenge_key c) =
          rt_entry (le_redis E) (lo_redis st) (challenge_key c)"])
qed

lemma spent_step:
  assumes "auth_step E F now st st'" "c \<in> F" "ttl_get (le_redis E) now (lo_redis st) (challenge_key c) = None"
  shows "ttl_get (le_redis E) now (lo_redis st') (challenge_key c) = None"
  using assms(1)
proof (cases rule: auth_step_guarded)
  case unguarded
  then show ?thesis using get_frame [OF unguarded, of "challenge_key c"] assms(3) by simp
next
  case (challenge minted rq ip)
  with assms(2) have "c \<noteq> fst minted" by auto
  from get_entry_cong [OF issue_pow_challenge_other [OF this]] assms(3) challenge(2) show ?thesis by simp
next
  case (login fl errs rq ip)
  then show ?thesis using spent_login assms(3) by simp
next
  case (refresh fl errs rq)
  then show ?thesis using get_frame [OF frame_refresh, of "challenge_key c"] assms(3) by simp
next
  case (logout au h)
  then show ?thesis using get_frame [OF frame_logout, of "challenge_key c"] assms(3) by simp
next
  case (verify_setup fl au code)
  then show ?thesis using get_frame [OF frame_totp_verify_setup, of "challenge_key c"] assms(3) by simp
qed

lemma spent_run:
  assumes "auth_run E F t0 st0 t1 st1" "c \<in> F" "ttl_get (le_redis E) t0 (lo_redis st0) (challenge_key c) = None"
  shows "ttl_get (le_redis E) t1 (lo_redis st1) (challenge_key c) = None"
  using assms
proof (induction rule: auth_run.induct)
  case (run_step t1 st1 t2 st2)
  then show ?case using spent_step [OF run_step(3)] get_None_later by blast
qed simp

lemma spent_after_lookup:
  assumes "rt_err (le_redis E) (lo_redis st) (challenge_key (ps_challenge_id sol)) = None"
  shows "ttl_get (le_redis E) now (lo_redis (fst (verify_login_pow E now (Some sol) email st)))
    (challenge_key (ps_challenge_id sol)) = None"
  using assms by (auto simp: verify_login_pow_def Let_def get_del split: option.splits)

subsection \<open>A claim is held to its deadline\<close>

lemma held_live: "held_until (le_redis E) k D s \<Longrightarrow> t < D \<Longrightarrow> ttl_get (le_redis E) t s k \<noteq> None"
  by (auto simp: held_until_def ttl_get_def in_time_def)

lemma held_frame: "held_until (le_redis E) k D s \<Longrightarrow> frame (le_redis E) T s s' \<Longrightarrow> key_tag k \<notin> T \<Longrightarrow> held_until (le_redis E) k D s'"
  unfolding held_until_def by (simp add: frameD)

lemma held_set_ex_nx:
  assumes "held_until (le_redis E) k D s" "0 \<le> ttl"
  shows "held_until (le_redis E) k D (fst (set_ex_nx (le_redis E) now k' v ttl s))"
proof -
  from assms(1) obtain w d where e: "rt_entry (le_redis E) s k = Some (w, Some d)" "D \<le> d" by (auto simp: held_until_def)
  show ?thesis
  proof (cases "k' = k \<and> d \<le> now")
    case True
    with e have "set_ex_nx (le_redis E) now k' v ttl s = (set_ex (le_redis E) now k v ttl s, True)"
      by (simp add: set_ex_nx_def ttl_get_def in_time_def)
    with e True assms(2) show ?thesis by (simp add: held_until_def set_ex_def entry_put deadline_def)
  next
    case False
    with e show ?thesis by (auto simp: held_until_def set_ex_nx_def set_ex_def ttl_get_def in_time_def entry_put)
  qed
qed

lemma held_claim:
  assumes "held_until (le_redis E) k D s" shows "held_until (le_redis E) k D (fst (claim (le_redis E) h now tok ex s))"
  using held_set_ex_nx [OF assms, of "max (ex - now div 1000) 60" now "key_for h tok" "''1''"] assms
  by (auto simp: claim_def Let_def split: option.splits prod.splits)

lemma held_claim_refresh: "held_until (le_redis E) k D s \<Longrightarrow> held_until (le_redis E) k D (fst (claim_refresh E now tok cm s))"
  using held_claim [of k D s "le_sha256_hex E" now tok "cm_exp cm"]
  by (auto simp: claim_refresh_def split: prod.splits sum.splits ClaimOutcome.splits)

lemma held_refresh: "held_until (le_redis E) k D (lo_redis st) \<Longrightarrow> held_until (le_redis E) k D (lo_redis (fst (refresh E fl errs now rq st)))"
  unfolding refresh_def
  by (intro keeps_and_next [where P = "held_until (le_redis E) k D"]) (simp_all add: held_claim_refresh open_session_def)

lemma held_logout:
  assumes "held_until (le_redis E) k D (lo_redis st)" "key_tag k = ''refresh_blacklist''"
  shows "held_until (le_redis E) k D (lo_redis (fst (logout E now au h st)))"
proof -
  have "frame (le_redis E) {''signing_pubkey''} (lo_redis st) (del_best_effort (le_redis E) (pubkey_key u) (lo_redis st))" for u
    by (rule frame_del_best_effort) simp_all
  from held_frame [OF assms(1) this] assms(2)
  have "held_until (le_redis E) k D (del_best_effort (le_redis E) (pubkey_key u) (lo_redis st))" for u by simp
  then show ?thesis by (auto simp: logout_def Let_def held_claim split: option.splits)
qed

lemma held_key_step:
  assumes "auth_step E F now st st'" "key_tag k = ''refresh_blacklist''" "held_until (le_redis E) k D (lo_redis st)"
  shows "held_until (le_redis E) k D (lo_redis st')"
  using assms(1)
proof (cases rule: auth_step_guarded)
  case unguarded
  then show ?thesis using held_frame [OF assms(3)] assms(2) by simp
next
  case (challenge minted rq ip)
  then show ?thesis using held_frame [OF assms(3) frame_issue_pow_challenge] assms(2) by simp
next
  case (login fl errs rq ip)
  then show ?thesis using held_frame [OF assms(3) frame_login] assms(2) by simp
next
  case (verify_setup fl au code)
  then show ?thesis using held_frame [OF assms(3) frame_totp_verify_setup] assms(2) by simp
qed (use assms held_refresh held_logout in simp_all)

lemma held_run:
  assumes "auth_run E F t0 st0 t1 st1" "key_tag k = ''refresh_blacklist''" "held_until (le_redis E) k D (lo_redis st0)"
  shows "held_until (le_redis E) k D (lo_redis st1)"
  using assms by (induction rule: auth_run.induct) (blast intro: held_key_step)+

lemma refresh_Inr:
  assumes "refresh E fl errs now rq st = (st', Inr session)"
  obtains token cm where "presented_refresh E rq = Inr token" "refresh_claims E fl now token st = Inr cm"
    "claim (le_redis E) (le_sha256_hex E) now token (cm_exp cm) (lo_redis st) = (lo_redis st', Inr Claimed)"
    "open_session E errs now (cm_sub cm) (cm_email cm) st' = (st', Inr session)"
  using assms
  by (auto simp: refresh_def and_next_Inr in_redis_def claim_refresh_def open_session_def
      split: prod.splits sum.splits ClaimOutcome.splits)

lemma claimed_held:
  assumes "claim (le_redis E) h now tok ex s = (s', Inr Claimed)"
  shows "held_until (le_redis E) (key_for h tok) (now + max (ex - now div 1000) 60 * 1000) s'"
  using assms
  by (auto simp: claim_def Let_def set_ex_nx_def set_ex_def held_until_def entry_put deadline_def split: option.splits if_splits)

lemma held_not_claimed:
  assumes "held_until (le_redis E) (key_for h tok) D s" "now < D"
  shows "claim (le_redis E) h now tok ex s \<noteq> (s', Inr Claimed)"
  using held_live [OF assms] by (auto simp: claim_def Let_def set_ex_nx_def split: option.splits)

subsection \<open>A time step is accepted once\<close>

lemma step_held_frame:
  "step_held (le_redis E) u sg D s \<Longrightarrow> frame (le_redis E) T s s' \<Longrightarrow> ''totp_last_step'' \<notin> T \<Longrightarrow> step_held (le_redis E) u sg D s'"
  unfolding step_held_def by (simp add: frameD)

lemma past_window:
  assumes "t0 + LAST_STEP_TTL_SECS * 1000 \<le> now" "sg \<le> t0 div 1000 div STEP + SKEW" "now div 1000 div STEP - SKEW \<le> step"
  shows "sg < step"
proof -
  have "(t0 + 180 * 1000) div 1000 div 30 = t0 div 1000 div 30 + 6" by simp
  moreover have "(t0 + 180 * 1000) div 1000 div 30 \<le> now div 1000 div 30"
    using assms(1) by (intro zdiv_mono1) (simp_all add: LAST_STEP_TTL_SECS_def ACCEPT_WINDOW_SECS_def STEP_def SKEW_def)
  ultimately show ?thesis using assms(2,3) by (simp add: STEP_def SKEW_def)
qed

lemma step_held_claim_step:
  assumes "step_held (le_redis E) u sg (t0 + LAST_STEP_TTL_SECS * 1000) s" "t0 \<le> now"
    "sg \<le> t0 div 1000 div STEP + SKEW" "now div 1000 div STEP - SKEW \<le> step"
  shows "step_held (le_redis E) u sg (t0 + LAST_STEP_TTL_SECS * 1000) (fst (claim_step (le_redis E) now u' step s))"
proof -
  let ?D = "t0 + LAST_STEP_TTL_SECS * 1000"
  from assms(1) obtain v d n where e: "rt_entry (le_redis E) s (last_step_key u) = Some (v, Some d)" "parse_int v = Some n"
    "sg \<le> n" "?D \<le> d" by (auto simp: step_held_def)
  have set: "step_held (le_redis E) u sg ?D (set_ex (le_redis E) now (last_step_key u') (show_int step) LAST_STEP_TTL_SECS s)"
    if "u' = u \<Longrightarrow> sg \<le> step"
    using e that assms(2) by (auto simp: step_held_def set_ex_def entry_put deadline_def last_step_key_def)
  show ?thesis
  proof (cases "u' = u")
    case True
    show ?thesis
    proof (cases "now < d")
      case True
      then show ?thesis
        using e \<open>u' = u\<close> assms(1) set by (auto simp: claim_step_def Let_def ttl_get_def in_time_def)
    next
      case False
      with e(4) have "?D \<le> now" by simp
      from past_window [OF this assms(3,4)] have "sg \<le> step" by simp
      with e \<open>u' = u\<close> assms(1) set show ?thesis by (auto simp: claim_step_def Let_def split: option.split)
    qed
  next
    case False
    then show ?thesis using assms(1) set by (auto simp: claim_step_def Let_def split: option.splits)
  qed
qed

lemma step_held_try_totp:
  assumes "step_held (le_redis E) u sg (t0 + LAST_STEP_TTL_SECS * 1000) (lo_redis st)" "t0 \<le> now"
    "sg \<le> t0 div 1000 div STEP + SKEW" "totp_window E"
  shows "step_held (le_redis E) u sg (t0 + LAST_STEP_TTL_SECS * 1000) (lo_redis (fst (try_totp E now user code st)))"
proof -
  let ?P = "step_held (le_redis E) u sg (t0 + LAST_STEP_TTL_SECS * 1000)"
  have "?P (fst (claim_step (le_redis E) now (us_id user) step (lo_redis st)))"
    if "le_verify_step E (now div 1000) secret code (us_email user) = Inr (Some step)" for secret step
    using that assms(4) by (intro step_held_claim_step assms(1-3)) (auto simp: totp_window_def)
  then show ?thesis
    unfolding try_totp_def
    by (auto simp: assms(1) intro!: keeps_and_next [where P = ?P] split: option.splits sum.splits)
qed

lemma step_held_login:
  assumes "step_held (le_redis E) u sg (t0 + LAST_STEP_TTL_SECS * 1000) (lo_redis st)" "t0 \<le> now"
    "sg \<le> t0 div 1000 div STEP + SKEW" "totp_window E"
  shows "step_held (le_redis E) u sg (t0 + LAST_STEP_TTL_SECS * 1000) (lo_redis (fst (login E fl errs now rq ip st)))"
proof -
  let ?P = "step_held (le_redis E) u sg (t0 + LAST_STEP_TTL_SECS * 1000)"
  have recovery: "?P (lo_redis (fst (try_recovery E fl now x user code r st1)))" if "?P (lo_redis st1)" for x user code r st1
    by (rule step_held_frame [OF that frame_try_recovery [OF subset_refl]]) simp_all
  have totp: "?P (lo_redis (fst (check_totp E fl now x user st1)))" if "?P (lo_redis st1)" for x user st1
    unfolding check_totp_def use_code_def using that
    by (auto intro!: keeps_and_next [where P = ?P] step_held_try_totp assms(2-4) recovery split: option.splits)
  have tail: "?P (lo_redis (fst (logged_in E errs now x user st1)))" if "?P (lo_redis st1)" for x user st1
    by (rule step_held_frame [OF that frame_logged_in_tags [OF subset_refl]]) simp_all
  have user: "?P (lo_redis (fst (login_user E fl errs now x user st1)))" if "?P (lo_redis st1)" for x user st1
    unfolding login_user_def using that
    by (auto intro!: keeps_and_next [where P = ?P] totp tail step_held_frame [OF _ frame_check_temp_password [OF frame_refl], of _ _ _ _ "{}"]
        split: second_factor.splits)
  have pow: "?P (lo_redis (fst (verify_login_pow E now sol e st1)))" if "?P (lo_redis st1)" for sol e st1
    by (rule step_held_frame [OF that frame_verify_login_pow [of "{''pow''}"]]) simp_all
  have rates: "?P (lo_redis (fst (login_rates E now x st1)))" if "?P (lo_redis st1)" for x st1
    by (rule step_held_frame [OF that frame_login_rates [OF subset_refl]]) simp_all
  have pass: "?P (lo_redis (fst (check_password E fl now x n st1)))" if "?P (lo_redis st1)" for x n st1
    by (rule step_held_frame [OF that frame_check_password [OF subset_refl]]) simp_all
  show ?thesis
    unfolding login_def login_after_pow_def
    by (intro keeps_and_next [where P = ?P] pow rates pass user) (simp_all add: assms(1))
qed

lemma step_held_verify_setup:
  assumes "step_held (le_redis E) u sg (t0 + LAST_STEP_TTL_SECS * 1000) (lo_redis st)" "t0 \<le> now"
    "sg \<le> t0 div 1000 div STEP + SKEW" "totp_window E"
  shows "step_held (le_redis E) u sg (t0 + LAST_STEP_TTL_SECS * 1000) (lo_redis (fst (totp_verify_setup E fl now au code st)))"
proof -
  let ?P = "step_held (le_redis E) u sg (t0 + LAST_STEP_TTL_SECS * 1000)"
  have claim: "?P (fst (claim_step (le_redis E) now w step (lo_redis st)))"
    if "le_verify_step E (now div 1000) secret code email = Inr (Some step)" for secret step email w
    using that assms(4) by (intro step_held_claim_step assms(1-3)) (auto simp: totp_window_def)
  have del: "?P (del_best_effort (le_redis E) (pending_key w) s)" if "?P s" for s w
    by (rule step_held_frame [OF that frame_del_best_effort [of _ "{''totp_pending''}"]]) simp_all
  show ?thesis
    unfolding totp_verify_setup_def Let_def
    by (intro keeps_and_next [where P = ?P])
      (auto simp: assms(1) claim del intro!: keeps_and_next [where P = ?P] split: option.splits sum.splits prod.splits)
qed

lemma step_held_step:
  assumes "auth_step E F now st st'" "step_held (le_redis E) u sg (t0 + LAST_STEP_TTL_SECS * 1000) (lo_redis st)" "t0 \<le> now"
    "sg \<le> t0 div 1000 div STEP + SKEW" "totp_window E"
  shows "step_held (le_redis E) u sg (t0 + LAST_STEP_TTL_SECS * 1000) (lo_redis st')"
  using assms(1)
proof (cases rule: auth_step_guarded)
  case unguarded
  then show ?thesis using step_held_frame [OF assms(2)] by simp
next
  case (challenge minted rq ip)
  then show ?thesis using step_held_frame [OF assms(2) frame_issue_pow_challenge] by simp
next
  case (login fl errs rq ip)
  then show ?thesis using step_held_login [OF assms(2-5)] by simp
next
  case (refresh fl errs rq)
  then show ?thesis using step_held_frame [OF assms(2) frame_refresh] by simp
next
  case (logout au h)
  then show ?thesis using step_held_frame [OF assms(2) frame_logout] by simp
next
  case (verify_setup fl au code)
  then show ?thesis using step_held_verify_setup [OF assms(2-5)] by simp
qed

lemma step_held_run:
  assumes "auth_run E F t0 st0 t1 st1" "step_held (le_redis E) u sg (t0 + LAST_STEP_TTL_SECS * 1000) (lo_redis st0)"
    "sg \<le> t0 div 1000 div STEP + SKEW" "totp_window E"
  shows "step_held (le_redis E) u sg (t0 + LAST_STEP_TTL_SECS * 1000) (lo_redis st1)"
  using assms
proof (induction rule: auth_run.induct)
  case (run_step t1 st1 t2 st2)
  then show ?case using step_held_step [OF run_step(3)] run_time [OF run_step(1)] by simp
qed

text \<open>A claim that succeeds starts the record; while it is held_until no claim for the same or an earlier step succeeds.\<close>

lemma claimed_step_held:
  assumes "claim_step (le_redis E) now u step s = (s', Inr True)"
  shows "step_held (le_redis E) u step (now + LAST_STEP_TTL_SECS * 1000) s'"
  using assms by (auto simp: claim_step_def Let_def step_held_def set_ex_def entry_put deadline_def split: option.splits if_splits)

lemma held_step_is_passed:
  assumes held_until: "step_held (le_redis E) u sg (t0 + LAST_STEP_TTL_SECS * 1000) s"
    and sg: "sg \<le> t0 div 1000 div STEP + SKEW" and step: "now div 1000 div STEP - SKEW \<le> step"
    and claim: "claim_step (le_redis E) now u step s = (s', Inr True)"
  shows "sg < step"
proof -
  from held_until obtain v d n where e: "rt_entry (le_redis E) s (last_step_key u) = Some (v, Some d)" "parse_int v = Some n"
    "sg \<le> n" "t0 + LAST_STEP_TTL_SECS * 1000 \<le> d" by (auto simp: step_held_def)
  show ?thesis
  proof (cases "now < d")
    case True
    with e claim show ?thesis by (auto simp: claim_step_def Let_def ttl_get_def in_time_def split: if_splits)
  next
    case False
    with e(4) show ?thesis using past_window [OF _ sg step] by simp
  qed
qed

subsection \<open>A locked account\<close>

lemma entry_fixed_incr_other:
  "k' \<noteq> k \<Longrightarrow> rt_entry (le_redis E) (fst (fixed_incr (le_redis E) ts k ttl s)) k' = rt_entry (le_redis E) s k'"
  by (auto simp: fixed_incr_def incr_key_def expire_nx_def entry_put split: option.splits prod.splits)

lemma entry_del_best_effort_other:
  "k' \<noteq> k \<Longrightarrow> rt_entry (le_redis E) (del_best_effort (le_redis E) k s) k' = rt_entry (le_redis E) s k'"
  by (simp add: del_best_effort_def entry_del split: option.split)

lemma entry_punish_other:
  "k' \<noteq> a \<Longrightarrow> k' \<noteq> b \<Longrightarrow> rt_entry (le_redis E) (fst (punish (le_redis E) now n a b s)) k' = rt_entry (le_redis E) s k'"
  using entry_fixed_incr_other [of k' a "(now, now)" COUNTER_WINDOW_SECS s]
  by (auto simp: punish_def record_auth_failure_def apply_lockout_def set_ex_def entry_put split: prod.splits sum.splits option.splits)

lemma lockout_key_inj [simp]: "lockout_key a = lockout_key b \<longleftrightarrow> a = b"
  by (simp add: lockout_key_def)

lemma lockout_key_other: "key_tag k \<noteq> ''auth_lockout'' \<Longrightarrow> lockout_key e \<noteq> k"
  by auto

lemma lock_login_failed:
  "lx_email x \<noteq> e \<Longrightarrow> rt_entry (le_redis E) (lo_redis (fst (login_failed E now x n st))) (lockout_key e) =
    rt_entry (le_redis E) (lo_redis st) (lockout_key e)"
  unfolding login_failed_def
  by (rule keeps_and_next [where P = "\<lambda>s. rt_entry (le_redis E) s (lockout_key e) = rt_entry (le_redis E) (lo_redis st) (lockout_key e)"])
    (simp_all add: entry_punish_other entry_fixed_incr_other lockout_key_other)

lemma lock_logged_in:
  assumes "lx_email x \<noteq> e"
  shows "rt_entry (le_redis E) (lo_redis (fst (logged_in E errs now x user st))) (lockout_key e) =
    rt_entry (le_redis E) (lo_redis st) (lockout_key e)"
proof -
  have "rt_entry (le_redis E) (clear_signing_key_slot (le_redis E) u s) (lockout_key e) = rt_entry (le_redis E) s (lockout_key e)" for u s
    by (simp add: clear_signing_key_slot_def entry_del_best_effort_other lockout_key_other)
  moreover have "rt_entry (le_redis E) (clear_counters E now x u s) (lockout_key e) = rt_entry (le_redis E) s (lockout_key e)" for u s
    using assms
    by (auto simp: clear_counters_def decay_counter_def clear_keys_def entry_put entry_del_best_effort_other lockout_key_other
        split: option.split)
  ultimately show ?thesis by (simp add: logged_in_def open_session_def)
qed

lemma lock_frame:
  "frame (le_redis E) T s s' \<Longrightarrow> ''auth_lockout'' \<notin> T \<Longrightarrow> rt_entry (le_redis E) s' (lockout_key e) = rt_entry (le_redis E) s (lockout_key e)"
  by (simp add: frameD)

lemma lock_login_user:
  assumes "lx_email x \<noteq> e"
  shows "rt_entry (le_redis E) (lo_redis (fst (login_user E fl errs now x user st))) (lockout_key e) =
    rt_entry (le_redis E) (lo_redis st) (lockout_key e)"
proof -
  let ?P = "\<lambda>s. rt_entry (le_redis E) s (lockout_key e) = rt_entry (le_redis E) (lo_redis st) (lockout_key e)"
  have totp: "?P (lo_redis (fst (check_totp E fl now x user st)))"
    by (rule lock_frame [OF frame_check_totp [OF subset_refl frame_refl]]) simp
  have temp: "lo_redis (fst (check_temp_password E now x user st1)) = lo_redis st1" for st1
    by (simp add: check_temp_password_def Let_def)
  show ?thesis
    unfolding login_user_def
    by (intro keeps_and_next [where P = ?P])
      (auto simp: totp temp lock_logged_in [OF assms] intro!: keeps_and_next [where P = ?P] split: second_factor.splits)
qed

lemma lock_other_login:
  assumes "lx_email x \<noteq> e"
  shows "rt_entry (le_redis E) (lo_redis (fst (login_after_pow E fl errs now x st))) (lockout_key e) =
    rt_entry (le_redis E) (lo_redis st) (lockout_key e)"
proof -
  let ?P = "\<lambda>s. rt_entry (le_redis E) s (lockout_key e) = rt_entry (le_redis E) (lo_redis st) (lockout_key e)"
  have rates: "?P (lo_redis (fst (login_rates E now x st)))"
    by (rule lock_frame [OF frame_login_rates [OF subset_refl frame_refl]]) simp
  have pass: "?P (lo_redis (fst (check_password E fl now x n st1)))" if "?P (lo_redis st1)" for n st1
    unfolding check_password_def
    by (rule keeps_and_next [where P = ?P]) (auto simp: that lock_login_failed [OF assms] split: option.splits)
  show ?thesis
    unfolding login_after_pow_def
    by (intro keeps_and_next [where P = ?P] rates pass) (simp_all add: lock_login_user [OF assms])
qed

lemma held_locks:
  assumes "held_until (le_redis E) (lockout_key (lx_email x)) D (lo_redis st)" "now + 500 \<le> D"
  shows "\<exists>err. check_lockout E now x st = Inl err"
  using assms by (auto simp: held_until_def check_lockout_def Let_def ttl_left_def)

lemma locked_login_after_pow:
  assumes "held_until (le_redis E) (lockout_key (lx_email x)) D (lo_redis st)" "now + 500 \<le> D"
  shows "\<exists>err. snd (login_after_pow E fl errs now x st) = Inl err"
    "held_until (le_redis E) (lockout_key (lx_email x)) D (lo_redis (fst (login_after_pow E fl errs now x st)))"
proof -
  have "held_until (le_redis E) (lockout_key (lx_email x)) D (lo_redis (fst (login_rates E now x st)))"
    by (rule held_frame [OF assms(1) frame_login_rates [OF subset_refl frame_refl]]) simp
  then show "\<exists>err. snd (login_after_pow E fl errs now x st) = Inl err"
    "held_until (le_redis E) (lockout_key (lx_email x)) D (lo_redis (fst (login_after_pow E fl errs now x st)))"
    using held_locks [OF _ assms(2), of x]
    by (cases "login_rates E now x st"; cases "snd (login_rates E now x st)"; fastforce simp: login_after_pow_def)+
qed

lemma held_lock_pow:
  "held_until (le_redis E) (lockout_key e) D (lo_redis st) \<Longrightarrow>
   held_until (le_redis E) (lockout_key e) D (lo_redis (fst (verify_login_pow E now sol email st)))"
  by (erule held_frame [OF _ frame_verify_login_pow [OF _ frame_refl, of "{''pow''}"]]) simp_all

lemma held_lock_login:
  assumes "held_until (le_redis E) (lockout_key e) D (lo_redis st)" "now + 500 \<le> D"
  shows "held_until (le_redis E) (lockout_key e) D (lo_redis (fst (login E fl errs now rq ip st)))"
proof -
  let ?P = "held_until (le_redis E) (lockout_key e) D"
  have "?P (lo_redis (fst (login_after_pow E fl errs now x st1)))" if "?P (lo_redis st1)" for x st1
    using that locked_login_after_pow(2) [OF _ assms(2), of x st1] lock_other_login [of x e]
    by (cases "lx_email x = e") (simp_all add: held_until_def)
  then show ?thesis
    unfolding login_def by (intro keeps_and_next [where P = ?P] held_lock_pow) (simp_all add: assms(1))
qed

lemma held_lock_run:
  assumes "auth_run E F t0 st0 t1 st1" "held_until (le_redis E) (lockout_key e) D (lo_redis st0)" "t1 + 500 \<le> D"
  shows "held_until (le_redis E) (lockout_key e) D (lo_redis st1)"
  using assms
proof (induction rule: auth_run.induct)
  case (run_step t1 st1 t2 st2)
  then have h: "held_until (le_redis E) (lockout_key e) D (lo_redis st1)" by simp
  from run_step(3) show ?case
  proof (cases rule: auth_step_guarded)
    case unguarded
    then show ?thesis using held_frame [OF h] by simp
  next
    case (challenge minted rq ip)
    then show ?thesis using held_frame [OF h frame_issue_pow_challenge] by simp
  next
    case (login fl errs rq ip)
    then show ?thesis using held_lock_login [OF h run_step.prems(2)] by simp
  next
    case (refresh fl errs rq)
    then show ?thesis using held_frame [OF h frame_refresh] by simp
  next
    case (logout au h')
    then show ?thesis using held_frame [OF h frame_logout] by simp
  next
    case (verify_setup fl au code)
    then show ?thesis using held_frame [OF h frame_totp_verify_setup] by simp
  qed
qed simp

lemma held_lock_refuses:
  assumes "held_until (le_redis E) (lockout_key (lx_email x)) D (lo_redis st)" "now + 500 \<le> D" "login_request E rq ip = Inr x"
  shows "\<exists>err. snd (login E fl errs now rq ip st) = Inl err"
proof -
  from held_lock_pow [OF assms(1)] obtain st1 r where v: "verify_login_pow E now (lr_pow (lx_req x)) (lx_email x) st = (st1, r)"
    and h: "held_until (le_redis E) (lockout_key (lx_email x)) D (lo_redis st1)"
    by (metis fst_conv surj_pair)
  from locked_login_after_pow(1) [OF h assms(2)] show ?thesis
    using v assms(3) by (cases r) (auto simp: login_def)
qed

text \<open>What a failed attempt leaves: the new count and, from the first rung on, the lock.\<close>

lemma fixed_incr_value:
  assumes "fixed_incr (le_redis E) ts k ttl s = (s1, Inr m)"
  shows "\<exists>d. rt_entry (le_redis E) s1 k = Some (show_int m, d)"
proof -
  have "show_int 1 = ''1''" by code_simp
  then show ?thesis
    using assms
    by (auto simp: fixed_incr_def incr_key_def expire_nx_def entry_put split: option.splits prod.splits)
qed

lemma punish_locks:
  assumes "punish (le_redis E) now n a b s = (s', Inr ())" "a \<noteq> b"
  obtains d m where "rt_entry (le_redis E) s' a = Some (show_int m, d)"
    "\<And>secs. ladder_secs (max n m) = Some secs \<Longrightarrow> rt_entry (le_redis E) s' b = Some (''1'', Some (now + secs * 1000))"
proof -
  from assms(1) obtain s1 m where f: "fixed_incr (le_redis E) (now, now) a COUNTER_WINDOW_SECS s = (s1, Inr m)"
    and l: "(case ladder_secs (max n m) of None \<Rightarrow> (s1, Inr ()) | Some secs \<Rightarrow> apply_lockout (le_redis E) now b secs s1) = (s', Inr ())"
    by (auto simp: punish_def record_auth_failure_def split: prod.splits sum.splits)
  from fixed_incr_value [OF f] obtain d where d: "rt_entry (le_redis E) s1 a = Some (show_int m, d)" by blast
  show ?thesis
  proof (cases "ladder_secs (max n m)")
    case None
    with l d show ?thesis by (intro that [of m d]) auto
  next
    case (Some secs)
    with l d assms(2) show ?thesis
      by (intro that [of m d]) (auto simp: apply_lockout_def set_ex_def entry_put deadline_def split: if_splits)
  qed
qed

lemma failed_attempt_locks:
  assumes "login_failed E now x n st = (st', Inl Unauthorized)"
    "Option.bind (ttl_get (le_redis E) now (lo_redis st') (email_fail_key (lx_email x))) parse_int = Some m"
    "ladder_secs (max n m) = Some secs"
  shows "held_until (le_redis E) (lockout_key (lx_email x)) (now + secs * 1000) (lo_redis st')"
proof -
  let ?a = "email_fail_key (lx_email x)" and ?b = "lockout_key (lx_email x)"
  have ab: "?a \<noteq> ?b" using lockout_key_other [of ?a "lx_email x"] by auto
  obtain s1 r where p: "punish (le_redis E) now n ?a ?b (lo_redis st) = (s1, r)" by (metis surj_pair)
  have "r \<noteq> Inl Unauthorized" using p
    by (auto simp: punish_def record_auth_failure_def apply_lockout_def auth_unavailable_def split: prod.splits sum.splits option.splits if_splits)
  with p assms(1) have r: "punish (le_redis E) now n ?a ?b (lo_redis st) = (s1, Inr ())"
    by (cases r) (auto simp: login_failed_def in_redis_def)
  let ?sub = "subnet_fail_key E (lx_ip x)"
  from r assms(1) have s': "lo_redis st' = fst (fixed_incr (le_redis E) (now, now) ?sub SUBNET_FAIL_WINDOW_SECS s1)"
    by (auto simp: login_failed_def in_redis_def log_event_def with_redis_def)
  from punish_locks [OF r ab] obtain d m' where e: "rt_entry (le_redis E) s1 ?a = Some (show_int m', d)"
    "\<And>secs. ladder_secs (max n m') = Some secs \<Longrightarrow> rt_entry (le_redis E) s1 ?b = Some (''1'', Some (now + secs * 1000))" by blast
  have "?a \<noteq> ?sub" "?b \<noteq> ?sub" by (auto dest: arg_cong [where f = key_tag])
  then have "rt_entry (le_redis E) (lo_redis st') ?a = rt_entry (le_redis E) s1 ?a"
    "rt_entry (le_redis E) (lo_redis st') ?b = rt_entry (le_redis E) s1 ?b"
    unfolding s' by (simp_all add: entry_fixed_incr_other)
  with e assms(2,3) show ?thesis by (auto simp: ttl_get_def held_until_def split: if_splits)
qed

end

end
