(* ===== verification/Login_Props.thy ===== *)
theory Login_Props
  imports Login_Runs Console_Props
begin

section \<open>What signing in promises\<close>

text \<open>
  The properties of \<open>Login\<close>: which factors an opened session proves, and that a challenge, a one-time code and a refresh token
  serve once, with the seconds in which a refresh token does not. The predicates below restate the factors over the tables and Redis as they are when the request arrives.
\<close>

definition pow_solved :: "'s login_env \<Rightarrow> int \<Rightarrow> login_ctx \<Rightarrow> 's \<Rightarrow> bool" where
  "pow_solved E now x s =
     (case lr_pow (lx_req x) of
        None \<Rightarrow> False
      | Some sol \<Rightarrow>
          (case ttl_get (le_redis E) now s (challenge_key (ps_challenge_id sol)) of
             None \<Rightarrow> False
           | Some blob \<Rightarrow>
               (case splitn3 blob of
                  [rnd, diff, bound_email] \<Rightarrow>
                    bound_email = lx_email x \<and>
                    (case parse_u8 diff of
                       None \<Rightarrow> False
                     | Some d \<Rightarrow> d \<le> leading_zero_bits (le_sha256 E (rnd @ '':'' @ lx_email x @ '':'' @ ps_nonce sol)))
                | _ \<Rightarrow> False)))"

definition password_proved :: "'s login_env \<Rightarrow> login_ctx \<Rightarrow> user_row \<Rightarrow> bool" where
  "password_proved E x user =
     (case us_password_hash user of None \<Rightarrow> False | Some h \<Rightarrow> le_verify_password E (lr_password (lx_req x)) h = Inr True)"

text \<open>The time step a one-time code belongs to, and whether it is later than the last one on record.\<close>

definition totp_step_of :: "'s login_env \<Rightarrow> int \<Rightarrow> user_row \<Rightarrow> string \<Rightarrow> int option" where
  "totp_step_of E now user code =
     (case us_totp_secret user of
        None \<Rightarrow> None
      | Some encrypted \<Rightarrow>
          (case le_decrypt E encrypted of
             Inl _ \<Rightarrow> None
           | Inr secret \<Rightarrow>
               (case le_verify_step E (now div 1000) secret code (us_email user) of Inr (Some step) \<Rightarrow> Some step | _ \<Rightarrow> None)))"

definition code_fresh :: "'s login_env \<Rightarrow> int \<Rightarrow> user_row \<Rightarrow> string \<Rightarrow> 's \<Rightarrow> bool" where
  "code_fresh E now user code s =
     (case totp_step_of E now user code of
        None \<Rightarrow> False
      | Some step \<Rightarrow>
          (case ttl_get (le_redis E) now s (last_step_key (us_id user)) of
             None \<Rightarrow> True
           | Some v \<Rightarrow> (case parse_int v of None \<Rightarrow> False | Some previous \<Rightarrow> previous < step)))"

text \<open>A recovery code of the user was on the list, and the list was swapped for one without it in the one row that held it.\<close>

definition recovery_spent :: "'s login_env \<Rightarrow> user_row \<Rightarrow> string \<Rightarrow> auth_db \<Rightarrow> auth_db \<Rightarrow> bool" where
  "recovery_spent E user code db db' =
     (case recovery_position E user code of
        None \<Rightarrow> False
      | Some (blob, codes, pos) \<Rightarrow>
          (case encrypt_recovery_codes E (remove_at pos codes) of
             Inl _ \<Rightarrow> False
           | Inr updated \<Rightarrow>
               (let P = (\<lambda>r. us_id r = us_id user \<and> us_totp_recovery_codes r = Some blob) in
                length (filter P (ad_users db)) = 1 \<and> db' = map_users P (\<lambda>r. r\<lparr>us_totp_recovery_codes := Some updated\<rparr>) db)))"

definition second_factor_proved :: "'s login_env \<Rightarrow> int \<Rightarrow> login_ctx \<Rightarrow> user_row \<Rightarrow> 's login_state \<Rightarrow> auth_db \<Rightarrow> bool" where
  "second_factor_proved E now x user st db' =
     (ttl_get (le_redis E) now (lo_redis st) (totp_lock_key (us_id user)) = None \<and>
      (case lr_totp_code (lx_req x) of
         None \<Rightarrow> False
       | Some code \<Rightarrow> code_fresh E now user code (lo_redis st) \<or> recovery_spent E user code (lo_db st) db'))"

definition temp_password_ok :: "'s login_env \<Rightarrow> int \<Rightarrow> user_row \<Rightarrow> 's \<Rightarrow> bool" where
  "temp_password_ok E now user s =
     temp_password_live now (ttl_get (le_redis E) now s (temp_password_marker_key (us_id user)) \<noteq> None) user"

subsection \<open>The stages of a login that succeeds\<close>

lemma verify_login_pow_Inr:
  assumes "verify_login_pow E now (lr_pow (lx_req x)) (lx_email x) st = (st', Inr ())"
  shows "pow_solved E now x (lo_redis st) \<and> lo_db st' = lo_db st"
  using assms
  by (auto simp: verify_login_pow_def Let_def pow_solved_def check_blob_def verify_pow_def
      split: option.splits list.splits if_splits)

lemma check_password_Inr:
  assumes "check_password E fl now x n st = (st', Inr user)"
  shows "st' = st \<and> find (\<lambda>r. us_email r = lx_email x \<and> active_row r) (ad_users (lo_db st)) = Some user \<and> password_proved E x user"
proof -
  have "login_failed E now x n s \<noteq> (t, Inr y)" for s t and y :: user_row
    by (auto simp: login_failed_def and_next_Inr)
  with assms show ?thesis
    by (auto simp: check_password_def and_next_Inr find_active_by_email_def answer_query_def verify_password_or_dummy_def
        password_proved_def split: option.splits if_splits sum.splits)
qed

lemma login_rates_db: "login_rates E now x st = (st', Inr n) \<Longrightarrow> lo_db st' = lo_db st"
  by (auto simp: login_rates_def and_next_Inr in_redis_def split: if_splits prod.splits)

lemma try_totp_Inr:
  assumes "try_totp E now user code st = (st', Inr (ok, replayed))"
  shows "lo_db st' = lo_db st \<and> (ok \<longrightarrow> code_fresh E now user code (lo_redis st))"
  using assms
  by (auto simp: try_totp_def and_next_Inr in_redis_def decrypt_secret_def claim_step_def Let_def code_fresh_def totp_step_of_def
      split: option.splits sum.splits prod.splits if_splits)

lemma try_recovery_Inr:
  assumes "try_recovery E fl now x user code replayed st = (st', Inr ())"
  shows "recovery_spent E user code (lo_db st) (lo_db st')"
proof -
  have "totp_failed E now x user replayed s \<noteq> (t, Inr ())" "race_lost E now x user s \<noteq> (t, Inr ())" for s t
    by (auto simp: totp_failed_def and_next_Inr race_lost_def Let_def split: prod.splits)
  with assms show ?thesis
    by (auto simp: try_recovery_def and_next_Inr in_db_def swap_recovery_codes_def Let_def recovery_spent_def
        split: option.splits prod.splits if_splits sum.splits)
qed

lemma check_totp_Passed:
  assumes "check_totp E fl now x user st = (st', Inr Passed)"
  shows "(\<not> us_totp_enabled user \<and> st' = st) \<or> (us_totp_enabled user \<and> second_factor_proved E now x user st (lo_db st'))"
proof (cases "us_totp_enabled user")
  case True
  with assms obtain code where "is_locked (le_redis E) now (totp_lock_key (us_id user)) (lo_redis st) = Inr False"
    and code: "lr_totp_code (lx_req x) = Some code" and rest: "use_code E fl now x user code st = (st', Inr Passed)"
    by (auto simp: check_totp_def and_next_Inr split: if_splits option.splits)
  then have lock: "ttl_get (le_redis E) now (lo_redis st) (totp_lock_key (us_id user)) = None"
    by (auto simp: is_locked_def split: if_splits)
  from rest obtain st1 ok replayed where t: "try_totp E now user code st = (st1, Inr (ok, replayed))"
    and r: "(if ok then (st1, Inr Passed) else and_next (try_recovery E fl now x user code replayed st1) (\<lambda>_ st. (st, Inr Passed))) = (st', Inr Passed)"
    by (auto simp: use_code_def and_next_Inr)
  from try_totp_Inr [OF t] r try_recovery_Inr [of E fl now x user code replayed st1 st']
  have "code_fresh E now user code (lo_redis st) \<or> recovery_spent E user code (lo_db st) (lo_db st')"
    by (auto simp: and_next_Inr split: if_splits)
  with True lock code show ?thesis by (simp add: second_factor_proved_def)
qed (use assms in \<open>simp add: check_totp_def\<close>)

lemma login_user_opened:
  assumes "login_user E fl errs now x user st = (st', Inr (SessionOpened session c))"
  obtains st1 where "check_totp E fl now x user st = (st1, Inr Passed)" "check_temp_password E now x user st1 = (st1, Inr ())"
    "logged_in E errs now x user st1 = (st', Inr session)"
proof -
  have keep: "check_temp_password E now x user s = (t, Inr ()) \<Longrightarrow> t = s" for s t
    by (auto simp: check_temp_password_def Let_def split: if_splits)
  from assms obtain factor st1 where f: "check_totp E fl now x user st = (st1, Inr factor)"
    "(case factor of CodeNeeded \<Rightarrow> (st1, Inr TotpRequired)
      | Passed \<Rightarrow> and_next (check_temp_password E now x user st1) (\<lambda>_ st. and_next (logged_in E errs now x user st) (\<lambda>session st.
          (st, Inr (SessionOpened session (us_password_change_required user)))))) = (st', Inr (SessionOpened session c))"
    unfolding login_user_def and_next_Inr by blast
  then show ?thesis by (cases factor) (auto simp: and_next_Inr dest: keep intro: that)
qed

lemma login_opened:
  assumes "login E fl errs now rq ip st = (st', Inr (SessionOpened session c))"
  obtains x st1 st2 n user where "login_request E rq ip = Inr x"
    "verify_login_pow E now (lr_pow (lx_req x)) (lx_email x) st = (st1, Inr ())"
    "login_rates E now x st1 = (st2, Inr n)" "check_lockout E now x st2 = Inr ()"
    "find (\<lambda>r. us_email r = lx_email x \<and> active_row r) (ad_users (lo_db st)) = Some user" "password_proved E x user"
    "login_user E fl errs now x user st2 = (st', Inr (SessionOpened session c))" "lo_db st2 = lo_db st"
proof -
  from assms obtain x st1 st2 n st3 user where parts: "login_request E rq ip = Inr x"
    "verify_login_pow E now (lr_pow (lx_req x)) (lx_email x) st = (st1, Inr ())"
    "login_rates E now x st1 = (st2, Inr n)" "check_lockout E now x st2 = Inr ()"
    "check_password E fl now x n st2 = (st3, Inr user)" "login_user E fl errs now x user st3 = (st', Inr (SessionOpened session c))"
    by (auto simp: login_def login_after_pow_def and_next_Inr)
  from verify_login_pow_Inr [OF parts(2)] login_rates_db [OF parts(3)] have db: "lo_db st2 = lo_db st" by simp
  with check_password_Inr [OF parts(5)] parts that show ?thesis by auto
qed

context login_laws
begin

lemma before_login_user:
  assumes "verify_login_pow E now sol email st = (st1, r)" "login_rates E now x st1 = (st2, r')"
  shows "frame (le_redis E) {''pow'', ''auth_rate'', ''auth_rate_ip''} (lo_redis st) (lo_redis st2)"
  using frame_login_rates [of "{''pow'', ''auth_rate'', ''auth_rate_ip''}" "lo_redis st" st1 now x]
    frame_verify_login_pow [of "{''pow'', ''auth_rate'', ''auth_rate_ip''}" "lo_redis st" st now sol email] assms
  by simp

lemma totp_stage:
  assumes "frame (le_redis E) {''pow'', ''auth_rate'', ''auth_rate_ip''} (lo_redis st) (lo_redis st2)" "lo_db st2 = lo_db st"
  shows "second_factor_proved E now x user st2 db' \<longleftrightarrow> second_factor_proved E now x user st db'"
    "temp_password_ok E now user (lo_redis st2) \<longleftrightarrow> temp_password_ok E now user (lo_redis st)"
    "ttl_left (le_redis E) now (lockout_key e) (lo_redis st2) = ttl_left (le_redis E) now (lockout_key e) (lo_redis st)"
    "code_fresh E now user code (lo_redis st2) \<longleftrightarrow> code_fresh E now user code (lo_redis st)"
  using get_frame [OF assms(1)] frameD [OF assms(1), of "lockout_key e"] assms(2)
  by (simp_all add: second_factor_proved_def code_fresh_def temp_password_ok_def ttl_left_def split: option.split)

lemma check_totp_temp_marker:
  "ttl_get (le_redis E) now (lo_redis (fst (check_totp E fl now x user st))) (temp_password_marker_key u) =
   ttl_get (le_redis E) now (lo_redis st) (temp_password_marker_key u)"
  by (rule get_frame [OF frame_check_totp [OF subset_refl frame_refl]]) simp

lemma login_proof:
  assumes "login E fl errs now rq ip st = (st', Inr (SessionOpened session c))"
  obtains x user where "login_request E rq ip = Inr x" "pow_solved E now x (lo_redis st)"
    "find (\<lambda>r. us_email r = lx_email x \<and> active_row r) (ad_users (lo_db st)) = Some user" "password_proved E x user"
    "ttl_left (le_redis E) now (lockout_key (lx_email x)) (lo_redis st) \<le> 0"
    "us_totp_enabled user \<Longrightarrow> second_factor_proved E now x user st (lo_db st')"
    "us_password_change_required user \<Longrightarrow> temp_password_ok E now user (lo_redis st)"
    "snd (open_session E errs now (us_id user) (us_email user) st') = Inr session"
proof -
  from login_opened [OF assms] obtain x st1 st2 n user where parts: "login_request E rq ip = Inr x"
    "verify_login_pow E now (lr_pow (lx_req x)) (lx_email x) st = (st1, Inr ())"
    "login_rates E now x st1 = (st2, Inr n)" "check_lockout E now x st2 = Inr ()"
    "find (\<lambda>r. us_email r = lx_email x \<and> active_row r) (ad_users (lo_db st)) = Some user" "password_proved E x user"
    "login_user E fl errs now x user st2 = (st', Inr (SessionOpened session c))" "lo_db st2 = lo_db st" by blast
  note same = totp_stage [OF before_login_user [OF parts(2,3)] parts(8)]
  from login_user_opened [OF parts(7)] obtain st4 where u: "check_totp E fl now x user st2 = (st4, Inr Passed)"
    "check_temp_password E now x user st4 = (st4, Inr ())" "logged_in E errs now x user st4 = (st', Inr session)" by blast
  from u(3) have db: "lo_db st' = lo_db st4" and session: "snd (open_session E errs now (us_id user) (us_email user) st') = Inr session"
    by (auto simp: logged_in_def open_session_def)
  have lock: "ttl_left (le_redis E) now (lockout_key (lx_email x)) (lo_redis st) \<le> 0"
    using parts(4) same(3) by (auto simp: check_lockout_def Let_def split: if_splits)
  have totp: "second_factor_proved E now x user st (lo_db st')" if "us_totp_enabled user"
    using check_totp_Passed [OF u(1)] that same(1) db by simp
  have temp: "temp_password_ok E now user (lo_redis st)" if "us_password_change_required user"
    using u(2) that same(2) check_totp_temp_marker [of now fl x user st2 "us_id user"] u(1)
    by (auto simp: check_temp_password_def Let_def temp_password_ok_def split: if_splits)
  show ?thesis
    by (rule that [OF parts(1) _ parts(5,6) lock totp temp session]) (use verify_login_pow_Inr [OF parts(2)] in simp)
qed

end

context login_laws
begin

lemma second_attempt_fails:
  assumes x: "login_request E rq ip = Inr x" and sol: "lr_pow (lx_req x) = Some sol"
    and up: "rt_err (le_redis E) (lo_redis st) (challenge_key (ps_challenge_id sol)) = None"
    and run: "auth_run E F now (fst (login E fl errs now rq ip st)) t st1" and F: "ps_challenge_id sol \<in> F"
    and x2: "login_request E rq2 ip2 = Inr x2" and sol2: "lr_pow (lx_req x2) = Some sol2" "ps_challenge_id sol2 = ps_challenge_id sol"
  shows "\<exists>err. snd (login E fl2 errs2 t rq2 ip2 st1) = Inl err"
proof -
  let ?k = "challenge_key (ps_challenge_id sol)"
  let ?v = "verify_login_pow E now (Some sol) (lx_email x) st"
  have "ttl_get (le_redis E) now (lo_redis (fst ?v)) ?k = None" by (rule spent_after_lookup [OF up])
  then have "ttl_get (le_redis E) now (lo_redis (fst (login E fl errs now rq ip st))) ?k = None"
    unfolding login_def x and_next_simps sol
    by (rule keeps_and_next [where P = "\<lambda>s. ttl_get (le_redis E) now s ?k = None"]) (simp add: login_pow_only)
  from spent_run [OF run F this] have "ttl_get (le_redis E) t (lo_redis st1) ?k = None" .
  then have "\<exists>err. verify_login_pow E t (lr_pow (lx_req x2)) (lx_email x2) st1 = (st1, Inl err)"
    by (auto simp: verify_login_pow_def Let_def sol2 split: option.split)
  then show ?thesis by (auto simp: login_def x2)
qed

end

subsection \<open>Runs after a success\<close>

context login_laws
begin

lemma refresh_fails_while_held:
  assumes first: "refresh E fl errs now rq st = (st1, Inr session)" and tok: "presented_refresh E rq = Inr tok"
    and cm: "refresh_claims E fl now tok st = Inr cm" and run: "auth_run E F now st1 t st2"
    and t: "t < max (cm_exp cm * 1000) (now + 60000)" and tok2: "presented_refresh E rq2 = Inr tok"
  shows "\<exists>err. snd (refresh E fl2 errs2 t rq2 st2) = Inl err"
proof (rule ccontr)
  assume "\<not> ?thesis"
  then obtain st3 session2 where second: "refresh E fl2 errs2 t rq2 st2 = (st3, Inr session2)"
    by (metis prod.collapse sum.exhaust)
  let ?D = "now + max (cm_exp cm - now div 1000) 60 * 1000" and ?k = "key_for (le_sha256_hex E) tok"
  obtain tok1 cm1 where r1: "presented_refresh E rq = Inr tok1" "refresh_claims E fl now tok1 st = Inr cm1"
    "claim (le_redis E) (le_sha256_hex E) now tok1 (cm_exp cm1) (lo_redis st) = (lo_redis st1, Inr Claimed)"
    by (rule refresh_Inr [OF first]) (auto intro: that)
  obtain tok3 and cm3 :: AuthClaims where r2: "presented_refresh E rq2 = Inr tok3"
    "claim (le_redis E) (le_sha256_hex E) t tok3 (cm_exp cm3) (lo_redis st2) = (lo_redis st3, Inr Claimed)"
    by (rule refresh_Inr [OF second]) (auto intro: that)
  have same: "tok1 = tok" "cm1 = cm" "tok3 = tok" using r1 r2 tok cm tok2 by simp_all
  from claimed_held [OF r1(3)] have "held_until (le_redis E) ?k ?D (lo_redis st1)" by (simp only: same)
  from held_run [OF run _ this] have h: "held_until (le_redis E) ?k ?D (lo_redis st2)" by simp
  have "now - now div 1000 * 1000 \<ge> 0" by (simp add: minus_div_mult_eq_mod)
  then have "t < ?D" using t by (smt (verit, best))
  from held_not_claimed [OF h this] r2(2) same(3) show False by simp
qed

lemma login_holds_step:
  assumes login: "login E fl errs now rq ip st = (st', Inr (SessionOpened session c))" and x: "login_request E rq ip = Inr x"
    and user: "find (\<lambda>r. us_email r = lx_email x \<and> active_row r) (ad_users (lo_db st)) = Some user" "us_totp_enabled user"
    and code: "lr_totp_code (lx_req x) = Some code" "code_fresh E now user code (lo_redis st)" "totp_step_of E now user code = Some a"
  shows "step_held (le_redis E) (us_id user) a (now + LAST_STEP_TTL_SECS * 1000) (lo_redis st')"
proof -
  from login_opened [OF login] x user(1) obtain st1 st2 n where parts:
    "verify_login_pow E now (lr_pow (lx_req x)) (lx_email x) st = (st1, Inr ())" "login_rates E now x st1 = (st2, Inr n)"
    "login_user E fl errs now x user st2 = (st', Inr (SessionOpened session c))" "lo_db st2 = lo_db st" by force
  have fresh: "code_fresh E now user code (lo_redis st2)"
    using code(2) totp_stage(4) [OF before_login_user [OF parts(1,2)] parts(4)] by simp
  from login_user_opened [OF parts(3)] obtain st4 where u: "check_totp E fl now x user st2 = (st4, Inr Passed)"
    "logged_in E errs now x user st4 = (st', Inr session)" by blast
  from u(1) user(2) code(1) obtain st5 ok replayed where t: "try_totp E now user code st2 = (st5, Inr (ok, replayed))"
    and r: "(if ok then (st5, Inr Passed) else and_next (try_recovery E fl now x user code replayed st5) (\<lambda>_ st. (st, Inr Passed))) = (st4, Inr Passed)"
    by (auto simp: check_totp_def use_code_def and_next_Inr split: if_splits)
  from t code(3) fresh obtain s5 where c: "claim_step (le_redis E) now (us_id user) a (lo_redis st2) = (s5, Inr True)"
    and s5: "lo_redis st5 = s5" and ok: "ok"
    by (auto simp: try_totp_def and_next_Inr in_redis_def decrypt_secret_def totp_step_of_def code_fresh_def claim_step_def Let_def
        split: option.splits sum.splits prod.splits if_splits)
  from claimed_step_held [OF c] s5 r ok have "step_held (le_redis E) (us_id user) a (now + LAST_STEP_TTL_SECS * 1000) (lo_redis st4)"
    by simp
  moreover have "frame (le_redis E) (AFTER_POW_TAGS - {''totp_last_step''}) (lo_redis st4) (lo_redis (fst (logged_in E errs now x user st4)))"
    by (rule frame_logged_in_tags) auto
  ultimately show ?thesis using step_held_frame u(2) by fastforce
qed

lemma fresh_code_is_later:
  assumes held_until: "step_held (le_redis E) (us_id user) a (t0 + LAST_STEP_TTL_SECS * 1000) s" and a: "a \<le> t0 div 1000 div STEP + SKEW"
    and w: "totp_window E" and fresh: "code_fresh E t user2 code2 s" and u: "us_id user2 = us_id user"
    and b: "totp_step_of E t user2 code2 = Some b"
  shows "a < b"
proof -
  have step: "t div 1000 div STEP - SKEW \<le> b"
    using b w by (auto simp: totp_step_of_def totp_window_def split: option.splits sum.splits)
  from held_until obtain v d n where e: "rt_entry (le_redis E) s (last_step_key (us_id user)) = Some (v, Some d)" "parse_int v = Some n"
    "a \<le> n" "t0 + LAST_STEP_TTL_SECS * 1000 \<le> d" by (auto simp: step_held_def)
  show ?thesis
  proof (cases "t < d")
    case True
    with e fresh b u show ?thesis by (auto simp: code_fresh_def ttl_get_def in_time_def)
  next
    case False
    with e(4) show ?thesis using past_window [OF _ a step] by simp
  qed
qed

end

subsection \<open>An installation to try them on\<close>

text \<open>A one-time code is the decimal of its time step, encryption and hashes are the identity, and every proof of work holds.\<close>

definition demo_login_req :: LoginRequest where
  "demo_login_req = \<lparr>lr_email = '' A@x.io'', lr_password = ''Passw0rd'', lr_totp_code = Some ''7'',
     lr_pow = Some \<lparr>ps_challenge_id = ''c'', ps_nonce = ''n''\<rparr>\<rparr>"

definition demo_next_req :: LoginRequest where
  "demo_next_req = demo_login_req\<lparr>lr_totp_code := Some ''8'', lr_pow := Some \<lparr>ps_challenge_id = ''d'', ps_nonce = ''n''\<rparr>\<rparr>"

definition demo_verify_step :: "int \<Rightarrow> string \<Rightarrow> string \<Rightarrow> string \<Rightarrow> string + int option" where
  "demo_verify_step now secret code email =
     Inr (case parse_int code of
            None \<Rightarrow> None
          | Some step \<Rightarrow> if now div STEP - SKEW \<le> step \<and> step \<le> now div STEP + SKEW then Some step else None)"

definition demo_refresh_claims :: AuthClaims where
  "demo_refresh_claims = \<lparr>cm_sub = ''u'', cm_email = ''a@x.io'', cm_exp = 1000, cm_iat = 100, cm_token_type = ''refresh'',
     cm_aud = JWT_AUDIENCE, cm_iss = JWT_ISSUER\<rparr>"

text \<open>Tokens are accepted ten seconds past their end, the default of \<^verbatim>\<open>auth/src/jwt.rs\<close>.\<close>

definition demo_verify_token :: "int \<Rightarrow> string \<Rightarrow> AuthClaims option" where
  "demo_verify_token now t =
     (if t = ''r'' \<and> now div 1000 \<le> cm_exp demo_refresh_claims + 10 then Some demo_refresh_claims else None)"

definition demo_login_env :: "ttl_mem login_env" where
  "demo_login_env = \<lparr>le_guard = demo_guard\<lparr>ge_verify_token := demo_verify_token\<rparr>, le_redis = mem_ttl, le_encode = (\<lambda>cm. Inr (cm_token_type cm)),
     le_sha256 = (\<lambda>_. [CHR 0x00, CHR 0x00, CHR 0x00]), le_sha256_hex = id, le_parse_ip = (\<lambda>_. None),
     le_verify_password = (\<lambda>p h. Inr (h = p)), le_hash_password = Inr, le_verify_step = demo_verify_step,
     le_decrypt = Inr, le_encrypt = Inr, le_parse_codes = (\<lambda>js. Inr [js]), le_show_codes = concat,
     le_parse_pending = (\<lambda>_. None), le_show_pending = (\<lambda>secret codes. secret), le_otpauth_uri = (\<lambda>_ _. Inr []), le_base32 = id,
     le_parse_login = (\<lambda>b. Inr (if b = ''r'' then demo_login_req else demo_next_req)), le_parse_email = Inr,
     le_parse_user = (\<lambda>_. Inr \<lparr>cu_email = ''A@x.io'', cu_display_name = ''A'', cu_password = ''Passw0rd''\<rparr>),
     le_parse_refresh = (\<lambda>b. Inr (Some b)), le_access_ttl = 9, le_refresh_ttl_days = 0, le_allow_registration = True,
     le_default_role = None\<rparr>"

definition demo_member :: user_row where
  "demo_member = (new_user ''u'' 0 ''a@x.io'' ''A'' ''Passw0rd'')\<lparr>us_totp_secret := Some ''s'', us_totp_enabled := True\<rparr>"

definition demo_login_rq :: http_request where
  "demo_login_rq = demo_console_rq\<lparr>hq_headers := [], hq_body := ''r''\<rparr>"

definition demo_login_state :: "ttl_mem login_state" where
  "demo_login_state = \<lparr>lo_db = demo_auth_db\<lparr>ad_users := [demo_member]\<rparr>,
     lo_redis = \<lparr>tm_keys = [(''pow:challenge:c'', ''rnd:19:a@x.io'', Some 300000)], tm_down = []\<rparr>, lo_events = []\<rparr>"

definition demo_ctx :: login_ctx where
  "demo_ctx = \<lparr>lx_ip = ''1.2.3.4'', lx_user_agent = None, lx_req = demo_login_req, lx_email = ''a@x.io''\<rparr>"

definition demo_session :: AuthSession where
  "demo_session = \<lparr>as_permissions = [''ai_gateway:use''], as_denied_permissions = [], as_roles = [''dev''], as_access_ttl = 9,
     as_cookie_headers = [access_token_cookie ''access'' 9, refresh_token_cookie ''refresh'' 0]\<rparr>"

interpretation demo_laws: login_laws demo_login_env
  by unfold_locales (simp_all add: demo_login_env_def mem_ttl_def map_of_without)

lemma demo_request: "login_request demo_login_env demo_login_rq (Some ''1.2.3.4'') = Inr demo_ctx"
  by code_simp

lemma demo_window: "totp_window demo_login_env"
  by (auto simp: totp_window_def demo_login_env_def demo_verify_step_def split: option.splits if_splits)

definition demo_at :: "(string \<times> string \<times> int option) list \<Rightarrow> ttl_mem login_state" where
  "demo_at ks = demo_login_state\<lparr>lo_redis := \<lparr>tm_keys = ks, tm_down = []\<rparr>\<rparr>"

definition demo_rates :: "(string \<times> string \<times> int option) list" where
  "demo_rates = [(''auth_rate_ip:1.2.3.4'', ''1'', Some 270000), (''auth_rate_ip:1.2.3.4'', ''1'', None),
     (''auth_rate:1.2.3.4:a@x.io'', ''1'', Some 270000), (''auth_rate:1.2.3.4:a@x.io'', ''1'', None)]"

definition demo_done :: "ttl_mem login_state" where
  "demo_done = (demo_at [(''totp_last_step:u'', ''7'', Some 390000), (''auth_rate_ip:1.2.3.4'', ''1'', Some 270000),
     (''auth_rate_ip:1.2.3.4'', ''1'', None)])\<lparr>lo_events := [auth_audit demo_ctx (Some demo_member) ''auth.login'' None]\<rparr>"

lemma demo_stages:
  "verify_login_pow demo_login_env 210000 (lr_pow (lx_req demo_ctx)) (lx_email demo_ctx) demo_login_state = (demo_at [], Inr ())"
  "login_rates demo_login_env 210000 demo_ctx (demo_at []) = (demo_at demo_rates, Inr 1)"
  "check_lockout demo_login_env 210000 demo_ctx (demo_at demo_rates) = Inr ()"
  "check_password demo_login_env (\<lambda>_. None) 210000 demo_ctx 1 (demo_at demo_rates) = (demo_at demo_rates, Inr demo_member)"
  "check_totp demo_login_env (\<lambda>_. None) 210000 demo_ctx demo_member (demo_at demo_rates) =
     (demo_at ((''totp_last_step:u'', ''7'', Some 390000) # demo_rates), Inr Passed)"
  "check_temp_password demo_login_env 210000 demo_ctx demo_member (demo_at ((''totp_last_step:u'', ''7'', Some 390000) # demo_rates)) =
     (demo_at ((''totp_last_step:u'', ''7'', Some 390000) # demo_rates), Inr ())"
  "logged_in demo_login_env (None, None, None) 210000 demo_ctx demo_member (demo_at ((''totp_last_step:u'', ''7'', Some 390000) # demo_rates)) =
     (demo_done, Inr demo_session)"
  "us_password_change_required demo_member = False"
  by code_simp+

lemma demo_login_eq:
  "login demo_login_env (\<lambda>_. None) (None, None, None) 210000 demo_login_rq (Some ''1.2.3.4'') demo_login_state =
   (demo_done, Inr (SessionOpened demo_session False))"
  by (simp add: login_def login_after_pow_def login_user_def demo_request demo_stages)

subsection \<open>Properties\<close>

text \<open>
  (C8) A login that opens a session proved every factor against the state it met: the request names a challenge that was
  stored for this very address and solves it, the account is not locked, an active user with that address has this
  password, a user with the second factor gave a one-time code later than any used before or a recovery code that was
  struck off, and a temporary password is within its day. The session is that user's.
\<close>

theorem login_needs_every_factor:
  assumes "login_laws E" "login E fl errs now rq ip st = (st', Inr (SessionOpened session c))"
  shows "\<exists>x user. login_request E rq ip = Inr x \<and> pow_solved E now x (lo_redis st) \<and>
    ttl_left (le_redis E) now (lockout_key (lx_email x)) (lo_redis st) \<le> 0 \<and>
    find (\<lambda>r. us_email r = lx_email x \<and> active_row r) (ad_users (lo_db st)) = Some user \<and> password_proved E x user \<and>
    (us_totp_enabled user \<longrightarrow> second_factor_proved E now x user st (lo_db st')) \<and>
    (us_password_change_required user \<longrightarrow> temp_password_ok E now user (lo_redis st)) \<and>
    snd (open_session E errs now (us_id user) (us_email user) st') = Inr session"
  using login_laws.login_proof [OF assms] by (smt (verit))

theorem login_needs_every_factor_witness:
  "pow_solved demo_login_env 210000 demo_ctx (lo_redis demo_login_state) \<and>
   password_proved demo_login_env demo_ctx demo_member \<and>
   second_factor_proved demo_login_env 210000 demo_ctx demo_member demo_login_state (lo_db demo_done)"
proof -
  have f: "find (\<lambda>r. us_email r = lx_email demo_ctx \<and> active_row r) (ad_users (lo_db demo_login_state)) = Some demo_member"
    "us_totp_enabled demo_member" by code_simp+
  from login_needs_every_factor [OF demo_laws.login_laws_axioms demo_login_eq] show ?thesis
    using f by (auto simp: demo_request)
qed

text \<open>
  A challenge serves one attempt. Once a login has looked a challenge up, no later login with the same challenge opens a
  session, whatever the handlers and the rest of the server do in between, unless the same id is drawn again.
\<close>

theorem challenge_serves_one_attempt:
  assumes "login_laws E" "login_request E rq ip = Inr x" "lr_pow (lx_req x) = Some sol"
    "rt_err (le_redis E) (lo_redis st) (challenge_key (ps_challenge_id sol)) = None"
    "auth_run E F now (fst (login E fl errs now rq ip st)) t st1" "ps_challenge_id sol \<in> F"
    "login_request E rq2 ip2 = Inr x2" "lr_pow (lx_req x2) = Some sol2" "ps_challenge_id sol2 = ps_challenge_id sol"
  shows "\<exists>err. snd (login E fl2 errs2 t rq2 ip2 st1) = Inl err"
  using login_laws.second_attempt_fails [OF assms] .

theorem challenge_serves_one_attempt_witness:
  "\<exists>err. snd (login demo_login_env (\<lambda>_. None) (None, None, None) 210000 demo_login_rq (Some ''1.2.3.4'') demo_done) = Inl err"
proof -
  have "rt_err (le_redis demo_login_env) (lo_redis demo_login_state) (challenge_key (ps_challenge_id \<lparr>ps_challenge_id = ''c'', ps_nonce = ''n''\<rparr>)) = None"
    by code_simp
  moreover have "auth_run demo_login_env {''c''} 210000 (fst (login demo_login_env (\<lambda>_. None) (None, None, None) 210000 demo_login_rq
      (Some ''1.2.3.4'') demo_login_state)) 210000 demo_done"
    unfolding demo_login_eq fst_conv by (rule run_here)
  ultimately show ?thesis
    by (intro challenge_serves_one_attempt [OF demo_laws.login_laws_axioms demo_request _ _ _ _ demo_request, where F = "{''c''}"])
      (simp_all add: demo_ctx_def demo_login_req_def)
qed

text \<open>
  (C11) A refresh token opens one session. After a refresh with it, and until the token's own end (a minute at least), every
  further refresh with it is refused, whatever happens in between.
\<close>

theorem refresh_token_is_used_once:
  assumes "login_laws E" "refresh E fl errs now rq st = (st1, Inr session)" "presented_refresh E rq = Inr tok"
    "refresh_claims E fl now tok st = Inr cm" "auth_run E F now st1 t st2" "t < max (cm_exp cm * 1000) (now + 60000)"
    "presented_refresh E rq2 = Inr tok"
  shows "\<exists>err. snd (refresh E fl2 errs2 t rq2 st2) = Inl err"
  by (rule login_laws.refresh_fails_while_held [OF assms])

definition demo_refreshed :: "ttl_mem login_state" where
  "demo_refreshed = demo_at [(''refresh_blacklist:r'', ''1'', Some 1000000)]"

lemma demo_refresh:
  "refresh demo_login_env (\<lambda>_. None) (None, None, None) 900000 demo_login_rq (demo_at []) = (demo_refreshed, Inr demo_session)"
  "presented_refresh demo_login_env demo_login_rq = Inr ''r''"
  "refresh_claims demo_login_env (\<lambda>_. None) 900000 ''r'' (demo_at []) = Inr demo_refresh_claims"
  by code_simp+

theorem refresh_token_is_used_once_witness:
  "\<exists>err. snd (refresh demo_login_env (\<lambda>_. None) (None, None, None) 999999 demo_login_rq demo_refreshed) = Inl err"
proof (rule refresh_token_is_used_once [OF demo_laws.login_laws_axioms demo_refresh])
  show "auth_run demo_login_env {} 900000 demo_refreshed 999999 demo_refreshed"
    by (rule run_step [OF run_here]) (auto intro: step_elsewhere)
qed (simp_all add: demo_refresh demo_refresh_claims_def)

text \<open>
  The claim on a refresh token ends with the token, but a token is accepted for the leeway after its end: with the
  default of ten seconds a token that was used before its end opens another session in the seconds after it.
\<close>

theorem refresh_token_replayed_in_leeway:
  "\<exists>st2. refresh demo_login_env (\<lambda>_. None) (None, None, None) 900000 demo_login_rq (demo_at []) = (demo_refreshed, Inr demo_session) \<and>
     refresh demo_login_env (\<lambda>_. None) (None, None, None) 1005000 demo_login_rq demo_refreshed = (st2, Inr demo_session)"
proof -
  have "snd (refresh demo_login_env (\<lambda>_. None) (None, None, None) 1005000 demo_login_rq demo_refreshed) = Inr demo_session"
    by code_simp
  then show ?thesis using demo_refresh(1) by (metis prod.collapse)
qed

text \<open>
  (C10) A one-time code is good for one login. After a login by a code of a time step, a later login of the same user that
  rests on a one-time code needs a later step, at any time and whatever happens in between.
\<close>

theorem one_time_code_logs_in_once:
  assumes "login_laws E" "totp_window E"
    "login E fl errs now rq ip st = (st', Inr (SessionOpened session c))" "login_request E rq ip = Inr x"
    "find (\<lambda>r. us_email r = lx_email x \<and> active_row r) (ad_users (lo_db st)) = Some user" "us_totp_enabled user"
    "lr_totp_code (lx_req x) = Some code" "code_fresh E now user code (lo_redis st)" "totp_step_of E now user code = Some a"
    "auth_run E F now st' t st2"
    "login E fl2 errs2 t rq2 ip2 st2 = (st3, Inr (SessionOpened session2 c2))" "login_request E rq2 ip2 = Inr x2"
    "find (\<lambda>r. us_email r = lx_email x2 \<and> active_row r) (ad_users (lo_db st2)) = Some user2" "us_totp_enabled user2"
    "us_id user2 = us_id user" "lr_totp_code (lx_req x2) = Some code2" "recovery_position E user2 code2 = None"
  shows "\<exists>b. totp_step_of E t user2 code2 = Some b \<and> a < b"
proof -
  have a: "a \<le> now div 1000 div STEP + SKEW"
    using assms(2,9) by (auto simp: totp_step_of_def totp_window_def split: option.splits sum.splits)
  have "step_held (le_redis E) (us_id user) a (now + LAST_STEP_TTL_SECS * 1000) (lo_redis st')"
    by (rule login_laws.login_holds_step [OF assms(1,3-9)])
  from login_laws.step_held_run [OF assms(1,10) this a assms(2)]
  have held_until: "step_held (le_redis E) (us_id user) a (now + LAST_STEP_TTL_SECS * 1000) (lo_redis st2)" .
  have "second_factor_proved E t x2 user2 st2 (lo_db st3)"
    using login_laws.login_proof [OF assms(1,11)] assms(12-14) by force
  then have fresh: "code_fresh E t user2 code2 (lo_redis st2)"
    using assms(16,17) by (simp add: second_factor_proved_def recovery_spent_def)
  then obtain b where b: "totp_step_of E t user2 code2 = Some b" by (auto simp: code_fresh_def split: option.splits)
  with login_laws.fresh_code_is_later [OF assms(1) held_until a assms(2) fresh assms(15) b] show ?thesis by blast
qed

text \<open>The next login of the same user: a challenge is drawn, and the code of the next time step is given.\<close>

definition demo_next_ctx :: login_ctx where "demo_next_ctx = demo_ctx\<lparr>lx_req := demo_next_req\<rparr>"

definition demo_tail :: "(string \<times> string \<times> int option) list" where
  "demo_tail = [(''pow_mint_ip:1.2.3.4'', ''1'', Some 300000), (''pow_mint_ip:1.2.3.4'', ''1'', None),
     (''totp_last_step:u'', ''7'', Some 390000), (''auth_rate_ip:1.2.3.4'', ''1'', Some 270000), (''auth_rate_ip:1.2.3.4'', ''1'', None)]"

definition demo_next_rates :: "(string \<times> string \<times> int option) list" where
  "demo_next_rates = [(''auth_rate_ip:1.2.3.4'', ''2'', Some 270000), (''auth_rate:1.2.3.4:a@x.io'', ''1'', Some 300000),
     (''auth_rate:1.2.3.4:a@x.io'', ''1'', None)] @ demo_tail"

definition demo_then :: "(string \<times> string \<times> int option) list \<Rightarrow> ttl_mem login_state" where
  "demo_then ks = demo_done\<lparr>lo_redis := \<lparr>tm_keys = ks, tm_down = []\<rparr>\<rparr>"

definition demo_minted :: "ttl_mem login_state" where
  "demo_minted = demo_then ((''pow:challenge:d'', ''rnd:19:a@x.io'', Some 540000) # demo_tail)"

definition demo_next_done :: "ttl_mem login_state" where
  "demo_next_done = fst (logged_in demo_login_env (None, None, None) 240000 demo_next_ctx demo_member
     (demo_then ((''totp_last_step:u'', ''8'', Some 420000) # demo_next_rates)))"

lemma demo_mint_stages:
  "require_client_ip demo_login_env (demo_login_rq\<lparr>hq_body := ''a@x.io''\<rparr>) (Some ''1.2.3.4'') = Inr ''1.2.3.4''"
  "in_redis (count_request (le_redis demo_login_env) 240000 (mint_key ''1.2.3.4'')) demo_done = (demo_then demo_tail, Inr 1)"
  "parse_json_body (le_parse_email demo_login_env) 4096 (hq_body (demo_login_rq\<lparr>hq_body := ''a@x.io''\<rparr>)) = Inr ''a@x.io''"
  "normalize_email ''a@x.io'' = ''a@x.io''" "validate_email ''a@x.io'' = Inr ()"
  "fst (store_challenge demo_login_env 240000 (''d'', ''rnd'') ''1.2.3.4'' ''a@x.io'' (demo_then demo_tail)) = demo_minted"
  by code_simp+

lemma demo_mint:
  "fst (issue_pow_challenge demo_login_env 240000 (''d'', ''rnd'') (demo_login_rq\<lparr>hq_body := ''a@x.io''\<rparr>) (Some ''1.2.3.4'') demo_done) =
   demo_minted"
  unfolding issue_pow_challenge_def demo_mint_stages and_next_simps Let_def by (simp add: demo_mint_stages)

lemma demo_mint_run: "auth_run demo_login_env {} 210000 demo_done 240000 demo_minted"
  by (rule run_step [OF run_here]) (simp, metis demo_mint empty_iff step_challenge)

lemma demo_next_stages:
  "login_request demo_login_env (demo_login_rq\<lparr>hq_body := []\<rparr>) (Some ''1.2.3.4'') = Inr demo_next_ctx"
  "verify_login_pow demo_login_env 240000 (lr_pow (lx_req demo_next_ctx)) (lx_email demo_next_ctx) demo_minted = (demo_then demo_tail, Inr ())"
  "login_rates demo_login_env 240000 demo_next_ctx (demo_then demo_tail) = (demo_then demo_next_rates, Inr 1)"
  "check_lockout demo_login_env 240000 demo_next_ctx (demo_then demo_next_rates) = Inr ()"
  "check_password demo_login_env (\<lambda>_. None) 240000 demo_next_ctx 1 (demo_then demo_next_rates) = (demo_then demo_next_rates, Inr demo_member)"
  "check_totp demo_login_env (\<lambda>_. None) 240000 demo_next_ctx demo_member (demo_then demo_next_rates) =
     (demo_then ((''totp_last_step:u'', ''8'', Some 420000) # demo_next_rates), Inr Passed)"
  "check_temp_password demo_login_env 240000 demo_next_ctx demo_member (demo_then ((''totp_last_step:u'', ''8'', Some 420000) # demo_next_rates)) =
     (demo_then ((''totp_last_step:u'', ''8'', Some 420000) # demo_next_rates), Inr ())"
  "snd (logged_in demo_login_env (None, None, None) 240000 demo_next_ctx demo_member
     (demo_then ((''totp_last_step:u'', ''8'', Some 420000) # demo_next_rates))) = Inr demo_session"
  by code_simp+

lemma demo_next_login:
  "login demo_login_env (\<lambda>_. None) (None, None, None) 240000 (demo_login_rq\<lparr>hq_body := []\<rparr>) (Some ''1.2.3.4'') demo_minted =
   (demo_next_done, Inr (SessionOpened demo_session False))"
proof -
  have "logged_in demo_login_env (None, None, None) 240000 demo_next_ctx demo_member
      (demo_then ((''totp_last_step:u'', ''8'', Some 420000) # demo_next_rates)) = (demo_next_done, Inr demo_session)"
    using demo_next_stages(8) by (simp add: demo_next_done_def prod_eq_iff)
  then show ?thesis
    by (simp add: login_def login_after_pow_def login_user_def demo_next_stages demo_stages(8))
qed

theorem one_time_code_logs_in_once_witness: "\<exists>b. totp_step_of demo_login_env 240000 demo_member ''8'' = Some b \<and> 7 < b"
proof -
  have facts: "find (\<lambda>r. us_email r = lx_email demo_ctx \<and> active_row r) (ad_users (lo_db demo_login_state)) = Some demo_member"
    "us_totp_enabled demo_member" "lr_totp_code (lx_req demo_ctx) = Some ''7''"
    "code_fresh demo_login_env 210000 demo_member ''7'' (lo_redis demo_login_state)" "totp_step_of demo_login_env 210000 demo_member ''7'' = Some 7"
    "find (\<lambda>r. us_email r = lx_email demo_next_ctx \<and> active_row r) (ad_users (lo_db demo_minted)) = Some demo_member"
    "lr_totp_code (lx_req demo_next_ctx) = Some ''8''" "recovery_position demo_login_env demo_member ''8'' = None"
    by code_simp+
  show ?thesis
    by (rule one_time_code_logs_in_once [OF demo_laws.login_laws_axioms demo_window demo_login_eq demo_request facts(1-5)
          demo_mint_run demo_next_login demo_next_stages(1) facts(6) facts(2) refl facts(7,8)])
qed

end
