(* ===== verification/Account_Props.thy ===== *)
theory Account_Props
  imports Login_Props
begin

section \<open>Locked accounts, changed passwords and the table of users\<close>

text \<open>
  What the handlers of \<^verbatim>\<open>handlers/auth.rs\<close> do to an account over time: a lock holds whatever else happens, a change of password
  separates the sessions before it from the one it opens, and the rows of the users keep their form.
\<close>

subsection \<open>Locks\<close>

lemma from_sqlx_not_unauthorized: "from_sqlx k \<noteq> Unauthorized"
  by (cases k) simp_all

lemma check_password_refused:
  assumes "check_password E fl now x n st = (st1, Inl Unauthorized)"
  shows "(login_failed E now x n st :: (_, user_row) handled) = (st1, Inl Unauthorized)"
  using assms
  by (auto simp: check_password_def find_active_by_email_def answer_query_def query_error_def from_sqlx_not_unauthorized
      split: option.splits if_splits)

text \<open>
  (C12) When a wrong password reaches a rung of the ladder, by the attempts from one address or by those from all of them together,
  every login for that mail address is refused until the lock ends, the right password and code included. It holds
  through anything the other handlers and the rest of the server do in between. Redis reports the time left rounded to
  the second, so the last half second of the lock is not covered.
\<close>

theorem locked_account_refuses_logins:
  assumes "login_laws E" "check_password E fl now x n st = (st1, Inl Unauthorized)"
    "Option.bind (ttl_get (le_redis E) now (lo_redis st1) (email_fail_key (lx_email x))) parse_int = Some m"
    "ladder_secs (max n m) = Some secs"
    "auth_run E F now st1 t st2" "t + 500 \<le> now + secs * 1000"
    "login_request E rq ip = Inr y" "lx_email y = lx_email x"
  shows "\<exists>err. snd (login E fl2 errs2 t rq ip st2) = Inl err"
proof -
  from login_laws.failed_attempt_locks [OF assms(1) check_password_refused [OF assms(2)] assms(3,4)]
  have "held_until (le_redis E) (lockout_key (lx_email x)) (now + secs * 1000) (lo_redis st1)" .
  from login_laws.held_lock_run [OF assms(1,5) this assms(6)]
  show ?thesis using login_laws.held_lock_refuses [OF assms(1) _ assms(6,7)] assms(8) by simp
qed

definition demo_guess :: login_ctx where
  "demo_guess = demo_ctx\<lparr>lx_req := demo_login_req\<lparr>lr_password := ''Passw0rt''\<rparr>\<rparr>"

text \<open>The fourth failure is on record, and the fifth comes at 210000; half a minute later the member signs in properly.\<close>

definition demo_four :: "ttl_mem login_state" where
  "demo_four = demo_at [(''auth_email_fails:a@x.io'', ''4'', Some 900000)]"

definition demo_four_keys :: "(string \<times> string \<times> int option) list" where
  "demo_four_keys = [(''auth_lockout:a@x.io'', ''1'', Some 270000), (''auth_email_fails:a@x.io'', ''5'', Some 900000),
     (''auth_email_fails:a@x.io'', ''4'', Some 900000)]"

definition demo_locked :: "ttl_mem login_state" where
  "demo_locked = (demo_at ((''auth_fail_subnet:1.2.3.4'', ''1'', Some 810000) # (''auth_fail_subnet:1.2.3.4'', ''1'', None) # demo_four_keys))
     \<lparr>lo_events := [auth_audit demo_guess None ''auth.login_failed'' (Some (JObject [(''email'', JString ''a@x.io'')]))]\<rparr>"

lemma demo_fifth_failure:
  "check_password demo_login_env (\<lambda>_. None) 210000 demo_guess 1 demo_four = (demo_locked, Inl Unauthorized)"
proof -
  have "in_redis (punish (le_redis demo_login_env) 210000 1 (email_fail_key (lx_email demo_guess)) (lockout_key (lx_email demo_guess))) demo_four =
      (demo_at demo_four_keys, Inr ())" by code_simp
  moreover have "with_redis (\<lambda>s. fst (fixed_incr (le_redis demo_login_env) (210000, 210000) (subnet_fail_key demo_login_env (lx_ip demo_guess))
      SUBNET_FAIL_WINDOW_SECS s)) (demo_at demo_four_keys) =
      demo_at ((''auth_fail_subnet:1.2.3.4'', ''1'', Some 810000) # (''auth_fail_subnet:1.2.3.4'', ''1'', None) # demo_four_keys)" by code_simp
  moreover have "find_active_by_email (ge_kind (le_guard demo_login_env)) (\<lambda>_. None) (lo_db demo_four) (lx_email demo_guess) = Inr (Some demo_member)"
    "\<not> verify_password_or_dummy (le_verify_password demo_login_env) (lr_password (lx_req demo_guess)) (us_password_hash demo_member)" by code_simp+
  moreover have "lx_email demo_guess = ''a@x.io''" "lo_events (demo_at ks) = []" for ks
    by (simp_all add: demo_guess_def demo_ctx_def demo_at_def demo_login_state_def)
  ultimately show ?thesis by (simp add: check_password_def login_failed_def log_event_def demo_locked_def)
qed

lemma demo_fifth_count:
  "Option.bind (ttl_get (le_redis demo_login_env) 210000 (lo_redis demo_locked) (email_fail_key (lx_email demo_guess))) parse_int = Some 5"
  by code_simp

theorem locked_account_refuses_logins_witness:
  "\<exists>err. snd (login demo_login_env (\<lambda>_. None) (None, None, None) 210000 demo_login_rq (Some ''1.2.3.4'') demo_locked) = Inl err"
  by (rule locked_account_refuses_logins [OF demo_laws.login_laws_axioms demo_fifth_failure demo_fifth_count _ run_here _ demo_request, where secs = 60])
    (simp_all add: ladder_secs_def demo_guess_def)

subsection \<open>A change of password\<close>

lemma open_session_Inr:
  assumes "open_session E errs now u email st = (st', Inr session)"
  obtains access refresh_token where "st' = st"
    "le_encode E (token_claims ''access'' now u email (le_access_ttl E)) = Inr access"
    "le_encode E (token_claims ''refresh'' now u email (le_refresh_ttl_days E * 86400)) = Inr refresh_token"
    "as_cookie_headers session = [access_token_cookie access (le_access_ttl E), refresh_token_cookie refresh_token (le_refresh_ttl_days E * 86400)]"
  using assms
  by (auto simp: open_session_def issue_auth_session_def create_access_token_with_ttl_def create_refresh_token_with_ttl_def
      split: sum.splits prod.splits)

lemma check_old_password_Inr:
  assumes "check_old_password E now u old h s = (s', Inr ())" shows "le_verify_password E old h = Inr True"
  using assms by (auto simp: check_old_password_def Let_def and_then_def prod_eq_iff split: sum.splits bool.splits)

lemma change_password_Inr:
  assumes "change_password E fl errs t down au old new st = (st', Inr session)"
  obtains user h0 h s1 st1 where
    "find (\<lambda>r. us_id r = cm_sub (au_claims au) \<and> active_row r) (ad_users (lo_db st)) = Some user"
    "us_password_hash user = Some h0" "le_verify_password E old h0 = Inr True" "validate_password new = Inr ()"
    "le_hash_password E new = Inr h"
    "lo_db st' = map_users (\<lambda>r. us_id r = us_id user)
       (\<lambda>r. r\<lparr>us_password_hash := Some h, us_password_change_required := False, us_updated_at := cg_check t * 1000\<rparr>) (lo_db st)"
    "lo_redis st' = clear_signing_key_slot (le_redis E) (us_id user) (end_sessions E (cg_epoch t) down (us_id user) s1)"
    "open_session E errs (cg_session t) (us_id user) (us_email user) st1 = (st', Inr session)"
proof -
  let ?found = "find_active (ge_kind (le_guard E)) fl (lo_db st) (cm_sub (au_claims au))"
  from assms have v: "validate_password new = Inr ()" by (auto simp: change_password_def and_next_Inr)
  with assms obtain found where found: "?found = Inr found" by (cases ?found) (auto simp: change_password_def)
  with assms v obtain user where user: "found = Some user" by (cases found) (auto simp: change_password_def)
  with assms v found obtain h0 where h0: "us_password_hash user = Some h0"
    by (cases "us_password_hash user") (auto simp: change_password_def)
  with assms v found user obtain st2 h st3 where c: "in_redis (check_old_password E (cg_check t) (us_id user) old h0) st = (st2, Inr ())"
    and h: "le_hash_password E new = Inr h"
    and d: "in_db (set_own_password (ge_kind (le_guard E)) fl (cg_check t * 1000) (us_id user) h) st2 = (st3, Inr ())"
    and o: "open_session E errs (cg_session t) (us_id user) (us_email user)
        (with_redis (clear_signing_key_slot (le_redis E) (us_id user))
          (log_event (user_audit au ''auth.password_changed'' (Some ''auth''))
            (with_redis (\<lambda>s. end_sessions E (cg_epoch t) down (us_id user)
              (clear_temporary_password_marker (le_redis E) (us_id user) (del_best_effort (le_redis E) (pubkey_key (us_id user)) s))) st3)))
        = (st', Inr session)"
    by (cases "le_hash_password E new") (auto simp: change_password_def and_next_Inr)
  from c have "check_old_password E (cg_check t) (us_id user) old h0 (lo_redis st) = (lo_redis st2, Inr ())" "lo_db st2 = lo_db st"
    by (auto simp: in_redis_def split: prod.splits)
  moreover from d have "lo_db st3 = map_users (\<lambda>r. us_id r = us_id user)
      (\<lambda>r. r\<lparr>us_password_hash := Some h, us_password_change_required := False, us_updated_at := cg_check t * 1000\<rparr>) (lo_db st2)"
    by (auto simp: in_db_def set_own_password_def on_user_def split: prod.splits option.splits)
  moreover have "lo_db st' = lo_db st3" "\<exists>s1. lo_redis st' = clear_signing_key_slot (le_redis E) (us_id user) (end_sessions E (cg_epoch t) down (us_id user) s1)"
    using o by (auto simp: open_session_def)
  moreover from found user have "find (\<lambda>r. us_id r = cm_sub (au_claims au) \<and> active_row r) (ad_users (lo_db st)) = Some user"
    by (auto simp: find_active_def answer_query_def split: option.splits)
  ultimately show thesis using that [OF _ h0 _ v h _ _ o] by (auto dest: check_old_password_Inr)
qed

lemma new_session_follows: "(snd :: int \<times> int \<Rightarrow> int) ts + 1100 \<le> now \<Longrightarrow> t \<le> snd ts \<Longrightarrow> t div 1000 < now div 1000"
  by linarith


definition demo_week_env :: "ttl_mem login_env" where
  "demo_week_env = demo_login_env\<lparr>le_refresh_ttl_days := 7\<rparr>"

interpretation demo_week: login_laws demo_week_env
  by unfold_locales (simp_all add: demo_week_env_def demo_login_env_def mem_ttl_def map_of_without)

definition demo_times :: change_times where
  "demo_times = \<lparr>cg_check = 0, cg_epoch = (0, 100), cg_session = 1200\<rparr>"

definition demo_renewed_member :: user_row where
  "demo_renewed_member = demo_member\<lparr>us_password_hash := Some ''Passw0rd2'', us_password_change_required := False, us_updated_at := 0\<rparr>"

definition demo_renewed :: "(string \<times> string \<times> int option) list \<Rightarrow> auth_event list \<Rightarrow> ttl_mem login_state" where
  "demo_renewed ks es = \<lparr>lo_db = demo_auth_db\<lparr>ad_users := [demo_renewed_member]\<rparr>, lo_redis = \<lparr>tm_keys = ks, tm_down = []\<rparr>, lo_events = es\<rparr>"

definition demo_week_session :: AuthSession where
  "demo_week_session = demo_session\<lparr>as_cookie_headers := [access_token_cookie ''access'' 9, refresh_token_cookie ''refresh'' (7 * 86400)]\<rparr>"

definition demo_changed :: "ttl_mem login_state" where
  "demo_changed = demo_renewed [(''pw_epoch:u'', ''0'', Some 604800100)] [user_audit demo_au ''auth.password_changed'' (Some ''auth'')]"

lemma demo_change_stages:
  "validate_password ''Passw0rd2'' = Inr ()"
  "find_active (ge_kind (le_guard demo_week_env)) (\<lambda>_. None) (lo_db (demo_at [])) (cm_sub (au_claims demo_au)) = Inr (Some demo_member)"
  "us_password_hash demo_member = Some ''Passw0rd''"
  "is_locked (le_redis demo_week_env) 0 (pwchange_locked_key ''u'') (lo_redis (demo_at [])) = Inr False"
  "le_verify_password demo_week_env ''Passw0rd'' ''Passw0rd'' = Inr True"
  "clear_keys (le_redis demo_week_env) [pwchange_fail_key ''u'', pwchange_locked_key ''u''] (lo_redis (demo_at [])) = lo_redis (demo_at [])"
  "le_hash_password demo_week_env ''Passw0rd2'' = Inr ''Passw0rd2''"
  "in_db (set_own_password (ge_kind (le_guard demo_week_env)) (\<lambda>_. None) 0 ''u'' ''Passw0rd2'') (demo_at []) = (demo_renewed [] [], Inr ())"
  "us_id demo_member = ''u''" "us_email demo_member = ''a@x.io''"
  "with_redis (\<lambda>s. end_sessions demo_week_env (0, 100) (True, False) ''u'' (clear_temporary_password_marker (le_redis demo_week_env) ''u''
     (del_best_effort (le_redis demo_week_env) (pubkey_key ''u'') s))) (demo_renewed [] []) = demo_renewed [(''pw_epoch:u'', ''0'', Some 604800100)] []"
  "with_redis (clear_signing_key_slot (le_redis demo_week_env) ''u'') demo_changed = demo_changed"
  "load_user_role_names None (rbac_part (ad_limits (lo_db demo_changed))) ''u'' = Inr [''dev'']"
  "compute_perms (le_guard demo_week_env) (None, None) (rbac_part (ad_limits (lo_db demo_changed))) ''u'' = Inr ([''ai_gateway:use''], [])"
  by code_simp+

lemma demo_change:
  "change_password demo_week_env (\<lambda>_. None) (None, None, None) demo_times (True, False) demo_au ''Passw0rd'' ''Passw0rd2'' (demo_at []) =
   (demo_changed, Inr demo_week_session)"
proof -
  have "log_event (user_audit demo_au ''auth.password_changed'' (Some ''auth'')) (demo_renewed [(''pw_epoch:u'', ''0'', Some 604800100)] []) = demo_changed"
    by (simp add: log_event_def demo_renewed_def demo_changed_def)
  moreover have "in_redis (check_old_password demo_week_env 0 ''u'' ''Passw0rd'' ''Passw0rd'') (demo_at []) = (demo_at [], Inr ())"
    by (simp add: in_redis_def check_old_password_def demo_change_stages)
  moreover have "open_session demo_week_env (None, None, None) 1200 ''u'' ''a@x.io'' demo_changed = (demo_changed, Inr demo_week_session)"
    unfolding open_session_def issue_auth_session_def create_access_token_with_ttl_def create_refresh_token_with_ttl_def
    by (simp only: fst_conv snd_conv demo_change_stages sum.case prod.case)
      (simp only: demo_week_env_def demo_login_env_def demo_week_session_def demo_session_def token_claims_def login_env.simps AuthClaims.simps
         AuthSession.simps sum.case refl)
  ultimately show ?thesis by (simp add: change_password_def demo_change_stages demo_times_def)
qed


subsection \<open>The rows of the users\<close>

text \<open>
  The form of the table: ids and lower-case addresses are unique, a name fits its column, and a row has a secret and recovery
  codes exactly when its second factor is on.
\<close>

definition account_ok :: "user_row \<Rightarrow> bool" where
  "account_ok r \<longleftrightarrow> chars_count (us_display_name r) \<le> 255 \<and>
     (if us_totp_enabled r then us_totp_secret r \<noteq> None \<and> us_totp_recovery_codes r \<noteq> None
      else us_totp_secret r = None \<and> us_totp_recovery_codes r = None)"

definition accounts_ok :: "auth_db \<Rightarrow> bool" where
  "accounts_ok db \<longleftrightarrow> distinct (map us_id (ad_users db)) \<and> distinct (map (\<lambda>r. map to_lowercase (us_email r)) (ad_users db)) \<and>
     list_all account_ok (ad_users db)"

lemma accounts_ok_map_users:
  assumes "accounts_ok db" "\<And>r. account_ok r \<Longrightarrow> P r \<Longrightarrow> account_ok (f r)" "\<And>r. us_id (f r) = us_id r" "\<And>r. us_email (f r) = us_email r"
  shows "accounts_ok (map_users P f db)"
proof -
  have "map us_id (ad_users (map_users P f db)) = map us_id (ad_users db)"
    "map (\<lambda>r. map to_lowercase (us_email r)) (ad_users (map_users P f db)) = map (\<lambda>r. map to_lowercase (us_email r)) (ad_users db)"
    using assms(3,4) by (simp_all add: map_users_def comp_def if_distrib [of us_id] if_distrib [of us_email] cong: if_cong)
  moreover have "list_all account_ok (ad_users (map_users P f db))"
    using assms(1,2) by (auto simp: accounts_ok_def map_users_def list_all_iff)
  ultimately show ?thesis using assms(1) unfolding accounts_ok_def by simp
qed

lemma accounts_ok_cong: "ad_users db' = ad_users db \<Longrightarrow> accounts_ok db' \<longleftrightarrow> accounts_ok db"
  by (simp add: accounts_ok_def)

lemma keeps_db_and_next:
  "P (lo_db (fst r)) \<Longrightarrow> (\<And>x st1. P (lo_db st1) \<Longrightarrow> P (lo_db (fst (f x st1)))) \<Longrightarrow> P (lo_db (fst (and_next r f)))"
  by (cases r; cases "snd r") (auto simp: and_next_def)

lemma accounts_ok_insert:
  assumes "accounts_ok db" "us_id r \<notin> us_id ` set (ad_users db)" "\<not> us_totp_enabled r" "us_totp_secret r = None" "us_totp_recovery_codes r = None"
  shows "accounts_ok (fst (insert_user_unless_taken K fl r db))"
  using assms by (auto simp: insert_user_unless_taken_def accounts_ok_def account_ok_def list_ex_iff split: option.splits)

lemma accounts_ok_insert_registered:
  assumes "accounts_ok db" "us_id r \<notin> us_id ` set (ad_users db)" "\<not> us_totp_enabled r" "us_totp_secret r = None" "us_totp_recovery_codes r = None"
  shows "accounts_ok (fst (insert_registered E fl r db))"
proof -
  have role: "ad_users db2 = ad_users db1" if "assign_default_role K fl u name db1 = (db2, out)" for K u name db1 db2 out
    using that by (auto simp: assign_default_role_def Let_def split: option.splits)
  obtain db1 i where i: "insert_user_unless_taken (ge_kind (le_guard E)) fl r db = (db1, i)" by (metis surj_pair)
  with accounts_ok_insert [OF assms, of "ge_kind (le_guard E)" fl] have ok: "accounts_ok db1" by simp
  have same: "u = r" if "i = Inr (Some u)" for u
    using i that by (auto simp: insert_user_unless_taken_def split: option.splits if_splits)
  obtain db2 out where o: "(case le_default_role E of None \<Rightarrow> (db1, Inr ()) | Some name \<Rightarrow> assign_default_role (ge_kind (le_guard E)) fl (us_id r) name db1) = (db2, out)"
    by (metis surj_pair)
  have "accounts_ok db2"
  proof (cases "le_default_role E")
    case None
    with o ok show ?thesis by simp
  next
    case (Some name)
    with o have "assign_default_role (ge_kind (le_guard E)) fl (us_id r) name db1 = (db2, out)" by simp
    with ok accounts_ok_cong [OF role [OF this]] show ?thesis by simp
  qed
  moreover have "fst (insert_registered E fl r db) \<in> {db, db2}"
  proof (cases i)
    case (Inr found)
    show ?thesis
    proof (cases found)
      case (Some u)
      with Inr same have "u = r" by simp
      with Inr Some i o show ?thesis by (cases out) (simp_all add: insert_registered_def Let_def case_unit_Unity split: option.split)
    qed (use i Inr in \<open>simp add: insert_registered_def Let_def\<close>)
  qed (use i in \<open>simp add: insert_registered_def Let_def\<close>)
  ultimately show ?thesis using assms(1) by auto
qed

lemma accounts_ok_on_user:
  assumes "accounts_ok db" "\<And>r. account_ok r \<Longrightarrow> account_ok (f r)" "\<And>r. us_id (f r) = us_id r" "\<And>r. us_email (f r) = us_email r"
  shows "accounts_ok (fst (on_user q f K fl u db))"
  using accounts_ok_map_users [OF assms(1) assms(2) assms(3,4)] assms(1) by (simp add: on_user_def split: option.split)

lemma accounts_ok_updates:
  assumes "accounts_ok db"
  shows "accounts_ok (fst (set_own_password K fl now u h db))" "accounts_ok (fst (enable_totp K fl now u secret codes db))"
    "accounts_ok (fst (disable_totp K fl now u db))" "accounts_ok (fst (swap_recovery_codes K fl u old new db))"
    "accounts_ok (soft_delete_account now u db)"
proof -
  show "accounts_ok (fst (set_own_password K fl now u h db))" unfolding set_own_password_def
    by (rule accounts_ok_on_user [OF assms]) (simp_all add: account_ok_def)
  show "accounts_ok (fst (enable_totp K fl now u secret codes db))" unfolding enable_totp_def
    by (rule accounts_ok_on_user [OF assms]) (simp_all add: account_ok_def)
  show "accounts_ok (fst (disable_totp K fl now u db))" unfolding disable_totp_def
    by (rule accounts_ok_on_user [OF assms]) (simp_all add: account_ok_def)
  show "accounts_ok (fst (swap_recovery_codes K fl u old new db))"
  proof -
    have "accounts_ok (map_users (\<lambda>r. us_id r = u \<and> us_totp_recovery_codes r = Some old) (\<lambda>r. r\<lparr>us_totp_recovery_codes := Some new\<rparr>) db)"
      by (rule accounts_ok_map_users [OF assms]) (auto simp: account_ok_def split: if_splits)
    with assms show ?thesis by (simp add: swap_recovery_codes_def Let_def split: option.split)
  qed
  show "accounts_ok (soft_delete_account now u db)" unfolding soft_delete_account_def
    by (rule accounts_ok_map_users) (use assms in \<open>simp_all add: account_ok_def accounts_ok_def map_keys_def\<close>)
qed

text \<open>The stages of a login: only a recovery code changes the table.\<close>

lemma accounts_ok_login:
  assumes "accounts_ok (lo_db st)" shows "accounts_ok (lo_db (fst (login E fl errs now rq ip st)))"
proof -
  have pow: "lo_db (fst (verify_login_pow E now sol em st)) = lo_db st" for sol em st
    by (simp add: verify_login_pow_def Let_def split: option.split)
  have rates: "lo_db (fst (login_rates E now x st)) = lo_db st" for x st
    unfolding login_rates_def by (rule keeps_db_and_next [where P = "\<lambda>d. d = lo_db st"]) (auto intro!: keeps_db_and_next [where P = "\<lambda>d. d = lo_db st"])
  have failed: "lo_db (fst (login_failed E now x n st)) = lo_db st" for x n st
    unfolding login_failed_def by (rule keeps_db_and_next [where P = "\<lambda>d. d = lo_db st"]) simp_all
  have pass: "lo_db (fst (check_password E fl now x n st)) = lo_db st" for x n st
    unfolding check_password_def by (rule keeps_db_and_next [where P = "\<lambda>d. d = lo_db st"]) (simp_all add: failed split: option.split)
  have tfailed: "lo_db (fst (totp_failed E now x user b st)) = lo_db st" for x user b st
    unfolding totp_failed_def by (rule keeps_db_and_next [where P = "\<lambda>d. d = lo_db st"]) simp_all
  have race: "lo_db (fst (race_lost E now x user st)) = lo_db st" for x user st
    by (simp add: race_lost_def Let_def split: prod.split)
  have totp: "lo_db (fst (try_totp E now user code st)) = lo_db st" for user code st
    unfolding try_totp_def
    by (auto intro!: keeps_db_and_next [where P = "\<lambda>d. d = lo_db st"] split: option.split sum.split)
  have recovery: "accounts_ok (lo_db (fst (try_recovery E fl now x user code b st)))" if "accounts_ok (lo_db st)" for x user code b st
    unfolding try_recovery_def using that
    by (auto simp: tfailed race accounts_ok_updates intro!: keeps_db_and_next [where P = accounts_ok] split: option.split)
  have code: "accounts_ok (lo_db (fst (use_code E fl now x user code st)))" if "accounts_ok (lo_db st)" for x user code st
    unfolding use_code_def using that
    by (auto simp: totp recovery intro!: keeps_db_and_next [where P = accounts_ok])
  have second: "accounts_ok (lo_db (fst (check_totp E fl now x user st)))" if "accounts_ok (lo_db st)" for x user st
    unfolding check_totp_def using that
    by (auto simp: code intro!: keeps_db_and_next [where P = accounts_ok] split: option.split)
  have temp: "lo_db (fst (check_temp_password E now x user st)) = lo_db st" for x user st
    by (simp add: check_temp_password_def Let_def)
  have "lo_db (fst (logged_in E errs now x user st)) = lo_db st" for x user st
    by (simp add: logged_in_def open_session_def)
  then have user: "accounts_ok (lo_db (fst (login_user E fl errs now x user st)))" if "accounts_ok (lo_db st)" for x user st
    unfolding login_user_def using that
    by (auto simp: second temp intro!: keeps_db_and_next [where P = accounts_ok] split: second_factor.split)
  show ?thesis
    unfolding login_def login_after_pow_def using assms
    by (auto simp: pow rates pass user intro!: keeps_db_and_next [where P = accounts_ok])
qed

lemma accounts_ok_register:
  assumes "accounts_ok (lo_db st)" "new_id \<notin> us_id ` set (ad_users (lo_db st))"
  shows "accounts_ok (lo_db (fst (register E fl errs now new_id rq ip st)))"
proof -
  have ins: "accounts_ok (fst (insert_registered E fl (new_user new_id t em nm h) (lo_db st)))" for t em nm h
    by (rule accounts_ok_insert_registered [OF assms(1)]) (use assms(2) in \<open>simp_all add: new_user_def\<close>)
  show ?thesis
  proof (cases "checked_registration E rq ip")
    case (Inr c)
    then show ?thesis
      unfolding register_def using assms(1)
      by (cases c) (auto simp: ins open_session_def intro!: keeps_db_and_next [where P = accounts_ok] split: sum.split option.split)
  qed (use assms(1) in \<open>simp add: register_def\<close>)
qed

lemma accounts_ok_account:
  assumes "accounts_ok (lo_db st)"
  shows "accounts_ok (lo_db (fst (change_password E fl errs t down au old new st)))"
    "accounts_ok (lo_db (fst (delete_account E fl now ts down au st)))"
    "accounts_ok (lo_db (fst (totp_verify_setup E fl now au code st)))"
    "accounts_ok (lo_db (fst (totp_disable E fl now au old st)))"
proof -
  show "accounts_ok (lo_db (fst (change_password E fl errs t down au old new st)))"
    unfolding change_password_def using assms
    by (auto simp: accounts_ok_updates open_session_def intro!: keeps_db_and_next [where P = accounts_ok] split: option.split)
  show "accounts_ok (lo_db (fst (delete_account E fl now ts down au st)))"
    using assms by (simp add: delete_account_def Let_def accounts_ok_updates split: option.split)
  show "accounts_ok (lo_db (fst (totp_verify_setup E fl now au code st)))"
    unfolding totp_verify_setup_def Let_def using assms
    by (auto simp: accounts_ok_updates intro!: keeps_db_and_next [where P = accounts_ok] split: sum.split option.split)
  show "accounts_ok (lo_db (fst (totp_disable E fl now au old st)))"
    unfolding totp_disable_def using assms
    by (auto simp: accounts_ok_updates intro!: keeps_db_and_next [where P = accounts_ok] split: sum.split option.split bool.split)
qed


definition demo_plain :: "ttl_mem login_state" where
  "demo_plain = demo_login_state\<lparr>lo_db := demo_auth_db\<lparr>ad_users := [new_user ''u'' 0 ''b@x.io'' ''B'' ''Passw0rd'']\<rparr>\<rparr>"


end
