(* ===== verification/Admin_Props.thy ===== *)
theory Admin_Props
  imports Team_Admin Account_Props
begin

section \<open>Who holds the platform\<close>

text \<open>
  The super administrators of an installation: that the handlers of users and roles never leave it without one, that the handlers
  of users let only a super administrator make another, and what the handlers of roles and teams let through.
\<close>

subsection \<open>Super administrators in the tables\<close>

definition has_role :: "rbac_db \<Rightarrow> uuid \<Rightarrow> uuid \<Rightarrow> bool" where
  "has_role rb u i \<longleftrightarrow> (\<exists>a \<in> set (role_assignments rb). ra_user_id a = u \<and> ra_role_id a = i) \<or>
     (\<exists>t. (t, u) \<in> set (team_members rb) \<and> (t, i) \<in> set (team_role_assignments rb))"

lemma has_role_iff: "i \<in> set (direct_role_ids rb u @ team_role_ids rb u) \<longleftrightarrow> has_role rb u i"
  by (auto simp: has_role_def direct_role_ids_def team_role_ids_def)

lemma holds_super_admin_iff:
  "holds_super_admin rb u \<longleftrightarrow> (\<exists>r \<in> set (roles rb). role_name r = ''super_admin'' \<and> has_role rb u (role_id r))"
proof -
  have "holds_super_admin rb u \<longleftrightarrow> (\<exists>i. i \<in> set (direct_role_ids rb u @ team_role_ids rb u) \<and> i \<in> set (super_admin_role_ids rb))"
    by (auto simp: holds_super_admin_def list_ex_iff List.member_iff)
  then show ?thesis unfolding has_role_iff by (auto simp: super_admin_role_ids_def)
qed

definition quorum :: "auth_db \<Rightarrow> bool" where
  "quorum db \<longleftrightarrow> super_admin_ids db \<noteq> []"

lemma quorum_iff: "quorum db \<longleftrightarrow> (\<exists>r \<in> set (ad_users db). active_row r \<and> holds_super_admin (rbac_of db) (us_id r))"
proof -
  have "quorum db \<longleftrightarrow> set (super_admin_ids db) \<noteq> {}" by (simp add: quorum_def)
  then show ?thesis by (auto simp: super_admin_ids_def)
qed

lemma quorum_mono:
  assumes "quorum db"
    and "\<And>r. r \<in> set (ad_users db) \<Longrightarrow> active_row r \<Longrightarrow> \<exists>r' \<in> set (ad_users db'). active_row r' \<and> us_id r' = us_id r"
    and "\<And>u. u \<in> us_id ` set (ad_users db) \<Longrightarrow> holds_super_admin (rbac_of db) u \<Longrightarrow> holds_super_admin (rbac_of db') u"
  shows "quorum db'"
  using assms unfolding quorum_iff by (metis imageI)

lemma quorum_cong: "ad_users db' = ad_users db \<Longrightarrow> rbac_of db' = rbac_of db \<Longrightarrow> quorum db' = quorum db"
  by (simp add: quorum_iff)

lemma quorum_map_users:
  assumes "quorum db" "\<And>r. us_id (f r) = us_id r" "\<And>r. active_row r \<Longrightarrow> active_row (f r)"
  shows "quorum (map_users P f db)"
proof (rule quorum_mono [OF assms(1)])
  fix r assume "r \<in> set (ad_users db)" "active_row r"
  then show "\<exists>r' \<in> set (ad_users (map_users P f db)). active_row r' \<and> us_id r' = us_id r"
    using assms(2,3) by (intro bexI [of _ "if P r then f r else r"]) (auto simp: map_users_def)
qed (simp add: map_users_def)

lemma asserted_quorum: "assert_super_admin_quorum K fl db = (db', Inr x) \<Longrightarrow> db' = db \<and> quorum db"
  by (auto simp: assert_super_admin_quorum_def quorum_def split: option.splits if_splits)

subsection \<open>Statements and transactions\<close>

lemma and_db_Inr: "and_db f g db = (db', Inr y) \<longleftrightarrow> (\<exists>db1 x. f db = (db1, Inr x) \<and> g x db1 = (db', Inr y))"
  by (auto simp: and_db_def split: prod.splits sum.splits)

lemma run_stmt_Inr: "run_stmt K fl q f db = (db', Inr x) \<longleftrightarrow> query_error K fl q = None \<and> db' = f db"
  by (auto simp: run_stmt_def split: option.splits)

lemma in_tx_keeps:
  assumes "P db" "\<And>db1 x. f db = (db1, Inr x) \<Longrightarrow> P db1"
  shows "P (fst (in_tx K fl f db))"
  using assms by (cases "f db"; cases "snd (f db)") (auto simp: in_tx_def split: option.splits)

lemma rbac_with_rbac [simp]: "rbac_of (with_rbac f db) = f (rbac_of db)" "ad_users (with_rbac f db) = ad_users db"
  by (simp_all add: with_rbac_def)

lemma rbac_map_users [simp]: "rbac_of (map_users P f db) = rbac_of db"
  by (simp add: map_users_def)

lemma parts_map_keys [simp]: "rbac_of (map_keys P f db) = rbac_of db" "ad_users (map_keys P f db) = ad_users db"
  by (simp_all add: map_keys_def)

text \<open>A check that does not touch the state, and a change of the tables with what follows it.\<close>

lemma keeps_checked:
  assumes "P (lo_db st)" "\<And>v. x = Inr v \<Longrightarrow> P (lo_db (fst (f v st)))"
  shows "P (lo_db (fst (and_next (st, x) f)))"
  using assms by (cases x) simp_all

lemma keeps_in_db:
  assumes "P (fst (g (lo_db st)))" "\<And>v st1. P (lo_db st1) \<Longrightarrow> P (lo_db (fst (f v st1)))"
  shows "P (lo_db (fst (and_next (in_db g st) f)))"
  by (rule keeps_db_and_next) (use assms in simp_all)

text \<open>The roles of one user are rewritten, and only to the roles asked for.\<close>

definition reassigned :: "uuid \<Rightarrow> uuid set \<Rightarrow> rbac_db \<Rightarrow> rbac_db \<Rightarrow> bool" where
  "reassigned u ids rb rb' \<longleftrightarrow> roles rb' = roles rb \<and> team_members rb' = team_members rb \<and>
     team_role_assignments rb' = team_role_assignments rb \<and>
     (\<forall>a. a \<in> set (role_assignments rb') \<longrightarrow> a \<in> set (role_assignments rb) \<or> ra_user_id a = u \<and> ra_role_id a \<in> ids) \<and>
     (\<forall>a. a \<in> set (role_assignments rb) \<longrightarrow> ra_user_id a \<noteq> u \<longrightarrow> a \<in> set (role_assignments rb'))"

lemma reassigned_refl [simp]: "reassigned u ids rb rb"
  by (simp add: reassigned_def)

lemma reassigned_trans: "reassigned u ids rb rb1 \<Longrightarrow> reassigned u ids rb1 rb2 \<Longrightarrow> reassigned u ids rb rb2"
  unfolding reassigned_def by metis

lemma reassigned_mono: "reassigned u ids rb rb' \<Longrightarrow> ids \<subseteq> ids' \<Longrightarrow> reassigned u ids' rb rb'"
  unfolding reassigned_def by blast

lemma insert_role_assignment_effect:
  assumes "insert_role_assignment K fl u role kind scope db = (db', r)"
  shows "reassigned u {role} (rbac_of db) (rbac_of db') \<and> ad_users db' = ad_users db"
  using assms
  by (auto simp: insert_role_assignment_def reassigned_def add_assignment_def split: option.splits if_splits)

lemma insert_assignments_effect:
  assumes "insert_assignments K fl parse u as db = (db', r)"
  shows "reassigned u (rq_role_id ` set as) (rbac_of db) (rbac_of db') \<and> ad_users db' = ad_users db"
  using assms
proof (induction as arbitrary: db db' r)
  case (Cons a as)
  let ?ids = "rq_role_id ` set (a # as)"
  show ?case
  proof (cases "parse_scope parse (unwrap_or (rq_scope a) ''global'')")
    case (Inr sc)
    obtain kind scope where sc: "sc = (kind, scope)" by fastforce
    obtain db1 r1 where i: "insert_role_assignment K fl u (rq_role_id a) kind scope db = (db1, r1)" by fastforce
    have one: "reassigned u ?ids (rbac_of db) (rbac_of db1)" "ad_users db1 = ad_users db"
      using insert_role_assignment_effect [OF i] by (auto intro: reassigned_mono)
    show ?thesis
    proof (cases r1)
      case (Inr v)
      obtain name sys where v: "v = (name, sys)" by fastforce
      obtain db2 r2 where rest: "insert_assignments K fl parse u as db1 = (db2, r2)" by fastforce
      have "reassigned u ?ids (rbac_of db1) (rbac_of db2)" "ad_users db2 = ad_users db1"
        using Cons.IH [OF rest] by (auto intro: reassigned_mono)
      moreover have "db' = db2"
        using Cons.prems sc i Inr v rest \<open>parse_scope parse (unwrap_or (rq_scope a) ''global'') = Inr sc\<close> by (cases r2) (auto simp: Let_def)
      ultimately show ?thesis using one reassigned_trans by metis
    qed (use Cons.prems Inr sc i one in \<open>auto simp: Let_def\<close>)
  qed (use Cons.prems in \<open>auto simp: Let_def\<close>)
qed simp

lemma write_user_role_assignments_effect:
  assumes "write_user_role_assignments K fl parse u as db = (db', Inr out)"
  shows "reassigned u (rq_role_id ` set as) (rbac_of db) (rbac_of db') \<and> ad_users db' = ad_users db"
proof -
  obtain db1 where d: "delete_role_assignments K fl u db = (db1, Inr ())" and i: "insert_assignments K fl parse u as db1 = (db', Inr out)"
    using assms by (auto simp: write_user_role_assignments_def and_db_Inr)
  have "reassigned u (rq_role_id ` set as) (rbac_of db) (rbac_of db1) \<and> ad_users db1 = ad_users db"
    using d by (auto simp: delete_role_assignments_def run_stmt_Inr reassigned_def)
  with insert_assignments_effect [OF i] show ?thesis using reassigned_trans by metis
qed

lemma super_admin_escalates:
  assumes "reassigned u ids rb rb'" "holds_super_admin rb' v" "\<not> holds_super_admin rb v"
  shows "''super_admin'' \<in> role_name ` {r \<in> set (roles rb). role_id r \<in> ids}"
proof -
  obtain r where r: "r \<in> set (roles rb)" "role_name r = ''super_admin''" "has_role rb' v (role_id r)"
    using assms(1,2) by (auto simp: holds_super_admin_iff reassigned_def)
  moreover have "\<not> has_role rb v (role_id r)" using assms(3) r by (auto simp: holds_super_admin_iff)
  ultimately have "role_id r \<in> ids" using assms(1) by (auto simp: reassigned_def has_role_def)
  with r show ?thesis by force
qed

lemma reassigned_others:
  assumes "reassigned u ids rb rb'" "holds_super_admin rb v" "v \<noteq> u"
  shows "holds_super_admin rb' v"
proof -
  have "has_role rb' v i" if "has_role rb v i" for i
    using assms(1,3) that unfolding reassigned_def has_role_def by metis
  then show ?thesis using assms(1,2) by (auto simp: holds_super_admin_iff reassigned_def)
qed

subsection \<open>The handlers of users\<close>

lemma check_requested_Inr: "check_requested s a names = Inr x \<Longrightarrow> ''super_admin'' \<in> set names \<Longrightarrow> s"
  by (induction names) (auto split: if_splits)

lemma caller_holds:
  assumes "List.member (caller_role_names fl db au) ''super_admin''"
  shows "holds_super_admin (rbac_of db) (cm_sub (au_claims au))"
proof -
  have "''super_admin'' \<in> set (btree (map role_name (roles_with_ids (rbac_of db)
     (direct_role_ids (rbac_of db) (cm_sub (au_claims au)) @ team_role_ids (rbac_of db) (cm_sub (au_claims au))))))"
    using assms by (auto simp: caller_role_names_def load_user_role_names_def List.member_iff split: option.splits)
  then obtain r where "r \<in> set (roles (rbac_of db))" "role_name r = ''super_admin''"
      "role_id r \<in> set (direct_role_ids (rbac_of db) (cm_sub (au_claims au)) @ team_role_ids (rbac_of db) (cm_sub (au_claims au)))"
    by (auto simp: btree_def roles_with_ids_def List.member_iff)
  then show ?thesis unfolding has_role_iff holds_super_admin_iff by blast
qed

lemma check_escalation_Inr:
  assumes "check_escalation A fl au ids db = Inr requested" "reassigned u (set ids) (rbac_of db) rb'"
    "holds_super_admin rb' v" "\<not> holds_super_admin (rbac_of db) v"
  shows "holds_super_admin (rbac_of db) (cm_sub (au_claims au))"
proof -
  have "''super_admin'' \<in> set (names_of (rbac_of db) ids)"
    using super_admin_escalates [OF assms(2-4)] by (auto simp: names_of_def List.member_iff)
  then have "List.member (caller_role_names fl db au) ''super_admin''"
    using assms(1) by (auto simp: check_escalation_def Let_def and_then_Inr answer_query_def split: option.splits dest: check_requested_Inr)
  then show ?thesis by (rule caller_holds)
qed

lemma update_user_tx_effect:
  assumes "update_user_tx A fl now u req db = (db', Inr x)"
  shows "reassigned u (case uu_role_assignments req of None \<Rightarrow> {} | Some as \<Rightarrow> rq_role_id ` set as) (rbac_of db) (rbac_of db')"
    and "quorum db \<Longrightarrow> quorum db'"
proof -
  let ?K = "an_kind A" and ?touches = "uu_is_active req = Some False \<or> uu_role_assignments req \<noteq> None"
  obtain db1 db2 db3 where
    name: "opt_stmt (uu_display_name req) (\<lambda>name. if str_trim name = [] then fail_db (BadRequest ''Display name cannot be empty'')
        else set_display_name ?K fl (now * 1000) u (str_trim name)) db = (db1, Inr ())"
    and active: "opt_stmt (uu_is_active req) (set_active ?K fl (now * 1000) u) db1 = (db2, Inr ())"
    and roles: "opt_stmt (uu_role_assignments req) (\<lambda>as. and_db (write_user_role_assignments ?K fl (an_parse_uuid A) u as) (\<lambda>_. done_db ())) db2
        = (db3, Inr ())"
    and last: "(if ?touches then assert_super_admin_quorum ?K fl else done_db ()) db3 = (db', Inr x)"
    using assms
    by (auto simp: update_user_tx_def Let_def and_db_Inr acquire_super_admin_guard_lock_def run_stmt_Inr done_db_def split: if_splits)
  have 1: "rbac_of db1 = rbac_of db" "quorum db \<Longrightarrow> quorum db1"
    using name by (auto simp: opt_stmt_def done_db_def fail_db_def set_display_name_def run_stmt_Inr active_row_def
        intro!: quorum_map_users split: option.splits if_splits)
  have 2: "rbac_of db2 = rbac_of db1" "uu_is_active req \<noteq> Some False \<Longrightarrow> quorum db1 \<Longrightarrow> quorum db2"
    using active by (auto simp: opt_stmt_def done_db_def set_active_def run_stmt_Inr active_row_def
        intro!: quorum_map_users split: option.splits)
  have 3: "reassigned u (case uu_role_assignments req of None \<Rightarrow> {} | Some as \<Rightarrow> rq_role_id ` set as) (rbac_of db2) (rbac_of db3)"
    "uu_role_assignments req = None \<Longrightarrow> db3 = db2"
    using roles by (auto simp: opt_stmt_def done_db_def and_db_Inr dest: write_user_role_assignments_effect split: option.splits)
  have 4: "db' = db3" "?touches \<Longrightarrow> quorum db3"
    using last by (auto simp: done_db_def dest: asserted_quorum split: if_splits)
  show "reassigned u (case uu_role_assignments req of None \<Rightarrow> {} | Some as \<Rightarrow> rq_role_id ` set as) (rbac_of db) (rbac_of db')"
    using 1(1) 2(1) 3(1) 4(1) by simp
  show "quorum db \<Longrightarrow> quorum db'" using 1 2 3 4 by (cases ?touches) auto
qed

lemma delete_user_tx_effect:
  assumes "delete_user_tx A fl now u db = (db', Inr x)"
  shows "rbac_of db' = rbac_of db" "quorum db'"
proof -
  obtain db1 n where d: "soft_delete (now * 1000) u db = (db1, n)"
    and q: "assert_super_admin_quorum (an_kind A) fl (disable_api_keys_of_deleted_user (now * 1000) u db1) = (db', Inr x)"
    using assms by (auto simp: delete_user_tx_def Let_def and_db_Inr acquire_super_admin_guard_lock_def run_stmt_Inr fail_db_def
        split: option.splits prod.splits if_splits)
  have "rbac_of db1 = rbac_of db" using d by (auto simp: soft_delete_def Let_def)
  then show "rbac_of db' = rbac_of db" "quorum db'"
    using asserted_quorum [OF q] by (simp_all add: disable_api_keys_of_deleted_user_def)
qed

lemma insert_user_effect:
  assumes "insert_user K fl r db = (db1, Inr x)"
  shows "rbac_of db1 = rbac_of db" "ad_users db1 = ad_users db @ [r]"
  using assms by (auto simp: insert_user_def split: option.splits if_splits)

lemma create_user_tx_effect:
  assumes "and_db (insert_user K fl r) (\<lambda>user. and_db (write_user_role_assignments K fl parse u as) (\<lambda>out. done_db (user, out))) db
    = (db', Inr x)"
  shows "reassigned u (rq_role_id ` set as) (rbac_of db) (rbac_of db')" "ad_users db' = ad_users db @ [r]"
proof -
  obtain db1 y db2 out where "insert_user K fl r db = (db1, Inr y)" "write_user_role_assignments K fl parse u as db1 = (db2, Inr out)" "db' = db2"
    using assms by (auto simp: and_db_Inr done_db_def)
  then show "reassigned u (rq_role_id ` set as) (rbac_of db) (rbac_of db')" "ad_users db' = ad_users db @ [r]"
    using insert_user_effect write_user_role_assignments_effect by metis+
qed

text \<open>What a handler of users may do to the tables: nothing, a change of rows, or a rewrite of roles that was checked.\<close>

inductive user_admin_step :: "'s admin_env \<Rightarrow> AuthUser \<Rightarrow> 's login_state \<Rightarrow> 's login_state \<Rightarrow> bool" for A au where
  step_create: "new_id \<notin> us_id ` set (ad_users (lo_db st)) \<Longrightarrow>
    user_admin_step A au st (fst (create_user A fl now new_id generated au req st))"
| step_update: "user_admin_step A au st (fst (update_user A fl now ts down au u upd st))"
| step_delete: "user_admin_step A au st (fst (delete_user A fl now ts down au u st))"
| step_force_logout: "user_admin_step A au st (fst (force_logout_user A fl now ts down au u st))"
| step_reset: "user_admin_step A au st (fst (reset_user_password A fl now generated au u st))"

text \<open>\<open>au\<close> may turn the tables into others: no super administrator comes without one asking, and the last is never lost.\<close>

definition guarded_change :: "AuthUser \<Rightarrow> auth_db \<Rightarrow> auth_db \<Rightarrow> bool" where
  "guarded_change au db db' \<longleftrightarrow> roles (rbac_of db') = roles (rbac_of db) \<and> (quorum db \<longrightarrow> quorum db') \<and>
     (\<forall>v. holds_super_admin (rbac_of db') v \<longrightarrow> holds_super_admin (rbac_of db) v \<or> holds_super_admin (rbac_of db) (cm_sub (au_claims au)))"

lemma guarded_refl [simp]: "guarded_change au db db"
  by (simp add: guarded_change_def)

lemma guarded_same_roles: "rbac_of db' = rbac_of db \<Longrightarrow> (quorum db \<Longrightarrow> quorum db') \<Longrightarrow> guarded_change au db db'"
  by (simp add: guarded_change_def)

lemma guarded_reassigned:
  assumes "reassigned u (set ids) (rbac_of db) (rbac_of db')" "check_escalation A fl au ids db = Inr requested" "quorum db \<Longrightarrow> quorum db'"
  shows "guarded_change au db db'"
  using assms(3) check_escalation_Inr [OF assms(2,1)] assms(1) unfolding guarded_change_def by (auto simp: reassigned_def)

lemma guarded_create_user:
  assumes "new_id \<notin> us_id ` set (ad_users (lo_db st))"
  shows "guarded_change au (lo_db st) (lo_db (fst (create_user A fl now new_id generated au req st)))"
proof -
  let ?P = "guarded_change au (lo_db st)"
  have tx: "?P db1" if "check_escalation A fl au (map rq_role_id (ca_role_assignments req)) (lo_db st) = Inr requested"
      "and_db (insert_user K fl r) (\<lambda>user. and_db (write_user_role_assignments K fl parse new_id (ca_role_assignments req))
         (\<lambda>out. done_db (user, out))) (lo_db st) = (db1, Inr x)" for requested K r parse db1 x
  proof (rule guarded_reassigned [OF _ that(1)])
    show re: "reassigned new_id (set (map rq_role_id (ca_role_assignments req))) (rbac_of (lo_db st)) (rbac_of db1)"
      using create_user_tx_effect(1) [OF that(2)] by simp
    show "quorum db1" if "quorum (lo_db st)"
      using that create_user_tx_effect(2) [OF \<open>and_db _ _ _ = _\<close>] assms by (elim quorum_mono) (auto intro: reassigned_others [OF re])
  qed
  show ?thesis
    unfolding create_user_def Let_def
    by (intro keeps_checked [where P = "?P"] keeps_in_db [where P = "?P"] in_tx_keeps [where P = "?P"] guarded_refl)
      (auto simp: case_prod_unfold intro: tx intro!: keeps_checked [where P = "?P"] keeps_in_db [where P = "?P"] in_tx_keeps [where P = "?P"])
qed

lemma authorize_assignments_Inr:
  assumes "authorize_assignments A fl au u (Some as) db = Inr x"
  obtains requested where "check_escalation A fl au (map rq_role_id as) db = Inr requested"
  using assms by (auto simp: authorize_assignments_def and_then_Inr)

lemma guarded_update_user: "guarded_change au (lo_db st) (lo_db (fst (update_user A fl now ts down au u req st)))"
proof -
  let ?P = "guarded_change au (lo_db st)"
  have tx: "?P db1" if ok: "authorize_assignments A fl au u (uu_role_assignments req) (lo_db st) = Inr y"
      and run: "update_user_tx A fl now u req (lo_db st) = (db1, Inr x)" for y db1 x
  proof (cases "uu_role_assignments req")
    case None
    then have "reassigned u (set []) (rbac_of (lo_db st)) (rbac_of db1)" using update_user_tx_effect(1) [OF run] by simp
    then have "holds_super_admin (rbac_of (lo_db st)) v" if "holds_super_admin (rbac_of db1) v" for v
      using super_admin_escalates that by fastforce
    then show ?thesis
      using update_user_tx_effect [OF run] None by (auto simp: guarded_change_def reassigned_def)
  next
    case (Some as)
    from ok obtain requested where c: "check_escalation A fl au (map rq_role_id as) (lo_db st) = Inr requested"
      unfolding Some by (rule authorize_assignments_Inr)
    show ?thesis
      by (rule guarded_reassigned [OF _ c]) (use update_user_tx_effect [OF run] Some in simp_all)
  qed
  have keys: "?P (lo_db (after_disable A fl now ts down u st1))" if "?P (lo_db st1)" for st1
    using that quorum_cong [of "disable_api_keys_of_disabled_user (now * 1000) u (lo_db st1)" "lo_db st1"]
    by (simp add: after_disable_def Let_def guarded_change_def disable_api_keys_of_disabled_user_def)
  show ?thesis
    unfolding update_user_def Let_def
    by (intro keeps_checked [where P = "?P"] guarded_refl)
      (auto intro!: keeps_checked [where P = "?P"] keeps_in_db [where P = "?P"] in_tx_keeps [where P = "?P"] keys intro: tx)
qed

lemma guarded_delete_user: "guarded_change au (lo_db st) (lo_db (fst (delete_user A fl now ts down au u st)))"
proof -
  let ?P = "guarded_change au (lo_db st)"
  have tx: "?P db1" if "delete_user_tx A fl now u (lo_db st) = (db1, Inr x)" for db1 x
    using delete_user_tx_effect [OF that] by (simp add: guarded_same_roles)
  show ?thesis
    unfolding delete_user_def
    by (auto intro!: keeps_checked [where P = "?P"] keeps_in_db [where P = "?P"] in_tx_keeps [where P = "?P"] intro: tx)
qed

lemma guarded_force_logout: "guarded_change au (lo_db st) (lo_db (fst (force_logout_user A fl now ts down au u st)))"
  unfolding force_logout_user_def by (auto intro!: keeps_checked [where P = "guarded_change au (lo_db st)"])

lemma guarded_reset_password: "guarded_change au (lo_db st) (lo_db (fst (reset_user_password A fl now generated au u st)))"
proof -
  let ?P = "guarded_change au (lo_db st)"
  have "?P (fst (update_password_hash K fl t u h f (lo_db st)))" for K t h f
    by (auto simp: update_password_hash_def run_stmt_def active_row_def intro!: guarded_same_roles quorum_map_users split: option.split)
  then show ?thesis
    unfolding reset_user_password_def
    by (auto intro!: keeps_checked [where P = "?P"] keeps_in_db [where P = "?P"])
qed

lemma user_admin_guarded: "user_admin_step A au st st' \<Longrightarrow> guarded_change au (lo_db st) (lo_db st')"
  by (induction rule: user_admin_step.induct)
    (rule guarded_create_user guarded_update_user guarded_delete_user guarded_force_logout guarded_reset_password; assumption?)+

subsection \<open>The handlers of roles\<close>

text \<open>Ids of roles are unique, and a role named \<^verbatim>\<open>super_admin\<close> is a system role.\<close>

definition roles_seeded :: "rbac_db \<Rightarrow> bool" where
  "roles_seeded rb \<longleftrightarrow> distinct (map role_id (roles rb)) \<and> list_all (\<lambda>r. role_name r = ''super_admin'' \<longrightarrow> role_is_system r) (roles rb)"

definition staffed :: "auth_db \<Rightarrow> bool" where
  "staffed db \<longleftrightarrow> quorum db \<and> roles_seeded (rbac_of db)"

lemma quorum_role:
  assumes "quorum db"
  obtains r where "r \<in> set (roles (rbac_of db))" "role_name r = ''super_admin''"
  using assms by (auto simp: quorum_iff holds_super_admin_iff)

lemma found_role:
  assumes "roles_seeded rb" "find_role rb i = Some r" "\<not> role_is_system r" "r' \<in> set (roles rb)" "role_name r' = ''super_admin''"
  shows "role_id r' \<noteq> i"
proof
  assume "role_id r' = i"
  moreover have "r \<in> set (roles rb)" "role_id r = i" using assms(2) by (auto simp: find_role_def find_Some_iff)
  moreover have "inj_on role_id (set (roles rb))" using assms(1) by (simp add: roles_seeded_def distinct_map)
  ultimately have "r' = r" using assms(4) by (metis inj_onD)
  with assms(1,3,4,5) show False by (auto simp: roles_seeded_def list_all_iff)
qed

lemma quorum_roles:
  assumes "quorum db" "ad_users db' = ad_users db"
    and "\<And>r. r \<in> set (roles (rbac_of db)) \<Longrightarrow> role_name r = ''super_admin'' \<Longrightarrow>
      \<exists>r' \<in> set (roles (rbac_of db')). role_name r' = ''super_admin'' \<and> role_id r' = role_id r"
    and "\<And>r u. r \<in> set (roles (rbac_of db)) \<Longrightarrow> role_name r = ''super_admin'' \<Longrightarrow> has_role (rbac_of db) u (role_id r) \<Longrightarrow>
      has_role (rbac_of db') u (role_id r)"
  shows "quorum db'"
proof (rule quorum_mono [OF assms(1)])
  fix u assume "holds_super_admin (rbac_of db) u"
  then obtain r where r: "r \<in> set (roles (rbac_of db))" "role_name r = ''super_admin''" "has_role (rbac_of db) u (role_id r)"
    by (auto simp: holds_super_admin_iff)
  with assms(3) [of r] assms(4) [of r u] show "holds_super_admin (rbac_of db') u" unfolding holds_super_admin_iff by auto
qed (use assms(2) in auto)

lemma staffed_insert_role:
  assumes "staffed db" "role_id r \<notin> role_id ` set (roles (rbac_of db))"
  shows "staffed (fst (insert_role K fl r db))"
proof (cases "query_error K fl ''insert_role'' = None \<and> \<not> list_ex (\<lambda>x. role_name x = role_name r) (roles (rbac_of db))")
  case True
  let ?db = "with_rbac (\<lambda>rb. rb\<lparr>roles := roles rb @ [r]\<rparr>) db"
  obtain s where "s \<in> set (roles (rbac_of db))" "role_name s = ''super_admin''"
    using assms(1) unfolding staffed_def by (auto elim: quorum_role)
  with True have "role_name r \<noteq> ''super_admin''" by (auto simp: list_ex_iff)
  then have "roles_seeded (rbac_of ?db)" using assms by (simp add: staffed_def roles_seeded_def)
  moreover have "quorum ?db"
    by (rule quorum_roles [of db]) (use assms(1) in \<open>simp_all add: staffed_def has_role_def, blast\<close>)
  ultimately show ?thesis using True by (simp add: insert_role_def staffed_def)
qed (use assms(1) in \<open>auto simp: insert_role_def split: option.split\<close>)

lemma staffed_map_roles:
  assumes "staffed db" "\<And>r. role_id (f r) = role_id r" "\<And>r. role_is_system (f r) = role_is_system r"
    and "\<And>r. r \<in> set (roles (rbac_of db)) \<Longrightarrow> role_id r = i \<Longrightarrow> role_name (f r) = ''super_admin'' \<longleftrightarrow> role_name r = ''super_admin''"
  shows "staffed (with_rbac (map_roles i f) db)"
proof -
  let ?g = "\<lambda>r. if role_id r = i then f r else r"
  have ids: "map role_id (roles (rbac_of (with_rbac (map_roles i f) db))) = map role_id (roles (rbac_of db))"
    using assms(2) by (simp add: map_roles_def)
  have same: "role_name (?g r) = ''super_admin'' \<longleftrightarrow> role_name r = ''super_admin''" "role_id (?g r) = role_id r"
    "role_is_system (?g r) = role_is_system r" if "r \<in> set (roles (rbac_of db))" for r
    using assms(2-4) that by auto
  have "roles_seeded (rbac_of (with_rbac (map_roles i f) db))"
    using assms unfolding roles_seeded_def ids staffed_def by (auto simp: map_roles_def list_all_iff)
  moreover have "quorum (with_rbac (map_roles i f) db)"
  proof (rule quorum_roles)
    fix r assume r: "r \<in> set (roles (rbac_of db))" "role_name r = ''super_admin''"
    then show "\<exists>r' \<in> set (roles (rbac_of (with_rbac (map_roles i f) db))). role_name r' = ''super_admin'' \<and> role_id r' = role_id r"
      using same [OF r(1)] by (intro bexI [of _ "?g r"]) (simp_all add: map_roles_def)
  qed (use assms(1) in \<open>simp_all add: staffed_def map_roles_def has_role_def\<close>)
  ultimately show ?thesis by (simp add: staffed_def)
qed

lemma staffed_set_policy_document: "staffed db \<Longrightarrow> staffed (fst (set_policy_document K fl now i doc db))"
  by (auto simp: set_policy_document_def run_stmt_def intro!: staffed_map_roles split: option.split)

lemma staffed_update_role_row:
  assumes "staffed db" "find_role (rbac_of db) i = Some r" "role_is_system r \<Longrightarrow> name = None"
  shows "staffed (fst (update_role_row K fl now i name description doc db))"
proof (cases name)
  case None
  with assms(1) show ?thesis by (auto simp: update_role_row_def unwrap_or_def intro!: staffed_map_roles split: option.split)
next
  case (Some n)
  with assms(3) have sys: "\<not> role_is_system r" by auto
  obtain s where s: "s \<in> set (roles (rbac_of db))" "role_name s = ''super_admin''"
    using assms(1) unfolding staffed_def by (auto elim: quorum_role)
  have other: "role_id x \<noteq> i" if "x \<in> set (roles (rbac_of db))" "role_name x = ''super_admin''" for x
    by (rule found_role [OF _ assms(2) sys that]) (use assms(1) in \<open>simp add: staffed_def\<close>)
  then have "list_ex (\<lambda>x. role_id x \<noteq> i \<and> role_name x = n) (roles (rbac_of db))" if "n = ''super_admin''"
    using s that by (auto simp: list_ex_iff)
  then show ?thesis
    using Some assms(1) other by (auto simp: update_role_row_def unwrap_or_def intro!: staffed_map_roles split: option.split)
qed

text \<open>Copies of assignments add some; what is dropped belongs to the role that goes.\<close>

lemma fold_add_assignment:
  "roles (fold (\<lambda>a. add_assignment (g a)) as rb) = roles rb \<and> team_members (fold (\<lambda>a. add_assignment (g a)) as rb) = team_members rb \<and>
   team_role_assignments (fold (\<lambda>a. add_assignment (g a)) as rb) = team_role_assignments rb \<and>
   set (role_assignments rb) \<subseteq> set (role_assignments (fold (\<lambda>a. add_assignment (g a)) as rb))"
proof (induction as arbitrary: rb)
  case (Cons a as)
  have "roles (add_assignment (g a) rb) = roles rb" "team_members (add_assignment (g a) rb) = team_members rb"
    "team_role_assignments (add_assignment (g a) rb) = team_role_assignments rb"
    "set (role_assignments rb) \<subseteq> set (role_assignments (add_assignment (g a) rb))"
    by (auto simp: add_assignment_def)
  with Cons.IH [of "add_assignment (g a) rb"] show ?case by auto
qed simp

lemma staffed_copy_assignments: 
  assumes "staffed db" "copy_assignments K fl i target db = (db', Inr x)"
  shows "staffed db' \<and> roles (rbac_of db') = roles (rbac_of db)"
proof -
  let ?g = "\<lambda>a. a\<lparr>ra_role_id := target\<rparr>" and ?as = "filter (\<lambda>a. ra_role_id a = i) (role_assignments (rbac_of db))"
  have db': "rbac_of db' = fold (\<lambda>a. add_assignment (?g a)) ?as (rbac_of db)" "ad_users db' = ad_users db"
    using assms(2) by (auto simp: copy_assignments_def run_stmt_Inr)
  note f = fold_add_assignment [of ?g ?as "rbac_of db", folded db'(1)]
  have "quorum db'"
    by (rule quorum_roles [of db]) (use assms(1) f db'(2) in \<open>auto simp: staffed_def has_role_def\<close>)
  with assms(1) f show ?thesis by (simp add: staffed_def roles_seeded_def)
qed

lemma has_role_kept:
  assumes "has_role rb u j" "j \<noteq> i"
  shows "has_role (rb\<lparr>role_assignments := filter (\<lambda>a. ra_role_id a \<noteq> i) (role_assignments rb)\<rparr>) u j" "has_role (drop_role i rb) u j"
  using assms by (auto simp: has_role_def drop_role_def intro!: bexI)

lemma staffed_delete_assignments:
  assumes "staffed db" "find_role (rbac_of db) i = Some r" "\<not> role_is_system r" "delete_assignments K fl i db = (db', Inr x)"
  shows "staffed db' \<and> roles (rbac_of db') = roles (rbac_of db)"
proof -
  have db': "db' = with_rbac (\<lambda>rb. rb\<lparr>role_assignments := filter (\<lambda>a. ra_role_id a \<noteq> i) (role_assignments rb)\<rparr>) db"
    using assms(4) by (simp add: delete_assignments_def run_stmt_Inr)
  have other: "role_id s \<noteq> i" if "s \<in> set (roles (rbac_of db))" "role_name s = ''super_admin''" for s
    by (rule found_role [OF _ assms(2,3) that]) (use assms(1) in \<open>simp add: staffed_def\<close>)
  have "quorum db'"
    by (rule quorum_roles [of db]) (use assms(1) other in \<open>auto simp: staffed_def db' intro: has_role_kept\<close>)
  with assms(1) show ?thesis by (simp add: staffed_def roles_seeded_def db')
qed

lemma roles_drop_role: "role_id r \<noteq> i \<Longrightarrow> r \<in> set (roles (drop_role i rb)) \<longleftrightarrow> r \<in> set (roles rb)"
  by (simp add: drop_role_def)

lemma staffed_drop_role:
  assumes "staffed db" "find_role (rbac_of db) i = Some r" "\<not> role_is_system r"
  shows "staffed (with_rbac (drop_role i) db)"
proof -
  have other: "role_id s \<noteq> i" if "s \<in> set (roles (rbac_of db))" "role_name s = ''super_admin''" for s
    by (rule found_role [OF _ assms(2,3) that]) (use assms(1) in \<open>simp add: staffed_def\<close>)
  have "quorum (with_rbac (drop_role i) db)"
    by (rule quorum_roles [of db]) (use assms(1) other in \<open>auto simp: staffed_def roles_drop_role intro: has_role_kept\<close>)
  moreover have "roles_seeded (rbac_of (with_rbac (drop_role i) db))"
    using assms(1) by (auto simp: staffed_def roles_seeded_def drop_role_def list_all_iff distinct_map_filter)
  ultimately show ?thesis by (simp add: staffed_def)
qed

lemma find_role_cong: "roles rb' = roles rb \<Longrightarrow> find_role rb' i = find_role rb i"
  by (simp add: find_role_def)

lemma staffed_delete_role_tx:
  assumes "staffed db" "find_role (rbac_of db) i = Some r" "\<not> role_is_system r" "delete_role_tx A fl i to_role n db = (db', Inr x)"
  shows "staffed db'"
proof -
  obtain db1 where db1: "staffed db1" "roles (rbac_of db1) = roles (rbac_of db)" and d: "delete_custom (an_kind A) fl i db1 = (db', Inr x)"
  proof (cases "n = 0")
    case True
    with assms that show ?thesis by (auto simp: delete_role_tx_def Let_def and_db_Inr done_db_def)
  next
    case False
    then obtain target db2 db3 y z where c: "copy_assignments (an_kind A) fl i target db = (db2, Inr y)"
      and a: "delete_assignments (an_kind A) fl i db2 = (db3, Inr z)" and d: "delete_custom (an_kind A) fl i db3 = (db', Inr x)"
      using assms(4) by (auto simp: delete_role_tx_def Let_def and_db_Inr fail_db_def split: option.splits if_splits)
    have 2: "staffed db2" "roles (rbac_of db2) = roles (rbac_of db)" using staffed_copy_assignments [OF assms(1) c] by auto
    then have "find_role (rbac_of db2) i = Some r" using assms(2) find_role_cong by metis
    with staffed_delete_assignments [OF 2(1) _ assms(3) a] 2(2) have "staffed db3" "roles (rbac_of db3) = roles (rbac_of db)" by auto
    from that [OF this d] show ?thesis .
  qed
  then have "find_role (rbac_of db1) i = Some r" using assms(2) find_role_cong by metis
  from staffed_drop_role [OF db1(1) this assms(3)] d show ?thesis by (simp add: delete_custom_def run_stmt_Inr)
qed

lemma find_kind_Inr:
  assumes "find_kind K fl i db = Inr (is_system, name)"
  obtains r where "find_role (rbac_of db) i = Some r" "role_is_system r = is_system" "role_name r = name"
  using assms by (auto simp: find_kind_def and_then_Inr answer_query_def split: option.splits)

lemma staffed_role_changed: "staffed (lo_db st) \<Longrightarrow> staffed (lo_db (fst (role_changed A fl errs au act i name st)))"
  unfolding role_changed_def by (rule keeps_checked [where P = staffed]) simp_all

lemma staffed_create_role:
  assumes "staffed (lo_db st)" "new_id \<notin> role_id ` set (roles (rbac_of (lo_db st)))"
  shows "staffed (lo_db (fst (create_role A fl now new_id au req st)))"
  unfolding create_role_def Let_def using assms
  by (auto intro!: keeps_checked [where P = staffed] keeps_in_db [where P = staffed] staffed_insert_role)

lemma staffed_update_role:
  assumes "staffed (lo_db st)"
  shows "staffed (lo_db (fst (update_role A fl errs now au i req st)))"
proof -
  have row: "staffed (fst (update_role_row K fl t i (map_option str_trim (ur_name req)) d doc (lo_db st)))"
    if "find_kind (an_kind A) fl i (lo_db st) = Inr (is_system, name)"
      "edit_system_check A fl au is_system (ur_name req) (lo_db st) = Inr ()" for is_system name K t d doc
  proof -
    note kind = that(1)
    obtain r where r: "find_role (rbac_of (lo_db st)) i = Some r" "role_is_system r = is_system"
      using kind by (elim find_kind_Inr)
    show ?thesis
      by (rule staffed_update_role_row [OF assms r(1)])
        (use that(2) r(2) in \<open>auto simp: edit_system_check_def and_then_Inr split: if_splits\<close>)
  qed
  show ?thesis
    unfolding update_role_def using assms
    by (auto simp: case_prod_unfold intro!: keeps_checked [where P = staffed] keeps_in_db [where P = staffed] staffed_role_changed row)
qed

lemma staffed_reset_role: "staffed (lo_db st) \<Longrightarrow> staffed (lo_db (fst (reset_role A fl errs now au i st)))"
  unfolding reset_role_def
  by (auto simp: case_prod_unfold intro!: keeps_checked [where P = staffed] keeps_in_db [where P = staffed] staffed_role_changed
      staffed_set_policy_document split: option.split)

lemma staffed_delete_role:
  assumes "staffed (lo_db st)"
  shows "staffed (lo_db (fst (delete_role A fl au i to_role st)))"
proof -
  have tx: "staffed (fst (in_tx (an_kind A) fl (delete_role_tx A fl i to_role n) (lo_db st)))"
    if "find_kind (an_kind A) fl i (lo_db st) = Inr (False, name)" for name n
  proof (rule in_tx_keeps [where P = staffed, OF assms])
    fix db1 x assume run: "delete_role_tx A fl i to_role n (lo_db st) = (db1, Inr x)"
    note kind = that
    obtain r where r: "find_role (rbac_of (lo_db st)) i = Some r" "role_is_system r = False"
      using kind by (elim find_kind_Inr)
    show "staffed db1" by (rule staffed_delete_role_tx [OF assms r(1) _ run]) (simp add: r(2))
  qed
  show ?thesis
    unfolding delete_role_def Let_def using assms
    by (auto simp: case_prod_unfold intro!: keeps_checked [where P = staffed] keeps_in_db [where P = staffed] tx)
qed

subsection \<open>Additions to teams\<close>

lemma staffed_more_teams:
  assumes "staffed db" "roles (f (rbac_of db)) = roles (rbac_of db)" "role_assignments (f (rbac_of db)) = role_assignments (rbac_of db)"
    "set (team_members (rbac_of db)) \<subseteq> set (team_members (f (rbac_of db)))"
    "set (team_role_assignments (rbac_of db)) \<subseteq> set (team_role_assignments (f (rbac_of db)))"
  shows "staffed (with_rbac f db)"
proof -
  have "has_role (f (rbac_of db)) u i" if "has_role (rbac_of db) u i" for u i
    using assms(3-5) that by (auto simp: has_role_def)
  then have "quorum (with_rbac f db)"
    using assms(1,2) by (auto simp: staffed_def intro!: quorum_roles [of db])
  with assms(1,2) show ?thesis by (simp add: staffed_def roles_seeded_def)
qed

lemma staffed_team_statements:
  assumes "staffed db"
  shows "staffed (fst (insert_team K fl t db))" "staffed (fst (update_team_row K fl i name d db))"
    "staffed (fst (add_member_capped K fl u team m db))" "staffed (fst (assign_role K fl team role db))"
  using assms
  by (auto simp: insert_team_def update_team_row_def add_member_capped_def assign_role_def intro!: staffed_more_teams split: option.split)

lemma staffed_team_handlers:
  assumes "staffed (lo_db st)"
  shows "staffed (lo_db (fst (create_team A fl now new_id au req st)))" "staffed (lo_db (fst (update_team A fl au i ureq st)))"
    "staffed (lo_db (fst (add_member A fl au team u st)))" "staffed (lo_db (fst (assign_team_role A fl au team role st)))"
  using assms unfolding create_team_def Let_def update_team_def add_member_def assign_team_role_def team_roles_changed_def
  by (auto intro!: keeps_checked [where P = staffed] keeps_in_db [where P = staffed] staffed_team_statements split: option.split)

subsection \<open>Runs\<close>

inductive admin_step :: "'s admin_env \<Rightarrow> 's login_state \<Rightarrow> 's login_state \<Rightarrow> bool" for A where
  on_users: "user_admin_step A au st st' \<Longrightarrow> admin_step A st st'"
| on_create_role: "new_id \<notin> role_id ` set (roles (rbac_of (lo_db st))) \<Longrightarrow> admin_step A st (fst (create_role A fl now new_id au req st))"
| on_update_role: "admin_step A st (fst (update_role A fl errs now au i ureq st))"
| on_reset_role: "admin_step A st (fst (reset_role A fl errs now au i st))"
| on_delete_role: "admin_step A st (fst (delete_role A fl au i to_role st))"
| on_create_team: "admin_step A st (fst (create_team A fl now new_id au treq st))"
| on_update_team: "admin_step A st (fst (update_team A fl au i utreq st))"
| on_add_member: "admin_step A st (fst (add_member A fl au team u st))"
| on_assign_team_role: "admin_step A st (fst (assign_team_role A fl au team role st))"

abbreviation admin_run :: "'s admin_env \<Rightarrow> 's login_state \<Rightarrow> 's login_state \<Rightarrow> bool" where
  "admin_run A \<equiv> (admin_step A)\<^sup>*\<^sup>*"

lemma admin_step_held: "admin_step A st st' \<Longrightarrow> staffed (lo_db st) \<Longrightarrow> staffed (lo_db st')"
proof (induction rule: admin_step.induct)
  case (on_users au st st')
  then show ?case using user_admin_guarded [OF on_users(1)] by (simp add: staffed_def guarded_change_def roles_seeded_def)
qed (simp_all add: staffed_create_role staffed_update_role staffed_reset_role staffed_delete_role staffed_team_handlers)

lemma admin_run_held: "admin_run A st st' \<Longrightarrow> staffed (lo_db st) \<Longrightarrow> staffed (lo_db st')"
  by (induction rule: rtranclp_induct) (auto intro: admin_step_held)

text \<open>
  (C14) The handlers of users and roles, and those that create a team or add to one, never leave the installation without an
  active super administrator: whatever requests come in whatever order, by whatever callers and with whatever failures of
  the database in between, an installation that has one keeps one. The ids of new rows are not taken, and a role named
  \<^verbatim>\<open>super_admin\<close> is one of the seeded ones at the start; the handlers keep it so.
\<close>

theorem administration_keeps_a_super_admin:
  assumes "admin_run A st st'" "roles_seeded (rbac_of (lo_db st))" "super_admin_ids (lo_db st) \<noteq> []"
  shows "super_admin_ids (lo_db st') \<noteq> [] \<and> roles_seeded (rbac_of (lo_db st'))"
  using admin_run_held [OF assms(1)] assms(2,3) by (simp add: staffed_def quorum_def)

text \<open>
  (C15) In the handlers of users only a super administrator makes one: when a request of theirs leaves someone holding the role who
  did not hold it before, directly or through a team, the caller held it in the tables when the request came. A failure to
  load the roles of the caller refuses instead.
\<close>

theorem only_super_admins_make_super_admins:
  assumes "user_admin_step A au st st'" "holds_super_admin (rbac_of (lo_db st')) v" "\<not> holds_super_admin (rbac_of (lo_db st)) v"
  shows "holds_super_admin (rbac_of (lo_db st)) (cm_sub (au_claims au))"
  using user_admin_guarded [OF assms(1)] assms(2,3) by (auto simp: guarded_change_def)

subsection \<open>A small installation\<close>

definition demo_system_role :: "uuid \<Rightarrow> string \<Rightarrow> rbac_role" where
  "demo_system_role i name = \<lparr>role_id = i, role_name = name, policy_document = (case system_role_default_policy name of None \<Rightarrow> JNull | Some p \<Rightarrow> p),
     role_description = None, role_is_system = True, role_created_by = None, role_created_at = 0, role_updated_at = 0\<rparr>"

definition demo_custom_role :: rbac_role where
  "demo_custom_role = \<lparr>role_id = ''c'', role_name = ''ops'', policy_document = JNull, role_description = None, role_is_system = False,
     role_created_by = None, role_created_at = 0, role_updated_at = 0\<rparr>"

definition demo_grant :: "uuid \<Rightarrow> uuid \<Rightarrow> uuid option \<Rightarrow> role_assignment" where
  "demo_grant u i t = \<lparr>ra_user_id = u, ra_role_id = i, ra_scope_kind = (if t = None then ''global'' else ''team''), ra_scope_id = t\<rparr>"

definition demo_platform :: "ttl_mem login_state" where
  "demo_platform = \<lparr>lo_db = demo_auth_db
     \<lparr>ad_users := [new_user ''root'' 0 ''r@x.io'' ''R'' ''h1'', new_user ''adm'' 0 ''a@x.io'' ''A'' ''h2'', new_user ''mgr'' 0 ''m@x.io'' ''M'' ''h3''],
      ad_limits := \<lparr>rbac_part = \<lparr>
        role_assignments = [demo_grant ''root'' ''s'' None, demo_grant ''adm'' ''a'' None, demo_grant ''adm'' ''c'' None, demo_grant ''mgr'' ''m'' (Some ''t'')],
        team_members = [(''t'', ''adm'')], team_role_assignments = [],
        roles = [demo_system_role ''s'' ''super_admin'', demo_system_role ''a'' ''admin'', demo_system_role ''m'' ''team_manager'', demo_custom_role],
        team_rows = [\<lparr>te_id = ''t'', te_name = ''T'', te_description = None, te_created_at = 0\<rparr>]\<rparr>, rate_limit_rules = [], budget_caps = []\<rparr>\<rparr>,
     lo_redis = \<lparr>tm_keys = [], tm_down = []\<rparr>, lo_events = []\<rparr>"

definition demo_admin_env :: "ttl_mem admin_env" where
  "demo_admin_env = \<lparr>an_login = demo_login_env,
     an_scan = \<lparr>rs_clustered = False, rs_scan = (\<lambda>_ _. []), rs_del = (\<lambda>_ s. (s, Inr 0)), rs_keyslot = (\<lambda>_. 0)\<rparr>,
     an_parse_uuid = Some, an_rfc3339 = (\<lambda>_. ''later''), an_json_len = (\<lambda>_. 0), an_from_doc = (\<lambda>_. Inl ''unused''),
     an_from_constraints = (\<lambda>_. Inl ''unused'')\<rparr>"

text \<open>A caller with what a seeded role gives.\<close>

definition demo_operator :: "uuid \<Rightarrow> string \<Rightarrow> AuthUser" where
  "demo_operator u name = \<lparr>au_claims = demo_refresh_claims\<lparr>cm_sub := u\<rparr>, au_ip = None, au_user_agent = None,
     au_permissions = (case system_role_default_policy name of None \<Rightarrow> [] | Some p \<Rightarrow> extract_permissions p all_permission_keys),
     au_denied_permissions = [], au_scope_cache = []\<rparr>"

lemma demo_permissions:
  "require_permission (demo_operator ''adm'' ''admin'') ''teams:update'' = Inr ()"
  "require_permission (demo_operator ''adm'' ''admin'') ''roles:delete'' = Inr ()"
  "require_permission (demo_operator ''mgr'' ''team_manager'') ''team_members:write'' = Inr ()"
  "require_permission (demo_operator ''mgr'' ''team_manager'') ''users:update'' = Inr ()"
  "require_permission (demo_operator ''root'' ''super_admin'') ''users:delete'' = Inr ()"
  by code_simp+

theorem administration_keeps_a_super_admin_witness:
  "super_admin_ids (lo_db (fst (update_user demo_admin_env (\<lambda>_. None) 5 (0, 0) (False, False) (demo_operator ''adm'' ''admin'') ''root''
     \<lparr>uu_display_name = None, uu_is_active = Some False, uu_role_assignments = None\<rparr> demo_platform))) \<noteq> []"
proof -
  let ?st = "fst (update_user demo_admin_env (\<lambda>_. None) 5 (0, 0) (False, False) (demo_operator ''adm'' ''admin'') ''root''
     \<lparr>uu_display_name = None, uu_is_active = Some False, uu_role_assignments = None\<rparr> demo_platform)"
  have "admin_run demo_admin_env demo_platform ?st" by (rule r_into_rtranclp, rule on_users, rule step_update)
  moreover have "roles_seeded (rbac_of (lo_db demo_platform))" "super_admin_ids (lo_db demo_platform) \<noteq> []" by code_simp+
  ultimately show ?thesis using administration_keeps_a_super_admin by blast
qed

definition demo_promotion :: UpdateUserRequest where
  "demo_promotion = \<lparr>uu_display_name = None, uu_is_active = None,
     uu_role_assignments = Some [\<lparr>rq_role_id = ''s'', rq_scope = None\<rparr>]\<rparr>"

definition demo_promoted :: "ttl_mem login_state" where
  "demo_promoted = fst (update_user demo_admin_env (\<lambda>_. None) 5 (0, 0) (False, False) (demo_operator ''root'' ''super_admin'') ''adm''
     demo_promotion demo_platform)"

lemma demo_promotion_stages:
  "uu_is_active demo_promotion = None" "uu_role_assignments demo_promotion \<noteq> None"
  "require_permission (demo_operator ''root'' ''super_admin'') ''users:update'' = Inr ()"
  "assert_scope_for_user (an_sql demo_admin_env) None (rbac_of (lo_db demo_platform)) (demo_operator ''root'' ''super_admin'') ''users:update'' ''adm'' = Inr ()"
  "user_exists (an_kind demo_admin_env) (\<lambda>_. None) ''adm'' (lo_db demo_platform) = Inr True"
  "authorize_assignments demo_admin_env (\<lambda>_. None) (demo_operator ''root'' ''super_admin'') ''adm'' (uu_role_assignments demo_promotion) (lo_db demo_platform) = Inr ()"
  by code_simp+

lemma demo_promotion_tx:
  "holds_super_admin (rbac_of (fst (in_tx (an_kind demo_admin_env) (\<lambda>_. None) (update_user_tx demo_admin_env (\<lambda>_. None) 5 ''adm'' demo_promotion)
     (lo_db demo_platform)))) ''adm''"
  by code_simp

lemma demo_promoted_holds: "holds_super_admin (rbac_of (lo_db demo_promoted)) ''adm''"
  unfolding demo_promoted_def update_user_def
  using demo_promotion_tx
  by (simp add: demo_promotion_stages keeps_in_db [where P = "\<lambda>db. holds_super_admin (rbac_of db) ''adm''"])

theorem only_super_admins_make_super_admins_witness:
  "holds_super_admin (rbac_of (lo_db demo_promoted)) ''adm'' \<and> \<not> holds_super_admin (rbac_of (lo_db demo_platform)) ''adm'' \<and>
   holds_super_admin (rbac_of (lo_db demo_platform)) ''root''"
proof -
  have step: "user_admin_step demo_admin_env (demo_operator ''root'' ''super_admin'') demo_platform demo_promoted"
    unfolding demo_promoted_def by (rule step_update)
  have before: "\<not> holds_super_admin (rbac_of (lo_db demo_platform)) ''adm''" by code_simp
  have "cm_sub (au_claims (demo_operator ''root'' ''super_admin'')) = ''root''" by (simp add: demo_operator_def)
  with only_super_admins_make_super_admins [OF step demo_promoted_holds before] before demo_promoted_holds show ?thesis by simp
qed

subsection \<open>What the handlers of roles and teams let through\<close>

text \<open>
  (C39) The roles of teams escape that check: whoever may update a team can give it the role \<^verbatim>\<open>super_admin\<close>, and every member
  of the team, the caller included, holds it from then on. Nothing is asked about the roles of the caller.
\<close>

theorem team_roles_escape_the_check:
  assumes "require_permission au ''teams:update'' = Inr ()"
    and "assert_scope_for_team (an_sql A) None (rbac_of (lo_db st)) au ''teams:update'' team = Inr ()"
    and "find_team (rbac_of (lo_db st)) team \<noteq> None" "find_role (rbac_of (lo_db st)) i = Some r" "role_name r = ''super_admin''"
    and "is_member (rbac_of (lo_db st)) v team"
  shows "snd (assign_team_role A (\<lambda>_. None) au team i st) = Inr () \<and>
    holds_super_admin (rbac_of (lo_db (fst (assign_team_role A (\<lambda>_. None) au team i st)))) v"
proof -
  have "snd (assign_role (an_kind A) (\<lambda>_. None) team i (lo_db st)) = Inr ()"
    using assms(3,4) by (auto simp: assign_role_def query_error_def)
  then obtain db where ok: "assign_role (an_kind A) (\<lambda>_. None) team i (lo_db st) = (db, Inr ())"
    by (metis prod.collapse)
  have r: "r \<in> set (roles (rbac_of (lo_db st)))" "role_id r = i"
    using assms(4) by (auto simp: find_role_def find_Some_iff)
  have "holds_super_admin (rbac_of db) v"
    unfolding holds_super_admin_iff using r assms(5,6) ok
    by (auto simp: assign_role_def query_error_def has_role_def is_member_def List.member_iff intro!: bexI [of _ r] split: if_splits)
  with assms(1,2) ok show ?thesis
    by (simp add: assign_team_role_def team_roles_changed_def in_db_def)
qed

theorem team_roles_escape_the_check_witness:
  "holds_super_admin (rbac_of (lo_db demo_platform)) ''adm'' = False \<and>
   holds_super_admin (rbac_of (lo_db (fst (assign_team_role demo_admin_env (\<lambda>_. None) (demo_operator ''adm'' ''admin'') ''t'' ''s'' demo_platform)))) ''adm''"
proof -
  have "assert_scope_for_team (an_sql demo_admin_env) None (rbac_of (lo_db demo_platform)) (demo_operator ''adm'' ''admin'') ''teams:update'' ''t'' = Inr ()"
    "find_team (rbac_of (lo_db demo_platform)) ''t'' \<noteq> None"
    "find_role (rbac_of (lo_db demo_platform)) ''s'' = Some (demo_system_role ''s'' ''super_admin'')"
    "is_member (rbac_of (lo_db demo_platform)) ''adm'' ''t''" "holds_super_admin (rbac_of (lo_db demo_platform)) ''adm'' = False"
    by code_simp+
  with team_roles_escape_the_check [OF demo_permissions(1), of demo_admin_env demo_platform "''t''" "''s''" _ "''adm''"]
  show ?thesis by (simp add: demo_system_role_def)
qed

text \<open>Deleting a role moves its members to any other role the caller names, \<^verbatim>\<open>super_admin\<close> included.\<close>

lemma deleting_a_role_makes_super_admins:
  "\<not> holds_super_admin (rbac_of (lo_db demo_platform)) ''adm'' \<and>
   (let (st, r) = delete_role demo_admin_env (\<lambda>_. None) (demo_operator ''adm'' ''admin'') ''c'' (Some ''s'') demo_platform in
    r = Inr 1 \<and> holds_super_admin (rbac_of (lo_db st)) ''adm'')"
proof -
  have checks: "require_global_permission (an_sql demo_admin_env) None (rbac_of (lo_db demo_platform)) (demo_operator ''adm'' ''admin'') ''roles:delete'' = Inr ()"
    "find_kind (an_kind demo_admin_env) (\<lambda>_. None) ''c'' (lo_db demo_platform) = Inr (False, ''ops'')"
    "counted (\<lambda>_. None) (lo_db demo_platform) ''c'' = 1" "\<not> holds_super_admin (rbac_of (lo_db demo_platform)) ''adm''"
    by code_simp+
  have tx: "(case in_tx (an_kind demo_admin_env) (\<lambda>_. None) (delete_role_tx demo_admin_env (\<lambda>_. None) ''c'' (Some ''s'') 1) (lo_db demo_platform) of
      (db, r) \<Rightarrow> r = Inr () \<and> holds_super_admin (rbac_of db) ''adm'')"
    by code_simp
  then show ?thesis using checks by (simp add: delete_role_def in_db_def split: prod.splits) 
qed

definition demo_joined :: "ttl_mem login_state" where
  "demo_joined = demo_platform\<lparr>lo_db := with_rbac (\<lambda>rb. rb\<lparr>team_members := team_members rb @ [(''t'', ''root'')]\<rparr>) (lo_db demo_platform),
     lo_events := [team_event (demo_operator ''mgr'' ''team_manager'') ''team_member.add'' ''t'' (''user_id'', ''root'')]\<rparr>"

lemma demo_operator_sub [simp]: "cm_sub (au_claims (demo_operator u name)) = u"
  by (simp add: demo_operator_def)

lemma demo_manager_grants:
  "granted_in (an_sql demo_admin_env) (rbac_of (lo_db demo_platform)) ''mgr'' ''team_members:write'' (covers_team ''t'')"
  "granted_in (an_sql demo_admin_env) (rbac_of (lo_db demo_joined)) ''mgr'' ''users:update'' (covers_user (rbac_of (lo_db demo_joined)) ''root'')"
  by code_simp+

lemma demo_join_stages:
  "list_ex (\<lambda>r. us_id r = ''root'' \<and> active_row r) (ad_users (lo_db demo_platform))"
  "add_member_capped (an_kind demo_admin_env) (\<lambda>_. None) ''root'' ''t'' MAX_TEAMS_PER_USER (lo_db demo_platform) = (lo_db demo_joined, Inr 1)"
  "invalidate_user_perms (an_redis demo_admin_env) ''root'' (lo_redis demo_platform) = lo_redis demo_platform"
  by code_simp+

lemma demo_join:
  "add_member demo_admin_env (\<lambda>_. None) (demo_operator ''mgr'' ''team_manager'') ''t'' ''root'' demo_platform = (demo_joined, Inr ())"
  using demo_join_stages(1)
  by (simp add: add_member_def demo_permissions assert_scope_for_team_def demo_manager_grants answer_query_def query_error_def in_db_def
      demo_join_stages(2,3) with_redis_def log_event_def)
    (simp add: demo_joined_def demo_platform_def)

definition demo_taken :: "ttl_mem login_state" where
  "demo_taken = fst (reset_user_password demo_admin_env (\<lambda>_. None) 5 ''pw'' (demo_operator ''mgr'' ''team_manager'') ''root'' demo_joined)"

lemma demo_reset:
  "snd (reset_user_password demo_admin_env (\<lambda>_. None) 5 ''pw'' (demo_operator ''mgr'' ''team_manager'') ''root'' demo_joined) = Inr ''pw''"
  "lo_db demo_taken = fst (update_password_hash (an_kind demo_admin_env) (\<lambda>_. None) 5000 ''root'' ''pw'' True (lo_db demo_joined))"
proof -
  have "user_exists (an_kind demo_admin_env) (\<lambda>_. None) ''root'' (lo_db demo_joined) = Inr True"
    "le_hash_password (an_login demo_admin_env) ''pw'' = Inr ''pw''" by code_simp+
  then show "snd (reset_user_password demo_admin_env (\<lambda>_. None) 5 ''pw'' (demo_operator ''mgr'' ''team_manager'') ''root'' demo_joined) = Inr ''pw''"
    "lo_db demo_taken = fst (update_password_hash (an_kind demo_admin_env) (\<lambda>_. None) 5000 ''root'' ''pw'' True (lo_db demo_joined))"
    by (simp_all add: demo_taken_def reset_user_password_def demo_permissions assert_scope_for_user_def demo_manager_grants
        update_password_hash_def run_stmt_def query_error_def in_db_def)
qed


subsection \<open>Where the guard is missing\<close>

text \<open>An installation whose only super administrator holds the role through the team.\<close>

definition demo_by_team :: "ttl_mem login_state" where
  "demo_by_team = demo_platform\<lparr>lo_db := with_rbac (\<lambda>rb. rb\<lparr>role_assignments := [demo_grant ''mgr'' ''m'' (Some ''t'')],
     team_role_assignments := [(''t'', ''s'')]\<rparr>) (lo_db demo_platform)\<rparr>"

text \<open>
  Two requests end the last super administrator unasked: the deletion of the own account, and the removal of a member from a
  team that carries the role, which takes the seeded role of a manager of that team only. Neither takes the lock nor counts
  what is left.
\<close>

theorem last_super_admin_is_lost:
  "super_admin_ids (lo_db demo_platform) = [''root''] \<and>
   super_admin_ids (lo_db (fst (delete_account (an_login demo_admin_env) (\<lambda>_. None) 5 (0, 0) (False, False)
     (demo_operator ''root'' ''super_admin'') demo_platform))) = [] \<and>
   super_admin_ids (lo_db demo_by_team) = [''adm''] \<and>
   super_admin_ids (lo_db (fst (remove_member demo_admin_env (\<lambda>_. None) (demo_operator ''mgr'' ''team_manager'') ''t'' ''adm'' demo_by_team))) = []"
proof -
  have own: "lo_db (fst (delete_account (an_login demo_admin_env) (\<lambda>_. None) 5 (0, 0) (False, False) (demo_operator ''root'' ''super_admin'') demo_platform))
      = soft_delete_account 5000 ''root'' (lo_db demo_platform)"
    by (simp add: delete_account_def query_error_def Let_def)
  have "granted_in (an_sql demo_admin_env) (rbac_of (lo_db demo_by_team)) ''mgr'' ''team_members:write'' (covers_team ''t'')" by code_simp
  then have removed: "lo_db (fst (remove_member demo_admin_env (\<lambda>_. None) (demo_operator ''mgr'' ''team_manager'') ''t'' ''adm'' demo_by_team))
      = fst (remove_member_row (an_kind demo_admin_env) (\<lambda>_. None) ''t'' ''adm'' (lo_db demo_by_team))"
    by (simp add: remove_member_def demo_permissions assert_scope_for_team_def remove_member_row_def query_error_def in_db_def)
  have "super_admin_ids (lo_db demo_platform) = [''root'']" "super_admin_ids (soft_delete_account 5000 ''root'' (lo_db demo_platform)) = []"
    "super_admin_ids (lo_db demo_by_team) = [''adm'']"
    "super_admin_ids (fst (remove_member_row (an_kind demo_admin_env) (\<lambda>_. None) ''t'' ''adm'' (lo_db demo_by_team))) = []"
    by code_simp+
  then show ?thesis unfolding own removed by simp
qed

end
