(* ===== verification/Spec2Isabelle.thy ===== *)
theory Spec2Isabelle
  imports Effective_Props Router_Props Lifecycle_Props Tables_Props Routing_Props Mcp_Proxy_Props Key_Lifecycle_Props Admin_Props
begin

text \<open>
  ThinkWatch: a gateway between the clients of an organisation and AI model providers and MCP servers, with
  limits, budgets, roles and an audit log. This library models the core of the Rust crates under
  \<^verbatim>\<open>src/crates/\<close> and proves what makes them correct.

  \<^bold>\<open>The parts and how they meet.\<close> A request arrives with an API key. The roles of its owner
  (\<^verbatim>\<open>auth/src/rbac.rs\<close>) and the side tables (\<^verbatim>\<open>common/src/limits/mod.rs\<close>) give the constraints it runs under; these
  become counters of the sliding-window limiter (\<^verbatim>\<open>limits/sliding.rs\<close>) and of the calendar budgets
  (\<^verbatim>\<open>limits/budget.rs\<close>). The stages of \<^verbatim>\<open>common/src/lifecycle/\<close> check budget, access and limits in that order and
  run the work after the call. On the AI side (\<^verbatim>\<open>gateway/src\<close>) the router finds the routes of a model, the
  selection picks one by weight, health, affinity and caps, and a failover loop retries; on the MCP side
  (\<^verbatim>\<open>mcp-gateway/src\<close>) the proxy finds the server of a namespaced tool, asks the cache and the breaker, resolves
  the caller's credential, calls the server and streams or replays the answer.

  \<^bold>\<open>The theories.\<close>
  \<^item> \<open>TW_Prelude\<close>: byte strings and JSON values of Rust's library, assoc-list entries, list and number lemmas, the
    collection \<open>enum_defs\<close>.
  \<^item> \<open>Redis_Store\<close>, \<open>Redis_Keys\<close>, \<open>Redis_Scan\<close>: Redis as a record of commands with the locales \<open>redis_laws\<close>, \<open>kv_laws\<close>,
    \<open>server_laws\<close>, \<open>scan_laws\<close> and an in-memory server that satisfies them; \<open>Redis_Scan\<close> also models
    \<^verbatim>\<open>common/src/redis_keys.rs\<close> (\<open>delete_matching\<close>) and \<open>cached_body\<close>. \<open>Breaker_Api\<close>: the state machine of \<^verbatim>\<open>tw-breaker\<close> as a
    parameter.
  \<^item> \<open>Limits_Types\<close>, \<open>Limits_Policy\<close>, \<open>Limits_Tables\<close> (\<^verbatim>\<open>limits/mod.rs\<close>) with \<open>Policy_Props\<close>, \<open>Tables_Props\<close>, \<open>Request_Props\<close>:
    enumerations against their text (locale \<open>enum_text\<close>), validation, extraction from policy documents, merge and
    overrides, the two tables (locale \<open>keyed_table\<close>), the limits of one request.
  \<^item> \<open>Sliding\<close> (\<^verbatim>\<open>limits/sliding.rs\<close>), \<open>Sliding_Window\<close>, \<open>Sliding_Props\<close>: the Lua scripts; a counter refines a function from
    bucket ids to counts; admission is all or nothing, the retry advice is exact, a window never holds more
    requests than its limit over any run of steps.
  \<^item> \<open>Budget\<close> (\<^verbatim>\<open>limits/budget.rs\<close>, \<^verbatim>\<open>usage.rs\<close>), \<open>Budget_Props\<close>: debits, reads, alerts that fire once, period ends.
  \<^item> \<open>Rbac\<close> (\<^verbatim>\<open>auth/src/rbac.rs\<close>), \<open>Rbac_Props\<close>, \<open>Effective_Props\<close>: policy evaluation, globs, effective access and limits.
  \<^item> \<open>Lifecycle\<close> (\<^verbatim>\<open>common/src/lifecycle/\<close> with the AI gateway's pre- and post-flight), \<open>Lifecycle_Props\<close>: a refused request
    is charged nothing, a passed one is within its limits, what an outage does.
  \<^item> \<open>Gateway_Error\<close>, \<open>Route_Caps\<close>, \<open>Router\<close>, \<open>Router_Props\<close>, \<open>Retry\<close>, \<open>Sealed\<close>, \<open>Route_Health\<close>, \<open>Health_Props\<close>, \<open>Routing\<close>,
    \<open>Routing_Props\<close>: the files of the same names under \<^verbatim>\<open>gateway/src\<close> (\<open>Route_Health\<close> is \<^verbatim>\<open>health.rs\<close>, \<open>Routing\<close> is
    \<^verbatim>\<open>proxy/routing.rs\<close> with the weights of \<^verbatim>\<open>strategy.rs\<close>). A pick is eligible and exists when something is, the
    failover ends and asks a provider at most once a round, waits stay in their bounds, concurrent updates of
    a breaker form one chain, sealed content goes back to the provider that holds it.
  \<^item> \<open>Mcp_Registry\<close>, \<open>Mcp_Tools_Props\<close>, \<open>Mcp_Breaker\<close>, \<open>Mcp_Cache\<close>, \<open>Mcp_Session\<close>, \<open>Mcp_Token\<close>, \<open>Mcp_Stream\<close>, \<open>Mcp_Pool\<close>,
    \<open>Mcp_Proxy\<close>, \<open>Mcp_Proxy_Props\<close>: the files of \<^verbatim>\<open>mcp-gateway/src\<close>. A request goes upstream only through every gate,
    an answer is accounted once, a cached answer belongs to the lane it was stored in and an invalidation
    leaves none of it, a caller is given its own credential only, a stream does not depend on how the network
    cuts it, ids an upstream chose are well formed wherever they are kept.
  \<^item> \<open>App_Error\<close> (\<^verbatim>\<open>common/src/errors.rs\<close>), \<open>Redis_Clock\<close> (Redis with deadlines, locale \<open>ttl_laws\<close>, and
    \<^verbatim>\<open>common/src/fixed_window.rs\<close>), \<open>Key_Auth\<close> (\<^verbatim>\<open>server/src/middleware/api_key_auth.rs\<close>) with \<open>Key_Auth_Props\<close>,
    \<open>Request_Signing\<close> (\<^verbatim>\<open>verify_signature.rs\<close>, \<open>register_key\<close> of \<^verbatim>\<open>handlers/auth.rs\<close>) with \<open>Signing_Props\<close>, \<open>Console_Auth\<close>
    (\<^verbatim>\<open>auth_guard.rs\<close>, \<^verbatim>\<open>services/session_service.rs\<close>, the claims and the blacklist of \<^verbatim>\<open>auth/src/jwt.rs\<close>) with \<open>Console_Props\<close>: a key
    that passes is live and its lists are those of key and roles together (locale \<open>entry_order\<close>), a signed request is
    served once, a session that was ended stays out, a manager does not lift their own limits, a forwarded address
    needs proof; and two settings under which the signing scheme does not keep its promise.
  \<^item> \<open>Key_Repository\<close> (\<^verbatim>\<open>services/api_key_repository.rs\<close>, the sweeps of \<^verbatim>\<open>tasks/api_key_lifecycle.rs\<close> and the purges of
    \<^verbatim>\<open>tasks/data_retention.rs\<close>), \<open>Key_Handlers\<close> (\<^verbatim>\<open>handlers/api_keys.rs\<close>), \<open>Key_Lifecycle_Props\<close>: the table of keys as a list
    of rows, each statement an update of it, and the relation \<open>key_run\<close> of everything that changes it. A lineage has one
    current key, a rotation hands over and the sweep ends its grace, a key that was revoked stays out, a key changes only
    by its owner or an administrator; and that a rotated key outlives its grace until the sweep comes.
  \<^item> \<open>Validation\<close> (\<^verbatim>\<open>common/src/validation.rs\<close>): passwords, mail addresses, custom headers, and the addresses an outgoing URL may
    reach, against the list of reserved blocks written as network prefixes.
  \<^item> \<open>Login_Parts\<close> (\<^verbatim>\<open>auth/src/pow.rs\<close>, \<^verbatim>\<open>totp.rs\<close>, \<^verbatim>\<open>password.rs\<close>; \<^verbatim>\<open>totp_service.rs\<close>, \<^verbatim>\<open>auth_lockout.rs\<close>, \<^verbatim>\<open>refresh_blacklist.rs\<close>,
    \<^verbatim>\<open>auth_repository.rs\<close> of \<^verbatim>\<open>server/src/services\<close>) and \<open>Login\<close> (\<^verbatim>\<open>handlers/auth.rs\<close>): challenges, login with its factors and locks,
    registration, refresh, logout, the account and its second factor. \<open>Login_Frames\<close> says which keys an operation leaves
    alone (locale \<open>login_laws\<close>), \<open>Login_Runs\<close> has the relation \<open>auth_run\<close> of everything that happens between two requests.
    \<open>Login_Props\<close>, \<open>Account_Props\<close>: a session was opened by every factor, a challenge, a code and a refresh token serve once,
    a lock holds, a change of password ends the other sessions and not its own, the rows of the users keep their form;
    and the seconds in which a spent refresh token serves again.
  \<^item> \<open>User_Admin\<close> (\<^verbatim>\<open>handlers/admin/users.rs\<close>, \<^verbatim>\<open>services/rbac_service.rs\<close>), \<open>Role_Admin\<close> (\<^verbatim>\<open>handlers/roles.rs\<close>, \<^verbatim>\<open>role_repository.rs\<close>) and
    \<open>Team_Admin\<close> (\<^verbatim>\<open>handlers/teams.rs\<close>, \<^verbatim>\<open>team_repository.rs\<close>): the administration of users, roles and teams, with transactions
    as functions that are undone when they fail. \<open>Admin_Props\<close>: the handlers of users and roles keep a super administrator
    (runs of \<open>admin_step\<close>), in the handlers of users only one makes another, and what the handlers of teams let through.

  \<^bold>\<open>How the code is written here.\<close> A struct is a \<open>record\<close>, an enum a \<open>datatype\<close>, a fallible operation returns a sum or an
  option (a panic is \<open>None\<close>), state is passed explicitly, several replicas over one Redis are an \<open>inductive\<close>
  relation of steps. Strings are lists of bytes. Integers are \<open>int\<close> or \<open>nat\<close> with saturation and wrap-around
  written out where the code has them; \<open>f64\<close> is read as a real number, so rounding is not part of the claims. The
  clock, random draws and jitter are arguments. An \<open>async\<close> operation is one step.

  \<^bold>\<open>Parameters.\<close> Redis, chrono's calendar, random bytes and uuids, \<^verbatim>\<open>tw-breaker\<close>, the parsers of uuid and \<open>f64\<close>, what the dialect crate says of a
  request, serde, the hashes of passwords and of bytes, the elliptic curve, the verification and signing of tokens, the check of a
  one-time code, the parser of URLs and addresses, the resolver, SQL's \<open>LIKE\<close>, the HTTP client, encryption and the budgets of memory are arguments of the
  definitions that use them. What a theorem needs of them is a locale or a named hypothesis, and a witness
  shows it can hold.

  \<^bold>\<open>Bounds.\<close> The failover loop takes fuel; \<open>failover_terminates\<close> gives an amount that is enough. The walks over a string
  (trimming, replacing, templates) take the length as fuel, and each step consumes a byte. \<open>drain_events\<close> ends because
  an event found is taken off the buffer.

  \<^bold>\<open>Not modelled.\<close> Protocol translation and HTTP streaming of the AI gateway (\<^verbatim>\<open>proxy/generate.rs\<close>, \<^verbatim>\<open>transport.rs\<close>): the
  dialects are a dependency outside the repository. Content guards (regular expressions of a crate), token
  weights in decimals, the cryptographic crates under the authentication primitives and single sign-on, the other handlers of the management
  server (providers, models, MCP servers, analytics, settings), the lists of the console, the audit writers: mostly I/O. Of the modelled files: background discovery of tools, the bodies of
  audit rows, the table of refresh mutexes, metrics and log lines.
\<close>

end
